(* ===== verification/Prelude.thy ===== *)
theory Prelude
  imports
    Main
    "HOL-Library.AList"
    "HOL-Library.Char_ord"
    "HOL-Library.List_Lexorder"
    "HOL-Library.Product_Lexorder"
begin

text \<open>
  Shared vocabulary of the development: Python exceptions as values of a sum type with the
  sequencing operators the components use, Python strings and the handful of \<open>str\<close> methods the
  code calls, and the list idioms that recur in the sources (append-if-absent, group by key,
  sorted set).

  Strings are lists of 8-bit characters, read as the code points 0 to 255 (Latin-1): the order of
  \<open>List_Lexorder\<close> over \<open>Char_ord\<close> is Python's comparison by code point, and \<open>py_isspace\<close> and
  \<open>lower\<close> are exact on that range.
\<close>

section \<open>Exceptions as values\<close>

datatype err =
    ValueErr string
  | KeyErr string
  | AttributeErr string
  | IndexErr string
  | TypeErr string
  | AssertionErr
  | OperationalErr string
  | GraphIntegrityErr string
  | GraphStoreErr string
  | GraphQueryLimitErr string
  | GraphNotFoundErr string
  | GraphScopeErr string

type_synonym 'a result = "err + 'a"

definition ebind :: "'e + 'a \<Rightarrow> ('a \<Rightarrow> 'e + 'b) \<Rightarrow> 'e + 'b" where
  "ebind m k = (case m of Inl e \<Rightarrow> Inl e | Inr x \<Rightarrow> k x)"

definition check :: "bool \<Rightarrow> 'e \<Rightarrow> 'e + unit" where
  "check b e = (if b then Inr () else Inl e)"

primrec mapE :: "('a \<Rightarrow> 'e + 'b) \<Rightarrow> 'a list \<Rightarrow> 'e + 'b list" where
  "mapE f [] = Inr []"
| "mapE f (x # xs) = ebind (f x) (\<lambda>y. ebind (mapE f xs) (\<lambda>ys. Inr (y # ys)))"

primrec foldE :: "('a \<Rightarrow> 's \<Rightarrow> 'e + 's) \<Rightarrow> 'a list \<Rightarrow> 's \<Rightarrow> 'e + 's" where
  "foldE f [] s = Inr s"
| "foldE f (x # xs) s = ebind (f x s) (foldE f xs)"

definition of_option :: "'e \<Rightarrow> 'a option \<Rightarrow> 'e + 'a" where
  "of_option e x = (case x of None \<Rightarrow> Inl e | Some y \<Rightarrow> Inr y)"

definition is_ok :: "'e + 'a \<Rightarrow> bool" where
  "is_ok m \<longleftrightarrow> (case m of Inl _ \<Rightarrow> False | Inr _ \<Rightarrow> True)"

lemma ebind_simps [simp]: "ebind (Inl e) k = Inl e" "ebind (Inr x) k = k x"
  by (simp_all add: ebind_def)

lemma ebind_Inr_iff: "ebind m k = Inr y \<longleftrightarrow> (\<exists>x. m = Inr x \<and> k x = Inr y)"
  by (cases m) auto

lemma ebind_Inl_iff: "ebind m k = Inl e \<longleftrightarrow> m = Inl e \<or> (\<exists>x. m = Inr x \<and> k x = Inl e)"
  by (cases m) auto

lemma check_Inr_iff [simp]: "check b e = Inr u \<longleftrightarrow> b"
  by (simp add: check_def)

lemma check_Inl_iff [simp]: "check b e = Inl e' \<longleftrightarrow> \<not> b \<and> e' = e"
  by (auto simp: check_def)

lemma check_simps [simp]: "check True e = Inr ()" "check False e = Inl e"
  by (simp_all add: check_def)

lemma ebind_check_Inr [simp]: "ebind (check b e) k = Inr y \<longleftrightarrow> b \<and> k () = Inr y"
  by (cases b) simp_all

lemma of_option_Inr_iff [simp]: "of_option e x = Inr y \<longleftrightarrow> x = Some y"
  by (cases x) (simp_all add: of_option_def)

lemma of_option_Inl_iff [simp]: "of_option e x = Inl e' \<longleftrightarrow> x = None \<and> e' = e"
  by (cases x) (auto simp: of_option_def)

lemma of_option_simps [simp]: "of_option e None = Inl e" "of_option e (Some y) = Inr y"
  by (simp_all add: of_option_def)

lemma is_ok_simps [simp]: "is_ok (Inr x)" "\<not> is_ok (Inl e)"
  by (simp_all add: is_ok_def)

lemma is_ok_iff: "is_ok m \<longleftrightarrow> (\<exists>x. m = Inr x)"
  by (cases m) auto

lemma ebind_cong [fundef_cong]:
  "m = m' \<Longrightarrow> (\<And>x. m' = Inr x \<Longrightarrow> k x = k' x) \<Longrightarrow> ebind m k = ebind m' k'"
  by (cases m') auto

lemma mapE_cong [fundef_cong]:
  "xs = ys \<Longrightarrow> (\<And>x. x \<in> set ys \<Longrightarrow> f x = g x) \<Longrightarrow> mapE f xs = mapE g ys"
  by (induction ys arbitrary: xs) auto

lemma mapE_Inr_iff: "mapE f xs = Inr ys \<longleftrightarrow> list_all2 (\<lambda>x y. f x = Inr y) xs ys"
proof (induction xs arbitrary: ys)
  case Nil
  then show ?case by auto
next
  case (Cons x xs)
  then show ?case by (cases ys) (auto simp: ebind_Inr_iff)
qed

lemma mapE_length: "mapE f xs = Inr ys \<Longrightarrow> length ys = length xs"
  by (simp add: mapE_Inr_iff list_all2_lengthD)

lemma mapE_map: "(\<And>x. x \<in> set xs \<Longrightarrow> f x = Inr (g x)) \<Longrightarrow> mapE f xs = Inr (map g xs)"
  by (induction xs) auto

lemma mapE_set:
  assumes "mapE f xs = Inr ys" and "y \<in> set ys"
  shows "\<exists>x \<in> set xs. f x = Inr y"
  using assms unfolding mapE_Inr_iff list_all2_conv_all_nth
  by (metis in_set_conv_nth)

lemma mapE_set_source:
  assumes "mapE f xs = Inr ys" and "x \<in> set xs"
  shows "\<exists>y \<in> set ys. f x = Inr y"
proof -
  from assms have len: "length xs = length ys" and all: "\<forall>i<length xs. f (xs ! i) = Inr (ys ! i)"
    by (simp_all add: mapE_Inr_iff list_all2_conv_all_nth)
  from assms(2) obtain i where "i < length xs" "xs ! i = x" by (auto simp: in_set_conv_nth)
  with len all show ?thesis by (auto intro!: bexI [of _ "ys ! i"])
qed

lemma mapE_images:
  assumes "mapE f xs = Inr ys" and "\<And>x y. f x = Inr y \<Longrightarrow> g y = h x"
  shows "map g ys = map h xs"
  using assms(1) unfolding mapE_Inr_iff by (induction rule: list_all2_induct) (auto dest: assms(2))

lemma mapE_is_ok: "is_ok (mapE f xs) \<longleftrightarrow> (\<forall>x \<in> set xs. is_ok (f x))"
  by (induction xs) (auto simp: is_ok_iff ebind_Inr_iff)

lemma mapE_append: "mapE f (xs @ ys) = ebind (mapE f xs) (\<lambda>us. ebind (mapE f ys) (\<lambda>vs. Inr (us @ vs)))"
proof (induction xs)
  case Nil
  show ?case by (cases "mapE f ys") auto
next
  case (Cons x xs)
  then show ?case by (cases "f x"; cases "mapE f xs"; cases "mapE f ys") auto
qed

lemma foldE_append: "foldE f (xs @ ys) s = ebind (foldE f xs s) (foldE f ys)"
proof (induction xs arbitrary: s)
  case (Cons x xs)
  then show ?case by (cases "f x s") auto
qed simp

text \<open>An invariant of the loop body is an invariant of the loop.\<close>

lemma foldE_invariant:
  assumes "foldE f xs s = Inr t" and "I s"
    and "\<And>x s t. x \<in> set xs \<Longrightarrow> I s \<Longrightarrow> f x s = Inr t \<Longrightarrow> I t"
  shows "I t"
  using assms
proof (induction xs arbitrary: s)
  case (Cons x xs)
  from Cons.prems(1) obtain u where u: "f x s = Inr u" and rest: "foldE f xs u = Inr t"
    by (auto simp: ebind_Inr_iff)
  have "I u" using Cons.prems(2,3) u by auto
  from Cons.IH [OF rest this] Cons.prems(3) show ?case by auto
qed simp

section \<open>Stateful computations\<close>

text \<open>
  A method that reads and writes an object is a function from the state to its outcome and the
  new state; an exception keeps the writes made before it was raised.
\<close>

type_synonym ('s, 'a) stateful = "'s \<Rightarrow> 'a result \<times> 's"

definition sreturn :: "'a \<Rightarrow> ('s, 'a) stateful" where
  "sreturn x s = (Inr x, s)"

definition sraise :: "err \<Rightarrow> ('s, 'a) stateful" where
  "sraise e s = (Inl e, s)"

definition slift :: "'a result \<Rightarrow> ('s, 'a) stateful" where
  "slift r s = (r, s)"

definition sbind :: "('s, 'a) stateful \<Rightarrow> ('a \<Rightarrow> ('s, 'b) stateful) \<Rightarrow> ('s, 'b) stateful" where
  "sbind m k s = (case m s of (Inl e, s') \<Rightarrow> (Inl e, s') | (Inr x, s') \<Rightarrow> k x s')"

lemma stateful_simps [simp]:
  "sreturn x s = (Inr x, s)" "sraise e s = (Inl e, s)" "slift r s = (r, s)"
  by (simp_all add: sreturn_def sraise_def slift_def)

lemma sbind_simps [simp]:
  "m s = (Inl e, s') \<Longrightarrow> sbind m k s = (Inl e, s')"
  "m s = (Inr x, s') \<Longrightarrow> sbind m k s = k x s'"
  by (simp_all add: sbind_def)

lemma sbind_cases:
  assumes "sbind m k s = (r, t)"
  obtains (raised) e where "m s = (Inl e, t)" "r = Inl e"
  | (passed) x s' where "m s = (Inr x, s')" "k x s' = (r, t)"
  using assms by (cases "m s"; cases "fst (m s)") (auto simp: sbind_def)

section \<open>Strings\<close>

definition py_isspace :: "char \<Rightarrow> bool" where
  "py_isspace c \<longleftrightarrow>
     c \<in> {CHR 0x09, CHR 0x0A, CHR 0x0B, CHR 0x0C, CHR 0x0D,
          CHR 0x1C, CHR 0x1D, CHR 0x1E, CHR 0x1F, CHR 0x20, CHR 0x85, CHR 0xA0}"

definition strip :: "string \<Rightarrow> string" where
  "strip s = rev (dropWhile py_isspace (rev (dropWhile py_isspace s)))"

text \<open>\<open>not s.strip()\<close>, the emptiness test of the validators.\<close>

definition blank :: "string \<Rightarrow> bool" where
  "blank s \<longleftrightarrow> strip s = []"

definition startswith :: "string \<Rightarrow> string \<Rightarrow> bool" where
  "startswith s p \<longleftrightarrow> take (length p) s = p"

definition endswith :: "string \<Rightarrow> string \<Rightarrow> bool" where
  "endswith s p \<longleftrightarrow> length p \<le> length s \<and> drop (length s - length p) s = p"

definition removeprefix :: "string \<Rightarrow> string \<Rightarrow> string" where
  "removeprefix p s = (if startswith s p then drop (length p) s else s)"

definition replace_char :: "char \<Rightarrow> char \<Rightarrow> string \<Rightarrow> string" where
  "replace_char a b s = map (\<lambda>c. if c = a then b else c) s"

fun contains :: "string \<Rightarrow> string \<Rightarrow> bool" where
  "contains p [] \<longleftrightarrow> p = []"
| "contains p (c # s) \<longleftrightarrow> startswith (c # s) p \<or> contains p s"

fun split_on :: "char \<Rightarrow> string \<Rightarrow> string list" where
  "split_on c [] = [[]]"
| "split_on c (x # xs) =
     (if x = c then [] # split_on c xs
      else (case split_on c xs of [] \<Rightarrow> [[x]] | w # ws \<Rightarrow> (x # w) # ws))"

fun join_with :: "string \<Rightarrow> string list \<Rightarrow> string" where
  "join_with sep [] = []"
| "join_with sep [w] = w"
| "join_with sep (w # ws) = w @ sep @ join_with sep ws"

definition lower_char :: "char \<Rightarrow> char" where
  "lower_char c =
     (let n = (of_char c :: nat) in
      if (65 \<le> n \<and> n \<le> 90) \<or> (192 \<le> n \<and> n \<le> 222 \<and> n \<noteq> 215) then char_of (n + 32) else c)"

definition lower :: "string \<Rightarrow> string" where
  "lower s = map lower_char s"

fun digit_char :: "nat \<Rightarrow> char" where
  "digit_char n = char_of (48 + n mod 10)"

fun str_nat :: "nat \<Rightarrow> string" where
  "str_nat n = (if n < 10 then [digit_char n] else str_nat (n div 10) @ [digit_char n])"

declare str_nat.simps [simp del]

definition str_int :: "int \<Rightarrow> string" where
  "str_int i = (if i < 0 then ''-'' @ str_nat (nat (- i)) else str_nat (nat i))"

text \<open>The code quotes names in its messages with backticks.\<close>

definition quoted :: "string \<Rightarrow> string" where
  "quoted s = ''`'' @ s @ ''`''"

lemma dropWhile_eq_Nil_all: "dropWhile P xs = [] \<longleftrightarrow> (\<forall>x\<in>set xs. P x)"
  by simp

lemma blank_iff: "blank s \<longleftrightarrow> (\<forall>c\<in>set s. py_isspace c)"
proof
  assume "blank s"
  then have *: "\<forall>c\<in>set (dropWhile py_isspace s). py_isspace c"
    by (simp add: blank_def strip_def)
  then have "dropWhile py_isspace s = []"
    by (metis dropWhile_eq_Nil_conv hd_dropWhile hd_in_set)
  then show "\<forall>c\<in>set s. py_isspace c" by simp
next
  assume "\<forall>c\<in>set s. py_isspace c"
  then have nil: "dropWhile py_isspace s = []" by (simp add: dropWhile_eq_Nil_all)
  show "blank s" unfolding blank_def strip_def nil by simp
qed

lemma not_blank_Nil [simp]: "blank []"
  by (simp add: blank_iff)

lemma blank_append [simp]: "blank (s @ t) \<longleftrightarrow> blank s \<and> blank t"
  by (auto simp: blank_iff)

lemma blank_Cons [simp]: "blank (c # s) \<longleftrightarrow> py_isspace c \<and> blank s"
  by (auto simp: blank_iff)

lemma blank_strip [simp]: "blank (strip s) \<longleftrightarrow> blank s"
proof
  assume "blank (strip s)"
  show "blank s"
  proof (rule ccontr)
    assume "\<not> blank s"
    then have ne: "dropWhile py_isspace (rev (dropWhile py_isspace s)) \<noteq> []"
      by (simp add: blank_def strip_def)
    then have "\<not> py_isspace (hd (dropWhile py_isspace (rev (dropWhile py_isspace s))))"
      by (rule hd_dropWhile)
    moreover have "hd (dropWhile py_isspace (rev (dropWhile py_isspace s))) \<in> set (strip s)"
      using hd_in_set [OF ne] by (simp add: strip_def)
    ultimately show False using \<open>blank (strip s)\<close> by (auto simp: blank_iff)
  qed
next
  assume "blank s"
  then show "blank (strip s)" by (simp add: blank_def [of s])
qed

lemma py_isspace_printable [simp]:
  "\<not> py_isspace CHR ''`''" "\<not> py_isspace CHR ''/''" "\<not> py_isspace CHR ''.''" "\<not> py_isspace CHR '':''"
  by (simp_all add: py_isspace_def)

lemma not_blank_quoted [simp]: "\<not> blank (quoted s)"
  by (simp add: quoted_def)

lemma split_on_ne [simp]: "split_on c s \<noteq> []"
  by (induction s) (auto split: list.splits)

lemma split_on_clean: "w \<in> set (split_on c s) \<Longrightarrow> c \<notin> set w"
proof (induction s arbitrary: w)
  case (Cons x xs)
  then show ?case by (auto split: if_splits list.splits)
qed simp

lemma split_on_single: "c \<notin> set w \<Longrightarrow> split_on c w = [w]"
  by (induction w) auto

lemma split_on_append_sep: "c \<notin> set w \<Longrightarrow> split_on c (w @ c # s) = w # split_on c s"
  by (induction w) auto

lemma split_on_join:
  "ws \<noteq> [] \<Longrightarrow> (\<And>w. w \<in> set ws \<Longrightarrow> c \<notin> set w) \<Longrightarrow> split_on c (join_with [c] ws) = ws"
proof (induction "[c]" ws rule: join_with.induct)
  case (2 w)
  then show ?case by (simp add: split_on_single)
next
  case (3 w v vs)
  then show ?case by (simp add: split_on_append_sep)
qed simp

lemma join_split_on: "join_with [c] (split_on c s) = s"
proof (induction s)
  case (Cons x xs)
  then show ?case by (cases "split_on c xs"; cases "tl (split_on c xs)") auto
qed simp

lemma set_join_with: "set (join_with sep ws) \<subseteq> \<Union> (set ` set ws) \<union> set sep"
  by (induction sep ws rule: join_with.induct) auto

section \<open>Append-if-absent, grouping and sorted sets\<close>

text \<open>The loop \<open>for x in xs: if x not in merged: merged.append(x)\<close>.\<close>

primrec append_new :: "'a list \<Rightarrow> 'a list \<Rightarrow> 'a list" where
  "append_new merged [] = merged"
| "append_new merged (x # xs) = append_new (if x \<in> set merged then merged else merged @ [x]) xs"

text \<open>\<open>sorted(set(xs))\<close>.\<close>

definition sorted_set :: "'a::linorder list \<Rightarrow> 'a list" where
  "sorted_set xs = sort (remdups xs)"

text \<open>\<open>grouped.setdefault(key, []).append(value)\<close> over a list, in dictionary order.\<close>

fun setdefault_append :: "'k \<Rightarrow> 'v \<Rightarrow> ('k \<times> 'v list) list \<Rightarrow> ('k \<times> 'v list) list" where
  "setdefault_append k v [] = [(k, [v])]"
| "setdefault_append k v ((k', vs) # g) =
     (if k' = k then (k', vs @ [v]) # g else (k', vs) # setdefault_append k v g)"

definition group_by_key :: "('a \<Rightarrow> 'k) \<Rightarrow> 'a list \<Rightarrow> ('k \<times> 'a list) list" where
  "group_by_key key xs = fold (\<lambda>x g. setdefault_append (key x) x g) xs []"

lemma set_append_new [simp]: "set (append_new acc xs) = set acc \<union> set xs"
  by (induction xs arbitrary: acc) auto

lemma distinct_append_new: "distinct acc \<Longrightarrow> distinct (append_new acc xs)"
  by (induction xs arbitrary: acc) auto

lemma append_new_append [simp]: "append_new acc (xs @ ys) = append_new (append_new acc xs) ys"
  by (induction xs arbitrary: acc) auto

lemma append_new_absorb: "set xs \<subseteq> set acc \<Longrightarrow> append_new acc xs = acc"
  by (induction xs) auto

lemma append_new_prefix: "\<exists>ys. append_new acc xs = acc @ ys"
proof (induction xs arbitrary: acc)
  case (Cons x xs)
  show ?case
  proof (cases "x \<in> set acc")
    case True
    then show ?thesis using Cons.IH [of acc] by simp
  next
    case False
    then show ?thesis using Cons.IH [of "acc @ [x]"] by auto
  qed
qed simp

lemma append_new_distinct:
  "distinct xs \<Longrightarrow> set xs \<inter> set acc = {} \<Longrightarrow> append_new acc xs = acc @ xs"
  by (induction xs arbitrary: acc) auto

lemma append_new_Nil_iff [simp]: "append_new acc xs = [] \<longleftrightarrow> acc = [] \<and> xs = []"
  by (metis append_is_Nil_conv append_new.simps(1) append_new_prefix set_append_new set_empty sup_eq_bot_iff)

lemma set_sorted_set [simp]: "set (sorted_set xs) = set xs"
  by (simp add: sorted_set_def)

lemma distinct_sorted_set [simp]: "distinct (sorted_set xs)"
  by (simp add: sorted_set_def)

lemma sorted_sorted_set [simp]: "sorted (sorted_set xs)"
  by (simp add: sorted_set_def)

lemma sorted_set_Nil_iff [simp]: "sorted_set xs = [] \<longleftrightarrow> xs = []"
  by (metis set_empty set_sorted_set)

lemma sorted_set_cong: "set xs = set ys \<Longrightarrow> sorted_set xs = sorted_set ys"
  by (intro sorted_distinct_set_unique) simp_all

lemma map_of_setdefault_append:
  "map_of (setdefault_append k v g) =
     (map_of g)(k \<mapsto> (case map_of g k of None \<Rightarrow> [v] | Some vs \<Rightarrow> vs @ [v]))"
  by (induction k v g rule: setdefault_append.induct) (auto simp: fun_eq_iff)

lemma keys_setdefault_append:
  "map fst (setdefault_append k v g) = append_new (map fst g) [k]"
  by (induction k v g rule: setdefault_append.induct) auto

lemma map_of_group_fold:
  "map_of (fold (\<lambda>x g. setdefault_append (key x) x g) xs g) k =
     (case map_of g k of
        None \<Rightarrow> (if \<exists>x\<in>set xs. key x = k then Some (filter (\<lambda>x. key x = k) xs) else None)
      | Some vs \<Rightarrow> Some (vs @ filter (\<lambda>x. key x = k) xs))"
  by (induction xs arbitrary: g) (auto simp: map_of_setdefault_append split: option.splits)

lemma map_of_group_by_key:
  "map_of (group_by_key key xs) k =
     (if \<exists>x\<in>set xs. key x = k then Some (filter (\<lambda>x. key x = k) xs) else None)"
  by (simp add: group_by_key_def map_of_group_fold)

lemma keys_group_fold:
  "map fst (fold (\<lambda>x g. setdefault_append (key x) x g) xs g) = append_new (map fst g) (map key xs)"
  by (induction xs arbitrary: g) (simp_all add: keys_setdefault_append)

lemma keys_group_by_key: "map fst (group_by_key key xs) = append_new [] (map key xs)"
  by (simp add: group_by_key_def keys_group_fold)

lemma set_sort_key_ne [simp]: "sort_key f xs = [] \<longleftrightarrow> xs = []"
  by (metis set_empty set_sort)

lemma hd_sort_key_min: "xs \<noteq> [] \<Longrightarrow> x \<in> set xs \<Longrightarrow> f (hd (sort_key f xs)) \<le> f x"
proof -
  assume ne: "xs \<noteq> []" and x: "x \<in> set xs"
  obtain y ys where y: "sort_key f xs = y # ys" using ne by (cases "sort_key f xs") auto
  have "sorted (map f (y # ys))" by (metis sorted_sort_key y)
  moreover have "x \<in> set (y # ys)" using x by (metis set_sort y)
  ultimately show ?thesis by (auto simp: y)
qed

lemma hd_sort_key_in: "xs \<noteq> [] \<Longrightarrow> hd (sort_key f xs) \<in> set xs"
  by (metis hd_in_set set_sort set_sort_key_ne)

lemma set_update_subset: "set (AList.update k v xs) \<subseteq> insert (k, v) (set xs)"
  by (induction xs) auto

section \<open>Indexes that reject duplicates\<close>

text \<open>The loop \<open>if key in index: raise ...; index[key] = value\<close>, with the index in insertion order.\<close>

definition unique_index :: "('a \<Rightarrow> 'k) \<Rightarrow> ('a \<Rightarrow> 'v) \<Rightarrow> ('a \<Rightarrow> 'e) \<Rightarrow> 'a list \<Rightarrow> 'e + ('k \<times> 'v) list" where
  "unique_index key val err xs =
     foldE (\<lambda>x index. if key x \<in> fst ` set index then Inl (err x) else Inr (index @ [(key x, val x)])) xs []"

lemma unique_index_fold:
  "foldE (\<lambda>x index. if key x \<in> fst ` set index then Inl (err x) else Inr (index @ [(key x, val x)])) xs acc = Inr r \<longleftrightarrow>
     (\<forall>x\<in>set xs. key x \<notin> fst ` set acc) \<and> distinct (map key xs) \<and> r = acc @ map (\<lambda>x. (key x, val x)) xs"
proof (induction xs arbitrary: acc)
  case (Cons x xs)
  then show ?case by (auto simp: image_iff)
qed auto

lemma unique_index_Inr_iff:
  "unique_index key val err xs = Inr r \<longleftrightarrow> distinct (map key xs) \<and> r = map (\<lambda>x. (key x, val x)) xs"
  by (simp add: unique_index_def unique_index_fold)

lemma unique_index_map_of:
  assumes "unique_index key val err xs = Inr r"
  shows "map_of r k = Some v \<longleftrightarrow> (\<exists>x\<in>set xs. key x = k \<and> val x = v)"
proof -
  have "distinct (map fst r)" and r: "r = map (\<lambda>x. (key x, val x)) xs"
    using assms by (auto simp: unique_index_Inr_iff o_def)
  then have "map_of r k = Some v \<longleftrightarrow> (k, v) \<in> set r" by (simp only: map_of_eq_Some_iff)
  then show ?thesis by (auto simp: r)
qed

lemma unique_index_map_of_None:
  "unique_index key val err xs = Inr r \<Longrightarrow> map_of r k = None \<longleftrightarrow> k \<notin> key ` set xs"
  by (auto simp: unique_index_Inr_iff map_of_eq_None_iff image_iff)

end
