(* ===== verification/Paths.thy ===== *)
theory Paths
  imports Prelude
begin

text \<open>
  Repository-relative paths and node identifiers (\<open>core/models/ids.py\<close>), with the part of
  \<open>pathlib.PurePosixPath\<close> the code uses: \<open>str(PurePosixPath(s))\<close> drops empty and \<open>.\<close> components,
  collapses repeated slashes, keeps \<open>..\<close> components, and renders the empty path as \<open>.\<close>.
\<close>

type_synonym node_id = string

definition path_root :: "string \<Rightarrow> string" where
  "path_root s =
     (let n = length (takeWhile (\<lambda>c. c = CHR ''/'') s) in
      if n = 0 then [] else if n = 2 then ''//'' else ''/'')"

definition path_parts :: "string \<Rightarrow> string list" where
  "path_parts s = filter (\<lambda>w. w \<noteq> [] \<and> w \<noteq> ''.'') (split_on CHR ''/'' s)"

definition pure_posix_str :: "string \<Rightarrow> string" where
  "pure_posix_str s =
     (let r = path_root s; ws = path_parts s in
      if r = [] \<and> ws = [] then ''.'' else r @ join_with ''/'' ws)"

definition normalize_repository_relative_path :: "string \<Rightarrow> string result" where
  "normalize_repository_relative_path path =
     (let normalized = strip (replace_char (CHR 0x5C) (CHR ''/'') path);
          normalized = removeprefix ''./'' normalized;
          normalized = pure_posix_str normalized
      in if startswith normalized ''/'' \<or> normalized = ''..'' \<or> startswith normalized ''../''
         then Inl (ValueErr ''path must be repository-root relative'')
         else Inr normalized)"

definition make_file_id :: "string \<Rightarrow> node_id result" where
  "make_file_id repository_rel_path =
     ebind (normalize_repository_relative_path repository_rel_path) (\<lambda>rel. Inr (''file:'' @ rel))"

definition make_entity_id ::
  "string \<Rightarrow> string \<Rightarrow> string \<Rightarrow> int option \<Rightarrow> int option \<Rightarrow> node_id result" where
  "make_entity_id repository_rel_path entity_kind entity_name line_start line_end =
     ebind (normalize_repository_relative_path repository_rel_path) (\<lambda>rel.
       let base = ''entity:'' @ rel @ '':'' @ entity_kind @ '':'' @ entity_name in
       case (line_start, line_end) of
         (Some a, Some b) \<Rightarrow> Inr (base @ '':'' @ str_int a @ ''-'' @ str_int b)
       | _ \<Rightarrow> Inr base)"

text \<open>
  Where a relative path leads from the root: \<open>climbs d ws\<close> holds if following the components from
  depth \<open>d\<close> below the root steps above the root at some point.
\<close>

fun climbs :: "nat \<Rightarrow> string list \<Rightarrow> bool" where
  "climbs d [] = False"
| "climbs d (w # ws) =
     (if w = ''..'' then (case d of 0 \<Rightarrow> True | Suc d' \<Rightarrow> climbs d' ws) else climbs (Suc d) ws)"

subsection \<open>Canonical paths\<close>

definition canonical_parts :: "string list \<Rightarrow> bool" where
  "canonical_parts ws \<longleftrightarrow>
     ws \<noteq> [] \<and> hd ws \<noteq> ''..'' \<and> (\<forall>w\<in>set ws. w \<noteq> [] \<and> w \<noteq> ''.'' \<and> CHR ''/'' \<notin> set w \<and> CHR 0x5C \<notin> set w)"

definition canonical_path :: "string \<Rightarrow> bool" where
  "canonical_path q \<longleftrightarrow> q = ''.'' \<or> (canonical_parts (split_on CHR ''/'' q))"

lemma path_parts_wf: "w \<in> set (path_parts s) \<Longrightarrow> w \<noteq> [] \<and> w \<noteq> ''.'' \<and> CHR ''/'' \<notin> set w"
  by (auto simp: path_parts_def dest: split_on_clean)

lemma split_on_chars: "w \<in> set (split_on c s) \<Longrightarrow> x \<in> set w \<Longrightarrow> x \<in> set s"
proof (induction s arbitrary: w)
  case (Cons a s)
  then show ?case
    by (cases "split_on c s") (fastforce split: if_splits)+
qed simp

lemma path_parts_chars: "w \<in> set (path_parts s) \<Longrightarrow> set w \<subseteq> set s"
  by (auto simp: path_parts_def dest: split_on_chars)

lemma no_backslash_prepared:
  "CHR 0x5C \<notin> set (removeprefix ''./'' (strip (replace_char (CHR 0x5C) (CHR ''/'') p)))"
proof -
  have "set (strip s) \<subseteq> set s" for s
    unfolding strip_def by (metis set_dropWhileD set_rev subsetI)
  moreover have "CHR 0x5C \<notin> set (replace_char (CHR 0x5C) (CHR ''/'') p)"
    by (auto simp: replace_char_def)
  ultimately show ?thesis
    by (auto simp: removeprefix_def dest: in_set_dropD)
qed

lemma startswith_Nil [simp]: "startswith s []"
  by (simp add: startswith_def)

lemma startswith_Cons [simp]: "startswith (c # s) (d # p) \<longleftrightarrow> c = d \<and> startswith s p"
  by (auto simp: startswith_def)

lemma startswith_Nil_Cons [simp]: "\<not> startswith [] (d # p)"
  by (simp add: startswith_def)

lemma startswith_append [simp]: "startswith (p @ s) p"
  by (simp add: startswith_def)

lemma join_with_Cons: "ws \<noteq> [] \<Longrightarrow> join_with sep (w # ws) = w @ sep @ join_with sep ws"
  by (cases ws) auto

lemma path_root_rel: "\<not> startswith s ''/'' \<Longrightarrow> path_root s = []"
  by (cases s) (auto simp: path_root_def)

lemma join_starts:
  assumes "ws \<noteq> []" "hd ws \<noteq> []" "CHR ''/'' \<notin> set (hd ws)"
  shows "\<not> startswith (join_with ''/'' ws) ''/''"
proof -
  obtain w us where ws: "ws = w # us" using assms(1) by (cases ws) auto
  obtain c cs where w: "w = c # cs" using assms(2) ws by (cases w) auto
  have "c \<noteq> CHR ''/''" using assms(3) ws w by auto
  then show ?thesis by (cases us) (simp_all add: ws w)
qed

lemma dotdot_head:
  assumes "ws \<noteq> []" "\<not> startswith (join_with ''/'' ws) ''../''" "join_with ''/'' ws \<noteq> ''..''"
  shows "hd ws \<noteq> ''..''"
proof
  assume "hd ws = ''..''"
  with assms(1) obtain us where "ws = ''..'' # us" by (cases ws) auto
  then show False using assms by (cases us) (auto)
qed

lemma normalize_shape:
  assumes "normalize_repository_relative_path p = Inr q"
  obtains (dot) "q = ''.''"
  | (parts) ws where "canonical_parts ws" "q = join_with ''/'' ws"
proof -
  define s where "s = removeprefix ''./'' (strip (replace_char (CHR 0x5C) (CHR ''/'') p))"
  have bs: "CHR 0x5C \<notin> set s" unfolding s_def by (rule no_backslash_prepared)
  from assms have q: "q = pure_posix_str s" and ok: "\<not> startswith q ''/''" "q \<noteq> ''..''" "\<not> startswith q ''../''"
    by (auto simp: normalize_repository_relative_path_def s_def Let_def split: if_splits)
  show thesis
  proof (cases "path_root s = [] \<and> path_parts s = []")
    case True
    then show thesis using dot q by (simp add: pure_posix_str_def)
  next
    case False
    then have q': "q = path_root s @ join_with ''/'' (path_parts s)"
      using q by (auto simp: pure_posix_str_def Let_def)
    have root: "path_root s = []"
      using ok(1) q' by (auto simp: path_root_def Let_def split: if_splits)
    with False have ne: "path_parts s \<noteq> []" by simp
    have "hd (path_parts s) \<noteq> ''..''"
      using ne ok q' root by (intro dotdot_head) simp_all
    then have "canonical_parts (path_parts s)"
      using ne path_parts_wf path_parts_chars bs by (fastforce simp: canonical_parts_def)
    then show thesis using parts q' root by simp
  qed
qed

lemma canonical_split:
  "canonical_parts ws \<Longrightarrow> split_on CHR ''/'' (join_with ''/'' ws) = ws"
  by (rule split_on_join) (auto simp: canonical_parts_def)

lemma normalize_canonical: "normalize_repository_relative_path p = Inr q \<Longrightarrow> canonical_path q"
  by (erule normalize_shape) (auto simp: canonical_path_def canonical_split)

lemma pure_posix_canonical:
  assumes "canonical_parts ws"
  shows "pure_posix_str (join_with ''/'' ws) = join_with ''/'' ws"
proof -
  have "path_parts (join_with ''/'' ws) = ws"
    using assms by (auto simp: path_parts_def canonical_split canonical_parts_def intro!: filter_True)
  moreover have "path_root (join_with ''/'' ws) = []"
    using assms by (intro path_root_rel join_starts) (auto simp: canonical_parts_def)
  ultimately show ?thesis
    using assms by (simp add: pure_posix_str_def canonical_parts_def)
qed

lemma replace_char_id: "a \<notin> set s \<Longrightarrow> replace_char a b s = s"
  unfolding replace_char_def by (rule map_idI) auto

lemma join_chars: "CHR 0x5C \<notin> \<Union> (set ` set ws) \<Longrightarrow> CHR 0x5C \<notin> set (join_with ''/'' ws)"
  using set_join_with [of "''/''" ws] by auto

lemma dot_slash_head:
  assumes "canonical_parts ws"
  shows "\<not> startswith (join_with ''/'' ws) ''./''"
proof
  assume a: "startswith (join_with ''/'' ws) ''./''"
  obtain w us where ws: "ws = w # us" using assms by (cases ws) (auto simp: canonical_parts_def)
  have w: "w \<noteq> []" "w \<noteq> ''.''" "CHR ''/'' \<notin> set w" using assms ws by (auto simp: canonical_parts_def)
  then obtain c d cs where "w = [c] \<or> w = c # d # cs" by (metis neq_Nil_conv)
  then show False using a w ws by (cases us) auto
qed

lemma canonical_not_dotdot:
  assumes "canonical_parts ws"
  shows "join_with ''/'' ws \<noteq> ''..''" "\<not> startswith (join_with ''/'' ws) ''../''"
proof -
  obtain w us where ws: "ws = w # us" using assms by (cases ws) (auto simp: canonical_parts_def)
  have w: "w \<noteq> []" "w \<noteq> ''.''" "w \<noteq> ''..''" "CHR ''/'' \<notin> set w"
    using assms ws by (auto simp: canonical_parts_def)
  show "join_with ''/'' ws \<noteq> ''..''"
  proof
    assume "join_with ''/'' ws = ''..''"
    then have "split_on CHR ''/'' (join_with ''/'' ws) = [''..'']" by simp
    with canonical_split [OF assms] ws w show False by simp
  qed
  show "\<not> startswith (join_with ''/'' ws) ''../''"
  proof
    assume "startswith (join_with ''/'' ws) ''../''"
    then obtain r where "join_with ''/'' ws = ''..'' @ CHR ''/'' # r"
      unfolding startswith_def by (metis append_Cons append_Nil append_take_drop_id)
    then have "split_on CHR ''/'' (join_with ''/'' ws) = ''..'' # split_on CHR ''/'' r"
      by (simp only: split_on_append_sep) simp
    with canonical_split [OF assms] ws w show False by simp
  qed
qed

lemma normalize_parts_fixpoint:
  assumes "canonical_parts ws" and "strip (join_with ''/'' ws) = join_with ''/'' ws"
  shows "normalize_repository_relative_path (join_with ''/'' ws) = Inr (join_with ''/'' ws)"
proof -
  let ?q = "join_with ''/'' ws"
  have "replace_char (CHR 0x5C) (CHR ''/'') ?q = ?q"
    using assms(1) by (intro replace_char_id join_chars) (auto simp: canonical_parts_def)
  moreover have "removeprefix ''./'' ?q = ?q"
    using dot_slash_head [OF assms(1)] by (simp add: removeprefix_def)
  moreover have "\<not> startswith ?q ''/''"
    using assms(1) by (intro join_starts) (auto simp: canonical_parts_def)
  ultimately show ?thesis
    using assms pure_posix_canonical [OF assms(1)] canonical_not_dotdot [OF assms(1)]
    by (simp add: normalize_repository_relative_path_def)
qed

lemma normalize_dot: "normalize_repository_relative_path ''.'' = Inr ''.''"
  by (simp add: normalize_repository_relative_path_def replace_char_def strip_def removeprefix_def
      pure_posix_str_def path_root_def path_parts_def)

text \<open>Normalising is idempotent on the paths that carry no outer white space.\<close>

lemma normalize_idem:
  assumes "normalize_repository_relative_path p = Inr q" and "strip q = q"
  shows "normalize_repository_relative_path q = Inr q"
  using assms(1)
proof (cases rule: normalize_shape)
  case dot
  then show ?thesis by (simp add: normalize_dot)
next
  case (parts ws)
  then show ?thesis using assms(2) by (simp add: normalize_parts_fixpoint)
qed

subsection \<open>Properties\<close>

text \<open>
  A path the normaliser accepts is canonical: it is \<open>.\<close>, or its components are non-empty,
  are neither \<open>.\<close> nor hold a slash or a backslash, and the first one is not \<open>..\<close>; in particular
  it is neither absolute nor starts by leaving the repository root.
\<close>

theorem normalize_accepts_canonical:
  assumes "normalize_repository_relative_path p = Inr q"
  shows "canonical_path q"
  using assms by (rule normalize_canonical)

theorem normalize_accepts_canonical_witness:
  "canonical_path ''src/pkg/a.py''"
proof (rule normalize_accepts_canonical)
  show "normalize_repository_relative_path ''./src//pkg/./a.py'' = Inr ''src/pkg/a.py''"
    by code_simp
qed

text \<open>
  Normalising is idempotent on every accepted path that has no outer white space: the result
  is a fixed point, so identifiers built from an already normalised path do not change.
\<close>

theorem normalize_idempotent:
  assumes "normalize_repository_relative_path p = Inr q" and "strip q = q"
  shows "normalize_repository_relative_path q = Inr q \<and> make_file_id q = make_file_id p"
  using assms normalize_idem [OF assms] by (simp add: make_file_id_def)

theorem normalize_idempotent_witness:
  "make_file_id ''src/a.py'' = make_file_id ''./src//a.py''"
proof -
  have "normalize_repository_relative_path ''./src//a.py'' = Inr ''src/a.py''" by code_simp
  moreover have "strip ''src/a.py'' = ''src/a.py''" by code_simp
  ultimately show ?thesis by (rule normalize_idempotent [THEN conjunct2])
qed

text \<open>
  The check for paths that leave the repository looks at the first component only: a path
  whose later \<open>..\<close> components climb above the root is accepted unchanged.
\<close>

theorem normalize_accepts_escaping_path:
  "normalize_repository_relative_path ''a/../../b'' = Inr ''a/../../b'' \<and>
   climbs 0 (split_on (CHR ''/'') ''a/../../b'')"
  by code_simp

end
