(* ===== verification/Provenance.thy ===== *)
theory Provenance
  imports Paths
begin

text \<open>
  Provenance (\<open>core/provenance.py\<close>, \<open>core/provenance_builders.py\<close>, \<open>core/provenance_summary.py\<close>,
  \<open>core/tests/provenance.py\<close>): every fact the system reports carries entries that say how it was
  obtained. An entry is built by \<open>mk_provenance_entry\<close>, which runs the field validators; a failed
  validator is the error of that validator (pydantic collects all of them into one
  \<open>ValidationError\<close>, which is a \<open>ValueError\<close>; the model reports the first).
\<close>

section \<open>Entries and their validators\<close>

datatype confidence_mode = AUTHORITATIVE | DERIVED | HEURISTIC

datatype source_kind =
    SK_MANIFEST | SK_DOCUMENT | SK_SYNTAX | SK_LSP | SK_TEST_TOOL | SK_QUALITY_TOOL
  | SK_OWNERSHIP | SK_DEPENDENCY_GRAPH | SK_HEURISTIC

fun confidence_mode_value :: "confidence_mode \<Rightarrow> string" where
  "confidence_mode_value AUTHORITATIVE = ''authoritative''"
| "confidence_mode_value DERIVED = ''derived''"
| "confidence_mode_value HEURISTIC = ''heuristic''"

fun source_kind_value :: "source_kind \<Rightarrow> string" where
  "source_kind_value SK_MANIFEST = ''manifest''"
| "source_kind_value SK_DOCUMENT = ''document''"
| "source_kind_value SK_SYNTAX = ''syntax''"
| "source_kind_value SK_LSP = ''lsp''"
| "source_kind_value SK_TEST_TOOL = ''test_tool''"
| "source_kind_value SK_QUALITY_TOOL = ''quality_tool''"
| "source_kind_value SK_OWNERSHIP = ''ownership''"
| "source_kind_value SK_DEPENDENCY_GRAPH = ''dependency_graph''"
| "source_kind_value SK_HEURISTIC = ''heuristic''"

record provenance_entry =
  pe_confidence_mode :: confidence_mode
  pe_source_kind :: source_kind
  pe_source_tool :: "string option"
  pe_evidence_summary :: string
  pe_evidence_paths :: "string list"

type_synonym provenance = "provenance_entry list"

definition validate_source_tool :: "string option \<Rightarrow> (string option) result" where
  "validate_source_tool v =
     (case v of
        Some t \<Rightarrow> if blank t then Inl (ValueErr ''source_tool must not be empty'') else Inr v
      | None \<Rightarrow> Inr v)"

definition validate_evidence_summary :: "string \<Rightarrow> string result" where
  "validate_evidence_summary v =
     (if blank v then Inl (ValueErr ''evidence_summary must not be empty'') else Inr (strip v))"

definition evidence_path_candidate :: "string \<Rightarrow> string result" where
  "evidence_path_candidate item =
     (let candidate = strip (replace_char (CHR 0x5C) (CHR ''/'') item) in
      if \<not> contains ''://'' candidate \<and> \<not> startswith candidate ''/''
      then normalize_repository_relative_path candidate
      else Inr candidate)"

definition validate_evidence_paths :: "string list \<Rightarrow> string list result" where
  "validate_evidence_paths value =
     foldE (\<lambda>item normalized.
       if blank item then Inl (ValueErr ''evidence_paths must not contain empty values'')
       else ebind (evidence_path_candidate item) (\<lambda>candidate.
         if candidate \<in> set normalized
         then Inl (ValueErr ''evidence_paths must not contain duplicates'')
         else Inr (normalized @ [candidate]))) value []"

definition mk_provenance_entry ::
  "confidence_mode \<Rightarrow> source_kind \<Rightarrow> string option \<Rightarrow> string \<Rightarrow> string list \<Rightarrow> provenance_entry result" where
  "mk_provenance_entry cm sk tool summary paths =
     ebind (validate_source_tool tool) (\<lambda>tool'.
     ebind (validate_evidence_summary summary) (\<lambda>summary'.
     ebind (validate_evidence_paths paths) (\<lambda>paths'.
       Inr \<lparr>pe_confidence_mode = cm, pe_source_kind = sk, pe_source_tool = tool',
            pe_evidence_summary = summary', pe_evidence_paths = paths'\<rparr>)))"

text \<open>What the validators establish.\<close>

definition wf_provenance_entry :: "provenance_entry \<Rightarrow> bool" where
  "wf_provenance_entry e \<longleftrightarrow>
     (case pe_source_tool e of Some t \<Rightarrow> \<not> blank t | None \<Rightarrow> True) \<and>
     \<not> blank (pe_evidence_summary e) \<and>
     distinct (pe_evidence_paths e)"

definition wf_provenance :: "provenance \<Rightarrow> bool" where
  "wf_provenance p \<longleftrightarrow> p \<noteq> [] \<and> (\<forall>e\<in>set p. wf_provenance_entry e)"

lemma validate_evidence_paths_distinct:
  assumes "validate_evidence_paths ps = Inr qs"
  shows "distinct qs"
  using assms unfolding validate_evidence_paths_def
  by (rule foldE_invariant) (auto simp: ebind_Inr_iff split: if_splits)

lemma mk_provenance_entry_wf:
  "mk_provenance_entry cm sk tool summary paths = Inr e \<Longrightarrow> wf_provenance_entry e"
  by (auto simp: mk_provenance_entry_def wf_provenance_entry_def ebind_Inr_iff validate_source_tool_def
      validate_evidence_summary_def dest: validate_evidence_paths_distinct split: option.splits if_splits)

lemma mk_provenance_entry_fields:
  "mk_provenance_entry cm sk tool summary paths = Inr e \<Longrightarrow>
     pe_confidence_mode e = cm \<and> pe_source_kind e = sk \<and> pe_source_tool e = tool"
  by (auto simp: mk_provenance_entry_def ebind_Inr_iff validate_source_tool_def split: option.splits if_splits)

text \<open>
  A stable evidence path is one the validator leaves as it is; entries whose paths are stable can
  be summarised without any path being rejected or rewritten.
\<close>

definition stable_path :: "string \<Rightarrow> bool" where
  "stable_path p \<longleftrightarrow> \<not> blank p \<and> evidence_path_candidate p = Inr p"

lemma validate_paths_stable_aux:
  assumes "\<forall>p\<in>set ps. stable_path p" and "distinct (acc @ ps)"
  shows "foldE (\<lambda>item normalized.
       if blank item then Inl (ValueErr ''evidence_paths must not contain empty values'')
       else ebind (evidence_path_candidate item) (\<lambda>candidate.
         if candidate \<in> set normalized
         then Inl (ValueErr ''evidence_paths must not contain duplicates'')
         else Inr (normalized @ [candidate]))) ps acc = Inr (acc @ ps)"
  using assms
proof (induction ps arbitrary: acc)
  case (Cons p ps)
  then show ?case using Cons.IH [of "acc @ [p]"] by (auto simp: stable_path_def)
qed simp

lemma validate_paths_stable:
  "\<forall>p\<in>set ps. stable_path p \<Longrightarrow> distinct ps \<Longrightarrow> validate_evidence_paths ps = Inr ps"
  using validate_paths_stable_aux [of ps "[]"] by (simp add: validate_evidence_paths_def)

lemma validate_paths_Nil [simp]: "validate_evidence_paths [] = Inr []"
  by (simp add: validate_evidence_paths_def)

lemma evidence_path_candidate_idem:
  assumes "evidence_path_candidate p = Inr q" and "strip q = q" and "\<not> contains ''://'' q"
    and "\<not> startswith (strip (replace_char (CHR 0x5C) (CHR ''/'') p)) ''/''"
    and "\<not> contains ''://'' (strip (replace_char (CHR 0x5C) (CHR ''/'') p))"
  shows "evidence_path_candidate q = Inr q"
proof -
  from assms(1,4,5) have n: "normalize_repository_relative_path (strip (replace_char (CHR 0x5C) (CHR ''/'') p)) = Inr q"
    by (simp add: evidence_path_candidate_def)
  then have rel: "\<not> startswith q ''/''" by (auto simp: normalize_repository_relative_path_def Let_def split: if_splits)
  have nobs: "CHR 0x5C \<notin> set q"
    using n by (rule normalize_shape) (auto simp: canonical_parts_def intro: join_chars [THEN notE])
  then have "replace_char (CHR 0x5C) (CHR ''/'') q = q" by (rule replace_char_id)
  then show ?thesis using rel assms(2,3) normalize_idem [OF n assms(2)] by (simp add: evidence_path_candidate_def)
qed

section \<open>Builders\<close>

definition manifest_provenance :: "string \<Rightarrow> string list \<Rightarrow> string option \<Rightarrow> provenance_entry result" where
  "manifest_provenance summary paths tool = mk_provenance_entry AUTHORITATIVE SK_MANIFEST tool summary paths"

definition document_provenance :: "string \<Rightarrow> string list \<Rightarrow> string option \<Rightarrow> provenance_entry result" where
  "document_provenance summary paths tool = mk_provenance_entry AUTHORITATIVE SK_DOCUMENT tool summary paths"

definition syntax_provenance :: "string \<Rightarrow> string \<Rightarrow> string list \<Rightarrow> provenance_entry result" where
  "syntax_provenance tool summary paths = mk_provenance_entry AUTHORITATIVE SK_SYNTAX (Some tool) summary paths"

definition lsp_provenance :: "string \<Rightarrow> string \<Rightarrow> string list \<Rightarrow> provenance_entry result" where
  "lsp_provenance tool summary paths = mk_provenance_entry AUTHORITATIVE SK_LSP (Some tool) summary paths"

definition test_tool_provenance :: "string \<Rightarrow> string \<Rightarrow> string list \<Rightarrow> provenance_entry result" where
  "test_tool_provenance tool summary paths = mk_provenance_entry AUTHORITATIVE SK_TEST_TOOL (Some tool) summary paths"

definition heuristic_provenance :: "string \<Rightarrow> string list \<Rightarrow> provenance_entry result" where
  "heuristic_provenance summary paths = mk_provenance_entry HEURISTIC SK_HEURISTIC None summary paths"

definition ownership_provenance :: "string \<Rightarrow> string list \<Rightarrow> provenance_entry result" where
  "ownership_provenance summary paths = mk_provenance_entry DERIVED SK_OWNERSHIP None summary paths"

definition derived_summary_provenance ::
  "source_kind \<Rightarrow> string option \<Rightarrow> string \<Rightarrow> string list \<Rightarrow> provenance_entry result" where
  "derived_summary_provenance sk tool summary paths = mk_provenance_entry DERIVED sk tool summary paths"

definition manifest_node_provenance :: "string \<Rightarrow> string list \<Rightarrow> provenance_entry result" where
  "manifest_node_provenance summary paths = derived_summary_provenance SK_MANIFEST None summary paths"

definition document_node_provenance :: "string \<Rightarrow> string list \<Rightarrow> string option \<Rightarrow> provenance_entry result" where
  "document_node_provenance summary paths tool = document_provenance summary paths tool"

definition syntax_node_provenance :: "string \<Rightarrow> string \<Rightarrow> string list \<Rightarrow> provenance_entry result" where
  "syntax_node_provenance tool summary paths = syntax_provenance tool summary paths"

definition lsp_node_provenance :: "string \<Rightarrow> string \<Rightarrow> string list \<Rightarrow> provenance_entry result" where
  "lsp_node_provenance tool summary paths = lsp_provenance tool summary paths"

definition ownership_node_provenance :: "string \<Rightarrow> string list \<Rightarrow> provenance_entry result" where
  "ownership_node_provenance summary paths = ownership_provenance summary paths"

definition dependency_graph_provenance :: "string \<Rightarrow> string \<Rightarrow> string list \<Rightarrow> provenance_entry result" where
  "dependency_graph_provenance tool summary paths =
     mk_provenance_entry AUTHORITATIVE SK_DEPENDENCY_GRAPH (Some tool) summary paths"

definition quality_tool_provenance :: "string \<Rightarrow> string \<Rightarrow> string list \<Rightarrow> provenance_entry result" where
  "quality_tool_provenance tool summary paths =
     mk_provenance_entry AUTHORITATIVE SK_QUALITY_TOOL (Some tool) summary paths"

definition lsp_delta_provenance :: "string \<Rightarrow> string \<Rightarrow> string list \<Rightarrow> provenance_entry result" where
  "lsp_delta_provenance tool summary paths = mk_provenance_entry DERIVED SK_LSP (Some tool) summary paths"

definition lsp_location_provenance :: "string \<Rightarrow> string \<Rightarrow> string \<Rightarrow> provenance_entry result" where
  "lsp_location_provenance tool repository_rel_path operation =
     (if operation \<notin> {''definition'', ''references'', ''implementation''}
      then Inl (ValueErr (''unsupported lsp location operation: '' @ quoted operation))
      else lsp_provenance tool (''derived from '' @ tool @ '' '' @ operation @ '' location resolution'')
             [repository_rel_path])"

lemmas provenance_builder_defs =
  manifest_provenance_def document_provenance_def syntax_provenance_def lsp_provenance_def
  test_tool_provenance_def heuristic_provenance_def ownership_provenance_def
  derived_summary_provenance_def dependency_graph_provenance_def quality_tool_provenance_def
  lsp_delta_provenance_def manifest_node_provenance_def document_node_provenance_def
  syntax_node_provenance_def lsp_node_provenance_def ownership_node_provenance_def

lemma derived_summary_fields:
  "derived_summary_provenance sk tool summary paths = Inr e \<Longrightarrow>
     wf_provenance_entry e \<and> pe_confidence_mode e = DERIVED \<and> pe_source_kind e = sk \<and> pe_source_tool e = tool"
  unfolding derived_summary_provenance_def
  by (auto dest: mk_provenance_entry_wf mk_provenance_entry_fields)

lemma derived_summary_ok:
  assumes "\<not> blank summary" and "\<forall>p\<in>set paths. stable_path p" and "distinct paths"
    and "case tool of Some t \<Rightarrow> \<not> blank t | None \<Rightarrow> True"
  shows "derived_summary_provenance sk tool summary paths =
     Inr \<lparr>pe_confidence_mode = DERIVED, pe_source_kind = sk, pe_source_tool = tool,
          pe_evidence_summary = strip summary, pe_evidence_paths = paths\<rparr>"
  using assms
  by (cases tool) (auto simp: derived_summary_provenance_def mk_provenance_entry_def
      validate_source_tool_def validate_evidence_summary_def validate_paths_stable)

section \<open>Summaries\<close>

definition as_tuple :: "provenance \<Rightarrow> provenance result" where
  "as_tuple entries =
     (if entries = [] then Inl (ValueErr ''provenance entries must not be empty'') else Inr entries)"

definition merge_unique_provenance :: "provenance list \<Rightarrow> provenance" where
  "merge_unique_provenance groups = fold (\<lambda>group merged. append_new merged group) groups []"

definition merge_provenance_paths :: "provenance \<Rightarrow> int \<Rightarrow> string list result" where
  "merge_provenance_paths entries limit =
     (if limit < 1 then Inl (ValueErr ''limit must be at least 1'')
      else ebind (as_tuple entries) (\<lambda>es.
        Inr (take (nat limit) (fold (\<lambda>e merged. append_new merged (pe_evidence_paths e)) es []))))"

definition is_authoritative_provenance :: "provenance \<Rightarrow> bool result" where
  "is_authoritative_provenance entries =
     ebind (as_tuple entries) (\<lambda>es. Inr (\<exists>e\<in>set es. pe_confidence_mode e = AUTHORITATIVE))"

definition preferred_confidence_mode :: "provenance \<Rightarrow> confidence_mode result" where
  "preferred_confidence_mode entries =
     ebind (as_tuple entries) (\<lambda>es.
       if \<exists>e\<in>set es. pe_confidence_mode e = AUTHORITATIVE then Inr AUTHORITATIVE
       else if \<exists>e\<in>set es. pe_confidence_mode e = DERIVED then Inr DERIVED
       else Inr HEURISTIC)"

definition source_kind_precedence :: "source_kind list" where
  "source_kind_precedence =
     [SK_TEST_TOOL, SK_QUALITY_TOOL, SK_LSP, SK_MANIFEST, SK_DOCUMENT, SK_DEPENDENCY_GRAPH,
      SK_OWNERSHIP, SK_HEURISTIC]"

definition preferred_source_kind :: "provenance \<Rightarrow> source_kind result" where
  "preferred_source_kind entries =
     ebind (as_tuple entries) (\<lambda>es.
       case find (\<lambda>k. k \<in> set (map pe_source_kind es)) source_kind_precedence of
         Some k \<Rightarrow> Inr k
       | None \<Rightarrow> Inr (pe_source_kind (hd es)))"

definition preferred_source_tool :: "provenance \<Rightarrow> (string option) result" where
  "preferred_source_tool entries =
     ebind (as_tuple entries) (\<lambda>es.
       case find (\<lambda>e. pe_source_tool e \<noteq> None) es of
         Some e \<Rightarrow> Inr (pe_source_tool e)
       | None \<Rightarrow> Inr None)"

definition summarize_related_provenance :: "provenance \<Rightarrow> string \<Rightarrow> provenance_entry result" where
  "summarize_related_provenance entries summary =
     ebind (as_tuple entries) (\<lambda>es.
     ebind (is_authoritative_provenance es) (\<lambda>auth.
     ebind (preferred_source_kind es) (\<lambda>sk.
     ebind (preferred_source_tool es) (\<lambda>tool.
     ebind (merge_provenance_paths es 10) (\<lambda>paths.
       mk_provenance_entry (if auth then AUTHORITATIVE else DERIVED) sk tool summary paths)))))"

definition is_authoritative_test_provenance :: "provenance \<Rightarrow> bool" where
  "is_authoritative_test_provenance p \<longleftrightarrow> (\<exists>e\<in>set p. pe_confidence_mode e = AUTHORITATIVE)"

definition summarize_test_provenance_kind :: "provenance \<Rightarrow> source_kind result" where
  "summarize_test_provenance_kind p =
     (if p = [] then Inl (ValueErr ''test provenance must not be empty'')
      else case find (\<lambda>e. pe_source_kind e \<in> {SK_TEST_TOOL, SK_HEURISTIC}) p of
             Some e \<Rightarrow> Inr (pe_source_kind e)
           | None \<Rightarrow> Inr (pe_source_kind (hd p)))"

definition summarize_test_provenance_tool :: "provenance \<Rightarrow> (string option) result" where
  "summarize_test_provenance_tool p =
     (if p = [] then Inl (ValueErr ''test provenance must not be empty'')
      else case find (\<lambda>e. pe_source_tool e \<noteq> None) p of
             Some e \<Rightarrow> Inr (pe_source_tool e)
           | None \<Rightarrow> Inr None)"

subsection \<open>Facts about summaries\<close>

lemma as_tuple_Inr_iff [simp]: "as_tuple es = Inr x \<longleftrightarrow> es \<noteq> [] \<and> x = es"
  by (auto simp: as_tuple_def)

lemma as_tuple_ne [simp]: "es \<noteq> [] \<Longrightarrow> as_tuple es = Inr es"
  by simp

lemma as_tuple_Nil [simp]: "as_tuple [] = Inl (ValueErr ''provenance entries must not be empty'')"
  by (simp add: as_tuple_def)

lemma fold_append_new: "fold (\<lambda>e merged. append_new merged (f e)) es acc = append_new acc (concat (map f es))"
  by (induction es arbitrary: acc) auto

lemma merge_unique_provenance_concat: "merge_unique_provenance gs = append_new [] (concat gs)"
  using fold_append_new [of "\<lambda>g. g" gs "[]"] by (simp add: merge_unique_provenance_def)

lemma set_merge_unique [simp]: "set (merge_unique_provenance gs) = \<Union> (set ` set gs)"
  by (auto simp: merge_unique_provenance_concat)

lemma merge_unique_distinct [simp]: "distinct (merge_unique_provenance gs)"
  by (simp add: merge_unique_provenance_concat distinct_append_new)

lemma merge_unique_wf:
  "(\<exists>g\<in>set gs. g \<noteq> []) \<Longrightarrow> (\<And>g. g \<in> set gs \<Longrightarrow> \<forall>e\<in>set g. wf_provenance_entry e) \<Longrightarrow>
     wf_provenance (merge_unique_provenance gs)"
  by (auto simp: wf_provenance_def merge_unique_provenance_concat)

lemma preferred_confidence_mode_ok [simp]:
  "es \<noteq> [] \<Longrightarrow> \<exists>c. preferred_confidence_mode es = Inr c"
  by (simp add: preferred_confidence_mode_def)

lemma preferred_confidence_mode_Inr_iff:
  "preferred_confidence_mode es = Inr c \<longleftrightarrow>
     es \<noteq> [] \<and> c = (if \<exists>e\<in>set es. pe_confidence_mode e = AUTHORITATIVE then AUTHORITATIVE
                     else if \<exists>e\<in>set es. pe_confidence_mode e = DERIVED then DERIVED else HEURISTIC)"
  by (auto simp: preferred_confidence_mode_def ebind_Inr_iff)

lemma merge_provenance_paths_eq:
  "es \<noteq> [] \<Longrightarrow> 1 \<le> limit \<Longrightarrow>
     merge_provenance_paths es limit = Inr (take (nat limit) (append_new [] (concat (map pe_evidence_paths es))))"
  by (simp add: merge_provenance_paths_def fold_append_new)

lemma find_set_None: "find P xs = None \<longleftrightarrow> (\<forall>x\<in>set xs. \<not> P x)"
  by (induction xs) auto

lemma find_set_Some: "find P xs = Some x \<Longrightarrow> x \<in> set xs \<and> P x"
  by (induction xs) (auto split: if_splits)

lemma preferred_source_kind_in:
  assumes "preferred_source_kind es = Inr k"
  shows "k \<in> pe_source_kind ` set es"
proof -
  from assms have ne: "es \<noteq> []" by (auto simp: preferred_source_kind_def ebind_Inr_iff)
  show ?thesis
  proof (cases "find (\<lambda>k. k \<in> set (map pe_source_kind es)) source_kind_precedence")
    case None
    then show ?thesis using assms ne by (auto simp: preferred_source_kind_def)
  next
    case (Some j)
    then show ?thesis using assms ne find_set_Some [OF Some] by (auto simp: preferred_source_kind_def)
  qed
qed

lemma preferred_source_kind_ok: "es \<noteq> [] \<Longrightarrow> \<exists>k. preferred_source_kind es = Inr k"
  by (auto simp: preferred_source_kind_def split: option.splits)

lemma preferred_source_tool_ok:
  assumes "es \<noteq> []" and "\<forall>e\<in>set es. wf_provenance_entry e"
  shows "\<exists>t. preferred_source_tool es = Inr t \<and> (case t of Some s \<Rightarrow> \<not> blank s | None \<Rightarrow> True)"
proof (cases "find (\<lambda>e. pe_source_tool e \<noteq> None) es")
  case None
  then show ?thesis using assms(1) by (simp add: preferred_source_tool_def)
next
  case (Some e)
  then have "e \<in> set es" by (auto dest: find_set_Some)
  then show ?thesis using Some assms by (auto simp: preferred_source_tool_def wf_provenance_entry_def)
qed

lemma summarize_ok:
  assumes ne: "es \<noteq> []" and wf: "\<forall>e\<in>set es. wf_provenance_entry e"
    and stable: "\<forall>e\<in>set es. \<forall>p\<in>set (pe_evidence_paths e). stable_path p" and s: "\<not> blank summary"
  shows "\<exists>r. summarize_related_provenance es summary = Inr r \<and> wf_provenance_entry r \<and>
     pe_source_kind r \<in> pe_source_kind ` set es \<and> length (pe_evidence_paths r) \<le> 10 \<and>
     set (pe_evidence_paths r) \<subseteq> (\<Union>e\<in>set es. set (pe_evidence_paths e))"
proof -
  define ps where "ps = take 10 (append_new [] (concat (map pe_evidence_paths es)))"
  have mp: "merge_provenance_paths es 10 = Inr ps"
    using ne by (simp add: merge_provenance_paths_eq ps_def)
  have sub: "set ps \<subseteq> (\<Union>e\<in>set es. set (pe_evidence_paths e))"
    unfolding ps_def by (auto dest!: in_set_takeD)
  have "distinct ps" unfolding ps_def by (simp add: distinct_append_new)
  moreover have "\<forall>p\<in>set ps. stable_path p" using stable sub by blast
  ultimately have vp: "validate_evidence_paths ps = Inr ps" by (simp add: validate_paths_stable)
  obtain k where k: "preferred_source_kind es = Inr k" using preferred_source_kind_ok [OF ne] ..
  obtain t where t: "preferred_source_tool es = Inr t" "case t of Some s \<Rightarrow> \<not> blank s | None \<Rightarrow> True"
    using preferred_source_tool_ok [OF ne wf] by blast
  define auth where "auth \<longleftrightarrow> (\<exists>e\<in>set es. pe_confidence_mode e = AUTHORITATIVE)"
  have vt: "validate_source_tool t = Inr t" using t(2) by (cases t) (auto simp: validate_source_tool_def)
  let ?r = "\<lparr>pe_confidence_mode = if auth then AUTHORITATIVE else DERIVED, pe_source_kind = k,
    pe_source_tool = t, pe_evidence_summary = strip summary, pe_evidence_paths = ps\<rparr>"
  have mk: "mk_provenance_entry (if auth then AUTHORITATIVE else DERIVED) k t summary ps = Inr ?r"
    using vt vp s by (simp add: mk_provenance_entry_def validate_evidence_summary_def)
  have "summarize_related_provenance es summary = Inr ?r"
    using ne k t(1) mp mk by (simp add: summarize_related_provenance_def is_authoritative_provenance_def auth_def)
  moreover have "wf_provenance_entry ?r" using mk by (rule mk_provenance_entry_wf)
  moreover have "length ps \<le> 10" by (simp add: ps_def)
  ultimately show ?thesis using preferred_source_kind_in [OF k] sub by auto
qed

section \<open>Properties\<close>

text \<open>
  Every entry the constructor accepts is well formed: its tool name, when present, and its
  summary are not blank, its evidence paths are pairwise different after normalisation, and the
  confidence, source and tool are the ones asked for.
\<close>

theorem provenance_entry_validated:
  assumes "mk_provenance_entry cm sk tool summary paths = Inr e"
  shows "wf_provenance_entry e \<and> pe_confidence_mode e = cm \<and> pe_source_kind e = sk \<and> pe_source_tool e = tool"
  using mk_provenance_entry_wf [OF assms] mk_provenance_entry_fields [OF assms] by simp

theorem provenance_entry_validated_witness:
  "\<exists>e. mk_provenance_entry DERIVED SK_LSP (Some ''gopls'') '' ok '' [''a.go'', ''b/./c.go''] = Inr e \<and>
       wf_provenance_entry e \<and> pe_evidence_paths e = [''a.go'', ''b/c.go'']"
proof -
  define e where "e = \<lparr>pe_confidence_mode = DERIVED, pe_source_kind = SK_LSP, pe_source_tool = Some ''gopls'',
    pe_evidence_summary = ''ok'', pe_evidence_paths = [''a.go'', ''b/c.go'']\<rparr>"
  have mk: "mk_provenance_entry DERIVED SK_LSP (Some ''gopls'') '' ok '' [''a.go'', ''b/./c.go''] = Inr e"
    unfolding e_def by code_simp
  with provenance_entry_validated [OF mk] show ?thesis by (simp add: e_def)
qed

text \<open>
  Summarising well-formed entries with stable evidence paths never raises: the summary is
  well formed, its source kind is one of the entries' kinds, it is authoritative only if an entry
  is, and it cites at most ten of the entries' paths.
\<close>

theorem summarize_related_provenance_total:
  assumes "wf_provenance es" and "\<forall>e\<in>set es. \<forall>p\<in>set (pe_evidence_paths e). stable_path p"
    and "\<not> blank summary"
  shows "\<exists>r. summarize_related_provenance es summary = Inr r \<and> wf_provenance_entry r \<and>
     pe_source_kind r \<in> pe_source_kind ` set es \<and> length (pe_evidence_paths r) \<le> 10 \<and>
     set (pe_evidence_paths r) \<subseteq> (\<Union>e\<in>set es. set (pe_evidence_paths e))"
  using assms by (intro summarize_ok) (auto simp: wf_provenance_def)

definition sample_entry :: "source_kind \<Rightarrow> string list \<Rightarrow> provenance_entry" where
  "sample_entry sk paths =
     \<lparr>pe_confidence_mode = DERIVED, pe_source_kind = sk, pe_source_tool = None,
      pe_evidence_summary = ''sample'', pe_evidence_paths = paths\<rparr>"

theorem summarize_related_provenance_total_witness:
  "\<exists>r. summarize_related_provenance [sample_entry SK_LSP [''a.py''], sample_entry SK_MANIFEST [''b.py'']] ''s'' = Inr r"
proof -
  let ?es = "[sample_entry SK_LSP [''a.py''], sample_entry SK_MANIFEST [''b.py'']]"
  have "wf_provenance ?es"
    by (simp add: wf_provenance_def wf_provenance_entry_def sample_entry_def py_isspace_def)
  moreover have "\<forall>e\<in>set ?es. \<forall>p\<in>set (pe_evidence_paths e). stable_path p"
    unfolding stable_path_def by code_simp
  moreover have "\<not> blank ''s''" by (simp add: py_isspace_def)
  ultimately show ?thesis using summarize_related_provenance_total [of ?es "''s''"] by blast
qed

fun confidence_rank :: "confidence_mode \<Rightarrow> nat" where
  "confidence_rank AUTHORITATIVE = 0"
| "confidence_rank DERIVED = 1"
| "confidence_rank HEURISTIC = 2"

lemma confidence_rank_Heuristic: "c \<noteq> AUTHORITATIVE \<Longrightarrow> c \<noteq> DERIVED \<Longrightarrow> c = HEURISTIC"
  by (cases c) auto

text \<open>
  The preferred confidence of a non-empty provenance is its strongest one: authoritative
  before derived before heuristic, and always the confidence of one of the entries.
\<close>

theorem preferred_confidence_mode_strongest:
  assumes "preferred_confidence_mode es = Inr c"
  shows "c \<in> pe_confidence_mode ` set es \<and> (\<forall>e\<in>set es. confidence_rank c \<le> confidence_rank (pe_confidence_mode e))"
proof (cases "\<exists>e\<in>set es. pe_confidence_mode e = AUTHORITATIVE")
  case True
  then show ?thesis using assms by (force simp: preferred_confidence_mode_Inr_iff)
next
  case False
  then have ranks: "\<forall>e\<in>set es. 1 \<le> confidence_rank (pe_confidence_mode e)"
    by (metis confidence_rank.simps(2,3) confidence_rank_Heuristic le_numeral_extra(4) one_le_numeral)
  show ?thesis
  proof (cases "\<exists>e\<in>set es. pe_confidence_mode e = DERIVED")
    case True
    then show ?thesis using assms False ranks by (force simp: preferred_confidence_mode_Inr_iff)
  next
    case no: False
    then have all: "\<forall>e\<in>set es. pe_confidence_mode e = HEURISTIC"
      using False confidence_rank_Heuristic by blast
    obtain e where "e \<in> set es" using assms by (cases es) (auto simp: preferred_confidence_mode_Inr_iff)
    then show ?thesis using assms False no all by (force simp: preferred_confidence_mode_Inr_iff)
  qed
qed

theorem preferred_confidence_mode_strongest_witness:
  "confidence_rank DERIVED \<le> confidence_rank (pe_confidence_mode (sample_entry SK_LSP []))"
proof -
  have "preferred_confidence_mode [sample_entry SK_LSP []] = Inr DERIVED" by code_simp
  from preferred_confidence_mode_strongest [OF this] show ?thesis by simp
qed

end
