(* ===== verification/Graph_Model.thy ===== *)
theory Graph_Model
  imports Provenance
begin

text \<open>
  The data model of the workspace graph: \<open>core/models/graph_types.py\<close>, \<open>nodes.py\<close>, \<open>edges.py\<close>,
  \<open>provider_contract.py\<close> and \<open>subgraph.py\<close>. A node class is a record that extends \<open>graph_node\<close>
  as the Python classes extend \<open>GraphNode\<close>; the discriminated union of them is the datatype
  \<open>node\<close>, whose constructor determines the node kind. The validators of a class are one function
  that returns the validated value or the first error.
\<close>

section \<open>Enumerations\<close>

datatype node_kind =
    NK_REPOSITORY | NK_BUILD_SYSTEM | NK_COMPONENT | NK_AGGREGATOR | NK_RUNNER
  | NK_TEST_DEFINITION | NK_PACKAGE_MANAGER | NK_EXTERNAL_PACKAGE | NK_FILE | NK_ENTITY

fun node_kind_value :: "node_kind \<Rightarrow> string" where
  "node_kind_value NK_REPOSITORY = ''repository''"
| "node_kind_value NK_BUILD_SYSTEM = ''build_system''"
| "node_kind_value NK_COMPONENT = ''component''"
| "node_kind_value NK_AGGREGATOR = ''aggregator''"
| "node_kind_value NK_RUNNER = ''runner''"
| "node_kind_value NK_TEST_DEFINITION = ''test_definition''"
| "node_kind_value NK_PACKAGE_MANAGER = ''package_manager''"
| "node_kind_value NK_EXTERNAL_PACKAGE = ''external_package''"
| "node_kind_value NK_FILE = ''file''"
| "node_kind_value NK_ENTITY = ''entity''"

datatype edge_kind = DEPENDS_ON | CONTAINS | FILE_CONTAINS_ENTITY | RUNS | PRODUCES

fun edge_kind_value :: "edge_kind \<Rightarrow> string" where
  "edge_kind_value DEPENDS_ON = ''depends_on''"
| "edge_kind_value CONTAINS = ''contains''"
| "edge_kind_value FILE_CONTAINS_ENTITY = ''file_contains_entity''"
| "edge_kind_value RUNS = ''runs''"
| "edge_kind_value PRODUCES = ''produces''"

datatype build_system_kind = BS_CMAKE | BS_CARGO | BS_GO | BS_NPM | BS_PIP | BS_BAZEL | BS_OTHER

datatype programming_language =
    PL_PYTHON | PL_CPP | PL_C | PL_JAVA | PL_JAVASCRIPT | PL_TYPESCRIPT | PL_GO | PL_RUST | PL_OTHER

datatype component_kind = CK_LIBRARY | CK_BINARY | CK_SERVICE | CK_PACKAGE | CK_OTHER

datatype test_framework = TF_GO_TEST | TF_PYTEST | TF_UNITTEST | TF_GTEST | TF_JUNIT | TF_OTHER

lemma edge_kind_value_inj: "edge_kind_value a = edge_kind_value b \<longleftrightarrow> a = b"
  by (cases a; cases b) simp_all

section \<open>Evidence, edges and nodes\<close>

record evidence =
  ev_id :: string
  ev_file_path :: "string option"
  ev_line_start :: "int option"
  ev_line_end :: "int option"
  ev_tool :: "string option"
  ev_message :: "string option"
  ev_log_path :: "string option"

record edge =
  ed_kind :: edge_kind
  ed_src :: node_id
  ed_dst :: node_id
  ed_evidence_ids :: "string list"

type_synonym edge_key = "node_id \<times> edge_kind \<times> node_id"

definition edge_key :: "edge \<Rightarrow> edge_key" where
  "edge_key e = (ed_src e, ed_kind e, ed_dst e)"

text \<open>The key \<open>(edge.kind, edge.src, edge.dst)\<close> that orders edges; kinds compare as strings.\<close>

definition edge_sort_key :: "edge \<Rightarrow> string \<times> string \<times> string" where
  "edge_sort_key e = (edge_kind_value (ed_kind e), ed_src e, ed_dst e)"

record graph_node =
  gn_id :: node_id
  gn_name :: string
  gn_evidence_ids :: "string list"
  gn_provenance :: provenance

record repository_info = graph_node +
  ri_root_path :: string

record build_system_info = graph_node +
  bs_build_system :: build_system_kind
  bs_configuration_name :: string
  bs_tool_version :: "string option"
  bs_structural_fingerprint :: "string option"

record component = graph_node +
  co_component_kind :: component_kind
  co_language :: programming_language
  co_source_roots :: "string list"
  co_artifact_paths :: "string list"

record aggregator = graph_node +
  ag_unit :: unit

record runner = graph_node +
  ru_argv :: "string list"
  ru_cwd :: "string option"

record test_definition = graph_node +
  td_framework :: test_framework
  td_test_files :: "string list"

record package_manager = graph_node +
  pm_manager :: string
  pm_lockfile_path :: "string option"

record external_package = graph_node +
  ep_manager_id :: "string option"
  ep_version_spec :: "string option"

record file_info = graph_node +
  fi_repository_rel_path :: string
  fi_language :: "programming_language option"
  fi_owner_id :: node_id

record entity_info = graph_node +
  ei_repository_rel_path :: string
  ei_entity_kind :: string
  ei_line_start :: "int option"
  ei_line_end :: "int option"
  ei_column_start :: "int option"
  ei_column_end :: "int option"
  ei_signature :: "string option"

datatype node =
    RepositoryNode repository_info
  | BuildSystemNode build_system_info
  | ComponentNode component
  | AggregatorNode aggregator
  | RunnerNode runner
  | TestDefinitionNode test_definition
  | PackageManagerNode package_manager
  | ExternalPackageNode external_package
  | FileNode file_info
  | EntityNode entity_info

fun kind_of :: "node \<Rightarrow> node_kind" where
  "kind_of (RepositoryNode _) = NK_REPOSITORY"
| "kind_of (BuildSystemNode _) = NK_BUILD_SYSTEM"
| "kind_of (ComponentNode _) = NK_COMPONENT"
| "kind_of (AggregatorNode _) = NK_AGGREGATOR"
| "kind_of (RunnerNode _) = NK_RUNNER"
| "kind_of (TestDefinitionNode _) = NK_TEST_DEFINITION"
| "kind_of (PackageManagerNode _) = NK_PACKAGE_MANAGER"
| "kind_of (ExternalPackageNode _) = NK_EXTERNAL_PACKAGE"
| "kind_of (FileNode _) = NK_FILE"
| "kind_of (EntityNode _) = NK_ENTITY"

text \<open>The fields every node class inherits from \<open>GraphNode\<close>.\<close>

definition base_fields :: "'a graph_node_scheme \<Rightarrow> graph_node" where
  "base_fields x =
     \<lparr>gn_id = gn_id x, gn_name = gn_name x, gn_evidence_ids = gn_evidence_ids x, gn_provenance = gn_provenance x\<rparr>"

fun node_base :: "node \<Rightarrow> graph_node" where
  "node_base (RepositoryNode x) = base_fields x"
| "node_base (BuildSystemNode x) = base_fields x"
| "node_base (ComponentNode x) = base_fields x"
| "node_base (AggregatorNode x) = base_fields x"
| "node_base (RunnerNode x) = base_fields x"
| "node_base (TestDefinitionNode x) = base_fields x"
| "node_base (PackageManagerNode x) = base_fields x"
| "node_base (ExternalPackageNode x) = base_fields x"
| "node_base (FileNode x) = base_fields x"
| "node_base (EntityNode x) = base_fields x"

definition node_ident :: "node \<Rightarrow> node_id" where
  "node_ident n = gn_id (node_base n)"

definition node_evidence_ids :: "node \<Rightarrow> string list" where
  "node_evidence_ids n = gn_evidence_ids (node_base n)"

section \<open>Validators\<close>

definition validate_line_end :: "int option \<Rightarrow> int option \<Rightarrow> unit result" where
  "validate_line_end line_start line_end =
     (case (line_start, line_end) of
        (Some a, Some b) \<Rightarrow> check (a \<le> b) (ValueErr ''line_end must be >= line_start'')
      | _ \<Rightarrow> Inr ())"

definition validate_column_end ::
  "int option \<Rightarrow> int option \<Rightarrow> int option \<Rightarrow> int option \<Rightarrow> unit result" where
  "validate_column_end line_start line_end column_start column_end =
     (case (column_start, column_end) of
        (Some a, Some b) \<Rightarrow>
          check (\<not> ((line_start = None \<or> line_end = None \<or> line_start = line_end) \<and> b < a))
            (ValueErr ''column_end must be >= column_start'')
      | _ \<Rightarrow> Inr ())"

definition validate_evidence :: "evidence \<Rightarrow> evidence result" where
  "validate_evidence e = ebind (validate_line_end (ev_line_start e) (ev_line_end e)) (\<lambda>_. Inr e)"

definition not_empty_provenance :: "string \<Rightarrow> provenance \<Rightarrow> unit result" where
  "not_empty_provenance what p = check (p \<noteq> []) (ValueErr (what @ '' provenance must not be empty''))"

definition not_lsp_sourced :: "string \<Rightarrow> provenance \<Rightarrow> unit result" where
  "not_lsp_sourced what p =
     check (\<forall>e\<in>set p. pe_source_kind e \<noteq> SK_LSP)
       (ValueErr (what @ '' provenance must not be sourced from lsp''))"

text \<open>Parsing a payload validates the nested provenance entries again.\<close>

definition revalidate_entry :: "provenance_entry \<Rightarrow> provenance_entry result" where
  "revalidate_entry e =
     mk_provenance_entry (pe_confidence_mode e) (pe_source_kind e) (pe_source_tool e)
       (pe_evidence_summary e) (pe_evidence_paths e)"

definition validate_component :: "component \<Rightarrow> unit result" where
  "validate_component c =
     ebind (not_empty_provenance ''component'' (gn_provenance c)) (\<lambda>_.
       not_lsp_sourced ''component'' (gn_provenance c))"

definition validate_aggregator :: "aggregator \<Rightarrow> unit result" where
  "validate_aggregator a =
     ebind (not_empty_provenance ''aggregator'' (gn_provenance a)) (\<lambda>_.
       not_lsp_sourced ''aggregator'' (gn_provenance a))"

definition validate_runner :: "runner \<Rightarrow> unit result" where
  "validate_runner r =
     ebind (not_empty_provenance ''runner'' (gn_provenance r)) (\<lambda>_.
       check (\<exists>e\<in>set (gn_provenance r). pe_source_kind e \<noteq> SK_OWNERSHIP)
         (ValueErr ''runner provenance must not be ownership-only''))"

definition validate_test_definition :: "test_definition \<Rightarrow> unit result" where
  "validate_test_definition t = not_empty_provenance ''test definition'' (gn_provenance t)"

definition validate_package_manager :: "package_manager \<Rightarrow> unit result" where
  "validate_package_manager m =
     ebind (not_empty_provenance ''package manager'' (gn_provenance m)) (\<lambda>_.
       not_lsp_sourced ''package manager'' (gn_provenance m))"

definition validate_external_package :: "external_package \<Rightarrow> unit result" where
  "validate_external_package x =
     ebind (not_empty_provenance ''external package'' (gn_provenance x)) (\<lambda>_.
       not_lsp_sourced ''external package'' (gn_provenance x))"

definition validate_file_info :: "file_info \<Rightarrow> unit result" where
  "validate_file_info f = not_empty_provenance ''file'' (gn_provenance f)"

definition validate_entity_info :: "entity_info \<Rightarrow> unit result" where
  "validate_entity_info e =
     ebind (validate_line_end (ei_line_start e) (ei_line_end e)) (\<lambda>_.
     ebind (validate_column_end (ei_line_start e) (ei_line_end e) (ei_column_start e) (ei_column_end e)) (\<lambda>_.
     ebind (not_empty_provenance ''entity'' (gn_provenance e)) (\<lambda>_.
       check (\<exists>p\<in>set (gn_provenance e). pe_source_kind p \<in> {SK_LSP, SK_SYNTAX})
         (ValueErr ''entity provenance must include lsp or syntax evidence''))))"

fun validate_node :: "node \<Rightarrow> unit result" where
  "validate_node (RepositoryNode _) = Inr ()"
| "validate_node (BuildSystemNode _) = Inr ()"
| "validate_node (ComponentNode c) = validate_component c"
| "validate_node (AggregatorNode a) = validate_aggregator a"
| "validate_node (RunnerNode r) = validate_runner r"
| "validate_node (TestDefinitionNode t) = validate_test_definition t"
| "validate_node (PackageManagerNode m) = validate_package_manager m"
| "validate_node (ExternalPackageNode x) = validate_external_package x"
| "validate_node (FileNode f) = validate_file_info f"
| "validate_node (EntityNode e) = validate_entity_info e"

fun with_provenance :: "node \<Rightarrow> provenance \<Rightarrow> node" where
  "with_provenance (RepositoryNode x) p = RepositoryNode (x\<lparr>gn_provenance := p\<rparr>)"
| "with_provenance (BuildSystemNode x) p = BuildSystemNode (x\<lparr>gn_provenance := p\<rparr>)"
| "with_provenance (ComponentNode x) p = ComponentNode (x\<lparr>gn_provenance := p\<rparr>)"
| "with_provenance (AggregatorNode x) p = AggregatorNode (x\<lparr>gn_provenance := p\<rparr>)"
| "with_provenance (RunnerNode x) p = RunnerNode (x\<lparr>gn_provenance := p\<rparr>)"
| "with_provenance (TestDefinitionNode x) p = TestDefinitionNode (x\<lparr>gn_provenance := p\<rparr>)"
| "with_provenance (PackageManagerNode x) p = PackageManagerNode (x\<lparr>gn_provenance := p\<rparr>)"
| "with_provenance (ExternalPackageNode x) p = ExternalPackageNode (x\<lparr>gn_provenance := p\<rparr>)"
| "with_provenance (FileNode x) p = FileNode (x\<lparr>gn_provenance := p\<rparr>)"
| "with_provenance (EntityNode x) p = EntityNode (x\<lparr>gn_provenance := p\<rparr>)"

text \<open>
  \<open>parse_node\<close> picks the model class by kind and validates: the entries of the provenance first,
  then the class's own validators.
\<close>

definition parse_node :: "node \<Rightarrow> node result" where
  "parse_node n =
     ebind (mapE revalidate_entry (gn_provenance (node_base n))) (\<lambda>p.
       let m = with_provenance n p in ebind (validate_node m) (\<lambda>_. Inr m))"

text \<open>
  A settled node is valid and its provenance survives a second validation unchanged; it is read
  back from the store exactly as it was written.
\<close>

definition settled_entry :: "provenance_entry \<Rightarrow> bool" where
  "settled_entry e \<longleftrightarrow> revalidate_entry e = Inr e"

definition settled_node :: "node \<Rightarrow> bool" where
  "settled_node n \<longleftrightarrow> (\<forall>e\<in>set (gn_provenance (node_base n)). settled_entry e) \<and> validate_node n = Inr ()"

definition settled_evidence :: "evidence \<Rightarrow> bool" where
  "settled_evidence e \<longleftrightarrow> validate_evidence e = Inr e"

lemma base_fields_simps [simp]:
  "gn_id (base_fields r) = gn_id r"
  "gn_name (base_fields r) = gn_name r"
  "gn_evidence_ids (base_fields r) = gn_evidence_ids r"
  "gn_provenance (base_fields r) = gn_provenance r"
  by (simp_all add: base_fields_def)

lemma provenance_upd_same: "x\<lparr>gn_provenance := gn_provenance x\<rparr> = (x :: 'a graph_node_scheme)"
  by (cases x) simp

lemma with_provenance_same: "with_provenance n (gn_provenance (node_base n)) = n"
  by (cases n) (simp_all only: with_provenance.simps node_base.simps base_fields_simps provenance_upd_same)

lemma with_provenance_frame [simp]:
  "node_ident (with_provenance n p) = node_ident n"
  "kind_of (with_provenance n p) = kind_of n"
  "node_evidence_ids (with_provenance n p) = node_evidence_ids n"
  by (cases n; simp add: node_ident_def node_evidence_ids_def)+

lemma parse_node_frame:
  "parse_node n = Inr m \<Longrightarrow> node_ident m = node_ident n \<and> kind_of m = kind_of n \<and>
     node_evidence_ids m = node_evidence_ids n \<and> validate_node m = Inr ()"
  by (auto simp: parse_node_def ebind_Inr_iff Let_def)

lemma parse_settled: "settled_node n \<Longrightarrow> parse_node n = Inr n"
proof -
  assume s: "settled_node n"
  then have "mapE revalidate_entry (gn_provenance (node_base n)) = Inr (gn_provenance (node_base n))"
    using mapE_map [of "gn_provenance (node_base n)" revalidate_entry "\<lambda>e. e"]
    by (auto simp: settled_node_def settled_entry_def)
  then show ?thesis using s by (simp add: parse_node_def settled_node_def with_provenance_same)
qed

section \<open>Scopes\<close>

text \<open>The pattern \<open>provider:[a-zA-Z0-9_.-]+:[a-zA-Z0-9_.-]+\<close>, matched against the whole string.\<close>

definition scope_char :: "char \<Rightarrow> bool" where
  "scope_char c \<longleftrightarrow>
     (CHR ''a'' \<le> c \<and> c \<le> CHR ''z'') \<or> (CHR ''A'' \<le> c \<and> c \<le> CHR ''Z'') \<or>
     (CHR ''0'' \<le> c \<and> c \<le> CHR ''9'') \<or> c = CHR ''_'' \<or> c = CHR ''.'' \<or> c = CHR ''-''"

definition valid_scope :: "string \<Rightarrow> bool" where
  "valid_scope scope \<longleftrightarrow>
     (case split_on CHR '':'' scope of
        [a, b, c] \<Rightarrow> a = ''provider'' \<and> b \<noteq> [] \<and> c \<noteq> [] \<and> list_all scope_char b \<and> list_all scope_char c
      | _ \<Rightarrow> False)"

definition validate_scope :: "string \<Rightarrow> unit result" where
  "validate_scope scope = check (valid_scope scope) (GraphScopeErr (''invalid scope format: '' @ scope))"

section \<open>Subgraphs\<close>

record subgraph =
  sg_nodes :: "(node_id \<times> node) list"
  sg_edges :: "edge list"
  sg_evidence :: "(string \<times> evidence) list"

text \<open>
  The integrity validator of \<open>Subgraph\<close>, check by check in the order of the code. The message of a
  missing-evidence or missing-endpoint error names the offending node or edge.
\<close>

definition edge_label :: "edge \<Rightarrow> string" where
  "edge_label e = ''edge '' @ edge_kind_value (ed_kind e) @ '':'' @ ed_src e @ ''->'' @ ed_dst e"

definition check_node_evidence :: "string list \<Rightarrow> node \<Rightarrow> unit result" where
  "check_node_evidence evidence_ids n =
     check (set (node_evidence_ids n) \<subseteq> set evidence_ids)
       (GraphIntegrityErr (''node '' @ node_ident n @ '' references missing evidence''))"

definition check_edge :: "node_id list \<Rightarrow> string list \<Rightarrow> edge \<Rightarrow> unit result" where
  "check_edge node_ids evidence_ids e =
     ebind (check (ed_src e \<in> set node_ids \<and> ed_dst e \<in> set node_ids)
       (GraphIntegrityErr (edge_label e @ '' references missing endpoint''))) (\<lambda>_.
     check (set (ed_evidence_ids e) \<subseteq> set evidence_ids)
       (GraphIntegrityErr (edge_label e @ '' references missing evidence'')))"

definition validate_integrity :: "subgraph \<Rightarrow> subgraph result" where
  "validate_integrity g =
     (let node_ids = map fst (sg_nodes g); evidence_ids = map fst (sg_evidence g) in
      ebind (check (node_ids = sort node_ids) (GraphIntegrityErr ''nodes must be sorted by node id'')) (\<lambda>_.
      ebind (check (evidence_ids = sort evidence_ids)
        (GraphIntegrityErr ''evidence must be sorted by evidence id'')) (\<lambda>_.
      ebind (check (sg_edges g = sort_key edge_sort_key (sg_edges g))
        (GraphIntegrityErr ''edges must be sorted by (kind, src, dst)'')) (\<lambda>_.
      ebind (mapE (\<lambda>(i, n). check_node_evidence evidence_ids n) (sg_nodes g)) (\<lambda>_.
      ebind (mapE (check_edge node_ids evidence_ids) (sg_edges g)) (\<lambda>_.
        Inr g))))))"

text \<open>What a subgraph that passed the validator guarantees to its readers.\<close>

definition closed_subgraph :: "subgraph \<Rightarrow> bool" where
  "closed_subgraph g \<longleftrightarrow>
     sorted (map fst (sg_nodes g)) \<and> sorted (map fst (sg_evidence g)) \<and>
     sorted (map edge_sort_key (sg_edges g)) \<and>
     (\<forall>e\<in>set (sg_edges g). ed_src e \<in> fst ` set (sg_nodes g) \<and> ed_dst e \<in> fst ` set (sg_nodes g) \<and>
        set (ed_evidence_ids e) \<subseteq> fst ` set (sg_evidence g)) \<and>
     (\<forall>(i, n)\<in>set (sg_nodes g). set (node_evidence_ids n) \<subseteq> fst ` set (sg_evidence g))"

lemma check_node_evidence_ok [simp]:
  "check_node_evidence evs n = Inr () \<longleftrightarrow> set (node_evidence_ids n) \<subseteq> set evs"
  by (simp add: check_node_evidence_def)

lemma check_edge_ok [simp]:
  "check_edge ids evs e = Inr () \<longleftrightarrow>
     ed_src e \<in> set ids \<and> ed_dst e \<in> set ids \<and> set (ed_evidence_ids e) \<subseteq> set evs"
  by (auto simp: check_edge_def)

lemma mapE_check_ok:
  "(\<exists>us. mapE f xs = Inr (us :: unit list)) \<longleftrightarrow> (\<forall>x\<in>set xs. f x = Inr ())"
  using mapE_is_ok [of f xs] by (auto simp: is_ok_iff)

lemma sort_fixpoint: "xs = sort_key f xs \<longleftrightarrow> sorted (map f xs)"
  by (metis sort_key_id_if_sorted sorted_sort_key)

lemma sort_fixpoint_id: "(xs :: 'a::linorder list) = sort xs \<longleftrightarrow> sorted xs"
  using sort_fixpoint [of xs "\<lambda>x. x"] by simp

lemma validate_integrity_iff: "validate_integrity g = Inr h \<longleftrightarrow> h = g \<and> closed_subgraph g"
proof -
  have "validate_integrity g = Inr h \<longleftrightarrow> h = g \<and>
      sorted (map fst (sg_nodes g)) \<and> sorted (map fst (sg_evidence g)) \<and> sorted (map edge_sort_key (sg_edges g)) \<and>
      (\<exists>us. mapE (\<lambda>(i, n). check_node_evidence (map fst (sg_evidence g)) n) (sg_nodes g) = Inr us) \<and>
      (\<exists>us. mapE (check_edge (map fst (sg_nodes g)) (map fst (sg_evidence g))) (sg_edges g) = Inr us)"
    unfolding validate_integrity_def Let_def
    by (auto simp: ebind_Inr_iff sort_fixpoint sort_fixpoint_id)
  also have "\<dots> \<longleftrightarrow> h = g \<and> closed_subgraph g"
    unfolding mapE_check_ok closed_subgraph_def
    by (auto simp only: split_def check_node_evidence_ok check_edge_ok set_map)
  finally show ?thesis .
qed

end
