(* ===== verification/Graph_Store.thy ===== *)
theory Graph_Store
  imports Graph_Model
begin

text \<open>
  The SQLite graph store (\<open>core/models/store/sqlite_store.py\<close>, \<open>migrations.py\<close>).

  A table is a list of rows keyed by its primary key. \<open>ss_working\<close> is what the open connection
  reads, \<open>ss_committed\<close> what the database file holds; they differ while a transaction is open.
  Python's \<open>sqlite3\<close> in its default mode opens a transaction before the first INSERT, UPDATE or
  DELETE, whether or not a row changes, so every such statement sets \<open>ss_in_tx\<close>, and an explicit
  BEGIN inside a transaction is an \<open>OperationalError\<close>. Columns that no query reads
  (\<open>payload_sha\<close>, the time stamps, the \<open>runs\<close> table) are left out; one connection is modelled, so
  locking between processes is not.
\<close>

section \<open>Tables and connections\<close>

record node_row =
  nr_kind :: node_kind
  nr_name :: string
  nr_payload :: node
  nr_scope :: string

record edge_row =
  er_payload :: edge
  er_scope :: string

record evidence_row =
  vr_payload :: evidence
  vr_scope :: string

record tables =
  tb_meta :: "(int \<times> string) option"
  tb_nodes :: "(node_id \<times> node_row) list"
  tb_edges :: "(edge_key \<times> edge_row) list"
  tb_evidence :: "(string \<times> evidence_row) list"

record sqlite_store =
  ss_workspace_root :: string
  ss_connected :: bool
  ss_working :: tables
  ss_committed :: tables
  ss_in_tx :: bool

type_synonym 'a store_op = "(sqlite_store, 'a) stateful"

definition schema_version :: int where
  "schema_version = 1"

text \<open>The \<open>connection\<close> property: every statement goes through it.\<close>

definition connection :: "unit store_op" where
  "connection s =
     (if ss_connected s then (Inr (), s) else (Inl (GraphStoreErr ''store is not initialized''), s))"

text \<open>A data-modifying statement, and a query.\<close>

definition dml :: "(tables \<Rightarrow> tables) \<Rightarrow> unit store_op" where
  "dml f = sbind connection (\<lambda>_ s. (Inr (), s\<lparr>ss_working := f (ss_working s), ss_in_tx := True\<rparr>))"

definition query :: "(tables \<Rightarrow> 'a) \<Rightarrow> 'a store_op" where
  "query f = sbind connection (\<lambda>_ s. (Inr (f (ss_working s)), s))"

section \<open>Transactions\<close>

definition store_begin :: "unit store_op" where
  "store_begin = sbind connection (\<lambda>_ s.
     if ss_in_tx s then (Inl (OperationalErr ''cannot start a transaction within a transaction''), s)
     else (Inr (), s\<lparr>ss_in_tx := True\<rparr>))"

definition store_commit :: "unit store_op" where
  "store_commit = sbind connection (\<lambda>_ s. (Inr (), s\<lparr>ss_committed := ss_working s, ss_in_tx := False\<rparr>))"

definition store_rollback :: "unit store_op" where
  "store_rollback = sbind connection (\<lambda>_ s. (Inr (), s\<lparr>ss_working := ss_committed s, ss_in_tx := False\<rparr>))"

text \<open>
  The \<open>transaction\<close> context manager around a body, over any begin, commit and rollback: the commit
  belongs to the guarded block, so an exception in the body or in the commit rolls back and is
  raised again.
\<close>

definition transaction_with ::
  "('s, unit) stateful \<Rightarrow> ('s, unit) stateful \<Rightarrow> ('s, unit) stateful \<Rightarrow> ('s, 'a) stateful \<Rightarrow> ('s, 'a) stateful" where
  "transaction_with bgn cmt rbk body =
     sbind bgn (\<lambda>_ s.
       (case sbind body (\<lambda>x. sbind cmt (\<lambda>_. sreturn x)) s of
          (Inr x, s') \<Rightarrow> (Inr x, s')
        | (Inl e, s') \<Rightarrow> sbind rbk (\<lambda>_. sraise e) s'))"

definition transaction :: "'a store_op \<Rightarrow> 'a store_op" where
  "transaction = transaction_with store_begin store_commit store_rollback"

section \<open>Opening and closing\<close>

definition apply_migrations :: "unit store_op" where
  "apply_migrations s =
     (case tb_meta (ss_working s) of
        None \<Rightarrow>
          sbind (dml (\<lambda>t. t\<lparr>tb_meta := Some (schema_version, ss_workspace_root s)\<rparr>)) (\<lambda>_. store_commit) s
      | Some (version, root) \<Rightarrow>
          if version \<noteq> schema_version
          then (Inl (GraphStoreErr (''schema version mismatch: expected '' @ str_int schema_version @
                  '', found '' @ str_int version)), s)
          else if root \<noteq> ss_workspace_root s
          then (Inl (GraphStoreErr ''workspace_root mismatch in metadata''), s)
          else store_commit s)"

definition initialize :: "unit store_op" where
  "initialize s =
     apply_migrations (s\<lparr>ss_connected := True, ss_working := ss_committed s, ss_in_tx := False\<rparr>)"

definition close_store :: "unit store_op" where
  "close_store s =
     (Inr (), if ss_connected s
              then s\<lparr>ss_connected := False, ss_working := ss_committed s, ss_in_tx := False\<rparr> else s)"

section \<open>Statements\<close>

definition node_row_of :: "node \<Rightarrow> string \<Rightarrow> node_row" where
  "node_row_of n scope =
     \<lparr>nr_kind = kind_of n, nr_name = gn_name (node_base n), nr_payload = n, nr_scope = scope\<rparr>"

definition upsert_node :: "node \<Rightarrow> string \<Rightarrow> unit store_op" where
  "upsert_node n scope = dml (\<lambda>t. t\<lparr>tb_nodes := AList.update (node_ident n) (node_row_of n scope) (tb_nodes t)\<rparr>)"

definition delete_node :: "node_id \<Rightarrow> unit store_op" where
  "delete_node i =
     sbind (query (\<lambda>t. \<exists>(k, r) \<in> set (tb_edges t). fst k = i \<or> snd (snd k) = i)) (\<lambda>referenced.
       if referenced then sraise (GraphStoreErr (''cannot delete node '' @ i @ ''; edges still reference it''))
       else sbind (query (\<lambda>t. map_of (tb_nodes t) i \<noteq> None)) (\<lambda>found.
              sbind (dml (\<lambda>t. t\<lparr>tb_nodes := AList.delete i (tb_nodes t)\<rparr>)) (\<lambda>_.
                if found then sreturn () else sraise (GraphNotFoundErr (''node not found: '' @ i)))))"

definition upsert_edge :: "edge \<Rightarrow> string \<Rightarrow> unit store_op" where
  "upsert_edge e scope =
     dml (\<lambda>t. t\<lparr>tb_edges := AList.update (edge_key e) \<lparr>er_payload = e, er_scope = scope\<rparr> (tb_edges t)\<rparr>)"

definition delete_edge :: "node_id \<Rightarrow> edge_kind \<Rightarrow> node_id \<Rightarrow> unit store_op" where
  "delete_edge src kind dst =
     sbind (query (\<lambda>t. map_of (tb_edges t) (src, kind, dst) \<noteq> None)) (\<lambda>found.
       sbind (dml (\<lambda>t. t\<lparr>tb_edges := AList.delete (src, kind, dst) (tb_edges t)\<rparr>)) (\<lambda>_.
         if found then sreturn ()
         else sraise (GraphNotFoundErr
           (''edge not found: '' @ edge_kind_value kind @ '':'' @ src @ ''->'' @ dst))))"

definition upsert_evidence :: "evidence \<Rightarrow> string \<Rightarrow> unit store_op" where
  "upsert_evidence e scope =
     dml (\<lambda>t. t\<lparr>tb_evidence := AList.update (ev_id e) \<lparr>vr_payload = e, vr_scope = scope\<rparr> (tb_evidence t)\<rparr>)"

text \<open>Reads, as functions of the tables; a payload is validated again when it is parsed.\<close>

definition read_node :: "tables \<Rightarrow> node_id \<Rightarrow> node result" where
  "read_node t i =
     (case map_of (tb_nodes t) i of
        None \<Rightarrow> Inl (GraphNotFoundErr (''node not found: '' @ i))
      | Some r \<Rightarrow> parse_node (nr_payload r))"

definition read_evidence :: "tables \<Rightarrow> string \<Rightarrow> evidence result" where
  "read_evidence t i =
     (case map_of (tb_evidence t) i of
        None \<Rightarrow> Inl (GraphNotFoundErr (''evidence not found: '' @ i))
      | Some r \<Rightarrow> validate_evidence (vr_payload r))"

text \<open>
  \<open>_edges_query\<close>: an empty set of kinds is no filter, as \<open>if kinds:\<close> is false for it; rows come
  in the order of (kind, src, dst).
\<close>

definition kind_filter :: "edge_kind list option \<Rightarrow> edge_kind \<Rightarrow> bool" where
  "kind_filter kinds k \<longleftrightarrow> (case kinds of None \<Rightarrow> True | Some [] \<Rightarrow> True | Some ks \<Rightarrow> k \<in> set ks)"

definition row_order :: "edge_key \<times> edge_row \<Rightarrow> string \<times> string \<times> string" where
  "row_order r = (case fst r of (src, kind, dst) \<Rightarrow> (edge_kind_value kind, src, dst))"

definition edges_query ::
  "(edge_key \<Rightarrow> node_id) \<Rightarrow> tables \<Rightarrow> node_id \<Rightarrow> edge_kind list option \<Rightarrow> int \<Rightarrow> edge list" where
  "edges_query column t value kinds limit =
     (if limit \<le> 0 then []
      else map (\<lambda>r. er_payload (snd r))
             (take (nat limit)
               (sort_key row_order
                 (filter (\<lambda>(k, r). column k = value \<and> kind_filter kinds (fst (snd k))) (tb_edges t)))))"

definition edges_from :: "tables \<Rightarrow> node_id \<Rightarrow> edge_kind list option \<Rightarrow> int \<Rightarrow> edge list" where
  "edges_from = edges_query fst"

definition edges_to :: "tables \<Rightarrow> node_id \<Rightarrow> edge_kind list option \<Rightarrow> int \<Rightarrow> edge list" where
  "edges_to = edges_query (\<lambda>k. snd (snd k))"

definition read_nodes :: "tables \<Rightarrow> (node_row \<Rightarrow> bool) \<Rightarrow> int \<Rightarrow> node list result" where
  "read_nodes t P limit =
     (if limit \<le> 0 then Inr []
      else mapE (\<lambda>r. parse_node (nr_payload (snd r)))
             (take (nat limit) (sort_key fst (filter (\<lambda>r. P (snd r)) (tb_nodes t)))))"

definition list_nodes :: "tables \<Rightarrow> node_kind option \<Rightarrow> int \<Rightarrow> node list result" where
  "list_nodes t kind limit =
     (case kind of
        None \<Rightarrow> read_nodes t (\<lambda>_. True) limit
      | Some k \<Rightarrow> read_nodes t (\<lambda>r. nr_kind r = k) limit)"

text \<open>
  SQLite's LIKE: \<open>%\<close> matches any run of characters, \<open>_\<close> any one character, and ASCII letters
  match without regard to case.
\<close>

definition ascii_fold :: "char \<Rightarrow> char" where
  "ascii_fold c = (if CHR ''A'' \<le> c \<and> c \<le> CHR ''Z'' then char_of ((of_char c :: nat) + 32) else c)"

fun sql_like :: "string \<Rightarrow> string \<Rightarrow> bool" where
  "sql_like [] s \<longleftrightarrow> s = []"
| "sql_like (p # ps) [] \<longleftrightarrow> p = CHR ''%'' \<and> sql_like ps []"
| "sql_like (p # ps) (c # s) \<longleftrightarrow>
     (if p = CHR ''%'' then sql_like ps (c # s) \<or> sql_like (p # ps) s
      else (p = CHR ''_'' \<or> ascii_fold p = ascii_fold c) \<and> sql_like ps s)"

definition find_nodes_by_name :: "tables \<Rightarrow> string \<Rightarrow> bool \<Rightarrow> int \<Rightarrow> node list result" where
  "find_nodes_by_name t name exact limit =
     (if exact then read_nodes t (\<lambda>r. nr_name r = name) limit
      else read_nodes t (\<lambda>r. sql_like (name @ ''%'') (nr_name r)) limit)"

definition get_node :: "node_id \<Rightarrow> node store_op" where
  "get_node i = sbind (query (\<lambda>t. read_node t i)) slift"

definition get_evidence :: "string \<Rightarrow> evidence store_op" where
  "get_evidence i = sbind (query (\<lambda>t. read_evidence t i)) slift"

section \<open>Scopes\<close>

definition purge_scope :: "string \<Rightarrow> unit store_op" where
  "purge_scope scope =
     sbind (dml (\<lambda>t. t\<lparr>tb_edges := filter (\<lambda>(k, r). er_scope r \<noteq> scope) (tb_edges t)\<rparr>)) (\<lambda>_.
     sbind (dml (\<lambda>t. t\<lparr>tb_nodes := filter (\<lambda>(k, r). nr_scope r \<noteq> scope) (tb_nodes t)\<rparr>)) (\<lambda>_.
       dml (\<lambda>t. t\<lparr>tb_evidence := filter (\<lambda>(k, r). vr_scope r \<noteq> scope) (tb_evidence t)\<rparr>)))"

definition scope_node_ids :: "tables \<Rightarrow> string \<Rightarrow> node_id list" where
  "scope_node_ids t scope = map fst (filter (\<lambda>(k, r). nr_scope r = scope) (tb_nodes t))"

definition scope_edges :: "tables \<Rightarrow> string \<Rightarrow> edge_key list" where
  "scope_edges t scope = map fst (sort_key row_order (filter (\<lambda>(k, r). er_scope r = scope) (tb_edges t)))"

definition scope_evidence_ids :: "tables \<Rightarrow> string \<Rightarrow> string list" where
  "scope_evidence_ids t scope = map fst (filter (\<lambda>(k, r). vr_scope r = scope) (tb_evidence t))"

text \<open>The three deletion loops: one DELETE for each key of the scope that was not seen.\<close>

primrec delete_each :: "('k \<Rightarrow> tables \<Rightarrow> tables) \<Rightarrow> 'k list \<Rightarrow> unit store_op" where
  "delete_each del [] = sreturn ()"
| "delete_each del (k # ks) = sbind (dml (del k)) (\<lambda>_. delete_each del ks)"

definition purge_scope_not_seen ::
  "string \<Rightarrow> node_id list \<Rightarrow> edge_key list \<Rightarrow> string list \<Rightarrow> unit store_op" where
  "purge_scope_not_seen scope seen_nodes seen_edges seen_evidence =
     sbind (query (\<lambda>t. filter (\<lambda>k. k \<notin> set seen_edges) (scope_edges t scope))) (\<lambda>eks.
     sbind (delete_each (\<lambda>k t. t\<lparr>tb_edges := AList.delete k (tb_edges t)\<rparr>) eks) (\<lambda>_.
     sbind (query (\<lambda>t. filter (\<lambda>k. k \<notin> set seen_nodes) (scope_node_ids t scope))) (\<lambda>nks.
     sbind (delete_each (\<lambda>k t. t\<lparr>tb_nodes := AList.delete k (tb_nodes t)\<rparr>) nks) (\<lambda>_.
     sbind (query (\<lambda>t. filter (\<lambda>k. k \<notin> set seen_evidence) (scope_evidence_ids t scope))) (\<lambda>vks.
       delete_each (\<lambda>k t. t\<lparr>tb_evidence := AList.delete k (tb_evidence t)\<rparr>) vks)))))"

section \<open>The transaction contract\<close>

text \<open>
  What a client of \<open>transaction\<close> relies on: \<open>durable\<close> is the state that survives, \<open>visible\<close> the
  state the client reads, \<open>idle\<close> says that no transaction is open, \<open>ok\<close> that the store is usable.
\<close>

locale transactional =
  fixes bgn :: "('s, unit) stateful"
    and cmt :: "('s, unit) stateful"
    and rbk :: "('s, unit) stateful"
    and durable :: "'s \<Rightarrow> 'd"
    and visible :: "'s \<Rightarrow> 'd"
    and idle :: "'s \<Rightarrow> bool"
    and ok :: "'s \<Rightarrow> bool"
  assumes begin_idle: "ok s \<Longrightarrow> idle s \<Longrightarrow> \<exists>t. bgn s = (Inr (), t) \<and> durable t = durable s \<and> visible t = visible s \<and> ok t"
    and commit_ok: "ok s \<Longrightarrow> \<exists>t. cmt s = (Inr (), t) \<and> durable t = visible s \<and> visible t = visible s \<and> idle t \<and> ok t"
    and rollback_ok: "ok s \<Longrightarrow> \<exists>t. rbk s = (Inr (), t) \<and> durable t = durable s \<and> visible t = durable s \<and> idle t \<and> ok t"
begin

text \<open>A body that leaves the durable state alone runs all or nothing.\<close>

lemma all_or_nothing:
  assumes "ok s" "idle s"
    and body: "\<And>u r t. ok u \<Longrightarrow> body u = (r, t) \<Longrightarrow> ok t \<and> durable t = durable u"
    and run: "transaction_with bgn cmt rbk body s = (r, t)"
  shows "ok t \<and> idle t \<and> visible t = durable t \<and>
    (case r of
       Inl e \<Rightarrow> durable t = durable s
     | Inr x \<Rightarrow> \<exists>u u'. bgn s = (Inr (), u) \<and> body u = (Inr x, u') \<and> durable t = visible u')"
proof -
  obtain u where u: "bgn s = (Inr (), u)" "durable u = durable s" "ok u"
    using begin_idle [OF assms(1,2)] by blast
  obtain r' u' where b: "body u = (r', u')" by (cases "body u")
  from body [OF u(3) b] have u': "ok u'" "durable u' = durable u" by auto
  show ?thesis
  proof (cases r')
    case (Inl e)
    obtain w where "rbk u' = (Inr (), w)" "durable w = durable u'" "visible w = durable u'" "idle w" "ok w"
      using rollback_ok [OF u'(1)] by blast
    then show ?thesis using run u b u' Inl by (auto simp: transaction_with_def)
  next
    case (Inr x)
    obtain w where "cmt u' = (Inr (), w)" "durable w = visible u'" "visible w = visible u'" "idle w" "ok w"
      using commit_ok [OF u'(1)] by blast
    then show ?thesis using run u b u' Inr by (auto simp: transaction_with_def)
  qed
qed

end

lemma connection_simps [simp]:
  "ss_connected s \<Longrightarrow> connection s = (Inr (), s)"
  "\<not> ss_connected s \<Longrightarrow> connection s = (Inl (GraphStoreErr ''store is not initialized''), s)"
  by (simp_all add: connection_def)

lemma dml_connected [simp]:
  "ss_connected s \<Longrightarrow> dml f s = (Inr (), s\<lparr>ss_working := f (ss_working s), ss_in_tx := True\<rparr>)"
  by (simp add: dml_def)

lemma query_connected [simp]: "ss_connected s \<Longrightarrow> query f s = (Inr (f (ss_working s)), s)"
  by (simp add: query_def)

lemma begin_connected [simp]:
  "ss_connected s \<Longrightarrow> \<not> ss_in_tx s \<Longrightarrow> store_begin s = (Inr (), s\<lparr>ss_in_tx := True\<rparr>)"
  "ss_connected s \<Longrightarrow> ss_in_tx s \<Longrightarrow>
     store_begin s = (Inl (OperationalErr ''cannot start a transaction within a transaction''), s)"
  by (simp_all add: store_begin_def)

lemma commit_connected [simp]:
  "ss_connected s \<Longrightarrow> store_commit s = (Inr (), s\<lparr>ss_committed := ss_working s, ss_in_tx := False\<rparr>)"
  by (simp add: store_commit_def)

lemma rollback_connected [simp]:
  "ss_connected s \<Longrightarrow> store_rollback s = (Inr (), s\<lparr>ss_working := ss_committed s, ss_in_tx := False\<rparr>)"
  by (simp add: store_rollback_def)

interpretation sqlite: transactional store_begin store_commit store_rollback ss_committed ss_working
    "\<lambda>s. \<not> ss_in_tx s" ss_connected
  by unfold_locales auto

lemma tables_nodes_same: "t\<lparr>tb_nodes := tb_nodes t\<rparr> = (t :: tables)"
  by (cases t) simp

lemma store_working_same: "s\<lparr>ss_working := ss_working s\<rparr> = (s :: sqlite_store)"
  by (cases s) simp

subsection \<open>Keyed tables\<close>

text \<open>Primary keys: no table holds two rows with one key, and every row is stored under its own key.\<close>

definition wf_tables :: "tables \<Rightarrow> bool" where
  "wf_tables t \<longleftrightarrow>
     distinct (map fst (tb_nodes t)) \<and> distinct (map fst (tb_edges t)) \<and> distinct (map fst (tb_evidence t)) \<and>
     (\<forall>(i, r)\<in>set (tb_nodes t). node_ident (nr_payload r) = i \<and> kind_of (nr_payload r) = nr_kind r) \<and>
     (\<forall>(k, r)\<in>set (tb_edges t). edge_key (er_payload r) = k) \<and>
     (\<forall>(i, r)\<in>set (tb_evidence t). ev_id (vr_payload r) = i)"

lemma set_alist_update: "(k', r') \<in> set (AList.update k r al) \<Longrightarrow> (k' = k \<and> r' = r) \<or> (k', r') \<in> set al"
  by (induction al) (auto split: if_splits)

lemma set_alist_delete: "x \<in> set (AList.delete k al) \<Longrightarrow> x \<in> set al"
  by (simp add: AList.delete_eq)

lemma wf_upsert_node: "wf_tables t \<Longrightarrow> wf_tables (t\<lparr>tb_nodes := AList.update (node_ident n) (node_row_of n scope) (tb_nodes t)\<rparr>)"
  by (auto simp: wf_tables_def distinct_update node_row_of_def dest!: set_alist_update)

lemma wf_upsert_edge:
  "wf_tables t \<Longrightarrow> wf_tables (t\<lparr>tb_edges := AList.update (edge_key e) \<lparr>er_payload = e, er_scope = scope\<rparr> (tb_edges t)\<rparr>)"
  by (auto simp: wf_tables_def distinct_update dest!: set_alist_update)

lemma wf_upsert_evidence:
  "wf_tables t \<Longrightarrow> wf_tables (t\<lparr>tb_evidence := AList.update (ev_id e) \<lparr>vr_payload = e, vr_scope = scope\<rparr> (tb_evidence t)\<rparr>)"
  by (auto simp: wf_tables_def distinct_update dest!: set_alist_update)

lemma wf_delete:
  "wf_tables t \<Longrightarrow> wf_tables (t\<lparr>tb_nodes := AList.delete i (tb_nodes t)\<rparr>)"
  "wf_tables t \<Longrightarrow> wf_tables (t\<lparr>tb_edges := AList.delete k (tb_edges t)\<rparr>)"
  "wf_tables t \<Longrightarrow> wf_tables (t\<lparr>tb_evidence := AList.delete i (tb_evidence t)\<rparr>)"
  by (auto simp: wf_tables_def distinct_delete dest: set_alist_delete)

lemma delete_each_connected:
  "ss_connected s \<Longrightarrow> \<exists>b. delete_each del ks s =
     (Inr (), s\<lparr>ss_working := fold del ks (ss_working s), ss_in_tx := b\<rparr>) \<and> (b = (ss_in_tx s \<or> ks \<noteq> []))"
proof (induction ks arbitrary: s)
  case Nil
  then show ?case by (auto intro!: exI [of _ "ss_in_tx s"])
next
  case (Cons k ks)
  from Cons.IH [of "s\<lparr>ss_working := del k (ss_working s), ss_in_tx := True\<rparr>"] Cons.prems
  show ?case by simp
qed

lemma fold_delete_eq: "fold AList.delete ks al = filter (\<lambda>(k, r). k \<notin> set ks) al"
proof (induction ks arbitrary: al)
  case (Cons k ks)
  have "fold AList.delete (k # ks) al = filter (\<lambda>(j, r). j \<notin> set ks) (filter (\<lambda>(j, r). k \<noteq> j) al)"
    by (simp only: fold_simps Cons.IH AList.delete_eq)
  also have "\<dots> = filter (\<lambda>(j, r). j \<notin> set (k # ks)) al"
    by (induction al) (auto split: prod.splits)
  finally show ?case .
qed (simp add: split_def)

lemma fold_tb_nodes: "fold (\<lambda>k t. t\<lparr>tb_nodes := AList.delete k (tb_nodes t)\<rparr>) ks t = t\<lparr>tb_nodes := fold AList.delete ks (tb_nodes t)\<rparr>"
  by (induction ks arbitrary: t) simp_all

lemma fold_tb_edges: "fold (\<lambda>k t. t\<lparr>tb_edges := AList.delete k (tb_edges t)\<rparr>) ks t = t\<lparr>tb_edges := fold AList.delete ks (tb_edges t)\<rparr>"
  by (induction ks arbitrary: t) simp_all

lemma fold_tb_evidence: "fold (\<lambda>k t. t\<lparr>tb_evidence := AList.delete k (tb_evidence t)\<rparr>) ks t = t\<lparr>tb_evidence := fold AList.delete ks (tb_evidence t)\<rparr>"
  by (induction ks arbitrary: t) simp_all

text \<open>The effect of a purge on the tables, row by row.\<close>

definition purged :: "string \<Rightarrow> node_id list \<Rightarrow> edge_key list \<Rightarrow> string list \<Rightarrow> tables \<Rightarrow> tables" where
  "purged scope ns es vs t =
     t\<lparr>tb_nodes := filter (\<lambda>(k, r). nr_scope r = scope \<longrightarrow> k \<in> set ns) (tb_nodes t),
       tb_edges := filter (\<lambda>(k, r). er_scope r = scope \<longrightarrow> k \<in> set es) (tb_edges t),
       tb_evidence := filter (\<lambda>(k, r). vr_scope r = scope \<longrightarrow> k \<in> set vs) (tb_evidence t)\<rparr>"

lemma filter_out_scope:
  assumes "distinct (map fst al)"
  shows "filter (\<lambda>(k, r). k \<notin> set (filter (\<lambda>k. k \<notin> S) (map fst (filter (\<lambda>(k, r). P r) al)))) al =
         filter (\<lambda>(k, r). P r \<longrightarrow> k \<in> S) al"
proof (rule filter_cong [OF refl])
  fix x assume x: "x \<in> set al"
  obtain k r where kr: "x = (k, r)" by (cases x)
  have uniq: "r' = r" if "(k, r') \<in> set al" for r'
    using assms x kr that by (meson eq_key_imp_eq_value)
  have "k \<in> set (map fst (filter (\<lambda>(k, r). P r) al)) \<longleftrightarrow> P r"
  proof
    assume "k \<in> set (map fst (filter (\<lambda>(k, r). P r) al))"
    then obtain r' where "(k, r') \<in> set al" "P r'" by auto
    with uniq show "P r" by simp
  next
    assume "P r"
    then have "(k, r) \<in> set (filter (\<lambda>(k, r). P r) al)" using x kr by simp
    then show "k \<in> set (map fst (filter (\<lambda>(k, r). P r) al))" by (metis fst_conv image_eqI set_map)
  qed
  then show "(case x of (k, r) \<Rightarrow> k \<notin> set (filter (\<lambda>k. k \<notin> S) (map fst (filter (\<lambda>(k, r). P r) al)))) =
        (case x of (k, r) \<Rightarrow> P r \<longrightarrow> k \<in> S)"
    by (simp only: kr prod.case set_filter mem_Collect_eq) blast
qed

lemma purge_scope_not_seen_connected:
  assumes "ss_connected s" "wf_tables (ss_working s)"
  shows "\<exists>b. purge_scope_not_seen scope ns es vs s =
     (Inr (), s\<lparr>ss_working := purged scope ns es vs (ss_working s), ss_in_tx := b\<rparr>)"
proof -
  let ?t = "ss_working s"
  define eks where "eks = filter (\<lambda>k. k \<notin> set es) (scope_edges ?t scope)"
  define nks where "nks = filter (\<lambda>k. k \<notin> set ns) (scope_node_ids ?t scope)"
  define vks where "vks = filter (\<lambda>k. k \<notin> set vs) (scope_evidence_ids ?t scope)"
  define s1 where "s1 = s\<lparr>ss_working := ?t\<lparr>tb_edges := fold AList.delete eks (tb_edges ?t)\<rparr>, ss_in_tx := ss_in_tx s \<or> eks \<noteq> []\<rparr>"
  define s2 where "s2 = s1\<lparr>ss_working := (ss_working s1)\<lparr>tb_nodes := fold AList.delete nks (tb_nodes ?t)\<rparr>, ss_in_tx := ss_in_tx s1 \<or> nks \<noteq> []\<rparr>"
  have d1: "delete_each (\<lambda>k t. t\<lparr>tb_edges := AList.delete k (tb_edges t)\<rparr>) eks s = (Inr (), s1)"
    using delete_each_connected [OF assms(1), of "\<lambda>k t. t\<lparr>tb_edges := AList.delete k (tb_edges t)\<rparr>" eks]
    by (auto simp: fold_tb_edges s1_def)
  have c1: "ss_connected s1" using assms(1) by (simp add: s1_def)
  have n1: "tb_nodes (ss_working s1) = tb_nodes ?t" by (simp add: s1_def)
  have d2: "delete_each (\<lambda>k t. t\<lparr>tb_nodes := AList.delete k (tb_nodes t)\<rparr>) nks s1 = (Inr (), s2)"
    using delete_each_connected [OF c1, of "\<lambda>k t. t\<lparr>tb_nodes := AList.delete k (tb_nodes t)\<rparr>" nks]
    by (auto simp: fold_tb_nodes s2_def n1)
  have c2: "ss_connected s2" using c1 by (simp add: s2_def)
  have v2: "tb_evidence (ss_working s2) = tb_evidence ?t" by (simp add: s2_def s1_def)
  have q2: "filter (\<lambda>k. k \<notin> set ns) (scope_node_ids (ss_working s1) scope) = nks"
    by (simp add: nks_def scope_node_ids_def n1)
  have q3: "filter (\<lambda>k. k \<notin> set vs) (scope_evidence_ids (ss_working s2) scope) = vks"
    by (simp add: vks_def scope_evidence_ids_def v2)
  obtain b where d3: "delete_each (\<lambda>k t. t\<lparr>tb_evidence := AList.delete k (tb_evidence t)\<rparr>) vks s2 =
      (Inr (), s2\<lparr>ss_working := (ss_working s2)\<lparr>tb_evidence := fold AList.delete vks (tb_evidence ?t)\<rparr>, ss_in_tx := b\<rparr>)"
    using delete_each_connected [OF c2, of "\<lambda>k t. t\<lparr>tb_evidence := AList.delete k (tb_evidence t)\<rparr>" vks]
    by (auto simp: fold_tb_evidence v2)
  have wf: "distinct (map fst (tb_nodes ?t))" "distinct (map fst (tb_edges ?t))" "distinct (map fst (tb_evidence ?t))"
    using assms(2) by (simp_all add: wf_tables_def)
  have f1: "fold AList.delete nks (tb_nodes ?t) = filter (\<lambda>(k, r). nr_scope r = scope \<longrightarrow> k \<in> set ns) (tb_nodes ?t)"
    unfolding fold_delete_eq nks_def scope_node_ids_def by (rule filter_out_scope [OF wf(1)])
  have f3: "fold AList.delete vks (tb_evidence ?t) = filter (\<lambda>(k, r). vr_scope r = scope \<longrightarrow> k \<in> set vs) (tb_evidence ?t)"
    unfolding fold_delete_eq vks_def scope_evidence_ids_def by (rule filter_out_scope [OF wf(3)])
  have "set eks = set (filter (\<lambda>k. k \<notin> set es) (map fst (filter (\<lambda>(k, r). er_scope r = scope) (tb_edges ?t))))"
    by (simp add: eks_def scope_edges_def)
  then have f2: "fold AList.delete eks (tb_edges ?t) = filter (\<lambda>(k, r). er_scope r = scope \<longrightarrow> k \<in> set es) (tb_edges ?t)"
    unfolding fold_delete_eq by (simp only: filter_out_scope [OF wf(2)])
  have "purge_scope_not_seen scope ns es vs s =
      (Inr (), s2\<lparr>ss_working := (ss_working s2)\<lparr>tb_evidence := fold AList.delete vks (tb_evidence ?t)\<rparr>, ss_in_tx := b\<rparr>)"
    unfolding purge_scope_not_seen_def using assms(1) c1 c2
    by (simp add: eks_def [symmetric] d1 q2 d2 q3 d3)
  then show ?thesis
    by (intro exI [of _ b]) (simp add: s2_def s1_def purged_def f1 f2 f3)
qed

lemma wf_purged: "wf_tables t \<Longrightarrow> wf_tables (purged scope ns es vs t)"
  by (auto simp: wf_tables_def purged_def intro: distinct_map_filter)

lemma map_of_filter_row:
  "distinct (map fst al) \<Longrightarrow> map_of (filter (\<lambda>(k, r). P k r) al) k =
     (case map_of al k of None \<Rightarrow> None | Some r \<Rightarrow> if P k r then Some r else None)"
  by (induction al) (auto split: option.splits simp: map_of_eq_None_iff image_iff)

subsection \<open>Edge queries\<close>

text \<open>The rows an edge query ranges over, in its order and without its limit.\<close>

definition matching_edges ::
  "(edge_key \<Rightarrow> node_id) \<Rightarrow> tables \<Rightarrow> node_id \<Rightarrow> edge_kind list option \<Rightarrow> edge list" where
  "matching_edges column t value kinds =
     map (\<lambda>r. er_payload (snd r))
       (sort_key row_order (filter (\<lambda>(k, r). column k = value \<and> kind_filter kinds (fst (snd k))) (tb_edges t)))"

definition stored_edges :: "tables \<Rightarrow> edge set" where
  "stored_edges t = (\<lambda>r. er_payload (snd r)) ` set (tb_edges t)"

lemma edges_query_take: "edges_query column t value kinds limit = take (nat limit) (matching_edges column t value kinds)"
  by (simp add: edges_query_def matching_edges_def take_map)

lemma stored_edge_key: "wf_tables t \<Longrightarrow> (k, r) \<in> set (tb_edges t) \<Longrightarrow> edge_key (er_payload r) = k"
  by (auto simp: wf_tables_def)

lemma edge_key_inj_stored: "wf_tables t \<Longrightarrow> inj_on edge_key (stored_edges t)"
proof (rule inj_onI)
  fix a b
  assume wf: "wf_tables t" and ab: "a \<in> stored_edges t" "b \<in> stored_edges t" and eq: "edge_key a = edge_key b"
  obtain k r where a: "(k, r) \<in> set (tb_edges t)" "a = er_payload r" using ab(1) by (auto simp: stored_edges_def)
  obtain k' r' where b: "(k', r') \<in> set (tb_edges t)" "b = er_payload r'" using ab(2) by (auto simp: stored_edges_def)
  have "k = k'" using a b eq stored_edge_key [OF wf] by metis
  moreover have "distinct (map fst (tb_edges t))" using wf by (simp add: wf_tables_def)
  ultimately have "r = r'" using a(1) b(1) by (meson eq_key_imp_eq_value)
  then show "a = b" using a b by simp
qed

lemma set_matching_edges:
  assumes "wf_tables t"
  shows "set (matching_edges column t value kinds) =
     {e \<in> stored_edges t. column (edge_key e) = value \<and> kind_filter kinds (ed_kind e)}"
proof -
  have "fst (snd k) = ed_kind (er_payload r)" if "(k, r) \<in> set (tb_edges t)" for k r
    using stored_edge_key [OF assms that] by (auto simp: edge_key_def)
  then show ?thesis
    by (auto simp: matching_edges_def stored_edges_def image_iff stored_edge_key [OF assms] split_def
        intro!: bexI)
qed

lemma row_order_eq: "wf_tables t \<Longrightarrow> x \<in> set (tb_edges t) \<Longrightarrow> row_order x = edge_sort_key (er_payload (snd x))"
  using stored_edge_key [of t "fst x" "snd x"]
  by (cases x) (auto simp: row_order_def edge_sort_key_def edge_key_def split: prod.splits)

lemma sorted_matching_edges:
  assumes "wf_tables t"
  shows "sorted (map edge_sort_key (matching_edges column t value kinds))"
proof -
  let ?rows = "sort_key row_order (filter (\<lambda>(k, r). column k = value \<and> kind_filter kinds (fst (snd k))) (tb_edges t))"
  have "map edge_sort_key (matching_edges column t value kinds) = map row_order ?rows"
    unfolding matching_edges_def map_map o_def
    by (rule map_cong [OF refl]) (auto simp: row_order_eq [OF assms])
  then show ?thesis by simp
qed

lemma distinct_matching_edges:
  assumes "wf_tables t"
  shows "distinct (map edge_key (matching_edges column t value kinds))"
proof -
  let ?rows = "filter (\<lambda>(k, r). column k = value \<and> kind_filter kinds (fst (snd k))) (tb_edges t)"
  have "map edge_key (matching_edges column t value kinds) = map fst (sort_key row_order ?rows)"
    unfolding matching_edges_def map_map o_def
    by (rule map_cong [OF refl]) (auto simp: stored_edge_key [OF assms])
  moreover have "distinct (map fst ?rows)"
    using assms by (simp add: wf_tables_def distinct_map_filter)
  ultimately show ?thesis
    by (simp add: distinct_map)
qed

section \<open>Properties\<close>

text \<open>
  Reading back what was written: after a node is upserted on an open store, \<open>get_node\<close> returns
  exactly that node when it is settled (valid, with provenance that a second validation leaves
  alone), and every other key reads as it did before.
\<close>

theorem upsert_then_get_node:
  assumes "ss_connected s" and "settled_node n"
  shows "\<exists>t. upsert_node n scope s = (Inr (), t) \<and> fst (get_node (node_ident n) t) = Inr n \<and>
     (\<forall>i. i \<noteq> node_ident n \<longrightarrow> fst (get_node i t) = fst (get_node i s))"
  using assms
  by (simp add: upsert_node_def get_node_def read_node_def update_conv' node_row_of_def parse_settled)

definition empty_tables :: tables where
  "empty_tables = \<lparr>tb_meta = Some (schema_version, ''/r''), tb_nodes = [], tb_edges = [], tb_evidence = []\<rparr>"

definition open_store :: "tables \<Rightarrow> sqlite_store" where
  "open_store t =
     \<lparr>ss_workspace_root = ''/r'', ss_connected = True, ss_working = t, ss_committed = t, ss_in_tx = False\<rparr>"

definition sample_file :: "string \<Rightarrow> node" where
  "sample_file path =
     FileNode \<lparr>gn_id = ''file:'' @ path, gn_name = path, gn_evidence_ids = [],
       gn_provenance = [sample_entry SK_MANIFEST [path]], fi_repository_rel_path = path,
       fi_language = None, fi_owner_id = ''component:a''\<rparr>"

theorem upsert_then_get_node_witness:
  "\<exists>t. upsert_node (sample_file ''a.py'') ''provider:npm:x'' (open_store empty_tables) = (Inr (), t) \<and>
     fst (get_node ''file:a.py'' t) = Inr (sample_file ''a.py'')"
proof -
  have "settled_node (sample_file ''a.py'')" unfolding settled_node_def settled_entry_def by code_simp
  then have *: "\<exists>t. upsert_node (sample_file ''a.py'') ''provider:npm:x'' (open_store empty_tables) = (Inr (), t) \<and>
     fst (get_node (node_ident (sample_file ''a.py'')) t) = Inr (sample_file ''a.py'') \<and>
     (\<forall>i. i \<noteq> node_ident (sample_file ''a.py'') \<longrightarrow> fst (get_node i t) = fst (get_node i (open_store empty_tables)))"
    by (intro upsert_then_get_node) (simp_all add: open_store_def)
  have "node_ident (sample_file ''a.py'') = ''file:a.py''" by (simp add: sample_file_def node_ident_def)
  with * show ?thesis by auto
qed

text \<open>
  An edge query returns, in the order of (kind, source, target), a prefix of the matching edges
  that is as long as the limit allows: it returns all of them whenever it returns fewer than the
  limit, and never an edge that does not match.
\<close>

theorem edges_from_sound_and_complete:
  assumes "wf_tables t"
  shows "sorted (map edge_sort_key (edges_from t v kinds limit)) \<and>
     length (edges_from t v kinds limit) \<le> nat limit \<and>
     set (edges_from t v kinds limit) \<subseteq> {e \<in> stored_edges t. ed_src e = v \<and> kind_filter kinds (ed_kind e)} \<and>
     (length (edges_from t v kinds limit) < nat limit \<longrightarrow>
        set (edges_from t v kinds limit) = {e \<in> stored_edges t. ed_src e = v \<and> kind_filter kinds (ed_kind e)})"
proof -
  have s: "set (matching_edges fst t v kinds) = {e \<in> stored_edges t. ed_src e = v \<and> kind_filter kinds (ed_kind e)}"
    by (simp add: set_matching_edges [OF assms] edge_key_def)
  have "sorted (map edge_sort_key (edges_from t v kinds limit))"
    using sorted_matching_edges [OF assms] unfolding edges_from_def edges_query_take take_map [symmetric]
    by (rule sorted_wrt_take)
  then show ?thesis
    using s by (auto simp: edges_from_def edges_query_take dest: in_set_takeD)
qed

definition sample_edge :: "edge_kind \<Rightarrow> node_id \<Rightarrow> node_id \<Rightarrow> edge" where
  "sample_edge k a b = \<lparr>ed_kind = k, ed_src = a, ed_dst = b, ed_evidence_ids = []\<rparr>"

definition sample_tables :: tables where
  "sample_tables = empty_tables\<lparr>
     tb_nodes := map (\<lambda>p. (''file:'' @ p, node_row_of (sample_file p) ''provider:npm:x'')) [''a'', ''b'', ''c''],
     tb_edges := map (\<lambda>e. (edge_key e, \<lparr>er_payload = e, er_scope = ''provider:npm:x''\<rparr>))
       [sample_edge DEPENDS_ON ''file:a'' ''file:b'', sample_edge DEPENDS_ON ''file:b'' ''file:c'']\<rparr>"

lemma wf_sample_tables: "wf_tables sample_tables"
  by (simp add: wf_tables_def sample_tables_def empty_tables_def node_row_of_def sample_file_def node_ident_def
      edge_key_def sample_edge_def)

theorem edges_from_sound_and_complete_witness:
  "set (edges_from sample_tables ''file:a'' None 10) \<subseteq>
     {e \<in> stored_edges sample_tables. ed_src e = ''file:a'' \<and> kind_filter None (ed_kind e)}"
  using edges_from_sound_and_complete [OF wf_sample_tables] by blast

text \<open>
  C11. A transaction is all or nothing: on an idle open store, when the body touches the database
  only through statements, a failing body leaves the database file and the visible tables exactly
  as they were, a successful one commits exactly what the body left visible, and in both cases no
  transaction stays open.
\<close>

theorem transaction_all_or_nothing:
  assumes "ss_connected s" and "\<not> ss_in_tx s"
    and "\<And>u r t. ss_connected u \<Longrightarrow> body u = (r, t) \<Longrightarrow> ss_connected t \<and> ss_committed t = ss_committed u"
    and "transaction body s = (r, t)"
  shows "\<not> ss_in_tx t \<and> ss_working t = ss_committed t \<and>
     (case r of
        Inl e \<Rightarrow> ss_committed t = ss_committed s
      | Inr x \<Rightarrow> \<exists>u. body (s\<lparr>ss_in_tx := True\<rparr>) = (Inr x, u) \<and> ss_committed t = ss_working u)"
proof -
  have run: "transaction_with store_begin store_commit store_rollback body s = (r, t)"
    using assms(4) by (simp add: transaction_def)
  have "store_begin s = (Inr (), s\<lparr>ss_in_tx := True\<rparr>)" using assms(1,2) by simp
  with sqlite.all_or_nothing [OF assms(1) _ assms(3) run] assms(2)
  show ?thesis by (cases r) auto
qed

theorem transaction_all_or_nothing_witness:
  "\<not> ss_in_tx (snd (transaction (sbind (upsert_node (sample_file ''z'') ''provider:npm:x'')
       (\<lambda>_. sraise AssertionErr) :: unit store_op) (open_store sample_tables)))"
proof -
  let ?body = "sbind (upsert_node (sample_file ''z'') ''provider:npm:x'') (\<lambda>_. sraise AssertionErr) :: unit store_op"
  obtain r t where run: "transaction ?body (open_store sample_tables) = (r, t)" by fastforce
  have body: "ss_connected v \<and> ss_committed v = ss_committed u" if "ss_connected u" "?body u = (q, v)" for u q v
    using that by (auto simp: upsert_node_def)
  have "\<not> ss_in_tx t"
    using transaction_all_or_nothing [OF _ _ body run] by (simp add: open_store_def)
  then show ?thesis using run by simp
qed

text \<open>
  Deleting a missing node raises, but the DELETE has already opened a transaction which nothing
  closes: the tables are unchanged, and every later explicit transaction on the store fails.
\<close>

theorem delete_missing_node_blocks_transactions:
  assumes "ss_connected s" and "map_of (tb_nodes (ss_working s)) i = None"
    and "\<forall>(k, r) \<in> set (tb_edges (ss_working s)). fst k \<noteq> i \<and> snd (snd k) \<noteq> i"
  shows "\<exists>t. delete_node i s = (Inl (GraphNotFoundErr (''node not found: '' @ i)), t) \<and>
     ss_working t = ss_working s \<and> ss_committed t = ss_committed s \<and>
     (\<forall>body :: 'a store_op. transaction body t =
        (Inl (OperationalErr ''cannot start a transaction within a transaction''), t))"
proof -
  have nr: "\<not> (\<exists>(k, r) \<in> set (tb_edges (ss_working s)). fst k = i \<or> snd (snd k) = i)"
    using assms(3) by auto
  have "AList.delete i (tb_nodes (ss_working s)) = tb_nodes (ss_working s)"
    using assms(2) by (intro AList.delete_id) (simp add: map_of_eq_None_iff)
  then have same: "s\<lparr>ss_working := (ss_working s)\<lparr>tb_nodes := AList.delete i (tb_nodes (ss_working s))\<rparr>, ss_in_tx := True\<rparr>
      = s\<lparr>ss_in_tx := True\<rparr>" by (simp only: tables_nodes_same store_working_same)
  have del: "delete_node i s = (Inl (GraphNotFoundErr (''node not found: '' @ i)), s\<lparr>ss_in_tx := True\<rparr>)"
    unfolding delete_node_def sbind_def query_connected [OF assms(1)] dml_connected [OF assms(1)]
    using nr assms(2) same by (simp add: query_connected [OF assms(1)] dml_connected [OF assms(1)])
  have "transaction body (s\<lparr>ss_in_tx := True\<rparr>) =
      (Inl (OperationalErr ''cannot start a transaction within a transaction''), s\<lparr>ss_in_tx := True\<rparr>)" for body :: "'a store_op"
    using assms(1) by (simp add: transaction_def transaction_with_def)
  with del show ?thesis by (intro exI [of _ "s\<lparr>ss_in_tx := True\<rparr>"]) simp
qed

theorem delete_missing_node_blocks_transactions_witness:
  "\<exists>t. delete_node ''file:q'' (open_store sample_tables) = (Inl (GraphNotFoundErr ''node not found: file:q''), t) \<and>
     fst (transaction (sreturn ()) t) = Inl (OperationalErr ''cannot start a transaction within a transaction'')"
proof -
  have "map_of (tb_nodes sample_tables) ''file:q'' = None"
    and "\<forall>(k, r) \<in> set (tb_edges sample_tables). fst k \<noteq> ''file:q'' \<and> snd (snd k) \<noteq> ''file:q''"
    by (simp_all add: sample_tables_def empty_tables_def edge_key_def sample_edge_def)
  with delete_missing_node_blocks_transactions [of "open_store sample_tables" "''file:q''"]
  obtain t where "delete_node ''file:q'' (open_store sample_tables) =
      (Inl (GraphNotFoundErr (''node not found: '' @ ''file:q'')), t)"
    and "transaction (sreturn ()) t = (Inl (OperationalErr ''cannot start a transaction within a transaction''), t)"
    unfolding open_store_def by auto
  then show ?thesis by (intro exI [of _ t]) simp
qed

text \<open>
  The prefix search hands the name to LIKE without escaping it, so an underscore in the name
  matches any character and letter case is ignored: a search for \<open>a_b\<close> also finds \<open>AXB\<close>, which does
  not start with it.
\<close>

theorem find_by_name_prefix_is_a_pattern:
  "\<exists>t. wf_tables t \<and> find_nodes_by_name t ''a_b'' False 10 = Inr [sample_file ''AXB''] \<and>
     \<not> startswith ''AXB'' ''a_b''"
proof (intro exI conjI)
  let ?t = "empty_tables\<lparr>tb_nodes := [(''file:AXB'', node_row_of (sample_file ''AXB'') ''provider:npm:x'')]\<rparr>"
  show "wf_tables ?t"
    by (simp add: wf_tables_def empty_tables_def node_row_of_def sample_file_def node_ident_def)
  show "find_nodes_by_name ?t ''a_b'' False 10 = Inr [sample_file ''AXB'']" by code_simp
  show "\<not> startswith ''AXB'' ''a_b''" by simp
qed

end
