(* ===== verification/Graph_Query.thy ===== *)
theory Graph_Query
  imports Graph_Store
begin

text \<open>
  The bounded breadth-first query (\<open>core/models/queries.py\<close>). The search is defined over the read
  operations of a \<open>GraphStore\<close> as parameters, as the code takes the store as an argument; the
  locale \<open>graph_reader\<close> states what it relies on, and the SQLite store interprets it.

  The dictionaries \<open>distance\<close>, \<open>nodes\<close> and \<open>edge_map\<close> are association lists in insertion order;
  \<open>edge_keys\<close> is the set of keys of \<open>edge_map\<close>. The loop terminates because every pushed node is
  counted against \<open>max_nodes\<close>.
\<close>

section \<open>The search\<close>

record bfs_state =
  bf_distance :: "(node_id \<times> int) list"
  bf_nodes :: "(node_id \<times> node) list"
  bf_edge_map :: "((string \<times> string \<times> string) \<times> edge) list"
  bf_queue :: "node_id list"

definition raise_if_exceeds :: "int \<Rightarrow> nat \<Rightarrow> string \<Rightarrow> unit result" where
  "raise_if_exceeds max_value observed what =
     check (int observed \<le> max_value)
       (GraphQueryLimitErr (''query exceeded '' @ what @ '' limit: '' @ str_nat observed @ ''>'' @ str_int max_value))"

text \<open>\<open>node_kinds and node.kind not in node_kinds\<close>: an empty set of kinds excludes nothing.\<close>

definition node_kind_ok :: "node_kind list option \<Rightarrow> node \<Rightarrow> bool" where
  "node_kind_ok kinds n \<longleftrightarrow> (case kinds of None \<Rightarrow> True | Some [] \<Rightarrow> True | Some ks \<Rightarrow> kind_of n \<in> set ks)"

definition bfs_seed ::
  "(node_id \<Rightarrow> node result) \<Rightarrow> node_kind list option \<Rightarrow> node_id \<Rightarrow> bfs_state \<Rightarrow> bfs_state result" where
  "bfs_seed get node_kinds seed_id st =
     ebind (get seed_id) (\<lambda>n.
       if \<not> node_kind_ok node_kinds n then Inr st
       else if seed_id \<in> fst ` set (bf_distance st) then Inr st
       else Inr (st\<lparr>bf_distance := bf_distance st @ [(seed_id, 0)], bf_nodes := bf_nodes st @ [(seed_id, n)]\<rparr>))"

definition next_node_id :: "node_id \<Rightarrow> edge \<Rightarrow> node_id" where
  "next_node_id current e = (if ed_src e = current then ed_dst e else ed_src e)"

definition record_edge :: "int \<Rightarrow> edge \<Rightarrow> bfs_state \<Rightarrow> bfs_state result" where
  "record_edge max_edges e st =
     (if edge_sort_key e \<in> fst ` set (bf_edge_map st) then Inr st
      else ebind (raise_if_exceeds max_edges (Suc (length (bf_edge_map st))) ''edge'') (\<lambda>_.
        Inr (st\<lparr>bf_edge_map := bf_edge_map st @ [(edge_sort_key e, e)]\<rparr>)))"

definition visit_next ::
  "(node_id \<Rightarrow> node result) \<Rightarrow> node_kind list option \<Rightarrow> int \<Rightarrow> int \<Rightarrow> node_id \<Rightarrow> bfs_state \<Rightarrow> bfs_state result" where
  "visit_next get node_kinds max_nodes current_depth w st =
     (if w \<in> fst ` set (bf_distance st) then Inr st
      else case get w of
             Inl (GraphNotFoundErr m) \<Rightarrow> Inr st
           | Inl e \<Rightarrow> Inl e
           | Inr n \<Rightarrow>
               if \<not> node_kind_ok node_kinds n then Inr st
               else ebind (raise_if_exceeds max_nodes (Suc (length (bf_nodes st))) ''node'') (\<lambda>_.
                      Inr (st\<lparr>bf_distance := bf_distance st @ [(w, current_depth + 1)],
                              bf_nodes := bf_nodes st @ [(w, n)],
                              bf_queue := bf_queue st @ [w]\<rparr>)))"

definition visit_edge ::
  "(node_id \<Rightarrow> node result) \<Rightarrow> node_kind list option \<Rightarrow> int \<Rightarrow> int \<Rightarrow> node_id \<Rightarrow> int \<Rightarrow> edge \<Rightarrow> bfs_state \<Rightarrow> bfs_state result" where
  "visit_edge get node_kinds max_nodes max_edges current current_depth e st =
     ebind (record_edge max_edges e st)
       (visit_next get node_kinds max_nodes current_depth (next_node_id current e))"

definition incident_edges ::
  "(node_id \<Rightarrow> edge_kind list option \<Rightarrow> int \<Rightarrow> edge list) \<Rightarrow> (node_id \<Rightarrow> edge_kind list option \<Rightarrow> int \<Rightarrow> edge list) \<Rightarrow>
   string \<Rightarrow> edge_kind list option \<Rightarrow> int \<Rightarrow> node_id \<Rightarrow> edge list" where
  "incident_edges out_edges in_edges direction edge_kinds max_edges current =
     sort_key edge_sort_key
       ((if direction \<in> {''out'', ''both''} then out_edges current edge_kinds (max_edges + 1) else []) @
        (if direction \<in> {''in'', ''both''} then in_edges current edge_kinds (max_edges + 1) else []))"

lemma visit_edge_balance:
  assumes "visit_edge get ks M E v d e s = Inr t"
  shows "length (bf_queue t) + (nat M - length (bf_nodes t)) = length (bf_queue s) + (nat M - length (bf_nodes s))"
proof -
  from assms obtain u where u: "record_edge E e s = Inr u" and t: "visit_next get ks M d (next_node_id v e) u = Inr t"
    by (auto simp: visit_edge_def ebind_Inr_iff)
  have "bf_queue u = bf_queue s" "bf_nodes u = bf_nodes s"
    using u by (auto simp: record_edge_def ebind_Inr_iff split: if_splits)
  with t show ?thesis
    by (auto simp: visit_next_def raise_if_exceeds_def ebind_Inr_iff split: if_splits sum.splits err.splits)
qed

lemma visit_edges_balance:
  assumes "foldE (visit_edge get ks M E v d) es s = Inr t"
  shows "length (bf_queue t) + (nat M - length (bf_nodes t)) = length (bf_queue s) + (nat M - length (bf_nodes s))"
  using assms
  by (rule foldE_invariant [where I = "\<lambda>u. length (bf_queue u) + (nat M - length (bf_nodes u)) =
        length (bf_queue s) + (nat M - length (bf_nodes s))"])
    (auto dest: visit_edge_balance)

function bfs_loop ::
  "(node_id \<Rightarrow> node result) \<Rightarrow> (node_id \<Rightarrow> edge list) \<Rightarrow> node_kind list option \<Rightarrow> int \<Rightarrow> int \<Rightarrow> int \<Rightarrow> bfs_state \<Rightarrow> bfs_state result" where
  "bfs_loop get incident node_kinds depth max_nodes max_edges st =
     (case bf_queue st of
        [] \<Rightarrow> Inr st
      | current # rest \<Rightarrow>
          (let current_depth = the (map_of (bf_distance st) current); st' = st\<lparr>bf_queue := rest\<rparr> in
           if depth \<le> current_depth then bfs_loop get incident node_kinds depth max_nodes max_edges st'
           else ebind (foldE (visit_edge get node_kinds max_nodes max_edges current current_depth) (incident current) st')
                  (bfs_loop get incident node_kinds depth max_nodes max_edges)))"
  by pat_completeness auto
termination
  by (relation "measure (\<lambda>(get, incident, node_kinds, depth, max_nodes, max_edges, st).
        length (bf_queue st) + (nat max_nodes - length (bf_nodes st)))")
    (auto dest: visit_edges_balance)

declare bfs_loop.simps [simp del]

definition collect_evidence ::
  "(string \<Rightarrow> evidence result) \<Rightarrow> string list \<Rightarrow> (string \<times> evidence) list \<Rightarrow> (string \<times> evidence) list result" where
  "collect_evidence get_ev ids =
     foldE (\<lambda>i acc. if i \<in> fst ` set acc then Inr acc else ebind (get_ev i) (\<lambda>v. Inr (acc @ [(i, v)]))) ids"

definition sorted_subgraph ::
  "(node_id \<times> node) list \<Rightarrow> ((string \<times> string \<times> string) \<times> edge) list \<Rightarrow> (string \<times> evidence) list \<Rightarrow> subgraph result" where
  "sorted_subgraph ns em ev =
     validate_integrity \<lparr>sg_nodes = sort_key fst ns, sg_edges = map snd (sort_key fst em), sg_evidence = sort_key fst ev\<rparr>"

definition bfs_start ::
  "(node_id \<Rightarrow> node result) \<Rightarrow> node_kind list option \<Rightarrow> int \<Rightarrow> node_id list \<Rightarrow> bfs_state result" where
  "bfs_start get node_kinds max_nodes seed_ids =
     ebind (foldE (bfs_seed get node_kinds) (sort seed_ids)
        \<lparr>bf_distance = [], bf_nodes = [], bf_edge_map = [], bf_queue = []\<rparr>) (\<lambda>st.
     ebind (raise_if_exceeds max_nodes (length (bf_nodes st)) ''node'') (\<lambda>_.
       Inr (st\<lparr>bf_queue := sort (map fst (bf_distance st))\<rparr>)))"

definition bfs_search ::
  "(node_id \<Rightarrow> node result) \<Rightarrow> (node_id \<Rightarrow> edge_kind list option \<Rightarrow> int \<Rightarrow> edge list) \<Rightarrow>
   (node_id \<Rightarrow> edge_kind list option \<Rightarrow> int \<Rightarrow> edge list) \<Rightarrow> node_id list \<Rightarrow> int \<Rightarrow>
   edge_kind list option \<Rightarrow> node_kind list option \<Rightarrow> int \<Rightarrow> int \<Rightarrow> string \<Rightarrow> bfs_state result" where
  "bfs_search get out_edges in_edges seed_ids depth edge_kinds node_kinds max_nodes max_edges direction =
     ebind (check (0 \<le> depth) (ValueErr ''depth must be >= 0'')) (\<lambda>_.
     ebind (check (0 < max_nodes \<and> 0 < max_edges) (ValueErr ''max_nodes and max_edges must be > 0'')) (\<lambda>_.
     ebind (bfs_start get node_kinds max_nodes seed_ids)
       (bfs_loop get (incident_edges out_edges in_edges direction edge_kinds max_edges)
          node_kinds depth max_nodes max_edges)))"

definition query_subgraph_bfs ::
  "(node_id \<Rightarrow> node result) \<Rightarrow> (node_id \<Rightarrow> edge_kind list option \<Rightarrow> int \<Rightarrow> edge list) \<Rightarrow>
   (node_id \<Rightarrow> edge_kind list option \<Rightarrow> int \<Rightarrow> edge list) \<Rightarrow> (string \<Rightarrow> evidence result) \<Rightarrow> node_id list \<Rightarrow> int \<Rightarrow>
   edge_kind list option \<Rightarrow> node_kind list option \<Rightarrow> int \<Rightarrow> int \<Rightarrow> string \<Rightarrow> subgraph result" where
  "query_subgraph_bfs get out_edges in_edges get_ev seed_ids depth edge_kinds node_kinds max_nodes max_edges direction =
     ebind (bfs_search get out_edges in_edges seed_ids depth edge_kinds node_kinds max_nodes max_edges direction) (\<lambda>st.
     ebind (collect_evidence get_ev (concat (map (\<lambda>(i, n). node_evidence_ids n) (bf_nodes st))) []) (\<lambda>ev.
     ebind (collect_evidence get_ev (concat (map (\<lambda>(k, e). ed_evidence_ids e) (bf_edge_map st))) ev) (\<lambda>ev'.
       sorted_subgraph (bf_nodes st) (bf_edge_map st) ev')))"

section \<open>What the search should find\<close>

text \<open>Reachability in exactly \<open>n\<close> steps of a neighbour relation.\<close>

inductive reach_in :: "(node_id \<Rightarrow> node_id \<Rightarrow> bool) \<Rightarrow> (node_id \<Rightarrow> bool) \<Rightarrow> nat \<Rightarrow> node_id \<Rightarrow> bool"
  for nbr :: "node_id \<Rightarrow> node_id \<Rightarrow> bool" and seed :: "node_id \<Rightarrow> bool" where
  reach_seed: "seed v \<Longrightarrow> reach_in nbr seed 0 v"
| reach_step: "reach_in nbr seed n v \<Longrightarrow> nbr v w \<Longrightarrow> reach_in nbr seed (Suc n) w"

inductive_cases reach_zeroE: "reach_in nbr seed 0 v"
inductive_cases reach_SucE: "reach_in nbr seed (Suc n) w"

definition follows :: "string \<Rightarrow> edge_kind list option \<Rightarrow> node_id \<Rightarrow> edge \<Rightarrow> bool" where
  "follows direction kinds v e \<longleftrightarrow> kind_filter kinds (ed_kind e) \<and>
     ((direction \<in> {''out'', ''both''} \<and> ed_src e = v) \<or> (direction \<in> {''in'', ''both''} \<and> ed_dst e = v))"

definition accepted :: "(node_id \<Rightarrow> node result) \<Rightarrow> node_kind list option \<Rightarrow> node_id \<Rightarrow> bool" where
  "accepted get kinds w \<longleftrightarrow> (\<exists>n. get w = Inr n \<and> node_kind_ok kinds n)"

definition neighbour ::
  "(node_id \<Rightarrow> node result) \<Rightarrow> edge set \<Rightarrow> string \<Rightarrow> edge_kind list option \<Rightarrow> node_kind list option \<Rightarrow> node_id \<Rightarrow> node_id \<Rightarrow> bool" where
  "neighbour get edges direction edge_kinds node_kinds v w \<longleftrightarrow>
     accepted get node_kinds w \<and> (\<exists>e\<in>edges. follows direction edge_kinds v e \<and> {ed_src e, ed_dst e} = {v, w})"

text \<open>The code's next node is the other end of the edge.\<close>

lemma next_node_other_end: "follows direction kinds v e \<Longrightarrow> w = next_node_id v e \<longleftrightarrow> {ed_src e, ed_dst e} = {v, w}"
  by (auto simp: follows_def next_node_id_def doubleton_eq_iff)

lemma neighbour_iff:
  "neighbour get edges direction edge_kinds node_kinds v w \<longleftrightarrow>
     accepted get node_kinds w \<and> (\<exists>e\<in>edges. follows direction edge_kinds v e \<and> w = next_node_id v e)"
  using next_node_other_end [of direction edge_kinds v] unfolding neighbour_def by (metis (lifting))

section \<open>The invariant of the search\<close>

text \<open>
  \<open>bfs_base\<close> holds throughout: distances are lengths of real paths, seeds have distance 0, the node
  table holds exactly the visited nodes, the queue is sorted by distance. \<open>bfs_inv\<close> adds, between two
  iterations, that no distance exceeds a queued one by more than one and that every dequeued node
  below the depth bound has all its neighbours visited, one step further at most. \<open>bfs_mid\<close> is the
  same while the edges of node \<open>v\<close> are being visited.
\<close>

definition bfs_base ::
  "(node_id \<Rightarrow> node result) \<Rightarrow> node_kind list option \<Rightarrow> (node_id \<Rightarrow> node_id \<Rightarrow> bool) \<Rightarrow> (node_id \<Rightarrow> bool) \<Rightarrow> int \<Rightarrow> bfs_state \<Rightarrow> bool" where
  "bfs_base get nks nbr seed depth st \<longleftrightarrow>
     map fst (bf_nodes st) = map fst (bf_distance st) \<and> distinct (map fst (bf_distance st)) \<and>
     distinct (bf_queue st) \<and> set (bf_queue st) \<subseteq> dom (map_of (bf_distance st)) \<and>
     (\<forall>s. seed s \<longrightarrow> map_of (bf_distance st) s = Some 0) \<and>
     (\<forall>w d. map_of (bf_distance st) w = Some d \<longrightarrow> 0 \<le> d \<and> d \<le> depth \<and> reach_in nbr seed (nat d) w) \<and>
     (\<forall>(w, n) \<in> set (bf_nodes st). get w = Inr n \<and> node_kind_ok nks n) \<and>
     sorted (map (\<lambda>u. the (map_of (bf_distance st) u)) (bf_queue st))"

definition nbrs_done :: "(node_id \<Rightarrow> node_id \<Rightarrow> bool) \<Rightarrow> bfs_state \<Rightarrow> node_id \<Rightarrow> int \<Rightarrow> bool" where
  "nbrs_done nbr st v d \<longleftrightarrow> (\<forall>w. nbr v w \<longrightarrow> (\<exists>d'. map_of (bf_distance st) w = Some d' \<and> d' \<le> d + 1))"

definition bfs_inv ::
  "(node_id \<Rightarrow> node result) \<Rightarrow> node_kind list option \<Rightarrow> (node_id \<Rightarrow> node_id \<Rightarrow> bool) \<Rightarrow> (node_id \<Rightarrow> bool) \<Rightarrow> int \<Rightarrow> bfs_state \<Rightarrow> bool" where
  "bfs_inv get nks nbr seed depth st \<longleftrightarrow>
     bfs_base get nks nbr seed depth st \<and>
     (\<forall>u \<in> set (bf_queue st). \<forall>w d. map_of (bf_distance st) w = Some d \<longrightarrow> d \<le> the (map_of (bf_distance st) u) + 1) \<and>
     (\<forall>v d. map_of (bf_distance st) v = Some d \<longrightarrow> v \<notin> set (bf_queue st) \<longrightarrow> d < depth \<longrightarrow> nbrs_done nbr st v d)"

definition bfs_mid ::
  "(node_id \<Rightarrow> node result) \<Rightarrow> node_kind list option \<Rightarrow> (node_id \<Rightarrow> node_id \<Rightarrow> bool) \<Rightarrow> (node_id \<Rightarrow> bool) \<Rightarrow> int \<Rightarrow>
   node_id \<Rightarrow> int \<Rightarrow> bfs_state \<Rightarrow> bool" where
  "bfs_mid get nks nbr seed depth v dv st \<longleftrightarrow>
     bfs_base get nks nbr seed depth st \<and> map_of (bf_distance st) v = Some dv \<and> dv < depth \<and> v \<notin> set (bf_queue st) \<and>
     (\<forall>u \<in> set (bf_queue st). dv \<le> the (map_of (bf_distance st) u)) \<and>
     (\<forall>w d. map_of (bf_distance st) w = Some d \<longrightarrow> d \<le> dv + 1) \<and>
     (\<forall>u d. map_of (bf_distance st) u = Some d \<longrightarrow> u \<notin> set (bf_queue st) \<longrightarrow> u \<noteq> v \<longrightarrow> d < depth \<longrightarrow> nbrs_done nbr st u d)"

lemma map_of_snoc: "map_of (al @ [(k, x)]) w = (case map_of al w of None \<Rightarrow> (if w = k then Some x else None) | Some y \<Rightarrow> Some y)"
  by (simp add: map_add_def split: option.splits)

lemma record_edge_frame:
  assumes "record_edge E e st = Inr u" and "int (length (bf_edge_map st)) \<le> E"
  shows "bf_distance u = bf_distance st \<and> bf_nodes u = bf_nodes st \<and> bf_queue u = bf_queue st \<and>
     int (length (bf_edge_map u)) \<le> E \<and>
     fst ` set (bf_edge_map u) = insert (edge_sort_key e) (fst ` set (bf_edge_map st))"
proof (cases "edge_sort_key e \<in> fst ` set (bf_edge_map st)")
  case True
  then have "u = st" using assms(1) by (simp add: record_edge_def)
  then show ?thesis using assms(2) True by (simp add: insert_absorb)
next
  case False
  then show ?thesis
    using assms by (auto simp: record_edge_def raise_if_exceeds_def ebind_Inr_iff)
qed

lemma bfs_mid_cong:
  "bf_distance u = bf_distance st \<Longrightarrow> bf_nodes u = bf_nodes st \<Longrightarrow> bf_queue u = bf_queue st \<Longrightarrow>
     bfs_mid get nks nbr seed depth v dv u = bfs_mid get nks nbr seed depth v dv st"
  by (simp add: bfs_mid_def bfs_base_def nbrs_done_def)

text \<open>Visiting a new accepted neighbour of \<open>v\<close>.\<close>

lemma bfs_mid_push:
  assumes mid: "bfs_mid get nks nbr seed depth v dv st"
    and new: "map_of (bf_distance st) w = None" and w: "get w = Inr n" "node_kind_ok nks n" "nbr v w"
  shows "bfs_mid get nks nbr seed depth v dv
     (st\<lparr>bf_distance := bf_distance st @ [(w, dv + 1)], bf_nodes := bf_nodes st @ [(w, n)], bf_queue := bf_queue st @ [w]\<rparr>)"
proof -
  let ?D = "map_of (bf_distance st)"
  let ?t = "st\<lparr>bf_distance := bf_distance st @ [(w, dv + 1)], bf_nodes := bf_nodes st @ [(w, n)], bf_queue := bf_queue st @ [w]\<rparr>"
  have base: "bfs_base get nks nbr seed depth st" and dv: "?D v = Some dv" "dv < depth" and vq: "v \<notin> set (bf_queue st)"
    and lo: "\<And>u. u \<in> set (bf_queue st) \<Longrightarrow> dv \<le> the (?D u)"
    and hi: "\<And>x d. ?D x = Some d \<Longrightarrow> d \<le> dv + 1"
    and dn: "\<And>u d. ?D u = Some d \<Longrightarrow> u \<notin> set (bf_queue st) \<Longrightarrow> u \<noteq> v \<Longrightarrow> d < depth \<Longrightarrow> nbrs_done nbr st u d"
    using mid by (auto simp: bfs_mid_def)
  have D': "map_of (bf_distance ?t) x = (if x = w then Some (dv + 1) else ?D x)" for x
    using new by (auto simp: map_of_snoc simp del: map_of_append split: option.splits)
  have wv: "w \<noteq> v" using new dv by auto
  have wq: "w \<notin> set (bf_queue st)" and qd: "set (bf_queue st) \<subseteq> dom ?D"
    using base new by (auto simp: bfs_base_def)
  have r: "0 \<le> dv" "reach_in nbr seed (nat dv) v" using base dv by (auto simp: bfs_base_def)
  then have rw: "reach_in nbr seed (nat (dv + 1)) w"
    using reach_step [OF r(2) w(3)] by (simp add: nat_add_distrib)
  have qd': "map (\<lambda>u. the (map_of (bf_distance ?t) u)) (bf_queue st) = map (\<lambda>u. the (?D u)) (bf_queue st)"
    using wq by (intro map_cong [OF refl]) (subst D', auto)
  have hiq: "the (?D u) \<le> dv + 1" if "u \<in> set (bf_queue st)" for u
    using that qd hi by fastforce
  have s: "sorted (map (\<lambda>u. the (map_of (bf_distance ?t) u)) (bf_queue ?t))"
  proof -
    have q: "bf_queue ?t = bf_queue st @ [w]" by simp
    have "the (map_of (bf_distance ?t) w) = dv + 1" by (subst D') simp
    then have "map (\<lambda>u. the (map_of (bf_distance ?t) u)) (bf_queue ?t) = map (\<lambda>u. the (?D u)) (bf_queue st) @ [dv + 1]"
      unfolding q map_append qd' by (simp del: map_of_append bfs_state.simps)
    moreover have "sorted (map (\<lambda>u. the (?D u)) (bf_queue st))" using base by (simp add: bfs_base_def)
    ultimately show ?thesis using hiq by (simp only: sorted_append) auto
  qed
  have "w \<notin> fst ` set (bf_distance st)" using new by (simp add: map_of_eq_None_iff)
  then have lists: "map fst (bf_nodes ?t) = map fst (bf_distance ?t) \<and> distinct (map fst (bf_distance ?t)) \<and>
      distinct (bf_queue ?t) \<and> (\<forall>(w, n) \<in> set (bf_nodes ?t). get w = Inr n \<and> node_kind_ok nks n)"
    using base wq w(1,2) by (auto simp: bfs_base_def)
  have qsub: "set (bf_queue ?t) \<subseteq> dom (map_of (bf_distance ?t))"
    using qd by (auto simp: dom_map_of_conv_image_fst)
  have seeds: "seed x \<longrightarrow> map_of (bf_distance ?t) x = Some 0" for x
    using base new unfolding D' bfs_base_def by fastforce
  have dists: "map_of (bf_distance ?t) x = Some d \<longrightarrow> 0 \<le> d \<and> d \<le> depth \<and> reach_in nbr seed (nat d) x" for x d
    using base rw r(1) dv(2) unfolding D' bfs_base_def by auto
  have b: "bfs_base get nks nbr seed depth ?t"
    unfolding bfs_base_def using lists qsub seeds dists s by blast
  have mono: "nbrs_done nbr st u d \<Longrightarrow> nbrs_done nbr ?t u d" for u d
    using new unfolding nbrs_done_def D' by fastforce
  show ?thesis
    unfolding bfs_mid_def D' using b dv vq wv lo hi dn mono wq by auto
qed

lemma visit_next_mid:
  assumes "visit_next get nks M dv w st = Inr t" and "bfs_mid get nks nbr seed depth v dv st"
    and "accepted get nks w \<Longrightarrow> nbr v w"
  shows "bfs_mid get nks nbr seed depth v dv t \<and> dom (map_of (bf_distance st)) \<subseteq> dom (map_of (bf_distance t)) \<and>
     (accepted get nks w \<longrightarrow> w \<in> dom (map_of (bf_distance t))) \<and> bf_edge_map t = bf_edge_map st"
proof (cases "w \<in> fst ` set (bf_distance st)")
  case True
  then show ?thesis using assms(1,2) by (auto simp: visit_next_def dom_map_of_conv_image_fst)
next
  case new: False
  show ?thesis
  proof (cases "accepted get nks w")
    case False
    then have "t = st" using assms(1) new
      by (auto simp: visit_next_def accepted_def split: sum.splits err.splits if_splits)
    then show ?thesis using assms(2) False by simp
  next
    case True
    then obtain n where n: "get w = Inr n" "node_kind_ok nks n" by (auto simp: accepted_def)
    then have t: "t = st\<lparr>bf_distance := bf_distance st @ [(w, dv + 1)], bf_nodes := bf_nodes st @ [(w, n)],
        bf_queue := bf_queue st @ [w]\<rparr>"
      using assms(1) new by (auto simp: visit_next_def ebind_Inr_iff)
    have "map_of (bf_distance st) w = None" using new by (simp add: map_of_eq_None_iff)
    then show ?thesis
      using bfs_mid_push [OF assms(2) _ n assms(3) [OF True]] t by (auto simp: map_of_snoc simp del: map_of_append split: option.splits)
  qed
qed

lemma visit_edge_mid:
  assumes "visit_edge get nks M E v dv e st = Inr t" and "bfs_mid get nks nbr seed depth v dv st"
    and "int (length (bf_edge_map st)) \<le> E" and "accepted get nks (next_node_id v e) \<Longrightarrow> nbr v (next_node_id v e)"
  shows "bfs_mid get nks nbr seed depth v dv t \<and> dom (map_of (bf_distance st)) \<subseteq> dom (map_of (bf_distance t)) \<and>
     (accepted get nks (next_node_id v e) \<longrightarrow> next_node_id v e \<in> dom (map_of (bf_distance t))) \<and>
     int (length (bf_edge_map t)) \<le> E \<and>
     fst ` set (bf_edge_map t) = insert (edge_sort_key e) (fst ` set (bf_edge_map st))"
proof -
  from assms(1) obtain u where u: "record_edge E e st = Inr u" and t: "visit_next get nks M dv (next_node_id v e) u = Inr t"
    by (auto simp: visit_edge_def ebind_Inr_iff)
  note fr = record_edge_frame [OF u assms(3)]
  have "bfs_mid get nks nbr seed depth v dv u" using assms(2) fr bfs_mid_cong by metis
  from visit_next_mid [OF t this assms(4)] fr show ?thesis by auto
qed

lemma visit_edges_mid:
  assumes "foldE (visit_edge get nks M E v dv) es st = Inr t" and "bfs_mid get nks nbr seed depth v dv st"
    and "int (length (bf_edge_map st)) \<le> E"
    and "\<And>e. e \<in> set es \<Longrightarrow> accepted get nks (next_node_id v e) \<Longrightarrow> nbr v (next_node_id v e)"
  shows "bfs_mid get nks nbr seed depth v dv t \<and> dom (map_of (bf_distance st)) \<subseteq> dom (map_of (bf_distance t)) \<and>
     (\<forall>e \<in> set es. accepted get nks (next_node_id v e) \<longrightarrow> next_node_id v e \<in> dom (map_of (bf_distance t))) \<and>
     int (length (bf_edge_map t)) \<le> E \<and>
     edge_sort_key ` set es \<union> fst ` set (bf_edge_map st) \<subseteq> fst ` set (bf_edge_map t)"
  using assms
proof (induction es arbitrary: st)
  case (Cons e es)
  from Cons.prems(1) obtain u where u: "visit_edge get nks M E v dv e st = Inr u"
    and rest: "foldE (visit_edge get nks M E v dv) es u = Inr t" by (auto simp: ebind_Inr_iff)
  have one: "bfs_mid get nks nbr seed depth v dv u \<and> dom (map_of (bf_distance st)) \<subseteq> dom (map_of (bf_distance u)) \<and>
     (accepted get nks (next_node_id v e) \<longrightarrow> next_node_id v e \<in> dom (map_of (bf_distance u))) \<and>
     int (length (bf_edge_map u)) \<le> E \<and> fst ` set (bf_edge_map u) = insert (edge_sort_key e) (fst ` set (bf_edge_map st))"
    using visit_edge_mid [OF u Cons.prems(2,3)] Cons.prems(4) [of e] by simp
  have more: "bfs_mid get nks nbr seed depth v dv t \<and> dom (map_of (bf_distance u)) \<subseteq> dom (map_of (bf_distance t)) \<and>
     (\<forall>e \<in> set es. accepted get nks (next_node_id v e) \<longrightarrow> next_node_id v e \<in> dom (map_of (bf_distance t))) \<and>
     int (length (bf_edge_map t)) \<le> E \<and> edge_sort_key ` set es \<union> fst ` set (bf_edge_map u) \<subseteq> fst ` set (bf_edge_map t)"
    using one by (intro Cons.IH [OF rest] Cons.prems(4)) auto
  show ?case using one more by auto
qed auto

text \<open>Distances are shortest: a node reachable in \<open>k\<close> steps within the bound is at distance \<open>k\<close> or less.\<close>

lemma bfs_inv_complete:
  assumes inv: "bfs_inv get nks nbr seed depth st" and empty: "bf_queue st = []"
  shows "reach_in nbr seed k w \<Longrightarrow> int k \<le> depth \<Longrightarrow> \<exists>d. map_of (bf_distance st) w = Some d \<and> d \<le> int k"
proof (induction rule: reach_in.induct)
  case (reach_seed v)
  then show ?case using inv by (auto simp: bfs_inv_def bfs_base_def)
next
  case (reach_step n v w)
  then obtain d where d: "map_of (bf_distance st) v = Some d" "d \<le> int n" by auto
  then have "nbrs_done nbr st v d" using inv empty reach_step.prems by (auto simp: bfs_inv_def)
  then obtain d' where "map_of (bf_distance st) w = Some d'" "d' \<le> d + 1"
    using reach_step.hyps(2) by (auto simp: nbrs_done_def)
  then show ?case using d(2) by force
qed

text \<open>Dequeuing a node at the depth bound changes nothing.\<close>

lemma bfs_inv_skip:
  assumes "bfs_inv get nks nbr seed depth st" and "bf_queue st = v # rest"
    and "depth \<le> the (map_of (bf_distance st) v)"
  shows "bfs_inv get nks nbr seed depth (st\<lparr>bf_queue := rest\<rparr>)"
proof -
  have base: "bfs_base get nks nbr seed depth (st\<lparr>bf_queue := rest\<rparr>)"
    using assms(1,2) by (simp add: bfs_inv_def bfs_base_def)
  have "nbrs_done nbr st u d"
    if "map_of (bf_distance st) u = Some d" "u \<notin> set rest" "d < depth" for u d
    using assms that unfolding bfs_inv_def by (cases "u = v") auto
  then show ?thesis
    using assms(1,2) base by (simp add: bfs_inv_def nbrs_done_def)
qed

lemma bfs_seed_step:
  assumes "bfs_seed get nks s st = Inr t"
  shows "(\<not> accepted get nks s \<and> t = st) \<or> (accepted get nks s \<and> s \<in> fst ` set (bf_distance st) \<and> t = st) \<or>
    (\<exists>n. get s = Inr n \<and> node_kind_ok nks n \<and> s \<notin> fst ` set (bf_distance st) \<and>
       t = st\<lparr>bf_distance := bf_distance st @ [(s, 0)], bf_nodes := bf_nodes st @ [(s, n)]\<rparr>)"
  using assms by (auto simp: bfs_seed_def accepted_def ebind_Inr_iff split: if_splits)

lemma bfs_seeds_fold:
  assumes "foldE (bfs_seed get nks) xs st = Inr t"
    and "map fst (bf_nodes st) = map fst (bf_distance st)" "distinct (map fst (bf_distance st))"
    and "\<forall>(w, n) \<in> set (bf_nodes st). get w = Inr n \<and> node_kind_ok nks n" "\<forall>(w, d) \<in> set (bf_distance st). d = 0"
  shows "map fst (bf_nodes t) = map fst (bf_distance t) \<and> distinct (map fst (bf_distance t)) \<and>
    (\<forall>(w, n) \<in> set (bf_nodes t). get w = Inr n \<and> node_kind_ok nks n) \<and> (\<forall>(w, d) \<in> set (bf_distance t). d = 0) \<and>
    fst ` set (bf_distance t) = fst ` set (bf_distance st) \<union> {s \<in> set xs. accepted get nks s} \<and>
    bf_edge_map t = bf_edge_map st"
  using assms
proof (induction xs arbitrary: st)
  case (Cons x xs)
  from Cons.prems(1) obtain u where u: "bfs_seed get nks x st = Inr u" and rest: "foldE (bfs_seed get nks) xs u = Inr t"
    by (auto simp: ebind_Inr_iff)
  from bfs_seed_step [OF u] consider (skip) "\<not> accepted get nks x" "u = st"
    | (dup) "accepted get nks x" "x \<in> fst ` set (bf_distance st)" "u = st"
    | (new) n where "get x = Inr n" "node_kind_ok nks n" "x \<notin> fst ` set (bf_distance st)"
        "u = st\<lparr>bf_distance := bf_distance st @ [(x, 0)], bf_nodes := bf_nodes st @ [(x, n)]\<rparr>" by blast
  then show ?case
  proof cases
    case skip
    then show ?thesis using Cons.IH [OF rest] Cons.prems by auto
  next
    case dup
    then show ?thesis using Cons.IH [OF rest] Cons.prems by auto
  next
    case new
    have "accepted get nks x" using new by (auto simp: accepted_def)
    moreover have "map fst (bf_nodes t) = map fst (bf_distance t) \<and> distinct (map fst (bf_distance t)) \<and>
      (\<forall>(w, n) \<in> set (bf_nodes t). get w = Inr n \<and> node_kind_ok nks n) \<and> (\<forall>(w, d) \<in> set (bf_distance t). d = 0) \<and>
      fst ` set (bf_distance t) = fst ` set (bf_distance u) \<union> {s \<in> set xs. accepted get nks s} \<and>
      bf_edge_map t = bf_edge_map u"
      using Cons.prems new by (intro Cons.IH [OF rest]) auto
    ultimately show ?thesis using new by auto
  qed
qed auto

lemma bfs_start_inv:
  assumes "bfs_start get nks M seed_ids = Inr st" and "0 \<le> depth"
  shows "bfs_inv get nks nbr (\<lambda>s. s \<in> set seed_ids \<and> accepted get nks s) depth st \<and> bf_edge_map st = []"
proof -
  let ?seed = "\<lambda>s. s \<in> set seed_ids \<and> accepted get nks s"
  let ?init = "\<lparr>bf_distance = [], bf_nodes = [], bf_edge_map = [], bf_queue = []\<rparr>"
  from assms(1) obtain u where u: "foldE (bfs_seed get nks) (sort seed_ids) ?init = Inr u"
    and st: "st = u\<lparr>bf_queue := sort (map fst (bf_distance u))\<rparr>"
    by (auto simp: bfs_start_def ebind_Inr_iff)
  have f: "map fst (bf_nodes u) = map fst (bf_distance u)" "distinct (map fst (bf_distance u))"
    "\<forall>(w, n) \<in> set (bf_nodes u). get w = Inr n \<and> node_kind_ok nks n" "\<forall>(w, d) \<in> set (bf_distance u). d = 0"
    "fst ` set (bf_distance u) = {s. ?seed s}" "bf_edge_map u = []"
    using bfs_seeds_fold [OF u] by auto
  have D: "map_of (bf_distance u) w = (if ?seed w then Some 0 else None)" for w
  proof (cases "?seed w")
    case True
    then obtain d where "map_of (bf_distance u) w = Some d"
      using f(5) by (metis (mono_tags, lifting) map_of_eq_None_iff mem_Collect_eq option.exhaust)
    then show ?thesis using f(4) True by (auto dest: map_of_SomeD)
  next
    case False
    then have "w \<notin> fst ` set (bf_distance u)" by (simp only: f(5)) simp
    then have "map_of (bf_distance u) w = None" by (simp add: map_of_eq_None_iff)
    then show ?thesis using False by simp
  qed
  have all0: "\<forall>x\<in>fst ` set (bf_distance u). the (map_of (bf_distance u) x) = 0"
    by (simp only: f(5) D) simp
  have "map (\<lambda>x. the (map_of (bf_distance u) x)) (sort (map fst (bf_distance u))) =
      map (\<lambda>x. 0) (sort (map fst (bf_distance u)))"
    by (intro map_cong [OF refl] all0 [rule_format]) simp
  then have "sorted (map (\<lambda>x. the (map_of (bf_distance u) x)) (sort (map fst (bf_distance u))))"
    by (simp add: map_replicate_const)
  then have "bfs_base get nks nbr ?seed depth st"
    unfolding bfs_base_def st using f(1-3) assms(2)
    by (auto simp: D dom_map_of_conv_image_fst split: if_splits intro: reach_seed)
  moreover have "set (bf_queue st) = {s. ?seed s}" by (simp add: st f(5))
  ultimately show ?thesis
    unfolding bfs_inv_def using f(6) by (auto simp: st D split: if_splits)
qed

text \<open>Visiting an edge only appends: nodes with their distance and to the queue, and edges.\<close>

lemma visit_edge_grow:
  assumes "visit_edge get nks M E v dv e s = Inr t"
  shows "\<exists>new ne. bf_distance t = bf_distance s @ new \<and> bf_queue t = bf_queue s @ map fst new \<and>
     bf_edge_map t = bf_edge_map s @ ne \<and> set ne \<subseteq> {(edge_sort_key e, e)}"
proof -
  from assms obtain u where u: "record_edge E e s = Inr u" and t: "visit_next get nks M dv (next_node_id v e) u = Inr t"
    by (auto simp: visit_edge_def ebind_Inr_iff)
  have "\<exists>ne. bf_distance u = bf_distance s \<and> bf_queue u = bf_queue s \<and> bf_edge_map u = bf_edge_map s @ ne \<and>
      set ne \<subseteq> {(edge_sort_key e, e)}"
    using u by (auto simp: record_edge_def ebind_Inr_iff split: if_splits)
  moreover have "\<exists>new. bf_distance t = bf_distance u @ new \<and> bf_queue t = bf_queue u @ map fst new \<and> bf_edge_map t = bf_edge_map u"
    using t by (auto simp: visit_next_def ebind_Inr_iff split: if_splits sum.splits err.splits)
  ultimately show ?thesis by fastforce
qed

lemma visit_edges_grow:
  "foldE (visit_edge get nks M E v dv) es s = Inr t \<Longrightarrow>
   \<exists>new ne. bf_distance t = bf_distance s @ new \<and> bf_queue t = bf_queue s @ map fst new \<and>
     bf_edge_map t = bf_edge_map s @ ne \<and> snd ` set ne \<subseteq> set es \<and> (\<forall>(k, e) \<in> set ne. k = edge_sort_key e)"
proof (induction es arbitrary: s)
  case (Cons e es)
  from Cons.prems obtain u where u: "visit_edge get nks M E v dv e s = Inr u"
    and rest: "foldE (visit_edge get nks M E v dv) es u = Inr t" by (auto simp: ebind_Inr_iff)
  obtain new ne where "bf_distance u = bf_distance s @ new" "bf_queue u = bf_queue s @ map fst new"
      "bf_edge_map u = bf_edge_map s @ ne" "set ne \<subseteq> {(edge_sort_key e, e)}"
    using visit_edge_grow [OF u] by blast
  moreover obtain new' ne' where "bf_distance t = bf_distance u @ new'" "bf_queue t = bf_queue u @ map fst new'"
      "bf_edge_map t = bf_edge_map u @ ne'" "snd ` set ne' \<subseteq> set es" "\<forall>(k, e) \<in> set ne'. k = edge_sort_key e"
    using Cons.IH [OF rest] by blast
  ultimately show ?case
    by (intro exI [of _ "new @ new'"] exI [of _ "ne @ ne'"]) auto
qed auto

lemma visit_edges_limits:
  assumes "foldE (visit_edge get nks M E v dv) es s = Inr t"
    and "int (length (bf_nodes s)) \<le> M" "int (length (bf_edge_map s)) \<le> E"
  shows "int (length (bf_nodes t)) \<le> M \<and> int (length (bf_edge_map t)) \<le> E"
  using assms(1)
  by (rule foldE_invariant [where I = "\<lambda>s. int (length (bf_nodes s)) \<le> M \<and> int (length (bf_edge_map s)) \<le> E"])
    (use assms(2,3) in \<open>auto simp: visit_edge_def record_edge_def visit_next_def raise_if_exceeds_def ebind_Inr_iff
      split: if_splits sum.splits err.splits\<close>)

definition edges_inv :: "edge set \<Rightarrow> string \<Rightarrow> edge_kind list option \<Rightarrow> int \<Rightarrow> bfs_state \<Rightarrow> bool" where
  "edges_inv edges dir eks depth st \<longleftrightarrow>
     (\<forall>(k, e) \<in> set (bf_edge_map st). k = edge_sort_key e \<and>
        (\<exists>u d. map_of (bf_distance st) u = Some d \<and> d < depth \<and> e \<in> edges \<and> follows dir eks u e)) \<and>
     (\<forall>u d e. map_of (bf_distance st) u = Some d \<longrightarrow> u \<notin> set (bf_queue st) \<longrightarrow> d < depth \<longrightarrow> e \<in> edges \<longrightarrow>
        follows dir eks u e \<longrightarrow> edge_sort_key e \<in> fst ` set (bf_edge_map st))"

lemma edges_inv_skip:
  assumes "edges_inv edges dir eks depth st" and "bf_queue st = v # rest"
    and "map_of (bf_distance st) v = Some dv" and "depth \<le> dv"
  shows "edges_inv edges dir eks depth (st\<lparr>bf_queue := rest\<rparr>)"
proof -
  have "edge_sort_key e \<in> fst ` set (bf_edge_map st)"
    if "map_of (bf_distance st) u = Some d" "u \<notin> set rest" "d < depth" "e \<in> edges" "follows dir eks u e" for u d e
  proof (cases "u = v")
    case True
    then show ?thesis using assms(3,4) that(1,3) by simp
  next
    case False
    then show ?thesis using assms(1,2) that unfolding edges_inv_def by simp
  qed
  then show ?thesis using assms(1) by (simp add: edges_inv_def)
qed

text \<open>At the start every visited node is queued and no edge is recorded.\<close>

lemma edges_inv_start:
  "bf_edge_map st = [] \<Longrightarrow> fst ` set (bf_distance st) \<subseteq> set (bf_queue st) \<Longrightarrow> edges_inv edges dir eks depth st"
  unfolding edges_inv_def by (auto dest!: map_of_SomeD)

lemma bfs_start_limits:
  "bfs_start get nks M seeds = Inr st \<Longrightarrow>
     int (length (bf_nodes st)) \<le> M \<and> fst ` set (bf_distance st) \<subseteq> set (bf_queue st)"
  by (auto simp: bfs_start_def raise_if_exceeds_def ebind_Inr_iff) (force simp: image_iff)

section \<open>The reader contract\<close>

text \<open>
  What the search relies on: the edge operations return a prefix, cut at the limit, of one fixed
  list per node that holds every matching edge, no key twice.
\<close>

locale graph_reader =
  fixes get :: "node_id \<Rightarrow> node result"
    and out_edges :: "node_id \<Rightarrow> edge_kind list option \<Rightarrow> int \<Rightarrow> edge list"
    and in_edges :: "node_id \<Rightarrow> edge_kind list option \<Rightarrow> int \<Rightarrow> edge list"
    and edges :: "edge set"
  assumes out_law: "\<exists>es. distinct (map edge_sort_key es) \<and>
      set es = {e \<in> edges. ed_src e = v \<and> kind_filter ks (ed_kind e)} \<and> (\<forall>l. out_edges v ks l = take (nat l) es)"
    and in_law: "\<exists>es. distinct (map edge_sort_key es) \<and>
      set es = {e \<in> edges. ed_dst e = v \<and> kind_filter ks (ed_kind e)} \<and> (\<forall>l. in_edges v ks l = take (nat l) es)"
begin

text \<open>A run that recorded every returned edge within the limit has seen all matching edges.\<close>

lemma untruncated:
  assumes "distinct (map edge_sort_key es)" and "0 \<le> E"
    and "edge_sort_key ` set (take (nat (E + 1)) es) \<subseteq> K" and "finite K" and "int (card K) \<le> E"
  shows "take (nat (E + 1)) es = es"
proof -
  let ?ts = "take (nat (E + 1)) es"
  have "distinct (map edge_sort_key ?ts)" using assms(1) by (simp add: take_map [symmetric])
  then have "length ?ts = card (edge_sort_key ` set ?ts)"
    by (metis distinct_card length_map set_map)
  also have "\<dots> \<le> card K" using assms(3,4) by (rule card_mono [rotated])
  finally have "length ?ts < nat (E + 1)" using assms(2,5) by linarith
  then show ?thesis by simp
qed

lemma incident_complete:
  assumes "0 \<le> E"
    and "edge_sort_key ` set (incident_edges out_edges in_edges dir ks E v) \<subseteq> K" and "finite K" and "int (card K) \<le> E"
    and "e \<in> edges" and "follows dir ks v e"
  shows "e \<in> set (incident_edges out_edges in_edges dir ks E v)"
proof -
  obtain os where os: "distinct (map edge_sort_key os)"
      "set os = {e \<in> edges. ed_src e = v \<and> kind_filter ks (ed_kind e)}" "\<And>l. out_edges v ks l = take (nat l) os"
    using out_law [of v ks] by blast
  obtain "is" where "is": "distinct (map edge_sort_key is)"
      "set is = {e \<in> edges. ed_dst e = v \<and> kind_filter ks (ed_kind e)}" "\<And>l. in_edges v ks l = take (nat l) is"
    using in_law [of v ks] by blast
  from assms(6) consider (out) "dir \<in> {''out'', ''both''}" "ed_src e = v" "kind_filter ks (ed_kind e)"
    | (inn) "dir \<in> {''in'', ''both''}" "ed_dst e = v" "kind_filter ks (ed_kind e)"
    by (auto simp: follows_def)
  then show ?thesis
  proof cases
    case out
    have "edge_sort_key ` set (take (nat (E + 1)) os) \<subseteq> K"
      using assms(2) out(1) by (auto simp: incident_edges_def os(3))
    then have "take (nat (E + 1)) os = os" using os(1) assms(1,3,4) by (intro untruncated)
    then show ?thesis using out os(2,3) assms(5) by (auto simp: incident_edges_def)
  next
    case inn
    have "edge_sort_key ` set (take (nat (E + 1)) is) \<subseteq> K"
      using assms(2) inn(1) by (auto simp: incident_edges_def "is"(3))
    then have "take (nat (E + 1)) is = is" using "is"(1) assms(1,3,4) by (intro untruncated)
    then show ?thesis using inn "is"(2,3) assms(5) by (auto simp: incident_edges_def)
  qed
qed

lemma incident_sound:
  "e \<in> set (incident_edges out_edges in_edges dir ks E v) \<Longrightarrow> e \<in> edges \<and> follows dir ks v e"
  using out_law [of v ks] in_law [of v ks]
  by (auto simp: incident_edges_def follows_def dest!: in_set_takeD split: if_splits)

definition full_inv ::
  "string \<Rightarrow> edge_kind list option \<Rightarrow> node_kind list option \<Rightarrow> (node_id \<Rightarrow> bool) \<Rightarrow> int \<Rightarrow> int \<Rightarrow> int \<Rightarrow> bfs_state \<Rightarrow> bool" where
  "full_inv dir eks nks seed depth M E st \<longleftrightarrow>
     bfs_inv get nks (neighbour get edges dir eks nks) seed depth st \<and> edges_inv edges dir eks depth st \<and>
     int (length (bf_nodes st)) \<le> M \<and> int (length (bf_edge_map st)) \<le> E"

text \<open>One iteration keeps the invariant.\<close>

lemma bfs_iteration:
  assumes inv: "bfs_inv get nks (neighbour get edges dir eks nks) seed depth st" and q: "bf_queue st = v # rest"
    and dv: "dv = the (map_of (bf_distance st) v)" "dv < depth" and E: "int (length (bf_edge_map st)) \<le> E"
    and run: "foldE (visit_edge get nks M E v dv) (incident_edges out_edges in_edges dir eks E v) (st\<lparr>bf_queue := rest\<rparr>) = Inr t"
  shows "bfs_inv get nks (neighbour get edges dir eks nks) seed depth t \<and> int (length (bf_edge_map t)) \<le> E \<and>
    edge_sort_key ` set (incident_edges out_edges in_edges dir eks E v) \<subseteq> fst ` set (bf_edge_map t)"
proof -
  let ?nbr = "neighbour get edges dir eks nks"
  let ?es = "incident_edges out_edges in_edges dir eks E v"
  have base: "bfs_base get nks ?nbr seed depth st" using inv by (simp add: bfs_inv_def)
  have Dv: "map_of (bf_distance st) v = Some dv" using base q dv(1) by (auto simp: bfs_base_def)
  have "bfs_mid get nks ?nbr seed depth v dv (st\<lparr>bf_queue := rest\<rparr>)"
    using inv q Dv dv(2) by (auto simp: bfs_inv_def bfs_mid_def bfs_base_def nbrs_done_def)
  moreover have "?nbr v (next_node_id v e)" if "e \<in> set ?es" "accepted get nks (next_node_id v e)" for e
    using incident_sound [OF that(1)] that(2) by (auto simp: neighbour_iff)
  ultimately have mid: "bfs_mid get nks ?nbr seed depth v dv t"
    and seen: "\<forall>e \<in> set ?es. accepted get nks (next_node_id v e) \<longrightarrow> next_node_id v e \<in> dom (map_of (bf_distance t))"
    and E': "int (length (bf_edge_map t)) \<le> E"
    and keys: "edge_sort_key ` set ?es \<subseteq> fst ` set (bf_edge_map t)"
    using visit_edges_mid [OF run, of ?nbr seed depth] E by auto
  have card: "int (card (fst ` set (bf_edge_map t))) \<le> E"
    using E' card_image_le [of "set (bf_edge_map t)" fst] card_length [of "bf_edge_map t"] by fastforce
  have "nbrs_done ?nbr t v dv"
    unfolding nbrs_done_def
  proof (intro allI impI)
    fix w assume "?nbr v w"
    then obtain e where e: "e \<in> edges" "follows dir eks v e" "w = next_node_id v e" "accepted get nks w"
      by (auto simp: neighbour_iff)
    have "e \<in> set ?es"
      using E' by (intro incident_complete [OF _ keys _ card e(1,2)]) auto
    then obtain d' where "map_of (bf_distance t) w = Some d'" using seen e(3,4) by auto
    then show "\<exists>d'. map_of (bf_distance t) w = Some d' \<and> d' \<le> dv + 1" using mid by (auto simp: bfs_mid_def)
  qed
  then have done': "nbrs_done ?nbr t u d"
    if "map_of (bf_distance t) u = Some d" "u \<notin> set (bf_queue t)" "d < depth" for u d
    using mid that unfolding bfs_mid_def by (cases "u = v") auto
  have "d \<le> the (map_of (bf_distance t) u) + 1" if "u \<in> set (bf_queue t)" "map_of (bf_distance t) w = Some d" for u w d
    using mid that by (fastforce simp: bfs_mid_def)
  then show ?thesis using mid done' E' keys by (auto simp: bfs_inv_def bfs_mid_def)
qed

text \<open>The edges found: exactly those followed from a node below the depth bound.\<close>

lemma edges_iteration:
  assumes inv: "edges_inv edges dir eks depth st" and q: "bf_queue st = v # rest"
    and dv: "map_of (bf_distance st) v = Some dv"
    and E: "int (length (bf_edge_map st)) \<le> E" "int (length (bf_edge_map t)) \<le> E"
    and run: "foldE (visit_edge get nks M E v dv) (incident_edges out_edges in_edges dir eks E v) (st\<lparr>bf_queue := rest\<rparr>) = Inr t"
    and keys: "edge_sort_key ` set (incident_edges out_edges in_edges dir eks E v) \<subseteq> fst ` set (bf_edge_map t)"
    and lt: "dv < depth"
  shows "edges_inv edges dir eks depth t"
proof -
  let ?es = "incident_edges out_edges in_edges dir eks E v"
  obtain new ne where t: "bf_distance t = bf_distance st @ new" "bf_queue t = rest @ map fst new"
      "bf_edge_map t = bf_edge_map st @ ne" "snd ` set ne \<subseteq> set ?es" "\<forall>(k, e) \<in> set ne. k = edge_sort_key e"
    using visit_edges_grow [OF run] by auto
  have card: "int (card (fst ` set (bf_edge_map t))) \<le> E"
    using E(2) card_image_le [of "set (bf_edge_map t)" fst] card_length [of "bf_edge_map t"] by fastforce
  have seen: "edge_sort_key e \<in> fst ` set (bf_edge_map t)" if "e \<in> edges" "follows dir eks v e" for e
    using incident_complete [OF _ keys _ card that] E(2) keys by auto
  have old: "D \<noteq> None \<Longrightarrow> map_of (bf_distance t) u = D" if "map_of (bf_distance st) u = D" for u D
    using that by (auto simp: t(1) map_of_snoc map_add_Some_iff)
  have "\<exists>u d. map_of (bf_distance t) u = Some d \<and> d < depth \<and> e \<in> edges \<and> follows dir eks u e \<and> k = edge_sort_key e"
    if "(k, e) \<in> set (bf_edge_map t)" for k e
  proof (cases "(k, e) \<in> set (bf_edge_map st)")
    case True
    then show ?thesis using inv old unfolding edges_inv_def by fastforce
  next
    case False
    then have "(k, e) \<in> set ne" using that t(3) by auto
    then have "e \<in> set ?es" "k = edge_sort_key e" using t(4,5) by force+
    then show ?thesis using incident_sound [of e dir eks E v] old [OF dv] lt by blast
  qed
  moreover have "edge_sort_key e \<in> fst ` set (bf_edge_map t)"
    if "map_of (bf_distance t) u = Some d" "u \<notin> set (bf_queue t)" "d < depth" "e \<in> edges" "follows dir eks u e" for u d e
  proof (cases "u = v")
    case True
    then show ?thesis using seen that by blast
  next
    case False
    have "map_of new u = None" using that(2) t(2) by (auto simp: map_of_eq_None_iff)
    then have "map_of (bf_distance st) u = Some d" using that(1) by (auto simp: t(1) map_add_Some_iff)
    then have "edge_sort_key e \<in> fst ` set (bf_edge_map st)"
      using inv that q False t(2) unfolding edges_inv_def by auto
    then show ?thesis by (auto simp: t(3))
  qed
  ultimately show ?thesis unfolding edges_inv_def by fast
qed

lemma bfs_loop_inv:
  assumes "bfs_loop get (incident_edges out_edges in_edges dir eks E) nks depth M E st = Inr t"
    and "full_inv dir eks nks seed depth M E st"
  shows "full_inv dir eks nks seed depth M E t \<and> bf_queue t = []"
  using assms
proof (induction "length (bf_queue st) + (nat M - length (bf_nodes st))" arbitrary: st rule: less_induct)
  case less
  let ?nbr = "neighbour get edges dir eks nks"
  note inv = less.prems(2) [unfolded full_inv_def]
  show ?case
  proof (cases "bf_queue st")
    case Nil
    then show ?thesis using less.prems by (subst (asm) bfs_loop.simps) simp
  next
    case (Cons v rest)
    define dv where "dv = the (map_of (bf_distance st) v)"
    have Dv: "map_of (bf_distance st) v = Some dv"
      using inv Cons by (auto simp: bfs_inv_def bfs_base_def dv_def)
    show ?thesis
    proof (cases "depth \<le> dv")
      case True
      then have "bfs_loop get (incident_edges out_edges in_edges dir eks E) nks depth M E (st\<lparr>bf_queue := rest\<rparr>) = Inr t"
        using less.prems(1) Cons by (subst (asm) bfs_loop.simps) (simp add: dv_def)
      moreover have "bfs_inv get nks ?nbr seed depth (st\<lparr>bf_queue := rest\<rparr>)"
        using True inv by (intro bfs_inv_skip [OF _ Cons]) (simp_all add: dv_def)
      moreover have "edges_inv edges dir eks depth (st\<lparr>bf_queue := rest\<rparr>)"
        using inv Cons Dv True by (intro edges_inv_skip [of _ _ _ _ st v]) auto
      ultimately show ?thesis using less.hyps [of "st\<lparr>bf_queue := rest\<rparr>"] inv Cons by (simp add: full_inv_def)
    next
      case False
      then obtain u where u: "foldE (visit_edge get nks M E v dv) (incident_edges out_edges in_edges dir eks E v) (st\<lparr>bf_queue := rest\<rparr>) = Inr u"
        and rec: "bfs_loop get (incident_edges out_edges in_edges dir eks E) nks depth M E u = Inr t"
        using less.prems(1) Cons by (subst (asm) bfs_loop.simps) (auto simp: dv_def ebind_Inr_iff)
      have lt: "dv < depth" using False by simp
      have it: "bfs_inv get nks ?nbr seed depth u \<and> int (length (bf_edge_map u)) \<le> E \<and>
          edge_sort_key ` set (incident_edges out_edges in_edges dir eks E v) \<subseteq> fst ` set (bf_edge_map u)"
        using inv by (intro bfs_iteration [OF _ Cons dv_def lt _ u]) auto
      have "int (length (bf_nodes u)) \<le> M \<and> int (length (bf_edge_map u)) \<le> E"
        using inv by (intro visit_edges_limits [OF u]) simp_all
      moreover have "edges_inv edges dir eks depth u"
        using inv it by (intro edges_iteration [OF _ Cons Dv _ _ u _ lt]) auto
      ultimately have "full_inv dir eks nks seed depth M E u" using it by (simp add: full_inv_def)
      moreover have "length (bf_queue u) + (nat M - length (bf_nodes u)) < length (bf_queue st) + (nat M - length (bf_nodes st))"
        using visit_edges_balance [OF u] Cons by simp
      ultimately show ?thesis using less.hyps [OF _ rec] by blast
    qed
  qed
qed

text \<open>
  The search returns exactly the nodes within the depth bound, at their shortest distances, and
  exactly the edges followed from the nodes below the bound.
\<close>

lemma bfs_search_exact:
  assumes "bfs_search get out_edges in_edges seeds depth eks nks M E dir = Inr st"
  defines "reach \<equiv> reach_in (neighbour get edges dir eks nks) (\<lambda>s. s \<in> set seeds \<and> accepted get nks s)"
  shows "fst ` set (bf_nodes st) = {w. \<exists>k. int k \<le> depth \<and> reach k w} \<and>
    (\<forall>w d. map_of (bf_distance st) w = Some d \<longrightarrow> 0 \<le> d \<and> reach (nat d) w \<and> (\<forall>k. reach k w \<longrightarrow> d \<le> int k)) \<and>
    (\<forall>(w, n) \<in> set (bf_nodes st). get w = Inr n \<and> node_kind_ok nks n) \<and>
    fst ` set (bf_edge_map st) = edge_sort_key ` {e \<in> edges. \<exists>v k. int k < depth \<and> reach k v \<and> follows dir eks v e} \<and>
    (\<forall>(k, e) \<in> set (bf_edge_map st). k = edge_sort_key e \<and> e \<in> edges) \<and>
    int (length (bf_nodes st)) \<le> M \<and> int (length (bf_edge_map st)) \<le> E"
proof -
  let ?nbr = "neighbour get edges dir eks nks"
  let ?seed = "\<lambda>s. s \<in> set seeds \<and> accepted get nks s"
  let ?D = "map_of (bf_distance st)"
  from assms(1) obtain s0 where depth: "0 \<le> depth" and E: "0 < E" and s0: "bfs_start get nks M seeds = Inr s0"
    and loop: "bfs_loop get (incident_edges out_edges in_edges dir eks E) nks depth M E s0 = Inr st"
    by (auto simp: bfs_search_def ebind_Inr_iff)
  have "full_inv dir eks nks ?seed depth M E s0"
    using bfs_start_inv [OF s0 depth] bfs_start_limits [OF s0] E unfolding full_inv_def by (auto simp: edges_inv_start)
  then have full: "full_inv dir eks nks ?seed depth M E st" and q: "bf_queue st = []"
    using bfs_loop_inv [OF loop, of ?seed] by auto
  have inv: "bfs_inv get nks ?nbr ?seed depth st" and einv: "edges_inv edges dir eks depth st"
    using full by (auto simp: full_inv_def)
  have base: "bfs_base get nks ?nbr ?seed depth st" using inv by (simp add: bfs_inv_def)
  have sound: "0 \<le> d \<and> d \<le> depth \<and> reach (nat d) w" if "?D w = Some d" for w d
    using base that by (auto simp: bfs_base_def reach_def)
  have complete: "\<exists>d. ?D w = Some d \<and> d \<le> int k" if "reach k w" "int k \<le> depth" for k w
    using bfs_inv_complete [OF inv q, of k w] that by (auto simp: reach_def)
  have "fst ` set (bf_nodes st) = dom ?D"
    using base by (simp add: bfs_base_def dom_map_of_conv_image_fst) (metis set_map)
  also have "\<dots> = {w. \<exists>k. int k \<le> depth \<and> reach k w}"
  proof (intro set_eqI iffI)
    fix w assume "w \<in> dom ?D"
    then obtain d where "?D w = Some d" by auto
    from sound [OF this] show "w \<in> {w. \<exists>k. int k \<le> depth \<and> reach k w}" by (auto intro!: exI [of _ "nat d"])
  next
    fix w assume "w \<in> {w. \<exists>k. int k \<le> depth \<and> reach k w}"
    then show "w \<in> dom ?D" using complete by blast
  qed
  finally have keys: "fst ` set (bf_nodes st) = {w. \<exists>k. int k \<le> depth \<and> reach k w}" .
  have short: "d \<le> int k" if "?D w = Some d" "reach k w" for w d k
    using sound [OF that(1)] complete [OF that(2)] that(1) by (cases "int k \<le> depth") auto
  have "fst ` set (bf_edge_map st) = edge_sort_key ` {e \<in> edges. \<exists>v k. int k < depth \<and> reach k v \<and> follows dir eks v e}"
  proof (intro set_eqI iffI)
    fix x assume "x \<in> fst ` set (bf_edge_map st)"
    then obtain e u d where e: "x = edge_sort_key e" "?D u = Some d" "d < depth" "e \<in> edges" "follows dir eks u e"
      using einv by (fastforce simp: edges_inv_def)
    from sound [OF e(2)] e(3) have "int (nat d) < depth" "reach (nat d) u" by auto
    with e show "x \<in> edge_sort_key ` {e \<in> edges. \<exists>v k. int k < depth \<and> reach k v \<and> follows dir eks v e}" by blast
  next
    fix x assume "x \<in> edge_sort_key ` {e \<in> edges. \<exists>v k. int k < depth \<and> reach k v \<and> follows dir eks v e}"
    then obtain e v k where e: "x = edge_sort_key e" "e \<in> edges" "int k < depth" "reach k v" "follows dir eks v e" by auto
    obtain d where "?D v = Some d" "d \<le> int k" using complete [OF e(4)] e(3) by auto
    then show "x \<in> fst ` set (bf_edge_map st)" using einv q e unfolding edges_inv_def by fastforce
  qed
  moreover have "\<forall>(k, e) \<in> set (bf_edge_map st). k = edge_sort_key e \<and> e \<in> edges"
    using einv unfolding edges_inv_def by fast
  moreover have "\<forall>(w, n) \<in> set (bf_nodes st). get w = Inr n \<and> node_kind_ok nks n"
    using base by (simp add: bfs_base_def)
  ultimately show ?thesis using keys sound short full by (simp add: full_inv_def)
qed

end

section \<open>The SQLite store as a reader\<close>

text \<open>The tables a store can hold, whose rows stand under their own keys.\<close>

typedef stored_tables = "{t. wf_tables t}" morphisms tables_of stored_tables
  using wf_sample_tables by blast

lemma wf_tables_of [simp, intro]: "wf_tables (tables_of t)"
  using tables_of by blast

lemma distinct_sort_keys:
  "distinct (map edge_key es) \<Longrightarrow> distinct (map edge_sort_key es)"
  by (auto simp: distinct_map inj_on_def edge_key_def edge_sort_key_def edge_kind_value_inj)

interpretation sqlite_reads: graph_reader "read_node (tables_of t)" "edges_from (tables_of t)" "edges_to (tables_of t)"
    "stored_edges (tables_of t)" for t
proof
  fix v ks
  show "\<exists>es. distinct (map edge_sort_key es) \<and>
      set es = {e \<in> stored_edges (tables_of t). ed_src e = v \<and> kind_filter ks (ed_kind e)} \<and>
      (\<forall>l. edges_from (tables_of t) v ks l = take (nat l) es)"
    by (intro exI [of _ "matching_edges fst (tables_of t) v ks"])
      (simp add: distinct_sort_keys distinct_matching_edges set_matching_edges edges_from_def edges_query_take edge_key_def)
  show "\<exists>es. distinct (map edge_sort_key es) \<and>
      set es = {e \<in> stored_edges (tables_of t). ed_dst e = v \<and> kind_filter ks (ed_kind e)} \<and>
      (\<forall>l. edges_to (tables_of t) v ks l = take (nat l) es)"
    by (intro exI [of _ "matching_edges (\<lambda>k. snd (snd k)) (tables_of t) v ks"])
      (simp add: distinct_sort_keys distinct_matching_edges set_matching_edges edges_to_def edges_query_take edge_key_def)
qed

text \<open>\<open>SQLiteGraphStore.query_subgraph\<close> on the tables \<open>t\<close>.\<close>

definition query_subgraph ::
  "tables \<Rightarrow> node_id list \<Rightarrow> int \<Rightarrow> edge_kind list option \<Rightarrow> node_kind list option \<Rightarrow> int \<Rightarrow> int \<Rightarrow> string \<Rightarrow> subgraph result" where
  "query_subgraph t = query_subgraph_bfs (read_node t) (edges_from t) (edges_to t) (read_evidence t)"

lemma query_subgraph_Inr:
  assumes "query_subgraph t seeds depth eks nks M E dir = Inr g"
  obtains st where "bfs_search (read_node t) (edges_from t) (edges_to t) seeds depth eks nks M E dir = Inr st"
    and "sg_nodes g = sort_key fst (bf_nodes st)" "sg_edges g = map snd (sort_key fst (bf_edge_map st))" "closed_subgraph g"
  using assms
  by (auto simp: query_subgraph_def query_subgraph_bfs_def sorted_subgraph_def ebind_Inr_iff validate_integrity_iff)

section \<open>Properties\<close>

text \<open>
  C1. Breadth-first query: on a well-formed store, a successful \<open>query_subgraph\<close> returns exactly the
  nodes reachable from the accepted seeds within \<open>depth\<close> steps along the stored edges that pass the
  direction and kind filters, each with its stored payload; exactly the edges followed from nodes
  nearer than \<open>depth\<close>; no more than \<open>max_nodes\<close> and \<open>max_edges\<close> of them, none lost to the
  per-node fetch limit; and the result is a closed, sorted subgraph.
\<close>

theorem query_subgraph_exact:
  assumes "wf_tables t" and "query_subgraph t seeds depth eks nks max_nodes max_edges dir = Inr g"
  shows "fst ` set (sg_nodes g) = {w. \<exists>k. int k \<le> depth \<and>
        reach_in (neighbour (read_node t) (stored_edges t) dir eks nks) (\<lambda>s. s \<in> set seeds \<and> accepted (read_node t) nks s) k w} \<and>
    (\<forall>(w, n) \<in> set (sg_nodes g). read_node t w = Inr n \<and> node_kind_ok nks n) \<and>
    set (sg_edges g) = {e \<in> stored_edges t. \<exists>v k. int k < depth \<and> follows dir eks v e \<and>
        reach_in (neighbour (read_node t) (stored_edges t) dir eks nks) (\<lambda>s. s \<in> set seeds \<and> accepted (read_node t) nks s) k v} \<and>
    int (length (sg_nodes g)) \<le> max_nodes \<and> int (length (sg_edges g)) \<le> max_edges \<and> closed_subgraph g"
proof -
  let ?reach = "reach_in (neighbour (read_node t) (stored_edges t) dir eks nks) (\<lambda>s. s \<in> set seeds \<and> accepted (read_node t) nks s)"
  let ?F = "{e \<in> stored_edges t. \<exists>v k. int k < depth \<and> ?reach k v \<and> follows dir eks v e}"
  obtain st where st: "bfs_search (read_node t) (edges_from t) (edges_to t) seeds depth eks nks max_nodes max_edges dir = Inr st"
    and g: "sg_nodes g = sort_key fst (bf_nodes st)" "sg_edges g = map snd (sort_key fst (bf_edge_map st))" "closed_subgraph g"
    using assms(2) by (rule query_subgraph_Inr)
  have t: "tables_of (stored_tables t) = t" using assms(1) by (simp add: stored_tables_inverse)
  note exact = sqlite_reads.bfs_search_exact [of "stored_tables t", unfolded t, OF st]
  have keys: "fst ` set (bf_edge_map st) = edge_sort_key ` ?F"
    and pairs: "\<forall>(k, e) \<in> set (bf_edge_map st). k = edge_sort_key e \<and> e \<in> stored_edges t"
    using exact by blast+
  have inj: "inj_on edge_sort_key (stored_edges t)"
    using edge_key_inj_stored [OF assms(1)] by (auto simp: inj_on_def edge_key_def edge_sort_key_def edge_kind_value_inj)
  have "snd ` set (bf_edge_map st) = ?F"
  proof (intro set_eqI iffI)
    fix e assume "e \<in> snd ` set (bf_edge_map st)"
    then obtain k where k: "(k, e) \<in> set (bf_edge_map st)" by auto
    then have e: "k = edge_sort_key e" "e \<in> stored_edges t" using pairs by auto
    have "edge_sort_key e \<in> edge_sort_key ` ?F" using k e(1) keys by (metis fst_conv imageI)
    then obtain e' where e': "e' \<in> ?F" "edge_sort_key e = edge_sort_key e'" by blast
    then have "e = e'" using inj e(2) by (auto dest: inj_onD)
    then show "e \<in> ?F" using e'(1) by simp
  next
    fix e assume e: "e \<in> ?F"
    then have "edge_sort_key e \<in> fst ` set (bf_edge_map st)" unfolding keys by blast
    then obtain e' where e': "(edge_sort_key e, e') \<in> set (bf_edge_map st)" by auto
    then have "edge_sort_key e = edge_sort_key e'" "e' \<in> stored_edges t" using pairs by auto
    then have "e' = e" using inj e by (auto dest: inj_onD)
    then show "e \<in> snd ` set (bf_edge_map st)" using e' by force
  qed
  then have edges: "set (sg_edges g) = ?F" using g(2) by simp
  have nodes: "set (sg_nodes g) = set (bf_nodes st)" using g(1) by simp
  have "length (sg_nodes g) = length (bf_nodes st)" "length (sg_edges g) = length (bf_edge_map st)" using g(1,2) by simp_all
  then show ?thesis using exact g(3) unfolding edges nodes by (auto simp: conj_commute)
qed

theorem query_subgraph_exact_witness:
  "\<exists>g. query_subgraph sample_tables [''file:a''] 1 None None 10 10 ''out'' = Inr g \<and>
     fst ` set (sg_nodes g) = {''file:a'', ''file:b''} \<and> int (length (sg_edges g)) \<le> 10 \<and> closed_subgraph g"
proof -
  have "case query_subgraph sample_tables [''file:a''] 1 None None 10 10 ''out'' of
      Inl e \<Rightarrow> False | Inr g \<Rightarrow> map fst (sg_nodes g) = [''file:a'', ''file:b'']"
    by code_simp
  then obtain g where g: "query_subgraph sample_tables [''file:a''] 1 None None 10 10 ''out'' = Inr g"
      "map fst (sg_nodes g) = [''file:a'', ''file:b'']" by (auto split: sum.splits)
  have "fst ` set (sg_nodes g) = {''file:a'', ''file:b''}" using g(2) by (metis list.set(1,2) set_map)
  then show ?thesis using query_subgraph_exact [OF wf_sample_tables g(1)] g(1) by blast
qed

definition sample_entity :: node where
  "sample_entity =
     EntityNode \<lparr>gn_id = ''entity:f'', gn_name = ''f'', gn_evidence_ids = [],
       gn_provenance = [(sample_entry SK_SYNTAX [''a''])\<lparr>pe_source_tool := Some ''ts''\<rparr>], ei_repository_rel_path = ''a'', ei_entity_kind = ''function'',
       ei_line_start = None, ei_line_end = None, ei_column_start = None, ei_column_end = None, ei_signature = None\<rparr>"

definition mixed_tables :: tables where
  "mixed_tables = empty_tables\<lparr>
     tb_nodes := map (\<lambda>n. (node_ident n, node_row_of n ''provider:npm:x'')) [sample_file ''a'', sample_entity],
     tb_edges := map (\<lambda>e. (edge_key e, \<lparr>er_payload = e, er_scope = ''provider:npm:x''\<rparr>))
       [sample_edge FILE_CONTAINS_ENTITY ''file:a'' ''entity:f'']\<rparr>"

lemma mixed_query_ok: "is_ok (query_subgraph mixed_tables [''file:a''] 1 None None 10 10 ''out'')"
  by code_simp

lemma mixed_query_fails:
  "case query_subgraph mixed_tables [''file:a''] 1 None (Some [NK_FILE]) 10 10 ''out'' of
     Inl (GraphIntegrityErr m) \<Rightarrow> m = ''edge file_contains_entity:file:a->entity:f references missing endpoint''
   | _ \<Rightarrow> False"
  by code_simp

text \<open>
  The node-kind filter can make a query fail: the edge to a node that the filter drops is kept
  without its endpoint, and the subgraph validator then rejects the whole result, although the
  stored graph is sound and the same query without the filter succeeds.
\<close>

theorem node_kind_filter_breaks_query:
  "wf_tables mixed_tables \<and> is_ok (query_subgraph mixed_tables [''file:a''] 1 None None 10 10 ''out'') \<and>
   query_subgraph mixed_tables [''file:a''] 1 None (Some [NK_FILE]) 10 10 ''out'' =
     Inl (GraphIntegrityErr ''edge file_contains_entity:file:a->entity:f references missing endpoint'')"
proof -
  have "wf_tables mixed_tables"
    by (simp add: wf_tables_def mixed_tables_def empty_tables_def node_row_of_def sample_file_def sample_entity_def
        node_ident_def edge_key_def sample_edge_def)
  then show ?thesis using mixed_query_ok mixed_query_fails by (auto split: sum.splits err.splits)
qed

end
