(* ===== verification/Graph_Refresh.thy ===== *)
theory Graph_Refresh
  imports Graph_Query
begin

text \<open>
  Scope refresh (\<open>core/models/update.py\<close>) and the graph facade (\<open>core/models/workspace_graph.py\<close>).

  A provider's \<open>writer_fn\<close> is any stateful function on the \<open>GraphWriter\<close>. The properties are about
  the writers that go through the writer's own methods: a list of writes, which may end in an
  exception of the provider.
\<close>

section \<open>The writer\<close>

record graph_writer =
  gw_store :: sqlite_store
  gw_scope :: string
  gw_seen_nodes :: "node_id list"
  gw_seen_edges :: "edge_key list"
  gw_seen_evidence :: "string list"

definition on_store :: "unit store_op \<Rightarrow> (graph_writer, unit) stateful" where
  "on_store f w = (case f (gw_store w) of (r, s) \<Rightarrow> (r, w\<lparr>gw_store := s\<rparr>))"

definition writer_upsert_node :: "node \<Rightarrow> (graph_writer, unit) stateful" where
  "writer_upsert_node n w =
     sbind (on_store (upsert_node n (gw_scope w)))
       (\<lambda>_ w. (Inr (), w\<lparr>gw_seen_nodes := append_new (gw_seen_nodes w) [node_ident n]\<rparr>)) w"

definition writer_upsert_edge :: "edge \<Rightarrow> (graph_writer, unit) stateful" where
  "writer_upsert_edge e w =
     sbind (on_store (upsert_edge e (gw_scope w)))
       (\<lambda>_ w. (Inr (), w\<lparr>gw_seen_edges := append_new (gw_seen_edges w) [edge_key e]\<rparr>)) w"

definition writer_upsert_evidence :: "evidence \<Rightarrow> (graph_writer, unit) stateful" where
  "writer_upsert_evidence v w =
     sbind (on_store (upsert_evidence v (gw_scope w)))
       (\<lambda>_ w. (Inr (), w\<lparr>gw_seen_evidence := append_new (gw_seen_evidence w) [ev_id v]\<rparr>)) w"

record refresh_snapshot =
  rs_seen_nodes :: "node_id list"
  rs_seen_edges :: "edge_key list"
  rs_seen_evidence :: "string list"

definition refresh_body :: "string \<Rightarrow> (graph_writer, unit) stateful \<Rightarrow> refresh_snapshot store_op" where
  "refresh_body scope writer_fn s =
     (case writer_fn \<lparr>gw_store = s, gw_scope = scope, gw_seen_nodes = [], gw_seen_edges = [], gw_seen_evidence = []\<rparr> of
        (Inl e, w) \<Rightarrow> (Inl e, gw_store w)
      | (Inr u, w) \<Rightarrow>
          sbind (purge_scope_not_seen scope (gw_seen_nodes w) (gw_seen_edges w) (gw_seen_evidence w))
            (\<lambda>_. sreturn \<lparr>rs_seen_nodes = gw_seen_nodes w, rs_seen_edges = gw_seen_edges w,
                           rs_seen_evidence = gw_seen_evidence w\<rparr>) (gw_store w))"

definition run_refresh :: "string \<Rightarrow> (graph_writer, unit) stateful \<Rightarrow> refresh_snapshot store_op" where
  "run_refresh scope writer_fn =
     sbind (slift (validate_scope scope)) (\<lambda>_. transaction (refresh_body scope writer_fn))"

section \<open>The workspace graph\<close>

definition add_or_update_node :: "node \<Rightarrow> string \<Rightarrow> unit store_op" where
  "add_or_update_node n scope =
     sbind (slift (validate_scope scope)) (\<lambda>_. sbind (upsert_node n scope) (\<lambda>_. store_commit))"

definition add_or_update_edge :: "edge \<Rightarrow> string \<Rightarrow> unit store_op" where
  "add_or_update_edge e scope =
     sbind (slift (validate_scope scope)) (\<lambda>_. sbind (upsert_edge e scope) (\<lambda>_. store_commit))"

definition add_or_update_evidence :: "evidence \<Rightarrow> string \<Rightarrow> unit store_op" where
  "add_or_update_evidence v scope =
     sbind (slift (validate_scope scope)) (\<lambda>_. sbind (upsert_evidence v scope) (\<lambda>_. store_commit))"

definition remove_node :: "node_id \<Rightarrow> unit store_op" where
  "remove_node i = sbind (delete_node i) (\<lambda>_. store_commit)"

definition remove_edge :: "node_id \<Rightarrow> edge_kind \<Rightarrow> node_id \<Rightarrow> unit store_op" where
  "remove_edge src kind dst = sbind (delete_edge src kind dst) (\<lambda>_. store_commit)"

definition graph_get_node :: "node_id \<Rightarrow> node_kind option \<Rightarrow> node store_op" where
  "graph_get_node i expected =
     sbind (get_node i) (\<lambda>n.
       case expected of
         None \<Rightarrow> sreturn n
       | Some k \<Rightarrow>
           if kind_of n \<noteq> k
           then sraise (GraphIntegrityErr (''node '' @ i @ '' has kind '' @ node_kind_value (kind_of n) @
                  '', expected '' @ node_kind_value k))
           else sreturn n)"

definition graph_query_subgraph ::
  "tables \<Rightarrow> node_id list \<Rightarrow> int \<Rightarrow> edge_kind list option \<Rightarrow> node_kind list option \<Rightarrow> int \<Rightarrow> int \<Rightarrow> subgraph result" where
  "graph_query_subgraph t seeds depth eks nks max_nodes max_edges =
     query_subgraph t seeds depth eks nks max_nodes max_edges ''both''"

definition query_components :: "tables \<Rightarrow> int \<Rightarrow> subgraph result" where
  "query_components t max_nodes =
     ebind (list_nodes t (Some NK_COMPONENT) max_nodes) (\<lambda>ns.
       graph_query_subgraph t (map node_ident ns) 0 None None max_nodes (max max_nodes 1))"

definition query_component_by_name :: "tables \<Rightarrow> string \<Rightarrow> int \<Rightarrow> subgraph result" where
  "query_component_by_name t name max_nodes =
     ebind (find_nodes_by_name t name True max_nodes) (\<lambda>ns.
       graph_query_subgraph t (map node_ident (filter (\<lambda>n. kind_of n = NK_COMPONENT) ns)) 0 None
         (Some [NK_COMPONENT]) max_nodes (max max_nodes 1))"

definition query_dependents :: "tables \<Rightarrow> node_id \<Rightarrow> int \<Rightarrow> int \<Rightarrow> int \<Rightarrow> subgraph result" where
  "query_dependents t i depth max_nodes max_edges =
     query_subgraph t [i] depth (Some [DEPENDS_ON]) None max_nodes max_edges ''in''"

definition query_dependencies :: "tables \<Rightarrow> node_id \<Rightarrow> int \<Rightarrow> int \<Rightarrow> int \<Rightarrow> subgraph result" where
  "query_dependencies t i depth max_nodes max_edges =
     query_subgraph t [i] depth (Some [DEPENDS_ON]) None max_nodes max_edges ''out''"

definition graph_find_by_name :: "tables \<Rightarrow> string \<Rightarrow> bool \<Rightarrow> int \<Rightarrow> int \<Rightarrow> subgraph result" where
  "graph_find_by_name t name exact max_nodes max_edges =
     ebind (find_nodes_by_name t name exact max_nodes) (\<lambda>ns.
       graph_query_subgraph t (map node_ident ns) 0 None None max_nodes max_edges)"

section \<open>What a refresh should do\<close>

datatype write_op = WNode node | WEdge edge | WEvidence evidence | WRaise err

primrec write_step :: "write_op \<Rightarrow> (graph_writer, unit) stateful" where
  "write_step (WNode n) = writer_upsert_node n"
| "write_step (WEdge e) = writer_upsert_edge e"
| "write_step (WEvidence v) = writer_upsert_evidence v"
| "write_step (WRaise e) = sraise e"

primrec run_writes :: "write_op list \<Rightarrow> (graph_writer, unit) stateful" where
  "run_writes [] = sreturn ()"
| "run_writes (x # xs) = sbind (write_step x) (\<lambda>_. run_writes xs)"

definition raises :: "write_op \<Rightarrow> bool" where
  "raises x = (case x of WRaise e \<Rightarrow> True | _ \<Rightarrow> False)"

text \<open>The last row a list of writes leaves under each key.\<close>

definition node_writes :: "string \<Rightarrow> write_op list \<Rightarrow> (node_id \<times> node_row) list" where
  "node_writes scope ops = concat (map (\<lambda>x. case x of WNode n \<Rightarrow> [(node_ident n, node_row_of n scope)] | _ \<Rightarrow> []) ops)"

definition edge_writes :: "string \<Rightarrow> write_op list \<Rightarrow> (edge_key \<times> edge_row) list" where
  "edge_writes scope ops =
     concat (map (\<lambda>x. case x of WEdge e \<Rightarrow> [(edge_key e, \<lparr>er_payload = e, er_scope = scope\<rparr>)] | _ \<Rightarrow> []) ops)"

definition evidence_writes :: "string \<Rightarrow> write_op list \<Rightarrow> (string \<times> evidence_row) list" where
  "evidence_writes scope ops =
     concat (map (\<lambda>x. case x of WEvidence v \<Rightarrow> [(ev_id v, \<lparr>vr_payload = v, vr_scope = scope\<rparr>)] | _ \<Rightarrow> []) ops)"

text \<open>
  The abstract specification of one table: a key written by the refresh holds its last row, any
  other row of the scope is gone, rows of other scopes are untouched.
\<close>

definition replace_scope :: "('r \<Rightarrow> string) \<Rightarrow> string \<Rightarrow> ('k \<times> 'r) list \<Rightarrow> ('k \<rightharpoonup> 'r) \<Rightarrow> 'k \<rightharpoonup> 'r" where
  "replace_scope scope_of scope writes old k =
     (case map_of (rev writes) k of
        Some r \<Rightarrow> Some r
      | None \<Rightarrow> (case old k of Some r \<Rightarrow> if scope_of r = scope then None else Some r | None \<Rightarrow> None))"

section \<open>The writes of a refresh\<close>

definition upsert_all :: "('k \<times> 'r) list \<Rightarrow> ('k \<times> 'r) list \<Rightarrow> ('k \<times> 'r) list" where
  "upsert_all writes al = fold (\<lambda>(k, r). AList.update k r) writes al"

lemma upsert_all_simps [simp]:
  "upsert_all [] al = al" "upsert_all ((k, r) # ws) al = upsert_all ws (AList.update k r al)"
  by (simp_all add: upsert_all_def)

lemma upsert_all_append [simp]: "upsert_all (xs @ ys) al = upsert_all ys (upsert_all xs al)"
  by (simp add: upsert_all_def)

lemma map_of_upsert_all: "map_of (upsert_all ws al) = map_of al ++ map_of (rev ws)"
proof (induction ws arbitrary: al)
  case (Cons w ws)
  then show ?case by (cases w) (auto simp: update_conv' map_add_def fun_eq_iff split: option.splits)
qed simp

definition written :: "string \<Rightarrow> write_op list \<Rightarrow> tables \<Rightarrow> tables" where
  "written scope ops t =
     t\<lparr>tb_nodes := upsert_all (node_writes scope ops) (tb_nodes t),
       tb_edges := upsert_all (edge_writes scope ops) (tb_edges t),
       tb_evidence := upsert_all (evidence_writes scope ops) (tb_evidence t)\<rparr>"

lemma write_connected:
  assumes "ss_connected (gw_store w)" and "\<not> raises x"
  shows "\<exists>w'. write_step x w = (Inr (), w') \<and> gw_scope w' = gw_scope w \<and>
     gw_store w' = (gw_store w)\<lparr>ss_working := written (gw_scope w) [x] (ss_working (gw_store w)), ss_in_tx := True\<rparr> \<and>
     set (gw_seen_nodes w') = set (gw_seen_nodes w) \<union> fst ` set (node_writes (gw_scope w) [x]) \<and>
     set (gw_seen_edges w') = set (gw_seen_edges w) \<union> fst ` set (edge_writes (gw_scope w) [x]) \<and>
     set (gw_seen_evidence w') = set (gw_seen_evidence w) \<union> fst ` set (evidence_writes (gw_scope w) [x])"
  using assms
  by (cases x)
    (auto simp: writer_upsert_node_def writer_upsert_edge_def writer_upsert_evidence_def on_store_def upsert_node_def
      upsert_edge_def upsert_evidence_def written_def node_writes_def edge_writes_def evidence_writes_def raises_def
      sbind_def insert_absorb)

lemma writes_Cons:
  "node_writes scope (x # xs) = node_writes scope [x] @ node_writes scope xs"
  "edge_writes scope (x # xs) = edge_writes scope [x] @ edge_writes scope xs"
  "evidence_writes scope (x # xs) = evidence_writes scope [x] @ evidence_writes scope xs"
  by (simp_all add: node_writes_def edge_writes_def evidence_writes_def)

lemma written_Cons: "written scope (x # xs) t = written scope xs (written scope [x] t)"
  by (simp add: written_def writes_Cons [of scope x xs])

lemma written_Nil [simp]: "written scope [] t = (t :: tables)"
  by (simp add: written_def node_writes_def edge_writes_def evidence_writes_def)

lemma wf_written_one: "wf_tables t \<Longrightarrow> wf_tables (written scope [x] t)"
proof (cases x)
  case (WNode n)
  assume "wf_tables t"
  then show ?thesis using wf_upsert_node [of t n scope] WNode
    by (simp add: written_def node_writes_def edge_writes_def evidence_writes_def)
next
  case (WEdge e)
  assume "wf_tables t"
  then show ?thesis using wf_upsert_edge [of t e scope] WEdge
    by (simp add: written_def node_writes_def edge_writes_def evidence_writes_def)
next
  case (WEvidence v)
  assume "wf_tables t"
  then show ?thesis using wf_upsert_evidence [of t v scope] WEvidence
    by (simp add: written_def node_writes_def edge_writes_def evidence_writes_def)
qed (simp add: written_def node_writes_def edge_writes_def evidence_writes_def)

lemma wf_written: "wf_tables t \<Longrightarrow> wf_tables (written scope ops t)"
proof (induction ops arbitrary: t)
  case (Cons x xs)
  then show ?case unfolding written_Cons [of scope x xs] by (intro Cons.IH wf_written_one)
qed simp

lemma run_writes_connected:
  assumes "ss_connected (gw_store w)" and "\<forall>x\<in>set ops. \<not> raises x"
  shows "\<exists>w' b. run_writes ops w = (Inr (), w') \<and> gw_scope w' = gw_scope w \<and>
     gw_store w' = (gw_store w)\<lparr>ss_working := written (gw_scope w) ops (ss_working (gw_store w)), ss_in_tx := b\<rparr> \<and>
     set (gw_seen_nodes w') = set (gw_seen_nodes w) \<union> fst ` set (node_writes (gw_scope w) ops) \<and>
     set (gw_seen_edges w') = set (gw_seen_edges w) \<union> fst ` set (edge_writes (gw_scope w) ops) \<and>
     set (gw_seen_evidence w') = set (gw_seen_evidence w) \<union> fst ` set (evidence_writes (gw_scope w) ops)"
  using assms
proof (induction ops arbitrary: w)
  case Nil
  have "gw_store w = (gw_store w)\<lparr>ss_in_tx := ss_in_tx (gw_store w)\<rparr>" by (cases "gw_store w") simp
  then show ?case
    by (intro exI [of _ w] exI [of _ "ss_in_tx (gw_store w)"])
      (simp add: node_writes_def edge_writes_def evidence_writes_def store_working_same)
next
  case (Cons x xs)
  obtain u where u: "write_step x w = (Inr (), u)" "gw_scope u = gw_scope w"
      "gw_store u = (gw_store w)\<lparr>ss_working := written (gw_scope w) [x] (ss_working (gw_store w)), ss_in_tx := True\<rparr>"
      "set (gw_seen_nodes u) = set (gw_seen_nodes w) \<union> fst ` set (node_writes (gw_scope w) [x])"
      "set (gw_seen_edges u) = set (gw_seen_edges w) \<union> fst ` set (edge_writes (gw_scope w) [x])"
      "set (gw_seen_evidence u) = set (gw_seen_evidence w) \<union> fst ` set (evidence_writes (gw_scope w) [x])"
    using write_connected [OF Cons.prems(1), of x] Cons.prems(2) by auto
  have "ss_connected (gw_store u)" using Cons.prems(1) u(3) by simp
  with Cons.IH [of u] Cons.prems(2) obtain v b where v: "run_writes xs u = (Inr (), v)" "gw_scope v = gw_scope u"
      "gw_store v = (gw_store u)\<lparr>ss_working := written (gw_scope u) xs (ss_working (gw_store u)), ss_in_tx := b\<rparr>"
      "set (gw_seen_nodes v) = set (gw_seen_nodes u) \<union> fst ` set (node_writes (gw_scope u) xs)"
      "set (gw_seen_edges v) = set (gw_seen_edges u) \<union> fst ` set (edge_writes (gw_scope u) xs)"
      "set (gw_seen_evidence v) = set (gw_seen_evidence u) \<union> fst ` set (evidence_writes (gw_scope u) xs)"
    by auto
  have "run_writes (x # xs) w = (Inr (), v)" using u(1) v(1) by simp
  then show ?case
    using u(2-) v(2-)
    by (intro exI [of _ v] exI [of _ b]) (auto simp: written_Cons [of _ x xs] writes_Cons [of _ x xs])
qed

text \<open>A writer touches the database only through statements.\<close>

lemma on_store_frame:
  assumes "ss_connected (gw_store w)" and "on_store (dml f) w = (r, w')"
  shows "r = Inr () \<and> ss_connected (gw_store w') \<and> ss_committed (gw_store w') = ss_committed (gw_store w)"
  using assms by (auto simp: on_store_def)

lemma write_frame:
  assumes "ss_connected (gw_store w)" and "write_step x w = (r, w')"
  shows "ss_connected (gw_store w') \<and> ss_committed (gw_store w') = ss_committed (gw_store w) \<and>
     (is_ok r \<longleftrightarrow> \<not> raises x)"
  using assms
  by (cases x) (auto simp: writer_upsert_node_def writer_upsert_edge_def writer_upsert_evidence_def on_store_def
      upsert_node_def upsert_edge_def upsert_evidence_def raises_def sbind_def is_ok_def)

lemma run_writes_frame:
  assumes "ss_connected (gw_store w)" and "run_writes ops w = (r, w')"
  shows "ss_connected (gw_store w') \<and> ss_committed (gw_store w') = ss_committed (gw_store w) \<and>
     (is_ok r \<longleftrightarrow> (\<forall>x\<in>set ops. \<not> raises x))"
  using assms
proof (induction ops arbitrary: w)
  case (Cons x xs)
  obtain q u where u: "write_step x w = (q, u)" by fastforce
  note fr = write_frame [OF Cons.prems(1) u]
  show ?case
  proof (cases q)
    case (Inl e)
    then show ?thesis using Cons.prems(2) u fr by auto
  next
    case (Inr y)
    then have "run_writes xs u = (r, w')" using Cons.prems(2) u by simp
    from Cons.IH [OF _ this] fr Inr show ?thesis by simp
  qed
qed auto

lemma run_refresh_valid: "valid_scope scope \<Longrightarrow> run_refresh scope f s = transaction (refresh_body scope f) s"
  by (simp add: run_refresh_def validate_scope_def sbind_def)

lemma delete_each_frame:
  assumes "ss_connected s" and "delete_each del ks s = (r, t)"
  shows "r = Inr () \<and> ss_connected t \<and> ss_committed t = ss_committed s"
  using delete_each_connected [OF assms(1), of del ks] assms by auto

lemma purge_frame:
  assumes "ss_connected s" and "purge_scope_not_seen scope ns es vs s = (r, t)"
  shows "r = Inr () \<and> ss_connected t \<and> ss_committed t = ss_committed s"
proof -
  obtain r1 s1 where 1: "delete_each (\<lambda>k t. t\<lparr>tb_edges := AList.delete k (tb_edges t)\<rparr>)
      (filter (\<lambda>k. k \<notin> set es) (scope_edges (ss_working s) scope)) s = (r1, s1)" by fastforce
  note f1 = delete_each_frame [OF assms(1) 1]
  obtain r2 s2 where 2: "delete_each (\<lambda>k t. t\<lparr>tb_nodes := AList.delete k (tb_nodes t)\<rparr>)
      (filter (\<lambda>k. k \<notin> set ns) (scope_node_ids (ss_working s1) scope)) s1 = (r2, s2)" by fastforce
  note f2 = delete_each_frame [OF conjunct1 [OF conjunct2 [OF f1]] 2]
  have "delete_each (\<lambda>k t. t\<lparr>tb_evidence := AList.delete k (tb_evidence t)\<rparr>)
      (filter (\<lambda>k. k \<notin> set vs) (scope_evidence_ids (ss_working s2) scope)) s2 = (r, t)"
    using assms 1 2 f1 f2 by (simp add: purge_scope_not_seen_def)
  from delete_each_frame [OF _ this] f1 f2 show ?thesis by simp
qed

lemma refresh_body_frame:
  assumes "ss_connected s" and "refresh_body scope (run_writes ops) s = (r, t)"
  shows "ss_connected t \<and> ss_committed t = ss_committed s \<and> (is_ok r \<longleftrightarrow> (\<forall>x\<in>set ops. \<not> raises x))"
proof -
  let ?w = "\<lparr>gw_store = s, gw_scope = scope, gw_seen_nodes = [], gw_seen_edges = [], gw_seen_evidence = []\<rparr>"
  obtain q w where w: "run_writes ops ?w = (q, w)" by fastforce
  have fr: "ss_connected (gw_store w)" "ss_committed (gw_store w) = ss_committed s"
      "is_ok q \<longleftrightarrow> (\<forall>x\<in>set ops. \<not> raises x)"
    using run_writes_frame [OF _ w] assms(1) by simp_all
  show ?thesis
  proof (cases q)
    case (Inl e)
    then show ?thesis using assms w fr by (auto simp: refresh_body_def)
  next
    case (Inr u)
    obtain q' s' where p: "purge_scope_not_seen scope (gw_seen_nodes w) (gw_seen_edges w) (gw_seen_evidence w) (gw_store w) = (q', s')"
      by fastforce
    from purge_frame [OF fr(1) p] show ?thesis using assms w fr Inr p by (auto simp: refresh_body_def)
  qed
qed

lemma map_of_purged_upserts:
  assumes "distinct (map fst al)"
  shows "map_of (filter (\<lambda>(k, r). sc r = scope \<longrightarrow> k \<in> fst ` set ws) (upsert_all ws al)) =
    replace_scope sc scope ws (map_of al)"
proof
  fix k
  have d: "distinct (map fst (upsert_all ws al))"
    using assms by (induction ws arbitrary: al) (auto simp: distinct_update split: prod.splits)
  have "map_of (rev ws) k = None \<longleftrightarrow> k \<notin> fst ` set ws" by (simp add: map_of_eq_None_iff)
  then show "map_of (filter (\<lambda>(k, r). sc r = scope \<longrightarrow> k \<in> fst ` set ws) (upsert_all ws al)) k =
      replace_scope sc scope ws (map_of al) k"
    unfolding map_of_filter_row [OF d] map_of_upsert_all
    by (auto simp: replace_scope_def map_add_def split: option.splits)
qed

text \<open>The tables after a refresh that did not raise, table by table.\<close>

definition refreshed :: "string \<Rightarrow> write_op list \<Rightarrow> tables \<Rightarrow> tables" where
  "refreshed scope ops t =
     purged scope (map fst (node_writes scope ops)) (map fst (edge_writes scope ops)) (map fst (evidence_writes scope ops))
       (written scope ops t)"

lemma purged_cong:
  "set ns = set ns' \<Longrightarrow> set es = set es' \<Longrightarrow> set vs = set vs' \<Longrightarrow> purged scope ns es vs t = purged scope ns' es' vs' t"
  by (simp add: purged_def)

lemma refresh_body_ok:
  assumes "ss_connected s" and "wf_tables (ss_working s)" and "\<forall>x\<in>set ops. \<not> raises x"
  shows "\<exists>snap t. refresh_body scope (run_writes ops) s = (Inr snap, t) \<and> ss_working t = refreshed scope ops (ss_working s)"
proof -
  let ?w = "\<lparr>gw_store = s, gw_scope = scope, gw_seen_nodes = [], gw_seen_edges = [], gw_seen_evidence = []\<rparr>"
  obtain w b where w: "run_writes ops ?w = (Inr (), w)"
      "gw_store w = s\<lparr>ss_working := written scope ops (ss_working s), ss_in_tx := b\<rparr>"
      "set (gw_seen_nodes w) = fst ` set (node_writes scope ops)"
      "set (gw_seen_edges w) = fst ` set (edge_writes scope ops)"
      "set (gw_seen_evidence w) = fst ` set (evidence_writes scope ops)"
    using run_writes_connected [of ?w ops] assms(1,3) by auto
  have "purged scope (gw_seen_nodes w) (gw_seen_edges w) (gw_seen_evidence w) (written scope ops (ss_working s)) =
      refreshed scope ops (ss_working s)"
    unfolding refreshed_def by (rule purged_cong) (simp_all add: w(3-5))
  with purge_scope_not_seen_connected [of "gw_store w" scope "gw_seen_nodes w" "gw_seen_edges w" "gw_seen_evidence w"]
  obtain b' where "purge_scope_not_seen scope (gw_seen_nodes w) (gw_seen_edges w) (gw_seen_evidence w) (gw_store w) =
      (Inr (), (gw_store w)\<lparr>ss_working := refreshed scope ops (ss_working s), ss_in_tx := b'\<rparr>)"
    using assms(1,2) by (auto simp: w(2) wf_written)
  then show ?thesis using w(1) by (auto simp: refresh_body_def)
qed

lemma refreshed_maps:
  assumes "wf_tables t"
  shows "map_of (tb_nodes (refreshed scope ops t)) = replace_scope nr_scope scope (node_writes scope ops) (map_of (tb_nodes t))"
    and "map_of (tb_edges (refreshed scope ops t)) = replace_scope er_scope scope (edge_writes scope ops) (map_of (tb_edges t))"
    and "map_of (tb_evidence (refreshed scope ops t)) = replace_scope vr_scope scope (evidence_writes scope ops) (map_of (tb_evidence t))"
  using assms
  by (simp_all add: refreshed_def purged_def written_def map_of_purged_upserts wf_tables_def)

lemma wf_refreshed: "wf_tables t \<Longrightarrow> wf_tables (refreshed scope ops t)"
  by (simp add: refreshed_def wf_purged wf_written)

section \<open>Properties\<close>

text \<open>
  C2. A refresh replaces one scope and nothing else: on an idle store with well-formed tables, a
  writer that raises nothing makes \<open>run_refresh\<close> succeed, no transaction stays open, and in the
  committed database every key that the refresh wrote holds its last row, every other row of the
  scope is gone, and the rows of all other scopes are as they were.
\<close>

theorem refresh_replaces_scope:
  assumes "valid_scope scope" and "ss_connected s" and "\<not> ss_in_tx s" and "wf_tables (ss_working s)"
    and "\<forall>x\<in>set ops. \<not> raises x"
  shows "\<exists>snap t. run_refresh scope (run_writes ops) s = (Inr snap, t) \<and>
     \<not> ss_in_tx t \<and> ss_working t = ss_committed t \<and> wf_tables (ss_committed t) \<and>
     map_of (tb_nodes (ss_committed t)) =
       replace_scope nr_scope scope (node_writes scope ops) (map_of (tb_nodes (ss_working s))) \<and>
     map_of (tb_edges (ss_committed t)) =
       replace_scope er_scope scope (edge_writes scope ops) (map_of (tb_edges (ss_working s))) \<and>
     map_of (tb_evidence (ss_committed t)) =
       replace_scope vr_scope scope (evidence_writes scope ops) (map_of (tb_evidence (ss_working s)))"
proof -
  obtain r t where run: "transaction (refresh_body scope (run_writes ops)) s = (r, t)" by fastforce
  obtain snap u where u: "refresh_body scope (run_writes ops) (s\<lparr>ss_in_tx := True\<rparr>) = (Inr snap, u)"
      "ss_working u = refreshed scope ops (ss_working s)"
    using refresh_body_ok [of "s\<lparr>ss_in_tx := True\<rparr>" ops scope] assms(2,4,5) by auto
  have "store_begin s = (Inr (), s\<lparr>ss_in_tx := True\<rparr>)" using assms(2,3) by simp
  moreover have "store_commit u = (Inr (), u\<lparr>ss_committed := ss_working u, ss_in_tx := False\<rparr>)"
    using refresh_body_frame [OF _ u(1)] assms(2) by simp
  ultimately have "r = Inr snap \<and> t = u\<lparr>ss_committed := ss_working u, ss_in_tx := False\<rparr>"
    using run u(1) by (simp add: transaction_def transaction_with_def)
  then show ?thesis
    using run u(2) refreshed_maps [OF assms(4), of scope ops] wf_refreshed [OF assms(4)]
    by (simp add: run_refresh_valid [OF assms(1)])
qed

definition sample_scope :: string where
  "sample_scope = ''provider:npm:x''"

lemma valid_sample_scope: "valid_scope sample_scope"
  by code_simp

theorem refresh_replaces_scope_witness:
  "\<exists>snap t. run_refresh sample_scope (run_writes [WNode (sample_file ''d'')]) (open_store sample_tables) = (Inr snap, t) \<and>
     map_of (tb_nodes (ss_committed t)) ''file:a'' = None \<and>
     map_of (tb_nodes (ss_committed t)) ''file:d'' = Some (node_row_of (sample_file ''d'') sample_scope)"
proof -
  obtain snap t where t: "run_refresh sample_scope (run_writes [WNode (sample_file ''d'')]) (open_store sample_tables) = (Inr snap, t)"
    and m: "map_of (tb_nodes (ss_committed t)) =
       replace_scope nr_scope sample_scope (node_writes sample_scope [WNode (sample_file ''d'')])
         (map_of (tb_nodes (ss_working (open_store sample_tables))))"
    using refresh_replaces_scope [OF valid_sample_scope, of "open_store sample_tables" "[WNode (sample_file ''d'')]"]
    by (auto simp: open_store_def wf_sample_tables raises_def)
  have "node_writes sample_scope [WNode (sample_file ''d'')] = [(''file:d'', node_row_of (sample_file ''d'') sample_scope)]"
    by (simp add: node_writes_def node_ident_def sample_file_def)
  moreover have "map_of (tb_nodes sample_tables) ''file:a'' = Some (node_row_of (sample_file ''a'') sample_scope)"
    by (simp add: sample_tables_def sample_scope_def)
  ultimately have "map_of (tb_nodes (ss_committed t)) ''file:a'' = None \<and>
      map_of (tb_nodes (ss_committed t)) ''file:d'' = Some (node_row_of (sample_file ''d'') sample_scope)"
    unfolding m by (simp add: replace_scope_def open_store_def node_row_of_def)
  with t show ?thesis by blast
qed



text \<open>
  A node added through the graph facade is durable: after closing the store and opening the same
  database again, reading it with its own kind as the expected kind returns exactly that node, and
  any other expected kind is an integrity error.
\<close>

theorem added_node_survives_reopen:
  assumes "valid_scope scope" and "ss_connected s" and "settled_node n"
    and "tb_meta (ss_working s) = Some (schema_version, ss_workspace_root s)"
  shows "\<exists>t u. add_or_update_node n scope s = (Inr (), t) \<and> sbind close_store (\<lambda>_. initialize) t = (Inr (), u) \<and>
     fst (graph_get_node (node_ident n) (Some (kind_of n)) u) = Inr n \<and>
     (\<forall>k. k \<noteq> kind_of n \<longrightarrow> \<not> is_ok (fst (graph_get_node (node_ident n) (Some k) u)))"
proof -
  let ?t = "(ss_working s)\<lparr>tb_nodes := AList.update (node_ident n) (node_row_of n scope) (tb_nodes (ss_working s))\<rparr>"
  let ?s = "s\<lparr>ss_working := ?t, ss_committed := ?t, ss_in_tx := False\<rparr>"
  have add: "add_or_update_node n scope s = (Inr (), ?s)"
    using assms(1,2) by (simp add: add_or_update_node_def validate_scope_def sbind_def upsert_node_def)
  have re: "sbind close_store (\<lambda>_. initialize) ?s = (Inr (), ?s)"
    using assms(2,4) by (simp add: close_store_def initialize_def apply_migrations_def sbind_def)
  have "read_node ?t (node_ident n) = Inr n"
    using assms(3) by (simp add: read_node_def update_conv' node_row_of_def parse_settled)
  then have "get_node (node_ident n) ?s = (Inr n, ?s)" using assms(2) by (simp add: get_node_def)
  then show ?thesis using add re
    by (intro exI [of _ ?s]) (auto simp: graph_get_node_def)
qed

theorem added_node_survives_reopen_witness:
  "\<exists>t u. add_or_update_node (sample_file ''d'') sample_scope (open_store sample_tables) = (Inr (), t) \<and>
     sbind close_store (\<lambda>_. initialize) t = (Inr (), u) \<and>
     fst (graph_get_node (node_ident (sample_file ''d'')) (Some (kind_of (sample_file ''d''))) u) = Inr (sample_file ''d'')"
proof -
  have "settled_node (sample_file ''d'')" unfolding settled_node_def settled_entry_def by code_simp
  with added_node_survives_reopen [OF valid_sample_scope, of "open_store sample_tables" "sample_file ''d''"]
  show ?thesis by (auto simp: open_store_def sample_tables_def empty_tables_def)
qed

end
