(* ===== verification/Repository_Model.thy ===== *)
theory Repository_Model
  imports Graph_Model
begin

text \<open>
  What a repository is made of: the test models (\<open>core/tests/models.py\<close>), dependency edges
  (\<open>core/intelligence_models.py\<close>, \<open>core/dependency_projection.py\<close>), the provider table of
  \<open>core/repository.py\<close>, \<open>ArchitectureIntelligence\<close> and the discovery half of \<open>TestIntelligence\<close>.

  A provider is a record of what its methods answer: the concrete providers (npm, Python, Go,
  Markdown, OpenAPI) are parameters of this model. Where a provider method can raise in a way the
  callers see, its field is a \<open>result\<close>.
\<close>

section \<open>Test models\<close>

record related_test_target =
  rt_repository_rel_path :: "string option"
  rt_owner_id :: "string option"

definition mk_related_test_target :: "string option \<Rightarrow> string option \<Rightarrow> related_test_target result" where
  "mk_related_test_target path owner =
     ebind (check ((path \<noteq> None) \<noteq> (owner \<noteq> None))
       (ValueErr ''exactly one of repository_rel_path or owner_id must be provided'')) (\<lambda>_.
     case path of
       Some p \<Rightarrow> ebind (normalize_repository_relative_path p) (\<lambda>p'.
           Inr \<lparr>rt_repository_rel_path = Some p', rt_owner_id = owner\<rparr>)
     | None \<Rightarrow> ebind (check (\<not> blank (the owner)) (ValueErr ''owner_id must not be empty'')) (\<lambda>_.
           Inr \<lparr>rt_repository_rel_path = None, rt_owner_id = owner\<rparr>))"

record related_test_match =
  rm_test :: test_definition
  rm_reason :: string
  rm_owner_id :: "string option"
  rm_repository_rel_path :: "string option"

definition relation_reasons :: "string list" where
  "relation_reasons =
     [''same_owner'', ''same_component'', ''same_package'', ''dependent_component'', ''repository_default_suite'']"

definition mk_related_test_match ::
  "test_definition \<Rightarrow> string \<Rightarrow> string option \<Rightarrow> string option \<Rightarrow> related_test_match result" where
  "mk_related_test_match t reason owner path =
     ebind (check (reason \<in> set relation_reasons) (ValueErr (''unsupported relation_reason: '' @ quoted reason))) (\<lambda>_.
     case path of
       None \<Rightarrow> Inr \<lparr>rm_test = t, rm_reason = reason, rm_owner_id = owner, rm_repository_rel_path = None\<rparr>
     | Some p \<Rightarrow> ebind (normalize_repository_relative_path p) (\<lambda>p'.
         Inr \<lparr>rm_test = t, rm_reason = reason, rm_owner_id = owner, rm_repository_rel_path = Some p'\<rparr>))"

record discovered_test =
  dt_test :: test_definition
  dt_provenance :: provenance

definition has_test_source :: "provenance \<Rightarrow> bool" where
  "has_test_source p \<longleftrightarrow> (\<exists>e\<in>set p. pe_source_kind e \<in> {SK_TEST_TOOL, SK_HEURISTIC})"

definition validate_discovered_test :: "discovered_test \<Rightarrow> discovered_test result" where
  "validate_discovered_test d =
     ebind (check (dt_provenance d \<noteq> []) (ValueErr ''provenance must not be empty'')) (\<lambda>_.
     ebind (check (has_test_source (dt_provenance d))
       (ValueErr ''discovered tests must include test-tool or heuristic provenance'')) (\<lambda>_.
     ebind (check (is_authoritative_test_provenance (dt_provenance d) \<longrightarrow>
         AUTHORITATIVE \<in> pe_confidence_mode ` set (dt_provenance d))
       (ValueErr ''authoritative discovered tests must include authoritative provenance'')) (\<lambda>_. Inr d)))"

definition discovered_is_authoritative :: "discovered_test \<Rightarrow> bool" where
  "discovered_is_authoritative d = is_authoritative_test_provenance (dt_provenance d)"

record resolved_related_test =
  rr_match :: related_test_match
  rr_discovered :: discovered_test

definition mk_resolved_related_test :: "related_test_match \<Rightarrow> discovered_test \<Rightarrow> resolved_related_test result" where
  "mk_resolved_related_test m d =
     ebind (check (gn_id (rm_test m) = gn_id (dt_test d))
       (ValueErr ''match and discovered_test must reference the same test_definition id'')) (\<lambda>_.
       Inr \<lparr>rr_match = m, rr_discovered = d\<rparr>)"

text \<open>The properties of \<open>ResolvedRelatedTest\<close>.\<close>

definition rr_test_id :: "resolved_related_test \<Rightarrow> string" where
  "rr_test_id r = gn_id (rm_test (rr_match r))"

definition rr_provenance :: "resolved_related_test \<Rightarrow> provenance" where
  "rr_provenance r = dt_provenance (rr_discovered r)"

definition rr_is_authoritative :: "resolved_related_test \<Rightarrow> bool" where
  "rr_is_authoritative r = discovered_is_authoritative (rr_discovered r)"

record test_target_description =
  tt_test :: test_definition
  tt_argv :: "string list"
  tt_cwd :: "string option"
  tt_is_authoritative :: bool
  tt_warning :: "string option"
  tt_provenance :: provenance

definition validate_argv :: "string \<Rightarrow> string list \<Rightarrow> unit result" where
  "validate_argv field_name argv =
     ebind (check (argv \<noteq> []) (ValueErr (field_name @ '' must not be empty''))) (\<lambda>_.
     check (\<forall>a\<in>set argv. \<not> blank a) (ValueErr (field_name @ '' must not contain empty arguments'')))"

definition validate_optional_text :: "string \<Rightarrow> string option \<Rightarrow> unit result" where
  "validate_optional_text field_name value =
     check (case value of None \<Rightarrow> True | Some v \<Rightarrow> \<not> blank v) (ValueErr (field_name @ '' must not be empty''))"

definition validate_test_target_description :: "test_target_description \<Rightarrow> test_target_description result" where
  "validate_test_target_description d =
     ebind (validate_argv ''command_argv'' (tt_argv d)) (\<lambda>_.
     ebind (validate_optional_text ''command_cwd'' (tt_cwd d)) (\<lambda>_.
     ebind (validate_optional_text ''warning'' (tt_warning d)) (\<lambda>_.
     ebind (check (tt_provenance d \<noteq> []) (ValueErr ''provenance must not be empty'')) (\<lambda>_.
     ebind (check (has_test_source (tt_provenance d))
       (ValueErr ''test target description must include test-tool or heuristic provenance'')) (\<lambda>_.
     ebind (check (tt_is_authoritative d \<longrightarrow> AUTHORITATIVE \<in> pe_confidence_mode ` set (tt_provenance d))
       (ValueErr ''authoritative test target descriptions must include authoritative provenance'')) (\<lambda>_.
     ebind (check (tt_is_authoritative d \<or> tt_warning d \<noteq> None)
       (ValueErr ''heuristic test target descriptions must include warning'')) (\<lambda>_. Inr d)))))))"

datatype execution_status = XS_PASSED | XS_FAILED | XS_ERROR | XS_TIMEOUT

record test_failure_snippet =
  fs_repository_rel_path :: string
  fs_line_start :: int
  fs_line_end :: int
  fs_snippet :: string
  fs_provenance :: provenance

definition validate_failure_snippet :: "test_failure_snippet \<Rightarrow> test_failure_snippet result" where
  "validate_failure_snippet f =
     ebind (normalize_repository_relative_path (fs_repository_rel_path f)) (\<lambda>p.
     ebind (check (1 \<le> fs_line_start f) (ValueErr ''line_start must be >= 1'')) (\<lambda>_.
     ebind (check (fs_line_start f \<le> fs_line_end f) (ValueErr ''line_end must be >= line_start'')) (\<lambda>_.
     ebind (check (\<not> blank (fs_snippet f)) (ValueErr ''snippet must not be empty'')) (\<lambda>_.
     ebind (check (fs_provenance f \<noteq> []) (ValueErr ''provenance must not be empty'')) (\<lambda>_.
       Inr (f\<lparr>fs_repository_rel_path := p\<rparr>))))))"

text \<open>The log path rule that test, build and action results share.\<close>

definition validate_log_path :: "string \<Rightarrow> string result" where
  "validate_log_path value =
     (if blank value then Inl (ValueErr ''log_path must not be empty'')
      else let normalized = strip (replace_char (CHR 0x5C) (CHR ''/'') value) in
           if \<not> contains ''://'' normalized \<and> \<not> startswith normalized ''/''
           then normalize_repository_relative_path normalized else Inr normalized)"

record test_execution_result =
  te_test_id :: string
  te_status :: execution_status
  te_success :: bool
  te_argv :: "string list"
  te_cwd :: "string option"
  te_exit_code :: "int option"
  te_duration_ms :: int
  te_log_path :: string
  te_warning :: "string option"
  te_output_excerpt :: "string option"
  te_failure_snippets :: "test_failure_snippet list"
  te_provenance :: provenance

text \<open>The outcome rules that test and build results share.\<close>

definition validate_outcome :: "int \<Rightarrow> bool \<Rightarrow> execution_status \<Rightarrow> int option \<Rightarrow> provenance \<Rightarrow> unit result" where
  "validate_outcome duration_ms success status exit_code p =
     ebind (check (0 \<le> duration_ms) (ValueErr ''duration_ms must be >= 0'')) (\<lambda>_.
     ebind (check (success \<longrightarrow> status = XS_PASSED) (ValueErr ''success=True requires status=passed'')) (\<lambda>_.
     ebind (check (status = XS_PASSED \<longrightarrow> success) (ValueErr ''status=passed requires success=True'')) (\<lambda>_.
     ebind (check (status = XS_TIMEOUT \<longrightarrow> exit_code = None) (ValueErr ''timeout status must not include exit_code'')) (\<lambda>_.
     check (p \<noteq> []) (ValueErr ''provenance must not be empty'')))))"

definition validate_test_execution_result :: "test_execution_result \<Rightarrow> test_execution_result result" where
  "validate_test_execution_result r =
     ebind (check (\<not> blank (te_test_id r)) (ValueErr ''test_id must not be empty'')) (\<lambda>_.
     ebind (validate_argv ''command_argv'' (te_argv r)) (\<lambda>_.
     ebind (validate_optional_text ''command_cwd'' (te_cwd r)) (\<lambda>_.
     ebind (validate_log_path (te_log_path r)) (\<lambda>p.
     ebind (validate_optional_text ''warning'' (te_warning r)) (\<lambda>_.
     ebind (validate_optional_text ''output_excerpt'' (te_output_excerpt r)) (\<lambda>_.
     ebind (validate_outcome (te_duration_ms r) (te_success r) (te_status r) (te_exit_code r) (te_provenance r)) (\<lambda>_.
     ebind (check (has_test_source (te_provenance r))
       (ValueErr ''test execution result must include test-tool or heuristic provenance'')) (\<lambda>_.
       Inr (r\<lparr>te_log_path := p\<rparr>)))))))))"

section \<open>Dependency edges\<close>

record component_dependency_edge =
  ce_source_component_id :: string
  ce_target_id :: string
  ce_target_kind :: string
  ce_dependency_scope :: string
  ce_provenance :: provenance

record dependency_ref =
  dr_target_id :: string
  dr_target_kind :: string
  dr_dependency_scope :: string
  dr_provenance :: provenance

definition dependency_scopes :: "string list" where
  "dependency_scopes = [''runtime'', ''dev'', ''peer'', ''optional'', ''declared'', ''test'']"

definition validate_dependency_fields :: "string \<Rightarrow> string \<Rightarrow> string \<Rightarrow> provenance \<Rightarrow> unit result" where
  "validate_dependency_fields target_id target_kind scope p =
     ebind (check (\<not> blank target_id) (ValueErr ''target_id must not be empty'')) (\<lambda>_.
     ebind (check (target_kind \<in> {''component'', ''external_package''})
       (ValueErr (''unsupported target_kind: '' @ quoted target_kind))) (\<lambda>_.
     ebind (check (scope \<in> set dependency_scopes) (ValueErr (''unsupported dependency_scope: '' @ quoted scope))) (\<lambda>_.
     ebind (check (p \<noteq> []) (ValueErr ''provenance must not be empty'')) (\<lambda>_.
     check (\<forall>e\<in>set p. pe_source_kind e \<noteq> SK_LSP) (ValueErr ''dependency provenance must not use LSP source_kind'')))))"

definition validate_dependency_ref :: "dependency_ref \<Rightarrow> dependency_ref result" where
  "validate_dependency_ref d =
     ebind (validate_dependency_fields (dr_target_id d) (dr_target_kind d) (dr_dependency_scope d) (dr_provenance d)) (\<lambda>_. Inr d)"

definition validate_component_dependency_edge :: "component_dependency_edge \<Rightarrow> component_dependency_edge result" where
  "validate_component_dependency_edge e =
     ebind (check (\<not> blank (ce_source_component_id e)) (ValueErr ''source_component_id must not be empty'')) (\<lambda>_.
     ebind (validate_dependency_fields (ce_target_id e) (ce_target_kind e) (ce_dependency_scope e) (ce_provenance e)) (\<lambda>_. Inr e))"

definition ref_of_edge :: "component_dependency_edge \<Rightarrow> dependency_ref result" where
  "ref_of_edge e = validate_dependency_ref
     \<lparr>dr_target_id = ce_target_id e, dr_target_kind = ce_target_kind e,
      dr_dependency_scope = ce_dependency_scope e, dr_provenance = ce_provenance e\<rparr>"

definition refs_for_component :: "component_dependency_edge list \<Rightarrow> string \<Rightarrow> dependency_ref list result" where
  "refs_for_component edges component_id =
     ebind (mapE ref_of_edge (filter (\<lambda>e. ce_source_component_id e = component_id) edges)) (\<lambda>refs.
       Inr (sort_key (\<lambda>r. (dr_target_kind r, dr_target_id r, dr_dependency_scope r)) refs))"

definition dependents_for_component :: "component_dependency_edge list \<Rightarrow> string \<Rightarrow> string list" where
  "dependents_for_component edges component_id =
     sorted_set (map ce_source_component_id
       (filter (\<lambda>e. ce_target_kind e = ''component'' \<and> ce_target_id e = component_id) edges))"

end
