(* ===== verification/Providers.thy ===== *)
theory Providers
  imports Repository_Model
begin

text \<open>
  Actions (\<open>core/action_models.py\<close>), the provider table of \<open>core/repository.py\<close>,
  \<open>core/architecture/architecture_intelligence.py\<close> and test discovery of
  \<open>core/tests/test_intelligence.py\<close>.
\<close>

section \<open>Actions\<close>

datatype action_kind = AK_TEST_EXECUTION | AK_RUNNER_EXECUTION | AK_BUILD_EXECUTION

fun action_kind_value :: "action_kind \<Rightarrow> string" where
  "action_kind_value AK_TEST_EXECUTION = ''test_execution''"
| "action_kind_value AK_RUNNER_EXECUTION = ''runner_execution''"
| "action_kind_value AK_BUILD_EXECUTION = ''build_execution''"

datatype action_target_kind = AT_REPOSITORY | AT_COMPONENT | AT_RUNNER | AT_TEST_DEFINITION

fun action_target_kind_value :: "action_target_kind \<Rightarrow> string" where
  "action_target_kind_value AT_REPOSITORY = ''repository''"
| "action_target_kind_value AT_COMPONENT = ''component''"
| "action_target_kind_value AT_RUNNER = ''runner''"
| "action_target_kind_value AT_TEST_DEFINITION = ''test_definition''"

datatype action_proof_facet = TYPESCRIPT_TYPECHECK | FRONTEND_BUNDLE_BUILD

record action_invocation =
  iv_argv :: "string list"
  iv_cwd :: "string option"

definition validate_action_invocation :: "action_invocation \<Rightarrow> action_invocation result" where
  "validate_action_invocation i = ebind (validate_argv ''argv'' (iv_argv i)) (\<lambda>_. Inr i)"

record repository_action =
  ra_id :: string
  ra_name :: string
  ra_kind :: action_kind
  ra_provider_id :: string
  ra_target_id :: string
  ra_target_kind :: action_target_kind
  ra_owner_ids :: "string list"
  ra_proof_facets :: "action_proof_facet list"
  ra_invocation :: action_invocation
  ra_dry_run_supported :: bool
  ra_provenance :: provenance

text \<open>The checks that actions and build targets share.\<close>

definition validate_owners_and_facets :: "string list \<Rightarrow> action_proof_facet list \<Rightarrow> provenance \<Rightarrow> unit result" where
  "validate_owners_and_facets owner_ids facets p =
     ebind (check (\<forall>i\<in>set owner_ids. \<not> blank i) (ValueErr ''owner_ids must not contain empty values'')) (\<lambda>_.
     ebind (check (distinct owner_ids) (ValueErr ''owner_ids must not contain duplicates'')) (\<lambda>_.
     ebind (check (distinct facets) (ValueErr ''proof_facets must not contain duplicates'')) (\<lambda>_.
     check (p \<noteq> []) (ValueErr ''provenance must not be empty''))))"

definition validate_repository_action :: "repository_action \<Rightarrow> repository_action result" where
  "validate_repository_action a =
     ebind (check (\<not> blank (ra_id a)) (ValueErr ''id must not be empty'')) (\<lambda>_.
     ebind (check (\<not> blank (ra_name a)) (ValueErr ''name must not be empty'')) (\<lambda>_.
     ebind (check (\<not> blank (ra_provider_id a)) (ValueErr ''provider_id must not be empty'')) (\<lambda>_.
     ebind (check (\<not> blank (ra_target_id a)) (ValueErr ''target_id must not be empty'')) (\<lambda>_.
     ebind (validate_owners_and_facets (ra_owner_ids a) (ra_proof_facets a) (ra_provenance a)) (\<lambda>_. Inr a)))))"

record action_query =
  aq_repository_rel_path :: "string option"
  aq_owner_id :: "string option"
  aq_component_id :: "string option"
  aq_runner_id :: "string option"
  aq_test_id :: "string option"
  aq_action_kinds :: "action_kind list"

definition any_action :: action_query where
  "any_action = \<lparr>aq_repository_rel_path = None, aq_owner_id = None, aq_component_id = None,
     aq_runner_id = None, aq_test_id = None, aq_action_kinds = []\<rparr>"

definition mk_action_query :: "action_query \<Rightarrow> action_query result" where
  "mk_action_query q =
     ebind (check (length (filter (\<lambda>x. x \<noteq> None)
          [aq_repository_rel_path q, aq_owner_id q, aq_component_id q, aq_runner_id q, aq_test_id q]) \<le> 1)
       (ValueErr ''exactly zero or one selector must be provided: repository_rel_path, owner_id, component_id, runner_id, test_id'')) (\<lambda>_.
     ebind (case aq_repository_rel_path q of
              None \<Rightarrow> Inr None
            | Some p \<Rightarrow> ebind (normalize_repository_relative_path p) (\<lambda>p'. Inr (Some p'))) (\<lambda>path.
     ebind (validate_optional_text ''owner_id'' (aq_owner_id q)) (\<lambda>_.
     ebind (validate_optional_text ''component_id'' (aq_component_id q)) (\<lambda>_.
     ebind (validate_optional_text ''runner_id'' (aq_runner_id q)) (\<lambda>_.
     ebind (validate_optional_text ''test_id'' (aq_test_id q)) (\<lambda>_.
     ebind (check (distinct (aq_action_kinds q)) (ValueErr ''action_kinds must not contain duplicates'')) (\<lambda>_.
       Inr (q\<lparr>aq_repository_rel_path := path\<rparr>))))))))"

section \<open>Providers\<close>

datatype provider_role = ROLE_ARCHITECTURE | ROLE_CODE | ROLE_TEST | ROLE_QUALITY

fun provider_role_value :: "provider_role \<Rightarrow> string" where
  "provider_role_value ROLE_ARCHITECTURE = ''architecture''"
| "provider_role_value ROLE_CODE = ''code''"
| "provider_role_value ROLE_TEST = ''test''"
| "provider_role_value ROLE_QUALITY = ''quality''"

text \<open>\<open>pv_artifact_kinds\<close> answers \<open>describe_structured_artifact\<close> by the kind of the artifact alone.\<close>

record provider =
  pv_id :: string
  pv_root :: string
  pv_implements :: "provider_role list"
  pv_components :: "component list"
  pv_aggregators :: "aggregator list"
  pv_runners :: "runner list"
  pv_package_managers :: "package_manager list"
  pv_external_packages :: "external_package list"
  pv_files :: "file_info list"
  pv_dependency_edges :: "string option \<Rightarrow> component_dependency_edge list"
  pv_discovered_tests :: "discovered_test list"
  pv_related_tests :: "related_test_target \<Rightarrow> related_test_match list result"
  pv_describe_test :: "string \<Rightarrow> test_target_description result"
  pv_run_tests :: "string list \<Rightarrow> int \<Rightarrow> test_execution_result list result"
  pv_actions :: "repository_action list option"
  pv_artifact_kinds :: "(string \<Rightarrow> string option) option"

record repository =
  rp_root :: string
  rp_providers :: "provider list"
  rp_roles :: "string \<Rightarrow> provider_role list"

text \<open>
  \<open>_initialize_providers\<close>: the detected attachments per built-in provider id, in the order of the
  built-in classes, each with the roles detected for it.
\<close>

definition validate_provider_roles :: "provider \<Rightarrow> provider_role list \<Rightarrow> unit result" where
  "validate_provider_roles p roles =
     ebind (mapE (\<lambda>r. check (r \<in> set (pv_implements p))
       (ValueErr (''provider '' @ quoted (pv_id p) @ '' declared role '' @ quoted (provider_role_value r)))) roles) (\<lambda>_. Inr ())"

record detected_provider =
  de_provider_id :: string
  de_attachments :: "(provider \<times> provider_role list) list"
  de_roles :: "provider_role list"

definition initialize_providers :: "string list \<Rightarrow> detected_provider list \<Rightarrow> string \<Rightarrow> repository result" where
  "initialize_providers builtin detected root =
     (let found = concat (map (\<lambda>i. case find (\<lambda>d. de_provider_id d = i) detected of None \<Rightarrow> [] | Some d \<Rightarrow> [d]) builtin) in
      ebind (mapE (\<lambda>d. mapE (\<lambda>(p, roles). ebind (validate_provider_roles p roles) (\<lambda>_. Inr p)) (de_attachments d)) found) (\<lambda>pss.
        Inr \<lparr>rp_root = root,
             rp_providers = sort_key (\<lambda>p. (pv_id p, pv_root p)) (concat pss),
             rp_roles = (\<lambda>i. case find (\<lambda>d. de_provider_id d = i) found of None \<Rightarrow> [] | Some d \<Rightarrow> de_roles d)\<rparr>))"

text \<open>\<open>_providers_by_id\<close>: grouping the sorted providers by id keeps each group sorted by root.\<close>

definition providers_by_id :: "repository \<Rightarrow> string \<Rightarrow> provider list" where
  "providers_by_id rp i = filter (\<lambda>p. pv_id p = i) (rp_providers rp)"

definition has_provider :: "repository \<Rightarrow> string \<Rightarrow> bool" where
  "has_provider rp i \<longleftrightarrow> providers_by_id rp i \<noteq> []"

definition get_provider :: "repository \<Rightarrow> string \<Rightarrow> provider result" where
  "get_provider rp i =
     (case providers_by_id rp i of
        [] \<Rightarrow> Inl (ValueErr (''unknown provider id for repository '' @ quoted (rp_root rp) @ '': '' @ quoted i))
      | [p] \<Rightarrow> Inr p
      | ps \<Rightarrow> Inl (ValueErr (''provider id '' @ quoted i @ '' is attached multiple times in repository '' @
                quoted (rp_root rp) @ '': '' @ join_with '', '' (map pv_root ps))))"

definition get_provider_instances :: "repository \<Rightarrow> string \<Rightarrow> provider list result" where
  "get_provider_instances rp i =
     (if providers_by_id rp i = []
      then Inl (ValueErr (''unknown provider id for repository '' @ quoted (rp_root rp) @ '': '' @ quoted i))
      else Inr (providers_by_id rp i))"

definition get_providers_for_role :: "repository \<Rightarrow> provider_role \<Rightarrow> provider list" where
  "get_providers_for_role rp role = filter (\<lambda>p. role \<in> set (rp_roles rp (pv_id p))) (rp_providers rp)"

section \<open>Architecture\<close>

definition arch_providers :: "repository \<Rightarrow> provider list" where
  "arch_providers rp = filter (\<lambda>p. ROLE_ARCHITECTURE \<in> set (pv_implements p)) (get_providers_for_role rp ROLE_ARCHITECTURE)"

definition collect :: "repository \<Rightarrow> (provider \<Rightarrow> ('a graph_node_scheme) list) \<Rightarrow> ('a graph_node_scheme) list" where
  "collect rp getter = sort_key gn_id (concat (map getter (arch_providers rp)))"

definition get_components :: "repository \<Rightarrow> component list" where
  "get_components rp = collect rp pv_components"

definition get_aggregators :: "repository \<Rightarrow> aggregator list" where
  "get_aggregators rp = collect rp pv_aggregators"

definition get_runners :: "repository \<Rightarrow> runner list" where
  "get_runners rp = collect rp pv_runners"

definition get_package_managers :: "repository \<Rightarrow> package_manager list" where
  "get_package_managers rp = collect rp pv_package_managers"

definition get_external_packages :: "repository \<Rightarrow> external_package list" where
  "get_external_packages rp = collect rp pv_external_packages"

definition get_files :: "repository \<Rightarrow> file_info list" where
  "get_files rp = collect rp pv_files"

text \<open>\<open>_provider_for_component_id\<close>: the index is built once and fails on a duplicate id.\<close>

definition component_provider_index :: "repository \<Rightarrow> (string \<times> provider) list result" where
  "component_provider_index rp =
     unique_index (\<lambda>(p, c). gn_id c) fst (\<lambda>(p, c). ValueErr (''duplicate component id detected: '' @ quoted (gn_id c)))
       (concat (map (\<lambda>p. map (\<lambda>c. (p, c)) (pv_components p)) (arch_providers rp)))"

definition provider_for_component_id :: "repository \<Rightarrow> string \<Rightarrow> provider result" where
  "provider_for_component_id rp i =
     ebind (component_provider_index rp) (\<lambda>index.
       of_option (ValueErr (''unknown component id: '' @ quoted i)) (map_of index i))"

definition edge_order :: "component_dependency_edge \<Rightarrow> string \<times> string \<times> string \<times> string" where
  "edge_order e = (ce_source_component_id e, ce_target_kind e, ce_target_id e, ce_dependency_scope e)"

definition all_dependency_edges :: "repository \<Rightarrow> component_dependency_edge list" where
  "all_dependency_edges rp = sort_key edge_order (concat (map (\<lambda>p. pv_dependency_edges p None) (arch_providers rp)))"

definition dependency_edges_of :: "repository \<Rightarrow> string \<Rightarrow> component_dependency_edge list result" where
  "dependency_edges_of rp i =
     ebind (provider_for_component_id rp i) (\<lambda>p.
       let edges = pv_dependency_edges p (Some i) in
       if \<exists>e\<in>set edges. ce_source_component_id e \<noteq> i
       then Inl (ValueErr (''provider '' @ quoted (pv_id p) @
              '' returned dependency edges with mismatched source component for '' @ quoted i))
       else Inr (sort_key edge_order edges))"

definition get_component_dependencies :: "repository \<Rightarrow> string \<Rightarrow> dependency_ref list result" where
  "get_component_dependencies rp i =
     ebind (provider_for_component_id rp i) (\<lambda>_.
     ebind (dependency_edges_of rp i) (\<lambda>edges. refs_for_component edges i))"

definition get_component_dependents :: "repository \<Rightarrow> string \<Rightarrow> string list result" where
  "get_component_dependents rp i =
     ebind (provider_for_component_id rp i) (\<lambda>_. Inr (dependents_for_component (all_dependency_edges rp) i))"

text \<open>\<open>_validate_unique_file_ownership\<close>: two providers may name a path only with the same owner and attachment.\<close>

definition claim_label :: "string \<times> string \<times> string \<Rightarrow> string" where
  "claim_label c = (case c of (provider_id, root, owner_id) \<Rightarrow>
     quoted owner_id @ '' ('' @ provider_id @ '' @ '' @ root @ '')'')"

definition validate_unique_file_ownership :: "repository \<Rightarrow> unit result" where
  "validate_unique_file_ownership rp =
     ebind (foldE (\<lambda>(p, f) owners.
       let path = fi_repository_rel_path f; current = (pv_id p, pv_root p, fi_owner_id f) in
       case map_of owners path of
         Some existing \<Rightarrow>
           if existing \<noteq> current
           then Inl (ValueErr (''duplicate file ownership detected for '' @ quoted path @ '' between '' @
                  claim_label existing @ '' and '' @ claim_label current))
           else Inr ((path, current) # owners)
       | None \<Rightarrow> Inr ((path, current) # owners))
       (concat (map (\<lambda>p. map (\<lambda>f. (p, f)) (pv_files p)) (get_providers_for_role rp ROLE_ARCHITECTURE))) [])
     (\<lambda>_. Inr ())"

section \<open>Test discovery\<close>

definition test_providers :: "repository \<Rightarrow> provider list" where
  "test_providers rp = filter (\<lambda>p. ROLE_TEST \<in> set (pv_implements p)) (get_providers_for_role rp ROLE_TEST)"

definition discovered_index :: "repository \<Rightarrow> (string \<times> provider \<times> discovered_test) list result" where
  "discovered_index rp =
     unique_index (\<lambda>(p, d). gn_id (dt_test d)) (\<lambda>x. x)
       (\<lambda>(p, d). ValueErr (''duplicate test id detected across providers: '' @ quoted (gn_id (dt_test d))))
       (concat (map (\<lambda>p. map (\<lambda>d. (p, d)) (pv_discovered_tests p)) (test_providers rp)))"

definition get_discovered_tests :: "repository \<Rightarrow> discovered_test list result" where
  "get_discovered_tests rp =
     ebind (discovered_index rp) (\<lambda>by_id. Inr (sort_key (\<lambda>d. gn_id (dt_test d)) (map (\<lambda>(i, p, d). d) by_id)))"

definition get_tests :: "repository \<Rightarrow> test_definition list result" where
  "get_tests rp = ebind (get_discovered_tests rp) (\<lambda>ds. Inr (map dt_test ds))"

definition provider_for_test_id :: "repository \<Rightarrow> string \<Rightarrow> provider result" where
  "provider_for_test_id rp i =
     ebind (discovered_index rp) (\<lambda>by_id.
       case map_of by_id i of
         None \<Rightarrow> Inl (ValueErr (''unknown test id: '' @ quoted i))
       | Some (p, d) \<Rightarrow> Inr p)"

definition describe_test_target :: "repository \<Rightarrow> string \<Rightarrow> test_target_description result" where
  "describe_test_target rp i =
     ebind (provider_for_test_id rp i) (\<lambda>p.
     ebind (pv_describe_test p i) (\<lambda>d.
       if gn_id (tt_test d) \<noteq> i
       then Inl (ValueErr (''provider returned mismatched test target description id: expected '' @ quoted i @
              '', got '' @ quoted (gn_id (tt_test d))))
       else Inr d))"

section \<open>Lookup facts\<close>

lemma set_tagged: "set (concat (map (\<lambda>p. map (\<lambda>d. (p, d)) (f p)) ps)) = Sigma (set ps) (\<lambda>p. set (f p))"
  by auto

lemma set_get_components: "set (get_components rp) = (\<Union>p\<in>set (arch_providers rp). set (pv_components p))"
  by (simp add: get_components_def collect_def)

lemma set_get_files: "set (get_files rp) = (\<Union>p\<in>set (arch_providers rp). set (pv_files p))"
  by (simp add: get_files_def collect_def)

lemma component_index_map_of:
  "component_provider_index rp = Inr ix \<Longrightarrow>
     map_of ix i = Some p \<longleftrightarrow> p \<in> set (arch_providers rp) \<and> (\<exists>c\<in>set (pv_components p). gn_id c = i)"
  unfolding component_provider_index_def by (subst unique_index_map_of, assumption) (auto simp: set_tagged)

lemma provider_for_component_Inr_iff:
  "provider_for_component_id rp i = Inr p \<longleftrightarrow>
     is_ok (component_provider_index rp) \<and> p \<in> set (arch_providers rp) \<and> (\<exists>c\<in>set (pv_components p). gn_id c = i)"
  by (cases "component_provider_index rp") (auto simp: provider_for_component_id_def component_index_map_of)

lemma provider_for_component_unique:
  assumes "provider_for_component_id rp i = Inr p" and "q \<in> set (arch_providers rp)" and "c \<in> set (pv_components q)"
    and "gn_id c = i"
  shows "q = p"
proof -
  have "provider_for_component_id rp i = Inr q"
    using assms unfolding provider_for_component_Inr_iff by blast
  then show ?thesis using assms(1) by simp
qed

lemma discovered_index_map_of:
  "discovered_index rp = Inr ix \<Longrightarrow>
     map_of ix i = Some (p, d) \<longleftrightarrow> p \<in> set (test_providers rp) \<and> d \<in> set (pv_discovered_tests p) \<and> gn_id (dt_test d) = i"
  unfolding discovered_index_def by (subst unique_index_map_of, assumption) (auto simp: set_tagged)

lemma provider_for_test_Inr_iff:
  "provider_for_test_id rp i = Inr p \<longleftrightarrow>
     is_ok (discovered_index rp) \<and> p \<in> set (test_providers rp) \<and> (\<exists>d\<in>set (pv_discovered_tests p). gn_id (dt_test d) = i)"
proof (cases "discovered_index rp")
  case (Inr ix)
  have "provider_for_test_id rp i = Inr p \<longleftrightarrow> (\<exists>d. map_of ix i = Some (p, d))"
    by (auto simp: provider_for_test_id_def Inr split: option.splits)
  then show ?thesis using Inr by (auto simp: discovered_index_map_of [OF Inr])
qed (simp add: provider_for_test_id_def)

lemma get_discovered_tests_Inr:
  assumes "get_discovered_tests rp = Inr ds"
  shows "is_ok (discovered_index rp) \<and> sorted (map (\<lambda>d. gn_id (dt_test d)) ds) \<and> distinct (map (\<lambda>d. gn_id (dt_test d)) ds) \<and>
    set ds = (\<Union>p\<in>set (test_providers rp). set (pv_discovered_tests p))"
proof -
  define xs where "xs = concat (map (\<lambda>p. map (\<lambda>d. (p, d)) (pv_discovered_tests p)) (test_providers rp))"
  let ?key = "\<lambda>d. gn_id (dt_test d)"
  obtain ix where ix: "discovered_index rp = Inr ix" and ds: "ds = sort_key ?key (map (\<lambda>(i, p, d). d) ix)"
    using assms by (auto simp: get_discovered_tests_def ebind_Inr_iff)
  then have d: "distinct (map (\<lambda>(p, d). ?key d) xs)" and "ix = map (\<lambda>x. ((\<lambda>(p, d). ?key d) x, x)) xs"
    unfolding discovered_index_def xs_def [symmetric] unique_index_Inr_iff by blast+
  then have ds': "ds = sort_key ?key (map snd xs)" using ds by (simp add: o_def split_def)
  have "distinct (map ?key (map snd xs))" using d by (simp add: o_def split_def)
  then have "distinct (map ?key ds)"
    by (simp only: ds' distinct_map [of ?key "sort_key ?key (map snd xs)"] distinct_map [of ?key "map snd xs"]
        distinct_sort set_sort)
  moreover have "set ds = snd ` set xs" by (simp add: ds')
  moreover have "snd ` set xs = (\<Union>p\<in>set (test_providers rp). set (pv_discovered_tests p))"
    unfolding xs_def set_tagged by force
  ultimately show ?thesis unfolding ds' using ix by simp
qed

section \<open>A small repository\<close>

definition sample_component :: "string \<Rightarrow> string list \<Rightarrow> string list \<Rightarrow> component" where
  "sample_component i roots artifacts =
     \<lparr>gn_id = i, gn_name = i, gn_evidence_ids = [], gn_provenance = [sample_entry SK_MANIFEST [''package.json'']],
      co_component_kind = CK_PACKAGE, co_language = PL_TYPESCRIPT, co_source_roots = roots, co_artifact_paths = artifacts\<rparr>"

definition sample_file_of :: "string \<Rightarrow> string \<Rightarrow> file_info" where
  "sample_file_of path owner =
     \<lparr>gn_id = ''file:'' @ path, gn_name = path, gn_evidence_ids = [], gn_provenance = [sample_entry SK_MANIFEST [path]],
      fi_repository_rel_path = path, fi_language = None, fi_owner_id = owner\<rparr>"

definition sample_runner :: runner where
  "sample_runner =
     \<lparr>gn_id = ''runner:npm:dev'', gn_name = ''dev'', gn_evidence_ids = [],
      gn_provenance = [sample_entry SK_MANIFEST [''package.json'']], ru_argv = [''npm'', ''run''], ru_cwd = Some ''src/a''\<rparr>"

definition sample_test :: "string \<Rightarrow> test_definition" where
  "sample_test i =
     \<lparr>gn_id = i, gn_name = i, gn_evidence_ids = [], gn_provenance = [sample_entry SK_TEST_TOOL [''t.ts'']],
      td_framework = TF_OTHER, td_test_files = [''t.ts'']\<rparr>"

definition sample_dependency :: component_dependency_edge where
  "sample_dependency =
     \<lparr>ce_source_component_id = ''component:npm:b'', ce_target_id = ''component:npm:a'', ce_target_kind = ''component'',
      ce_dependency_scope = ''runtime'', ce_provenance = [sample_entry SK_MANIFEST [''package.json'']]\<rparr>"

definition sample_description :: "string \<Rightarrow> test_target_description" where
  "sample_description i =
     \<lparr>tt_test = sample_test i, tt_argv = [''vitest''], tt_cwd = None, tt_is_authoritative = False,
      tt_warning = Some ''heuristic'', tt_provenance = [sample_entry SK_TEST_TOOL [''t.ts'']]\<rparr>"

definition sample_action :: "string \<Rightarrow> action_kind \<Rightarrow> string \<Rightarrow> action_target_kind \<Rightarrow> repository_action" where
  "sample_action i k target tk =
     \<lparr>ra_id = i, ra_name = i, ra_kind = k, ra_provider_id = ''npm'', ra_target_id = target, ra_target_kind = tk,
      ra_owner_ids = [], ra_proof_facets = [], ra_invocation = \<lparr>iv_argv = [''npm''], iv_cwd = None\<rparr>,
      ra_dry_run_supported = False, ra_provenance = [sample_entry SK_MANIFEST [''package.json'']]\<rparr>"

definition sample_provider :: provider where
  "sample_provider =
     \<lparr>pv_id = ''npm'', pv_root = ''.'', pv_implements = [ROLE_ARCHITECTURE, ROLE_TEST, ROLE_QUALITY],
      pv_components = [sample_component ''component:npm:a'' [''src/a''] [''dist''], sample_component ''component:npm:b'' [''src/b''] []],
      pv_aggregators = [], pv_runners = [sample_runner], pv_package_managers = [], pv_external_packages = [],
      pv_files = [sample_file_of ''src/a/x.ts'' ''component:npm:a'', sample_file_of ''src/a/y.ts'' ''component:npm:a'',
        sample_file_of ''run.sh'' ''runner:npm:dev''],
      pv_dependency_edges = (\<lambda>i. filter (\<lambda>e. case i of None \<Rightarrow> True | Some c \<Rightarrow> ce_source_component_id e = c) [sample_dependency]),
      pv_discovered_tests = [\<lparr>dt_test = sample_test ''test:npm:t'', dt_provenance = [sample_entry SK_TEST_TOOL [''t.ts'']]\<rparr>],
      pv_related_tests = (\<lambda>target. Inr []), pv_describe_test = (\<lambda>i. Inr (sample_description i)),
      pv_run_tests = (\<lambda>ids t. Inr []),
      pv_actions = Some [sample_action ''build:a'' AK_BUILD_EXECUTION ''component:npm:a'' AT_COMPONENT,
        sample_action ''build:all'' AK_BUILD_EXECUTION ''repo'' AT_REPOSITORY,
        sample_action ''run:dev'' AK_RUNNER_EXECUTION ''runner:npm:dev'' AT_RUNNER],
      pv_artifact_kinds = None\<rparr>"

definition sample_repository :: repository where
  "sample_repository =
     \<lparr>rp_root = ''/r'', rp_providers = [sample_provider],
      rp_roles = (\<lambda>i. if i = ''npm'' then [ROLE_ARCHITECTURE, ROLE_TEST, ROLE_QUALITY] else [])\<rparr>"

lemma arch_providers_sample: "arch_providers sample_repository = [sample_provider]"
  by (simp add: arch_providers_def get_providers_for_role_def sample_repository_def sample_provider_def)

section \<open>Properties\<close>

definition coherent_edges :: "repository \<Rightarrow> bool" where
  "coherent_edges rp \<longleftrightarrow> (\<forall>p\<in>set (arch_providers rp).
     (\<forall>i. set (pv_dependency_edges p (Some i)) = {e \<in> set (pv_dependency_edges p None). ce_source_component_id e = i}) \<and>
     (\<forall>e\<in>set (pv_dependency_edges p None). ce_source_component_id e \<in> gn_id ` set (pv_components p)))"

lemma ref_of_edge_Inr:
  "ref_of_edge e = Inr r \<Longrightarrow> dr_target_kind r = ce_target_kind e \<and> dr_target_id r = ce_target_id e"
  by (auto simp: ref_of_edge_def validate_dependency_ref_def ebind_Inr_iff)

lemma refs_for_component_set:
  assumes "refs_for_component edges i = Inr refs"
  shows "(\<exists>r\<in>set refs. dr_target_kind r = k \<and> dr_target_id r = d) \<longleftrightarrow>
    (\<exists>e\<in>set edges. ce_source_component_id e = i \<and> ce_target_kind e = k \<and> ce_target_id e = d)"
proof -
  let ?es = "filter (\<lambda>e. ce_source_component_id e = i) edges"
  obtain rs where m: "list_all2 (\<lambda>e r. ref_of_edge e = Inr r) ?es rs" and refs: "set refs = set rs"
    using assms by (auto simp: refs_for_component_def ebind_Inr_iff mapE_Inr_iff)
  from m have "(\<exists>r\<in>set rs. dr_target_kind r = k \<and> dr_target_id r = d) \<longleftrightarrow>
      (\<exists>e\<in>set ?es. ce_target_kind e = k \<and> ce_target_id e = d)"
    by (induction rule: list_all2_induct) (auto dest!: ref_of_edge_Inr)
  then show ?thesis by (auto simp: refs)
qed

text \<open>
  C23. Dependencies and dependents are the two directions of one relation: when each provider's
  per-component answer is the part of its full edge list with that source, and its edges start at
  its own components, then for known components \<open>c\<close> and \<open>d\<close> the dependents of \<open>d\<close> include \<open>c\<close>
  exactly when the dependencies of \<open>c\<close> include the component \<open>d\<close>.
\<close>

theorem dependents_dual_to_dependencies:
  assumes "coherent_edges rp" and "get_component_dependents rp d = Inr ds" and "get_component_dependencies rp c = Inr refs"
  shows "c \<in> set ds \<longleftrightarrow> (\<exists>r\<in>set refs. dr_target_kind r = ''component'' \<and> dr_target_id r = d)"
proof -
  obtain p edges where p: "provider_for_component_id rp c = Inr p" and edges: "dependency_edges_of rp c = Inr edges"
    and refs: "refs_for_component edges c = Inr refs"
    using assms(3) by (auto simp: get_component_dependencies_def ebind_Inr_iff)
  have pin: "p \<in> set (arch_providers rp)" using p unfolding provider_for_component_Inr_iff by blast
  have es: "set edges = {e \<in> set (pv_dependency_edges p None). ce_source_component_id e = c}"
    using edges p pin assms(1) by (auto simp: dependency_edges_of_def Let_def coherent_edges_def split: if_splits)
  have "(\<exists>q\<in>set (arch_providers rp). \<exists>e\<in>set (pv_dependency_edges q None). ce_source_component_id e = c \<and> P e) \<longleftrightarrow>
      (\<exists>e\<in>set edges. P e)" for P
  proof -
    have "q = p" if "q \<in> set (arch_providers rp)" "e \<in> set (pv_dependency_edges q None)" "ce_source_component_id e = c" for q e
      using assms(1) that provider_for_component_unique [OF p that(1)] unfolding coherent_edges_def by fastforce
    then show ?thesis using pin es by blast
  qed
  note same = this [of "\<lambda>e. ce_target_kind e = ''component'' \<and> ce_target_id e = d"]
  have "ds = dependents_for_component (all_dependency_edges rp) d"
    using assms(2) by (auto simp: get_component_dependents_def ebind_Inr_iff)
  then have "c \<in> set ds \<longleftrightarrow> (\<exists>e\<in>set (all_dependency_edges rp). ce_target_kind e = ''component'' \<and> ce_target_id e = d \<and>
      ce_source_component_id e = c)"
    by (auto simp: dependents_for_component_def)
  also have "\<dots> \<longleftrightarrow> (\<exists>e\<in>set edges. ce_target_kind e = ''component'' \<and> ce_target_id e = d)"
    unfolding same [symmetric] by (auto simp: all_dependency_edges_def)
  also have "\<dots> \<longleftrightarrow> (\<exists>e\<in>set edges. ce_source_component_id e = c \<and> ce_target_kind e = ''component'' \<and> ce_target_id e = d)"
    using es by blast
  finally show ?thesis unfolding refs_for_component_set [OF refs] .
qed

theorem dependents_dual_to_dependencies_witness:
  "\<exists>ds refs. get_component_dependents sample_repository ''component:npm:a'' = Inr ds \<and>
     get_component_dependencies sample_repository ''component:npm:b'' = Inr refs \<and>
     (''component:npm:b'' \<in> set ds) = (\<exists>r\<in>set refs. dr_target_kind r = ''component'' \<and> dr_target_id r = ''component:npm:a'')"
proof -
  have "coherent_edges sample_repository"
    by (auto simp: coherent_edges_def arch_providers_sample sample_provider_def sample_dependency_def sample_component_def)
  moreover have "is_ok (get_component_dependents sample_repository ''component:npm:a'')"
    and "is_ok (get_component_dependencies sample_repository ''component:npm:b'')" by code_simp+
  ultimately show ?thesis using dependents_dual_to_dependencies unfolding is_ok_iff by blast
qed

text \<open>
  Discovery lists every test of the test providers once, in the order of ids, and finds for each
  id the provider that discovered it and no other; an id discovered twice makes every lookup fail.
\<close>

theorem discovery_is_an_index:
  "(\<forall>ds. get_discovered_tests rp = Inr ds \<longrightarrow>
      sorted (map (\<lambda>d. gn_id (dt_test d)) ds) \<and> distinct (map (\<lambda>d. gn_id (dt_test d)) ds) \<and>
      set ds = (\<Union>p\<in>set (test_providers rp). set (pv_discovered_tests p)) \<and>
      (\<forall>d\<in>set ds. \<exists>!p. provider_for_test_id rp (gn_id (dt_test d)) = Inr p \<and> d \<in> set (pv_discovered_tests p))) \<and>
   (\<not> is_ok (get_discovered_tests rp) \<longrightarrow> (\<forall>i. \<not> is_ok (provider_for_test_id rp i)))"
proof (intro conjI allI impI)
  fix ds assume ds: "get_discovered_tests rp = Inr ds"
  note f = get_discovered_tests_Inr [OF ds]
  then show "sorted (map (\<lambda>d. gn_id (dt_test d)) ds)" "distinct (map (\<lambda>d. gn_id (dt_test d)) ds)"
    "set ds = (\<Union>p\<in>set (test_providers rp). set (pv_discovered_tests p))" by blast+
  show "\<forall>d\<in>set ds. \<exists>!p. provider_for_test_id rp (gn_id (dt_test d)) = Inr p \<and> d \<in> set (pv_discovered_tests p)"
  proof
    fix d assume "d \<in> set ds"
    then obtain p where "p \<in> set (test_providers rp)" "d \<in> set (pv_discovered_tests p)" using f by blast
    then have "provider_for_test_id rp (gn_id (dt_test d)) = Inr p" using f unfolding provider_for_test_Inr_iff by blast
    then show "\<exists>!p. provider_for_test_id rp (gn_id (dt_test d)) = Inr p \<and> d \<in> set (pv_discovered_tests p)"
      using \<open>d \<in> set (pv_discovered_tests p)\<close> by auto
  qed
next
  fix i assume "\<not> is_ok (get_discovered_tests rp)"
  then have "\<not> is_ok (discovered_index rp)"
    by (cases "discovered_index rp") (simp_all add: get_discovered_tests_def)
  then show "\<not> is_ok (provider_for_test_id rp i)" by (auto simp: is_ok_iff provider_for_test_Inr_iff)
qed

theorem discovery_is_an_index_witness:
  "\<exists>ds. get_discovered_tests sample_repository = Inr ds \<and> distinct (map (\<lambda>d. gn_id (dt_test d)) ds)"
proof -
  have "is_ok (get_discovered_tests sample_repository)" by code_simp
  then show ?thesis using discovery_is_an_index [of sample_repository] unfolding is_ok_iff by blast
qed

end
