(* ===== verification/Ownership.thy ===== *)
theory Ownership
  imports Providers
begin

text \<open>
  Who owns a file: \<open>core/ownership_index.py\<close>, \<open>core/component_context_resolver.py\<close>, the
  owner-based provider routing of \<open>core/repository.py\<close>, related tests
  (\<open>core/tests/test_intelligence.py\<close>), quality providers (\<open>core/quality/quality_intelligence.py\<close>)
  and the selection of actions (\<open>core/action_intelligence.py\<close>).
\<close>

section \<open>The ownership index\<close>

record owned_node_info =
  oi_id :: string
  oi_kind :: string
  oi_name :: string

record file_owner_info =
  fo_file_info :: file_info
  fo_owner :: owned_node_info

record ownership_index =
  ox_root :: string
  ox_owners :: "(string \<times> owned_node_info) list"
  ox_files_by_path :: "(string \<times> file_info) list"
  ox_files_by_owner :: "(string \<times> file_info list) list"

definition owned_of :: "node_kind \<Rightarrow> 'a graph_node_scheme \<Rightarrow> owned_node_info" where
  "owned_of kind n = \<lparr>oi_id = gn_id n, oi_kind = node_kind_value kind, oi_name = gn_name n\<rparr>"

definition owner_nodes :: "repository \<Rightarrow> test_definition list \<Rightarrow> owned_node_info list" where
  "owner_nodes rp tests =
     map (owned_of NK_COMPONENT) (get_components rp) @ map (owned_of NK_AGGREGATOR) (get_aggregators rp) @
     map (owned_of NK_RUNNER) (get_runners rp) @ map (owned_of NK_PACKAGE_MANAGER) (get_package_managers rp) @
     map (owned_of NK_TEST_DEFINITION) tests"

definition build_owner_index :: "repository \<Rightarrow> (string \<times> owned_node_info) list result" where
  "build_owner_index rp =
     ebind (get_tests rp) (\<lambda>tests.
       unique_index oi_id (\<lambda>n. n)
         (\<lambda>n. ValueErr (''duplicate owner id detected for repository '' @ quoted (rp_root rp) @ '': '' @ quoted (oi_id n)))
         (owner_nodes rp tests))"

definition check_file_owner :: "(string \<times> owned_node_info) list \<Rightarrow> file_info \<Rightarrow> unit result" where
  "check_file_owner owners f =
     check (fi_owner_id f \<in> fst ` set owners)
       (ValueErr (''file '' @ quoted (fi_repository_rel_path f) @ '' references unknown owner '' @ quoted (fi_owner_id f)))"

definition build_file_indexes ::
  "repository \<Rightarrow> (string \<times> owned_node_info) list \<Rightarrow> ((string \<times> file_info) list \<times> (string \<times> file_info list) list) result" where
  "build_file_indexes rp owners =
     ebind (foldE (\<lambda>f (by_path, by_owner).
       ebind (check_file_owner owners f) (\<lambda>_.
         if fi_repository_rel_path f \<in> fst ` set by_path
         then Inl (ValueErr (''duplicate file ownership detected for '' @ quoted (fi_repository_rel_path f)))
         else Inr (by_path @ [(fi_repository_rel_path f, f)], setdefault_append (fi_owner_id f) f by_owner)))
       (get_files rp) ([], [])) (\<lambda>(by_path, by_owner).
     Inr (by_path, map (\<lambda>(o_id, fs). (o_id, sort_key fi_repository_rel_path fs)) by_owner))"

definition build_ownership_index :: "repository \<Rightarrow> ownership_index result" where
  "build_ownership_index rp =
     ebind (build_owner_index rp) (\<lambda>owners.
     ebind (build_file_indexes rp owners) (\<lambda>(by_path, by_owner).
       Inr \<lparr>ox_root = rp_root rp, ox_owners = owners, ox_files_by_path = by_path, ox_files_by_owner = by_owner\<rparr>))"

definition owner_info :: "ownership_index \<Rightarrow> string \<Rightarrow> owned_node_info result" where
  "owner_info ox i =
     of_option (ValueErr (''unknown owner id for repository '' @ quoted (ox_root ox) @ '': '' @ quoted i)) (map_of (ox_owners ox) i)"

definition owner_for_file :: "ownership_index \<Rightarrow> string \<Rightarrow> file_owner_info result" where
  "owner_for_file ox path =
     ebind (of_option (ValueErr (''unknown repository file owner for '' @ quoted path)) (map_of (ox_files_by_path ox) path)) (\<lambda>f.
     ebind (owner_info ox (fi_owner_id f)) (\<lambda>owner. Inr \<lparr>fo_file_info = f, fo_owner = owner\<rparr>))"

definition files_for_owner :: "ownership_index \<Rightarrow> string \<Rightarrow> file_info list result" where
  "files_for_owner ox i =
     ebind (owner_info ox i) (\<lambda>_.
       Inr (case map_of (ox_files_by_owner ox) i of None \<Rightarrow> [] | Some fs \<Rightarrow> fs))"

section \<open>Component contexts\<close>

definition under_path :: "string \<Rightarrow> string \<Rightarrow> bool" where
  "under_path path root \<longleftrightarrow> path = root \<or> startswith path (root @ ''/'')"

text \<open>
  The resolver over the operations of an ownership index, which it takes as arguments as the code
  takes the index.
\<close>

definition claims_file :: "(string \<Rightarrow> file_info list result) \<Rightarrow> string \<Rightarrow> component \<Rightarrow> bool result" where
  "claims_file files path c =
     ebind (files (gn_id c)) (\<lambda>fs.
       Inr ((\<exists>f\<in>set fs. fi_repository_rel_path f = path) \<or> (\<exists>root\<in>set (co_source_roots c). under_path path root)))"

definition primary_component_id_for_file ::
  "(string \<Rightarrow> owned_node_info result) \<Rightarrow> (string \<Rightarrow> file_info list result) \<Rightarrow> component list \<Rightarrow> string \<Rightarrow> string \<Rightarrow>
   (string option) result" where
  "primary_component_id_for_file info files components path owner_id =
     ebind (info owner_id) (\<lambda>owner.
       if oi_kind owner = ''component'' then Inr (Some (oi_id owner))
       else ebind (mapE (\<lambda>c. ebind (claims_file files path c) (\<lambda>b. Inr (if b then [gn_id c] else []))) components) (\<lambda>cs.
         case sorted_set (concat cs) of
           [] \<Rightarrow> Inr None
         | [c] \<Rightarrow> Inr (Some c)
         | _ \<Rightarrow> Inl (ValueErr (''file resolves to multiple component contexts: '' @ quoted path))))"

definition primary_component_id_for_owner ::
  "(string \<Rightarrow> owned_node_info result) \<Rightarrow> (string \<Rightarrow> file_info list result) \<Rightarrow> component list \<Rightarrow> string \<Rightarrow> (string option) result" where
  "primary_component_id_for_owner info files components owner_id =
     ebind (info owner_id) (\<lambda>owner.
       if oi_kind owner = ''component'' then Inr (Some (oi_id owner))
       else ebind (files owner_id) (\<lambda>fs.
            ebind (mapE (\<lambda>f. primary_component_id_for_file info files components (fi_repository_rel_path f) (oi_id owner)) fs) (\<lambda>ids.
         case sorted_set (concat (map (\<lambda>i. case i of None \<Rightarrow> [] | Some c \<Rightarrow> [c]) ids)) of
           [] \<Rightarrow> Inr None
         | [c] \<Rightarrow> Inr (Some c)
         | _ \<Rightarrow> Inl (ValueErr (''owner resolves to multiple component contexts: '' @ quoted owner_id)))))"

definition runner_related :: "(string \<Rightarrow> file_info list result) \<Rightarrow> component \<Rightarrow> string list \<Rightarrow> runner \<Rightarrow> bool result" where
  "runner_related files c paths r =
     (if (case ru_cwd r of None \<Rightarrow> False | Some cwd \<Rightarrow> cwd \<noteq> [] \<and> (\<exists>p\<in>set paths. under_path p cwd)) then Inr True
      else ebind (files (gn_id r)) (\<lambda>fs.
        Inr (\<exists>f\<in>set fs. \<exists>root\<in>set (co_source_roots c).
          fi_repository_rel_path f \<in> set paths \<or> under_path (fi_repository_rel_path f) root)))"

definition related_runner_ids_for_component ::
  "(string \<Rightarrow> file_info list result) \<Rightarrow> runner list \<Rightarrow> component \<Rightarrow> file_info list \<Rightarrow> string list result" where
  "related_runner_ids_for_component files runners c owned_files =
     (let paths = map fi_repository_rel_path owned_files in
      ebind (mapE (\<lambda>r. ebind (runner_related files c paths r) (\<lambda>b. Inr (if b then [gn_id r] else []))) runners) (\<lambda>ids.
        Inr (sorted_set (concat ids))))"

section \<open>Facts about the index\<close>

lemma file_index_fold:
  assumes "foldE (\<lambda>f (by_path, by_owner).
       ebind (check_file_owner owners f) (\<lambda>_.
         if fi_repository_rel_path f \<in> fst ` set by_path
         then Inl (ValueErr (''duplicate file ownership detected for '' @ quoted (fi_repository_rel_path f)))
         else Inr (by_path @ [(fi_repository_rel_path f, f)], setdefault_append (fi_owner_id f) f by_owner))) fs (bp, bo) = Inr r"
  shows "fst r = bp @ map (\<lambda>f. (fi_repository_rel_path f, f)) fs \<and>
    snd r = fold (\<lambda>f. setdefault_append (fi_owner_id f) f) fs bo \<and>
    fi_owner_id ` set fs \<subseteq> fst ` set owners \<and> distinct (map fi_repository_rel_path fs)  \<and>
    (\<forall>f\<in>set fs. fi_repository_rel_path f \<notin> fst ` set bp)"
  using assms
proof (induction fs arbitrary: bp bo)
  case (Cons f fs)
  then have c: "fi_owner_id f \<in> fst ` set owners" "fi_repository_rel_path f \<notin> fst ` set bp"
    by (auto simp: check_file_owner_def ebind_Inr_iff split: if_splits)
  have "foldE (\<lambda>f (by_path, by_owner).
       ebind (check_file_owner owners f) (\<lambda>_.
         if fi_repository_rel_path f \<in> fst ` set by_path
         then Inl (ValueErr (''duplicate file ownership detected for '' @ quoted (fi_repository_rel_path f)))
         else Inr (by_path @ [(fi_repository_rel_path f, f)], setdefault_append (fi_owner_id f) f by_owner)))
      fs (bp @ [(fi_repository_rel_path f, f)], setdefault_append (fi_owner_id f) f bo) = Inr r"
    using Cons.prems c by (simp add: check_file_owner_def)
  from Cons.IH [OF this] c show ?case by auto
qed auto

lemma build_owner_index_Inr:
  assumes "build_owner_index rp = Inr owners" and "get_tests rp = Inr tests"
  shows "map_of owners i = Some n \<longleftrightarrow> n \<in> set (owner_nodes rp tests) \<and> oi_id n = i"
  using assms by (auto simp: build_owner_index_def unique_index_map_of)

lemma build_ownership_index_Inr:
  assumes "build_ownership_index rp = Inr ox"
  obtains tests where "get_tests rp = Inr tests"
    and "\<And>i n. map_of (ox_owners ox) i = Some n \<longleftrightarrow> n \<in> set (owner_nodes rp tests) \<and> oi_id n = i"
    and "\<And>p f. map_of (ox_files_by_path ox) p = Some f \<longleftrightarrow> f \<in> set (get_files rp) \<and> fi_repository_rel_path f = p"
    and "\<And>i. map_of (ox_files_by_owner ox) i =
       (case filter (\<lambda>f. fi_owner_id f = i) (get_files rp) of [] \<Rightarrow> None | fs \<Rightarrow> Some (sort_key fi_repository_rel_path fs))"
    and "\<And>f. f \<in> set (get_files rp) \<Longrightarrow> map_of (ox_owners ox) (fi_owner_id f) \<noteq> None"
    and "distinct (map fi_repository_rel_path (get_files rp))"
proof -
  obtain owners bp bo where o: "build_owner_index rp = Inr owners" and f: "build_file_indexes rp owners = Inr (bp, bo)"
    and ox: "ox = \<lparr>ox_root = rp_root rp, ox_owners = owners, ox_files_by_path = bp, ox_files_by_owner = bo\<rparr>"
    using assms by (auto simp: build_ownership_index_def ebind_Inr_iff)
  obtain tests where t: "get_tests rp = Inr tests" using o by (auto simp: build_owner_index_def ebind_Inr_iff)
  obtain bo' where r: "foldE (\<lambda>f (by_path, by_owner).
       ebind (check_file_owner owners f) (\<lambda>_.
         if fi_repository_rel_path f \<in> fst ` set by_path
         then Inl (ValueErr (''duplicate file ownership detected for '' @ quoted (fi_repository_rel_path f)))
         else Inr (by_path @ [(fi_repository_rel_path f, f)], setdefault_append (fi_owner_id f) f by_owner)))
       (get_files rp) ([], []) = Inr (bp, bo')" and bo: "bo = map (\<lambda>(o_id, fs). (o_id, sort_key fi_repository_rel_path fs)) bo'"
    using f by (auto simp: build_file_indexes_def ebind_Inr_iff)
  note facts = file_index_fold [OF r]
  have bp: "bp = map (\<lambda>f. (fi_repository_rel_path f, f)) (get_files rp)"
    and bo': "bo' = group_by_key fi_owner_id (get_files rp)"
    and known: "fi_owner_id ` set (get_files rp) \<subseteq> fst ` set owners"
    and dist: "distinct (map fi_repository_rel_path (get_files rp))"
    using facts by (simp_all add: group_by_key_def)
  have "map_of bp p = Some f \<longleftrightarrow> f \<in> set (get_files rp) \<and> fi_repository_rel_path f = p" for p f
  proof -
    have "distinct (map fst bp)" using dist by (simp add: bp o_def)
    then have "map_of bp p = Some f \<longleftrightarrow> (p, f) \<in> set bp" by (rule map_of_eq_Some_iff)
    then show ?thesis by (auto simp: bp)
  qed
  moreover have "map_of bo i =
       (case filter (\<lambda>f. fi_owner_id f = i) (get_files rp) of [] \<Rightarrow> None | fs \<Rightarrow> Some (sort_key fi_repository_rel_path fs))" for i
    unfolding bo bo' map_of_map by (auto simp: map_of_group_by_key filter_empty_conv split: list.splits)
  moreover have "map_of owners (fi_owner_id f) \<noteq> None" if "f \<in> set (get_files rp)" for f
    using known that by (auto simp: map_of_eq_None_iff)
  ultimately show ?thesis
    using that t dist build_owner_index_Inr [OF o t] by (simp add: ox)
qed

text \<open>The public lookups, in terms of the repository's files and nodes.\<close>

lemma files_for_owner_Inr_iff:
  assumes "build_ownership_index rp = Inr ox"
  shows "files_for_owner ox i = Inr fs \<longleftrightarrow>
    is_ok (owner_info ox i) \<and> fs = sort_key fi_repository_rel_path (filter (\<lambda>f. fi_owner_id f = i) (get_files rp))"
  by (rule build_ownership_index_Inr [OF assms])
    (auto simp: files_for_owner_def ebind_Inr_iff is_ok_iff owner_info_def split: list.splits)

lemma owner_for_file_Inr_iff:
  assumes "build_ownership_index rp = Inr ox"
  shows "owner_for_file ox path = Inr w \<longleftrightarrow>
    fo_file_info w \<in> set (get_files rp) \<and> fi_repository_rel_path (fo_file_info w) = path \<and>
    owner_info ox (fi_owner_id (fo_file_info w)) = Inr (fo_owner w)"
  by (rule build_ownership_index_Inr [OF assms]) (cases w, auto simp: owner_for_file_def ebind_Inr_iff)

lemma owner_info_id:
  assumes "build_ownership_index rp = Inr ox" and "owner_info ox i = Inr n"
  shows "oi_id n = i"
  by (rule build_ownership_index_Inr [OF assms(1)]) (use assms(2) in \<open>auto simp: owner_info_def\<close>)

lemma owned_files_known:
  assumes "build_ownership_index rp = Inr ox" and "f \<in> set (get_files rp)"
  shows "is_ok (owner_info ox (fi_owner_id f))"
  by (rule build_ownership_index_Inr [OF assms(1)]) (use assms(2) in \<open>auto simp: owner_info_def is_ok_iff\<close>)

lemma component_known:
  assumes "build_ownership_index rp = Inr ox" and "c \<in> set (get_components rp)"
  shows "owner_info ox (gn_id c) = Inr (owned_of NK_COMPONENT c)"
  by (rule build_ownership_index_Inr [OF assms(1)])
    (use assms(2) in \<open>auto simp: owner_info_def owner_nodes_def owned_of_def\<close>)

lemma path_unique:
  assumes "build_ownership_index rp = Inr ox" and "f \<in> set (get_files rp)" and "g \<in> set (get_files rp)"
    and "fi_repository_rel_path f = fi_repository_rel_path g"
  shows "f = g"
  by (rule build_ownership_index_Inr [OF assms(1)]) (use assms(2-4) in \<open>auto simp: distinct_map inj_on_def\<close>)

section \<open>The ownership contract\<close>

definition claimants :: "(string \<Rightarrow> file_info list result) \<Rightarrow> component list \<Rightarrow> string \<Rightarrow> string set" where
  "claimants files components path = {gn_id c |c. c \<in> set components \<and> claims_file files path c = Inr True}"

text \<open>What the component resolver relies on.\<close>

locale ownership =
  fixes info :: "string \<Rightarrow> owned_node_info result"
    and files :: "string \<Rightarrow> file_info list result"
  assumes info_id: "info i = Inr n \<Longrightarrow> oi_id n = i"
    and files_known: "is_ok (files i) \<longleftrightarrow> is_ok (info i)"
    and files_owner: "files i = Inr fs \<Longrightarrow> f \<in> set fs \<Longrightarrow> fi_owner_id f = i"
    and one_path: "files i = Inr fs \<Longrightarrow> files j = Inr gs \<Longrightarrow> f \<in> set fs \<Longrightarrow> g \<in> set gs \<Longrightarrow>
      fi_repository_rel_path f = fi_repository_rel_path g \<Longrightarrow> f = g"
begin

lemma claims_ok: "is_ok (info (gn_id c)) \<Longrightarrow> is_ok (claims_file files path c)"
  using files_known by (auto simp: claims_file_def is_ok_iff ebind_Inr_iff)

lemma candidates:
  assumes "\<forall>c\<in>set components. is_ok (info (gn_id c))"
  shows "\<exists>cs. mapE (\<lambda>c. ebind (claims_file files path c) (\<lambda>b. Inr (if b then [gn_id c] else []))) components = Inr cs \<and>
    set (concat cs) = claimants files components path"
  using assms
proof (induction components)
  case (Cons c components)
  then obtain cs where cs: "mapE (\<lambda>c. ebind (claims_file files path c) (\<lambda>b. Inr (if b then [gn_id c] else []))) components = Inr cs"
    "set (concat cs) = claimants files components path" by auto
  have "is_ok (claims_file files path c)" using Cons.prems by (intro claims_ok) simp
  then obtain b where "claims_file files path c = Inr b" unfolding is_ok_iff by blast
  with cs show ?case by (auto simp: claimants_def)
qed (simp add: claimants_def)

text \<open>A file has the one component that claims it, none when no component does, and is refused otherwise.\<close>

lemma file_context:
  assumes "\<forall>c\<in>set components. is_ok (info (gn_id c))" and "info owner = Inr n"
  shows "primary_component_id_for_file info files components path owner =
    (if oi_kind n = ''component'' then Inr (Some owner)
     else if claimants files components path = {} then Inr None
     else if card (claimants files components path) = 1 then Inr (Some (the_elem (claimants files components path)))
     else Inl (ValueErr (''file resolves to multiple component contexts: '' @ quoted path)))"
proof -
  obtain cs where cs: "mapE (\<lambda>c. ebind (claims_file files path c) (\<lambda>b. Inr (if b then [gn_id c] else []))) components = Inr cs"
    and set: "set (concat cs) = claimants files components path"
    using candidates [OF assms(1)] by blast
  have s: "set (sorted_set (concat cs)) = claimants files components path" using set by (simp only: set_sorted_set)
  have card: "card (claimants files components path) = length (sorted_set (concat cs))"
    unfolding s [symmetric] by (intro distinct_card) (rule distinct_sorted_set)
  have run: "primary_component_id_for_file info files components path owner =
    (if oi_kind n = ''component'' then Inr (Some owner)
     else case sorted_set (concat cs) of
         [] \<Rightarrow> Inr None
       | [c] \<Rightarrow> Inr (Some c)
       | _ \<Rightarrow> Inl (ValueErr (''file resolves to multiple component contexts: '' @ quoted path)))"
    using assms(2) cs info_id [OF assms(2)] by (simp add: primary_component_id_for_file_def)
  consider (none) "sorted_set (concat cs) = []" | (one) c where "sorted_set (concat cs) = [c]"
    | (more) c d ds where "sorted_set (concat cs) = c # d # ds"
    by (metis list.exhaust)
  then show ?thesis
  proof cases
    case none
    have "claimants files components path = {}" unfolding s [symmetric] none by simp
    then show ?thesis unfolding run none by simp
  next
    case one
    have "claimants files components path = {c}" unfolding s [symmetric] one by simp
    then show ?thesis unfolding run one by simp
  next
    case more
    have "card (claimants files components path) \<noteq> 1" unfolding card more by simp
    moreover have "claimants files components path \<noteq> {}" unfolding s [symmetric] more by simp
    ultimately have "card (claimants files components path) \<noteq> 1" "claimants files components path \<noteq> {}" by blast+
    then show ?thesis unfolding run more by simp
  qed
qed

text \<open>A file that a component owns has no other component among its owners.\<close>

lemma owned_claims:
  assumes "files (gn_id c) = Inr fs" and "f \<in> set fs" and "files (gn_id d) = Inr gs" and "g \<in> set gs"
    and "fi_repository_rel_path f = path" and "fi_repository_rel_path g = path"
  shows "gn_id c = gn_id d"
  using one_path [OF assms(1,3,2,4)] files_owner [OF assms(1,2)] files_owner [OF assms(3,4)] assms(5,6) by simp

end

text \<open>The indexes that \<open>build_ownership_index\<close> can produce.\<close>

lemma sample_index_ok: "is_ok (build_ownership_index sample_repository)"
  by code_simp

typedef built_index = "{ox. \<exists>rp. build_ownership_index rp = Inr ox}" morphisms index_of built_index
  using sample_index_ok by (auto simp: is_ok_iff)

interpretation index_lookup: ownership "owner_info (index_of ox)" "files_for_owner (index_of ox)" for ox
proof -
  obtain rp where rp: "build_ownership_index rp = Inr (index_of ox)" using index_of [of ox] by blast
  show "ownership (owner_info (index_of ox)) (files_for_owner (index_of ox))"
  proof
    show "oi_id n = i" if "owner_info (index_of ox) i = Inr n" for i n
      by (rule owner_info_id [OF rp that])
    show "is_ok (files_for_owner (index_of ox) i) \<longleftrightarrow> is_ok (owner_info (index_of ox) i)" for i
      by (auto simp: is_ok_iff files_for_owner_Inr_iff [OF rp])
    show "fi_owner_id f = i" if "files_for_owner (index_of ox) i = Inr fs" "f \<in> set fs" for i fs f
      using that by (auto simp: files_for_owner_Inr_iff [OF rp])
    show "f = g" if "files_for_owner (index_of ox) i = Inr fs" "files_for_owner (index_of ox) j = Inr gs" "f \<in> set fs" "g \<in> set gs"
      "fi_repository_rel_path f = fi_repository_rel_path g" for i j fs gs f g
      using that path_unique [OF rp] by (auto simp: files_for_owner_Inr_iff [OF rp])
  qed
qed

section \<open>Properties\<close>



definition file_claimants :: "repository \<Rightarrow> string \<Rightarrow> string set" where
  "file_claimants rp path = {gn_id c |c. c \<in> set (get_components rp) \<and>
     ((\<exists>f\<in>set (get_files rp). fi_owner_id f = gn_id c \<and> fi_repository_rel_path f = path) \<or>
      (\<exists>root\<in>set (co_source_roots c). under_path path root))}"

text \<open>
  A file's component context is decided by its claims: a file of a component has that component;
  for any other owner the context is the one component that owns the path or has it below a source
  root, none if there is no such component, and an error exactly when there are several.
\<close>

theorem file_context_decided:
  assumes "build_ownership_index rp = Inr ox" and "owner_info ox owner = Inr n"
  shows "primary_component_id_for_file (owner_info ox) (files_for_owner ox) (get_components rp) path owner =
    (if oi_kind n = ''component'' then Inr (Some owner)
     else if file_claimants rp path = {} then Inr None
     else if card (file_claimants rp path) = 1 then Inr (Some (the_elem (file_claimants rp path)))
     else Inl (ValueErr (''file resolves to multiple component contexts: '' @ quoted path)))"
proof -
  have ix: "index_of (built_index ox) = ox" using assms(1) by (intro built_index_inverse) blast
  have known: "\<forall>c\<in>set (get_components rp). is_ok (owner_info ox (gn_id c))"
    using component_known [OF assms(1)] by simp
  have eq: "claims_file (files_for_owner ox) path c = Inr True \<longleftrightarrow>
     (\<exists>f\<in>set (get_files rp). fi_owner_id f = gn_id c \<and> fi_repository_rel_path f = path) \<or>
      (\<exists>root\<in>set (co_source_roots c). under_path path root)" if "c \<in> set (get_components rp)" for c
    using known that by (auto simp: claims_file_def ebind_Inr_iff files_for_owner_Inr_iff [OF assms(1)])
  then have "claimants (files_for_owner ox) (get_components rp) path = file_claimants rp path"
    unfolding claimants_def file_claimants_def using eq by auto
  with index_lookup.file_context [of "get_components rp" "built_index ox" owner n path] show ?thesis
    using known assms(2) by (simp add: ix)
qed

theorem file_context_decided_witness:
  "\<exists>ox n. build_ownership_index sample_repository = Inr ox \<and> owner_info ox ''component:npm:a'' = Inr n \<and>
     primary_component_id_for_file (owner_info ox) (files_for_owner ox) (get_components sample_repository)
       ''src/a/x.ts'' ''component:npm:a'' = Inr (Some ''component:npm:a'')"
proof -
  obtain ox where ox: "build_ownership_index sample_repository = Inr ox" using sample_index_ok by (auto simp: is_ok_iff)
  have "\<exists>c\<in>set (get_components sample_repository). gn_id c = ''component:npm:a''" by code_simp
  then obtain c where "c \<in> set (get_components sample_repository)" "gn_id c = ''component:npm:a''" by blast
  then have n: "owner_info ox ''component:npm:a'' = Inr (owned_of NK_COMPONENT c)" using component_known [OF ox] by metis
  show ?thesis using file_context_decided [OF ox n, of "''src/a/x.ts''"] ox n by (simp add: owned_of_def)
qed

end
