(* ===== verification/Routing.thy ===== *)
theory Routing
  imports Ownership
begin

text \<open>
  Queries that go through the owner of a file: provider routing (\<open>core/repository.py\<close>), related
  tests and test runs (\<open>core/tests/test_intelligence.py\<close>), quality providers
  (\<open>core/quality/quality_intelligence.py\<close>), actions (\<open>core/action_intelligence.py\<close>), the repository
  ids of a workspace (\<open>core/workspace.py\<close>) and the shared argument checks (\<open>core/validation.py\<close>).

  The caches of these services hold the value of the first call; the repository does not change, so
  each call here computes that value.
\<close>

section \<open>Argument checks\<close>

definition validate_between :: "int \<Rightarrow> int \<Rightarrow> string \<Rightarrow> int \<Rightarrow> int result" where
  "validate_between min_value max_value field_name value =
     (if value < min_value \<or> max_value < value
      then Inl (ValueErr (field_name @ '' must be between '' @ str_int min_value @ '' and '' @ str_int max_value))
      else Inr value)"

definition validate_timeout_seconds :: "int \<Rightarrow> int result" where
  "validate_timeout_seconds = validate_between 1 3600 ''timeout_seconds''"

definition validate_preview_limit :: "string \<Rightarrow> int \<Rightarrow> int result" where
  "validate_preview_limit field_name = validate_between 1 50 field_name"

definition validate_change_preview_limit :: "string \<Rightarrow> int \<Rightarrow> int result" where
  "validate_change_preview_limit field_name = validate_between 1 100 field_name"

definition validate_exact_batch :: "string list \<Rightarrow> string \<Rightarrow> string list result" where
  "validate_exact_batch values field_name =
     ebind (check (values \<noteq> []) (ValueErr (field_name @ '' must not be empty''))) (\<lambda>_.
     ebind (check (length values \<le> 25) (ValueErr (field_name @ '' must not contain more than 25 items''))) (\<lambda>_.
     ebind (check (\<forall>v\<in>set values. \<not> blank v) (ValueErr (field_name @ '' must not contain empty values''))) (\<lambda>_.
     ebind (check (distinct values) (ValueErr (field_name @ '' must not contain duplicates''))) (\<lambda>_. Inr values))))"

section \<open>Routing to providers\<close>

definition get_file_owner :: "repository \<Rightarrow> string \<Rightarrow> file_owner_info result" where
  "get_file_owner rp path = ebind (build_ownership_index rp) (\<lambda>ox. owner_for_file ox path)"

definition list_files_by_owner :: "repository \<Rightarrow> string \<Rightarrow> file_info list result" where
  "list_files_by_owner rp i = ebind (build_ownership_index rp) (\<lambda>ox. files_for_owner ox i)"

definition resolve_owner :: "repository \<Rightarrow> string \<Rightarrow> owned_node_info result" where
  "resolve_owner rp i = ebind (build_ownership_index rp) (\<lambda>ox. owner_info ox i)"

definition provider_id_for_owner :: "repository \<Rightarrow> string \<Rightarrow> string result" where
  "provider_id_for_owner rp owner_id =
     (if blank owner_id then Inl (ValueErr ''owner_id must not be empty'')
      else let parts = split_on CHR '':'' (strip owner_id) in
        if length parts < 2 \<or> blank (parts ! 1)
        then Inl (ValueErr (''owner id does not encode a provider id: '' @ quoted owner_id))
        else let provider_id = strip (parts ! 1) in
          if \<not> has_provider rp provider_id
          then Inl (ValueErr (''owner id references unknown provider '' @ quoted provider_id @ '': '' @ quoted owner_id))
          else Inr provider_id)"

text \<open>\<open>s.strip("/")\<close>.\<close>

definition strip_slashes :: "string \<Rightarrow> string" where
  "strip_slashes s = rev (dropWhile (\<lambda>c. c = CHR ''/'') (rev (dropWhile (\<lambda>c. c = CHR ''/'') s)))"

definition attachment_contains_path :: "string \<Rightarrow> string \<Rightarrow> bool" where
  "attachment_contains_path attachment_root path =
     (let root = replace_char (CHR 0x5C) (CHR ''/'') (strip_slashes (strip attachment_root));
          normalized = replace_char (CHR 0x5C) (CHR ''/'') (strip_slashes (strip path)) in
      root = [] \<or> root = ''.'' \<or> under_path normalized root)"

definition or_all :: "'a list \<Rightarrow> 'a list \<Rightarrow> 'a list" where
  "or_all matched all_of = (if matched = [] then all_of else matched)"

definition get_providers_for_owner_role :: "repository \<Rightarrow> string \<Rightarrow> provider_role \<Rightarrow> provider list result" where
  "get_providers_for_owner_role rp owner_id role =
     ebind (provider_id_for_owner rp owner_id) (\<lambda>i.
       if role \<notin> set (rp_roles rp i) then Inr []
       else let ps = providers_by_id rp i in
         if length ps \<le> 1 then Inr ps
         else ebind (list_files_by_owner rp owner_id) (\<lambda>fs.
           if fs = [] then Inr ps
           else Inr (or_all (filter (\<lambda>p. \<exists>f\<in>set fs. attachment_contains_path (pv_root p) (fi_repository_rel_path f)) ps) ps)))"

definition get_providers_for_file_role :: "repository \<Rightarrow> string \<Rightarrow> provider_role \<Rightarrow> provider list result" where
  "get_providers_for_file_role rp path role =
     ebind (get_file_owner rp path) (\<lambda>w.
     ebind (get_providers_for_owner_role rp (oi_id (fo_owner w)) role) (\<lambda>ps.
       Inr (or_all (filter (\<lambda>p. attachment_contains_path (pv_root p) path) ps) ps)))"

definition get_owning_providers_for_file :: "repository \<Rightarrow> string \<Rightarrow> provider list result" where
  "get_owning_providers_for_file rp path =
     ebind (get_file_owner rp path) (\<lambda>w.
     ebind (provider_id_for_owner rp (oi_id (fo_owner w))) (\<lambda>i.
       let ps = providers_by_id rp i in
       Inr (or_all (filter (\<lambda>p. attachment_contains_path (pv_root p) path) ps) ps)))"

text \<open>\<open>describe_structured_artifact\<close>: the first owning provider that knows the file, by artifact kind.\<close>

definition describe_structured_artifact :: "repository \<Rightarrow> string \<Rightarrow> (string option) result" where
  "describe_structured_artifact rp path =
     ebind (get_owning_providers_for_file rp path) (\<lambda>ps.
       Inr (case concat (map (\<lambda>p. case pv_artifact_kinds p of None \<Rightarrow> [] | Some f \<Rightarrow> (case f path of None \<Rightarrow> [] | Some k \<Rightarrow> [k])) ps) of
              [] \<Rightarrow> None
            | k # _ \<Rightarrow> Some k))"

section \<open>Tests\<close>

definition optional_str :: "string option \<Rightarrow> string" where
  "optional_str s = (case s of None \<Rightarrow> [] | Some t \<Rightarrow> t)"

definition related_test_order :: "resolved_related_test \<Rightarrow> string \<times> string \<times> string \<times> string" where
  "related_test_order r =
     (rr_test_id r, rm_reason (rr_match r), optional_str (rm_owner_id (rr_match r)),
      optional_str (rm_repository_rel_path (rr_match r)))"

definition join_match :: "discovered_test list \<Rightarrow> related_test_match \<Rightarrow> resolved_related_test result" where
  "join_match discovered m =
     (case find (\<lambda>d. gn_id (dt_test d) = gn_id (rm_test m)) discovered of
        None \<Rightarrow> Inl (ValueErr (''related test '' @ quoted (gn_id (rm_test m)) @ '' has no discovered test metadata''))
      | Some d \<Rightarrow> mk_resolved_related_test m d)"

definition get_related_tests :: "repository \<Rightarrow> related_test_target \<Rightarrow> resolved_related_test list result" where
  "get_related_tests rp target =
     ebind (get_discovered_tests rp) (\<lambda>discovered.
     ebind (case rt_owner_id target of
              Some i \<Rightarrow> get_providers_for_owner_role rp i ROLE_TEST
            | None \<Rightarrow> (case rt_repository_rel_path target of
                 None \<Rightarrow> Inl AssertionErr
               | Some path \<Rightarrow> get_providers_for_file_role rp path ROLE_TEST)) (\<lambda>ps.
     ebind (mapE (\<lambda>p. ebind (pv_related_tests p target) (mapE (join_match discovered)))
         (filter (\<lambda>p. ROLE_TEST \<in> set (pv_implements p)) ps)) (\<lambda>rss.
       Inr (sort_key related_test_order (concat rss)))))"

text \<open>\<open>run_test_targets\<close>: one call per provider with the ids it discovered, results in request order.\<close>

definition repr_list :: "string list \<Rightarrow> string" where
  "repr_list xs = ''['' @ join_with '', '' (map (\<lambda>x. [CHR 0x27] @ x @ [CHR 0x27]) xs) @ '']''"

definition collect_results ::
  "string list \<Rightarrow> test_execution_result list \<Rightarrow> (string \<times> test_execution_result) list \<Rightarrow>
   (string \<times> test_execution_result) list result" where
  "collect_results expected results by_id =
     (if set expected \<noteq> te_test_id ` set results
      then Inl (ValueErr (''provider returned unexpected test run results: expected '' @
             quoted (repr_list (sorted_set expected)) @ '', got '' @
             quoted (repr_list (sorted_set (map te_test_id results)))))
      else foldE (\<lambda>r by_id.
        if te_test_id r \<in> fst ` set by_id
        then Inl (ValueErr (''duplicate test execution result returned: '' @ quoted (te_test_id r)))
        else Inr (by_id @ [(te_test_id r, r)])) results by_id)"

definition run_test_targets :: "repository \<Rightarrow> string list \<Rightarrow> int \<Rightarrow> test_execution_result list result" where
  "run_test_targets rp test_ids timeout =
     ebind (validate_exact_batch test_ids ''test_ids'') (\<lambda>_.
     ebind (validate_timeout_seconds timeout) (\<lambda>_.
     ebind (mapE (\<lambda>i. ebind (provider_for_test_id rp i) (\<lambda>p. Inr (p, i))) test_ids) (\<lambda>pairs.
     ebind (foldE (\<lambda>(k, group) by_id.
         ebind (pv_run_tests (fst (hd group)) (map snd group) timeout) (\<lambda>results.
           collect_results (map snd group) results by_id))
       (group_by_key (\<lambda>(p, i). (pv_id p, pv_root p)) pairs) []) (\<lambda>by_id.
       mapE (\<lambda>i. of_option (KeyErr i) (map_of by_id i)) test_ids))))"

section \<open>Quality\<close>

definition quality_path :: "string \<Rightarrow> string" where
  "quality_path path = removeprefix ''./'' (strip (replace_char (CHR 0x5C) (CHR ''/'') path))"

definition is_quality_relevant_file :: "repository \<Rightarrow> string \<Rightarrow> bool result" where
  "is_quality_relevant_file rp path =
     (case get_file_owner rp path of
        Inl (ValueErr m) \<Rightarrow> Inr True
      | Inl (AttributeErr m) \<Rightarrow> Inr True
      | Inl e \<Rightarrow> Inl e
      | Inr w \<Rightarrow>
          if oi_kind (fo_owner w) \<noteq> ''component'' then Inr True
          else case find (\<lambda>c. gn_id c = oi_id (fo_owner w)) (get_components rp) of
                 None \<Rightarrow> Inr True
               | Some c \<Rightarrow>
                   if \<exists>a\<in>set (co_artifact_paths c). under_path (quality_path path) a then Inr False
                   else if co_source_roots c \<noteq> []
                   then Inr (\<exists>root\<in>set (co_source_roots c). under_path (quality_path path) root)
                   else Inr True)"

definition is_repository_quality_relevant_file :: "repository \<Rightarrow> string \<Rightarrow> bool result" where
  "is_repository_quality_relevant_file rp path =
     (case get_file_owner rp path of
        Inl (ValueErr m) \<Rightarrow> Inr True
      | Inl (AttributeErr m) \<Rightarrow> Inr True
      | Inl e \<Rightarrow> Inl e
      | Inr w \<Rightarrow> if oi_kind (fo_owner w) = ''runner'' then Inr False else is_quality_relevant_file rp path)"

definition add_quality_provider :: "provider \<Rightarrow> provider list \<Rightarrow> provider list result" where
  "add_quality_provider p providers =
     (if (pv_id p, pv_root p) \<in> (\<lambda>q. (pv_id q, pv_root q)) ` set providers then Inr providers
      else if ROLE_QUALITY \<notin> set (pv_implements p)
      then Inl (ValueErr (''provider '' @ quoted (pv_id p) @ '' does not implement quality operations''))
      else Inr (providers @ [p]))"

definition quality_providers_for_files :: "repository \<Rightarrow> string list \<Rightarrow> provider list result" where
  "quality_providers_for_files rp paths =
     foldE (\<lambda>path providers.
       ebind (is_quality_relevant_file rp path) (\<lambda>relevant.
         if \<not> relevant then Inr providers
         else ebind (get_providers_for_file_role rp path ROLE_QUALITY) (\<lambda>ps. foldE add_quality_provider ps providers))) paths []"

definition provider_ids_for_files :: "repository \<Rightarrow> string list \<Rightarrow> string list result" where
  "provider_ids_for_files rp paths =
     ebind (quality_providers_for_files rp paths) (\<lambda>ps. Inr (append_new [] (map pv_id ps)))"

definition quality_provider_for_file :: "repository \<Rightarrow> string \<Rightarrow> string \<Rightarrow> provider result" where
  "quality_provider_for_file rp path provider_id =
     ebind (quality_providers_for_files rp [path]) (\<lambda>ps.
       case filter (\<lambda>p. pv_id p = provider_id) ps of
         [] \<Rightarrow> Inl (ValueErr (''provider '' @ quoted provider_id @ '' does not support quality for '' @ quoted path @
                '' in repository '' @ quoted (rp_root rp)))
       | p # _ \<Rightarrow> Inr p)"

definition provider_ids_for_owner :: "repository \<Rightarrow> string \<Rightarrow> string list result" where
  "provider_ids_for_owner rp owner_id =
     ebind (list_files_by_owner rp owner_id) (\<lambda>fs.
       if fs = [] then Inr [] else provider_ids_for_files rp (map fi_repository_rel_path fs))"

text \<open>\<open>relevant_repository_rel_paths\<close>: of the given files, or of all files of the repository.\<close>

definition keep_relevant :: "(string \<Rightarrow> bool result) \<Rightarrow> string list \<Rightarrow> string list result" where
  "keep_relevant relevant paths =
     ebind (mapE (\<lambda>p. ebind (relevant p) (\<lambda>b. Inr (if b then [p] else []))) paths) (\<lambda>pss. Inr (concat pss))"

definition relevant_repository_rel_paths :: "repository \<Rightarrow> string list option \<Rightarrow> string list result" where
  "relevant_repository_rel_paths rp paths =
     (case paths of
        None \<Rightarrow> keep_relevant (is_repository_quality_relevant_file rp) (map fi_repository_rel_path (get_files rp))
      | Some ps \<Rightarrow> keep_relevant (is_quality_relevant_file rp) ps)"

section \<open>Actions\<close>

definition all_actions :: "repository \<Rightarrow> repository_action list result" where
  "all_actions rp =
     ebind (foldE (\<lambda>(p, a) by_id.
       if ra_provider_id a \<noteq> pv_id p
       then Inl (ValueErr (''provider '' @ quoted (pv_id p) @ '' returned action '' @ quoted (ra_id a) @
              '' with mismatched provider_id '' @ quoted (ra_provider_id a)))
       else if ra_id a \<in> fst ` set by_id
       then Inl (ValueErr (''duplicate action id detected across providers: '' @ quoted (ra_id a)))
       else Inr (by_id @ [(ra_id a, a)]))
       (concat (map (\<lambda>p. map (\<lambda>a. (p, a)) (case pv_actions p of None \<Rightarrow> [] | Some acts \<Rightarrow> acts)) (rp_providers rp))) [])
     (\<lambda>by_id. Inr (map snd by_id))"

definition filter_by_kind :: "repository_action list \<Rightarrow> action_query \<Rightarrow> repository_action list" where
  "filter_by_kind acts q =
     (if aq_action_kinds q = [] then acts else filter (\<lambda>a. ra_kind a \<in> set (aq_action_kinds q)) acts)"

definition resolve_kind :: "repository \<Rightarrow> string \<Rightarrow> string \<Rightarrow> string \<Rightarrow> unit result" where
  "resolve_kind rp i kind phrase =
     ebind (resolve_owner rp i) (\<lambda>owner.
       check (oi_kind owner = kind) (ValueErr (''owner id is not a '' @ phrase @ '': '' @ quoted i)))"

definition belongs_to :: "string \<Rightarrow> repository_action \<Rightarrow> bool" where
  "belongs_to owner_id a \<longleftrightarrow> owner_id \<in> set (ra_owner_ids a) \<or> (ra_target_kind a = AT_COMPONENT \<and> ra_target_id a = owner_id)"

definition filter_by_selector :: "repository \<Rightarrow> repository_action list \<Rightarrow> action_query \<Rightarrow> repository_action list result" where
  "filter_by_selector rp acts q =
     (case aq_runner_id q of
        Some i \<Rightarrow> ebind (resolve_kind rp i ''runner'' ''runner'') (\<lambda>_.
          Inr (filter (\<lambda>a. ra_target_kind a = AT_RUNNER \<and> ra_target_id a = i) acts))
      | None \<Rightarrow>
     (case aq_test_id q of
        Some i \<Rightarrow> ebind (resolve_kind rp i ''test_definition'' ''test definition'') (\<lambda>_.
          Inr (filter (\<lambda>a. ra_target_kind a = AT_TEST_DEFINITION \<and> ra_target_id a = i) acts))
      | None \<Rightarrow>
     (case aq_repository_rel_path q of
        Some path \<Rightarrow> ebind (get_file_owner rp path) (\<lambda>w. Inr (filter (belongs_to (oi_id (fo_owner w))) acts))
      | None \<Rightarrow>
     (case aq_owner_id q of
        Some i \<Rightarrow> ebind (resolve_owner rp i) (\<lambda>_. Inr (filter (belongs_to i) acts))
      | None \<Rightarrow>
     (case aq_component_id q of
        Some i \<Rightarrow> ebind (resolve_kind rp i ''component'' ''component'') (\<lambda>_. Inr (filter (belongs_to i) acts))
      | None \<Rightarrow> Inr acts)))))"

definition action_order :: "repository_action \<Rightarrow> string \<times> string \<times> string \<times> string \<times> string" where
  "action_order a = (action_kind_value (ra_kind a), action_target_kind_value (ra_target_kind a), ra_target_id a,
     ra_provider_id a, ra_id a)"

definition get_actions :: "repository \<Rightarrow> action_query \<Rightarrow> repository_action list result" where
  "get_actions rp q =
     ebind (all_actions rp) (\<lambda>acts.
     ebind (filter_by_selector rp (filter_by_kind acts q) q) (\<lambda>selected. Inr (sort_key action_order selected)))"

section \<open>Workspaces\<close>

text \<open>
  \<open>_next_repository_id\<close>: the first of \<open>repo:name\<close>, \<open>repo:name-2\<close>, \<open>repo:name-3\<close>, ... that no
  repository of the workspace has.
\<close>

definition repository_id_candidate :: "string \<Rightarrow> nat \<Rightarrow> string" where
  "repository_id_candidate name n = (if n < 2 then ''repo:'' @ name else ''repo:'' @ name @ ''-'' @ str_nat n)"

text \<open>Decimal numerals are injective, so the candidates never repeat and the search ends.\<close>

definition digits_value :: "string \<Rightarrow> nat" where
  "digits_value s = foldl (\<lambda>a c. 10 * a + (of_char c - 48)) 0 s"

lemma digits_value_str_nat: "digits_value (str_nat n) = n"
proof (induction n rule: str_nat.induct)
  case (1 n)
  have d: "of_char (digit_char m) - 48 = m mod 10" for m :: nat by simp
  show ?case
  proof (cases "n < 10")
    case True
    then show ?thesis by (subst str_nat.simps) (simp add: digits_value_def)
  next
    case False
    have "digits_value (str_nat n) = 10 * digits_value (str_nat (n div 10)) + (of_char (digit_char n) - 48)"
      using False by (subst str_nat.simps) (simp add: digits_value_def del: digit_char.simps)
    then show ?thesis using 1 [OF False] by (simp only: d) presburger
  qed
qed

lemma str_nat_inj: "str_nat m = str_nat n \<Longrightarrow> m = n"
  by (metis digits_value_str_nat)

lemma candidate_inj: "2 \<le> m \<Longrightarrow> 2 \<le> n \<Longrightarrow> repository_id_candidate name m = repository_id_candidate name n \<Longrightarrow> m = n"
  using str_nat_inj by (auto simp: repository_id_candidate_def)

lemma finite_taken: "finite {m. n \<le> m \<and> repository_id_candidate name m \<in> set existing}"
proof -
  have "inj_on (repository_id_candidate name) {m. 2 \<le> m \<and> repository_id_candidate name m \<in> set existing}"
    by (auto intro!: inj_onI dest: candidate_inj)
  moreover have "finite (repository_id_candidate name ` {m. 2 \<le> m \<and> repository_id_candidate name m \<in> set existing})"
    by (rule finite_subset [of _ "set existing"]) auto
  ultimately have "finite {m. 2 \<le> m \<and> repository_id_candidate name m \<in> set existing}" by (simp add: finite_image_iff)
  then have "finite ({0, 1} \<union> {m. 2 \<le> m \<and> repository_id_candidate name m \<in> set existing})" by simp
  then show ?thesis by (rule rev_finite_subset) auto
qed

function next_suffix :: "string list \<Rightarrow> string \<Rightarrow> nat \<Rightarrow> string" where
  "next_suffix existing name suffix =
     (if repository_id_candidate name suffix \<notin> set existing then repository_id_candidate name suffix
      else next_suffix existing name (Suc suffix))"
  by pat_completeness auto
termination
proof (relation "measure (\<lambda>(existing, name, suffix). card {m. suffix \<le> m \<and> repository_id_candidate name m \<in> set existing})", goal_cases)
  case (2 existing name suffix)
  let ?taken = "\<lambda>n. {m. n \<le> m \<and> repository_id_candidate name m \<in> set existing}"
  have "suffix \<in> ?taken suffix" "suffix \<notin> ?taken (Suc suffix)" "?taken (Suc suffix) \<subseteq> ?taken suffix"
    using 2 by auto
  then have "?taken (Suc suffix) \<subset> ?taken suffix" by blast
  then show ?case by (auto intro: psubset_card_mono finite_taken)
qed simp

declare next_suffix.simps [simp del]

lemma next_suffix_new: "next_suffix existing name n \<notin> set existing"
  by (induction existing name n rule: next_suffix.induct) (subst next_suffix.simps, simp)

definition next_repository_id :: "string list \<Rightarrow> string \<Rightarrow> string" where
  "next_repository_id existing base_name =
     (if repository_id_candidate base_name 0 \<notin> set existing then repository_id_candidate base_name 0
      else next_suffix existing base_name 2)"

text \<open>A workspace: the repositories by root, in the order they were added. \<open>supported\<close> is \<open>support_for_path\<close>.\<close>

definition add_repository ::
  "(string \<Rightarrow> bool) \<Rightarrow> string \<Rightarrow> (string \<times> string) list \<Rightarrow> string result \<times> (string \<times> string) list" where
  "add_repository supported root ws =
     (if \<not> supported root then (Inl (ValueErr (''workspace cannot add unsupported repository '' @ quoted root)), ws)
      else case map_of ws root of
        Some i \<Rightarrow> (Inr i, ws)
      | None \<Rightarrow> (let i = next_repository_id (map snd ws) (last (split_on CHR ''/'' root)) in (Inr i, ws @ [(root, i)])))"

definition get_repository_by_id :: "string \<Rightarrow> string \<Rightarrow> (string \<times> string) list \<Rightarrow> string result" where
  "get_repository_by_id workspace_id i ws =
     (case find (\<lambda>(root, j). j = i) ws of
        Some (root, j) \<Rightarrow> Inr root
      | None \<Rightarrow> Inl (ValueErr (''unknown repository id in workspace '' @ quoted workspace_id @ '': '' @ quoted i)))"

lemma find_append_None: "find P xs = None \<Longrightarrow> find P (xs @ ys) = find P ys"
  by (induction xs) auto

section \<open>Properties\<close>

text \<open>
  Repository ids identify repositories: adding a repository always ends, keeps roots and ids
  free of duplicates, leaves the ids given before unchanged, answers a second time with the first
  id, and the id it gives finds the same repository again.
\<close>

theorem repository_ids_unique:
  assumes "distinct (map fst ws)" and "distinct (map snd ws)" and "add_repository supported root ws = (r, ws')"
  shows "distinct (map fst ws') \<and> distinct (map snd ws') \<and> (\<exists>new. ws' = ws @ new) \<and>
    (\<forall>i. r = Inr i \<longrightarrow> add_repository supported root ws' = (Inr i, ws') \<and> get_repository_by_id w i ws' = Inr root)"
proof (cases "supported root \<and> map_of ws root = None")
  case True
  let ?i = "next_repository_id (map snd ws) (last (split_on CHR ''/'' root))"
  have ws': "r = Inr ?i" "ws' = ws @ [(root, ?i)]" using assms(3) True by (auto simp: add_repository_def Let_def)
  have new: "?i \<notin> set (map snd ws)"
    using next_suffix_new [of "map snd ws"] by (simp only: next_repository_id_def split: if_split) blast
  then have "find (\<lambda>(root, j). j = ?i) ws = None" by (auto simp: find_None_iff image_iff)
  then have "find (\<lambda>(root, j). j = ?i) ws' = Some (root, ?i)"
    unfolding ws' by (simp add: find_append_None)
  moreover have m: "map_of (ws @ [(root, ?i)]) root = Some ?i" using True by (simp add: map_add_def)
  ultimately show ?thesis
    using assms(1,2) True new m by (auto simp: ws' add_repository_def get_repository_by_id_def map_of_eq_None_iff)
next
  case False
  then have ws': "ws' = ws" and r: "r = Inr i \<Longrightarrow> supported root \<and> map_of ws root = Some i" for i
    using assms(3) by (auto simp: add_repository_def Let_def split: if_splits option.splits)
  have "get_repository_by_id w i ws = Inr root" if "map_of ws root = Some i" for i
  proof -
    have "(root, i) \<in> set ws" using that by (rule map_of_SomeD)
    with assms(2) have "find (\<lambda>(root, j). j = i) ws = Some (root, i)"
      by (induction ws) (auto simp: image_iff)
    then show ?thesis by (simp add: get_repository_by_id_def)
  qed
  then show ?thesis using assms(1,2) r ws' by (auto simp: add_repository_def)
qed

theorem repository_ids_unique_witness:
  "snd (add_repository (\<lambda>r. True) ''/b/x'' [(''/a/x'', ''repo:x'')]) = [(''/a/x'', ''repo:x''), (''/b/x'', ''repo:x-2'')] \<and>
   distinct (map snd (snd (add_repository (\<lambda>r. True) ''/b/x'' [(''/a/x'', ''repo:x'')])))"
proof -
  have e: "add_repository (\<lambda>r. True) ''/b/x'' [(''/a/x'', ''repo:x'')] = (Inr ''repo:x-2'', [(''/a/x'', ''repo:x''), (''/b/x'', ''repo:x-2'')])"
    by code_simp
  show ?thesis using repository_ids_unique [OF _ _ e] by (simp add: e)
qed

lemma or_all_cases: "or_all (filter P ps) ps = ps \<and> filter P ps = [] \<or> or_all (filter P ps) ps = filter P ps \<and> filter P ps \<noteq> []"
  by (simp add: or_all_def)

lemma or_all_filter:
  "set (or_all (filter P ps) ps) \<subseteq> set ps \<and> (ps \<noteq> [] \<longrightarrow> or_all (filter P ps) ps \<noteq> []) \<and>
   ((\<exists>p\<in>set ps. P p) \<longrightarrow> (\<forall>p\<in>set (or_all (filter P ps) ps). P p))"
  by (auto simp: or_all_def filter_empty_conv)

lemma provider_id_for_owner_known: "provider_id_for_owner rp i = Inr q \<Longrightarrow> providers_by_id rp q \<noteq> []"
  by (auto simp: provider_id_for_owner_def Let_def has_provider_def split: if_splits)

lemma owner_role_providers:
  assumes "get_providers_for_owner_role rp owner_id role = Inr ps" and "provider_id_for_owner rp owner_id = Inr i"
  shows "set ps \<subseteq> set (providers_by_id rp i) \<and> (role \<in> set (rp_roles rp i) \<longleftrightarrow> ps \<noteq> [])"
  using assms provider_id_for_owner_known [OF assms(2)] or_all_filter
  by (auto simp: get_providers_for_owner_role_def Let_def ebind_Inr_iff or_all_def split: if_splits)

text \<open>
  A file's providers for a role all come from the provider that its owner id names, there is at
  least one when that provider has the role, and attachments decide among its instances: if some
  candidate instance is attached above the file, every instance returned is.
\<close>

theorem file_role_routing:
  assumes "get_providers_for_file_role rp path role = Inr ps"
  shows "\<exists>w i cs. get_file_owner rp path = Inr w \<and> provider_id_for_owner rp (oi_id (fo_owner w)) = Inr i \<and>
    get_providers_for_owner_role rp (oi_id (fo_owner w)) role = Inr cs \<and>
    set ps \<subseteq> set cs \<and> set cs \<subseteq> set (providers_by_id rp i) \<and> (role \<in> set (rp_roles rp i) \<longleftrightarrow> ps \<noteq> []) \<and>
    ((\<exists>p\<in>set cs. attachment_contains_path (pv_root p) path) \<longrightarrow> (\<forall>p\<in>set ps. attachment_contains_path (pv_root p) path))"
proof -
  obtain w cs where w: "get_file_owner rp path = Inr w" and cs: "get_providers_for_owner_role rp (oi_id (fo_owner w)) role = Inr cs"
    and ps: "ps = or_all (filter (\<lambda>p. attachment_contains_path (pv_root p) path) cs) cs"
    using assms by (auto simp: get_providers_for_file_role_def ebind_Inr_iff)
  obtain i where i: "provider_id_for_owner rp (oi_id (fo_owner w)) = Inr i"
    using cs by (auto simp: get_providers_for_owner_role_def ebind_Inr_iff)
  have "ps = [] \<longleftrightarrow> cs = []" unfolding ps or_all_def by auto
  then show ?thesis
    using w i cs owner_role_providers [OF cs i] or_all_filter [of "\<lambda>p. attachment_contains_path (pv_root p) path" cs]
    unfolding ps by blast
qed

theorem file_role_routing_witness:
  "\<exists>ps. get_providers_for_file_role sample_repository ''src/a/x.ts'' ROLE_TEST = Inr ps \<and>
     (\<exists>w. get_file_owner sample_repository ''src/a/x.ts'' = Inr w)"
proof -
  have "is_ok (get_providers_for_file_role sample_repository ''src/a/x.ts'' ROLE_TEST)" by code_simp
  then show ?thesis using file_role_routing unfolding is_ok_iff by blast
qed

definition keyed_results :: "(string \<times> test_execution_result) list \<Rightarrow> bool" where
  "keyed_results by_id \<longleftrightarrow> (\<forall>(i, r) \<in> set by_id. te_test_id r = i)"

lemma collect_results_keyed:
  assumes "collect_results expected results acc = Inr t" and "keyed_results acc"
  shows "keyed_results t"
proof -
  have "foldE (\<lambda>r by_id.
        if te_test_id r \<in> fst ` set by_id
        then Inl (ValueErr (''duplicate test execution result returned: '' @ quoted (te_test_id r)))
        else Inr (by_id @ [(te_test_id r, r)])) results acc = Inr t"
    using assms(1) by (auto simp: collect_results_def split: if_splits)
  then show ?thesis
    by (rule foldE_invariant) (use assms(2) in \<open>auto simp: keyed_results_def split: if_splits\<close>)
qed

text \<open>
  A test run answers what was asked: when \<open>run_test_targets\<close> returns, it returns one result per
  requested id, in the order of the request.
\<close>

theorem test_run_answers_requests:
  assumes "run_test_targets rp test_ids timeout = Inr results"
  shows "map te_test_id results = test_ids"
proof -
  obtain groups :: "((string \<times> string) \<times> (provider \<times> string) list) list" and by_id where run: "foldE (\<lambda>(k, group) by_id.
         ebind (pv_run_tests (fst (hd group)) (map snd group) timeout) (\<lambda>results.
           collect_results (map snd group) results by_id)) groups ([] :: (string \<times> test_execution_result) list) = Inr by_id"
    and res: "mapE (\<lambda>i. of_option (KeyErr i) (map_of by_id i)) test_ids = Inr results"
    using assms unfolding run_test_targets_def ebind_Inr_iff by blast
  have keyed: "keyed_results by_id"
    by (rule foldE_invariant [OF run]) (auto simp: ebind_Inr_iff keyed_results_def [of "[]"] dest: collect_results_keyed)
  from res have "list_all2 (\<lambda>i r. map_of by_id i = Some r) test_ids results" by (simp add: mapE_Inr_iff)
  then show ?thesis
    by (induction rule: list_all2_induct) (use keyed in \<open>auto simp: keyed_results_def dest!: map_of_SomeD\<close>)
qed

definition sample_result :: "string \<Rightarrow> test_execution_result" where
  "sample_result i =
     \<lparr>te_test_id = i, te_status = XS_PASSED, te_success = True, te_argv = [''vitest''], te_cwd = None, te_exit_code = Some 0,
      te_duration_ms = 5, te_log_path = ''.suit/runs/t.log'', te_warning = None, te_output_excerpt = None,
      te_failure_snippets = [], te_provenance = [sample_entry SK_TEST_TOOL [''t.ts'']]\<rparr>"

definition running_repository :: repository where
  "running_repository =
     sample_repository\<lparr>rp_providers := [sample_provider\<lparr>pv_run_tests := (\<lambda>ids t. Inr (map sample_result ids))\<rparr>]\<rparr>"

theorem test_run_answers_requests_witness:
  "\<exists>rs. run_test_targets running_repository [''test:npm:t''] 120 = Inr rs \<and> map te_test_id rs = [''test:npm:t'']"
proof -
  have "is_ok (run_test_targets running_repository [''test:npm:t''] 120)" by code_simp
  then show ?thesis using test_run_answers_requests unfolding is_ok_iff by blast
qed

end
