(* ===== verification/Builds.thy ===== *)
theory Builds
  imports Routing
begin

text \<open>
  Running actions: \<open>core/build_models.py\<close>, \<open>core/build_service.py\<close>, \<open>core/runner_models.py\<close>,
  \<open>core/runner_service.py\<close> and \<open>providers/shared/action_execution\<close>.

  The machine the actions run on is a parameter: how it resolves directories and executables, runs
  a process and names the log file. \<open>splitlines\<close> is \<open>str.splitlines\<close> on the characters modelled.
\<close>

section \<open>Executions\<close>

record action_execution =
  ax_action_id :: string
  ax_status :: execution_status
  ax_success :: bool
  ax_argv :: "string list"
  ax_cwd :: "string option"
  ax_exit_code :: "int option"
  ax_duration_ms :: int
  ax_log_path :: string
  ax_output_excerpt :: "string option"
  ax_output :: string

text \<open>The field rules that action, build and runner results share.\<close>

definition validate_execution_fields ::
  "string list \<Rightarrow> string option \<Rightarrow> string \<Rightarrow> string option \<Rightarrow> string result" where
  "validate_execution_fields argv cwd log_path excerpt =
     ebind (validate_argv ''command_argv'' argv) (\<lambda>_.
     ebind (validate_optional_text ''command_cwd'' cwd) (\<lambda>_.
     ebind (validate_log_path log_path) (\<lambda>p.
     ebind (validate_optional_text ''output_excerpt'' excerpt) (\<lambda>_. Inr p))))"

definition validate_status :: "int \<Rightarrow> bool \<Rightarrow> execution_status \<Rightarrow> int option \<Rightarrow> unit result" where
  "validate_status duration_ms success status exit_code =
     ebind (check (0 \<le> duration_ms) (ValueErr ''duration_ms must be >= 0'')) (\<lambda>_.
     ebind (check (success \<longrightarrow> status = XS_PASSED) (ValueErr ''success=True requires status=passed'')) (\<lambda>_.
     ebind (check (status = XS_PASSED \<longrightarrow> success) (ValueErr ''status=passed requires success=True'')) (\<lambda>_.
     check (status = XS_TIMEOUT \<longrightarrow> exit_code = None) (ValueErr ''timeout status must not include exit_code''))))"

definition validate_action_execution :: "action_execution \<Rightarrow> action_execution result" where
  "validate_action_execution x =
     ebind (check (\<not> blank (ax_action_id x)) (ValueErr ''action_id must not be empty'')) (\<lambda>_.
     ebind (validate_execution_fields (ax_argv x) (ax_cwd x) (ax_log_path x) (ax_output_excerpt x)) (\<lambda>p.
     ebind (validate_status (ax_duration_ms x) (ax_success x) (ax_status x) (ax_exit_code x)) (\<lambda>_.
       Inr (x\<lparr>ax_log_path := p\<rparr>))))"

record process_outcome =
  po_exit_code :: "int option"
  po_timed_out :: bool
  po_duration_ms :: int
  po_output :: string

text \<open>\<open>mc_run\<close> answers \<open>Inl\<close> with the text of an \<open>OSError\<close>.\<close>

record machine =
  mc_resolve_cwd :: "string option \<Rightarrow> string result"
  mc_which :: "string \<Rightarrow> string option"
  mc_python :: string
  mc_has_pytest :: bool
  mc_run :: "string list \<Rightarrow> string \<Rightarrow> int \<Rightarrow> string + process_outcome"
  mc_log_path :: "string \<Rightarrow> string \<Rightarrow> string"

definition resolve_command_argv :: "machine \<Rightarrow> string list \<Rightarrow> string list result" where
  "resolve_command_argv mc argv =
     (case argv of
        [] \<Rightarrow> Inl (IndexErr ''tuple index out of range'')
      | executable # args \<Rightarrow>
          if blank executable then Inl (ValueErr ''command argv must not contain an empty executable'')
          else case mc_which mc executable of
                 Some path \<Rightarrow> Inr (path # args)
               | None \<Rightarrow>
                   if lower executable \<in> {''python'', ''python3'', ''python.exe'', ''python3.exe''} then Inr (mc_python mc # args)
                   else if lower executable = ''pytest'' \<and> mc_has_pytest mc then Inr ([mc_python mc, ''-m'', ''pytest''] @ args)
                   else Inr argv)"

definition resolve_status :: "int option \<Rightarrow> bool \<Rightarrow> execution_status" where
  "resolve_status exit_code timed_out =
     (if timed_out then XS_TIMEOUT
      else case exit_code of None \<Rightarrow> XS_ERROR | Some c \<Rightarrow> if c = 0 then XS_PASSED else XS_FAILED)"

definition line_break :: "char \<Rightarrow> bool" where
  "line_break c \<longleftrightarrow> c \<in> {CHR 0x0A, CHR 0x0B, CHR 0x0C, CHR 0x0D, CHR 0x1C, CHR 0x1D, CHR 0x1E, CHR 0x85}"

fun splitlines :: "string \<Rightarrow> string list" where
  "splitlines [] = []"
| "splitlines (c # s) =
     (if line_break c
      then [] # splitlines (if c = CHR 0x0D \<and> startswith s [CHR 0x0A] then tl s else s)
      else case splitlines s of
             [] \<Rightarrow> [[c]]
           | l # ls \<Rightarrow> (c # l) # ls)"

definition last_n :: "nat \<Rightarrow> 'a list \<Rightarrow> 'a list" where
  "last_n n xs = drop (length xs - n) xs"

definition excerpt :: "string \<Rightarrow> string option" where
  "excerpt output =
     (if blank output then None
      else let text = join_with [CHR 0x0A] (last_n 40 (splitlines (strip output))) in
           Some (if 4000 < length text then last_n 4000 text else text))"

definition group_char :: "char \<Rightarrow> bool" where
  "group_char c \<longleftrightarrow> (CHR ''a'' \<le> c \<and> c \<le> CHR ''z'') \<or> (CHR ''0'' \<le> c \<and> c \<le> CHR ''9'') \<or> c = CHR ''_'' \<or> c = CHR ''-''"

definition run_action ::
  "machine \<Rightarrow> string \<Rightarrow> string list \<Rightarrow> string option \<Rightarrow> int \<Rightarrow> string \<Rightarrow> action_execution result" where
  "run_action mc action_id argv cwd timeout run_group =
     ebind (validate_timeout_seconds timeout) (\<lambda>_.
     let grp = lower (strip run_group) in
     ebind (check (grp \<noteq> []) (ValueErr ''run_group must not be empty'')) (\<lambda>_.
     ebind (check (list_all group_char grp)
       (ValueErr ''run_group must contain only lowercase letters, digits, '-', or '_' characters'')) (\<lambda>_.
     ebind (mc_resolve_cwd mc cwd) (\<lambda>directory.
     ebind (resolve_command_argv mc argv) (\<lambda>command.
       case mc_run mc command directory timeout of
         Inl os_error \<Rightarrow> Inl (ValueErr (''failed to execute command '' @ quoted (join_with '' '' argv) @ '': '' @ os_error))
       | Inr out \<Rightarrow>
           let status = resolve_status (po_exit_code out) (po_timed_out out) in
           validate_action_execution
             \<lparr>ax_action_id = action_id, ax_status = status, ax_success = (status = XS_PASSED), ax_argv = argv, ax_cwd = cwd,
              ax_exit_code = po_exit_code out, ax_duration_ms = po_duration_ms out, ax_log_path = mc_log_path mc action_id grp,
              ax_output_excerpt = excerpt (po_output out), ax_output = po_output out\<rparr>)))))"

section \<open>Build targets\<close>

record build_target_description =
  bt_action_id :: string
  bt_name :: string
  bt_provider_id :: string
  bt_target_id :: string
  bt_target_kind :: action_target_kind
  bt_owner_ids :: "string list"
  bt_proof_facets :: "action_proof_facet list"
  bt_invocation :: action_invocation
  bt_dry_run_supported :: bool
  bt_provenance :: provenance

definition validate_build_target :: "build_target_description \<Rightarrow> build_target_description result" where
  "validate_build_target b =
     ebind (check (\<not> blank (bt_action_id b)) (ValueErr ''action_id must not be empty'')) (\<lambda>_.
     ebind (check (\<not> blank (bt_name b)) (ValueErr ''name must not be empty'')) (\<lambda>_.
     ebind (check (\<not> blank (bt_provider_id b)) (ValueErr ''provider_id must not be empty'')) (\<lambda>_.
     ebind (check (\<not> blank (bt_target_id b)) (ValueErr ''target_id must not be empty'')) (\<lambda>_.
     ebind (check (bt_target_kind b \<in> {AT_COMPONENT, AT_REPOSITORY})
       (ValueErr ''build target_kind must be `component` or `repository`'')) (\<lambda>_.
     ebind (validate_owners_and_facets (bt_owner_ids b) (bt_proof_facets b) (bt_provenance b)) (\<lambda>_. Inr b))))))"

record build_execution_result =
  be_action_id :: string
  be_target_id :: string
  be_target_kind :: action_target_kind
  be_status :: execution_status
  be_success :: bool
  be_argv :: "string list"
  be_cwd :: "string option"
  be_exit_code :: "int option"
  be_duration_ms :: int
  be_log_path :: string
  be_output_excerpt :: "string option"
  be_provenance :: provenance

definition validate_build_execution_result :: "build_execution_result \<Rightarrow> build_execution_result result" where
  "validate_build_execution_result r =
     ebind (check (\<not> blank (be_action_id r) \<and> \<not> blank (be_target_id r)) (ValueErr ''value must not be empty'')) (\<lambda>_.
     ebind (validate_execution_fields (be_argv r) (be_cwd r) (be_log_path r) (be_output_excerpt r)) (\<lambda>p.
     ebind (validate_outcome (be_duration_ms r) (be_success r) (be_status r) (be_exit_code r) (be_provenance r)) (\<lambda>_.
       Inr (r\<lparr>be_log_path := p\<rparr>))))"

record build_project_result =
  bp_timeout_seconds :: int
  bp_total :: int
  bp_passed :: int
  bp_failed :: int
  bp_errors :: int
  bp_timeouts :: int
  bp_succeeded_target_ids :: "string list"
  bp_failed_results :: "build_execution_result list"
  bp_provenance :: provenance

definition validate_build_project_result :: "build_project_result \<Rightarrow> build_project_result result" where
  "validate_build_project_result r =
     ebind (validate_timeout_seconds (bp_timeout_seconds r)) (\<lambda>_.
     ebind (mapE (\<lambda>(name, v). check (0 \<le> v) (ValueErr (name @ '' must be >= 0'')))
       [(''total'', bp_total r), (''passed'', bp_passed r), (''failed'', bp_failed r), (''errors'', bp_errors r),
        (''timeouts'', bp_timeouts r)]) (\<lambda>_.
     ebind (check (bp_total r = bp_passed r + bp_failed r + bp_errors r + bp_timeouts r)
       (ValueErr ''total must equal passed + failed + errors + timeouts'')) (\<lambda>_.
     ebind (check (bp_passed r = int (length (bp_succeeded_target_ids r)))
       (ValueErr ''passed must equal len(succeeded_target_ids)'')) (\<lambda>_.
     ebind (check (bp_failed r + bp_errors r + bp_timeouts r = int (length (bp_failed_results r)))
       (ValueErr ''failed + errors + timeouts must equal len(failed_results)'')) (\<lambda>_.
     ebind (check (\<forall>i\<in>set (bp_succeeded_target_ids r). \<not> blank i)
       (ValueErr ''succeeded_target_ids must not contain empty values'')) (\<lambda>_.
     ebind (check (distinct (bp_succeeded_target_ids r)) (ValueErr ''succeeded_target_ids must not contain duplicates'')) (\<lambda>_.
     ebind (check (\<forall>x\<in>set (bp_failed_results r). be_status x \<noteq> XS_PASSED)
       (ValueErr ''failed_results must not contain passed statuses'')) (\<lambda>_.
     ebind (check (bp_provenance r \<noteq> []) (ValueErr ''provenance must not be empty'')) (\<lambda>_. Inr r)))))))))"

definition to_build_target :: "repository_action \<Rightarrow> build_target_description result" where
  "to_build_target a =
     ebind (check (ra_kind a = AK_BUILD_EXECUTION) (ValueErr (''action is not a build action: '' @ quoted (ra_id a)))) (\<lambda>_.
     validate_build_target
       \<lparr>bt_action_id = ra_id a, bt_name = ra_name a, bt_provider_id = ra_provider_id a, bt_target_id = ra_target_id a,
        bt_target_kind = ra_target_kind a, bt_owner_ids = ra_owner_ids a, bt_proof_facets = ra_proof_facets a,
        bt_invocation = ra_invocation a, bt_dry_run_supported = ra_dry_run_supported a, bt_provenance = ra_provenance a\<rparr>)"

definition build_targets_by_action_id :: "repository \<Rightarrow> (string \<times> build_target_description) list result" where
  "build_targets_by_action_id rp =
     ebind (mk_action_query (any_action\<lparr>aq_action_kinds := [AK_BUILD_EXECUTION]\<rparr>)) (\<lambda>q.
     ebind (get_actions rp q) (\<lambda>acts.
       foldE (\<lambda>a by_id.
         if ra_id a \<in> fst ` set by_id
         then Inl (ValueErr (''duplicate build action id detected: '' @ quoted (ra_id a)))
         else ebind (to_build_target a) (\<lambda>b. Inr (by_id @ [(ra_id a, b)]))) acts []))"

definition target_order :: "build_target_description \<Rightarrow> nat \<times> string \<times> string" where
  "target_order b = (if bt_target_kind b = AT_COMPONENT then 0 else 1, bt_target_id b, bt_action_id b)"

definition list_build_targets :: "repository \<Rightarrow> build_target_description list result" where
  "list_build_targets rp = ebind (build_targets_by_action_id rp) (\<lambda>by_id. Inr (sort_key target_order (map snd by_id)))"

definition describe_build_target :: "repository \<Rightarrow> string \<Rightarrow> build_target_description result" where
  "describe_build_target rp action_id =
     (if strip action_id = [] then Inl (ValueErr ''action_id must not be empty'')
      else ebind (build_targets_by_action_id rp) (\<lambda>by_id.
        of_option (ValueErr (''unknown build action id: '' @ quoted (strip action_id))) (map_of by_id (strip action_id))))"

text \<open>The provenance of a result: that of the action and one derived entry that names the log.\<close>

definition execution_provenance :: "provenance \<Rightarrow> string \<Rightarrow> string \<Rightarrow> provenance result" where
  "execution_provenance p summary log_path =
     ebind (preferred_source_kind p) (\<lambda>sk.
     ebind (preferred_source_tool p) (\<lambda>tool.
     ebind (merge_provenance_paths p 10) (\<lambda>paths.
     ebind (derived_summary_provenance sk tool summary (log_path # paths)) (\<lambda>e. Inr (p @ [e])))))"

definition build_target :: "machine \<Rightarrow> repository \<Rightarrow> string \<Rightarrow> int \<Rightarrow> build_execution_result result" where
  "build_target mc rp action_id timeout =
     ebind (validate_timeout_seconds timeout) (\<lambda>_.
     ebind (describe_build_target rp action_id) (\<lambda>b.
     ebind (run_action mc (bt_action_id b) (iv_argv (bt_invocation b)) (iv_cwd (bt_invocation b)) timeout ''builds'') (\<lambda>x.
     ebind (execution_provenance (bt_provenance b) ''build execution result derived from deterministic build action'' (ax_log_path x)) (\<lambda>p.
       validate_build_execution_result
         \<lparr>be_action_id = bt_action_id b, be_target_id = bt_target_id b, be_target_kind = bt_target_kind b,
          be_status = ax_status x, be_success = (ax_status x = XS_PASSED), be_argv = iv_argv (bt_invocation b),
          be_cwd = iv_cwd (bt_invocation b), be_exit_code = ax_exit_code x, be_duration_ms = ax_duration_ms x,
          be_log_path = ax_log_path x, be_output_excerpt = ax_output_excerpt x, be_provenance = p\<rparr>))))"

definition with_status :: "execution_status \<Rightarrow> build_execution_result list \<Rightarrow> build_execution_result list" where
  "with_status s rs = filter (\<lambda>r. be_status r = s) rs"

definition build_project :: "machine \<Rightarrow> repository \<Rightarrow> int \<Rightarrow> build_project_result result" where
  "build_project mc rp timeout =
     ebind (validate_timeout_seconds timeout) (\<lambda>_.
     ebind (list_build_targets rp) (\<lambda>targets.
     ebind (check (targets \<noteq> []) (ValueErr ''no deterministic build targets are available for this repository'')) (\<lambda>_.
     ebind (mapE (\<lambda>b. build_target mc rp (bt_action_id b) timeout) targets) (\<lambda>rs.
     let p = concat (map be_provenance rs) in
     ebind (preferred_source_kind p) (\<lambda>sk.
     ebind (preferred_source_tool p) (\<lambda>tool.
     ebind (merge_provenance_paths p 10) (\<lambda>paths.
     ebind (derived_summary_provenance sk tool ''project build summary derived from deterministic build action executions'' paths) (\<lambda>e.
       validate_build_project_result
         \<lparr>bp_timeout_seconds = timeout, bp_total = int (length rs), bp_passed = int (length (with_status XS_PASSED rs)),
          bp_failed = int (length (with_status XS_FAILED rs)), bp_errors = int (length (with_status XS_ERROR rs)),
          bp_timeouts = int (length (with_status XS_TIMEOUT rs)),
          bp_succeeded_target_ids = map be_target_id (with_status XS_PASSED rs),
          bp_failed_results = filter (\<lambda>r. be_status r \<noteq> XS_PASSED) rs, bp_provenance = [e]\<rparr>))))))))"

section \<open>Runners\<close>

record runner_context =
  rc_runner :: runner
  rc_action_id :: string
  rc_provider_id :: string
  rc_invocation :: action_invocation
  rc_primary_component :: "component option"
  rc_owned_file_count :: int
  rc_owned_files_preview :: "file_info list"
  rc_related_test_count :: int
  rc_related_tests_preview :: "resolved_related_test list"
  rc_provenance :: provenance

definition validate_runner_context :: "runner_context \<Rightarrow> runner_context result" where
  "validate_runner_context c =
     ebind (check (\<not> blank (rc_action_id c) \<and> \<not> blank (rc_provider_id c)) (ValueErr ''value must not be empty'')) (\<lambda>_.
     ebind (check (0 \<le> rc_owned_file_count c) (ValueErr ''owned_file_count must be >= 0'')) (\<lambda>_.
     ebind (check (0 \<le> rc_related_test_count c) (ValueErr ''related_test_count must be >= 0'')) (\<lambda>_.
     ebind (check (int (length (rc_owned_files_preview c)) \<le> rc_owned_file_count c)
       (ValueErr ''owned_file_count must be >= len(owned_files_preview)'')) (\<lambda>_.
     ebind (check (int (length (rc_related_tests_preview c)) \<le> rc_related_test_count c)
       (ValueErr ''related_test_count must be >= len(related_tests_preview)'')) (\<lambda>_.
     ebind (check (rc_provenance c \<noteq> []) (ValueErr ''provenance must not be empty'')) (\<lambda>_. Inr c))))))"

record runner_execution_result =
  re_runner_id :: string
  re_action_id :: string
  re_status :: execution_status
  re_success :: bool
  re_argv :: "string list"
  re_cwd :: "string option"
  re_exit_code :: "int option"
  re_duration_ms :: int
  re_log_path :: string
  re_output_excerpt :: "string option"
  re_provenance :: provenance

definition validate_runner_execution_result :: "runner_execution_result \<Rightarrow> runner_execution_result result" where
  "validate_runner_execution_result r =
     ebind (check (\<not> blank (re_runner_id r) \<and> \<not> blank (re_action_id r)) (ValueErr ''value must not be empty'')) (\<lambda>_.
     ebind (validate_execution_fields (re_argv r) (re_cwd r) (re_log_path r) (re_output_excerpt r)) (\<lambda>p.
     ebind (validate_outcome (re_duration_ms r) (re_success r) (re_status r) (re_exit_code r) (re_provenance r)) (\<lambda>_.
       Inr (r\<lparr>re_log_path := p\<rparr>))))"

definition runner_by_id :: "repository \<Rightarrow> string \<Rightarrow> runner result" where
  "runner_by_id rp i =
     ebind (resolve_kind rp i ''runner'' ''runner'') (\<lambda>_.
     ebind (unique_index gn_id (\<lambda>r. r) (\<lambda>r. ValueErr (''duplicate runner id detected: '' @ quoted (gn_id r))) (get_runners rp)) (\<lambda>ix.
       of_option (ValueErr (''unknown runner id: '' @ quoted i)) (map_of ix i)))"

definition runner_action_for_id :: "repository \<Rightarrow> string \<Rightarrow> repository_action result" where
  "runner_action_for_id rp i =
     ebind (mk_action_query (any_action\<lparr>aq_runner_id := Some i\<rparr>)) (\<lambda>q.
     ebind (get_actions rp q) (\<lambda>acts.
       case filter (\<lambda>a. ra_kind a = AK_RUNNER_EXECUTION \<and> ra_target_kind a = AT_RUNNER \<and> ra_target_id a = i) acts of
         [] \<Rightarrow> Inl (ValueErr (''missing runner action for runner id '' @ quoted i))
       | [a] \<Rightarrow> Inr a
       | _ \<Rightarrow> Inl (ValueErr (''ambiguous runner actions for runner id '' @ quoted i))))"

definition primary_component_for_action :: "repository \<Rightarrow> repository_action \<Rightarrow> (component option) result" where
  "primary_component_for_action rp a =
     ebind (mapE (\<lambda>i. ebind (resolve_owner rp i) (\<lambda>o_info. Inr (if oi_kind o_info = ''component'' then [i] else []))) (ra_owner_ids a)) (\<lambda>ids.
       case sorted_set (concat ids) of
         [] \<Rightarrow> Inr None
       | [i] \<Rightarrow> (case find (\<lambda>c. gn_id c = i) (rev (get_components rp)) of
             Some c \<Rightarrow> Inr (Some c)
           | None \<Rightarrow> Inl (ValueErr (''component id could not be resolved: '' @ quoted i)))
       | unique_ids \<Rightarrow> Inl (ValueErr (''runner action '' @ quoted (ra_id a) @ '' maps to multiple components: '' @
             quoted (join_with '', '' unique_ids))))"

definition related_tests_for_runner ::
  "repository \<Rightarrow> component option \<Rightarrow> file_info list \<Rightarrow> resolved_related_test list result" where
  "related_tests_for_runner rp primary owned_files =
     (case primary of
        Some c \<Rightarrow> ebind (mk_related_test_target None (Some (gn_id c))) (get_related_tests rp)
      | None \<Rightarrow>
          ebind (foldE (\<lambda>f by_id.
              ebind (mk_related_test_target (Some (fi_repository_rel_path f)) None) (\<lambda>target.
              ebind (get_related_tests rp target) (\<lambda>related.
                Inr (fold (\<lambda>r by_id. if rr_test_id r \<in> fst ` set by_id then by_id else by_id @ [(rr_test_id r, r)]) related by_id))))
            owned_files []) (\<lambda>by_id.
          Inr (sort_key related_test_order (map snd by_id))))"

definition runner_context_provenance ::
  "runner \<Rightarrow> repository_action \<Rightarrow> file_info list \<Rightarrow> resolved_related_test list \<Rightarrow> provenance result" where
  "runner_context_provenance r a owned_files related =
     ebind (if owned_files = [] then merge_provenance_paths (gn_provenance r) 10
            else Inr (map fi_repository_rel_path (take 10 owned_files))) (\<lambda>paths.
     ebind (ownership_provenance (''runner context derived from ownership index for '' @ quoted (gn_id r)) paths) (\<lambda>e1.
     ebind (preferred_source_kind (ra_provenance a)) (\<lambda>sk.
     ebind (preferred_source_tool (ra_provenance a)) (\<lambda>tool.
     ebind (merge_provenance_paths (ra_provenance a) 10) (\<lambda>action_paths.
     ebind (derived_summary_provenance sk tool (''runner invocation derived from deterministic action '' @ quoted (ra_id a)) action_paths) (\<lambda>e2.
       if related = [] then Inr [e1, e2]
       else let p = concat (map rr_provenance related) in
         ebind (preferred_source_tool p) (\<lambda>test_tool.
         ebind (merge_provenance_paths p 10) (\<lambda>test_paths.
         ebind (derived_summary_provenance
             (if \<forall>t\<in>set related. is_authoritative_test_provenance (rr_provenance t) then SK_TEST_TOOL else SK_HEURISTIC)
             test_tool ''runner-related tests derived from ownership and discovered test metadata'' test_paths) (\<lambda>e3.
           Inr [e1, e2, e3])))))))))"

definition describe_runner :: "repository \<Rightarrow> string \<Rightarrow> int \<Rightarrow> int \<Rightarrow> runner_context result" where
  "describe_runner rp i file_limit test_limit =
     ebind (validate_preview_limit ''file_preview_limit'' file_limit) (\<lambda>_.
     ebind (validate_preview_limit ''test_preview_limit'' test_limit) (\<lambda>_.
     ebind (runner_by_id rp i) (\<lambda>r.
     ebind (runner_action_for_id rp i) (\<lambda>a.
     ebind (primary_component_for_action rp a) (\<lambda>primary.
     ebind (list_files_by_owner rp i) (\<lambda>owned.
     ebind (related_tests_for_runner rp primary owned) (\<lambda>related.
     ebind (runner_context_provenance r a owned related) (\<lambda>p.
       validate_runner_context
         \<lparr>rc_runner = r, rc_action_id = ra_id a, rc_provider_id = ra_provider_id a, rc_invocation = ra_invocation a,
          rc_primary_component = primary, rc_owned_file_count = int (length owned),
          rc_owned_files_preview = take (nat file_limit) owned, rc_related_test_count = int (length related),
          rc_related_tests_preview = take (nat test_limit) related, rc_provenance = p\<rparr>))))))))"

definition run_runner :: "machine \<Rightarrow> repository \<Rightarrow> string \<Rightarrow> int \<Rightarrow> runner_execution_result result" where
  "run_runner mc rp i timeout =
     ebind (validate_timeout_seconds timeout) (\<lambda>_.
     ebind (runner_by_id rp i) (\<lambda>r.
     ebind (runner_action_for_id rp i) (\<lambda>a.
     ebind (run_action mc (ra_id a) (iv_argv (ra_invocation a)) (iv_cwd (ra_invocation a)) timeout ''runners'') (\<lambda>x.
     ebind (execution_provenance (ra_provenance a) ''runner execution result derived from deterministic runner action'' (ax_log_path x)) (\<lambda>p.
       validate_runner_execution_result
         \<lparr>re_runner_id = gn_id r, re_action_id = ra_id a, re_status = ax_status x, re_success = (ax_status x = XS_PASSED),
          re_argv = iv_argv (ra_invocation a), re_cwd = iv_cwd (ra_invocation a), re_exit_code = ax_exit_code x,
          re_duration_ms = ax_duration_ms x, re_log_path = ax_log_path x, re_output_excerpt = ax_output_excerpt x,
          re_provenance = p\<rparr>)))))"

section \<open>Facts\<close>

lemma splitlines_last:
  "s \<noteq> [] \<Longrightarrow> \<not> line_break (last s) \<Longrightarrow> splitlines s \<noteq> [] \<and> last (splitlines s) \<noteq> [] \<and> last (last (splitlines s)) = last s"
proof (induction s rule: splitlines.induct)
  case (2 c s)
  show ?case
  proof (cases "s = []")
    case True
    then show ?thesis using "2.prems" by simp
  next
    case False
    have ls: "last (c # s) = last s" using False by simp
    show ?thesis
    proof (cases "line_break c")
      case True
      let ?r = "if c = CHR 0x0D \<and> startswith s [CHR 0x0A] then tl s else s"
      have "?r \<noteq> [] \<and> last ?r = last s"
        using False "2.prems"(2) by (cases s) (auto simp: line_break_def)
      then show ?thesis using "2.IH"(1) [OF True] "2.prems"(2) True ls by simp
    next
      case nb: False
      have "splitlines s \<noteq> [] \<and> last (splitlines s) \<noteq> [] \<and> last (last (splitlines s)) = last s"
        using "2.IH"(2) [OF nb False] "2.prems"(2) ls by simp
      then show ?thesis using nb False by (cases "splitlines s") auto
    qed
  qed
qed simp

lemma join_with_last: "ws \<noteq> [] \<Longrightarrow> last ws \<noteq> [] \<Longrightarrow> join_with sep ws \<noteq> [] \<and> last (join_with sep ws) = last (last ws)"
proof (induction ws)
  case (Cons w ws)
  then show ?case by (cases ws) (auto simp: join_with_Cons)
qed simp

lemma last_n_last: "xs \<noteq> [] \<Longrightarrow> 0 < n \<Longrightarrow> last_n n xs \<noteq> [] \<and> last (last_n n xs) = last xs \<and> length (last_n n xs) \<le> n"
  by (cases xs) (auto simp: last_n_def)

lemma strip_last: "\<not> blank s \<Longrightarrow> strip s \<noteq> [] \<and> \<not> py_isspace (last (strip s))"
proof -
  assume nb: "\<not> blank s"
  let ?t = "dropWhile py_isspace s"
  have "\<not> (\<forall>c\<in>set ?t. py_isspace c)"
    using nb by (metis blank_iff dropWhile_eq_Nil_conv hd_dropWhile hd_in_set)
  then have "dropWhile py_isspace (rev ?t) \<noteq> []" by (simp add: dropWhile_eq_Nil_all)
  then show ?thesis unfolding strip_def by (simp add: last_rev hd_dropWhile)
qed

lemma line_break_isspace: "line_break c \<Longrightarrow> py_isspace c"
  by (auto simp: line_break_def py_isspace_def)

lemma excerpt_shape:
  "excerpt s = Some e \<Longrightarrow> \<not> blank s \<and> \<not> blank e \<and> length e \<le> 4000"
proof -
  assume e: "excerpt s = Some e"
  then have nb: "\<not> blank s" by (auto simp: excerpt_def split: if_splits)
  let ?ls = "splitlines (strip s)"
  let ?text = "join_with [CHR 0x0A] (last_n 40 ?ls)"
  have st: "strip s \<noteq> []" "\<not> py_isspace (last (strip s))" using strip_last [OF nb] by auto
  have sl: "?ls \<noteq> []" "last ?ls \<noteq> []" "last (last ?ls) = last (strip s)"
    using splitlines_last [OF st(1)] line_break_isspace st(2) by blast+
  have "last_n 40 ?ls \<noteq> []" "last (last_n 40 ?ls) = last ?ls" using last_n_last [OF sl(1), of 40] by auto
  then have tx: "?text \<noteq> []" "last ?text = last (strip s)"
    using join_with_last [of "last_n 40 ?ls" "[CHR 0x0A]"] sl by auto
  have "e \<noteq> [] \<and> last e = last (strip s) \<and> length e \<le> 4000"
    using e nb tx last_n_last [OF tx(1), of 4000] by (auto simp: excerpt_def Let_def split: if_splits)
  then have "\<not> blank e" using st(2) by (metis blank_iff last_in_set)
  then show ?thesis using nb \<open>e \<noteq> [] \<and> last e = last (strip s) \<and> length e \<le> 4000\<close> by blast
qed

lemma resolve_status_iff:
  "resolve_status c t = XS_PASSED \<longleftrightarrow> c = Some 0 \<and> \<not> t" "resolve_status c t = XS_TIMEOUT \<longleftrightarrow> t"
  by (auto simp: resolve_status_def split: option.splits)

lemma excerpt_None_iff: "excerpt s = None \<longleftrightarrow> blank s"
  by (simp add: excerpt_def Let_def)

lemma with_status_partition:
  "length (with_status XS_PASSED rs) + length (filter (\<lambda>r. be_status r \<noteq> XS_PASSED) rs) = length rs"
  by (simp add: with_status_def sum_length_filter_compl)

section \<open>Properties\<close>

text \<open>
  The report of an executed action is faithful to the process: it succeeded exactly when the
  process ended in time with exit code 0, a timeout carries no exit code, and the excerpt is absent
  exactly when the output is blank and otherwise is a non-blank text of at most 4000 characters.
\<close>

theorem action_report_faithful:
  assumes "run_action mc action_id argv cwd timeout run_group = Inr x"
  shows "\<exists>command directory out. resolve_command_argv mc argv = Inr command \<and> mc_resolve_cwd mc cwd = Inr directory \<and>
    mc_run mc command directory timeout = Inr out \<and> ax_output x = po_output out \<and>
    (ax_success x \<longleftrightarrow> po_exit_code out = Some 0 \<and> \<not> po_timed_out out) \<and>
    (ax_status x = XS_TIMEOUT \<longleftrightarrow> po_timed_out out) \<and> (po_timed_out out \<longrightarrow> ax_exit_code x = None) \<and>
    (ax_output_excerpt x = None \<longleftrightarrow> blank (po_output out)) \<and>
    (\<forall>e. ax_output_excerpt x = Some e \<longrightarrow> \<not> blank e \<and> length e \<le> 4000)"
proof -
  let ?report = "\<lambda>out. \<lparr>ax_action_id = action_id, ax_status = resolve_status (po_exit_code out) (po_timed_out out),
              ax_success = (resolve_status (po_exit_code out) (po_timed_out out) = XS_PASSED), ax_argv = argv, ax_cwd = cwd,
              ax_exit_code = po_exit_code out, ax_duration_ms = po_duration_ms out,
              ax_log_path = mc_log_path mc action_id (lower (strip run_group)),
              ax_output_excerpt = excerpt (po_output out), ax_output = po_output out\<rparr>"
  obtain command directory where cd: "resolve_command_argv mc argv = Inr command" "mc_resolve_cwd mc cwd = Inr directory"
    and k: "(case mc_run mc command directory timeout of
         Inl os_error \<Rightarrow> Inl (ValueErr (''failed to execute command '' @ quoted (join_with '' '' argv) @ '': '' @ os_error))
       | Inr out \<Rightarrow> validate_action_execution (?report out)) = Inr x"
    using assms unfolding run_action_def Let_def ebind_Inr_iff by blast
  obtain out where out: "mc_run mc command directory timeout = Inr out"
    using k by (cases "mc_run mc command directory timeout") auto
  then have v: "validate_action_execution (?report out) = Inr x" using k by simp
  note run = cd out
  have x: "ax_output x = po_output out" "ax_status x = resolve_status (po_exit_code out) (po_timed_out out)"
    "ax_success x = (resolve_status (po_exit_code out) (po_timed_out out) = XS_PASSED)" "ax_exit_code x = po_exit_code out"
    "ax_output_excerpt x = excerpt (po_output out)" "ax_status x = XS_TIMEOUT \<longrightarrow> ax_exit_code x = None"
    using v by (auto simp: validate_action_execution_def validate_status_def ebind_Inr_iff)
  show ?thesis
    using run x(6) excerpt_shape unfolding x(1-5) resolve_status_iff excerpt_None_iff by blast
qed

definition sample_machine :: machine where
  "sample_machine =
     \<lparr>mc_resolve_cwd = (\<lambda>c. Inr ''/r''), mc_which = (\<lambda>e. None), mc_python = ''/py'', mc_has_pytest = True,
      mc_run = (\<lambda>command directory t. Inr \<lparr>po_exit_code = Some 0, po_timed_out = False, po_duration_ms = 5, po_output = ''ok''\<rparr>),
      mc_log_path = (\<lambda>i g. ''.suit/runs/'' @ g @ ''/x.log'')\<rparr>"

theorem action_report_faithful_witness:
  "\<exists>x. run_action sample_machine ''build:a'' [''npm''] None 300 ''builds'' = Inr x \<and> ax_output x = ''ok'' \<and>
     (\<forall>e. ax_output_excerpt x = Some e \<longrightarrow> length e \<le> 4000)"
proof -
  have "is_ok (run_action sample_machine ''build:a'' [''npm''] None 300 ''builds'')" by code_simp
  then obtain x where x: "run_action sample_machine ''build:a'' [''npm''] None 300 ''builds'' = Inr x" by (auto simp: is_ok_iff)
  then show ?thesis using action_report_faithful [OF x] by (auto simp: sample_machine_def)
qed

text \<open>
  A project build accounts for every target: it ran each listed build target, and its report
  counts all of them, names the target of every passed build and holds the result of every other
  build.
\<close>

theorem project_build_accounts:
  assumes "build_project mc rp timeout = Inr r"
  shows "\<exists>targets rs. list_build_targets rp = Inr targets \<and> targets \<noteq> [] \<and>
    list_all2 (\<lambda>b x. build_target mc rp (bt_action_id b) timeout = Inr x) targets rs \<and>
    bp_total r = int (length targets) \<and> bp_total r = bp_passed r + bp_failed r + bp_errors r + bp_timeouts r \<and>
    bp_passed r = int (length (bp_succeeded_target_ids r)) \<and> distinct (bp_succeeded_target_ids r) \<and>
    (\<forall>x\<in>set rs. if be_status x = XS_PASSED then be_target_id x \<in> set (bp_succeeded_target_ids r)
                 else x \<in> set (bp_failed_results r)) \<and>
    set (bp_failed_results r) \<subseteq> set rs"
proof -
  obtain targets rs p where t: "list_build_targets rp = Inr targets" "targets \<noteq> []"
    and rs: "mapE (\<lambda>b. build_target mc rp (bt_action_id b) timeout) targets = Inr rs"
    and v: "validate_build_project_result
         \<lparr>bp_timeout_seconds = timeout, bp_total = int (length rs), bp_passed = int (length (with_status XS_PASSED rs)),
          bp_failed = int (length (with_status XS_FAILED rs)), bp_errors = int (length (with_status XS_ERROR rs)),
          bp_timeouts = int (length (with_status XS_TIMEOUT rs)),
          bp_succeeded_target_ids = map be_target_id (with_status XS_PASSED rs),
          bp_failed_results = filter (\<lambda>r. be_status r \<noteq> XS_PASSED) rs, bp_provenance = p\<rparr> = Inr r"
    using assms by (auto simp: build_project_def ebind_Inr_iff Let_def)
  have len: "length rs = length targets" using rs by (rule mapE_length)
  have "list_all2 (\<lambda>b x. build_target mc rp (bt_action_id b) timeout = Inr x) targets rs"
    using rs by (simp add: mapE_Inr_iff)
  then show ?thesis
    using t v len
    by (intro exI [of _ targets] exI [of _ rs])
      (auto simp: validate_build_project_result_def ebind_Inr_iff with_status_def)
qed

theorem project_build_accounts_witness:
  "\<exists>r. build_project sample_machine sample_repository 300 = Inr r \<and> bp_total r = bp_passed r + bp_failed r + bp_errors r + bp_timeouts r"
proof -
  have "is_ok (build_project sample_machine sample_repository 300)" by code_simp
  then show ?thesis using project_build_accounts unfolding is_ok_iff by blast
qed

definition twice_built_repository :: repository where
  "twice_built_repository =
     sample_repository\<lparr>rp_providers := [sample_provider\<lparr>pv_actions := Some
       [sample_action ''build:a'' AK_BUILD_EXECUTION ''component:npm:a'' AT_COMPONENT,
        sample_action ''build:a:types'' AK_BUILD_EXECUTION ''component:npm:a'' AT_COMPONENT]\<rparr>]\<rparr>"

definition fails_with :: "string \<Rightarrow> 'a result \<Rightarrow> bool" where
  "fails_with m r \<longleftrightarrow> (case r of Inl (ValueErr m') \<Rightarrow> m' = m | _ \<Rightarrow> False)"

definition passed_build :: "build_execution_result result \<Rightarrow> bool" where
  "passed_build r \<longleftrightarrow> (case r of Inl e \<Rightarrow> False | Inr x \<Rightarrow> be_success x)"

text \<open>
  Two build actions of one component make every project build fail: all builds pass, but the
  summary lists the component twice and its validator rejects it, so the finished builds are lost.
\<close>

theorem passing_builds_fail_the_project:
  "passed_build (build_target sample_machine twice_built_repository ''build:a'' 300) \<and>
   passed_build (build_target sample_machine twice_built_repository ''build:a:types'' 300) \<and>
   fails_with ''succeeded_target_ids must not contain duplicates'' (build_project sample_machine twice_built_repository 300)"
  by code_simp

end
