(* ===== verification/Change_Set_Models.thy ===== *)
theory Change_Set_Models
  imports Builds
begin

text \<open>
  The models of a minimum verified change set (\<open>core/minimum_verified_change_set_models.py\<close>) and its
  quality planner. The test, build and runner items of the source have one shape, the polymorphic
  record \<open>mv_item\<close>; each has its own constructor with the checks of its class.
\<close>

datatype item_kind = MI_TEST_TARGET | MI_BUILD_TARGET | MI_RUNNER_ACTION | MI_QUALITY_OPERATION | MI_VALIDATION_SURFACE

datatype exclusion_reason =
    DUPLICATE_REPLACED_BY_STRONGER_MATCH
  | BROAD_TEST_REPLACED_BY_SPECIFIC_TESTS
  | DEPENDENT_TEST_REPLACED_BY_NARROWER_BUILD
  | REPOSITORY_BUILD_REPLACED_BY_NARROWER_BUILD
  | RUNNER_NOT_DIRECTLY_VALIDATION_RELEVANT
  | DUPLICATE_QUALITY_OPERATION_COLLAPSED
  | NO_DETERMINISTIC_TEST_TARGETS_AVAILABLE
  | NO_NARROWER_DIRECT_VALIDATION_SURFACE_FOR_FILE_TARGET
  | NO_DETERMINISTIC_VALIDATION_SURFACE_FOR_ARTIFACT_MEMBER
  | NO_DETERMINISTIC_VALIDATION_SURFACES_FOR_PROVIDER_OWNED_ARTIFACT

datatype quality_scope = QS_VALIDATION | QS_HYGIENE

datatype quality_kind = QK_LINT | QK_FORMAT

datatype evidence_edge_kind =
    TARGET_TEST_TARGET | COMPONENT_BUILD_TARGET | OWNER_BUILD_TARGET | TARGET_RUNNER_ACTION
  | TARGET_QUALITY_VALIDATION | TARGET_QUALITY_HYGIENE

record evidence_edge =
  me_source_node_kind :: string
  me_source_node_id :: string
  me_target_node_kind :: string
  me_target_node_id :: string
  me_edge_kind :: evidence_edge_kind
  me_reason :: string
  me_provenance :: provenance

definition not_blank :: "string \<Rightarrow> string \<Rightarrow> unit result" where
  "not_blank field_name value = check (\<not> blank value) (ValueErr (field_name @ '' must not be empty''))"

definition mk_evidence_edge :: "evidence_edge \<Rightarrow> evidence_edge result" where
  "mk_evidence_edge e =
     ebind (not_blank ''source_node_kind'' (me_source_node_kind e)) (\<lambda>_.
     ebind (not_blank ''source_node_id'' (me_source_node_id e)) (\<lambda>_.
     ebind (not_blank ''target_node_kind'' (me_target_node_kind e)) (\<lambda>_.
     ebind (not_blank ''target_node_id'' (me_target_node_id e)) (\<lambda>_.
     ebind (not_blank ''reason'' (me_reason e)) (\<lambda>_.
     ebind (check (me_provenance e \<noteq> []) (ValueErr ''provenance must not be empty'')) (\<lambda>_. Inr e))))))"

record 'a mv_item =
  mv_target :: 'a
  mv_inclusion_reason :: string
  mv_inclusion_confidence_mode :: confidence_mode
  mv_proof_edges :: "evidence_edge list"
  mv_provenance :: provenance

type_synonym mv_test = "test_target_description mv_item"
type_synonym mv_build = "build_target_description mv_item"
type_synonym mv_runner = "repository_action mv_item"

definition item_shape :: "'a mv_item \<Rightarrow> unit result" where
  "item_shape i =
     ebind (check (mv_proof_edges i \<noteq> []) (ValueErr ''proof_edges must not be empty'')) (\<lambda>_.
     check (mv_provenance i \<noteq> []) (ValueErr ''provenance must not be empty''))"

definition mk_test_item :: "mv_test \<Rightarrow> mv_test result" where
  "mk_test_item i =
     ebind (not_blank ''inclusion_reason'' (mv_inclusion_reason i)) (\<lambda>_. ebind (item_shape i) (\<lambda>_. Inr i))"

definition mk_build_item :: "mv_build \<Rightarrow> mv_build result" where
  "mk_build_item i =
     ebind (not_blank ''inclusion_reason'' (mv_inclusion_reason i)) (\<lambda>_. ebind (item_shape i) (\<lambda>_. Inr i))"

definition mk_runner_item :: "mv_runner \<Rightarrow> mv_runner result" where
  "mk_runner_item i =
     ebind (not_blank ''inclusion_reason'' (mv_inclusion_reason i)) (\<lambda>_.
     ebind (check (ra_kind (mv_target i) = AK_RUNNER_EXECUTION)
       (ValueErr ''runner action must use kind `runner_execution`'')) (\<lambda>_.
     ebind (item_shape i) (\<lambda>_. Inr i)))"

record quality_operation =
  qo_id :: string
  qo_provider_id :: string
  qo_operation :: quality_kind
  qo_scope :: quality_scope
  qo_repository_rel_paths :: "string list"
  qo_mcp_tool_name :: string
  qo_is_fix :: "bool option"
  qo_is_mutating :: bool
  qo_inclusion_reason :: string
  qo_inclusion_confidence_mode :: confidence_mode
  qo_proof_edges :: "evidence_edge list"
  qo_provenance :: provenance

definition validate_operation_paths :: "string list \<Rightarrow> string list result" where
  "validate_operation_paths value =
     ebind (check (value \<noteq> []) (ValueErr ''repository_rel_paths must not be empty'')) (\<lambda>_.
     foldE (\<lambda>item normalized.
       ebind (normalize_repository_relative_path item) (\<lambda>p.
         if p \<in> set normalized then Inl (ValueErr ''repository_rel_paths must not contain duplicates'')
         else Inr (normalized @ [p]))) value [])"

definition quality_shape :: "quality_operation \<Rightarrow> unit result" where
  "quality_shape q =
     ebind (check (qo_proof_edges q \<noteq> []) (ValueErr ''proof_edges must not be empty'')) (\<lambda>_.
     ebind (check (qo_provenance q \<noteq> []) (ValueErr ''provenance must not be empty'')) (\<lambda>_.
     if qo_operation q = QK_LINT then
       ebind (check (qo_scope q = QS_VALIDATION) (ValueErr ''lint operations must use validation scope'')) (\<lambda>_.
       ebind (check (qo_mcp_tool_name q = ''lint_file'') (ValueErr ''lint operations must use `lint_file`'')) (\<lambda>_.
       ebind (check (qo_is_fix q = Some False) (ValueErr ''lint validation operations must use is_fix=False'')) (\<lambda>_.
       check (\<not> qo_is_mutating q) (ValueErr ''lint validation operations must not mutate content''))))
     else
       ebind (check (qo_scope q = QS_HYGIENE) (ValueErr ''format operations must use hygiene scope'')) (\<lambda>_.
       ebind (check (qo_mcp_tool_name q = ''format_file'') (ValueErr ''format operations must use `format_file`'')) (\<lambda>_.
       ebind (check (qo_is_fix q = None) (ValueErr ''format operations must not define is_fix'')) (\<lambda>_.
       check (qo_is_mutating q) (ValueErr ''format operations must be marked mutating''))))))"

definition mk_quality_operation :: "quality_operation \<Rightarrow> quality_operation result" where
  "mk_quality_operation q =
     ebind (not_blank ''id'' (qo_id q)) (\<lambda>_.
     ebind (not_blank ''provider_id'' (qo_provider_id q)) (\<lambda>_.
     ebind (validate_operation_paths (qo_repository_rel_paths q)) (\<lambda>paths.
     ebind (not_blank ''mcp_tool_name'' (qo_mcp_tool_name q)) (\<lambda>_.
     ebind (not_blank ''inclusion_reason'' (qo_inclusion_reason q)) (\<lambda>_.
     ebind (quality_shape q) (\<lambda>_. Inr (q\<lparr>qo_repository_rel_paths := paths\<rparr>)))))))"

record excluded_item =
  ex_item_kind :: item_kind
  ex_item_id :: string
  ex_reason_code :: exclusion_reason
  ex_reason :: string
  ex_replaced_by_ids :: "string list"
  ex_provenance :: provenance

definition mk_excluded_item :: "excluded_item \<Rightarrow> excluded_item result" where
  "mk_excluded_item x =
     ebind (not_blank ''item_id'' (ex_item_id x)) (\<lambda>_.
     ebind (not_blank ''reason'' (ex_reason x)) (\<lambda>_.
     ebind (foldE (\<lambda>i normalized.
         if blank i then Inl (ValueErr ''replaced_by_ids must not contain empty values'')
         else if i \<in> set normalized then Inl (ValueErr ''replaced_by_ids must not contain duplicates'')
         else Inr (normalized @ [i])) (ex_replaced_by_ids x) []) (\<lambda>_.
     ebind (check (ex_provenance x \<noteq> []) (ValueErr ''provenance must not be empty'')) (\<lambda>_. Inr x))))"

record change_set =
  cs_target_kind :: string
  cs_owner :: owned_node_info
  cs_primary_component :: "component option"
  cs_tests :: "mv_test list"
  cs_build_targets :: "mv_build list"
  cs_runner_actions :: "mv_runner list"
  cs_quality_validation_operations :: "quality_operation list"
  cs_quality_hygiene_operations :: "quality_operation list"
  cs_excluded_items :: "excluded_item list"
  cs_provenance :: provenance

definition no_surface :: "change_set \<Rightarrow> bool" where
  "no_surface c \<longleftrightarrow> cs_tests c = [] \<and> cs_build_targets c = [] \<and> cs_runner_actions c = [] \<and>
     cs_quality_validation_operations c = [] \<and> cs_quality_hygiene_operations c = []"

definition mk_change_set :: "change_set \<Rightarrow> change_set result" where
  "mk_change_set c =
     ebind (check (cs_target_kind c \<in> {''symbol'', ''file'', ''owner''})
       (ValueErr (''unsupported target_kind: '' @ quoted (cs_target_kind c)))) (\<lambda>_.
     ebind (check (cs_provenance c \<noteq> []) (ValueErr ''provenance must not be empty'')) (\<lambda>_.
     ebind (check (\<not> no_surface c \<or> cs_excluded_items c \<noteq> [])
       (ValueErr ''minimum verified change set requires at least one deterministic validation, hygiene surface, or explicit exclusion'')) (\<lambda>_.
       Inr c)))"

section \<open>Quality planning\<close>

definition lint_reason :: string where
  "lint_reason = ''non-mutating lint validation applies to the exact affected file set''"

definition format_reason :: string where
  "format_reason = ''format hygiene applies to the exact affected file set''"

definition quality_item ::
  "string \<Rightarrow> string \<Rightarrow> string list \<Rightarrow> quality_kind \<Rightarrow> quality_scope \<Rightarrow> string \<Rightarrow> string \<Rightarrow> string \<Rightarrow> bool option \<Rightarrow> bool \<Rightarrow>
   evidence_edge_kind \<Rightarrow> quality_operation result" where
  "quality_item anchor provider_id files kind scope suffix tool reason is_fix mutating edge_kind =
     ebind (derived_summary_provenance SK_QUALITY_TOOL (Some provider_id) reason (take 10 files)) (\<lambda>e.
     ebind (preferred_confidence_mode [e]) (\<lambda>mode.
     ebind (mk_evidence_edge
       \<lparr>me_source_node_kind = ''change_target'', me_source_node_id = anchor, me_target_node_kind = ''quality_operation'',
        me_target_node_id = ''quality_op:'' @ provider_id @ suffix, me_edge_kind = edge_kind, me_reason = reason,
        me_provenance = [e]\<rparr>) (\<lambda>edge.
     mk_quality_operation
       \<lparr>qo_id = ''quality_op:'' @ provider_id @ suffix, qo_provider_id = provider_id, qo_operation = kind, qo_scope = scope,
        qo_repository_rel_paths = files, qo_mcp_tool_name = tool, qo_is_fix = is_fix, qo_is_mutating = mutating,
        qo_inclusion_reason = reason, qo_inclusion_confidence_mode = mode, qo_proof_edges = [edge], qo_provenance = [e]\<rparr>)))"

definition build_operations ::
  "string \<Rightarrow> string list \<Rightarrow> string list \<Rightarrow> (quality_operation list \<times> quality_operation list) result" where
  "build_operations anchor provider_ids files =
     ebind (mapE (\<lambda>i.
       ebind (quality_item anchor i files QK_LINT QS_VALIDATION '':lint'' ''lint_file'' lint_reason (Some False) False
                TARGET_QUALITY_VALIDATION) (\<lambda>lint.
       ebind (quality_item anchor i files QK_FORMAT QS_HYGIENE '':format'' ''format_file'' format_reason None True
                TARGET_QUALITY_HYGIENE) (\<lambda>fmt.
         Inr (lint, fmt)))) provider_ids) (\<lambda>ops.
     Inr (map fst ops, map snd ops))"

end
