(* ===== verification/Change_Set_Service.thy ===== *)
theory Change_Set_Service
  imports Change_Set_Models
begin

text \<open>
  The minimum verified change set (\<open>core/minimum_verified_change_set_service.py\<close>): resolving a
  target, collecting candidate validations, minimising tests and builds, and the explanations of
  what was left out.

  \<open>symbol_owner\<close> stands for \<open>Repository.describe_symbol_context\<close>, of which only the owner is read.
  Python compares candidates by identity (\<open>is\<close>); here a candidate is identified by its position.
\<close>

section \<open>Targets\<close>

record change_target =
  ct_symbol_id :: "string option"
  ct_repository_rel_path :: "string option"
  ct_owner_id :: "string option"

definition mk_change_target :: "change_target \<Rightarrow> change_target result" where
  "mk_change_target t =
     ebind (check (length (filter (\<lambda>x. x \<noteq> None) [ct_symbol_id t, ct_repository_rel_path t, ct_owner_id t]) = 1)
       (ValueErr ''exactly one of symbol_id, repository_rel_path, or owner_id must be provided'')) (\<lambda>_.
     ebind (validate_optional_text ''symbol_id'' (ct_symbol_id t)) (\<lambda>_.
     ebind (validate_optional_text ''repository_rel_path'' (ct_repository_rel_path t)) (\<lambda>_.
     ebind (validate_optional_text ''owner_id'' (ct_owner_id t)) (\<lambda>_. Inr t))))"

record resolved_target =
  rs_target_kind :: string
  rs_target_anchor_id :: string
  rs_owner :: owned_node_info
  rs_primary_component :: "component option"
  rs_evidence_path :: "string option"
  rs_relevant_files :: "string list"
  rs_owner_files :: "file_info list"

definition component_by_id :: "repository \<Rightarrow> string option \<Rightarrow> (component option) result" where
  "component_by_id rp component_id =
     (case component_id of
        None \<Rightarrow> Inr None
      | Some i \<Rightarrow>
          (case find (\<lambda>c. gn_id c = i) (get_components rp) of
             Some c \<Rightarrow> Inr (Some c)
           | None \<Rightarrow> Inl (ValueErr (''resolved primary component does not exist: '' @ quoted i))))"

definition primary_component_for_file :: "repository \<Rightarrow> string \<Rightarrow> string \<Rightarrow> (component option) result" where
  "primary_component_for_file rp path owner_id =
     ebind (build_ownership_index rp) (\<lambda>ox.
     ebind (primary_component_id_for_file (owner_info ox) (files_for_owner ox) (get_components rp) path owner_id)
       (component_by_id rp))"

definition primary_component_for_owner :: "repository \<Rightarrow> string \<Rightarrow> (component option) result" where
  "primary_component_for_owner rp owner_id =
     ebind (build_ownership_index rp) (\<lambda>ox.
     ebind (primary_component_id_for_owner (owner_info ox) (files_for_owner ox) (get_components rp) owner_id)
       (component_by_id rp))"

definition resolve_target ::
  "(string \<Rightarrow> owned_node_info result) \<Rightarrow> repository \<Rightarrow> change_target \<Rightarrow> resolved_target result" where
  "resolve_target symbol_owner rp t =
     (case ct_repository_rel_path t of
        Some path \<Rightarrow>
          ebind (get_file_owner rp path) (\<lambda>w.
          let owner = fo_owner w; evidence_path = fi_repository_rel_path (fo_file_info w) in
          ebind (primary_component_for_file rp evidence_path (oi_id owner)) (\<lambda>primary.
          ebind (list_files_by_owner rp (oi_id owner)) (\<lambda>owner_files.
            Inr \<lparr>rs_target_kind = ''file'', rs_target_anchor_id = ''change_target:file:'' @ evidence_path, rs_owner = owner,
                 rs_primary_component = primary, rs_evidence_path = Some evidence_path,
                 rs_relevant_files = [evidence_path], rs_owner_files = owner_files\<rparr>)))
      | None \<Rightarrow>
     (case ct_symbol_id t of
        Some symbol_id \<Rightarrow>
          ebind (symbol_owner symbol_id) (\<lambda>owner. Inl (AttributeErr ''EntityInfo has no attribute path''))
      | None \<Rightarrow>
     (case ct_owner_id t of
        None \<Rightarrow> Inl AssertionErr
      | Some owner_id \<Rightarrow>
          ebind (resolve_owner rp owner_id) (\<lambda>owner.
          ebind (list_files_by_owner rp (oi_id owner)) (\<lambda>owner_files.
          ebind (primary_component_for_owner rp (oi_id owner)) (\<lambda>primary.
            Inr \<lparr>rs_target_kind = ''owner'', rs_target_anchor_id = ''change_target:owner:'' @ oi_id owner, rs_owner = owner,
                 rs_primary_component = primary, rs_evidence_path = None,
                 rs_relevant_files = sorted_set (map fi_repository_rel_path owner_files), rs_owner_files = owner_files\<rparr>))))))"

section \<open>Candidates\<close>

definition related_tests :: "repository \<Rightarrow> resolved_target \<Rightarrow> resolved_related_test list result" where
  "related_tests rp rs =
     (if rs_target_kind rs = ''owner''
      then ebind (mk_related_test_target None (Some (oi_id (rs_owner rs)))) (get_related_tests rp)
      else case rs_evidence_path rs of
             None \<Rightarrow> Inl AssertionErr
           | Some path \<Rightarrow> ebind (mk_related_test_target (Some path) None) (get_related_tests rp))"

definition runner_actions :: "repository \<Rightarrow> string \<Rightarrow> repository_action list result" where
  "runner_actions rp owner_id =
     ebind (mk_action_query (any_action\<lparr>aq_runner_id := Some owner_id, aq_action_kinds := [AK_RUNNER_EXECUTION]\<rparr>)) (get_actions rp)"

definition related_runner_ids :: "repository \<Rightarrow> resolved_target \<Rightarrow> string list result" where
  "related_runner_ids rp rs =
     (case rs_primary_component rs of
        None \<Rightarrow> Inr []
      | Some c \<Rightarrow> ebind (build_ownership_index rp) (\<lambda>ox.
          related_runner_ids_for_component (files_for_owner ox) (get_runners rp) c (rs_owner_files rs)))"

record dependent_component =
  dc_component :: component
  dc_dependency_edges :: "component_dependency_edge list"

definition dependent_of :: "repository \<Rightarrow> string \<Rightarrow> string \<Rightarrow> (dependent_component list) result" where
  "dependent_of rp primary_id dependent_id =
     (case find (\<lambda>c. gn_id c = dependent_id) (rev (get_components rp)) of
        None \<Rightarrow> Inr []
      | Some c \<Rightarrow>
          ebind (dependency_edges_of rp dependent_id) (\<lambda>edges.
            let es = filter (\<lambda>e. ce_target_kind e = ''component'' \<and> ce_target_id e = primary_id) edges in
            Inr (if es = [] then [] else [\<lparr>dc_component = c, dc_dependency_edges = es\<rparr>])))"

definition direct_dependent_components :: "repository \<Rightarrow> resolved_target \<Rightarrow> dependent_component list result" where
  "direct_dependent_components rp rs =
     (case rs_primary_component rs of
        None \<Rightarrow> Inr []
      | Some primary \<Rightarrow>
          ebind (get_component_dependents rp (gn_id primary)) (\<lambda>ids.
          ebind (mapE (dependent_of rp (gn_id primary)) ids) (\<lambda>dss.
            Inr (sort_key (\<lambda>d. gn_id (dc_component d)) (concat dss)))))"

definition dependency_provenance :: "dependent_component \<Rightarrow> provenance" where
  "dependency_provenance d = merge_unique_provenance (map ce_provenance (dc_dependency_edges d))"

definition dependent_match :: "string \<Rightarrow> resolved_related_test \<Rightarrow> resolved_related_test result" where
  "dependent_match component_id r =
     ebind (mk_related_test_match (rm_test (rr_match r)) ''dependent_component'' (Some component_id) None) (\<lambda>m.
     ebind (validate_discovered_test (rr_discovered r)) (\<lambda>d. mk_resolved_related_test m d))"

definition related_tests_for_dependent_components ::
  "repository \<Rightarrow> dependent_component list \<Rightarrow> (resolved_related_test \<times> provenance) list result" where
  "related_tests_for_dependent_components rp dependents =
     foldE (\<lambda>d candidates.
       ebind (mk_related_test_target None (Some (gn_id (dc_component d)))) (\<lambda>target.
       ebind (get_related_tests rp target) (\<lambda>related.
         foldE (\<lambda>r candidates.
           if rr_test_id r \<in> (\<lambda>(m, p). rr_test_id m) ` set candidates then Inr candidates
           else ebind (dependent_match (gn_id (dc_component d)) r) (\<lambda>m.
                  Inr (candidates @ [(m, dependency_provenance d)]))) related candidates))) dependents []"

section \<open>Evidence\<close>

definition evidence_item ::
  "('a mv_item \<Rightarrow> 'a mv_item result) \<Rightarrow> 'a \<Rightarrow> string \<Rightarrow> evidence_edge \<Rightarrow> provenance \<Rightarrow> 'a mv_item result" where
  "evidence_item mk target reason edge p =
     ebind (mk_evidence_edge edge) (\<lambda>proof_edge.
     ebind (preferred_confidence_mode p) (\<lambda>mode.
       mk \<lparr>mv_target = target, mv_inclusion_reason = reason, mv_inclusion_confidence_mode = mode,
           mv_proof_edges = [proof_edge], mv_provenance = p\<rparr>))"

definition test_edge :: "string \<Rightarrow> test_target_description \<Rightarrow> string \<Rightarrow> provenance \<Rightarrow> evidence_edge" where
  "test_edge anchor d reason p =
     \<lparr>me_source_node_kind = ''change_target'', me_source_node_id = anchor, me_target_node_kind = ''test_target'',
      me_target_node_id = gn_id (tt_test d), me_edge_kind = TARGET_TEST_TARGET, me_reason = reason, me_provenance = p\<rparr>"

definition test_item ::
  "string \<Rightarrow> resolved_related_test \<Rightarrow> test_target_description \<Rightarrow> string \<Rightarrow> mv_test result" where
  "test_item anchor m d reason =
     evidence_item mk_test_item d reason (test_edge anchor d reason (rr_provenance m))
       (merge_unique_provenance [rr_provenance m, tt_provenance d])"

definition dependent_test_item ::
  "string \<Rightarrow> resolved_related_test \<Rightarrow> test_target_description \<Rightarrow> provenance \<Rightarrow> string \<Rightarrow> mv_test result" where
  "dependent_test_item anchor m d dependency reason =
     (let p = merge_unique_provenance [dependency, rr_provenance m, tt_provenance d] in
      evidence_item mk_test_item d reason (test_edge anchor d reason p) p)"

definition build_edge ::
  "string \<Rightarrow> string \<Rightarrow> build_target_description \<Rightarrow> evidence_edge_kind \<Rightarrow> string \<Rightarrow> provenance \<Rightarrow> evidence_edge" where
  "build_edge source_kind source_id b kind reason p =
     \<lparr>me_source_node_kind = source_kind, me_source_node_id = source_id, me_target_node_kind = ''build_target'',
      me_target_node_id = bt_action_id b, me_edge_kind = kind, me_reason = reason, me_provenance = p\<rparr>"

definition build_item ::
  "string \<Rightarrow> string \<Rightarrow> string \<Rightarrow> evidence_edge_kind \<Rightarrow> build_target_description \<Rightarrow> mv_build result" where
  "build_item source_kind source_id reason kind b =
     evidence_item mk_build_item b reason (build_edge source_kind source_id b kind reason (bt_provenance b)) (bt_provenance b)"

definition dependent_build_item ::
  "string \<Rightarrow> build_target_description \<Rightarrow> provenance \<Rightarrow> string \<Rightarrow> mv_build result" where
  "dependent_build_item source_component_id b dependency reason =
     (let p = merge_unique_provenance [dependency, bt_provenance b] in
      evidence_item mk_build_item b reason (build_edge ''component'' source_component_id b COMPONENT_BUILD_TARGET reason p) p)"

definition runner_reason :: string where
  "runner_reason = ''target is directly owned by this runner''"

definition runner_item :: "string \<Rightarrow> repository_action \<Rightarrow> mv_runner result" where
  "runner_item owner_id a =
     evidence_item mk_runner_item a runner_reason
       \<lparr>me_source_node_kind = ''owner'', me_source_node_id = owner_id, me_target_node_kind = ''runner_action'',
        me_target_node_id = ra_id a, me_edge_kind = TARGET_RUNNER_ACTION, me_reason = runner_reason,
        me_provenance = ra_provenance a\<rparr> (ra_provenance a)"

definition exclusion ::
  "item_kind \<Rightarrow> string \<Rightarrow> exclusion_reason \<Rightarrow> string \<Rightarrow> provenance \<Rightarrow> string list \<Rightarrow> excluded_item result" where
  "exclusion kind item_id code reason p replaced_by =
     mk_excluded_item \<lparr>ex_item_kind = kind, ex_item_id = item_id, ex_reason_code = code, ex_reason = reason,
       ex_replaced_by_ids = replaced_by, ex_provenance = p\<rparr>"

section \<open>Minimising tests\<close>

definition specificity_rank :: "related_test_match \<Rightarrow> nat" where
  "specificity_rank m =
     (if rm_repository_rel_path m \<noteq> None then 0 else if rm_owner_id m \<noteq> None then 1 else 2)"

text \<open>\<open>path or owner or ""\<close>: an empty path falls through to the owner.\<close>

definition match_label :: "related_test_match \<Rightarrow> string" where
  "match_label m =
     (if optional_str (rm_repository_rel_path m) \<noteq> [] then optional_str (rm_repository_rel_path m)
      else optional_str (rm_owner_id m))"

definition test_match_sort_key :: "resolved_related_test \<Rightarrow> nat \<times> nat \<times> string \<times> string" where
  "test_match_sort_key r =
     (specificity_rank (rr_match r), if rr_is_authoritative r then 0 else 1, rm_reason (rr_match r), match_label (rr_match r))"

definition human_test_reason :: "resolved_related_test \<Rightarrow> string" where
  "human_test_reason r =
     (if rm_repository_rel_path (rr_match r) \<noteq> None then ''exact file-related test''
      else if rm_reason (rr_match r) = ''dependent_component'' then ''direct dependent component test''
      else if rm_owner_id (rr_match r) \<noteq> None then ''same owner/component test''
      else ''broad fallback test suite'')"

definition is_specific :: "resolved_related_test \<Rightarrow> bool" where
  "is_specific r \<longleftrightarrow> rm_repository_rel_path (rr_match r) \<noteq> None \<or> rm_owner_id (rr_match r) \<noteq> None"

text \<open>One group of matches for a test: the first minimum is kept, the others are excluded.\<close>

definition select_match ::
  "(string \<Rightarrow> test_target_description result) \<Rightarrow> string \<Rightarrow> string \<Rightarrow> resolved_related_test list \<Rightarrow>
   (mv_test \<times> excluded_item list) result" where
  "select_match describe anchor test_id candidates =
     (let indexed = enumerate 0 candidates;
          (k, selected) = hd (sort_key (\<lambda>(i, m). test_match_sort_key m) indexed) in
      ebind (mapE (\<lambda>(i, m). exclusion MI_TEST_TARGET test_id DUPLICATE_REPLACED_BY_STRONGER_MATCH
          ''weaker duplicate test match replaced by stronger deterministic match'' (rr_provenance m) [test_id])
        (filter (\<lambda>(i, m). i \<noteq> k) indexed)) (\<lambda>exclusions.
      ebind (describe test_id) (\<lambda>d.
      ebind (test_item anchor selected d (human_test_reason selected)) (\<lambda>item. Inr (item, exclusions)))))"

definition item_test_id :: "mv_test \<Rightarrow> string" where
  "item_test_id i = gn_id (tt_test (mv_target i))"

definition drop_broad ::
  "resolved_related_test list \<Rightarrow> mv_test list \<Rightarrow> (mv_test list \<times> excluded_item list) result" where
  "drop_broad matches included =
     ebind (mapE (\<lambda>(k, item).
       case find (\<lambda>m. rr_test_id m = item_test_id item \<and> human_test_reason m = mv_inclusion_reason item) matches of
         None \<Rightarrow> Inl (KeyErr ''StopIteration'')
       | Some m \<Rightarrow>
           if is_specific m then Inr ([item], [])
           else ebind (exclusion MI_TEST_TARGET (item_test_id item) BROAD_TEST_REPLACED_BY_SPECIFIC_TESTS
               ''broad fallback suite replaced by more specific related tests'' (mv_provenance item)
               (sort (map (\<lambda>(j, i). item_test_id i) (filter (\<lambda>(j, i). j \<noteq> k) (enumerate 0 included)))))
             (\<lambda>x. Inr ([], [x]))) (enumerate 0 included)) (\<lambda>parts.
     Inr (concat (map fst parts), concat (map snd parts)))"

definition minimize_tests ::
  "(string \<Rightarrow> test_target_description result) \<Rightarrow> string \<Rightarrow> resolved_related_test list \<Rightarrow>
   (mv_test list \<times> excluded_item list) result" where
  "minimize_tests describe anchor matches =
     (let grouped = group_by_key rr_test_id matches in
      ebind (mapE (\<lambda>test_id. select_match describe anchor test_id (the (map_of grouped test_id)))
        (sort (map fst grouped))) (\<lambda>selected.
      let included = map fst selected; exclusions = concat (map snd selected);
          has_specific = (\<exists>item\<in>set included. item_test_id item \<noteq> [] \<and>
             (\<exists>m\<in>set matches. rr_test_id m = item_test_id item \<and> is_specific m)) in
      if \<not> has_specific then Inr (included, exclusions)
      else ebind (drop_broad matches included) (\<lambda>(kept, broad). Inr (kept, exclusions @ broad))))"

section \<open>Minimising builds\<close>

definition component_build_reason :: string where
  "component_build_reason = ''component-scoped build target is the narrowest deterministic build surface''"

definition owner_build_reason :: string where
  "owner_build_reason = ''owner-associated build target is the narrowest deterministic build surface''"

definition dependent_build_reason :: string where
  "dependent_build_reason = ''directly dependent buildable component is the narrowest deterministic build surface''"

definition repository_build_reason :: string where
  "repository_build_reason = ''repository-wide build target is the only deterministic build surface''"

definition component_targets :: "component option \<Rightarrow> build_target_description list \<Rightarrow> build_target_description list" where
  "component_targets primary targets =
     filter (\<lambda>b. case primary of None \<Rightarrow> False | Some c \<Rightarrow> bt_target_kind b = AT_COMPONENT \<and> bt_target_id b = gn_id c) targets"

text \<open>A dict by action id keeps the last target of each id; sorting it by id forgets the order.\<close>

definition owner_targets ::
  "owned_node_info \<Rightarrow> component option \<Rightarrow> build_target_description list \<Rightarrow> build_target_description list" where
  "owner_targets owner primary targets =
     (let hits = filter (\<lambda>b. bt_target_kind b = AT_COMPONENT \<and>
            (oi_id owner \<in> set (bt_owner_ids b) \<or>
             (case primary of None \<Rightarrow> False | Some c \<Rightarrow> gn_id c \<in> set (bt_owner_ids b)))) targets;
          by_id = rev (map (\<lambda>b. (bt_action_id b, b)) hits) in
      map (\<lambda>i. the (map_of by_id i)) (sorted_set (map bt_action_id hits)))"

definition repository_targets :: "build_target_description list \<Rightarrow> build_target_description list" where
  "repository_targets = filter (\<lambda>b. bt_target_kind b = AT_REPOSITORY)"

definition repository_exclusions ::
  "string \<Rightarrow> build_target_description list \<Rightarrow> build_target_description list \<Rightarrow> excluded_item list result" where
  "repository_exclusions reason replacements targets =
     mapE (\<lambda>b. exclusion MI_BUILD_TARGET (bt_action_id b) REPOSITORY_BUILD_REPLACED_BY_NARROWER_BUILD reason (bt_provenance b)
       (map bt_action_id replacements)) targets"

definition dependent_targets ::
  "build_target_description list \<Rightarrow> dependent_component list \<Rightarrow> (dependent_component \<times> build_target_description) list" where
  "dependent_targets targets dependents =
     concat (map (\<lambda>d. map (\<lambda>b. (d, b))
       (filter (\<lambda>b. bt_target_kind b = AT_COMPONENT \<and> bt_target_id b = gn_id (dc_component d)) targets)) dependents)"

definition dedupe_by_action ::
  "(dependent_component \<times> build_target_description) list \<Rightarrow> (dependent_component \<times> build_target_description) list" where
  "dedupe_by_action ps =
     fold (\<lambda>x acc. if bt_action_id (snd x) \<in> (\<lambda>y. bt_action_id (snd y)) ` set acc then acc else acc @ [x])
       (sort_key (\<lambda>x. bt_action_id (snd x)) ps) []"

definition minimize_build_targets ::
  "owned_node_info \<Rightarrow> component option \<Rightarrow> build_target_description list \<Rightarrow> dependent_component list \<Rightarrow>
   (mv_build list \<times> excluded_item list) result" where
  "minimize_build_targets owner primary targets dependents =
     (let component_ts = component_targets primary targets;
          owner_ts = owner_targets owner primary targets;
          repository_ts = repository_targets targets;
          dependent_ts = dependent_targets targets dependents in
      case primary of
        Some c \<Rightarrow>
          if component_ts \<noteq> [] then
            ebind (repository_exclusions ''repository-wide build target replaced by narrower component-scoped build target''
              component_ts repository_ts) (\<lambda>xs.
            ebind (mapE (build_item ''component'' (gn_id c) component_build_reason COMPONENT_BUILD_TARGET) component_ts) (\<lambda>is.
              Inr (is, xs)))
          else if owner_ts \<noteq> [] then
            ebind (repository_exclusions ''repository-wide build target replaced by narrower owner-associated build target''
              owner_ts repository_ts) (\<lambda>xs.
            ebind (mapE (build_item ''owner'' (oi_id owner) owner_build_reason OWNER_BUILD_TARGET) owner_ts) (\<lambda>is. Inr (is, xs)))
          else if dependent_ts \<noteq> [] then
            ebind (mapE (\<lambda>(d, b). dependent_build_item (gn_id c) b (dependency_provenance d) dependent_build_reason)
              (dedupe_by_action dependent_ts)) (\<lambda>is. Inr (is, []))
          else
            ebind (mapE (build_item ''owner'' (oi_id owner) repository_build_reason OWNER_BUILD_TARGET) repository_ts) (\<lambda>is. Inr (is, []))
      | None \<Rightarrow>
          if owner_ts \<noteq> [] then
            ebind (repository_exclusions ''repository-wide build target replaced by narrower owner-associated build target''
              owner_ts repository_ts) (\<lambda>xs.
            ebind (mapE (build_item ''owner'' (oi_id owner) owner_build_reason OWNER_BUILD_TARGET) owner_ts) (\<lambda>is. Inr (is, xs)))
          else
            ebind (mapE (build_item ''owner'' (oi_id owner) repository_build_reason OWNER_BUILD_TARGET) repository_ts) (\<lambda>is. Inr (is, [])))"

definition runner_items :: "owned_node_info \<Rightarrow> repository_action list \<Rightarrow> mv_runner list result" where
  "runner_items owner acts =
     (case acts of
        [a] \<Rightarrow> ebind (runner_item (oi_id owner) a) (\<lambda>i. Inr [i])
      | _ \<Rightarrow> Inl (ValueErr (''runner owner '' @ quoted (oi_id owner) @ '' must resolve to exactly one runner execution action'')))"

end
