(* ===== verification/Minimization.thy ===== *)
theory Minimization
  imports Change_Set_Service "HOL-Library.Sublist"
begin

text \<open>
  What the minimizer of a change set promises (\<open>MinimumVerifiedMinimizer\<close> in
  \<open>core/minimum_verified_change_set_service.py\<close>): every candidate test and build is either kept or
  accounted for by an exclusion, and what is kept is the strongest of what was offered.
\<close>

section \<open>Items and exclusions\<close>

lemma evidence_item_Inr:
  assumes "evidence_item mk target reason edge p = Inr i" and "\<And>j k. mk j = Inr k \<Longrightarrow> k = j"
  shows "mv_target i = target \<and> mv_inclusion_reason i = reason \<and> mv_provenance i = p"
proof -
  obtain e m where "mk \<lparr>mv_target = target, mv_inclusion_reason = reason, mv_inclusion_confidence_mode = m,
      mv_proof_edges = [e], mv_provenance = p\<rparr> = Inr i"
    using assms(1) unfolding evidence_item_def ebind_Inr_iff by blast
  from assms(2) [OF this] show ?thesis by simp
qed

lemma mk_items_id:
  "mk_test_item i = Inr j \<Longrightarrow> j = i" "mk_build_item b = Inr c \<Longrightarrow> c = b" "mk_runner_item r = Inr q \<Longrightarrow> q = r"
  by (auto simp: mk_test_item_def mk_build_item_def mk_runner_item_def ebind_Inr_iff)

lemma test_item_Inr:
  "test_item anchor m d reason = Inr i \<Longrightarrow> mv_target i = d \<and> mv_inclusion_reason i = reason"
  unfolding test_item_def by (drule evidence_item_Inr [OF _ mk_items_id(1)]) auto

lemma build_item_Inr: "build_item sk si reason kind b = Inr i \<Longrightarrow> mv_target i = b"
  unfolding build_item_def by (drule evidence_item_Inr [OF _ mk_items_id(2)]) auto

lemma dependent_build_item_Inr: "dependent_build_item c b p reason = Inr i \<Longrightarrow> mv_target i = b"
  unfolding dependent_build_item_def Let_def by (drule evidence_item_Inr [OF _ mk_items_id(2)]) auto

lemma exclusion_Inr:
  "exclusion kind i code reason p rs = Inr x \<Longrightarrow>
     ex_item_kind x = kind \<and> ex_item_id x = i \<and> ex_reason_code x = code \<and> ex_replaced_by_ids x = rs"
  by (auto simp: exclusion_def mk_excluded_item_def ebind_Inr_iff)

lemma subseq_set: "subseq xs ys \<Longrightarrow> set xs \<subseteq> set ys"
  by (induction rule: list_emb.induct) auto

lemma subseq_distinct: "subseq xs ys \<Longrightarrow> distinct ys \<Longrightarrow> distinct xs"
  by (induction rule: list_emb.induct) (auto dest: subseq_set)

section \<open>Selecting a match\<close>

lemma length_filter_other: "distinct (map fst xs) \<Longrightarrow> (k, y) \<in> set xs \<Longrightarrow>
    Suc (length (filter (\<lambda>(i, m). i \<noteq> k) xs)) = length xs"
proof (induction xs)
  case (Cons x xs)
  show ?case
  proof (cases "x = (k, y)")
    case True
    then have "filter (\<lambda>(i, m). i \<noteq> k) xs = xs" using Cons.prems(1) by (force simp: filter_id_conv)
    then show ?thesis using True by simp
  next
    case False
    then have mem: "(k, y) \<in> set xs" using Cons.prems(2) by auto
    have "k \<in> fst ` set xs" using mem by force
    then have "fst x \<noteq> k" using Cons.prems(1) by auto
    then show ?thesis using Cons.IH mem Cons.prems(1) by (simp add: split_def)
  qed
qed simp

text \<open>The match a test is kept for: a least one in the order of the sort key.\<close>

definition strongest_match :: "resolved_related_test list \<Rightarrow> resolved_related_test \<Rightarrow> bool" where
  "strongest_match candidates m \<longleftrightarrow>
     m \<in> set candidates \<and> (\<forall>m'\<in>set candidates. test_match_sort_key m \<le> test_match_sort_key m')"

lemma select_match_Inr:
  assumes "select_match describe anchor t candidates = Inr (item, xs)" and "candidates \<noteq> []"
    and "\<And>i d. describe i = Inr d \<Longrightarrow> gn_id (tt_test d) = i"
  shows "item_test_id item = t \<and> Suc (length xs) = length candidates \<and> (\<forall>x\<in>set xs. ex_item_id x = t \<and> ex_replaced_by_ids x = [t]) \<and>
    (\<exists>m. strongest_match candidates m \<and> mv_inclusion_reason item = human_test_reason m)"
proof -
  define indexed where "indexed = enumerate 0 candidates"
  obtain k m where km: "hd (sort_key (\<lambda>(i, m). test_match_sort_key m) indexed) = (k, m)" by fastforce
  have ne: "indexed \<noteq> []" using assms(2) by (cases candidates) (simp_all add: indexed_def)
  have snds: "snd ` set indexed = set candidates"
    unfolding indexed_def by (simp flip: list.set_map)
  have mem: "(k, m) \<in> set indexed" using hd_sort_key_in [OF ne] km by metis
  have least: "\<forall>m'\<in>set candidates. test_match_sort_key m \<le> test_match_sort_key m'"
  proof
    fix m' assume "m' \<in> set candidates"
    then obtain i where "(i, m') \<in> set indexed" unfolding snds [symmetric] by force
    from hd_sort_key_min [OF ne this, where f = "\<lambda>(i, m). test_match_sort_key m"]
    show "test_match_sort_key m \<le> test_match_sort_key m'" by (simp add: km)
  qed
  obtain d where xs: "mapE (\<lambda>(i, m). exclusion MI_TEST_TARGET t DUPLICATE_REPLACED_BY_STRONGER_MATCH
          ''weaker duplicate test match replaced by stronger deterministic match'' (rr_provenance m) [t])
        (filter (\<lambda>(i, m). i \<noteq> k) indexed) = Inr xs"
    and d: "describe t = Inr d" and item: "test_item anchor m d (human_test_reason m) = Inr item"
    using assms(1) unfolding select_match_def Let_def indexed_def [symmetric] km prod.case ebind_Inr_iff
    by blast
  have "Suc (length xs) = length candidates"
    using mapE_length [OF xs] length_filter_other [OF _ mem] by (simp add: indexed_def)
  moreover have "\<forall>x\<in>set xs. ex_item_id x = t \<and> ex_replaced_by_ids x = [t]"
    using mapE_set [OF xs] by (fastforce dest: exclusion_Inr)
  moreover have "strongest_match candidates m"
    using mem least snds unfolding strongest_match_def by force
  ultimately show ?thesis using test_item_Inr [OF item] assms(3) [OF d] unfolding item_test_id_def by blast
qed

section \<open>Dropping the broad suites\<close>

definition dropped_ids :: "excluded_item list \<Rightarrow> string list" where
  "dropped_ids xs = map ex_item_id (filter (\<lambda>x. ex_reason_code x = BROAD_TEST_REPLACED_BY_SPECIFIC_TESTS) xs)"

lemma drop_broad_Inr:
  assumes "drop_broad matches included = Inr (kept, xs)"
  shows "length kept + length xs = length included \<and> subseq kept included \<and>
    (\<forall>i\<in>set included. i \<in> set kept \<or> item_test_id i \<in> ex_item_id ` set xs) \<and>
    (\<forall>x\<in>set xs. ex_reason_code x = BROAD_TEST_REPLACED_BY_SPECIFIC_TESTS) \<and>
    (\<forall>i\<in>set kept. \<exists>m\<in>set matches. rr_test_id m = item_test_id i \<and> is_specific m \<and> human_test_reason m = mv_inclusion_reason i)"
proof -
  let ?found = "\<lambda>item. find (\<lambda>m. rr_test_id m = item_test_id item \<and> human_test_reason m = mv_inclusion_reason item) matches"
  let ?ok = "\<lambda>(k :: nat, item) (ks, es). case ?found item of None \<Rightarrow> False | Some m \<Rightarrow>
      (if is_specific m then ks = [item] \<and> es = [] else ks = [] \<and> (\<exists>x :: excluded_item. es = [x] \<and> ex_item_id x = item_test_id item \<and>
        ex_reason_code x = BROAD_TEST_REPLACED_BY_SPECIFIC_TESTS))"
  obtain parts where m: "list_all2 ?ok (enumerate 0 included) parts" and kx: "kept = concat (map fst parts)" "xs = concat (map snd parts)"
  proof -
    obtain parts where p: "mapE (\<lambda>(k, item). case ?found item of
         None \<Rightarrow> Inl (KeyErr ''StopIteration'')
       | Some m \<Rightarrow>
           if is_specific m then Inr ([item], [])
           else ebind (exclusion MI_TEST_TARGET (item_test_id item) BROAD_TEST_REPLACED_BY_SPECIFIC_TESTS
               ''broad fallback suite replaced by more specific related tests'' (mv_provenance item)
               (sort (map (\<lambda>(j, i). item_test_id i) (filter (\<lambda>(j, i). j \<noteq> k) (enumerate 0 included)))))
             (\<lambda>x. Inr ([], [x]))) (enumerate 0 included) = Inr parts"
      and kx: "kept = concat (map fst parts)" "xs = concat (map snd parts)"
      using assms unfolding drop_broad_def ebind_Inr_iff by auto
    from p have "list_all2 ?ok (enumerate 0 included) parts" unfolding mapE_Inr_iff
      by (rule list_all2_mono) (auto simp: ebind_Inr_iff dest!: exclusion_Inr split: option.splits if_splits)
    then show thesis using that kx by blast
  qed
  define ixs where "ixs = enumerate 0 included"
  have inc: "included = map snd ixs" unfolding ixs_def by simp
  have found: "m \<in> set matches \<and> rr_test_id m = item_test_id i \<and> human_test_reason m = mv_inclusion_reason i"
    if "?found i = Some m" for m and i :: mv_test
    using that by (auto simp: find_Some_iff)
  note m' = m [folded ixs_def]
  let ?ks = "concat (map fst parts)" and ?es = "concat (map snd parts)"
  from m' have "length ?ks + length ?es = length ixs \<and> subseq ?ks (map snd ixs)"
    by (induction rule: list_all2_induct) (auto split: if_splits option.splits, rule list_emb_Cons)
  moreover from m' have "\<forall>i\<in>set (map snd ixs). i \<in> set ?ks \<or> item_test_id i \<in> ex_item_id ` set ?es"
    by (induction rule: list_all2_induct) (fastforce split: if_splits option.splits)+
  moreover from m' have "\<forall>x\<in>set ?es. ex_reason_code x = BROAD_TEST_REPLACED_BY_SPECIFIC_TESTS"
    by (induction rule: list_all2_induct) (auto split: if_splits option.splits)
  moreover from m' have "\<forall>i\<in>set ?ks. \<exists>m. ?found i = Some m \<and> is_specific m"
    by (induction rule: list_all2_induct) (auto split: if_splits option.splits)
  ultimately show ?thesis using found unfolding kx inc length_map by meson
qed

section \<open>Minimised tests\<close>

definition describes_asked :: "(string \<Rightarrow> test_target_description result) \<Rightarrow> bool" where
  "describes_asked describe \<longleftrightarrow> (\<forall>i d. describe i = Inr d \<longrightarrow> gn_id (tt_test d) = i)"

lemma describe_test_target_asked: "describes_asked (describe_test_target rp)"
  by (auto simp: describes_asked_def describe_test_target_def ebind_Inr_iff split: if_splits)

abbreviation matches_of :: "resolved_related_test list \<Rightarrow> string \<Rightarrow> resolved_related_test list" where
  "matches_of matches t \<equiv> filter (\<lambda>m. rr_test_id m = t) matches"

definition match_ids :: "resolved_related_test list \<Rightarrow> string list" where
  "match_ids matches = sort (map fst (group_by_key rr_test_id matches))"

lemma match_ids_facts: "sorted (match_ids matches)" "distinct (match_ids matches)" "set (match_ids matches) = rr_test_id ` set matches"
  by (simp_all add: match_ids_def keys_group_by_key distinct_append_new)

lemma sum_lengths_by_id: "sum_list (map (\<lambda>t. length (matches_of matches t)) (match_ids matches)) = length matches"
proof -
  have "sum_list (map (\<lambda>t. length (filter (\<lambda>m. rr_test_id m = t) ms)) ts) = length ms"
    if "distinct ts" "rr_test_id ` set ms \<subseteq> set ts" for ts ms
    using that(2)
  proof (induction ms)
    case (Cons m ms)
    have "length (filter (\<lambda>m'. rr_test_id m' = t) (m # ms)) =
        (if t = rr_test_id m then 1 else 0) + length (filter (\<lambda>m'. rr_test_id m' = t) ms)" for t
      by simp
    then have "sum_list (map (\<lambda>t. length (filter (\<lambda>m'. rr_test_id m' = t) (m # ms))) ts) =
        sum_list (map (\<lambda>t. if t = rr_test_id m then 1 else 0) ts) + length ms"
      using Cons by (simp only: sum_list_addf) simp
    moreover have "sum_list (map (\<lambda>t. if t = rr_test_id m then 1 else 0) ts) = (1 :: nat)"
      using that(1) Cons.prems by (simp add: sum_list_distinct_conv_sum_set)
    ultimately show ?case by simp
  qed simp
  then show ?thesis using match_ids_facts by simp
qed

text \<open>The first pass: one item for each test, in the order of ids.\<close>

lemma minimize_tests_selected:
  assumes "mapE (\<lambda>t. select_match describe anchor t (the (map_of (group_by_key rr_test_id matches) t))) (match_ids matches) = Inr selected"
    and "describes_asked describe"
  shows "map item_test_id (map fst selected) = match_ids matches \<and>
    length selected + length (concat (map snd selected)) = length matches \<and>
    (\<forall>i\<in>set (map fst selected). \<exists>m. strongest_match (matches_of matches (item_test_id i)) m \<and> mv_inclusion_reason i = human_test_reason m)"
proof -
  let ?ok = "\<lambda>t p. item_test_id (fst p) = t \<and> Suc (length (snd p)) = length (matches_of matches t) \<and>
      (\<exists>m. strongest_match (matches_of matches t) m \<and> mv_inclusion_reason (fst p) = human_test_reason m)"
  have d: "\<And>i d. describe i = Inr d \<Longrightarrow> gn_id (tt_test d) = i" using assms(2) by (simp add: describes_asked_def)
  have step: "?ok t p" if "select_match describe anchor t (the (map_of (group_by_key rr_test_id matches) t)) = Inr p"
    "t \<in> set (match_ids matches)" for t p
  proof -
    have ex: "\<exists>m\<in>set matches. rr_test_id m = t" using that(2) match_ids_facts by auto
    then have "select_match describe anchor t (matches_of matches t) = Inr (fst p, snd p)" and "matches_of matches t \<noteq> []"
      using that(1) by (simp_all add: map_of_group_by_key filter_empty_conv)
    from select_match_Inr [OF this d] show ?thesis by simp
  qed
  have "list_all2 ?ok (match_ids matches) selected"
    using assms(1) unfolding mapE_Inr_iff by (rule list.rel_mono_strong) (use step in blast)
  then have "map item_test_id (map fst selected) = match_ids matches \<and>
      length selected + length (concat (map snd selected)) = sum_list (map (\<lambda>t. length (matches_of matches t)) (match_ids matches)) \<and>
      (\<forall>p\<in>set selected. \<exists>m. strongest_match (matches_of matches (item_test_id (fst p))) m \<and>
         mv_inclusion_reason (fst p) = human_test_reason m)"
    by (induction rule: list_all2_induct) auto
  then show ?thesis by (auto simp: sum_lengths_by_id)
qed

lemma minimize_tests_distinct:
  assumes "describes_asked describe" and "minimize_tests describe anchor matches = Inr (kept, xs)"
  shows "distinct (map item_test_id kept)"
proof -
  obtain selected where sel: "mapE (\<lambda>t. select_match describe anchor t (the (map_of (group_by_key rr_test_id matches) t)))
      (match_ids matches) = Inr selected"
    and kept: "kept = map fst selected \<or> (\<exists>broad. drop_broad matches (map fst selected) = Inr (kept, broad))"
    using assms(2) by (auto simp: minimize_tests_def Let_def match_ids_def ebind_Inr_iff split: if_splits)
  have d: "distinct (map item_test_id (map fst selected))"
    using minimize_tests_selected [OF sel assms(1)] by (simp only: match_ids_facts)
  have "subseq kept (map fst selected)"
    using kept
  proof
    assume "\<exists>broad. drop_broad matches (map fst selected) = Inr (kept, broad)"
    then show ?thesis using drop_broad_Inr by blast
  qed simp
  then have "subseq (map item_test_id kept) (map item_test_id (map fst selected))" by (rule subseq_map)
  then show ?thesis using d by (rule subseq_distinct)
qed

text \<open>A run of the minimizer: one item per test id, then the broad ones dropped if some match is specific.\<close>

lemma minimize_tests_run:
  assumes "describes_asked describe" and "minimize_tests describe anchor matches = Inr (kept, xs)"
  obtains included ys where "map item_test_id included = match_ids matches" "length included + length ys = length matches"
    "\<forall>i\<in>set included. \<exists>m. strongest_match (matches_of matches (item_test_id i)) m \<and> mv_inclusion_reason i = human_test_reason m"
    "\<forall>specific. (specific \<longleftrightarrow> (\<exists>m\<in>set matches. rr_test_id m \<noteq> [] \<and> is_specific m)) \<longrightarrow>
      (if \<not> specific then Inr (included, ys)
       else ebind (drop_broad matches included) (\<lambda>(kept, broad). Inr (kept, ys @ broad))) = Inr (kept, xs)"
proof -
  obtain selected where sel: "mapE (\<lambda>t. select_match describe anchor t (the (map_of (group_by_key rr_test_id matches) t)))
      (match_ids matches) = Inr selected"
    using assms(2) unfolding minimize_tests_def Let_def match_ids_def ebind_Inr_iff by blast
  define included where "included = map fst selected"
  define ys where "ys = concat (map snd selected)"
  note f = minimize_tests_selected [OF sel assms(1), folded included_def ys_def]
  have ids: "map item_test_id included = match_ids matches" using f unfolding included_def by auto
  have "item_test_id ` set included = rr_test_id ` set matches" using ids match_ids_facts(3) by (metis list.set_map)
  then have "m \<in> set matches \<Longrightarrow> \<exists>i\<in>set included. item_test_id i = rr_test_id m" for m by (metis (no_types) imageE imageI)
  then have sp: "(\<exists>item\<in>set included. item_test_id item \<noteq> [] \<and>
      (\<exists>m\<in>set matches. rr_test_id m = item_test_id item \<and> is_specific m)) \<longleftrightarrow> (\<exists>m\<in>set matches. rr_test_id m \<noteq> [] \<and> is_specific m)"
    by metis
  have "(if \<not> (\<exists>m\<in>set matches. rr_test_id m \<noteq> [] \<and> is_specific m) then Inr (included, ys)
      else ebind (drop_broad matches included) (\<lambda>(kept, broad). Inr (kept, ys @ broad))) = Inr (kept, xs)"
    using assms(2) unfolding minimize_tests_def Let_def match_ids_def [symmetric] sel ebind_simps
      included_def [symmetric] ys_def [symmetric] sp .
  then have run: "(if \<not> specific then Inr (included, ys)
      else ebind (drop_broad matches included) (\<lambda>(kept, broad). Inr (kept, ys @ broad))) = Inr (kept, xs)"
    if "specific \<longleftrightarrow> (\<exists>m\<in>set matches. rr_test_id m \<noteq> [] \<and> is_specific m)" for specific
    unfolding that .
  have lens: "length included + length ys = length matches"
    and strong: "\<forall>i\<in>set included. \<exists>m. strongest_match (matches_of matches (item_test_id i)) m \<and> mv_inclusion_reason i = human_test_reason m"
    using f unfolding included_def by auto
  show ?thesis using that [OF ids lens strong] run by blast
qed

text \<open>
  C3. Minimising tests loses nothing and keeps the strongest: the kept tests are a sub-list of the
  matched ids in order, one item for an id, and each carries the reason of a match that is least
  for its id in the order of specificity, authority, reason and label. Every matched id is kept or
  named by an exclusion, and the kept items and the exclusions together are as many as the matches.
  When any match is specific, every kept test has a specific match of the reason it is kept for.
\<close>

theorem minimize_tests_accounts:
  assumes "describes_asked describe" and "minimize_tests describe anchor matches = Inr (kept, xs)"
  shows "subseq (map item_test_id kept) (match_ids matches) \<and> distinct (map item_test_id kept) \<and>
    length kept + length xs = length matches \<and>
    (\<forall>t\<in>rr_test_id ` set matches. t \<in> item_test_id ` set kept \<or> t \<in> ex_item_id ` set xs) \<and>
    (\<forall>i\<in>set kept. \<exists>m. strongest_match (matches_of matches (item_test_id i)) m \<and> mv_inclusion_reason i = human_test_reason m) \<and>
    ((\<exists>m\<in>set matches. rr_test_id m \<noteq> [] \<and> is_specific m) \<longrightarrow>
      (\<forall>i\<in>set kept. \<exists>m\<in>set (matches_of matches (item_test_id i)). is_specific m \<and> human_test_reason m = mv_inclusion_reason i))"
proof -
  let ?specific = "\<exists>m\<in>set matches. rr_test_id m \<noteq> [] \<and> is_specific m"
  obtain included ys where ids: "map item_test_id included = match_ids matches" and len: "length included + length ys = length matches"
    and strong: "\<forall>i\<in>set included. \<exists>m. strongest_match (matches_of matches (item_test_id i)) m \<and> mv_inclusion_reason i = human_test_reason m"
    and run: "\<forall>specific. (specific \<longleftrightarrow> ?specific) \<longrightarrow> (if \<not> specific then Inr (included, ys)
       else ebind (drop_broad matches included) (\<lambda>(kept, broad). Inr (kept, ys @ broad))) = Inr (kept, xs)"
    by (rule minimize_tests_run [OF assms])
  have all: "item_test_id ` set included = rr_test_id ` set matches"
    using ids match_ids_facts(3) by (metis list.set_map)
  show ?thesis
  proof (cases ?specific)
    case False
    then have "kept = included" "xs = ys" using run [THEN spec, of False] by simp_all
    moreover have "subseq (map item_test_id included) (match_ids matches)" "distinct (map item_test_id included)"
      unfolding ids by (simp_all add: match_ids_facts)
    moreover have "\<forall>t\<in>rr_test_id ` set matches. t \<in> item_test_id ` set included \<or> t \<in> ex_item_id ` set ys"
      using all by blast
    ultimately show ?thesis using False len strong by blast
  next
    case True
    then obtain broad where d: "drop_broad matches included = Inr (kept, broad)" and xs: "xs = ys @ broad"
      using run [THEN spec, of True] by (auto simp: ebind_Inr_iff)
    note g = drop_broad_Inr [OF d]
    then have sub: "subseq (map item_test_id kept) (match_ids matches)" using ids subseq_map by metis
    moreover have "distinct (map item_test_id kept)" using sub match_ids_facts(2) subseq_distinct by metis
    moreover have "length kept + length xs = length matches" using g len xs by simp
    moreover have "\<forall>t\<in>rr_test_id ` set matches. t \<in> item_test_id ` set kept \<or> t \<in> ex_item_id ` set xs"
      using g unfolding all [symmetric] xs by auto
    moreover have "set kept \<subseteq> set included" using g subseq_set by blast
    moreover have "\<forall>i\<in>set kept. \<exists>m\<in>set (matches_of matches (item_test_id i)). is_specific m \<and> human_test_reason m = mv_inclusion_reason i"
      using g by fastforce
    ultimately show ?thesis using strong by (meson subsetD)
  qed
qed

definition sample_match :: "string \<Rightarrow> string \<Rightarrow> string option \<Rightarrow> string option \<Rightarrow> resolved_related_test" where
  "sample_match i reason owner path =
     \<lparr>rr_match = \<lparr>rm_test = sample_test i, rm_reason = reason, rm_owner_id = owner, rm_repository_rel_path = path\<rparr>,
      rr_discovered = \<lparr>dt_test = sample_test i, dt_provenance = [sample_entry SK_TEST_TOOL [''t.ts'']]\<rparr>\<rparr>"

definition sample_matches :: "resolved_related_test list" where
  "sample_matches =
     [sample_match ''test:a'' ''same_owner'' (Some ''component:npm:a'') None,
      sample_match ''test:a'' ''same_owner'' None (Some ''src/a/x.ts''),
      sample_match ''test:b'' ''repository_default_suite'' None None,
      sample_match ''test:c'' ''repository_default_suite'' None None]"

lemma sample_description_asked: "describes_asked (\<lambda>i. Inr (sample_description i))"
  by (simp add: describes_asked_def sample_description_def sample_test_def)

theorem minimize_tests_accounts_witness:
  "\<exists>kept xs. minimize_tests (\<lambda>i. Inr (sample_description i)) ''anchor'' sample_matches = Inr (kept, xs) \<and>
     length kept + length xs = 4 \<and>
     (\<forall>i\<in>set kept. \<exists>m\<in>set (matches_of sample_matches (item_test_id i)). is_specific m)"
proof -
  have "is_ok (minimize_tests (\<lambda>i. Inr (sample_description i)) ''anchor'' sample_matches)" by code_simp
  then obtain kept xs where run: "minimize_tests (\<lambda>i. Inr (sample_description i)) ''anchor'' sample_matches = Inr (kept, xs)"
    unfolding is_ok_iff by fastforce
  have "length sample_matches = 4" and "\<exists>m\<in>set sample_matches. rr_test_id m \<noteq> [] \<and> is_specific m" by code_simp+
  then show ?thesis using minimize_tests_accounts [OF sample_description_asked run] run by auto
qed

text \<open>
  The replacements named for a broad suite need not be part of the change set: with two broad
  suites beside one specific test, each broad exclusion lists the other one, which is excluded too.
\<close>

theorem broad_exclusions_name_excluded_tests:
  "case minimize_tests (\<lambda>i. Inr (sample_description i)) ''anchor'' sample_matches of
     Inl e \<Rightarrow> False
   | Inr (kept, xs) \<Rightarrow>
       map item_test_id kept = [''test:a''] \<and>
       map (\<lambda>x. (ex_item_id x, ex_replaced_by_ids x)) (filter (\<lambda>x. ex_reason_code x = BROAD_TEST_REPLACED_BY_SPECIFIC_TESTS) xs) =
         [(''test:b'', [''test:a'', ''test:c'']), (''test:c'', [''test:a'', ''test:b''])]"
  by code_simp

section \<open>Minimised builds\<close>

lemma component_targets_kind:
  "b \<in> set (component_targets primary targets) \<Longrightarrow> b \<in> set targets \<and> bt_target_kind b = AT_COMPONENT"
  by (auto simp: component_targets_def split: option.splits)

lemma map_of_rev_Some: "x \<in> set xs \<Longrightarrow> \<exists>y\<in>set xs. f y = f x \<and> map_of (rev (map (\<lambda>b. (f b, b)) xs)) (f x) = Some y"
  by (induction xs rule: rev_induct) auto

lemma owner_targets_facts:
  "sorted (map bt_action_id (owner_targets owner primary targets)) \<and> distinct (map bt_action_id (owner_targets owner primary targets)) \<and>
   (\<forall>b\<in>set (owner_targets owner primary targets). b \<in> set targets \<and> bt_target_kind b = AT_COMPONENT)"
proof -
  define hits where "hits = filter (\<lambda>b. bt_target_kind b = AT_COMPONENT \<and>
      (oi_id owner \<in> set (bt_owner_ids b) \<or> (case primary of None \<Rightarrow> False | Some c \<Rightarrow> gn_id c \<in> set (bt_owner_ids b)))) targets"
  define pick where "pick = (\<lambda>i. the (map_of (rev (map (\<lambda>b. (bt_action_id b, b)) hits)) i))"
  have ot: "owner_targets owner primary targets = map pick (sorted_set (map bt_action_id hits))"
    by (simp add: owner_targets_def hits_def pick_def Let_def)
  have pick: "pick i \<in> set hits \<and> bt_action_id (pick i) = i" if "i \<in> set (map bt_action_id hits)" for i
    using that map_of_rev_Some [where f = bt_action_id and xs = hits] by (force simp: pick_def)
  have "map bt_action_id (map pick (sorted_set (map bt_action_id hits))) = sorted_set (map bt_action_id hits)"
    unfolding map_map by (rule map_idI) (use pick in simp)
  then show ?thesis unfolding ot using pick by (auto simp: hits_def)
qed

lemma fold_first_of_key:
  fixes f :: "'a \<Rightarrow> 'b"
  defines "step \<equiv> \<lambda>x acc. if f x \<in> f ` set acc then acc else acc @ [x]"
  assumes "distinct (map f acc)"
  shows "distinct (map f (fold step xs acc)) \<and> set (fold step xs acc) \<subseteq> set acc \<union> set xs \<and>
    f ` set (fold step xs acc) = f ` set acc \<union> f ` set xs"
  using assms(2)
proof (induction xs arbitrary: acc)
  case (Cons x xs)
  show ?case
  proof (cases "f x \<in> f ` set acc")
    case True
    then have "fold step (x # xs) acc = fold step xs acc" by (simp add: step_def)
    then show ?thesis using Cons.IH [OF Cons.prems] True by auto
  next
    case False
    then have s: "fold step (x # xs) acc = fold step xs (acc @ [x])" by (simp add: step_def)
    have "distinct (map f (acc @ [x]))" using False Cons.prems by simp
    from Cons.IH [OF this] show ?thesis unfolding s by auto
  qed
qed simp

lemma dedupe_by_action_facts:
  "distinct (map (\<lambda>x. bt_action_id (snd x)) (dedupe_by_action ps)) \<and> set (dedupe_by_action ps) \<subseteq> set ps \<and>
   (\<lambda>x. bt_action_id (snd x)) ` set (dedupe_by_action ps) = (\<lambda>x. bt_action_id (snd x)) ` set ps"
  using fold_first_of_key [where f = "\<lambda>x :: dependent_component \<times> build_target_description. bt_action_id (snd x)" and acc = "[]"
      and xs = "sort_key (\<lambda>x. bt_action_id (snd x)) ps"]
  by (simp add: dedupe_by_action_def)

lemma repository_exclusions_Inr:
  assumes "repository_exclusions reason rs targets = Inr xs"
  shows "map ex_item_id xs = map bt_action_id targets \<and> (\<forall>x\<in>set xs. ex_replaced_by_ids x = map bt_action_id rs)"
proof -
  have "map ex_item_id xs = map bt_action_id targets"
    using assms unfolding repository_exclusions_def by (rule mapE_images) (auto dest: exclusion_Inr)
  moreover have "\<forall>x\<in>set xs. ex_replaced_by_ids x = map bt_action_id rs"
    using assms mapE_set unfolding repository_exclusions_def by (fastforce dest: exclusion_Inr)
  ultimately show ?thesis by blast
qed

lemma build_items_targets:
  "mapE (build_item sk si reason kind) bs = Inr items \<Longrightarrow> map mv_target items = bs"
  by (drule mapE_images [where g = mv_target and h = "\<lambda>b. b"]) (auto dest: build_item_Inr)

lemma dependent_items_targets:
  "mapE (\<lambda>(d, b). dependent_build_item c b (dependency_provenance d) reason) ps = Inr items \<Longrightarrow> map mv_target items = map snd ps"
  by (drule mapE_images [where g = mv_target and h = snd]) (auto dest: dependent_build_item_Inr)

text \<open>The four outcomes of the minimizer, from the narrowest build surface to the widest.\<close>

definition build_surface ::
  "owned_node_info \<Rightarrow> component option \<Rightarrow> build_target_description list \<Rightarrow> dependent_component list \<Rightarrow> build_target_description list" where
  "build_surface owner primary targets dependents =
     (if component_targets primary targets \<noteq> [] then component_targets primary targets
      else if owner_targets owner primary targets \<noteq> [] then owner_targets owner primary targets
      else if primary \<noteq> None \<and> dependent_targets targets dependents \<noteq> []
        then map snd (dedupe_by_action (dependent_targets targets dependents))
      else repository_targets targets)"

lemma component_targets_None [simp]: "component_targets None targets = []"
  by (simp add: component_targets_def)

lemma minimize_build_targets_Inr:
  assumes "minimize_build_targets owner primary targets dependents = Inr (items, xs)"
  shows "map mv_target items = build_surface owner primary targets dependents \<and>
    (if component_targets primary targets \<noteq> [] \<or> owner_targets owner primary targets \<noteq> []
     then map ex_item_id xs = map bt_action_id (repository_targets targets) \<and>
          (\<forall>x\<in>set xs. ex_replaced_by_ids x = map bt_action_id (build_surface owner primary targets dependents))
     else xs = [])"
proof -
  note runs = repository_exclusions_Inr build_items_targets dependent_items_targets
  note unfolds = minimize_build_targets_def Let_def build_surface_def
  show ?thesis
  proof (cases "component_targets primary targets = []")
    case True
    show ?thesis
    proof (cases "owner_targets owner primary targets = []")
      case noowner: True
      show ?thesis using assms True noowner
        by (cases primary) (auto simp: unfolds ebind_Inr_iff dest: runs split: if_splits)
    next
      case False
      then show ?thesis using assms True
        by (cases primary) (auto simp: unfolds ebind_Inr_iff dest!: runs)
    qed
  next
    case False
    then obtain c where "primary = Some c" by (cases primary) auto
    then show ?thesis using assms False by (auto simp: unfolds ebind_Inr_iff dest!: runs)
  qed
qed

lemma minimize_build_targets_Inr_replaced:
  assumes "minimize_build_targets owner primary targets dependents = Inr (items, xs)"
  shows "\<forall>x\<in>set xs. ex_replaced_by_ids x = map (\<lambda>i. bt_action_id (mv_target i)) items \<and> items \<noteq> []"
proof -
  let ?s = "build_surface owner primary targets dependents"
  note f = minimize_build_targets_Inr [OF assms]
  have tg: "map mv_target items = ?s" using f by blast
  have ids: "map (\<lambda>i. bt_action_id (mv_target i)) items = map bt_action_id ?s" unfolding tg [symmetric] by simp
  have "?s \<noteq> []" if "component_targets primary targets \<noteq> [] \<or> owner_targets owner primary targets \<noteq> []"
    using that by (auto simp: build_surface_def)
  then show ?thesis using f tg unfolding ids by (auto split: if_splits)
qed

lemma build_surface_kinds:
  "(\<forall>b\<in>set (build_surface owner primary targets dependents). b \<in> set targets \<and> bt_target_kind b = AT_COMPONENT) \<or>
   build_surface owner primary targets dependents = repository_targets targets \<and> component_targets primary targets = [] \<and>
   owner_targets owner primary targets = [] \<and> (primary = None \<or> dependent_targets targets dependents = [])"
proof -
  let ?c = "component_targets primary targets" and ?o = "owner_targets owner primary targets"
  let ?d = "dependent_targets targets dependents" and ?s = "build_surface owner primary targets dependents"
  have "\<forall>b\<in>snd ` set (dedupe_by_action ?d). b \<in> set targets \<and> bt_target_kind b = AT_COMPONENT"
    using dedupe_by_action_facts [of ?d] by (auto simp: dependent_targets_def)
  then have d: "\<forall>b\<in>set (map snd (dedupe_by_action ?d)). b \<in> set targets \<and> bt_target_kind b = AT_COMPONENT" by simp
  have c: "\<forall>b\<in>set ?c. b \<in> set targets \<and> bt_target_kind b = AT_COMPONENT" using component_targets_kind by blast
  have o: "\<forall>b\<in>set ?o. b \<in> set targets \<and> bt_target_kind b = AT_COMPONENT" using owner_targets_facts by blast
  have "?s = ?c \<or> ?s = ?o \<or> ?s = map snd (dedupe_by_action ?d) \<or>
      ?s = repository_targets targets \<and> ?c = [] \<and> ?o = [] \<and> (primary = None \<or> ?d = [])" by (auto simp: build_surface_def)
  then show ?thesis by (elim disjE) (use c o d in metis)+
qed

lemma repository_targets_accounted:
  assumes "minimize_build_targets owner primary targets dependents = Inr (items, xs)"
    and "primary = None \<or> dependent_targets targets dependents = []"
  shows "bt_action_id ` set (repository_targets targets) \<subseteq> (\<lambda>i. bt_action_id (mv_target i)) ` set items \<union> ex_item_id ` set xs"
proof -
  let ?s = "build_surface owner primary targets dependents"
  note f = minimize_build_targets_Inr [OF assms(1)]
  have "map mv_target items = ?s" using f by blast
  then have ids: "(\<lambda>i. bt_action_id (mv_target i)) ` set items = bt_action_id ` set ?s" by (metis image_image list.set_map)
  show ?thesis
  proof (cases "component_targets primary targets \<noteq> [] \<or> owner_targets owner primary targets \<noteq> []")
    case True
    then have "map ex_item_id xs = map bt_action_id (repository_targets targets)" using f by simp
    then have "ex_item_id ` set xs = bt_action_id ` set (repository_targets targets)" by (metis list.set_map)
    then show ?thesis by blast
  next
    case False
    then have "?s = repository_targets targets" using assms(2) by (auto simp: build_surface_def)
    then show ?thesis unfolding ids by simp
  qed
qed


definition sample_builds :: "build_target_description list" where
  "sample_builds = (case list_build_targets sample_repository of Inl e \<Rightarrow> [] | Inr bs \<Rightarrow> bs)"

definition sample_owner :: owned_node_info where
  "sample_owner = \<lparr>oi_id = ''component:npm:a'', oi_kind = ''component'', oi_name = ''component:npm:a''\<rparr>"


end
