(* ===== verification/Change_Set.thy ===== *)
theory Change_Set
  imports Minimization
begin

text \<open>
  \<open>MinimumVerifiedChangeSetService\<close> (\<open>core/minimum_verified_change_set_service.py\<close>): the assembly of a
  change set from its candidates, the explanations of missing surfaces, and what it guarantees.
\<close>

section \<open>Artifacts\<close>

definition structured_artifacts_for_target :: "repository \<Rightarrow> resolved_target \<Rightarrow> string list result" where
  "structured_artifacts_for_target rp rs =
     ebind (foldE (\<lambda>path acc. case acc of
         None \<Rightarrow> Inr None
       | Some kinds \<Rightarrow> ebind (describe_structured_artifact rp path) (\<lambda>a.
           Inr (case a of None \<Rightarrow> None | Some k \<Rightarrow> Some (kinds @ [k])))) (rs_relevant_files rs) (Some []))
     (\<lambda>acc. Inr (case acc of None \<Rightarrow> [] | Some kinds \<Rightarrow> kinds))"

text \<open>\<open>max(roots, key=len)\<close>: the first of the longest.\<close>

definition longest :: "string list \<Rightarrow> string" where
  "longest xs = hd (filter (\<lambda>x. \<forall>y\<in>set xs. length y \<le> length x) xs)"

text \<open>\<open>s.rsplit("/", 1)[0]\<close>.\<close>

definition parent_path :: "string \<Rightarrow> string" where
  "parent_path s = rev (tl (dropWhile (\<lambda>c. c \<noteq> CHR ''/'') (rev s)))"

definition artifact_member_for_target :: "repository \<Rightarrow> resolved_target \<Rightarrow> (string \<times> string) option" where
  "artifact_member_for_target rp rs =
     (if rs_target_kind rs \<noteq> ''file'' \<or> oi_kind (rs_owner rs) \<noteq> ''component'' then None
      else case rs_evidence_path rs of
        None \<Rightarrow> None
      | Some path \<Rightarrow>
          (case find (\<lambda>c. gn_id c = oi_id (rs_owner rs)) (get_components rp) of
             None \<Rightarrow> None
           | Some c \<Rightarrow>
               let normalized = quality_path path in
               if \<exists>root\<in>set (co_source_roots c). under_path normalized root then None
               else let matching = filter (under_path normalized) (co_artifact_paths c) in
                 if matching = [] then None
                 else let root = longest matching in
                   Some (gn_id c, if root \<noteq> normalized \<and> CHR ''/'' \<in> set normalized then parent_path normalized else root)))"

section \<open>Explanations\<close>

record surfaces =
  su_tests :: "mv_test list"
  su_build_targets :: "mv_build list"
  su_runner_actions :: "mv_runner list"
  su_quality_validation :: "quality_operation list"
  su_quality_hygiene :: "quality_operation list"

definition evidence_paths_for :: "resolved_target \<Rightarrow> string list" where
  "evidence_paths_for rs =
     (if take 10 (rs_relevant_files rs) \<noteq> [] then take 10 (rs_relevant_files rs)
      else case rs_evidence_path rs of None \<Rightarrow> [] | Some p \<Rightarrow> [p])"

text \<open>\<open>resolved.evidence_path or resolved.owner.id\<close>.\<close>

definition target_label :: "resolved_target \<Rightarrow> string" where
  "target_label rs =
     (if optional_str (rs_evidence_path rs) \<noteq> [] then optional_str (rs_evidence_path rs) else oi_id (rs_owner rs))"

definition frontend_suffixes :: "string list" where
  "frontend_suffixes = [''.tsx'', ''.jsx'', ''.ts'', ''.js'', ''.mts'', ''.cts'', ''.mjs'', ''.cjs'']"

definition is_frontend_source_path :: "string \<Rightarrow> bool" where
  "is_frontend_source_path path =
     (\<exists>suffix\<in>set frontend_suffixes. endswith (lower (replace_char (CHR 0x5C) (CHR ''/'') path)) suffix)"

definition is_frontend_build_primary_surface :: "resolved_target \<Rightarrow> surfaces \<Rightarrow> bool" where
  "is_frontend_build_primary_surface rs su \<longleftrightarrow>
     su_build_targets su \<noteq> [] \<and> su_runner_actions su = [] \<and>
     (\<forall>i\<in>set (su_build_targets su). bt_provider_id (mv_target i) = ''npm'') \<and>
     (\<forall>q\<in>set (su_quality_validation su). qo_provider_id q = ''npm'') \<and>
     (\<forall>q\<in>set (su_quality_hygiene su). qo_provider_id q = ''npm'') \<and>
     rs_relevant_files rs \<noteq> [] \<and> (\<forall>p\<in>set (rs_relevant_files rs). is_frontend_source_path p)"

definition remaining_surfaces :: "surfaces \<Rightarrow> string list" where
  "remaining_surfaces su =
     (if su_build_targets su \<noteq> [] then [''build''] else []) @
     (if su_runner_actions su \<noteq> [] then [''runner''] else []) @
     (if su_quality_validation su \<noteq> [] \<or> su_quality_hygiene su \<noteq> [] then [''quality''] else [])"

definition missing_tests_reason :: "resolved_target \<Rightarrow> surfaces \<Rightarrow> string" where
  "missing_tests_reason rs su =
     (let names = remaining_surfaces su; prefix = ''no deterministic test targets were discovered for this target; '' in
      if is_frontend_build_primary_surface rs su
      then ''no finer deterministic frontend test target was discovered for this target; build is the primary deterministic frontend validation surface currently available''
      else if length names = 1 then prefix @ names ! 0 @ '' surface is the only deterministic validation available''
      else if length names = 2
      then prefix @ names ! 0 @ '' and '' @ names ! 1 @ '' surfaces are the only deterministic validation available''
      else prefix @ join_with '', '' (butlast names) @ '', and '' @ last names @
             '' surfaces are the only deterministic validation available'')"

definition availability_exclusions ::
  "repository \<Rightarrow> resolved_target \<Rightarrow> (string \<times> string) option \<Rightarrow> surfaces \<Rightarrow> excluded_item list result" where
  "availability_exclusions rp rs artifact_member su =
     (case artifact_member of
        Some (component_id, artifact_root) \<Rightarrow>
          ebind (derived_summary_provenance SK_OWNERSHIP None
            ''explicit artifact member target has no inherited deterministic source validation surface'' (evidence_paths_for rs)) (\<lambda>e.
          ebind (exclusion MI_VALIDATION_SURFACE (''validation_surface:artifact:'' @ target_label rs)
            NO_DETERMINISTIC_VALIDATION_SURFACE_FOR_ARTIFACT_MEMBER
            (''target is an explicit owned artifact member under '' @ quoted artifact_root @ '' for component '' @
             quoted component_id @ '' and no narrower deterministic validation surface is available'') [e] []) (\<lambda>x. Inr [x]))
      | None \<Rightarrow>
          ebind (structured_artifacts_for_target rp rs) (\<lambda>kinds.
            if kinds \<noteq> [] then
              ebind (derived_summary_provenance SK_DOCUMENT (Some ''structured_artifact'')
                ''provider-owned structured artifact target has no deterministic validation surface'' (evidence_paths_for rs)) (\<lambda>e.
              ebind (exclusion MI_VALIDATION_SURFACE (''validation_surface:'' @ target_label rs)
                NO_DETERMINISTIC_VALIDATION_SURFACES_FOR_PROVIDER_OWNED_ARTIFACT
                (''target is provider-owned structured artifact content and exposes no deterministic validation surface; supported artifact kinds: '' @
                 join_with '', '' (sorted_set kinds)) [e] []) (\<lambda>x. Inr [x]))
            else if su_tests su \<noteq> [] \<or> remaining_surfaces su = [] then Inr []
            else
              ebind (derived_summary_provenance SK_OWNERSHIP None
                ''absence of deterministic test targets established from provider-owned validation surfaces'' (evidence_paths_for rs)) (\<lambda>e.
              ebind (exclusion MI_TEST_TARGET (''test_surface:'' @ oi_id (rs_owner rs)) NO_DETERMINISTIC_TEST_TARGETS_AVAILABLE
                (missing_tests_reason rs su) [e] []) (\<lambda>x. Inr [x]))))"

definition shared_file_surface_explanations :: "resolved_target \<Rightarrow> surfaces \<Rightarrow> excluded_item list result" where
  "shared_file_surface_explanations rs su =
     (if rs_target_kind rs \<noteq> ''file'' then Inr []
      else if su_runner_actions su \<noteq> [] \<or> su_quality_validation su \<noteq> [] \<or> su_quality_hygiene su \<noteq> [] then Inr []
      else if su_tests su = [] \<and> su_build_targets su = [] then Inr []
      else if \<exists>i\<in>set (su_tests su). mv_inclusion_reason i \<noteq> ''direct dependent component test'' then Inr []
      else if \<exists>i\<in>set (su_build_targets su). mv_inclusion_reason i \<noteq> dependent_build_reason then Inr []
      else
        ebind (derived_summary_provenance SK_OWNERSHIP None
          ''file target has no narrower direct deterministic validation surface; dependent validation surfaces are required because the file is shared''
          (evidence_paths_for rs)) (\<lambda>e.
        ebind (exclusion MI_VALIDATION_SURFACE (''validation_surface:breadth:'' @ target_label rs)
          NO_NARROWER_DIRECT_VALIDATION_SURFACE_FOR_FILE_TARGET
          ''this file has no narrower direct deterministic validation surface; the listed validations are dependent-package surfaces required because the file is shared''
          (merge_unique_provenance [concat (map mv_provenance (su_tests su)), concat (map mv_provenance (su_build_targets su)), [e]])
          []) (\<lambda>x. Inr [x])))"

definition surfaces_provenance :: "surfaces \<Rightarrow> provenance list" where
  "surfaces_provenance su =
     map mv_provenance (su_tests su) @ map mv_provenance (su_build_targets su) @ map mv_provenance (su_runner_actions su) @
     map qo_provenance (su_quality_validation su) @ map qo_provenance (su_quality_hygiene su)"

definition overall_provenance :: "surfaces \<Rightarrow> bool \<Rightarrow> provenance result" where
  "overall_provenance su has_exclusions =
     (let merged = merge_unique_provenance (surfaces_provenance su) in
      if \<not> has_exclusions then Inr merged
      else ebind (if merged = [] then Inr [] else ebind (merge_provenance_paths merged 10) (\<lambda>ps. Inr (take 10 ps))) (\<lambda>paths.
           ebind (derived_summary_provenance SK_OWNERSHIP None
             ''minimum verified change set excludes supersets and weaker candidates deterministically'' paths) (\<lambda>e.
             Inr (merged @ [e]))))"

definition validate_non_empty_change_set :: "resolved_target \<Rightarrow> surfaces \<Rightarrow> excluded_item list \<Rightarrow> unit result" where
  "validate_non_empty_change_set rs su availability =
     check (su_tests su \<noteq> [] \<or> su_build_targets su \<noteq> [] \<or> su_runner_actions su \<noteq> [] \<or> su_quality_validation su \<noteq> [] \<or>
        su_quality_hygiene su \<noteq> [] \<or> availability \<noteq> [])
       (ValueErr (''no deterministic validation surfaces were found for '' @ rs_target_kind rs @ '' target '' @ quoted (target_label rs)))"

section \<open>The change set\<close>

definition dependent_test_exclusion :: "string list \<Rightarrow> resolved_related_test \<times> provenance \<Rightarrow> excluded_item result" where
  "dependent_test_exclusion replacement_ids mp =
     (case mp of (m, dependency) \<Rightarrow>
       exclusion MI_TEST_TARGET (rr_test_id m) DEPENDENT_TEST_REPLACED_BY_NARROWER_BUILD
         ''direct dependent component test replaced by narrower deterministic build surface''
         (merge_unique_provenance [dependency, rr_provenance m]) replacement_ids)"

text \<open>The tests of the target, or of its direct dependents when it has none and no build stands for them.\<close>

definition choose_tests ::
  "repository \<Rightarrow> resolved_target \<Rightarrow> dependent_component list \<Rightarrow> mv_test list \<Rightarrow> mv_build list \<Rightarrow>
   (mv_test list \<times> excluded_item list) result" where
  "choose_tests rp rs dependents tests builds =
     (if tests \<noteq> [] \<or> dependents = [] then Inr (tests, [])
      else ebind (related_tests_for_dependent_components rp dependents) (\<lambda>ms.
        if ms = [] then Inr (tests, [])
        else if builds \<noteq> [] then
          ebind (mapE (dependent_test_exclusion (map (\<lambda>i. bt_action_id (mv_target i)) builds)) ms) (\<lambda>xs. Inr (tests, xs))
        else
          ebind (mapE (\<lambda>(m, dependency). ebind (describe_test_target rp (rr_test_id m)) (\<lambda>d.
            dependent_test_item (rs_target_anchor_id rs) m d dependency (human_test_reason m))) ms) (\<lambda>is. Inr (is, []))))"

definition select_surfaces ::
  "repository \<Rightarrow> resolved_target \<Rightarrow> (string \<times> string) option \<Rightarrow> (surfaces \<times> excluded_item list) result" where
  "select_surfaces rp rs artifact_member =
     ebind (structured_artifacts_for_target rp rs) (\<lambda>kinds.
     ebind (if kinds \<noteq> [] \<or> artifact_member \<noteq> None then Inr [] else direct_dependent_components rp rs) (\<lambda>dependents.
     ebind (if artifact_member \<noteq> None then Inr [] else related_tests rp rs) (\<lambda>matches.
     ebind (minimize_tests (describe_test_target rp) (rs_target_anchor_id rs) matches) (\<lambda>(tests, test_xs).
     ebind (if artifact_member \<noteq> None then Inr ([], [])
            else ebind (list_build_targets rp) (\<lambda>bs. minimize_build_targets (rs_owner rs) (rs_primary_component rs) bs [])) (\<lambda>(builds, build_xs).
     ebind (choose_tests rp rs dependents tests builds) (\<lambda>(tests', dependent_xs).
     ebind (if artifact_member = None \<and> tests' = [] \<and> builds = [] \<and> dependents \<noteq> []
            then ebind (list_build_targets rp) (\<lambda>bs. minimize_build_targets (rs_owner rs) (rs_primary_component rs) bs dependents)
            else Inr (builds, build_xs)) (\<lambda>(builds', build_xs').
     ebind (if oi_kind (rs_owner rs) = ''runner''
            then ebind (runner_actions rp (oi_id (rs_owner rs))) (runner_items (rs_owner rs)) else Inr []) (\<lambda>runners.
     ebind (if rs_relevant_files rs \<noteq> [] \<and> artifact_member = None
            then ebind (provider_ids_for_files rp (rs_relevant_files rs)) (\<lambda>ids.
                   build_operations (rs_target_anchor_id rs) ids (rs_relevant_files rs))
            else Inr ([], [])) (\<lambda>(lints, formats).
       Inr (\<lparr>su_tests = tests', su_build_targets = builds', su_runner_actions = runners,
             su_quality_validation = lints, su_quality_hygiene = formats\<rparr>,
            test_xs @ dependent_xs @ build_xs'))))))))))"

definition get_minimum_verified_change_set ::
  "(string \<Rightarrow> owned_node_info result) \<Rightarrow> repository \<Rightarrow> change_target \<Rightarrow> change_set result" where
  "get_minimum_verified_change_set symbol_owner rp target =
     ebind (resolve_target symbol_owner rp target) (\<lambda>rs.
     let artifact_member = artifact_member_for_target rp rs in
     ebind (select_surfaces rp rs artifact_member) (\<lambda>(su, xs).
     ebind (availability_exclusions rp rs artifact_member su) (\<lambda>availability.
     ebind (shared_file_surface_explanations rs su) (\<lambda>breadth.
     ebind (overall_provenance su (xs \<noteq> [] \<or> breadth \<noteq> [] \<or> availability \<noteq> [])) (\<lambda>p.
     ebind (validate_non_empty_change_set rs su availability) (\<lambda>_.
       mk_change_set
         \<lparr>cs_target_kind = rs_target_kind rs, cs_owner = rs_owner rs, cs_primary_component = rs_primary_component rs,
          cs_tests = su_tests su, cs_build_targets = su_build_targets su, cs_runner_actions = su_runner_actions su,
          cs_quality_validation_operations = su_quality_validation su, cs_quality_hygiene_operations = su_quality_hygiene su,
          cs_excluded_items = xs @ breadth @ availability, cs_provenance = p\<rparr>))))))"

section \<open>What a change set guarantees\<close>

definition lint_ok :: "quality_operation \<Rightarrow> bool" where
  "lint_ok q \<longleftrightarrow> qo_operation q = QK_LINT \<and> \<not> qo_is_mutating q \<and> qo_is_fix q = Some False \<and> qo_mcp_tool_name q = ''lint_file''"

definition format_ok :: "quality_operation \<Rightarrow> bool" where
  "format_ok q \<longleftrightarrow> qo_operation q = QK_FORMAT \<and> qo_is_mutating q \<and> qo_mcp_tool_name q = ''format_file''"

lemma mk_quality_operation_Inr:
  "mk_quality_operation q = Inr r \<Longrightarrow> \<exists>paths. r = q\<lparr>qo_repository_rel_paths := paths\<rparr>"
  by (auto simp: mk_quality_operation_def ebind_Inr_iff)

lemma quality_item_Inr:
  assumes "quality_item anchor i files kind scope sfx tool reason is_fix mutating edge_kind = Inr q"
  shows "qo_operation q = kind \<and> qo_provider_id q = i \<and> qo_is_mutating q = mutating \<and> qo_is_fix q = is_fix \<and> qo_mcp_tool_name q = tool"
proof -
  obtain e mode edge where "mk_quality_operation
       \<lparr>qo_id = ''quality_op:'' @ i @ sfx, qo_provider_id = i, qo_operation = kind, qo_scope = scope,
        qo_repository_rel_paths = files, qo_mcp_tool_name = tool, qo_is_fix = is_fix, qo_is_mutating = mutating,
        qo_inclusion_reason = reason, qo_inclusion_confidence_mode = mode, qo_proof_edges = [edge], qo_provenance = [e]\<rparr> = Inr q"
    using assms unfolding quality_item_def ebind_Inr_iff by blast
  from mk_quality_operation_Inr [OF this] show ?thesis by auto
qed

lemma build_operations_Inr:
  assumes "build_operations anchor ids files = Inr (lints, formats)"
  shows "map qo_provider_id lints = ids \<and> map qo_provider_id formats = ids \<and>
    (\<forall>q\<in>set lints. lint_ok q) \<and> (\<forall>q\<in>set formats. format_ok q)"
proof -
  let ?ok = "\<lambda>i p. qo_provider_id (fst p) = i \<and> qo_provider_id (snd p) = i \<and> lint_ok (fst p) \<and> format_ok (snd p)"
  obtain ops where ops: "mapE (\<lambda>i.
       ebind (quality_item anchor i files QK_LINT QS_VALIDATION '':lint'' ''lint_file'' lint_reason (Some False) False
                TARGET_QUALITY_VALIDATION) (\<lambda>lint.
       ebind (quality_item anchor i files QK_FORMAT QS_HYGIENE '':format'' ''format_file'' format_reason None True
                TARGET_QUALITY_HYGIENE) (\<lambda>fmt.
         Inr (lint, fmt)))) ids = Inr ops"
    and lf: "lints = map fst ops" "formats = map snd ops"
    using assms unfolding build_operations_def ebind_Inr_iff by blast
  have "list_all2 ?ok ids ops" using ops unfolding mapE_Inr_iff
    by (rule list_all2_mono) (auto simp: ebind_Inr_iff lint_ok_def format_ok_def dest!: quality_item_Inr)
  then show ?thesis unfolding lf by (induction rule: list_all2_induct) auto
qed

definition missing_surface_codes :: "exclusion_reason list" where
  "missing_surface_codes =
     [NO_DETERMINISTIC_TEST_TARGETS_AVAILABLE, NO_DETERMINISTIC_VALIDATION_SURFACE_FOR_ARTIFACT_MEMBER,
      NO_DETERMINISTIC_VALIDATION_SURFACES_FOR_PROVIDER_OWNED_ARTIFACT]"

lemma availability_exclusions_Inr:
  assumes "availability_exclusions rp rs artifact_member su = Inr xs"
  shows "(\<forall>x\<in>set xs. ex_reason_code x \<in> set missing_surface_codes) \<and>
    (xs = [] \<longrightarrow> artifact_member = None \<and> (su_tests su \<noteq> [] \<or> remaining_surfaces su = []))"
  using assms unfolding availability_exclusions_def
  by (auto simp: ebind_Inr_iff missing_surface_codes_def dest!: exclusion_Inr split: option.splits if_splits)

lemma remaining_surfaces_Nil_iff:
  "remaining_surfaces su = [] \<longleftrightarrow> su_build_targets su = [] \<and> su_runner_actions su = [] \<and>
     su_quality_validation su = [] \<and> su_quality_hygiene su = []"
  by (auto simp: remaining_surfaces_def)

lemma dependent_match_id: "dependent_match i r = Inr m \<Longrightarrow> rr_test_id m = rr_test_id r"
  by (auto simp: dependent_match_def mk_related_test_match_def mk_resolved_related_test_def rr_test_id_def ebind_Inr_iff)

lemma append_is_new:
  "distinct (map (\<lambda>(m, p). f m) s) \<Longrightarrow> k \<notin> (\<lambda>(m, p). f m) ` set s \<Longrightarrow> f m = k \<Longrightarrow> distinct (map (\<lambda>(m, p). f m) (s @ [(m, q)]))"
  by simp

lemma dependent_test_item_Inr: "dependent_test_item anchor m d p reason = Inr i \<Longrightarrow> mv_target i = d"
  unfolding dependent_test_item_def Let_def by (drule evidence_item_Inr [OF _ mk_items_id(1)]) auto

lemma dependent_candidates_distinct:
  assumes "related_tests_for_dependent_components rp dependents = Inr ms"
  shows "distinct (map (\<lambda>(m, p). rr_test_id m) ms)"
proof -
  let ?I = "\<lambda>ms :: (resolved_related_test \<times> provenance) list. distinct (map (\<lambda>(m, p). rr_test_id m) ms)"
  show "?I ms"
  proof (rule foldE_invariant [OF assms [unfolded related_tests_for_dependent_components_def]])
    fix d and acc acc' :: "(resolved_related_test \<times> provenance) list"
    assume "?I acc" and run: "ebind (mk_related_test_target None (Some (gn_id (dc_component d)))) (\<lambda>target.
         ebind (get_related_tests rp target) (\<lambda>related.
           foldE (\<lambda>r candidates.
             if rr_test_id r \<in> (\<lambda>(m, p). rr_test_id m) ` set candidates then Inr candidates
             else ebind (dependent_match (gn_id (dc_component d)) r) (\<lambda>m.
                    Inr (candidates @ [(m, dependency_provenance d)]))) related acc)) = Inr acc'"
    then obtain related where "foldE (\<lambda>r candidates.
             if rr_test_id r \<in> (\<lambda>(m, p). rr_test_id m) ` set candidates then Inr candidates
             else ebind (dependent_match (gn_id (dc_component d)) r) (\<lambda>m.
                    Inr (candidates @ [(m, dependency_provenance d)]))) related acc = Inr acc'"
      unfolding ebind_Inr_iff by blast
    then show "?I acc'"
    proof (rule foldE_invariant [where I = ?I])
      fix r and s t :: "(resolved_related_test \<times> provenance) list"
      assume s: "?I s" and run: "(if rr_test_id r \<in> (\<lambda>(m, p). rr_test_id m) ` set s then Inr s
             else ebind (dependent_match (gn_id (dc_component d)) r) (\<lambda>m. Inr (s @ [(m, dependency_provenance d)]))) = Inr t"
      then show "?I t"
      proof (cases "rr_test_id r \<in> (\<lambda>(m, p). rr_test_id m) ` set s")
        case False
        then obtain m where "dependent_match (gn_id (dc_component d)) r = Inr m" "t = s @ [(m, dependency_provenance d)]"
          using run by (auto simp: ebind_Inr_iff)
        then show ?thesis using append_is_new [OF s False] dependent_match_id by blast
      qed (use s run in simp)
    qed (rule \<open>?I acc\<close>)
  qed simp
qed

section \<open>Which exclusions appear\<close>

definition replaced_by_build :: "excluded_item \<Rightarrow> bool" where
  "replaced_by_build x \<longleftrightarrow>
     ex_reason_code x \<in> {DEPENDENT_TEST_REPLACED_BY_NARROWER_BUILD, REPOSITORY_BUILD_REPLACED_BY_NARROWER_BUILD}"

lemma minimize_tests_codes:
  assumes "minimize_tests describe anchor matches = Inr (kept, xs)" and "x \<in> set xs"
  shows "\<not> replaced_by_build x"
proof -
  have sel: "\<forall>x\<in>set es. ex_reason_code x = DUPLICATE_REPLACED_BY_STRONGER_MATCH"
    if run: "select_match describe anchor t cs = Inr (i, es)" for t cs i es
  proof -
    obtain zs :: "(nat \<times> resolved_related_test) list" where "mapE (\<lambda>z. exclusion MI_TEST_TARGET t DUPLICATE_REPLACED_BY_STRONGER_MATCH
          ''weaker duplicate test match replaced by stronger deterministic match'' (rr_provenance (snd z)) [t]) zs = Inr es"
      using run by (auto simp: select_match_def Let_def split_def ebind_Inr_iff)
    then show ?thesis using mapE_set by (fastforce dest: exclusion_Inr)
  qed
  obtain selected where sm: "mapE (\<lambda>t. select_match describe anchor t (the (map_of (group_by_key rr_test_id matches) t)))
      (sort (map fst (group_by_key rr_test_id matches))) = Inr selected"
    and rest: "xs = concat (map snd selected) \<or>
      (\<exists>broad. drop_broad matches (map fst selected) = Inr (kept, broad) \<and> xs = concat (map snd selected) @ broad)"
    using assms(1) by (auto simp: minimize_tests_def Let_def ebind_Inr_iff split: if_splits)
  have "\<forall>x\<in>set (concat (map snd selected)). ex_reason_code x = DUPLICATE_REPLACED_BY_STRONGER_MATCH"
    using mapE_set [OF sm] sel by fastforce
  moreover have "\<forall>x\<in>set broad. ex_reason_code x = BROAD_TEST_REPLACED_BY_SPECIFIC_TESTS"
    if "drop_broad matches (map fst selected) = Inr (kept, broad)" for broad
    using drop_broad_Inr [OF that] by blast
  ultimately have "ex_reason_code x = DUPLICATE_REPLACED_BY_STRONGER_MATCH \<or> ex_reason_code x = BROAD_TEST_REPLACED_BY_SPECIFIC_TESTS"
    using rest assms(2) by (metis UnE set_append)
  then show ?thesis by (auto simp: replaced_by_build_def)
qed

lemma availability_codes:
  "availability_exclusions rp rs am su = Inr xs \<Longrightarrow> x \<in> set xs \<Longrightarrow> \<not> replaced_by_build x"
  using availability_exclusions_Inr by (fastforce simp: missing_surface_codes_def replaced_by_build_def)

lemma breadth_codes:
  "shared_file_surface_explanations rs su = Inr xs \<Longrightarrow> x \<in> set xs \<Longrightarrow> \<not> replaced_by_build x"
  by (auto simp: shared_file_surface_explanations_def ebind_Inr_iff replaced_by_build_def dest!: exclusion_Inr split: if_splits)

text \<open>The tests chosen, and the exclusions of dependent tests, against the builds chosen beside them.\<close>

lemma choose_tests_Inr:
  assumes "choose_tests rp rs dependents tests builds = Inr (tests', xs)" and "distinct (map item_test_id tests)"
  shows "distinct (map item_test_id tests') \<and>
    (\<forall>x\<in>set xs. ex_replaced_by_ids x = map (\<lambda>i. bt_action_id (mv_target i)) builds \<and> builds \<noteq> [])"
proof (cases "tests' = tests \<and> xs = []")
  case False
  then obtain ms where ms: "related_tests_for_dependent_components rp dependents = Inr ms" and "dependents \<noteq> []" "tests = []"
    and run: "(if builds \<noteq> [] then
          ebind (mapE (dependent_test_exclusion (map (\<lambda>i. bt_action_id (mv_target i)) builds)) ms) (\<lambda>xs. Inr (tests, xs))
        else
          ebind (mapE (\<lambda>(m, dependency). ebind (describe_test_target rp (rr_test_id m)) (\<lambda>d.
            dependent_test_item (rs_target_anchor_id rs) m d dependency (human_test_reason m))) ms) (\<lambda>is. Inr (is, []))) = Inr (tests', xs)"
    using assms(1) by (auto simp: choose_tests_def ebind_Inr_iff split: if_splits)
  show ?thesis
  proof (cases "builds = []")
    case True
    then have m: "mapE (\<lambda>(m, dependency). ebind (describe_test_target rp (rr_test_id m)) (\<lambda>d.
            dependent_test_item (rs_target_anchor_id rs) m d dependency (human_test_reason m))) ms = Inr tests'" and "xs = []"
      using run by (auto simp: ebind_Inr_iff)
    have "map item_test_id tests' = map (\<lambda>(m, p). rr_test_id m) ms"
      using m
    proof (rule mapE_images)
      fix x y assume *: "(case x of (m, dependency) \<Rightarrow> ebind (describe_test_target rp (rr_test_id m)) (\<lambda>d.
            dependent_test_item (rs_target_anchor_id rs) m d dependency (human_test_reason m))) = Inr y"
      then show "item_test_id y = (\<lambda>(m, p). rr_test_id m) x"
        using describe_test_target_asked [of rp] dependent_test_item_Inr
        by (cases x) (fastforce simp: ebind_Inr_iff describes_asked_def item_test_id_def)
    qed
    then show ?thesis using dependent_candidates_distinct [OF ms] \<open>xs = []\<close> by simp
  next
    case False
    then have "mapE (dependent_test_exclusion (map (\<lambda>i. bt_action_id (mv_target i)) builds)) ms = Inr xs" "tests' = tests"
      using run by (auto simp: ebind_Inr_iff)
    then show ?thesis using False assms(2) by (auto simp: dependent_test_exclusion_def dest!: mapE_set exclusion_Inr)
  qed
qed (use assms(2) in simp)

lemma select_surfaces_Inr:
  assumes "select_surfaces rp rs am = Inr (su, xs)"
  shows "distinct (map item_test_id (su_tests su)) \<and>
    map qo_provider_id (su_quality_validation su) = map qo_provider_id (su_quality_hygiene su) \<and>
    (\<forall>q\<in>set (su_quality_validation su). lint_ok q) \<and> (\<forall>q\<in>set (su_quality_hygiene su). format_ok q) \<and>
    (\<forall>x\<in>set xs. replaced_by_build x \<longrightarrow> su_build_targets su \<noteq> [] \<and>
       ex_replaced_by_ids x = map (\<lambda>i. bt_action_id (mv_target i)) (su_build_targets su))"
proof -
  let ?min = "\<lambda>dependents. ebind (list_build_targets rp) (\<lambda>bs. minimize_build_targets (rs_owner rs) (rs_primary_component rs) bs dependents)"
  let ?ids = "\<lambda>builds. map (\<lambda>i. bt_action_id (mv_target i)) builds"
  obtain dependents matches tests test_xs builds build_xs tests' dependent_xs builds' build_xs' runners lints formats where
    mt: "minimize_tests (describe_test_target rp) (rs_target_anchor_id rs) matches = Inr (tests, test_xs)"
    and b: "(if am \<noteq> None then Inr ([], []) else ?min []) = Inr (builds, build_xs)"
    and ct: "choose_tests rp rs dependents tests builds = Inr (tests', dependent_xs)"
    and b': "(if am = None \<and> tests' = [] \<and> builds = [] \<and> dependents \<noteq> [] then ?min dependents else Inr (builds, build_xs)) =
      Inr (builds', build_xs')"
    and q: "(if rs_relevant_files rs \<noteq> [] \<and> am = None
            then ebind (provider_ids_for_files rp (rs_relevant_files rs)) (\<lambda>ids.
                   build_operations (rs_target_anchor_id rs) ids (rs_relevant_files rs))
            else Inr ([], [])) = Inr (lints, formats)"
    and su: "\<lparr>su_tests = tests', su_build_targets = builds', su_runner_actions = runners,
             su_quality_validation = lints, su_quality_hygiene = formats\<rparr> = su"
    and xs: "test_xs @ dependent_xs @ build_xs' = xs"
    using assms unfolding select_surfaces_def ebind_Inr_iff split_paired_Ex prod.case sum.inject prod.inject by blast
  have mb: "\<forall>x\<in>set ys. ex_replaced_by_ids x = ?ids is \<and> is \<noteq> []" if "?min ds = Inr (is, ys)" for ds "is" ys
    using that minimize_build_targets_Inr_replaced unfolding ebind_Inr_iff by blast
  have "distinct (map item_test_id tests)"
    using minimize_tests_distinct [OF describe_test_target_asked mt] .
  note c = choose_tests_Inr [OF ct this]
  have qs: "map qo_provider_id lints = map qo_provider_id formats \<and> (\<forall>q\<in>set lints. lint_ok q) \<and> (\<forall>q\<in>set formats. format_ok q)"
    using q by (auto simp: ebind_Inr_iff split: if_splits dest!: build_operations_Inr)
  have dep: "\<forall>x\<in>set dependent_xs. ex_replaced_by_ids x = ?ids builds' \<and> builds' \<noteq> []"
    using c b' by (auto split: if_splits)
  have rep: "\<forall>x\<in>set build_xs'. ex_replaced_by_ids x = ?ids builds' \<and> builds' \<noteq> []"
  proof (cases "am = None \<and> tests' = [] \<and> builds = [] \<and> dependents \<noteq> []")
    case True
    then show ?thesis using b' mb by simp
  next
    case False
    then have "builds' = builds" "build_xs' = build_xs" using b' by (auto split: if_splits)
    then show ?thesis using b mb by (cases am) auto
  qed
  show ?thesis using c qs dep rep minimize_tests_codes [OF mt] by (auto simp flip: su xs)
qed

lemma change_set_Inr:
  assumes "get_minimum_verified_change_set symbol_owner rp target = Inr c"
  obtains rs su xs availability breadth where "resolve_target symbol_owner rp target = Inr rs"
    "select_surfaces rp rs (artifact_member_for_target rp rs) = Inr (su, xs)"
    "availability_exclusions rp rs (artifact_member_for_target rp rs) su = Inr availability"
    "shared_file_surface_explanations rs su = Inr breadth"
    "validate_non_empty_change_set rs su availability = Inr ()"
    "cs_tests c = su_tests su" "cs_build_targets c = su_build_targets su"
    "cs_quality_validation_operations c = su_quality_validation su" "cs_quality_hygiene_operations c = su_quality_hygiene su"
    "cs_excluded_items c = xs @ breadth @ availability" "cs_provenance c \<noteq> []"
proof -
  obtain rs su xs availability breadth p u where r: "resolve_target symbol_owner rp target = Inr rs"
    "select_surfaces rp rs (artifact_member_for_target rp rs) = Inr (su, xs)"
    "availability_exclusions rp rs (artifact_member_for_target rp rs) su = Inr availability"
    "shared_file_surface_explanations rs su = Inr breadth"
    "validate_non_empty_change_set rs su availability = Inr u"
    and mk: "mk_change_set
         \<lparr>cs_target_kind = rs_target_kind rs, cs_owner = rs_owner rs, cs_primary_component = rs_primary_component rs,
          cs_tests = su_tests su, cs_build_targets = su_build_targets su, cs_runner_actions = su_runner_actions su,
          cs_quality_validation_operations = su_quality_validation su, cs_quality_hygiene_operations = su_quality_hygiene su,
          cs_excluded_items = xs @ breadth @ availability, cs_provenance = p\<rparr> = Inr c"
    using assms unfolding get_minimum_verified_change_set_def Let_def ebind_Inr_iff split_paired_Ex prod.case by blast
  show thesis by (rule that [OF r(1-4)]) (use r(5) mk in \<open>auto simp: mk_change_set_def\<close>)
qed

section \<open>Properties\<close>

text \<open>
  C9. A change set without tests says why: whenever a change set is returned and lists no test, one of
  its exclusions explains the missing test surface (none was discovered, the target is an artifact
  member, or it is a provider's structured artifact). Its tests have distinct ids, and it always
  carries provenance.
\<close>

theorem missing_tests_are_explained:
  assumes "get_minimum_verified_change_set symbol_owner rp target = Inr c"
  shows "cs_provenance c \<noteq> [] \<and> distinct (map item_test_id (cs_tests c)) \<and>
    (cs_tests c = [] \<longrightarrow> (\<exists>x\<in>set (cs_excluded_items c). ex_reason_code x \<in> set missing_surface_codes))"
  using assms
proof (rule change_set_Inr)
  fix rs su xs availability breadth
  assume sel: "select_surfaces rp rs (artifact_member_for_target rp rs) = Inr (su, xs)"
    and av: "availability_exclusions rp rs (artifact_member_for_target rp rs) su = Inr availability"
    and ne: "validate_non_empty_change_set rs su availability = Inr ()"
    and c: "cs_tests c = su_tests su" "cs_excluded_items c = xs @ breadth @ availability" "cs_provenance c \<noteq> []"
  have "availability = [] \<longrightarrow> su_tests su \<noteq> [] \<or> remaining_surfaces su = []"
    using availability_exclusions_Inr [OF av] by blast
  then have "availability \<noteq> []" if "su_tests su = []"
    using ne that unfolding validate_non_empty_change_set_def remaining_surfaces_Nil_iff check_Inr_iff by blast
  moreover have "\<forall>x\<in>set availability. ex_reason_code x \<in> set missing_surface_codes"
    using availability_exclusions_Inr [OF av] by blast
  ultimately have "su_tests su = [] \<longrightarrow> (\<exists>x\<in>set availability. ex_reason_code x \<in> set missing_surface_codes)"
    by (metis hd_in_set)
  then show ?thesis using select_surfaces_Inr [OF sel] by (auto simp: c)
qed

text \<open>
  C8. Builds replace only what they stand for: every exclusion that says a narrower build replaces a
  dependent's test or a repository-wide build names exactly the builds of the change set, and there is
  at least one. Lint operations never mutate, format operations always do, and both are planned for
  the same providers.
\<close>

theorem build_replacements_are_kept:
  assumes "get_minimum_verified_change_set symbol_owner rp target = Inr c"
  shows "(\<forall>x\<in>set (cs_excluded_items c). replaced_by_build x \<longrightarrow> cs_build_targets c \<noteq> [] \<and>
      ex_replaced_by_ids x = map (\<lambda>i. bt_action_id (mv_target i)) (cs_build_targets c)) \<and>
    (\<forall>q\<in>set (cs_quality_validation_operations c). lint_ok q) \<and> (\<forall>q\<in>set (cs_quality_hygiene_operations c). format_ok q) \<and>
    map qo_provider_id (cs_quality_validation_operations c) = map qo_provider_id (cs_quality_hygiene_operations c)"
  using assms
proof (rule change_set_Inr)
  fix rs su xs availability breadth
  assume sel: "select_surfaces rp rs (artifact_member_for_target rp rs) = Inr (su, xs)"
    and av: "availability_exclusions rp rs (artifact_member_for_target rp rs) su = Inr availability"
    and br: "shared_file_surface_explanations rs su = Inr breadth"
    and c: "cs_build_targets c = su_build_targets su" "cs_quality_validation_operations c = su_quality_validation su"
      "cs_quality_hygiene_operations c = su_quality_hygiene su" "cs_excluded_items c = xs @ breadth @ availability"
  show ?thesis using select_surfaces_Inr [OF sel] availability_codes [OF av] breadth_codes [OF br] by (auto simp: c)
qed

definition file_target :: "string \<Rightarrow> change_target" where
  "file_target path = \<lparr>ct_symbol_id = None, ct_repository_rel_path = Some path, ct_owner_id = None\<rparr>"

definition sample_change_set :: "change_set result" where
  "sample_change_set = get_minimum_verified_change_set (\<lambda>i. Inl (KeyErr i)) sample_repository (file_target ''src/a/x.ts'')"

theorem missing_tests_are_explained_witness:
  "\<exists>c. sample_change_set = Inr c \<and> cs_tests c = [] \<and> (\<exists>x\<in>set (cs_excluded_items c). ex_reason_code x \<in> set missing_surface_codes)"
proof -
  have "case sample_change_set of Inl e \<Rightarrow> False | Inr c \<Rightarrow> cs_tests c = []" by code_simp
  then obtain c where "sample_change_set = Inr c" "cs_tests c = []" by (auto split: sum.split_asm)
  then show ?thesis using missing_tests_are_explained unfolding sample_change_set_def by blast
qed

theorem build_replacements_are_kept_witness:
  "\<exists>c x. sample_change_set = Inr c \<and> x \<in> set (cs_excluded_items c) \<and> replaced_by_build x \<and>
     ex_replaced_by_ids x = map (\<lambda>i. bt_action_id (mv_target i)) (cs_build_targets c)"
proof -
  have "case sample_change_set of Inl e \<Rightarrow> False | Inr c \<Rightarrow> \<exists>x\<in>set (cs_excluded_items c). replaced_by_build x" by code_simp
  then obtain c x where "sample_change_set = Inr c" "x \<in> set (cs_excluded_items c)" "replaced_by_build x"
    by (auto split: sum.split_asm)
  then show ?thesis using build_replacements_are_kept unfolding sample_change_set_def by blast
qed

text \<open>
  A symbol target never has a change set: the service reads the attribute \<open>path\<close> of the symbol of
  the context, which \<open>EntityInfo\<close> does not have, so that every symbol id ends in an error.
\<close>

theorem symbol_targets_always_fail:
  "\<not> is_ok (get_minimum_verified_change_set symbol_owner rp
     \<lparr>ct_symbol_id = Some symbol_id, ct_repository_rel_path = None, ct_owner_id = None\<rparr>)"
  by (cases "symbol_owner symbol_id") (simp_all add: get_minimum_verified_change_set_def resolve_target_def)

end
