(* ===== verification/Lsp_Session.thy ===== *)
theory Lsp_Session
  imports Complex_Main Prelude
begin

text \<open>
  One managed language server of the runtime coordinator (\<open>_ManagedLspSession\<close> in
  \<open>runtime/coordinator.py\<close>): its operations, the warm-up worker, and the interleavings of both.

  Every method runs under the session's lock, so a method, or the part of one between two lock
  acquisitions, is one atomic step. Times are rational seconds and each call of \<open>time.time()\<close> is an
  argument. The language server is outside the sources: what a start or a request of it does is an
  outcome, and a client is its number. The command and the initialisation options of a session are
  never read and left out.
\<close>

section \<open>Sessions\<close>

type_synonym seconds = rat

datatype server_family = GOPLS | BASEDPYRIGHT | TYPESCRIPT_LANGUAGE_SERVER

datatype server_state = SV_STARTING | SV_READY | SV_WARMING | SV_DEGRADED | SV_STOPPED

fun server_family_value :: "server_family \<Rightarrow> string" where
  "server_family_value GOPLS = ''gopls''"
| "server_family_value BASEDPYRIGHT = ''basedpyright''"
| "server_family_value TYPESCRIPT_LANGUAGE_SERVER = ''typescript-language-server''"

record session =
  sn_family :: server_family
  sn_attachment_root :: string
  sn_idle_ttl :: seconds
  sn_state :: server_state
  sn_last_activity :: "seconds option"
  sn_last_failure :: "seconds option"
  sn_next_retry :: "seconds option"
  sn_failure_count :: nat
  sn_client :: "nat option"
  sn_warmup_in_progress :: bool
  sn_probe_completed :: bool

definition new_session :: "server_family \<Rightarrow> string \<Rightarrow> seconds \<Rightarrow> session" where
  "new_session family attachment ttl =
     \<lparr>sn_family = family, sn_attachment_root = attachment, sn_idle_ttl = ttl, sn_state = SV_STOPPED, sn_last_activity = None,
      sn_last_failure = None, sn_next_retry = None, sn_failure_count = 0, sn_client = None,
      sn_warmup_in_progress = False, sn_probe_completed = False\<rparr>"

datatype 'a lsp_outcome = LSP_OK 'a | LSP_TIMEOUT | LSP_ERROR string

datatype coord_error =
    ProtocolErr string
  | UnavailableErr string
  | VersionMismatchErr string
  | NotReadyErr server_family string server_state int
  | RequestTimeoutErr server_family string server_state int
  | InternalErr string

text \<open>\<open>_retry_after_seconds\<close> of the session's status.\<close>

definition retry_after :: "seconds \<Rightarrow> session \<Rightarrow> int" where
  "retry_after now sn =
     (if sn_state sn \<in> {SV_STARTING, SV_WARMING, SV_STOPPED} then 15
      else case sn_next_retry sn of
             Some r \<Rightarrow> if sn_state sn = SV_DEGRADED then max 1 (min 60 \<lceil>r - now\<rceil>) else 15
           | None \<Rightarrow> 15)"

definition not_ready_error :: "seconds \<Rightarrow> server_state \<Rightarrow> session \<Rightarrow> coord_error" where
  "not_ready_error now st sn = NotReadyErr (sn_family sn) (sn_attachment_root sn) st (retry_after now sn)"

definition request_timeout_error :: "seconds \<Rightarrow> session \<Rightarrow> coord_error" where
  "request_timeout_error now sn = RequestTimeoutErr (sn_family sn) (sn_attachment_root sn) SV_DEGRADED (retry_after now sn)"

definition shutdown_locked :: "session \<Rightarrow> session" where
  "shutdown_locked sn = sn\<lparr>sn_client := None, sn_probe_completed := False\<rparr>"

definition retry_backoff :: "nat \<Rightarrow> seconds" where
  "retry_backoff failures = min 60 (2 ^ min failures 6)"

definition mark_failure :: "seconds \<Rightarrow> session \<Rightarrow> session" where
  "mark_failure now sn =
     (let n = Suc (sn_failure_count sn) in
      shutdown_locked (sn\<lparr>sn_failure_count := n, sn_last_failure := Some now, sn_next_retry := Some (now + retry_backoff n),
        sn_state := SV_DEGRADED, sn_probe_completed := False\<rparr>))"

definition backing_off :: "seconds \<Rightarrow> session \<Rightarrow> bool" where
  "backing_off now sn \<longleftrightarrow> (case sn_next_retry sn of None \<Rightarrow> False | Some r \<Rightarrow> now < r)"

definition request_warmup :: "seconds \<Rightarrow> session \<Rightarrow> bool \<times> session" where
  "request_warmup now sn =
     (if sn_client sn \<noteq> None \<and> sn_probe_completed sn
      then (False, sn\<lparr>sn_last_activity := Some now, sn_state := SV_READY\<rparr>)
      else if sn_warmup_in_progress sn then (False, sn)
      else if backing_off now sn then (False, sn\<lparr>sn_state := SV_DEGRADED\<rparr>)
      else (True, sn\<lparr>sn_warmup_in_progress := True, sn_state := SV_WARMING, sn_last_activity := Some now\<rparr>))"

text \<open>\<open>cancel_warmup_request\<close>, which is also what \<open>warm\<close> does in the end.\<close>

definition cancel_warmup_request :: "session \<Rightarrow> session" where
  "cancel_warmup_request sn =
     (let sn' = sn\<lparr>sn_warmup_in_progress := False\<rparr> in
      if sn_client sn' = None \<and> sn_state sn' = SV_WARMING then sn'\<lparr>sn_state := SV_STOPPED\<rparr> else sn')"

definition close_if_idle :: "seconds \<Rightarrow> session \<Rightarrow> session" where
  "close_if_idle now sn =
     (case (sn_client sn, sn_last_activity sn) of
        (Some c, Some a) \<Rightarrow> if now - a < sn_idle_ttl sn then sn else (shutdown_locked sn)\<lparr>sn_state := SV_STOPPED\<rparr>
      | _ \<Rightarrow> sn)"

definition shutdown_session :: "session \<Rightarrow> session" where
  "shutdown_session sn = (shutdown_locked sn)\<lparr>sn_state := SV_STOPPED\<rparr>"

definition ensure_initialized ::
  "seconds \<Rightarrow> seconds \<Rightarrow> seconds \<Rightarrow> bool \<Rightarrow> nat lsp_outcome \<Rightarrow> session \<Rightarrow> (coord_error + nat) \<times> session" where
  "ensure_initialized now failed_at asked_at mark_warming start sn =
     (let sn1 = close_if_idle now sn in
      if backing_off now sn1 then (Inl (not_ready_error asked_at SV_DEGRADED sn1), sn1)
      else case sn_client sn1 of
        Some c \<Rightarrow>
          (Inr c, sn1\<lparr>sn_last_activity := Some now, sn_state := if sn_probe_completed sn1 then SV_READY else SV_WARMING\<rparr>)
      | None \<Rightarrow>
          let sn2 = sn1\<lparr>sn_state := if mark_warming then SV_WARMING else SV_STARTING\<rparr> in
          case start of
            LSP_TIMEOUT \<Rightarrow>
              let sn3 = mark_failure failed_at sn2 in (Inl (request_timeout_error asked_at sn3), sn3)
          | LSP_ERROR m \<Rightarrow>
              (Inl (UnavailableErr (''failed to start '' @ server_family_value (sn_family sn2) @ '' for attachment '' @
                 quoted (sn_attachment_root sn2) @ '': '' @ m)), mark_failure failed_at sn2)
          | LSP_OK c \<Rightarrow>
              (Inr c, sn2\<lparr>sn_client := Some c, sn_failure_count := 0, sn_next_retry := None, sn_last_failure := None,
                 sn_last_activity := Some now, sn_probe_completed := False, sn_state := SV_WARMING\<rparr>))"

text \<open>\<open>_invoke\<close>: the request runs only on a session whose probe has completed.\<close>

definition invoke ::
  "seconds \<Rightarrow> seconds \<Rightarrow> seconds \<Rightarrow> seconds \<Rightarrow> nat lsp_outcome \<Rightarrow> (nat \<Rightarrow> 'a lsp_outcome) \<Rightarrow> session \<Rightarrow> (coord_error + 'a) \<times> session" where
  "invoke now failed_at asked_at done_at start operation sn =
     (case ensure_initialized now failed_at asked_at False start sn of
        (Inl e, sn') \<Rightarrow> (Inl e, sn')
      | (Inr c, sn') \<Rightarrow>
          if \<not> sn_probe_completed sn'
          then let sn'' = sn'\<lparr>sn_state := SV_WARMING\<rparr> in (Inl (not_ready_error asked_at SV_WARMING sn''), sn'')
          else case operation c of
            LSP_TIMEOUT \<Rightarrow> let sn'' = mark_failure failed_at sn' in (Inl (request_timeout_error asked_at sn''), sn'')
          | LSP_ERROR m \<Rightarrow>
              (Inl (UnavailableErr (server_family_value (sn_family sn') @ '' request failed for attachment '' @
                 quoted (sn_attachment_root sn') @ '': '' @ m)), mark_failure failed_at sn')
          | LSP_OK x \<Rightarrow> (Inr x, sn'\<lparr>sn_last_activity := Some done_at, sn_state := SV_READY\<rparr>))"

text \<open>One probe request of the warm-up, and the mark at its end.\<close>

definition probe_operation :: "seconds \<Rightarrow> seconds \<Rightarrow> seconds \<Rightarrow> unit lsp_outcome \<Rightarrow> session \<Rightarrow> (coord_error + unit) \<times> session" where
  "probe_operation failed_at asked_at done_at outcome sn =
     (let sn1 = sn\<lparr>sn_state := SV_WARMING\<rparr> in
      case outcome of
        LSP_TIMEOUT \<Rightarrow> let sn2 = mark_failure failed_at sn1 in (Inl (request_timeout_error asked_at sn2), sn2)
      | LSP_ERROR m \<Rightarrow>
          (Inl (UnavailableErr (server_family_value (sn_family sn1) @ '' warm-up probe failed for attachment '' @
             quoted (sn_attachment_root sn1) @ '': '' @ m)), mark_failure failed_at sn1)
      | LSP_OK u \<Rightarrow> (Inr (), sn1\<lparr>sn_last_activity := Some done_at\<rparr>))"

definition mark_probe_complete :: "seconds \<Rightarrow> session \<Rightarrow> session" where
  "mark_probe_complete now sn = sn\<lparr>sn_probe_completed := True, sn_last_activity := Some now, sn_state := SV_READY\<rparr>"

definition ready :: "session \<Rightarrow> bool" where
  "ready sn \<longleftrightarrow> sn_state sn = SV_READY"

record server_status =
  st_family :: server_family
  st_attachment_root :: string
  st_state :: server_state
  st_last_activity :: "seconds option"
  st_last_failure :: "seconds option"
  st_next_retry :: "seconds option"
  st_failure_count :: nat

definition session_status :: "session \<Rightarrow> server_status" where
  "session_status sn =
     \<lparr>st_family = sn_family sn, st_attachment_root = sn_attachment_root sn, st_state = sn_state sn,
      st_last_activity = sn_last_activity sn, st_last_failure = sn_last_failure sn, st_next_retry = sn_next_retry sn,
      st_failure_count = sn_failure_count sn\<rparr>"

record readiness =
  ry_ready :: bool
  ry_status :: server_status
  ry_retry_after :: "int option"
  ry_server_family :: server_family
  ry_attachment_root :: string

definition readiness_payload :: "seconds \<Rightarrow> session \<Rightarrow> readiness" where
  "readiness_payload now sn =
     \<lparr>ry_ready = ready sn, ry_status = session_status sn, ry_retry_after = if ready sn then None else Some (retry_after now sn),
      ry_server_family = sn_family sn, ry_attachment_root = sn_attachment_root sn\<rparr>"

section \<open>Interleavings\<close>

text \<open>
  A warm-up is a worker beside the session. It is requested under the lock, submitted to the executor
  (which may fail, or be cancelled at shutdown), then initialises the session, runs up to three probe
  requests on the client it was given, marks the probe complete and finishes. Between these steps
  any other operation of the session may run.
\<close>

datatype warm_pc = W_REQUESTED | W_QUEUED | W_PROBING nat nat | W_DONE

record warm_system =
  ws_session :: session
  ws_workers :: "warm_pc list"

inductive warm_step :: "warm_system \<Rightarrow> warm_system \<Rightarrow> bool" where
  request_granted: "request_warmup now (ws_session s) = (True, sn) \<Longrightarrow>
    warm_step s \<lparr>ws_session = sn, ws_workers = ws_workers s @ [W_REQUESTED]\<rparr>"
| request_denied: "request_warmup now (ws_session s) = (False, sn) \<Longrightarrow> warm_step s (s\<lparr>ws_session := sn\<rparr>)"
| submit_ok: "ws_workers s = us @ W_REQUESTED # vs \<Longrightarrow> warm_step s (s\<lparr>ws_workers := us @ W_QUEUED # vs\<rparr>)"
| submit_fails: "ws_workers s = us @ W_REQUESTED # vs \<Longrightarrow>
    warm_step s \<lparr>ws_session = cancel_warmup_request (ws_session s), ws_workers = us @ vs\<rparr>"
| future_cancelled: "ws_workers s = us @ W_QUEUED # vs \<Longrightarrow> warm_step s (s\<lparr>ws_workers := us @ vs\<rparr>)"
| warm_initialized: "ws_workers s = us @ W_QUEUED # vs \<Longrightarrow>
    ensure_initialized now failed_at asked_at True start (ws_session s) = (Inr c, sn) \<Longrightarrow>
    warm_step s \<lparr>ws_session = sn, ws_workers = us @ W_PROBING c 0 # vs\<rparr>"
| warm_refused: "ws_workers s = us @ W_QUEUED # vs \<Longrightarrow>
    ensure_initialized now failed_at asked_at True start (ws_session s) = (Inl e, sn) \<Longrightarrow>
    warm_step s \<lparr>ws_session = sn, ws_workers = us @ W_DONE # vs\<rparr>"
| probe_ok: "ws_workers s = us @ W_PROBING c k # vs \<Longrightarrow> k < 3 \<Longrightarrow>
    probe_operation failed_at asked_at done_at outcome (ws_session s) = (Inr u, sn) \<Longrightarrow>
    warm_step s \<lparr>ws_session = sn, ws_workers = us @ W_PROBING c (Suc k) # vs\<rparr>"
| probe_fails: "ws_workers s = us @ W_PROBING c k # vs \<Longrightarrow> k < 3 \<Longrightarrow>
    probe_operation failed_at asked_at done_at outcome (ws_session s) = (Inl e, sn) \<Longrightarrow>
    warm_step s \<lparr>ws_session = sn, ws_workers = us @ W_DONE # vs\<rparr>"
| probe_raises: "ws_workers s = us @ W_PROBING c k # vs \<Longrightarrow>
    warm_step s \<lparr>ws_session = mark_failure failed_at (ws_session s), ws_workers = us @ W_DONE # vs\<rparr>"
| probe_complete: "ws_workers s = us @ W_PROBING c k # vs \<Longrightarrow> k \<noteq> 2 \<Longrightarrow>
    warm_step s \<lparr>ws_session = mark_probe_complete now (ws_session s), ws_workers = us @ W_DONE # vs\<rparr>"
| warm_finish: "ws_workers s = us @ W_DONE # vs \<Longrightarrow>
    warm_step s \<lparr>ws_session = cancel_warmup_request (ws_session s), ws_workers = us @ vs\<rparr>"
| request_served: "invoke now failed_at asked_at done_at start (operation :: nat \<Rightarrow> unit lsp_outcome) (ws_session s) = (r, sn) \<Longrightarrow>
    warm_step s (s\<lparr>ws_session := sn\<rparr>)"
| idle_check: "warm_step s (s\<lparr>ws_session := close_if_idle now (ws_session s)\<rparr>)"
| stop: "warm_step s (s\<lparr>ws_session := shutdown_session (ws_session s)\<rparr>)"

inductive warm_reachable :: "session \<Rightarrow> warm_system \<Rightarrow> bool" for sn0 where
  start: "warm_reachable sn0 \<lparr>ws_session = sn0, ws_workers = []\<rparr>"
| step: "warm_reachable sn0 s \<Longrightarrow> warm_step s t \<Longrightarrow> warm_reachable sn0 t"

section \<open>The invariant of a session\<close>

text \<open>
  What every operation keeps: the failure record is complete or absent, and its retry time follows the
  back-off; a session with a client has no failure on record and has been active; ready and degraded
  are only claimed with a completed probe and a recorded failure.
\<close>

definition failure_record_ok :: "nat \<Rightarrow> seconds option \<Rightarrow> seconds option \<Rightarrow> bool" where
  "failure_record_ok count last_failure next_retry \<longleftrightarrow>
     (if count = 0 then last_failure = None \<and> next_retry = None
      else (case last_failure of None \<Rightarrow> False | Some f \<Rightarrow> next_retry = Some (f + retry_backoff count)))"

definition session_ok :: "session \<Rightarrow> bool" where
  "session_ok sn \<longleftrightarrow> failure_record_ok (sn_failure_count sn) (sn_last_failure sn) (sn_next_retry sn) \<and>
     (sn_client sn \<noteq> None \<longrightarrow> sn_failure_count sn = 0 \<and> sn_last_activity sn \<noteq> None) \<and>
     (sn_state sn = SV_READY \<longrightarrow> sn_probe_completed sn) \<and>
     (sn_state sn = SV_DEGRADED \<longrightarrow> sn_failure_count sn > 0)"

lemma failure_record_simps [simp]:
  "failure_record_ok 0 last_failure next_retry \<longleftrightarrow> last_failure = None \<and> next_retry = None"
  "failure_record_ok (Suc n) (Some f) (Some r) \<longleftrightarrow> r = f + retry_backoff (Suc n)"
  by (simp_all add: failure_record_ok_def)

lemma failure_record_retry: "failure_record_ok n last_failure (Some r) \<Longrightarrow> 0 < n"
  by (cases n) auto

lemma retry_backoff_bounds: "0 < n \<Longrightarrow> 2 \<le> retry_backoff n \<and> retry_backoff n \<le> 60"
proof -
  assume "0 < n"
  then have "(2 :: rat) ^ 1 \<le> 2 ^ min n 6" by (intro power_increasing) auto
  then show ?thesis by (simp add: retry_backoff_def)
qed

lemma retry_backoff_mono: "m \<le> n \<Longrightarrow> retry_backoff m \<le> retry_backoff n"
proof -
  assume "m \<le> n"
  then have "(2 :: rat) ^ min m 6 \<le> 2 ^ min n 6" by (intro power_increasing) auto
  then show ?thesis unfolding retry_backoff_def by (rule min.mono [OF order_refl])
qed

lemma retry_after_bounds: "1 \<le> retry_after now sn \<and> retry_after now sn \<le> 60"
  by (simp add: retry_after_def split: option.splits)

lemma session_ok_new: "session_ok (new_session family attachment ttl)"
  by (simp add: session_ok_def  new_session_def)

lemma session_ok_mark_failure: "session_ok (mark_failure now sn)"
  by (simp add: session_ok_def  mark_failure_def shutdown_locked_def Let_def)

lemma session_ok_shutdown: "session_ok sn \<Longrightarrow> session_ok (shutdown_session sn)"
  by (simp add: session_ok_def  shutdown_session_def shutdown_locked_def)

lemma close_if_idle_cases: "close_if_idle now sn = sn \<or> close_if_idle now sn = shutdown_session sn"
  by (simp add: close_if_idle_def shutdown_session_def split: option.split)

lemma session_ok_close_if_idle: "session_ok sn \<Longrightarrow> session_ok (close_if_idle now sn)"
  using close_if_idle_cases [of now sn] session_ok_shutdown by metis

lemma session_ok_cancel: "session_ok sn \<Longrightarrow> session_ok (cancel_warmup_request sn)"
  by (simp add: session_ok_def  cancel_warmup_request_def Let_def)

lemma session_ok_probe_complete: "session_ok sn \<Longrightarrow> session_ok (mark_probe_complete now sn)"
  by (simp add: session_ok_def  mark_probe_complete_def)

lemma session_ok_request: "session_ok sn \<Longrightarrow> request_warmup now sn = (b, sn') \<Longrightarrow> session_ok sn'"
  by (auto simp: session_ok_def request_warmup_def backing_off_def dest: failure_record_retry split: if_splits option.splits)

lemma ensure_initialized_cases:
  assumes "ensure_initialized now failed_at asked_at mark start sn = (r, sn')" and "sn1 = close_if_idle now sn"
  obtains e where "r = Inl e" "sn' = sn1"
  | c where "r = Inr c" "sn_client sn1 = Some c"
      "sn' = sn1\<lparr>sn_last_activity := Some now, sn_state := if sn_probe_completed sn1 then SV_READY else SV_WARMING\<rparr>"
  | e sn2 where "r = Inl e" "sn' = mark_failure failed_at sn2"
  | c sn2 where "r = Inr c" "sn' = sn2\<lparr>sn_client := Some c, sn_failure_count := 0, sn_next_retry := None, sn_last_failure := None,
                 sn_last_activity := Some now, sn_probe_completed := False, sn_state := SV_WARMING\<rparr>"
proof -
  note run = assms(1) [unfolded ensure_initialized_def Let_def assms(2) [symmetric]]
  show thesis
  proof (cases "backing_off now sn1")
    case True
    with run have "r = Inl (not_ready_error asked_at SV_DEGRADED sn1)" "sn' = sn1" by auto
    then show thesis by (rule that(1))
  next
    case idle: False
    show thesis
    proof (cases "sn_client sn1")
      case (Some c)
      with run idle have "r = Inr c" and "sn' = sn1\<lparr>sn_last_activity := Some now, sn_state := if sn_probe_completed sn1 then SV_READY else SV_WARMING\<rparr>"
        by simp_all
      then show thesis using that(2) Some by blast
    next
      case None
      then show thesis using run idle that(3,4) by (cases start) auto
    qed
  qed
qed

lemma session_ok_ensure:
  assumes "session_ok sn" and "ensure_initialized now failed_at asked_at mark start sn = (r, sn')"
  shows "session_ok sn' \<and> (\<forall>c. r = Inr c \<longrightarrow> sn_client sn' = Some c)"
proof -
  have ok: "session_ok (close_if_idle now sn)" using assms(1) by (rule session_ok_close_if_idle)
  show ?thesis
    using assms(2) refl
  proof (cases rule: ensure_initialized_cases)
    case (2 c)
    then show ?thesis using ok by (auto simp: session_ok_def)
  qed (use ok session_ok_mark_failure in \<open>auto simp: session_ok_def\<close>)
qed

lemma session_ok_probe:
  assumes "session_ok sn" and "probe_operation failed_at asked_at done_at outcome sn = (r, sn')"
  shows "session_ok sn'"
proof (cases outcome)
  case (LSP_OK u)
  then have "sn' = sn\<lparr>sn_state := SV_WARMING, sn_last_activity := Some done_at\<rparr>"
    using assms(2) by (simp add: probe_operation_def Let_def)
  then show ?thesis using assms(1) by (simp add: session_ok_def)
qed (use assms(2) session_ok_mark_failure in \<open>auto simp: probe_operation_def Let_def\<close>)

lemma session_ok_invoke:
  assumes "session_ok sn" and "invoke now failed_at asked_at done_at start operation sn = (r, sn')"
  shows "session_ok sn'"
proof -
  obtain q sn1 where e: "ensure_initialized now failed_at asked_at False start sn = (q, sn1)" by fastforce
  have ok: "session_ok sn1" using session_ok_ensure [OF assms(1) e] by blast
  consider "sn' = sn1" | "sn' = sn1\<lparr>sn_state := SV_WARMING\<rparr>" | "sn' = mark_failure failed_at sn1"
    | "sn_probe_completed sn1" "sn' = sn1\<lparr>sn_last_activity := Some done_at, sn_state := SV_READY\<rparr>"
  proof (cases q)
    case (Inl x)
    then show thesis using assms(2) that(1) by (simp add: invoke_def e)
  next
    case (Inr c)
    then show thesis using assms(2) that(2,3,4)
      by (cases "sn_probe_completed sn1"; cases "operation c") (simp_all add: invoke_def e Let_def)
  qed
  then show ?thesis using ok session_ok_mark_failure by cases (simp_all add: session_ok_def)
qed

lemmas session_ok_intros = session_ok_mark_failure session_ok_close_if_idle session_ok_shutdown session_ok_cancel
  session_ok_probe_complete

section \<open>Reachable systems\<close>

definition workers_ok :: "warm_system \<Rightarrow> bool" where
  "workers_ok s \<longleftrightarrow> length (ws_workers s) \<le> 1 \<and> (ws_workers s \<noteq> [] \<longrightarrow> sn_warmup_in_progress (ws_session s))"

lemma flag_frames [simp]:
  "sn_warmup_in_progress (mark_failure t sn) = sn_warmup_in_progress sn"
  "sn_warmup_in_progress (shutdown_session sn) = sn_warmup_in_progress sn"
  "sn_warmup_in_progress (close_if_idle t sn) = sn_warmup_in_progress sn"
  "sn_warmup_in_progress (mark_probe_complete t sn) = sn_warmup_in_progress sn"
  by (simp_all add: mark_failure_def shutdown_locked_def shutdown_session_def close_if_idle_def mark_probe_complete_def Let_def
      split: option.splits)

lemma flag_ensure:
  "ensure_initialized now failed_at asked_at mark start sn = (r, sn') \<Longrightarrow> sn_warmup_in_progress sn' = sn_warmup_in_progress sn"
  by (auto simp: ensure_initialized_def Let_def split: if_splits option.splits lsp_outcome.splits)

lemma flag_probe:
  "probe_operation failed_at asked_at done_at outcome sn = (r, sn') \<Longrightarrow> sn_warmup_in_progress sn' = sn_warmup_in_progress sn"
  by (auto simp: probe_operation_def Let_def split: lsp_outcome.splits)

lemma flag_invoke:
  assumes "invoke now failed_at asked_at done_at start operation sn = (r, sn')"
  shows "sn_warmup_in_progress sn' = sn_warmup_in_progress sn"
proof -
  obtain q sn1 where e: "ensure_initialized now failed_at asked_at False start sn = (q, sn1)" by fastforce
  show ?thesis using assms flag_ensure [OF e]
    by (auto simp: invoke_def e Let_def split: sum.splits if_splits lsp_outcome.splits)
qed

lemma request_flag:
  "request_warmup now sn = (True, sn') \<Longrightarrow> \<not> sn_warmup_in_progress sn \<and> sn_warmup_in_progress sn'"
  "request_warmup now sn = (False, sn') \<Longrightarrow> sn_warmup_in_progress sn' = sn_warmup_in_progress sn"
  by (auto simp: request_warmup_def split: if_splits)

lemma workers_ok_idle: "workers_ok s \<Longrightarrow> \<not> sn_warmup_in_progress (ws_session s) \<Longrightarrow> ws_workers s = []"
  by (simp add: workers_ok_def)

lemma workers_ok_keep: "workers_ok s \<Longrightarrow> sn_warmup_in_progress sn = sn_warmup_in_progress (ws_session s) \<Longrightarrow> workers_ok (s\<lparr>ws_session := sn\<rparr>)"
  by (simp add: workers_ok_def)

lemma warm_step_workers: "warm_step s t \<Longrightarrow> workers_ok s \<Longrightarrow> workers_ok t"
proof (induction rule: warm_step.induct)
  case (request_granted now s sn)
  have flag: "\<not> sn_warmup_in_progress (ws_session s) \<and> sn_warmup_in_progress sn" by (rule request_flag(1)) (rule request_granted)
  then have "ws_workers s = []" using workers_ok_idle request_granted.prems by blast
  then show ?case using flag by (simp add: workers_ok_def)
qed (auto simp: workers_ok_def dest: flag_ensure flag_probe flag_invoke request_flag)

lemma warm_step_session: "warm_step s t \<Longrightarrow> session_ok (ws_session s) \<Longrightarrow> session_ok (ws_session t)"
  by (induction rule: warm_step.induct)
    (auto simp: session_ok_intros dest: session_ok_request session_ok_probe session_ok_invoke session_ok_ensure)

lemma warm_reachable_invariant:
  "warm_reachable (new_session family attachment ttl) s \<Longrightarrow> session_ok (ws_session s) \<and> workers_ok s"
proof (induction rule: warm_reachable.induct)
  case start
  then show ?case by (simp add: session_ok_new workers_ok_def)
next
  case (step s t)
  then show ?case using warm_step_session warm_step_workers by blast
qed

section \<open>Properties\<close>

text \<open>
  C16. At most one warm-up of a session is ever under way: in every reachable interleaving there is at
  most one worker, and while there is one every further request for a warm-up is refused.
\<close>

theorem at_most_one_warmup:
  assumes "warm_reachable (new_session family attachment ttl) s"
  shows "length (ws_workers s) \<le> 1 \<and> (ws_workers s \<noteq> [] \<longrightarrow> (\<forall>now. \<not> fst (request_warmup now (ws_session s))))"
proof -
  have "workers_ok s" using warm_reachable_invariant [OF assms] by blast
  then show ?thesis by (simp add: workers_ok_def request_warmup_def)
qed

theorem at_most_one_warmup_witness:
  "let s = \<lparr>ws_session = (new_session GOPLS ''/r'' 3600)\<lparr>sn_warmup_in_progress := True, sn_state := SV_WARMING,
       sn_last_activity := Some 5\<rparr>, ws_workers = [W_REQUESTED]\<rparr> in
     warm_reachable (new_session GOPLS ''/r'' 3600) s \<and> length (ws_workers s) \<le> 1 \<and> \<not> fst (request_warmup 6 (ws_session s))"
proof -
  let ?new = "new_session GOPLS ''/r'' 3600"
  have "warm_reachable ?new \<lparr>ws_session = ?new\<lparr>sn_warmup_in_progress := True, sn_state := SV_WARMING, sn_last_activity := Some 5\<rparr>,
      ws_workers = [W_REQUESTED]\<rparr>" (is "warm_reachable _ ?s")
    by (rule step [OF start]) (use request_granted [of 5 "\<lparr>ws_session = ?new, ws_workers = []\<rparr>"] in
      \<open>simp add: request_warmup_def new_session_def backing_off_def\<close>)
  then show ?thesis using at_most_one_warmup [of GOPLS "''/r''" 3600 ?s] by (simp add: Let_def)
qed


text \<open>A session whose first start failed one second after it was asked for.\<close>

definition failed_session :: session where
  "failed_session = snd (ensure_initialized 4 5 5 False (LSP_ERROR ''no gopls'') (new_session GOPLS ''/r'' 3600))"

lemma failed_session_reachable: "warm_reachable (new_session GOPLS ''/r'' 3600) \<lparr>ws_session = failed_session, ws_workers = []\<rparr>"
proof (rule step [OF start])
  let ?new = "new_session GOPLS ''/r'' 3600"
  obtain r sn where i: "invoke 4 5 5 5 (LSP_ERROR ''no gopls'') (\<lambda>c. LSP_OK ()) ?new = (r, sn)" by fastforce
  moreover from i have "sn = failed_session"
    by (auto simp: invoke_def failed_session_def ensure_initialized_def close_if_idle_def backing_off_def new_session_def Let_def)
  ultimately show "warm_step \<lparr>ws_session = ?new, ws_workers = []\<rparr> \<lparr>ws_session = failed_session, ws_workers = []\<rparr>"
    using request_served [of 4 5 5 5 "LSP_ERROR ''no gopls''" "\<lambda>c. LSP_OK ()" "\<lparr>ws_session = ?new, ws_workers = []\<rparr>"] by simp
qed


lemma request_warmup_cases:
  obtains "sn_client sn \<noteq> None" "request_warmup now sn = (False, sn\<lparr>sn_last_activity := Some now, sn_state := SV_READY\<rparr>)"
  | "sn_warmup_in_progress sn" | "backing_off now sn"
  | sn' where "request_warmup now sn = (True, sn')" "sn_next_retry sn' = sn_next_retry sn"
  by (cases "sn_client sn \<noteq> None \<and> sn_probe_completed sn"; cases "sn_warmup_in_progress sn"; cases "backing_off now sn")
    (auto simp: request_warmup_def)

lemma ensure_initialized_starts:
  assumes "\<not> backing_off now sn"
  shows "\<exists>d sn'. ensure_initialized now now now True (LSP_OK c) sn = (Inr d, sn') \<and> sn_client sn' = Some d"
proof -
  have "\<not> backing_off now (close_if_idle now sn)"
    using assms close_if_idle_cases [of now sn] by (auto simp: backing_off_def shutdown_session_def shutdown_locked_def)
  then show ?thesis by (cases "sn_client (close_if_idle now sn)") (simp_all add: ensure_initialized_def Let_def)
qed

lemma finish_keeps_ready:
  "sn_client sn = Some c \<Longrightarrow> ready (cancel_warmup_request (mark_probe_complete now sn)) \<and>
     sn_client (cancel_warmup_request (mark_probe_complete now sn)) = Some c"
  by (simp add: cancel_warmup_request_def mark_probe_complete_def ready_def Let_def)



text \<open>
  A session can report ready without a server: when a shutdown (or an idle close, or a failed
  request) runs between the last probe and the mark at the end of the warm-up, the mark sets the
  session to ready although its client is gone, and the readiness payload says so.
\<close>

theorem ready_without_server:
  "\<exists>s. warm_reachable (new_session family attachment ttl) s \<and>
     ry_ready (readiness_payload now (ws_session s)) \<and> sn_client (ws_session s) = None"
proof -
  let ?sys = "\<lambda>sn ws. \<lparr>ws_session = sn, ws_workers = ws\<rparr>"
  define sn0 where "sn0 = new_session family attachment ttl"
  obtain sn1 where r: "request_warmup 0 sn0 = (True, sn1)" and n: "sn_next_retry sn1 = None"
    by (simp add: sn0_def new_session_def request_warmup_def backing_off_def)
  obtain d sn2 where init: "ensure_initialized 0 0 0 True (LSP_OK 0) sn1 = (Inr d, sn2)"
    using ensure_initialized_starts [of 0 sn1 0] n by (auto simp: backing_off_def)
  let ?marked = "mark_probe_complete 0 (shutdown_session sn2)"
  have "warm_reachable sn0 (?sys sn0 [])" by (rule start)
  then have "warm_reachable sn0 (?sys sn1 [W_REQUESTED])"
    by (rule step) (use request_granted [of 0 "?sys sn0 []" sn1] r in simp)
  then have "warm_reachable sn0 (?sys sn1 [W_QUEUED])"
    by (rule step) (use submit_ok [of "?sys sn1 [W_REQUESTED]" "[]" "[]"] in simp)
  then have "warm_reachable sn0 (?sys sn2 [W_PROBING d 0])"
    by (rule step) (use warm_initialized [of "?sys sn1 [W_QUEUED]" "[]" "[]"] init in simp)
  then have "warm_reachable sn0 (?sys (shutdown_session sn2) [W_PROBING d 0])"
    by (rule step) (use stop [of "?sys sn2 [W_PROBING d 0]"] in simp)
  then have "warm_reachable sn0 (?sys ?marked [W_DONE])"
    by (rule step) (use probe_complete [of "?sys (shutdown_session sn2) [W_PROBING d 0]" "[]" d 0 "[]" 0] in simp)
  then show ?thesis unfolding sn0_def
    by (intro exI [of _ "?sys ?marked [W_DONE]"])
      (simp add: readiness_payload_def ready_def mark_probe_complete_def shutdown_session_def shutdown_locked_def)
qed

end
