(* ===== verification/Lsp_Probe.thy ===== *)
theory Lsp_Probe
  imports Lsp_Session
begin

text \<open>
  What a warm-up probes (\<open>_select_representative_file\<close> and \<open>_select_probe_symbol\<close> in
  \<open>runtime/coordinator.py\<close>): the first supported source file of the attachment that is not a test,
  else the first test, and the first symbol of an eligible kind in it. The file system is a tree of
  directories; paths are lists of names below the attachment root.
\<close>

section \<open>File names\<close>

text \<open>\<open>Path.suffix\<close> and \<open>Path.stem\<close>: the last dot counts unless it is the first or the last character.\<close>

definition last_dot :: "string \<Rightarrow> nat option" where
  "last_dot name =
     (let tail = takeWhile (\<lambda>c. c \<noteq> CHR ''.'') (rev name); i = length name - Suc (length tail) in
      if CHR ''.'' \<in> set name \<and> tail \<noteq> [] \<and> 0 < i then Some i else None)"

definition path_suffix :: "string \<Rightarrow> string" where
  "path_suffix name = (case last_dot name of None \<Rightarrow> [] | Some i \<Rightarrow> drop i name)"

definition path_stem :: "string \<Rightarrow> string" where
  "path_stem name = (case last_dot name of None \<Rightarrow> name | Some i \<Rightarrow> take i name)"

definition ignored_warmup_dirs :: "string list" where
  "ignored_warmup_dirs =
     [''.git'', ''node_modules'', ''vendor'', ''.venv'', ''venv'', ''env'', ''dist'', ''build'', ''out'', ''__pycache__'']"

fun supported_warmup_extensions :: "server_family \<Rightarrow> string list" where
  "supported_warmup_extensions GOPLS = [''.go'']"
| "supported_warmup_extensions BASEDPYRIGHT = [''.py'']"
| "supported_warmup_extensions TYPESCRIPT_LANGUAGE_SERVER =
     [''.ts'', ''.tsx'', ''.js'', ''.jsx'', ''.mts'', ''.cts'', ''.mjs'', ''.cjs'']"

fun eligible_warmup_kinds :: "server_family \<Rightarrow> int list" where
  "eligible_warmup_kinds GOPLS = [6, 10, 11, 12, 23]"
| "eligible_warmup_kinds BASEDPYRIGHT = [5, 6, 12]"
| "eligible_warmup_kinds TYPESCRIPT_LANGUAGE_SERVER = [5, 6, 10, 11, 12]"

definition is_test_source_file :: "server_family \<Rightarrow> string \<Rightarrow> bool" where
  "is_test_source_file family file_name =
     (let name = lower file_name; stem = lower (path_stem file_name) in
      case family of
        GOPLS \<Rightarrow> endswith name ''_test.go''
      | BASEDPYRIGHT \<Rightarrow> startswith stem ''test_'' \<or> endswith stem ''_test''
      | TYPESCRIPT_LANGUAGE_SERVER \<Rightarrow>
          startswith stem ''test_'' \<or> endswith stem ''.test'' \<or> endswith stem ''.spec'' \<or>
          (\<exists>sfx\<in>set [''.test.ts'', ''.test.tsx'', ''.test.js'', ''.test.jsx'', ''.spec.ts'', ''.spec.tsx'', ''.spec.js'', ''.spec.jsx''].
             endswith name sfx))"

section \<open>The walk\<close>

datatype directory = Directory (subdirectories: "(string \<times> directory) list") (file_names: "string list")

text \<open>
  \<open>os.walk\<close> from the top: the files of a directory in order, then its sub-directories in order without
  the ignored ones.
\<close>

function walk_files :: "directory \<Rightarrow> string list list" where
  "walk_files (Directory ds fs) =
     map (\<lambda>f. [f]) (sort fs) @
     concat (map (\<lambda>(n, d). map ((#) n) (walk_files d)) (filter (\<lambda>(n, d). n \<notin> set ignored_warmup_dirs) (sort_key fst ds)))"
  by pat_completeness auto
termination
proof (relation "measure size", goal_cases)
  case (2 ds fs x n d)
  then have "(n, d) \<in> set ds" by auto
  then have "size d < Suc (size_list (size_prod (\<lambda>n. 0) size) ds)"
    by (induction ds) auto
  then show ?case using 2 by simp
qed simp

definition supported_file :: "server_family \<Rightarrow> string list \<Rightarrow> bool" where
  "supported_file family path \<longleftrightarrow> lower (path_suffix (last path)) \<in> set (supported_warmup_extensions family)"

text \<open>The loop returns at the first file that is no test and remembers the first test on the way.\<close>

fun select_candidate :: "server_family \<Rightarrow> string list option \<Rightarrow> string list list \<Rightarrow> string list option" where
  "select_candidate family fallback [] = fallback"
| "select_candidate family fallback (p # ps) =
     (if \<not> supported_file family p then select_candidate family fallback ps
      else if is_test_source_file family (last p)
      then select_candidate family (if fallback = None then Some p else fallback) ps
      else Some p)"

definition select_representative_file :: "server_family \<Rightarrow> directory option \<Rightarrow> string list option" where
  "select_representative_file family attachment =
     (case attachment of None \<Rightarrow> None | Some d \<Rightarrow> select_candidate family None (walk_files d))"

section \<open>The probe symbol\<close>

datatype document_symbol =
  DocumentSymbol (ds_kind: int) (ds_line: int) (ds_character: int) (ds_children: "document_symbol list")

fun walk_document_symbols :: "document_symbol list \<Rightarrow> document_symbol list" where
  "walk_document_symbols [] = []"
| "walk_document_symbols (DocumentSymbol k l c ys # xs) =
     DocumentSymbol k l c ys # walk_document_symbols ys @ walk_document_symbols xs"

definition select_probe_symbol :: "server_family \<Rightarrow> document_symbol list \<Rightarrow> document_symbol option" where
  "select_probe_symbol family symbols =
     find (\<lambda>s. ds_kind s \<in> set (eligible_warmup_kinds family) \<and> 0 \<le> ds_line s \<and> 0 \<le> ds_character s)
       (walk_document_symbols symbols)"

section \<open>What is selected\<close>

text \<open>The paths below a directory that no ignored directory hides.\<close>

inductive visible :: "directory \<Rightarrow> string list \<Rightarrow> bool" where
  here: "f \<in> set fs \<Longrightarrow> visible (Directory ds fs) [f]"
| below: "(n, d) \<in> set ds \<Longrightarrow> n \<notin> set ignored_warmup_dirs \<Longrightarrow> visible d p \<Longrightarrow> visible (Directory ds fs) (n # p)"

inductive_cases visible_DirectoryE: "visible (Directory ds fs) p"

lemma set_walk_files: "set (walk_files d) = {p. visible d p}"
proof (induction d rule: walk_files.induct)
  case (1 ds fs)
  have "p \<in> set (walk_files (Directory ds fs)) \<longleftrightarrow> (\<exists>f\<in>set fs. p = [f]) \<or>
      (\<exists>(n, d)\<in>set ds. n \<notin> set ignored_warmup_dirs \<and> (\<exists>q. visible d q \<and> p = n # q))" for p
    using 1 by (auto simp: image_iff)
  also have "\<dots> p \<longleftrightarrow> visible (Directory ds fs) p" for p
    by (auto intro: visible.intros elim!: visible_DirectoryE)
  finally show ?case by blast
qed

lemma select_candidate_spec:
  "select_candidate family fallback ps =
     (case find (\<lambda>p. supported_file family p \<and> \<not> is_test_source_file family (last p)) ps of
        Some p \<Rightarrow> Some p
      | None \<Rightarrow> if fallback = None then find (supported_file family) ps else fallback)"
  by (induction family fallback ps rule: select_candidate.induct) (auto split: option.splits)

text \<open>
  The warm-up probes a real source file when there is one: the file chosen is visible below the
  attachment and of a supported extension, it is a test only if every visible supported file is one,
  and none is chosen only if there is no visible supported file.
\<close>

theorem representative_file_preferred:
  "case select_representative_file family (Some d) of
     None \<Rightarrow> \<forall>p. visible d p \<longrightarrow> \<not> supported_file family p
   | Some p \<Rightarrow> visible d p \<and> supported_file family p \<and>
       (is_test_source_file family (last p) \<longrightarrow> (\<forall>q. visible d q \<and> supported_file family q \<longrightarrow> is_test_source_file family (last q)))"
proof -
  have sel: "select_representative_file family (Some d) =
      (case find (\<lambda>p. supported_file family p \<and> \<not> is_test_source_file family (last p)) (walk_files d) of
        Some p \<Rightarrow> Some p | None \<Rightarrow> find (supported_file family) (walk_files d))"
    by (simp add: select_representative_file_def select_candidate_spec)
  have mem: "visible d p \<longleftrightarrow> p \<in> set (walk_files d)" for p by (simp add: set_walk_files)
  show ?thesis unfolding sel mem by (auto simp: find_None_iff find_Some_iff split: option.split)
qed

theorem representative_file_preferred_witness:
  "let d = Directory [(''src'', Directory [] [''a.py'']), (''tests'', Directory [] [''test_a.py''])] [''README.md''] in
     select_representative_file BASEDPYRIGHT (Some d) = Some [''src'', ''a.py''] \<and>
     visible d [''src'', ''a.py''] \<and> supported_file BASEDPYRIGHT [''src'', ''a.py'']"
proof -
  let ?d = "Directory [(''src'', Directory [] [''a.py'']), (''tests'', Directory [] [''test_a.py''])] [''README.md'']"
  have sel: "select_representative_file BASEDPYRIGHT (Some ?d) = Some [''src'', ''a.py'']" by code_simp
  show ?thesis using representative_file_preferred [where family = BASEDPYRIGHT and d = ?d] unfolding sel by (simp add: sel Let_def)
qed

end
