(* ===== verification/Coordinator.thy ===== *)
theory Coordinator
  imports Lsp_Probe "HOL-Library.Multiset"
begin

text \<open>
  The coordinator process (\<open>CoordinatorServer\<close> in \<open>runtime/coordinator.py\<close>): its sessions, the
  requests it serves, the idle monitor and the discovery heartbeat. Sockets, threads and the language
  servers are outside: a request arrives as a value, and what a language server and the file system
  answer is an argument. \<open>resolve\<close> stands for \<open>Path.expanduser().resolve()\<close>.
\<close>

section \<open>State\<close>

type_synonym session_key = "server_family \<times> string"

datatype coordinator_state = CS_STARTING | CS_READY | CS_WARMING | CS_DEGRADED | CS_SHUTTING_DOWN

record coordinator =
  cv_project_root :: string
  cv_instance_id :: string
  cv_protocol_version :: string
  cv_build_version :: string
  cv_idle_ttl :: seconds
  cv_session_ttl :: seconds
  cv_started_at :: seconds
  cv_last_activity :: seconds
  cv_last_heartbeat :: seconds
  cv_stopping :: bool
  cv_active_requests :: int
  cv_sessions :: "(session_key \<times> session) list"

datatype request =
    HandshakeRequest string string
  | ShutdownRequest
  | EnsureServerReadyRequest server_family string
  | GetRuntimeStatusRequest
  | WorkspaceSymbolRequest server_family string string
  | DocumentSymbolRequest server_family string string
  | DefinitionRequest server_family string string int int
  | ReferencesRequest server_family string string int int bool
  | ImplementationRequest server_family string string int int

text \<open>What is asked of a language server; a file is an absolute path.\<close>

datatype lsp_request =
    AskWorkspaceSymbol string
  | AskDocumentSymbol string
  | AskDefinition string int int
  | AskReferences string int int bool
  | AskImplementation string int int

text \<open>The outside world while one request is served: the clock's readings and the outcomes.\<close>

record 'p surroundings =
  en_entered :: seconds
  en_now :: seconds
  en_failed_at :: seconds
  en_asked_at :: seconds
  en_done_at :: seconds
  en_left :: seconds
  en_start :: "nat lsp_outcome"
  en_lsp :: "nat \<Rightarrow> lsp_request \<Rightarrow> 'p lsp_outcome"
  en_submit_ok :: bool
  en_resolve :: "string \<Rightarrow> string"

text \<open>
  What the coordinator tells of itself, in an answer and in its discovery file: the project, its instance
  and versions, its state, when it started, its last heartbeat and when it expires.
\<close>

record identity =
  ci_project_root :: string
  ci_instance_id :: string
  ci_protocol_version :: string
  ci_build_version :: string
  ci_state :: coordinator_state
  ci_started_at :: seconds
  ci_last_heartbeat :: seconds
  ci_expires_at :: seconds

datatype 'p payload =
    HandshakeP identity
  | StoppedP
  | StatusP identity "server_status list"
  | ReadinessP readiness
  | ItemsP 'p

definition expires_at :: "coordinator \<Rightarrow> seconds" where
  "expires_at sv = cv_last_activity sv + cv_idle_ttl sv"

definition current_state :: "seconds \<Rightarrow> coordinator \<Rightarrow> coordinator_state" where
  "current_state now sv =
     (let states = (\<lambda>(k, sn). sn_state sn) ` set (cv_sessions sv) in
      if cv_stopping sv then CS_SHUTTING_DOWN
      else if cv_sessions sv = [] then (if now - cv_started_at sv < 5 then CS_STARTING else CS_READY)
      else if SV_WARMING \<in> states \<or> SV_STARTING \<in> states then CS_WARMING
      else if SV_DEGRADED \<in> states then CS_DEGRADED
      else CS_READY)"

definition identify :: "seconds \<Rightarrow> coordinator \<Rightarrow> identity" where
  "identify now sv =
     \<lparr>ci_project_root = cv_project_root sv, ci_instance_id = cv_instance_id sv, ci_protocol_version = cv_protocol_version sv,
      ci_build_version = cv_build_version sv, ci_state = current_state now sv, ci_started_at = cv_started_at sv,
      ci_last_heartbeat = cv_last_heartbeat sv, ci_expires_at = expires_at sv\<rparr>"

definition runtime_status :: "coordinator \<Rightarrow> server_status list" where
  "runtime_status sv =
     sort_key (\<lambda>st. (server_family_value (st_family st), st_attachment_root st)) (map (\<lambda>(k, sn). session_status sn) (cv_sessions sv))"

section \<open>Sessions\<close>

definition ensure_session :: "(string \<Rightarrow> string) \<Rightarrow> server_family \<Rightarrow> string \<Rightarrow> coordinator \<Rightarrow> session_key \<times> coordinator" where
  "ensure_session resolve family attachment sv =
     (let key = (family, resolve attachment) in
      case map_of (cv_sessions sv) key of
        Some sn \<Rightarrow> (key, sv)
      | None \<Rightarrow> (key, sv\<lparr>cv_sessions := cv_sessions sv @ [(key, new_session family (resolve attachment) (cv_session_ttl sv))]\<rparr>))"

text \<open>A method call on the session of a key, which \<open>ensure_session\<close> has returned.\<close>

definition on_session :: "session_key \<Rightarrow> (session \<Rightarrow> 'a \<times> session) \<Rightarrow> coordinator \<Rightarrow> 'a \<times> coordinator" where
  "on_session key f sv =
     (case f (the (map_of (cv_sessions sv) key)) of (x, sn) \<Rightarrow> (x, sv\<lparr>cv_sessions := AList.update key sn (cv_sessions sv)\<rparr>))"

definition request_session_warmup :: "seconds \<Rightarrow> bool \<Rightarrow> session \<Rightarrow> (coord_error + unit) \<times> session" where
  "request_session_warmup now submit_ok sn =
     (case request_warmup now sn of
        (False, sn') \<Rightarrow> (Inr (), sn')
      | (True, sn') \<Rightarrow>
          if submit_ok then (Inr (), sn')
          else (Inl (InternalErr ''cannot schedule new futures after shutdown''), cancel_warmup_request sn'))"

text \<open>
  \<open>_schedule_warmups\<close> at the start of the process: a warm-up for each detected server family and
  attachment, which the detection of providers finds. An error stops the loop.
\<close>

fun schedule_warmups ::
  "seconds \<Rightarrow> bool \<Rightarrow> (string \<Rightarrow> string) \<Rightarrow> (server_family \<times> string) list \<Rightarrow> coordinator \<Rightarrow> (coord_error + unit) \<times> coordinator" where
  "schedule_warmups now submit_ok resolve [] sv = (Inr (), sv)"
| "schedule_warmups now submit_ok resolve ((family, attachment) # families) sv =
     (case ensure_session resolve family attachment sv of
        (key, sv1) \<Rightarrow>
          (case on_session key (request_session_warmup now submit_ok) sv1 of
             (Inl e, sv2) \<Rightarrow> (Inl e, sv2)
           | (Inr u, sv2) \<Rightarrow> schedule_warmups now submit_ok resolve families sv2))"

section \<open>Files below an attachment\<close>

text \<open>\<open>root / path\<close>: an absolute right operand replaces the left one.\<close>

definition join_path :: "string \<Rightarrow> string \<Rightarrow> string" where
  "join_path base path =
     (if startswith path ''/'' then path else if base = ''/'' then ''/'' @ path else base @ ''/'' @ path)"

definition inside_path :: "string \<Rightarrow> string \<Rightarrow> bool" where
  "inside_path base path \<longleftrightarrow> path = base \<or> (if base = ''/'' then startswith path ''/'' else startswith path (base @ ''/''))"

definition attachment_file_path :: "(string \<Rightarrow> string) \<Rightarrow> string \<Rightarrow> string \<Rightarrow> coord_error + string" where
  "attachment_file_path resolve attachment path =
     (let base = resolve attachment;
          normalized = removeprefix ''./'' (replace_char (CHR 0x5C) (CHR ''/'') (strip path)) in
      if normalized = [] then Inl (ProtocolErr ''repository_rel_path must not be empty'')
      else let file = resolve (join_path base normalized) in
        if inside_path base file then Inr file
        else Inl (ProtocolErr ''repository_rel_path escapes attachment root''))"

section \<open>Requests\<close>

definition invoke_session :: "'p surroundings \<Rightarrow> session_key \<Rightarrow> lsp_request \<Rightarrow> coordinator \<Rightarrow> (coord_error + 'p payload) \<times> coordinator" where
  "invoke_session en key ask sv =
     (case on_session key (invoke (en_now en) (en_failed_at en) (en_asked_at en) (en_done_at en) (en_start en) (\<lambda>c. en_lsp en c ask)) sv of
        (r, sv') \<Rightarrow> (ebind r (\<lambda>items. Inr (ItemsP items)), sv'))"

text \<open>The session is looked up before the path is checked, so a rejected path leaves a new session behind.\<close>

definition file_request ::
  "'p surroundings \<Rightarrow> server_family \<Rightarrow> string \<Rightarrow> string \<Rightarrow> (string \<Rightarrow> lsp_request) \<Rightarrow> coordinator \<Rightarrow>
   (coord_error + 'p payload) \<times> coordinator" where
  "file_request en family attachment path ask sv =
     (case ensure_session (en_resolve en) family attachment sv of
        (key, sv') \<Rightarrow>
          (case attachment_file_path (en_resolve en) attachment path of
             Inl e \<Rightarrow> (Inl e, sv')
           | Inr file \<Rightarrow> invoke_session en key (ask file) sv'))"

fun dispatch :: "'p surroundings \<Rightarrow> request \<Rightarrow> coordinator \<Rightarrow> (coord_error + 'p payload) \<times> coordinator" where
  "dispatch en (HandshakeRequest protocol build) sv =
     (if protocol \<noteq> cv_protocol_version sv \<or> build \<noteq> cv_build_version sv
      then (Inl (VersionMismatchErr ''coordinator version mismatch between thin client and runtime''), sv)
      else (Inr (HandshakeP (identify (en_now en) sv)), sv))"
| "dispatch en ShutdownRequest sv = (Inr StoppedP, sv\<lparr>cv_stopping := True\<rparr>)"
| "dispatch en GetRuntimeStatusRequest sv =
     (Inr (StatusP (identify (en_now en) sv) (runtime_status sv)), sv)"
| "dispatch en (EnsureServerReadyRequest family attachment) sv =
     (case ensure_session (en_resolve en) family attachment sv of
        (key, sv1) \<Rightarrow>
          (case on_session key (request_session_warmup (en_now en) (en_submit_ok en)) sv1 of
             (Inl e, sv2) \<Rightarrow> (Inl e, sv2)
           | (Inr u, sv2) \<Rightarrow>
               let sn = the (map_of (cv_sessions sv2) key) in
               (Inr (ReadinessP (readiness_payload (en_asked_at en) sn)), sv2)))"
| "dispatch en (WorkspaceSymbolRequest family attachment q) sv =
     (case ensure_session (en_resolve en) family attachment sv of (key, sv1) \<Rightarrow> invoke_session en key (AskWorkspaceSymbol q) sv1)"
| "dispatch en (DocumentSymbolRequest family attachment path) sv =
     file_request en family attachment path AskDocumentSymbol sv"
| "dispatch en (DefinitionRequest family attachment path line column) sv =
     file_request en family attachment path (\<lambda>f. AskDefinition f line column) sv"
| "dispatch en (ReferencesRequest family attachment path line column include_declaration) sv =
     file_request en family attachment path (\<lambda>f. AskReferences f line column include_declaration) sv"
| "dispatch en (ImplementationRequest family attachment path line column) sv =
     file_request en family attachment path (\<lambda>f. AskImplementation f line column) sv"

text \<open>\<open>_track_request\<close>.\<close>

definition enter_request :: "seconds \<Rightarrow> coordinator \<Rightarrow> coordinator" where
  "enter_request now sv = sv\<lparr>cv_active_requests := cv_active_requests sv + 1, cv_last_activity := now\<rparr>"

definition leave_request :: "seconds \<Rightarrow> coordinator \<Rightarrow> coordinator" where
  "leave_request now sv = sv\<lparr>cv_active_requests := max 0 (cv_active_requests sv - 1), cv_last_activity := now\<rparr>"

record 'p envelope =
  ev_ok :: bool
  ev_payload :: "'p payload option"
  ev_error :: "coord_error option"

text \<open>\<open>to_payload\<close> of the errors that carry the state of a session.\<close>

definition not_ready_payload :: "server_family \<Rightarrow> string \<Rightarrow> server_state \<Rightarrow> int \<Rightarrow> readiness" where
  "not_ready_payload family attachment st retry =
     \<lparr>ry_ready = False,
      ry_status = \<lparr>st_family = family, st_attachment_root = attachment, st_state = st, st_last_activity = None,
        st_last_failure = None, st_next_retry = None, st_failure_count = 0\<rparr>,
      ry_retry_after = Some retry, ry_server_family = family, ry_attachment_root = attachment\<rparr>"

fun error_payload :: "coord_error \<Rightarrow> 'p payload option" where
  "error_payload (NotReadyErr family attachment st retry) = Some (ReadinessP (not_ready_payload family attachment st retry))"
| "error_payload (RequestTimeoutErr family attachment st retry) = Some (ReadinessP (not_ready_payload family attachment st retry))"
| "error_payload e = None"

definition serve_request :: "'p surroundings \<Rightarrow> request \<Rightarrow> coordinator \<Rightarrow> 'p envelope \<times> coordinator" where
  "serve_request en rq sv =
     (case dispatch en rq (enter_request (en_entered en) sv) of
        (r, sv') \<Rightarrow>
          ((case r of
              Inr p \<Rightarrow> \<lparr>ev_ok = True, ev_payload = Some p, ev_error = None\<rparr>
            | Inl e \<Rightarrow> \<lparr>ev_ok = False, ev_payload = error_payload e, ev_error = Some e\<rparr>),
           leave_request (en_left en) sv'))"

section \<open>Background threads\<close>

definition idle_tick :: "seconds \<Rightarrow> coordinator \<Rightarrow> coordinator" where
  "idle_tick now sv =
     (let sv' = sv\<lparr>cv_sessions := map (\<lambda>(k, sn). (k, close_if_idle now sn)) (cv_sessions sv)\<rparr> in
      if cv_active_requests sv' = 0 \<and> expires_at sv' \<le> now then sv'\<lparr>cv_stopping := True\<rparr> else sv')"

text \<open>The record written to the discovery file, which adds the endpoint and the process id.\<close>

definition publish_discovery :: "seconds \<Rightarrow> seconds \<Rightarrow> coordinator \<Rightarrow> identity \<times> coordinator" where
  "publish_discovery now asked_at sv =
     (let sv' = sv\<lparr>cv_last_heartbeat := now\<rparr> in (identify asked_at sv', sv'))"

definition stop_coordinator :: "coordinator \<Rightarrow> coordinator" where
  "stop_coordinator sv =
     sv\<lparr>cv_stopping := True, cv_sessions := map (\<lambda>(k, sn). (k, shutdown_session sn)) (cv_sessions sv)\<rparr>"

definition new_coordinator :: "string \<Rightarrow> string \<Rightarrow> string \<Rightarrow> string \<Rightarrow> seconds \<Rightarrow> seconds \<Rightarrow> seconds \<Rightarrow> coordinator" where
  "new_coordinator project instance_id protocol build idle_ttl session_ttl now =
     \<lparr>cv_project_root = project, cv_instance_id = instance_id, cv_protocol_version = protocol, cv_build_version = build,
      cv_idle_ttl = idle_ttl, cv_session_ttl = session_ttl, cv_started_at = now, cv_last_activity = now,
      cv_last_heartbeat = now, cv_stopping = False, cv_active_requests = 0, cv_sessions = []\<rparr>"

section \<open>The invariant of the coordinator\<close>

text \<open>
  The steps of the running process beside a count of the requests that are being served. Requests are
  served by their own threads, so any number of them is between its entry and its exit.
\<close>

inductive coordinator_step :: "coordinator \<times> nat \<Rightarrow> coordinator \<times> nat \<Rightarrow> bool" where
  arrives: "coordinator_step (sv, n) (enter_request now sv, Suc n)"
| dispatched: "dispatch (en :: unit surroundings) rq sv = (r, sv') \<Longrightarrow> coordinator_step (sv, Suc n) (sv', Suc n)"
| leaves: "coordinator_step (sv, Suc n) (leave_request now sv, n)"
| ticks: "coordinator_step (sv, n) (idle_tick now sv, n)"
| beats: "coordinator_step (sv, n) (snd (publish_discovery now asked_at sv), n)"
| warms: "map_of (cv_sessions sv) key = Some sn \<Longrightarrow>
    warm_step \<lparr>ws_session = sn, ws_workers = ws\<rparr> \<lparr>ws_session = sn', ws_workers = ws'\<rparr> \<Longrightarrow>
    coordinator_step (sv, n) (sv\<lparr>cv_sessions := AList.update key sn' (cv_sessions sv)\<rparr>, n)"
| schedules: "schedule_warmups now submit_ok resolve families sv = (r, sv') \<Longrightarrow> coordinator_step (sv, n) (sv', n)"
| stops: "coordinator_step (sv, n) (stop_coordinator sv, n)"

inductive coordinator_reachable :: "coordinator \<Rightarrow> coordinator \<times> nat \<Rightarrow> bool" for sv0 where
  begins: "coordinator_reachable sv0 (sv0, 0)"
| goes: "coordinator_reachable sv0 x \<Longrightarrow> coordinator_step x y \<Longrightarrow> coordinator_reachable sv0 y"

definition keyed_session :: "session_key \<Rightarrow> session \<Rightarrow> bool" where
  "keyed_session key sn \<longleftrightarrow> session_ok sn \<and> (sn_family sn, sn_attachment_root sn) = key"

definition sessions_ok :: "(session_key \<times> session) list \<Rightarrow> bool" where
  "sessions_ok ss \<longleftrightarrow> distinct (map fst ss) \<and> (\<forall>(key, sn)\<in>set ss. keyed_session key sn)"

lemma sessions_ok_lookup: "sessions_ok ss \<Longrightarrow> map_of ss key = Some sn \<Longrightarrow> keyed_session key sn"
  by (auto simp: sessions_ok_def dest: map_of_SomeD)

lemma sessions_ok_update: "sessions_ok ss \<Longrightarrow> keyed_session key sn \<Longrightarrow> sessions_ok (AList.update key sn ss)"
proof -
  assume ok: "sessions_ok ss" and key: "keyed_session key sn"
  have "distinct (map fst (AList.update key sn ss))" using ok by (simp add: sessions_ok_def distinct_update)
  moreover have "set (AList.update key sn ss) \<subseteq> insert (key, sn) (set ss)" by (rule set_update_subset)
  ultimately show ?thesis using ok key unfolding sessions_ok_def by blast
qed

lemma sessions_ok_map: "sessions_ok ss \<Longrightarrow> (\<And>key sn. keyed_session key sn \<Longrightarrow> keyed_session key (f sn)) \<Longrightarrow>
    sessions_ok (map (\<lambda>(k, sn). (k, f sn)) ss)"
  by (auto simp: sessions_ok_def o_def split_def)

lemma frame_family [simp]:
  "sn_family (mark_failure t sn) = sn_family sn" "sn_attachment_root (mark_failure t sn) = sn_attachment_root sn"
  "sn_family (shutdown_session sn) = sn_family sn" "sn_attachment_root (shutdown_session sn) = sn_attachment_root sn"
  "sn_family (close_if_idle t sn) = sn_family sn" "sn_attachment_root (close_if_idle t sn) = sn_attachment_root sn"
  "sn_family (mark_probe_complete t sn) = sn_family sn" "sn_attachment_root (mark_probe_complete t sn) = sn_attachment_root sn"
  "sn_family (cancel_warmup_request sn) = sn_family sn" "sn_attachment_root (cancel_warmup_request sn) = sn_attachment_root sn"
  by (simp_all add: mark_failure_def shutdown_locked_def shutdown_session_def close_if_idle_def mark_probe_complete_def
      cancel_warmup_request_def Let_def split: option.splits)

lemma frame_ensure: "ensure_initialized now failed_at asked_at mark start sn = (r, sn') \<Longrightarrow>
    sn_family sn' = sn_family sn \<and> sn_attachment_root sn' = sn_attachment_root sn"
  by (auto simp: ensure_initialized_def Let_def split: if_splits option.splits lsp_outcome.splits)

lemma frame_invoke:
  assumes "invoke now failed_at asked_at done_at start operation sn = (r, sn')"
  shows "sn_family sn' = sn_family sn \<and> sn_attachment_root sn' = sn_attachment_root sn"
proof -
  obtain q sn1 where e: "ensure_initialized now failed_at asked_at False start sn = (q, sn1)" by fastforce
  show ?thesis using assms frame_ensure [OF e]
    by (auto simp: invoke_def e Let_def split: sum.splits if_splits lsp_outcome.splits)
qed

lemma frame_request: "request_warmup now sn = (b, sn') \<Longrightarrow> sn_family sn' = sn_family sn \<and> sn_attachment_root sn' = sn_attachment_root sn"
  by (auto simp: request_warmup_def split: if_splits)

lemma frame_probe: "probe_operation failed_at asked_at done_at outcome sn = (r, sn') \<Longrightarrow>
    sn_family sn' = sn_family sn \<and> sn_attachment_root sn' = sn_attachment_root sn"
  by (auto simp: probe_operation_def Let_def split: lsp_outcome.splits)

lemma keyed_warm_step:
  assumes "warm_step s t" and "keyed_session key (ws_session s)"
  shows "keyed_session key (ws_session t)"
proof -
  have "sn_family (ws_session t) = sn_family (ws_session s) \<and> sn_attachment_root (ws_session t) = sn_attachment_root (ws_session s)"
    using assms(1) by (induction rule: warm_step.induct) (auto dest: frame_ensure frame_invoke frame_request frame_probe)
  then show ?thesis using assms warm_step_session by (simp add: keyed_session_def)
qed

lemma keyed_request_session_warmup:
  assumes "keyed_session key sn" and "request_session_warmup now submit_ok sn = (r, sn')"
  shows "keyed_session key sn'"
proof -
  obtain b sn1 where q: "request_warmup now sn = (b, sn1)" by fastforce
  have "keyed_session key sn1" using assms(1) session_ok_request [OF _ q] frame_request [OF q] by (simp add: keyed_session_def)
  moreover have "sn' = sn1 \<or> sn' = cancel_warmup_request sn1"
    using assms(2) by (auto simp: request_session_warmup_def q split: bool.splits if_splits)
  ultimately show ?thesis using session_ok_cancel by (auto simp: keyed_session_def)
qed

lemma keyed_invoke:
  "keyed_session key sn \<Longrightarrow> invoke now failed_at asked_at done_at start operation sn = (r, sn') \<Longrightarrow> keyed_session key sn'"
  using session_ok_invoke frame_invoke unfolding keyed_session_def by metis

text \<open>What a dispatch may change: the sessions, one key of them, and the stop flag.\<close>

definition touches :: "(session_key \<Rightarrow> bool) \<Rightarrow> coordinator \<Rightarrow> coordinator \<Rightarrow> bool" where
  "touches K sv sv' \<longleftrightarrow>
     (\<exists>ss stop. sv' = sv\<lparr>cv_sessions := ss, cv_stopping := stop\<rparr> \<and> (cv_stopping sv \<longrightarrow> stop)) \<and>
     (\<forall>key. \<not> K key \<longrightarrow> map_of (cv_sessions sv') key = map_of (cv_sessions sv) key) \<and>
     (\<forall>key. map_of (cv_sessions sv) key \<noteq> None \<longrightarrow> map_of (cv_sessions sv') key \<noteq> None) \<and>
     (sessions_ok (cv_sessions sv) \<longrightarrow> sessions_ok (cv_sessions sv'))"

lemma touches_refl: "touches K sv sv"
proof -
  have "sv = sv\<lparr>cv_sessions := cv_sessions sv, cv_stopping := cv_stopping sv\<rparr>" by simp
  then show ?thesis unfolding touches_def by blast
qed

lemma touches_trans:
  assumes "touches K a b" and "touches K b c"
  shows "touches K a c"
proof -
  obtain ss stop where b: "b = a\<lparr>cv_sessions := ss, cv_stopping := stop\<rparr>" "cv_stopping a \<longrightarrow> stop"
    using assms(1) unfolding touches_def by blast
  obtain ss' stop' where c: "c = b\<lparr>cv_sessions := ss', cv_stopping := stop'\<rparr>" "cv_stopping b \<longrightarrow> stop'"
    using assms(2) unfolding touches_def by blast
  have "c = a\<lparr>cv_sessions := ss', cv_stopping := stop'\<rparr> \<and> (cv_stopping a \<longrightarrow> stop')" using b c by simp
  then show ?thesis using assms unfolding touches_def by metis
qed

lemma touches_sessions:
  assumes "\<And>key. \<not> K key \<Longrightarrow> map_of ss key = map_of (cv_sessions sv) key"
    and "\<And>key. map_of (cv_sessions sv) key \<noteq> None \<Longrightarrow> map_of ss key \<noteq> None"
    and "sessions_ok (cv_sessions sv) \<Longrightarrow> sessions_ok ss"
  shows "touches K sv (sv\<lparr>cv_sessions := ss\<rparr>)"
proof -
  have "sv\<lparr>cv_sessions := ss\<rparr> = sv\<lparr>cv_sessions := ss, cv_stopping := cv_stopping sv\<rparr>" by simp
  then have "\<exists>ss' stop. sv\<lparr>cv_sessions := ss\<rparr> = sv\<lparr>cv_sessions := ss', cv_stopping := stop\<rparr> \<and> (cv_stopping sv \<longrightarrow> stop)" by blast
  then show ?thesis using assms unfolding touches_def by simp
qed

lemma keyed_new: "keyed_session (family, attachment) (new_session family attachment ttl)"
  by (simp add: keyed_session_def session_ok_new) (simp add: new_session_def)

lemma ensure_session_touches:
  assumes "ensure_session resolve family attachment sv = (key, sv')"
  shows "key = (family, resolve attachment) \<and> touches ((=) key) sv sv' \<and> map_of (cv_sessions sv') key \<noteq> None"
proof (cases "map_of (cv_sessions sv) (family, resolve attachment)")
  case (Some sn)
  then show ?thesis using assms by (auto simp: ensure_session_def Let_def touches_refl)
next
  case None
  let ?new = "((family, resolve attachment), new_session family (resolve attachment) (cv_session_ttl sv))"
  have sv': "sv' = sv\<lparr>cv_sessions := cv_sessions sv @ [?new]\<rparr>" and key: "key = (family, resolve attachment)"
    using assms None by (auto simp: ensure_session_def Let_def)
  have "sessions_ok (cv_sessions sv @ [?new])" if "sessions_ok (cv_sessions sv)"
    using that None keyed_new by (auto simp: sessions_ok_def map_of_eq_None_iff)
  then have "touches ((=) key) sv sv'" unfolding sv'
    by (intro touches_sessions) (auto simp: key map_of_append map_add_def split: option.split)
  then show ?thesis using None by (simp add: sv' key map_of_append map_add_def)
qed

lemma on_session_touches:
  assumes "on_session key f sv = (x, sv')" and "map_of (cv_sessions sv) key \<noteq> None"
    and "\<And>sn y sn'. keyed_session key sn \<Longrightarrow> f sn = (y, sn') \<Longrightarrow> keyed_session key sn'"
  shows "touches ((=) key) sv sv' \<and> map_of (cv_sessions sv') key \<noteq> None"
proof -
  obtain sn where sn: "map_of (cv_sessions sv) key = Some sn" using assms(2) by blast
  obtain y sn' where f: "f sn = (y, sn')" by fastforce
  have sv': "sv' = sv\<lparr>cv_sessions := AList.update key sn' (cv_sessions sv)\<rparr>" using assms(1) by (simp add: on_session_def sn f)
  have "touches ((=) key) sv sv'" unfolding sv'
  proof (intro touches_sessions)
    assume "sessions_ok (cv_sessions sv)"
    then show "sessions_ok (AList.update key sn' (cv_sessions sv))"
      using sessions_ok_update sessions_ok_lookup [OF _ sn] assms(3) [OF _ f] by blast
  qed (auto simp: update_conv')
  then show ?thesis by (simp add: sv' update_conv')
qed

lemma invoke_session_touches:
  assumes "invoke_session en key ask sv = (r, sv')" and "map_of (cv_sessions sv) key \<noteq> None"
  shows "touches ((=) key) sv sv'"
proof -
  obtain q where "on_session key (invoke (en_now en) (en_failed_at en) (en_asked_at en) (en_done_at en) (en_start en)
      (\<lambda>c. en_lsp en c ask)) sv = (q, sv')"
    using assms(1) by (auto simp: invoke_session_def split: prod.splits)
  from on_session_touches [OF this assms(2)] show ?thesis using keyed_invoke by blast
qed

lemma file_request_touches:
  assumes "file_request en family attachment path ask sv = (r, sv')"
  shows "touches ((=) (family, en_resolve en attachment)) sv sv'"
proof -
  obtain key sv1 where e: "ensure_session (en_resolve en) family attachment sv = (key, sv1)" by fastforce
  note f = ensure_session_touches [OF e]
  have "sv' = sv1 \<or> (\<exists>file. invoke_session en key (ask file) sv1 = (r, sv'))"
    using assms by (auto simp: file_request_def e split: sum.splits)
  then show ?thesis using f invoke_session_touches touches_trans by metis
qed

text \<open>The key of the session a request is about.\<close>

fun request_key :: "(string \<Rightarrow> string) \<Rightarrow> request \<Rightarrow> session_key option" where
  "request_key resolve (EnsureServerReadyRequest family attachment) = Some (family, resolve attachment)"
| "request_key resolve (WorkspaceSymbolRequest family attachment q) = Some (family, resolve attachment)"
| "request_key resolve (DocumentSymbolRequest family attachment path) = Some (family, resolve attachment)"
| "request_key resolve (DefinitionRequest family attachment path line column) = Some (family, resolve attachment)"
| "request_key resolve (ReferencesRequest family attachment path line column d) = Some (family, resolve attachment)"
| "request_key resolve (ImplementationRequest family attachment path line column) = Some (family, resolve attachment)"
| "request_key resolve rq = None"

lemma dispatch_touches:
  assumes "dispatch en rq sv = (r, sv')"
  shows "touches (\<lambda>key. request_key (en_resolve en) rq = Some key) sv sv'"
proof -
  have same: "touches (\<lambda>key. Some k = Some key) a b" if "touches ((=) k) a b" for k a b using that by (simp add: touches_def)
  show ?thesis
  proof (cases rq)
    case (EnsureServerReadyRequest family attachment)
    obtain key sv1 where e: "ensure_session (en_resolve en) family attachment sv = (key, sv1)" by fastforce
    note f = ensure_session_touches [OF e]
    obtain q where "on_session key (request_session_warmup (en_now en) (en_submit_ok en)) sv1 = (q, sv')"
      using assms by (auto simp: EnsureServerReadyRequest e Let_def split: prod.splits sum.splits)
    from on_session_touches [OF this] have "touches ((=) key) sv1 sv'" using f keyed_request_session_warmup by metis
    then show ?thesis using f touches_trans same by (metis EnsureServerReadyRequest request_key.simps(1))
  next
    case (WorkspaceSymbolRequest family attachment q)
    obtain key sv1 where e: "ensure_session (en_resolve en) family attachment sv = (key, sv1)" by fastforce
    note f = ensure_session_touches [OF e]
    have "invoke_session en key (AskWorkspaceSymbol q) sv1 = (r, sv')" using assms by (simp add: WorkspaceSymbolRequest e)
    then have "touches ((=) key) sv1 sv'" using invoke_session_touches f by blast
    then show ?thesis using f touches_trans same by (metis WorkspaceSymbolRequest request_key.simps(2))
  next
    case ShutdownRequest
    then have sv': "sv' = sv\<lparr>cv_sessions := cv_sessions sv, cv_stopping := True\<rparr>" using assms by auto
    then have "\<exists>ss stop. sv' = sv\<lparr>cv_sessions := ss, cv_stopping := stop\<rparr> \<and> (cv_stopping sv \<longrightarrow> stop)" by blast
    then show ?thesis by (simp add: touches_def sv')
  qed (use assms file_request_touches touches_refl in \<open>auto split: if_splits intro!: same\<close>)
qed

lemma schedule_warmups_touches:
  "schedule_warmups now submit_ok resolve families sv = (r, sv') \<Longrightarrow> touches (\<lambda>key. True) sv sv'"
proof (induction now submit_ok resolve families sv arbitrary: r sv' rule: schedule_warmups.induct)
  case (1 now submit_ok resolve sv)
  then show ?case by (simp add: touches_refl)
next
  case (2 now submit_ok resolve family attachment families sv)
  have any: "touches (\<lambda>key. True) a b" if "touches ((=) k) a b" for k a b using that by (simp add: touches_def)
  obtain key sv1 where e: "ensure_session resolve family attachment sv = (key, sv1)" by fastforce
  note f = ensure_session_touches [OF e]
  obtain q sv2 where o: "on_session key (request_session_warmup now submit_ok) sv1 = (q, sv2)" by fastforce
  have "touches ((=) key) sv1 sv2" using on_session_touches [OF o] f keyed_request_session_warmup by metis
  then have t: "touches (\<lambda>key. True) sv sv2" using f any touches_trans by metis
  show ?case
  proof (cases q)
    case (Inl err)
    then show ?thesis using "2.prems" t by (simp add: e o)
  next
    case (Inr u)
    then have "schedule_warmups now submit_ok resolve families sv2 = (r, sv')" using "2.prems" by (simp add: e o)
    then have "touches (\<lambda>key. True) sv2 sv'" by (rule "2.IH" [OF e [symmetric] o [symmetric] Inr])
    then show ?thesis using t touches_trans by blast
  qed
qed

definition coordinator_ok :: "coordinator \<times> nat \<Rightarrow> bool" where
  "coordinator_ok x \<longleftrightarrow> cv_active_requests (fst x) = int (snd x) \<and> sessions_ok (cv_sessions (fst x))"

lemma coordinator_step_ok: "coordinator_step x y \<Longrightarrow> coordinator_ok x \<Longrightarrow> coordinator_ok y"
proof (induction rule: coordinator_step.induct)
  case (dispatched en rq sv r sv' n)
  note t = dispatch_touches [OF dispatched.hyps]
  then have "cv_active_requests sv' = cv_active_requests sv" by (auto simp: touches_def)
  then show ?case using t dispatched.prems by (simp add: coordinator_ok_def touches_def)
next
  case (schedules now submit_ok resolve families sv r sv' n)
  note t = schedule_warmups_touches [OF schedules.hyps]
  then have "cv_active_requests sv' = cv_active_requests sv" by (auto simp: touches_def)
  then show ?case using t schedules.prems by (simp add: coordinator_ok_def touches_def)
next
  case (warms sv key sn ws sn' ws' n)
  have ok: "sessions_ok (cv_sessions sv)" using warms.prems by (simp add: coordinator_ok_def)
  then have "keyed_session key sn'" using keyed_warm_step [OF warms.hyps(2)] sessions_ok_lookup warms.hyps(1) by simp
  then show ?case using warms.prems sessions_ok_update ok by (simp add: coordinator_ok_def)
next
  case (ticks sv n now)
  then have "sessions_ok (map (\<lambda>(k, sn). (k, close_if_idle now sn)) (cv_sessions sv))"
    by (intro sessions_ok_map) (auto simp: coordinator_ok_def keyed_session_def session_ok_close_if_idle)
  then show ?case using ticks by (simp add: coordinator_ok_def idle_tick_def Let_def)
next
  case (stops sv n)
  then have "sessions_ok (map (\<lambda>(k, sn). (k, shutdown_session sn)) (cv_sessions sv))"
    by (intro sessions_ok_map) (auto simp: coordinator_ok_def keyed_session_def session_ok_shutdown)
  then show ?case using stops by (simp add: coordinator_ok_def stop_coordinator_def)
qed (simp_all add: coordinator_ok_def enter_request_def leave_request_def publish_discovery_def Let_def)

lemma coordinator_reachable_ok:
  "coordinator_reachable (new_coordinator project instance_id protocol build idle_ttl session_ttl now) x \<Longrightarrow> coordinator_ok x"
proof (induction rule: coordinator_reachable.induct)
  case begins
  then show ?case by (simp add: coordinator_ok_def new_coordinator_def sessions_ok_def)
next
  case (goes x y)
  then show ?case using coordinator_step_ok by blast
qed

section \<open>Properties\<close>


text \<open>A coordinator that is serving the request to make a TypeScript server ready.\<close>

definition sample_surroundings :: "unit surroundings" where
  "sample_surroundings =
     \<lparr>en_entered = 2, en_now = 3, en_failed_at = 4, en_asked_at = 4, en_done_at = 5, en_left = 6, en_start = LSP_OK 0,
      en_lsp = (\<lambda>c r. LSP_OK ()), en_submit_ok = True, en_resolve = (\<lambda>p. p)\<rparr>"

definition sample_coordinator :: coordinator where
  "sample_coordinator = new_coordinator ''/r'' ''i'' ''1'' ''b'' 3600 3600 0"

definition serving_coordinator :: coordinator where
  "serving_coordinator =
     snd (dispatch sample_surroundings (EnsureServerReadyRequest TYPESCRIPT_LANGUAGE_SERVER ''/r/web'') (enter_request 2 sample_coordinator))"


definition agree_within :: "string \<Rightarrow> (nat \<Rightarrow> lsp_request \<Rightarrow> 'p lsp_outcome) \<Rightarrow> (nat \<Rightarrow> lsp_request \<Rightarrow> 'p lsp_outcome) \<Rightarrow> bool" where
  "agree_within base f g \<longleftrightarrow>
     (\<forall>c file line column d. inside_path base file \<longrightarrow>
        f c (AskDocumentSymbol file) = g c (AskDocumentSymbol file) \<and>
        f c (AskDefinition file line column) = g c (AskDefinition file line column) \<and>
        f c (AskReferences file line column d) = g c (AskReferences file line column d) \<and>
        f c (AskImplementation file line column) = g c (AskImplementation file line column)) \<and>
     (\<forall>c q. f c (AskWorkspaceSymbol q) = g c (AskWorkspaceSymbol q))"

lemma attachment_file_path_inside: "attachment_file_path resolve attachment path = Inr file \<Longrightarrow> inside_path (resolve attachment) file"
  by (auto simp: attachment_file_path_def Let_def split: if_splits)

lemma file_request_confined:
  assumes "\<And>c file. inside_path (en_resolve en attachment) file \<Longrightarrow> en_lsp en c (ask file) = lsp' c (ask file)"
  shows "file_request (en\<lparr>en_lsp := lsp'\<rparr>) family attachment path ask sv = file_request en family attachment path ask sv"
  using assms attachment_file_path_inside
  by (auto simp: file_request_def invoke_session_def split: prod.splits sum.splits)

text \<open>
  C19. Document requests never leave the attachment: two language servers that answer alike on files
  within the resolved attachment give the same response and the same coordinator, so no file outside
  is ever asked about.
\<close>

theorem files_stay_below_attachment:
  assumes "request_key (en_resolve en) rq = Some (family, base)" and "agree_within base (en_lsp en) lsp'"
  shows "dispatch (en\<lparr>en_lsp := lsp'\<rparr>) rq sv = dispatch en rq sv"
proof (cases rq)
  case (WorkspaceSymbolRequest f a q)
  then show ?thesis using assms(2) by (simp add: agree_within_def invoke_session_def split: prod.split)
qed (use assms in \<open>auto simp: agree_within_def intro!: file_request_confined split: prod.split sum.split\<close>)

theorem files_stay_below_attachment_witness:
  "dispatch (sample_surroundings\<lparr>en_lsp := (\<lambda>c r. if r = AskDocumentSymbol ''/etc/passwd'' then LSP_TIMEOUT else LSP_OK ())\<rparr>)
     (DocumentSymbolRequest GOPLS ''/r'' ''/etc/passwd'') sample_coordinator =
   dispatch sample_surroundings (DocumentSymbolRequest GOPLS ''/r'' ''/etc/passwd'') sample_coordinator"
  by (rule files_stay_below_attachment [where family = GOPLS and base = "''/r''"])
    (auto simp: sample_surroundings_def agree_within_def inside_path_def startswith_def)

text \<open>
  C10. Requests are isolated: serving a request leaves the number of active requests as it was, never
  clears the stop flag, keeps every session there was, and changes at most the session of the family
  and attachment the request names; the response has an error exactly when it is not ok.
\<close>

theorem requests_are_isolated:
  assumes "serve_request en rq sv = (ev, sv')" and "0 \<le> cv_active_requests sv"
  shows "cv_active_requests sv' = cv_active_requests sv \<and> (cv_stopping sv \<longrightarrow> cv_stopping sv') \<and>
    (\<forall>key. map_of (cv_sessions sv) key \<noteq> None \<longrightarrow> map_of (cv_sessions sv') key \<noteq> None) \<and>
    (\<forall>key. request_key (en_resolve en) rq \<noteq> Some key \<longrightarrow> map_of (cv_sessions sv') key = map_of (cv_sessions sv) key) \<and>
    (ev_ok ev \<longleftrightarrow> ev_error ev = None) \<and> (ev_ok ev \<longrightarrow> ev_payload ev \<noteq> None)"
proof -
  let ?in = "enter_request (en_entered en) sv"
  obtain r sv1 where d: "dispatch en rq ?in = (r, sv1)" by fastforce
  note t = dispatch_touches [OF d]
  obtain ss stop where sv1: "sv1 = ?in\<lparr>cv_sessions := ss, cv_stopping := stop\<rparr>" "cv_stopping ?in \<longrightarrow> stop"
    using t unfolding touches_def by blast
  have sv': "sv' = leave_request (en_left en) sv1" and ev: "ev_ok ev \<longleftrightarrow> ev_error ev = None" "ev_ok ev \<longrightarrow> ev_payload ev \<noteq> None"
    using assms(1) by (auto simp: serve_request_def d split: sum.splits)
  have "cv_active_requests sv' = cv_active_requests sv" "cv_stopping sv \<longrightarrow> cv_stopping sv'"
    using assms(2) sv1 by (simp_all add: sv' leave_request_def enter_request_def)
  moreover have "cv_sessions sv' = cv_sessions sv1" "cv_sessions ?in = cv_sessions sv"
    by (simp_all add: sv' leave_request_def enter_request_def)
  ultimately show ?thesis using t ev unfolding touches_def by simp
qed

theorem requests_are_isolated_witness:
  "\<exists>ev sv'. serve_request sample_surroundings (DocumentSymbolRequest GOPLS ''/r'' ''a.go'') serving_coordinator = (ev, sv') \<and>
     cv_active_requests sv' = cv_active_requests serving_coordinator \<and>
     map_of (cv_sessions sv') (TYPESCRIPT_LANGUAGE_SERVER, ''/r/web'') =
       map_of (cv_sessions serving_coordinator) (TYPESCRIPT_LANGUAGE_SERVER, ''/r/web'')"
proof -
  obtain ev sv' where run: "serve_request sample_surroundings (DocumentSymbolRequest GOPLS ''/r'' ''a.go'') serving_coordinator = (ev, sv')"
    by fastforce
  have "0 \<le> cv_active_requests serving_coordinator"
    by (simp add: serving_coordinator_def sample_coordinator_def new_coordinator_def enter_request_def sample_surroundings_def
        ensure_session_def on_session_def Let_def split: prod.split sum.split)
  from requests_are_isolated [OF run this] show ?thesis using run by auto
qed

end
