(* ===== verification/Code_Models.thy ===== *)
theory Code_Models
  imports Routing
begin

text \<open>
  The data of code intelligence: \<open>core/code/models.py\<close>, the relationship, render, finding and flow
  references of \<open>core/intelligence_models.py\<close> and \<open>providers/runtime_capability_models.py\<close>. A
  reference is built by its validator, which checks the fields in their order and then the whole.
\<close>

section \<open>Field validators\<close>

definition required_text :: "string \<Rightarrow> string \<Rightarrow> string result" where
  "required_text field_name value =
     (if blank value then Inl (ValueErr (field_name @ '' must not be empty'')) else Inr (strip value))"

definition at_least :: "int \<Rightarrow> string \<Rightarrow> int \<Rightarrow> int result" where
  "at_least minimum field_name value =
     (if value < minimum then Inl (ValueErr (field_name @ '' must be >= '' @ str_int minimum)) else Inr value)"

definition optional_at_least_one :: "string \<Rightarrow> int option \<Rightarrow> (int option) result" where
  "optional_at_least_one field_name value =
     (case value of None \<Rightarrow> Inr None | Some v \<Rightarrow> ebind (at_least 1 field_name v) (\<lambda>w. Inr (Some w)))"

definition sourced :: "string \<Rightarrow> provenance \<Rightarrow> unit result" where
  "sourced what p =
     ebind (check (p \<noteq> []) (ValueErr ''provenance must not be empty'')) (\<lambda>_.
     check (SK_HEURISTIC \<notin> pe_source_kind ` set p) (ValueErr (what @ '' provenance must not be heuristic'')))"

lemma sourced_Inr [simp]: "sourced what p = Inr u \<longleftrightarrow> p \<noteq> [] \<and> SK_HEURISTIC \<notin> pe_source_kind ` set p"
  by (simp add: sourced_def)

lemma at_least_Inr [simp]: "at_least m f v = Inr w \<longleftrightarrow> m \<le> v \<and> w = v"
  by (auto simp: at_least_def)

section \<open>Locations\<close>

record lookup_target =
  lt_symbol_id :: "string option"
  lt_repository_rel_path :: "string option"
  lt_line :: "int option"
  lt_column :: "int option"

definition validate_lookup_target :: "lookup_target \<Rightarrow> lookup_target result" where
  "validate_lookup_target t =
     ebind (optional_at_least_one ''line'' (lt_line t)) (\<lambda>_.
     ebind (optional_at_least_one ''column'' (lt_column t)) (\<lambda>_.
     ebind (check ((lt_symbol_id t \<noteq> None) \<noteq>
         (lt_repository_rel_path t \<noteq> None \<or> lt_line t \<noteq> None \<or> lt_column t \<noteq> None))
       (ValueErr ''exactly one target mode must be used: either symbol_id or repository_rel_path+line+column'')) (\<lambda>_.
     case lt_symbol_id t of
       Some i \<Rightarrow> if blank i then Inl (ValueErr ''symbol_id must not be empty'') else Inr t
     | None \<Rightarrow>
         (case (lt_repository_rel_path t, lt_line t, lt_column t) of
            (Some p, Some l, Some c) \<Rightarrow>
              ebind (normalize_repository_relative_path p) (\<lambda>q. Inr (t\<lparr>lt_repository_rel_path := Some q\<rparr>))
          | _ \<Rightarrow> Inl (ValueErr ''repository_rel_path, line, and column are required for location lookups'')))))"

record code_location =
  cl_repository_rel_path :: string
  cl_line_start :: int
  cl_line_end :: "int option"
  cl_column_start :: int
  cl_column_end :: "int option"
  cl_symbol_id :: "string option"
  cl_provenance :: provenance

definition validate_code_location :: "code_location \<Rightarrow> code_location result" where
  "validate_code_location l =
     ebind (normalize_repository_relative_path (cl_repository_rel_path l)) (\<lambda>path.
     ebind (at_least 1 ''line_start'' (cl_line_start l)) (\<lambda>_.
     ebind (optional_at_least_one ''line_end'' (cl_line_end l)) (\<lambda>_.
     ebind (check (case cl_line_end l of None \<Rightarrow> True | Some e \<Rightarrow> cl_line_start l \<le> e)
       (ValueErr ''line_end must be >= line_start'')) (\<lambda>_.
     ebind (at_least 1 ''column_start'' (cl_column_start l)) (\<lambda>_.
     ebind (optional_at_least_one ''column_end'' (cl_column_end l)) (\<lambda>_.
     ebind (check (case cl_column_end l of
           None \<Rightarrow> True
         | Some e \<Rightarrow> (cl_line_end l \<noteq> None \<and> cl_line_end l \<noteq> Some (cl_line_start l)) \<or> cl_column_start l \<le> e)
       (ValueErr ''column_end must be >= column_start'')) (\<lambda>_.
     ebind (check (cl_provenance l \<noteq> []) (ValueErr ''CodeLocation.provenance must not be empty'')) (\<lambda>_.
     ebind (check (SK_LSP \<in> pe_source_kind ` set (cl_provenance l))
       (ValueErr ''CodeLocation must include lsp provenance'')) (\<lambda>_.
       Inr (l\<lparr>cl_repository_rel_path := path\<rparr>))))))))))"

section \<open>References found in a file\<close>

datatype file_relationship_kind = IMPORTS | IMPORTED_BY

fun file_relationship_kind_value :: "file_relationship_kind \<Rightarrow> string" where
  "file_relationship_kind_value IMPORTS = ''imports''"
| "file_relationship_kind_value IMPORTED_BY = ''imported_by''"

record file_relationship =
  fr_repository_rel_path :: string
  fr_relationship_kind :: file_relationship_kind
  fr_provenance :: provenance

definition validate_file_relationship :: "file_relationship \<Rightarrow> file_relationship result" where
  "validate_file_relationship r =
     ebind (check (\<not> blank (fr_repository_rel_path r)) (ValueErr ''repository_rel_path must not be empty'')) (\<lambda>_.
     ebind (sourced ''file relationship'' (fr_provenance r)) (\<lambda>_. Inr r))"

datatype render_edge_kind = RENDERS | RENDERED_BY

fun render_edge_kind_value :: "render_edge_kind \<Rightarrow> string" where
  "render_edge_kind_value RENDERS = ''renders''"
| "render_edge_kind_value RENDERED_BY = ''rendered_by''"

record render_edge =
  rd_repository_rel_path :: string
  rd_relationship_kind :: render_edge_kind
  rd_line_start :: int
  rd_column_start :: int
  rd_prop_names :: "string list"
  rd_has_spread_props :: bool
  rd_provenance :: provenance

definition validate_prop_names :: "string list \<Rightarrow> string list result" where
  "validate_prop_names value =
     foldE (\<lambda>item normalized.
       if blank item then Inl (ValueErr ''prop_names must not contain empty values'')
       else if strip item \<in> set normalized then Inl (ValueErr ''prop_names must not contain duplicates'')
       else Inr (normalized @ [strip item])) value []"

definition validate_render_edge :: "render_edge \<Rightarrow> render_edge result" where
  "validate_render_edge r =
     ebind (check (\<not> blank (rd_repository_rel_path r)) (ValueErr ''repository_rel_path must not be empty'')) (\<lambda>_.
     ebind (at_least 1 ''line_start'' (rd_line_start r)) (\<lambda>_.
     ebind (at_least 1 ''column_start'' (rd_column_start r)) (\<lambda>_.
     ebind (validate_prop_names (rd_prop_names r)) (\<lambda>names.
     ebind (sourced ''render edge'' (rd_provenance r)) (\<lambda>_. Inr (r\<lparr>rd_prop_names := names\<rparr>))))))"

record analysis_site =
  as_repository_rel_path :: string
  as_line_start :: int
  as_column_start :: int
  as_label :: string
  as_provenance :: provenance

definition validate_analysis_site :: "analysis_site \<Rightarrow> analysis_site result" where
  "validate_analysis_site s =
     ebind (required_text ''repository_rel_path'' (as_repository_rel_path s)) (\<lambda>path.
     ebind (at_least 1 ''line_start'' (as_line_start s)) (\<lambda>_.
     ebind (at_least 1 ''column_start'' (as_column_start s)) (\<lambda>_.
     ebind (required_text ''label'' (as_label s)) (\<lambda>label.
     ebind (sourced ''static analysis site'' (as_provenance s)) (\<lambda>_.
       Inr (s\<lparr>as_repository_rel_path := path, as_label := label\<rparr>))))))"

datatype invariant_access_kind = PROPERTY_READ | METHOD_CALL

text \<open>\<open>InvariantFindingKind\<close> has one value, so the finding carries no field for it.\<close>

record invariant_finding =
  if_repository_rel_path :: string
  if_access_kind :: invariant_access_kind
  if_line_start :: int
  if_column_start :: int
  if_field_name :: string
  if_subject_label :: string
  if_declared_type :: "string option"
  if_producer_site_count :: int
  if_producer_sites :: "analysis_site list"
  if_provenance :: provenance

definition validate_invariant_finding :: "invariant_finding \<Rightarrow> invariant_finding result" where
  "validate_invariant_finding f =
     ebind (required_text ''repository_rel_path'' (if_repository_rel_path f)) (\<lambda>path.
     ebind (at_least 1 ''line_start'' (if_line_start f)) (\<lambda>_.
     ebind (at_least 1 ''column_start'' (if_column_start f)) (\<lambda>_.
     ebind (required_text ''field_name'' (if_field_name f)) (\<lambda>field.
     ebind (required_text ''subject_label'' (if_subject_label f)) (\<lambda>subject.
     ebind (at_least 0 ''producer_site_count'' (if_producer_site_count f)) (\<lambda>_.
     ebind (check (if_producer_site_count f = int (length (if_producer_sites f)))
       (ValueErr ''producer_site_count must match producer_sites_preview length'')) (\<lambda>_.
     ebind (sourced ''invariant finding'' (if_provenance f)) (\<lambda>_.
       Inr (f\<lparr>if_repository_rel_path := path, if_field_name := field, if_subject_label := subject\<rparr>)))))))))"

datatype static_flow_edge_kind = CALLS_LOCAL_SYMBOL | PRODUCES_VALUE_FOR

fun static_flow_edge_kind_value :: "static_flow_edge_kind \<Rightarrow> string" where
  "static_flow_edge_kind_value CALLS_LOCAL_SYMBOL = ''calls_local_symbol''"
| "static_flow_edge_kind_value PRODUCES_VALUE_FOR = ''produces_value_for''"

record static_flow_edge =
  sf_repository_rel_path :: string
  sf_edge_kind :: static_flow_edge_kind
  sf_line_start :: int
  sf_column_start :: int
  sf_source_label :: string
  sf_target_label :: string
  sf_provenance :: provenance

definition validate_static_flow_edge :: "static_flow_edge \<Rightarrow> static_flow_edge result" where
  "validate_static_flow_edge e =
     ebind (required_text ''repository_rel_path'' (sf_repository_rel_path e)) (\<lambda>path.
     ebind (at_least 1 ''line_start'' (sf_line_start e)) (\<lambda>_.
     ebind (at_least 1 ''column_start'' (sf_column_start e)) (\<lambda>_.
     ebind (required_text ''source_label'' (sf_source_label e)) (\<lambda>source.
     ebind (required_text ''target_label'' (sf_target_label e)) (\<lambda>target.
     ebind (sourced ''static flow'' (sf_provenance e)) (\<lambda>_.
       Inr (e\<lparr>sf_repository_rel_path := path, sf_source_label := source, sf_target_label := target\<rparr>)))))))"

datatype flow_step_kind =
    SYMBOL_ANCHOR | EXTERNAL_REFERENCE_ANCHOR | TEST_SEAM | STATE_SITE | PROP_EDGE | RENDER_EDGE | LOCAL_FLOW_EDGE
  | EVENT_SUBSCRIBE | EVENT_PUBLISH | API_CALL | CONTRACT_USE | IMPLEMENTATION_ANCHOR | RELATED_TEST_ANCHOR

fun flow_step_kind_value :: "flow_step_kind \<Rightarrow> string" where
  "flow_step_kind_value SYMBOL_ANCHOR = ''symbol_anchor''"
| "flow_step_kind_value EXTERNAL_REFERENCE_ANCHOR = ''external_reference_anchor''"
| "flow_step_kind_value TEST_SEAM = ''test_seam''"
| "flow_step_kind_value STATE_SITE = ''state_site''"
| "flow_step_kind_value PROP_EDGE = ''prop_edge''"
| "flow_step_kind_value RENDER_EDGE = ''render_edge''"
| "flow_step_kind_value LOCAL_FLOW_EDGE = ''local_flow_edge''"
| "flow_step_kind_value EVENT_SUBSCRIBE = ''event_subscribe''"
| "flow_step_kind_value EVENT_PUBLISH = ''event_publish''"
| "flow_step_kind_value API_CALL = ''api_call''"
| "flow_step_kind_value CONTRACT_USE = ''contract_use''"
| "flow_step_kind_value IMPLEMENTATION_ANCHOR = ''implementation_anchor''"
| "flow_step_kind_value RELATED_TEST_ANCHOR = ''related_test_anchor''"

record flow_step =
  fs_repository_rel_path :: string
  fs_line_start :: int
  fs_column_start :: int
  fs_step_kind :: flow_step_kind
  fs_source_label :: string
  fs_target_label :: "string option"
  fs_detail_label :: "string option"
  fs_provenance :: provenance

definition optional_required_text :: "string \<Rightarrow> string option \<Rightarrow> (string option) result" where
  "optional_required_text field_name value =
     (case value of None \<Rightarrow> Inr None | Some v \<Rightarrow> ebind (required_text field_name v) (\<lambda>w. Inr (Some w)))"

definition validate_flow_step :: "flow_step \<Rightarrow> flow_step result" where
  "validate_flow_step s =
     ebind (required_text ''repository_rel_path'' (fs_repository_rel_path s)) (\<lambda>path.
     ebind (at_least 1 ''line_start'' (fs_line_start s)) (\<lambda>_.
     ebind (at_least 1 ''column_start'' (fs_column_start s)) (\<lambda>_.
     ebind (required_text ''source_label'' (fs_source_label s)) (\<lambda>source.
     ebind (optional_required_text ''target_label'' (fs_target_label s)) (\<lambda>target.
     ebind (optional_required_text ''detail_label'' (fs_detail_label s)) (\<lambda>detail.
     ebind (sourced ''implementation flow'' (fs_provenance s)) (\<lambda>_.
       Inr (s\<lparr>fs_repository_rel_path := path, fs_source_label := source, fs_target_label := target,
            fs_detail_label := detail\<rparr>))))))))"

section \<open>Runtime capabilities\<close>

datatype capability_availability = RC_AVAILABLE | RC_DEGRADED | RC_UNAVAILABLE

record runtime_capability =
  cap_capability_id :: string
  cap_availability :: capability_availability
  cap_source_kind :: source_kind
  cap_source_tool :: "string option"
  cap_reason :: "string option"
  cap_provenance :: provenance

definition optional_capability_text :: "string option \<Rightarrow> (string option) result" where
  "optional_capability_text value =
     (case value of
        None \<Rightarrow> Inr None
      | Some v \<Rightarrow> if blank v then Inl (ValueErr ''optional runtime capability values must not be empty'') else Inr (Some (strip v)))"

definition validate_runtime_capability :: "runtime_capability \<Rightarrow> runtime_capability result" where
  "validate_runtime_capability c =
     ebind (if blank (cap_capability_id c) then Inl (ValueErr ''capability_id must not be empty'')
            else Inr (strip (cap_capability_id c))) (\<lambda>i.
     ebind (optional_capability_text (cap_source_tool c)) (\<lambda>tool.
     ebind (optional_capability_text (cap_reason c)) (\<lambda>reason.
     ebind (check (cap_availability c = RC_AVAILABLE \<or> reason \<noteq> None)
       (ValueErr ''degraded/unavailable runtime capability requires reason'')) (\<lambda>_.
     ebind (check (cap_provenance c \<noteq> []) (ValueErr ''runtime capability provenance must not be empty'')) (\<lambda>_.
       Inr (c\<lparr>cap_capability_id := i, cap_source_tool := tool, cap_reason := reason\<rparr>))))))"

record code_capabilities =
  cc_structural_symbols :: "runtime_capability option"
  cc_symbol_search :: runtime_capability
  cc_symbols_in_file :: runtime_capability
  cc_definitions :: runtime_capability
  cc_references :: runtime_capability
  cc_implementations :: runtime_capability

record quality_capabilities =
  qc_lint :: runtime_capability
  qc_format :: runtime_capability

record test_capabilities =
  tc_discovery :: runtime_capability
  tc_execution :: runtime_capability

record action_capabilities =
  ac_tests :: runtime_capability
  ac_builds :: runtime_capability
  ac_runners :: runtime_capability

text \<open>What the validator establishes of a capability.\<close>

definition wf_capability :: "runtime_capability \<Rightarrow> bool" where
  "wf_capability c \<longleftrightarrow> cap_provenance c \<noteq> [] \<and>
     (cap_availability c \<noteq> RC_AVAILABLE \<longrightarrow> (\<exists>r. cap_reason c = Some r \<and> \<not> blank r))"

lemma validate_runtime_capability_wf: "validate_runtime_capability c = Inr d \<Longrightarrow> wf_capability d"
  by (auto simp: validate_runtime_capability_def ebind_Inr_iff optional_capability_text_def wf_capability_def
      split: option.splits if_splits)

end
