(* ===== verification/Code_Intelligence.thy ===== *)
theory Code_Intelligence
  imports Code_Models Change_Set_Service
begin

text \<open>
  Code intelligence (\<open>core/code/code_intelligence.py\<close>): symbols, locations and references of a file
  gathered from the code providers, the resolution of symbol ids, and the check of what the providers
  claim to be able to do. The concrete code providers (language servers, syntax trees) are outside:
  \<open>code_answers\<close> is a record of what the methods of one provider answer, an argument of every
  operation. A \<open>ValueError\<close> of a provider means it has no answer; every other error passes through.
\<close>

section \<open>Providers\<close>

record code_answers =
  ca_capabilities :: code_capabilities
  ca_get_symbol :: "string \<Rightarrow> bool \<Rightarrow> entity_info list result"
  ca_list_symbols :: "string \<Rightarrow> string option \<Rightarrow> bool \<Rightarrow> entity_info list result"
  ca_list_structural_symbols :: "string \<Rightarrow> string option \<Rightarrow> bool \<Rightarrow> entity_info list result"
  ca_find_definition :: "string \<Rightarrow> int \<Rightarrow> int \<Rightarrow> code_location list result"
  ca_find_references :: "string \<Rightarrow> int \<Rightarrow> int \<Rightarrow> bool \<Rightarrow> code_location list result"
  ca_find_implementations :: "string \<Rightarrow> int \<Rightarrow> int \<Rightarrow> code_location list result"
  ca_implementation_locations :: "string \<Rightarrow> code_location list result"
  ca_flow_steps :: "string \<Rightarrow> flow_step list result"
  ca_render_edges :: "string \<Rightarrow> render_edge list result"
  ca_invariant_findings :: "string \<Rightarrow> invariant_finding list result"
  ca_local_flow_edges :: "string \<Rightarrow> static_flow_edge list result"
  ca_relationships :: "string \<Rightarrow> file_relationship list result"
  ca_structural_relationships :: "string \<Rightarrow> file_relationship list result"

type_synonym code_environment = "provider \<Rightarrow> code_answers"

definition is_code_provider :: "provider \<Rightarrow> bool" where
  "is_code_provider p \<longleftrightarrow> ROLE_CODE \<in> set (pv_implements p)"

definition code_providers :: "repository \<Rightarrow> provider list" where
  "code_providers rp = filter is_code_provider (get_providers_for_role rp ROLE_CODE)"

definition code_providers_for_file :: "repository \<Rightarrow> string \<Rightarrow> provider list result" where
  "code_providers_for_file rp path =
     ebind (get_providers_for_file_role rp path ROLE_CODE) (\<lambda>ps. Inr (filter is_code_provider ps))"

text \<open>\<open>try: items = provider.ask() except ValueError: continue\<close>, over the providers in order.\<close>

definition no_answer :: "'a list result \<Rightarrow> 'a list result" where
  "no_answer r = (case r of Inl (ValueErr m) \<Rightarrow> Inr [] | _ \<Rightarrow> r)"

definition ask_providers :: "(provider \<Rightarrow> 'a list result) \<Rightarrow> provider list \<Rightarrow> 'a list result" where
  "ask_providers ask ps = ebind (mapE (\<lambda>p. no_answer (ask p)) ps) (\<lambda>answers. Inr (concat answers))"

section \<open>Symbols and locations\<close>

text \<open>\<open>x or 0\<close> for an optional number.\<close>

definition or_default :: "int \<Rightarrow> int option \<Rightarrow> int" where
  "or_default d x = (case x of None \<Rightarrow> d | Some v \<Rightarrow> if v = 0 then d else v)"

definition get_symbol :: "code_environment \<Rightarrow> repository \<Rightarrow> string \<Rightarrow> bool \<Rightarrow> entity_info list result" where
  "get_symbol code rp q case_sensitive =
     (if blank q then Inl (ValueErr ''query must not be blank'')
      else ebind (ask_providers (\<lambda>p. ca_get_symbol (code p) q case_sensitive) (code_providers rp)) (\<lambda>items.
        Inr (sort_key (\<lambda>e. (gn_name e, ei_repository_rel_path e, or_default 0 (ei_line_start e),
                            or_default 0 (ei_column_start e), gn_id e)) items)))"

definition symbol_order :: "entity_info \<Rightarrow> string \<times> string \<times> int \<times> int \<times> string" where
  "symbol_order e =
     (gn_name e, ei_entity_kind e, or_default 0 (ei_line_start e), or_default 0 (ei_column_start e), gn_id e)"

definition list_symbols_in_file ::
  "code_environment \<Rightarrow> repository \<Rightarrow> string \<Rightarrow> string option \<Rightarrow> bool \<Rightarrow> entity_info list result" where
  "list_symbols_in_file code rp path q case_sensitive =
     ebind (normalize_repository_relative_path path) (\<lambda>n.
     ebind (code_providers_for_file rp n) (\<lambda>ps.
     ebind (ask_providers (\<lambda>p. ca_list_symbols (code p) n q case_sensitive) ps) (\<lambda>items.
       Inr (sort_key symbol_order items))))"

definition list_structural_symbols_in_file ::
  "code_environment \<Rightarrow> repository \<Rightarrow> string \<Rightarrow> string option \<Rightarrow> bool \<Rightarrow> entity_info list result" where
  "list_structural_symbols_in_file code rp path q case_sensitive =
     ebind (normalize_repository_relative_path path) (\<lambda>n.
     ebind (code_providers_for_file rp n) (\<lambda>ps.
     ebind (ask_providers (\<lambda>p. ca_list_structural_symbols (code p) n q case_sensitive) ps) (\<lambda>items.
       Inr (sort_key symbol_order items))))"

text \<open>\<open>int(text)\<close> of an ASCII text: surrounding spaces, a sign, digits with single underscores between them.\<close>

definition is_digit :: "char \<Rightarrow> bool" where
  "is_digit c \<longleftrightarrow> CHR ''0'' \<le> c \<and> c \<le> CHR ''9''"

definition digits_value :: "string \<Rightarrow> int" where
  "digits_value ds = foldl (\<lambda>n c. 10 * n + (int (of_char c) - 48)) 0 ds"

definition parse_digits :: "string \<Rightarrow> int option" where
  "parse_digits s =
     (let groups = split_on (CHR ''_'') s in
      if \<forall>g\<in>set groups. g \<noteq> [] \<and> (\<forall>c\<in>set g. is_digit c) then Some (digits_value (concat groups)) else None)"

definition parse_int :: "string \<Rightarrow> int option" where
  "parse_int text =
     (case strip text of
        [] \<Rightarrow> None
      | c # s \<Rightarrow> if c = CHR ''-'' then map_option uminus (parse_digits s)
               else if c = CHR ''+'' then parse_digits s
               else parse_digits (c # s))"

text \<open>\<open>text.split("-", 1)\<close> when it gives two parts.\<close>

fun split_dash :: "string \<Rightarrow> (string \<times> string) option" where
  "split_dash [] = None"
| "split_dash (c # s) =
     (if c = CHR ''-'' then Some ([], s) else map_option (\<lambda>(a, b). (c # a, b)) (split_dash s))"

definition resolve_symbol_target_by_id_parts ::
  "code_environment \<Rightarrow> repository \<Rightarrow> string \<Rightarrow> string \<Rightarrow> entity_info list result" where
  "resolve_symbol_target_by_id_parts code rp symbol_id path =
     (case split_on CHR '':'' symbol_id of
        _ # _ # kind # entity_name # line_range # _ \<Rightarrow>
          (case split_dash line_range of
             None \<Rightarrow> Inr []
           | Some (first_line, _) \<Rightarrow>
               (case parse_int first_line of
                  None \<Rightarrow> Inr []
                | Some line \<Rightarrow>
                    ebind (list_symbols_in_file code rp path None False) (\<lambda>items.
                      Inr (filter (\<lambda>e. ei_entity_kind e = kind \<and> gn_name e = entity_name \<and> ei_line_start e = Some line) items))))
      | _ \<Rightarrow> Inr [])"

definition resolve_symbol_target :: "code_environment \<Rightarrow> repository \<Rightarrow> string \<Rightarrow> (string \<times> int \<times> int) result" where
  "resolve_symbol_target code rp symbol_id =
     ebind (check (startswith symbol_id ''entity:'') (ValueErr (''unsupported symbol id format: '' @ quoted symbol_id))) (\<lambda>_.
     let parts = split_on CHR '':'' symbol_id in
     ebind (check (4 \<le> length parts) (ValueErr (''unsupported symbol id format: '' @ quoted symbol_id))) (\<lambda>_.
     ebind (normalize_repository_relative_path (parts ! 1)) (\<lambda>path.
     ebind (list_symbols_in_file code rp path None False) (\<lambda>items.
     let exact = filter (\<lambda>e. gn_id e = symbol_id) items in
     ebind (if exact = [] then resolve_symbol_target_by_id_parts code rp symbol_id path else Inr exact) (\<lambda>matches.
     case matches of
       [] \<Rightarrow> Inl (ValueErr (''symbol id could not be resolved: '' @ quoted symbol_id))
     | [m] \<Rightarrow>
         (case (ei_line_start m, ei_column_start m) of
            (Some l, Some c) \<Rightarrow> Inr (path, l, c)
          | _ \<Rightarrow> Inl (ValueErr (''symbol id has no usable location: '' @ quoted symbol_id)))
     | _ \<Rightarrow> Inl (ValueErr (''symbol id resolved ambiguously: '' @ quoted symbol_id)))))))"

definition resolve_lookup_target :: "code_environment \<Rightarrow> repository \<Rightarrow> lookup_target \<Rightarrow> (string \<times> int \<times> int) result" where
  "resolve_lookup_target code rp target =
     (case lt_symbol_id target of
        Some i \<Rightarrow> resolve_symbol_target code rp i
      | None \<Rightarrow>
          (case (lt_repository_rel_path target, lt_line target, lt_column target) of
             (Some p, Some l, Some c) \<Rightarrow> ebind (normalize_repository_relative_path p) (\<lambda>n. Inr (n, l, c))
           | _ \<Rightarrow> Inl (ValueErr ''lookup target must include `symbol_id` or (`repository_rel_path`, `line`, `column`)'')))"

definition location_order :: "code_location \<Rightarrow> string \<times> int \<times> int \<times> string" where
  "location_order l =
     (cl_repository_rel_path l, cl_line_start l, cl_column_start l, optional_str (cl_symbol_id l))"

definition locate ::
  "code_environment \<Rightarrow> repository \<Rightarrow> (code_answers \<Rightarrow> string \<Rightarrow> int \<Rightarrow> int \<Rightarrow> code_location list result) \<Rightarrow>
   lookup_target \<Rightarrow> code_location list result" where
  "locate code rp ask target =
     ebind (resolve_lookup_target code rp target) (\<lambda>(path, line, column).
     ebind (code_providers_for_file rp path) (\<lambda>ps.
     ebind (ask_providers (\<lambda>p. ask (code p) path line column) ps) (\<lambda>items.
       Inr (sort_key location_order items))))"

definition find_definition :: "code_environment \<Rightarrow> repository \<Rightarrow> lookup_target \<Rightarrow> code_location list result" where
  "find_definition code rp target = locate code rp ca_find_definition target"

definition find_references :: "code_environment \<Rightarrow> repository \<Rightarrow> lookup_target \<Rightarrow> bool \<Rightarrow> code_location list result" where
  "find_references code rp target include_definition =
     locate code rp (\<lambda>a path line column. ca_find_references a path line column include_definition) target"

definition find_implementations :: "code_environment \<Rightarrow> repository \<Rightarrow> lookup_target \<Rightarrow> code_location list result" where
  "find_implementations code rp target = locate code rp ca_find_implementations target"

definition symbol_target :: "string \<Rightarrow> lookup_target result" where
  "symbol_target i =
     validate_lookup_target \<lparr>lt_symbol_id = Some i, lt_repository_rel_path = None, lt_line = None, lt_column = None\<rparr>"

definition find_definition_by_symbol_id :: "code_environment \<Rightarrow> repository \<Rightarrow> string \<Rightarrow> code_location list result" where
  "find_definition_by_symbol_id code rp i = ebind (symbol_target i) (find_definition code rp)"

definition find_references_by_symbol_id :: "code_environment \<Rightarrow> repository \<Rightarrow> string \<Rightarrow> bool \<Rightarrow> code_location list result" where
  "find_references_by_symbol_id code rp i include_definition =
     ebind (symbol_target i) (\<lambda>t. find_references code rp t include_definition)"

definition find_implementations_by_symbol_id :: "code_environment \<Rightarrow> repository \<Rightarrow> string \<Rightarrow> code_location list result" where
  "find_implementations_by_symbol_id code rp i = ebind (symbol_target i) (find_implementations code rp)"

section \<open>A sample repository with a code provider\<close>

definition code_sample_provider :: provider where
  "code_sample_provider = sample_provider\<lparr>pv_implements := [ROLE_ARCHITECTURE, ROLE_CODE]\<rparr>"

definition code_sample_repository :: repository where
  "code_sample_repository =
     \<lparr>rp_root = ''/r'', rp_providers = [code_sample_provider],
      rp_roles = (\<lambda>i. if i = ''npm'' then [ROLE_ARCHITECTURE, ROLE_CODE] else [])\<rparr>"

definition sample_capability :: "string \<Rightarrow> runtime_capability" where
  "sample_capability i =
     \<lparr>cap_capability_id = i, cap_availability = RC_AVAILABLE, cap_source_kind = SK_LSP, cap_source_tool = Some ''tsserver'',
      cap_reason = None, cap_provenance = [sample_entry SK_LSP []]\<rparr>"

definition sample_symbol :: entity_info where
  "sample_symbol =
     \<lparr>gn_id = ''entity:src/a/x.ts:class:Queue:3-9'', gn_name = ''Queue'', gn_evidence_ids = [],
      gn_provenance = [sample_entry SK_LSP [''src/a/x.ts'']], ei_repository_rel_path = ''src/a/x.ts'', ei_entity_kind = ''class'',
      ei_line_start = Some 3, ei_line_end = Some 9, ei_column_start = Some 1, ei_column_end = None, ei_signature = None\<rparr>"

definition sample_location :: "string \<Rightarrow> int \<Rightarrow> code_location" where
  "sample_location path line =
     \<lparr>cl_repository_rel_path = path, cl_line_start = line, cl_line_end = None, cl_column_start = 1, cl_column_end = None,
      cl_symbol_id = None, cl_provenance = [sample_entry SK_LSP [path]]\<rparr>"

text \<open>Answers of a provider that knows one class in one file.\<close>

definition sample_answers :: code_answers where
  "sample_answers =
     \<lparr>ca_capabilities = \<lparr>cc_structural_symbols = None, cc_symbol_search = sample_capability ''search'',
        cc_symbols_in_file = sample_capability ''symbols'', cc_definitions = sample_capability ''definitions'',
        cc_references = sample_capability ''references'', cc_implementations = sample_capability ''implementations''\<rparr>,
      ca_get_symbol = (\<lambda>q c. Inr (if q = ''Queue'' then [sample_symbol] else [])),
      ca_list_symbols = (\<lambda>path q c. Inr (if path = ''src/a/x.ts'' then [sample_symbol] else [])),
      ca_list_structural_symbols = (\<lambda>path q c. Inr (if path = ''src/a/x.ts'' then [sample_symbol] else [])),
      ca_find_definition = (\<lambda>path line column. Inr [sample_location path line]),
      ca_find_references = (\<lambda>path line column d. Inr [sample_location ''src/a/y.ts'' 7, sample_location path line]),
      ca_find_implementations = (\<lambda>path line column. Inl (ValueErr ''unsupported'')),
      ca_implementation_locations = (\<lambda>path. Inr []), ca_flow_steps = (\<lambda>path. Inr []), ca_render_edges = (\<lambda>path. Inr []),
      ca_invariant_findings = (\<lambda>path. Inr []), ca_local_flow_edges = (\<lambda>path. Inr []),
      ca_relationships = (\<lambda>path. Inr []), ca_structural_relationships = (\<lambda>path. Inr [])\<rparr>"

section \<open>Symbol ids\<close>

text \<open>
  The id that \<open>make_entity_id\<close> gives a symbol leads back to it: for a path without a colon, if one
  symbol of the file has the id and a location, the id resolves to the normalised path and that
  location, so a definition is asked for exactly where the symbol is.
\<close>

theorem entity_id_resolves:
  assumes "make_entity_id path kind entity_name a b = Inr i" and "normalize_repository_relative_path path = Inr n"
    and "CHR '':'' \<notin> set n" and "normalize_repository_relative_path n = Inr n"
    and "list_symbols_in_file code rp n None False = Inr items"
    and "filter (\<lambda>e. gn_id e = i) items = [m]" and "ei_line_start m = Some l" and "ei_column_start m = Some c"
  shows "resolve_symbol_target code rp i = Inr (n, l, c) \<and>
     find_definition_by_symbol_id code rp i =
       locate code rp ca_find_definition \<lparr>lt_symbol_id = None, lt_repository_rel_path = Some n, lt_line = Some l, lt_column = Some c\<rparr>"
proof -
  obtain rest where i: "i = ''entity:'' @ n @ '':'' @ kind @ '':'' @ rest"
    using assms(1,2) by (auto simp: make_entity_id_def Let_def split: option.splits)
  have head: "split_on CHR '':'' i = ''entity'' # n # split_on CHR '':'' (kind @ '':'' @ rest)"
    unfolding i using split_on_append_sep [of "CHR '':''" n] assms(3) by simp
  have "2 \<le> length (split_on CHR '':'' (kind @ CHR '':'' # rest))"
  proof (induction kind)
    case Nil
    then show ?case by (cases rest) (auto simp: Suc_le_eq split: list.split)
  next
    case (Cons x kind)
    then show ?case by (cases "split_on CHR '':'' (kind @ CHR '':'' # rest)") auto
  qed
  then have len: "4 \<le> length (split_on CHR '':'' i)" by (simp add: head)
  have start: "startswith i ''entity:''" by (simp add: i startswith_def)
  have r: "resolve_symbol_target code rp i = Inr (n, l, c)"
    using assms(4-8) len start by (simp add: resolve_symbol_target_def head)
  have nb: "\<not> blank i" by (simp add: i py_isspace_def)
  then have t: "symbol_target i = Inr \<lparr>lt_symbol_id = Some i, lt_repository_rel_path = None, lt_line = None, lt_column = None\<rparr>"
    by (simp add: symbol_target_def validate_lookup_target_def optional_at_least_one_def)
  show ?thesis using r assms(4) by (simp add: find_definition_by_symbol_id_def t find_definition_def locate_def resolve_lookup_target_def)
qed

theorem entity_id_resolves_witness:
  "resolve_symbol_target (\<lambda>p. sample_answers) code_sample_repository ''entity:src/a/x.ts:class:Queue:3-9'' = Inr (''src/a/x.ts'', 3, 1)"
proof -
  have a: "make_entity_id ''src/a/./x.ts'' ''class'' ''Queue'' (Some 3) (Some 9) = Inr ''entity:src/a/x.ts:class:Queue:3-9''"
    by code_simp
  have b: "normalize_repository_relative_path ''src/a/./x.ts'' = Inr ''src/a/x.ts''" by code_simp
  have c: "normalize_repository_relative_path ''src/a/x.ts'' = Inr ''src/a/x.ts''" by code_simp
  have d: "list_symbols_in_file (\<lambda>p. sample_answers) code_sample_repository ''src/a/x.ts'' None False = Inr [sample_symbol]"
    by code_simp
  have e: "filter (\<lambda>e. gn_id e = ''entity:src/a/x.ts:class:Queue:3-9'') [sample_symbol] = [sample_symbol]" by code_simp
  show ?thesis
    by (rule entity_id_resolves [OF a b _ c d e, of 3 1, THEN conjunct1]) (simp_all add: sample_symbol_def)
qed

text \<open>
  A symbol whose file has a colon in its path cannot be found again: the id is split at its colons,
  so the path is cut off at the first one, and the id made for such a symbol is not resolved although
  the provider lists the symbol for that file.
\<close>

theorem colon_path_is_lost:
  "let i = ''entity:src/a:b.ts:class:Queue:3-9''; m = sample_symbol\<lparr>gn_id := i, ei_repository_rel_path := ''src/a:b.ts''\<rparr>;
     code = (\<lambda>p. sample_answers\<lparr>ca_list_symbols := (\<lambda>path q c. Inr (if path = ''src/a:b.ts'' then [m] else []))\<rparr>);
     rp = code_sample_repository\<lparr>rp_providers := [code_sample_provider\<lparr>pv_files :=
       [sample_file_of ''src/a:b.ts'' ''component:npm:a'', sample_file_of ''src/a'' ''component:npm:a'']\<rparr>]\<rparr> in
   make_entity_id ''src/a:b.ts'' ''class'' ''Queue'' (Some 3) (Some 9) = Inr i \<and>
   list_symbols_in_file code rp ''src/a:b.ts'' None False = Inr [m] \<and>
   find_definition_by_symbol_id code rp i = Inl (ValueErr (''symbol id could not be resolved: '' @ quoted i))"
  by code_simp

end
