(* ===== verification/Code_References.thy ===== *)
theory Code_References
  imports Code_Intelligence
begin

text \<open>
  The references found in one file: relationships, render edges, invariant findings, flow edges, flow
  steps and implementation locations. All six operations of \<open>core/code/code_intelligence.py\<close> gather
  the items of every provider of the file, merge the items with equal keys and sort the result.
  \<open>model_copy\<close> runs no validator; the lemmas show that merging keeps the items valid.
\<close>

section \<open>Merging by key\<close>

text \<open>\<open>merged[key] = item\<close>, or the item combined with the existing one; a dictionary keeps its order.\<close>

definition merge_step :: "('a \<Rightarrow> 'k) \<Rightarrow> ('a \<Rightarrow> 'a \<Rightarrow> 'a) \<Rightarrow> 'a \<Rightarrow> ('k \<times> 'a) list \<Rightarrow> ('k \<times> 'a) list" where
  "merge_step key combine item merged =
     AList.update (key item)
       (case map_of merged (key item) of None \<Rightarrow> item | Some existing \<Rightarrow> combine existing item) merged"

definition merge_by_key :: "('a \<Rightarrow> 'k) \<Rightarrow> ('a \<Rightarrow> 'a \<Rightarrow> 'a) \<Rightarrow> 'a list \<Rightarrow> 'a list" where
  "merge_by_key key combine items = map snd (fold (merge_step key combine) items [])"

lemma map_of_merge_fold:
  "map_of (fold (merge_step key combine) items merged) k =
     (case map_of merged k of
        Some e \<Rightarrow> Some (foldl combine e (filter (\<lambda>x. key x = k) items))
      | None \<Rightarrow> (case filter (\<lambda>x. key x = k) items of [] \<Rightarrow> None | x # xs \<Rightarrow> Some (foldl combine x xs)))"
  by (induction items arbitrary: merged) (auto simp: merge_step_def update_conv' split: option.splits)

lemma keys_merge_fold:
  "map fst (fold (merge_step key combine) items merged) = append_new (map fst merged) (map key items)"
  by (induction items arbitrary: merged) (simp_all add: merge_step_def update_keys)

lemma merge_member:
  "r \<in> set (merge_by_key key combine items) \<longleftrightarrow>
     (\<exists>k x xs. filter (\<lambda>i. key i = k) items = x # xs \<and> r = foldl combine x xs)"
proof -
  let ?m = "fold (merge_step key combine) items []"
  have d: "distinct (map fst ?m)" by (simp add: keys_merge_fold distinct_append_new)
  have "r \<in> set (merge_by_key key combine items) \<longleftrightarrow> (\<exists>k. (k, r) \<in> set ?m)"
    by (force simp: merge_by_key_def)
  also have "\<dots> \<longleftrightarrow> (\<exists>k. map_of ?m k = Some r)" using d by simp
  also have "\<dots> \<longleftrightarrow> (\<exists>k x xs. filter (\<lambda>i. key i = k) items = x # xs \<and> r = foldl combine x xs)"
  proof -
    have "map_of ?m k = Some r \<longleftrightarrow> (\<exists>x xs. filter (\<lambda>i. key i = k) items = x # xs \<and> r = foldl combine x xs)" for k
      by (cases "filter (\<lambda>i. key i = k) items") (auto simp: map_of_merge_fold)
    then show ?thesis by simp
  qed
  finally show ?thesis .
qed

text \<open>
  What the six operations share: combining keeps the key, unites the provenance and keeps what the
  validator of the item checks.
\<close>

locale merging =
  fixes key :: "'a \<Rightarrow> 'k" and prov :: "'a \<Rightarrow> provenance" and combine :: "'a \<Rightarrow> 'a \<Rightarrow> 'a" and valid :: "'a \<Rightarrow> bool"
  assumes key_combine: "key (combine a b) = key b"
    and prov_combine: "prov (combine a b) = merge_unique_provenance [prov a, prov b]"
    and valid_combine: "valid a \<Longrightarrow> valid b \<Longrightarrow> valid (combine a b)"
begin

lemma prov_combine_set: "set (prov (combine a b)) = set (prov a) \<union> set (prov b)"
  by (simp add: prov_combine merge_unique_provenance_def)

lemma foldl_key: "key x = k \<Longrightarrow> \<forall>y\<in>set ys. key y = k \<Longrightarrow> key (foldl combine x ys) = k"
  by (induction ys arbitrary: x) (simp_all add: key_combine)

lemma foldl_prov: "set (prov (foldl combine x ys)) = (\<Union>y\<in>set (x # ys). set (prov y))"
  by (induction ys arbitrary: x) (auto simp: prov_combine_set)

lemma foldl_valid: "valid x \<Longrightarrow> \<forall>y\<in>set ys. valid y \<Longrightarrow> valid (foldl combine x ys)"
  by (induction ys arbitrary: x) (simp_all add: valid_combine)

lemma merge_valid:
  assumes "\<forall>i\<in>set items. valid i" and "r \<in> set (merge_by_key key combine items)"
  shows "valid r"
proof -
  obtain k x xs where f: "filter (\<lambda>i. key i = k) items = x # xs" and r: "r = foldl combine x xs"
    using assms(2) unfolding merge_member by blast
  have "set (x # xs) \<subseteq> set items" using f by (metis filter_is_subset)
  then show ?thesis unfolding r using assms(1) by (intro foldl_valid) auto
qed

lemma merged_keys: "map key (merge_by_key key combine items) = append_new [] (map key items)"
proof -
  let ?m = "fold (merge_step key combine) items []"
  have k: "map fst ?m = append_new [] (map key items)" by (simp add: keys_merge_fold)
  have d: "distinct (map fst ?m)" by (simp add: k distinct_append_new)
  have "key r = k" if "(k, r) \<in> set ?m" for k r
  proof -
    have "map_of ?m k = Some r" using that d by simp
    then obtain x xs where f: "filter (\<lambda>i. key i = k) items = x # xs" and r: "r = foldl combine x xs"
      by (auto simp: map_of_merge_fold split: list.splits)
    have "\<forall>y\<in>set (x # xs). key y = k" by (metis (mono_tags, lifting) f mem_Collect_eq set_filter)
    then show ?thesis unfolding r by (intro foldl_key) auto
  qed
  then have "map key (map snd ?m) = map fst ?m" by (auto simp: list_eq_iff_nth_eq)
  then show ?thesis by (simp add: merge_by_key_def k)
qed

lemma merged_keys_distinct: "distinct (map key (merge_by_key key combine items))"
  by (simp add: merged_keys distinct_append_new)

lemma merged_keys_set: "key ` set (merge_by_key key combine items) = key ` set items"
  by (metis list.set_map merged_keys set_append_new set_empty2 sup_bot_left)

lemma merged_provenance:
  assumes "r \<in> set (merge_by_key key combine items)"
  shows "set (prov r) = (\<Union>i\<in>{i \<in> set items. key i = key r}. set (prov i))"
proof -
  obtain k x xs where f: "filter (\<lambda>i. key i = k) items = x # xs" and r: "r = foldl combine x xs"
    using assms unfolding merge_member by blast
  have s: "set (x # xs) = {i \<in> set items. key i = k}" by (metis f set_filter)
  then have "key r = k" unfolding r by (intro foldl_key) auto
  then show ?thesis using s foldl_prov [of x xs] by (simp add: r del: set_simps)
qed

text \<open>The result in order: what every operation of the section returns.\<close>

lemma sorted_result:
  assumes "rs = sort_key order (merge_by_key key combine items)"
  shows "distinct (map key rs)" "sorted (map order rs)" "key ` set rs = key ` set items"
    and "r \<in> set rs \<Longrightarrow> set (prov r) = (\<Union>i\<in>{i \<in> set items. key i = key r}. set (prov i))"
    and "\<forall>i\<in>set items. valid i \<Longrightarrow> r \<in> set rs \<Longrightarrow> valid r"
  using merged_keys_distinct [of items]
  by (simp_all add: assms distinct_map merged_keys_set merged_provenance merge_valid)

end

section \<open>The operations\<close>

definition ask_file :: "repository \<Rightarrow> string \<Rightarrow> (provider \<Rightarrow> string \<Rightarrow> 'a list result) \<Rightarrow> 'a list result" where
  "ask_file rp path ask =
     ebind (normalize_repository_relative_path path) (\<lambda>n.
     ebind (code_providers_for_file rp n) (\<lambda>ps. ask_providers (\<lambda>p. ask p n) ps))"

definition implementation_location_key :: "code_location \<Rightarrow> string \<times> int \<times> int \<times> int option \<times> int option \<times> string option" where
  "implementation_location_key l =
     (cl_repository_rel_path l, cl_line_start l, cl_column_start l, cl_line_end l, cl_column_end l, cl_symbol_id l)"

definition merge_location :: "code_location \<Rightarrow> code_location \<Rightarrow> code_location" where
  "merge_location existing item =
     item\<lparr>cl_provenance := merge_unique_provenance [cl_provenance existing, cl_provenance item]\<rparr>"

definition get_file_implementation_locations :: "code_environment \<Rightarrow> repository \<Rightarrow> string \<Rightarrow> code_location list result" where
  "get_file_implementation_locations code rp path =
     ebind (ask_file rp path (\<lambda>p. ca_implementation_locations (code p))) (\<lambda>items.
       Inr (sort_key location_order (merge_by_key implementation_location_key merge_location items)))"

definition flow_step_key :: "flow_step \<Rightarrow> string \<times> int \<times> int \<times> string \<times> string \<times> string option \<times> string option" where
  "flow_step_key s =
     (fs_repository_rel_path s, fs_line_start s, fs_column_start s, flow_step_kind_value (fs_step_kind s),
      fs_source_label s, fs_target_label s, fs_detail_label s)"

definition flow_step_order :: "flow_step \<Rightarrow> string \<times> int \<times> int \<times> string \<times> string \<times> string \<times> string" where
  "flow_step_order s =
     (fs_repository_rel_path s, fs_line_start s, fs_column_start s, flow_step_kind_value (fs_step_kind s),
      fs_source_label s, optional_str (fs_target_label s), optional_str (fs_detail_label s))"

definition merge_flow_step :: "flow_step \<Rightarrow> flow_step \<Rightarrow> flow_step" where
  "merge_flow_step existing item =
     item\<lparr>fs_provenance := merge_unique_provenance [fs_provenance existing, fs_provenance item]\<rparr>"

definition get_file_implementation_flow_steps :: "code_environment \<Rightarrow> repository \<Rightarrow> string \<Rightarrow> flow_step list result" where
  "get_file_implementation_flow_steps code rp path =
     ebind (ask_file rp path (\<lambda>p. ca_flow_steps (code p))) (\<lambda>items.
       Inr (sort_key flow_step_order (merge_by_key flow_step_key merge_flow_step items)))"

definition render_edge_key :: "render_edge \<Rightarrow> render_edge_kind \<times> string \<times> int \<times> int \<times> string list \<times> bool" where
  "render_edge_key r =
     (rd_relationship_kind r, rd_repository_rel_path r, rd_line_start r, rd_column_start r, rd_prop_names r, rd_has_spread_props r)"

definition render_edge_order :: "render_edge \<Rightarrow> string \<times> string \<times> int \<times> int \<times> string list \<times> bool" where
  "render_edge_order r =
     (render_edge_kind_value (rd_relationship_kind r), rd_repository_rel_path r, rd_line_start r, rd_column_start r,
      rd_prop_names r, rd_has_spread_props r)"

definition merge_render_edge :: "render_edge \<Rightarrow> render_edge \<Rightarrow> render_edge" where
  "merge_render_edge existing item =
     item\<lparr>rd_provenance := merge_unique_provenance [rd_provenance existing, rd_provenance item]\<rparr>"

definition get_file_render_edges ::
  "code_environment \<Rightarrow> repository \<Rightarrow> string \<Rightarrow> render_edge_kind option \<Rightarrow> render_edge list result" where
  "get_file_render_edges code rp path kind =
     ebind (ask_file rp path (\<lambda>p. ca_render_edges (code p))) (\<lambda>items.
       Inr (sort_key render_edge_order (merge_by_key render_edge_key merge_render_edge
         (filter (\<lambda>r. kind = None \<or> kind = Some (rd_relationship_kind r)) items))))"

definition invariant_finding_key :: "invariant_finding \<Rightarrow> string \<times> int \<times> int \<times> string \<times> string" where
  "invariant_finding_key f =
     (if_repository_rel_path f, if_line_start f, if_column_start f, if_field_name f, if_subject_label f)"

definition site_key :: "analysis_site \<Rightarrow> string \<times> int \<times> int \<times> string" where
  "site_key s = (as_repository_rel_path s, as_line_start s, as_column_start s, as_label s)"

definition merge_sites :: "analysis_site list \<Rightarrow> analysis_site list" where
  "merge_sites sites =
     fold (\<lambda>s merged. if site_key s \<in> site_key ` set merged then merged else merged @ [s]) sites []"

definition merge_finding :: "invariant_finding \<Rightarrow> invariant_finding \<Rightarrow> invariant_finding" where
  "merge_finding existing item =
     (let sites = merge_sites (if_producer_sites existing @ if_producer_sites item) in
      item\<lparr>if_producer_site_count := int (length sites), if_producer_sites := sites,
           if_provenance := merge_unique_provenance [if_provenance existing, if_provenance item]\<rparr>)"

definition get_file_invariant_findings :: "code_environment \<Rightarrow> repository \<Rightarrow> string \<Rightarrow> invariant_finding list result" where
  "get_file_invariant_findings code rp path =
     ebind (ask_file rp path (\<lambda>p. ca_invariant_findings (code p))) (\<lambda>items.
       Inr (sort_key invariant_finding_key (merge_by_key invariant_finding_key merge_finding items)))"

definition flow_edge_key :: "static_flow_edge \<Rightarrow> string \<times> int \<times> int \<times> string \<times> string \<times> string" where
  "flow_edge_key e =
     (sf_repository_rel_path e, sf_line_start e, sf_column_start e, static_flow_edge_kind_value (sf_edge_kind e),
      sf_source_label e, sf_target_label e)"

definition merge_flow_edge :: "static_flow_edge \<Rightarrow> static_flow_edge \<Rightarrow> static_flow_edge" where
  "merge_flow_edge existing item =
     item\<lparr>sf_provenance := merge_unique_provenance [sf_provenance existing, sf_provenance item]\<rparr>"

definition get_file_local_flow_edges :: "code_environment \<Rightarrow> repository \<Rightarrow> string \<Rightarrow> static_flow_edge list result" where
  "get_file_local_flow_edges code rp path =
     ebind (ask_file rp path (\<lambda>p. ca_local_flow_edges (code p))) (\<lambda>items.
       Inr (sort_key flow_edge_key (merge_by_key flow_edge_key merge_flow_edge items)))"

section \<open>Relationships between files\<close>

definition relationship_key :: "file_relationship \<Rightarrow> file_relationship_kind \<times> string" where
  "relationship_key r = (fr_relationship_kind r, fr_repository_rel_path r)"

definition relationship_order :: "file_relationship \<Rightarrow> string \<times> string" where
  "relationship_order r = (file_relationship_kind_value (fr_relationship_kind r), fr_repository_rel_path r)"

definition merge_relationship :: "file_relationship \<Rightarrow> file_relationship \<Rightarrow> file_relationship" where
  "merge_relationship existing item =
     item\<lparr>fr_provenance := merge_unique_provenance [fr_provenance existing, fr_provenance item]\<rparr>"

definition projected_relationship ::
  "string \<Rightarrow> string \<Rightarrow> file_relationship_kind \<Rightarrow> string \<Rightarrow> provenance \<Rightarrow> file_relationship result" where
  "projected_relationship source_path target_path kind target_component_name p =
     (let direction = (if kind = IMPORTS then ''imported component artifact files'' else ''dependent component artifact files'') in
      ebind (preferred_source_tool p) (\<lambda>tool.
      ebind (if p = [] then Inr [source_path, target_path]
             else ebind (merge_provenance_paths p 10) (\<lambda>ps. Inr (take 10 ps))) (\<lambda>paths.
      ebind (derived_summary_provenance SK_DEPENDENCY_GRAPH tool
        (''derived from component dependency graph and projected to '' @ direction @ '' for '' @ quoted target_component_name)
        paths) (\<lambda>projected.
        validate_file_relationship
          \<lparr>fr_repository_rel_path = target_path, fr_relationship_kind = kind, fr_provenance = p @ [projected]\<rparr>))))"

text \<open>The artifact files of a component, each related to the given file.\<close>

definition project_component ::
  "string \<Rightarrow> file_relationship_kind \<Rightarrow> provenance \<Rightarrow> component \<Rightarrow> file_relationship list result" where
  "project_component path kind p c =
     mapE (\<lambda>artifact. projected_relationship path artifact kind (gn_name c) p)
       (filter (\<lambda>artifact. artifact \<noteq> path) (co_artifact_paths c))"

definition components_by_id :: "repository \<Rightarrow> string \<Rightarrow> component option" where
  "components_by_id rp = map_of (rev (map (\<lambda>c. (gn_id c, c)) (get_components rp)))"

definition project_imports :: "repository \<Rightarrow> string \<Rightarrow> component \<Rightarrow> file_relationship list result" where
  "project_imports rp path primary =
     ebind (get_component_dependencies rp (gn_id primary)) (\<lambda>refs.
     ebind (mapE (\<lambda>r.
         if dr_target_kind r \<noteq> ''component'' then Inr []
         else case components_by_id rp (dr_target_id r) of
                None \<Rightarrow> Inr []
              | Some c \<Rightarrow> project_component path IMPORTS (dr_provenance r) c) refs)
       (\<lambda>rss. Inr (concat rss)))"

definition project_dependents :: "repository \<Rightarrow> string \<Rightarrow> component \<Rightarrow> file_relationship list result" where
  "project_dependents rp path primary =
     ebind (get_component_dependents rp (gn_id primary)) (\<lambda>ids.
     ebind (mapE (\<lambda>i.
         case components_by_id rp i of
           None \<Rightarrow> Inr []
         | Some c \<Rightarrow>
             ebind (dependency_edges_of rp i) (\<lambda>es.
               let edges = filter (\<lambda>e. ce_target_kind e = ''component'' \<and> ce_target_id e = gn_id primary) es in
               if edges = [] then Inr []
               else project_component path IMPORTED_BY (merge_unique_provenance (map ce_provenance edges)) c)) ids)
       (\<lambda>rss. Inr (concat rss)))"

definition architecture_projected_file_relationships ::
  "repository \<Rightarrow> string \<Rightarrow> file_relationship_kind option \<Rightarrow> file_relationship list result" where
  "architecture_projected_file_relationships rp path kind =
     ebind (get_file_owner rp path) (\<lambda>w.
     ebind (primary_component_for_file rp path (oi_id (fo_owner w))) (\<lambda>primary.
     case primary of
       None \<Rightarrow> Inr []
     | Some c \<Rightarrow>
         ebind (if kind \<in> {None, Some IMPORTS} then project_imports rp path c else Inr []) (\<lambda>imports.
         ebind (if kind \<in> {None, Some IMPORTED_BY} then project_dependents rp path c else Inr []) (\<lambda>dependents.
           Inr (sort_key relationship_order (merge_by_key relationship_key (\<lambda>_ item. item) (imports @ dependents)))))))"

datatype evidence_tier = STRUCTURAL | SEMANTIC

definition get_file_relationships ::
  "code_environment \<Rightarrow> repository \<Rightarrow> string \<Rightarrow> file_relationship_kind option \<Rightarrow> evidence_tier \<Rightarrow> file_relationship list result" where
  "get_file_relationships code rp path kind tier =
     ebind (normalize_repository_relative_path path) (\<lambda>n.
     ebind (ask_file rp path (\<lambda>p. if tier = STRUCTURAL then ca_structural_relationships (code p) else ca_relationships (code p))) (\<lambda>items.
     let merged = merge_by_key relationship_key merge_relationship
           (filter (\<lambda>r. kind = None \<or> kind = Some (fr_relationship_kind r)) items) in
     ebind (if merged \<noteq> [] then Inr merged
            else ebind (architecture_projected_file_relationships rp n kind) (\<lambda>projected.
              Inr (merge_by_key relationship_key (\<lambda>_ item. item) projected))) (\<lambda>rs.
       Inr (sort_key relationship_order rs))))"

section \<open>The operations merge by key\<close>

lemma merge_unique_union: "set (merge_unique_provenance [p, q]) = set p \<union> set q"
  by (simp add: merge_unique_provenance_def)

lemma merge_unique_Nil: "merge_unique_provenance [p, q] = [] \<longleftrightarrow> p = [] \<and> q = []"
  by (simp add: merge_unique_provenance_def)

lemmas merging_simps = merge_unique_union merge_unique_Nil ebind_Inr_iff image_Un

lemma merge_location_valid:
  "validate_code_location a = Inr a \<Longrightarrow> validate_code_location b = Inr b \<Longrightarrow>
     validate_code_location (merge_location a b) = Inr (merge_location a b)"
  by (cases a; cases b) (auto simp: merge_location_def validate_code_location_def merging_simps split: option.splits)

interpretation locations: merging implementation_location_key cl_provenance merge_location "\<lambda>l. validate_code_location l = Inr l"
  by unfold_locales (simp_all add: implementation_location_key_def merge_location_def merge_location_valid [unfolded merge_location_def])

lemma merge_flow_step_valid:
  "validate_flow_step a = Inr a \<Longrightarrow> validate_flow_step b = Inr b \<Longrightarrow>
     validate_flow_step (merge_flow_step a b) = Inr (merge_flow_step a b)"
  by (cases a; cases b) (auto simp: merge_flow_step_def validate_flow_step_def merging_simps)

interpretation flow_steps: merging flow_step_key fs_provenance merge_flow_step "\<lambda>s. validate_flow_step s = Inr s"
  by unfold_locales (simp_all add: flow_step_key_def merge_flow_step_def merge_flow_step_valid [unfolded merge_flow_step_def])

lemma merge_render_edge_valid:
  "validate_render_edge a = Inr a \<Longrightarrow> validate_render_edge b = Inr b \<Longrightarrow>
     validate_render_edge (merge_render_edge a b) = Inr (merge_render_edge a b)"
  by (cases a; cases b) (auto simp: merge_render_edge_def validate_render_edge_def merging_simps)

interpretation render_edges: merging render_edge_key rd_provenance merge_render_edge "\<lambda>r. validate_render_edge r = Inr r"
  by unfold_locales (simp_all add: render_edge_key_def merge_render_edge_def merge_render_edge_valid [unfolded merge_render_edge_def])

lemma merge_flow_edge_valid:
  "validate_static_flow_edge a = Inr a \<Longrightarrow> validate_static_flow_edge b = Inr b \<Longrightarrow>
     validate_static_flow_edge (merge_flow_edge a b) = Inr (merge_flow_edge a b)"
  by (cases a; cases b) (auto simp: merge_flow_edge_def validate_static_flow_edge_def merging_simps)

interpretation flow_edges: merging flow_edge_key sf_provenance merge_flow_edge "\<lambda>e. validate_static_flow_edge e = Inr e"
  by unfold_locales (simp_all add: flow_edge_key_def merge_flow_edge_def merge_flow_edge_valid [unfolded merge_flow_edge_def])

lemma merge_relationship_valid:
  "validate_file_relationship a = Inr a \<Longrightarrow> validate_file_relationship b = Inr b \<Longrightarrow>
     validate_file_relationship (merge_relationship a b) = Inr (merge_relationship a b)"
  by (cases a; cases b) (auto simp: merge_relationship_def validate_file_relationship_def merging_simps)

interpretation relationships: merging relationship_key fr_provenance merge_relationship "\<lambda>r. validate_file_relationship r = Inr r"
  by unfold_locales (simp_all add: relationship_key_def merge_relationship_def merge_relationship_valid [unfolded merge_relationship_def])

text \<open>The sites of a merged finding: pairwise different, from the given sites, and each of them represented.\<close>

lemma merge_sites_spec:
  "distinct (map site_key (merge_sites sites)) \<and> set (merge_sites sites) \<subseteq> set sites \<and>
     site_key ` set (merge_sites sites) = site_key ` set sites"
proof (induction sites rule: rev_induct)
  case (snoc s sites)
  then show ?case by (auto simp: merge_sites_def)
qed (simp add: merge_sites_def)

lemma merge_finding_valid:
  "validate_invariant_finding a = Inr a \<Longrightarrow> validate_invariant_finding b = Inr b \<Longrightarrow>
     validate_invariant_finding (merge_finding a b) = Inr (merge_finding a b)"
  by (cases a; cases b) (auto simp: merge_finding_def validate_invariant_finding_def Let_def merging_simps)

interpretation findings: merging invariant_finding_key if_provenance merge_finding "\<lambda>f. validate_invariant_finding f = Inr f"
  by unfold_locales (simp_all add: invariant_finding_key_def merge_finding_def Let_def merge_finding_valid [unfolded merge_finding_def Let_def])

section \<open>Properties\<close>

text \<open>
  What several providers say of one file is merged without loss and without invention: each pair of
  kind and path is reported once, in order, exactly the pairs some provider reported for the kind asked
  for, and each carries exactly the provenance entries of all the reports of that pair.
\<close>

theorem relationships_are_merged:
  assumes "ask_file rp path (\<lambda>p. if tier = STRUCTURAL then ca_structural_relationships (code p) else ca_relationships (code p)) = Inr items"
    and "wanted = filter (\<lambda>r. kind = None \<or> kind = Some (fr_relationship_kind r)) items" and "wanted \<noteq> []"
  shows "\<exists>rs. get_file_relationships code rp path kind tier = Inr rs \<and>
     distinct (map relationship_key rs) \<and> sorted (map relationship_order rs) \<and>
     relationship_key ` set rs = relationship_key ` set wanted \<and>
     (\<forall>r\<in>set rs. set (fr_provenance r) = (\<Union>i\<in>{i \<in> set wanted. relationship_key i = relationship_key r}. set (fr_provenance i)))"
proof -
  define merged where "merged = merge_by_key relationship_key merge_relationship wanted"
  have "relationship_key ` set merged \<noteq> {}" unfolding merged_def relationships.merged_keys_set using assms(3) by simp
  then have ne: "merged \<noteq> []" by auto
  obtain n where n: "normalize_repository_relative_path path = Inr n"
    using assms(1) by (auto simp: ask_file_def ebind_Inr_iff)
  have get: "get_file_relationships code rp path kind tier = Inr (sort_key relationship_order merged)"
    using ne by (simp add: get_file_relationships_def n assms(1) assms(2) [symmetric] merged_def [symmetric] Let_def)
  note r = relationships.sorted_result [OF refl, where order = relationship_order and items = wanted]
  show ?thesis unfolding get merged_def using r by blast
qed

definition reporting_answers :: code_answers where
  "reporting_answers = sample_answers\<lparr>ca_relationships := (\<lambda>path. Inr
     [\<lparr>fr_repository_rel_path = ''src/a/y.ts'', fr_relationship_kind = IMPORTS, fr_provenance = [sample_entry SK_LSP [''a'']]\<rparr>,
      \<lparr>fr_repository_rel_path = ''src/a/y.ts'', fr_relationship_kind = IMPORTS, fr_provenance = [sample_entry SK_SYNTAX [''a'']]\<rparr>]),
   ca_invariant_findings := (\<lambda>path. Inr
     [\<lparr>if_repository_rel_path = path, if_access_kind = METHOD_CALL, if_line_start = 4, if_column_start = 2,
       if_field_name = ''next'', if_subject_label = ''queue'', if_declared_type = None, if_producer_site_count = 0,
       if_producer_sites = [], if_provenance = [sample_entry SK_SYNTAX []]\<rparr>])\<rparr>"

theorem relationships_are_merged_witness:
  "\<exists>rs. get_file_relationships (\<lambda>p. reporting_answers) code_sample_repository ''src/a/x.ts'' None SEMANTIC = Inr rs \<and>
     distinct (map relationship_key rs) \<and> relationship_key ` set rs = {(IMPORTS, ''src/a/y.ts'')}"
proof -
  let ?items = "case ca_relationships reporting_answers [] of Inr is \<Rightarrow> is | Inl e \<Rightarrow> []"
  have a: "ask_file code_sample_repository ''src/a/x.ts''
      (\<lambda>p. if SEMANTIC = STRUCTURAL then ca_structural_relationships reporting_answers else ca_relationships reporting_answers) = Inr ?items"
    by code_simp
  have "relationship_key ` set ?items = {(IMPORTS, ''src/a/y.ts'')}" by (simp add: reporting_answers_def relationship_key_def)
  moreover have "?items \<noteq> []" by (simp add: reporting_answers_def)
  ultimately show ?thesis
    using relationships_are_merged [OF a, of "filter (\<lambda>r. True) ?items" None] by auto
qed

text \<open>
  C24. Merging findings keeps them valid although \<open>model_copy\<close> runs no validator: if every provider
  reports valid findings, every finding returned for the file is one the validator accepts as it is; in
  particular its count is the number of its sites and its provenance is not heuristic.
\<close>

theorem merged_findings_stay_valid:
  assumes "ask_file rp path (\<lambda>p. ca_invariant_findings (code p)) = Inr items"
    and "\<forall>f\<in>set items. validate_invariant_finding f = Inr f"
    and "get_file_invariant_findings code rp path = Inr fs" and "f \<in> set fs"
  shows "validate_invariant_finding f = Inr f \<and> if_producer_site_count f = int (length (if_producer_sites f)) \<and>
     if_provenance f \<noteq> [] \<and> SK_HEURISTIC \<notin> pe_source_kind ` set (if_provenance f)"
proof -
  have "fs = sort_key invariant_finding_key (merge_by_key invariant_finding_key merge_finding items)"
    using assms(1,3) by (simp add: get_file_invariant_findings_def)
  then have v: "validate_invariant_finding f = Inr f" using findings.sorted_result(5) assms(2,4) by blast
  then show ?thesis by (auto simp: validate_invariant_finding_def ebind_Inr_iff)
qed

theorem merged_findings_stay_valid_witness:
  "\<exists>f. get_file_invariant_findings (\<lambda>p. reporting_answers) code_sample_repository ''src/a/x.ts'' = Inr [f] \<and>
     validate_invariant_finding f = Inr f"
proof -
  let ?items = "case ca_invariant_findings reporting_answers ''src/a/x.ts'' of Inr is \<Rightarrow> is | Inl e \<Rightarrow> []"
  have a: "ask_file code_sample_repository ''src/a/x.ts'' (\<lambda>p. ca_invariant_findings reporting_answers) = Inr ?items"
    by code_simp
  have b: "\<forall>f\<in>set ?items. validate_invariant_finding f = Inr f" by code_simp
  have c: "get_file_invariant_findings (\<lambda>p. reporting_answers) code_sample_repository ''src/a/x.ts'' = Inr [hd ?items]"
    by code_simp
  show ?thesis using merged_findings_stay_valid [OF a b c] c by auto
qed

end
