(* ===== verification/Code_Capabilities.thy ===== *)
theory Code_Capabilities
  imports Code_Intelligence
begin

text \<open>
  What a code provider can really do (\<open>_verified_runtime_capabilities\<close> in
  \<open>core/code/code_intelligence.py\<close>): a provider's claim that an operation is available is checked on
  up to ten symbols of its own files, and degraded when no symbol confirms it.
\<close>

section \<open>Candidates\<close>

definition normal_root :: "string \<Rightarrow> string" where
  "normal_root path = replace_char (CHR 0x5C) (CHR ''/'') (strip_slashes (strip path))"

definition is_under_any_root :: "string \<Rightarrow> string list \<Rightarrow> bool" where
  "is_under_any_root path roots \<longleftrightarrow>
     (\<exists>root\<in>set roots. normal_root root \<noteq> [] \<and> under_path (normal_root path) (normal_root root))"

definition component_source_roots_for_provider :: "repository \<Rightarrow> string \<Rightarrow> string list result" where
  "component_source_roots_for_provider rp provider_id =
     ebind (mapE (\<lambda>c.
       case provider_id_for_owner rp (gn_id c) of
         Inl (ValueErr m) \<Rightarrow> Inr []
       | Inl e \<Rightarrow> Inl e
       | Inr i \<Rightarrow> Inr (if i = provider_id then filter (\<lambda>root. root \<noteq> []) (co_source_roots c) else [])) (get_components rp))
     (\<lambda>roots. Inr (concat roots))"

definition candidate_file :: "repository \<Rightarrow> provider \<Rightarrow> string list \<Rightarrow> file_info \<Rightarrow> file_info list result" where
  "candidate_file rp p roots f =
     ebind (provider_id_for_owner rp (fi_owner_id f)) (\<lambda>i.
       Inr (if i = pv_id p \<and> attachment_contains_path (pv_root p) (fi_repository_rel_path f) \<and>
               (roots = [] \<or> is_under_any_root (fi_repository_rel_path f) roots) then [f] else []))"

definition candidate_files_for_provider :: "repository \<Rightarrow> provider \<Rightarrow> file_info list result" where
  "candidate_files_for_provider rp p =
     ebind (component_source_roots_for_provider rp (pv_id p)) (\<lambda>roots.
     ebind (mapE (candidate_file rp p roots) (get_files rp)) (\<lambda>fss.
       Inr (sort_key fi_repository_rel_path (concat fss))))"

text \<open>\<open>str.isalnum\<close> and \<open>str.isupper\<close> of one character below 256.\<close>

definition py_isalnum :: "char \<Rightarrow> bool" where
  "py_isalnum c \<longleftrightarrow>
     (let n = (of_char c :: nat) in
      (48 \<le> n \<and> n \<le> 57) \<or> (65 \<le> n \<and> n \<le> 90) \<or> (97 \<le> n \<and> n \<le> 122) \<or>
      n \<in> {170, 178, 179, 181, 185, 186, 188, 189, 190} \<or> (192 \<le> n \<and> n \<noteq> 215 \<and> n \<noteq> 247))"

definition py_isupper :: "char \<Rightarrow> bool" where
  "py_isupper c \<longleftrightarrow> lower_char c \<noteq> c"

definition is_searchable_symbol_name :: "string \<Rightarrow> bool" where
  "is_searchable_symbol_name name \<longleftrightarrow> name \<noteq> [] \<and> (\<forall>c\<in>set name. c = CHR ''_'' \<or> py_isalnum c)"

definition candidate_order :: "entity_info \<Rightarrow> int \<times> int \<times> int \<times> string \<times> string" where
  "candidate_order e =
     (if gn_name e \<noteq> [] \<and> py_isupper (hd (gn_name e)) then - 1 else 0, or_default (10 ^ 9) (ei_line_start e),
      or_default (10 ^ 9) (ei_column_start e), gn_name e, gn_id e)"

definition searchable_symbol_candidates :: "entity_info list \<Rightarrow> entity_info list" where
  "searchable_symbol_candidates symbols =
     take 5 (sort_key candidate_order (filter (\<lambda>e. is_searchable_symbol_name (gn_name e)) symbols))"

section \<open>The check of one provider\<close>

definition refer_to_same_anchor :: "entity_info \<Rightarrow> entity_info \<Rightarrow> bool" where
  "refer_to_same_anchor left right \<longleftrightarrow> gn_id left = gn_id right \<or>
     (ei_repository_rel_path left = ei_repository_rel_path right \<and> gn_name left = gn_name right \<and>
      ei_entity_kind left = ei_entity_kind right \<and> ei_line_start left = ei_line_start right)"

definition has_workspace_symbol_match :: "code_answers \<Rightarrow> entity_info \<Rightarrow> bool result" where
  "has_workspace_symbol_match ca s =
     ebind (no_answer (ca_get_symbol ca (gn_name s) True)) (\<lambda>matches. Inr (\<exists>m\<in>set matches. refer_to_same_anchor m s))"

definition has_definition :: "code_answers \<Rightarrow> string \<Rightarrow> int \<Rightarrow> int \<Rightarrow> bool result" where
  "has_definition ca path line column =
     ebind (no_answer (ca_find_definition ca path line column)) (\<lambda>ls. Inr (ls \<noteq> []))"

definition has_references :: "code_answers \<Rightarrow> string \<Rightarrow> int \<Rightarrow> int \<Rightarrow> bool result" where
  "has_references ca path line column =
     ebind (no_answer (ca_find_references ca path line column True)) (\<lambda>ls. Inr (ls \<noteq> []))"

record symbol_coverage =
  sy_representative_file :: string
  sy_representative_symbol :: entity_info
  sy_has_workspace_match :: bool
  sy_has_definition :: bool
  sy_has_references :: bool

text \<open>The loops return early: \<open>Inl\<close> is the returned value, \<open>Inr\<close> the state to go on with.\<close>

type_synonym probe_state = "nat \<times> symbol_coverage option"

fun probe_symbols ::
  "code_answers \<Rightarrow> string \<Rightarrow> entity_info list \<Rightarrow> probe_state \<Rightarrow> (symbol_coverage option + probe_state) result" where
  "probe_symbols ca path [] (checked, first) = Inr (Inr (checked, first))"
| "probe_symbols ca path (s # ss) (checked, first) =
     (case (ei_line_start s, ei_column_start s) of
        (Some line, Some column) \<Rightarrow>
          if 10 < Suc checked then Inr (Inl first)
          else ebind (has_workspace_symbol_match ca s) (\<lambda>matched.
            if \<not> matched
            then probe_symbols ca path ss (Suc checked,
                   case first of
                     None \<Rightarrow> Some \<lparr>sy_representative_file = path, sy_representative_symbol = s, sy_has_workspace_match = False,
                                  sy_has_definition = False, sy_has_references = False\<rparr>
                   | Some c \<Rightarrow> Some c)
            else ebind (has_definition ca path line column) (\<lambda>d.
                 ebind (has_references ca path line column) (\<lambda>r.
                   Inr (Inl (Some \<lparr>sy_representative_file = path, sy_representative_symbol = s, sy_has_workspace_match = True,
                                   sy_has_definition = d, sy_has_references = r\<rparr>)))))
      | _ \<Rightarrow> probe_symbols ca path ss (checked, first))"

fun probe_files :: "code_answers \<Rightarrow> file_info list \<Rightarrow> probe_state \<Rightarrow> (symbol_coverage option) result" where
  "probe_files ca [] (checked, first) = Inr first"
| "probe_files ca (f # fs) st =
     ebind (no_answer (ca_list_symbols ca (fi_repository_rel_path f) None False)) (\<lambda>symbols.
     ebind (probe_symbols ca (fi_repository_rel_path f) (searchable_symbol_candidates symbols) st) (\<lambda>outcome.
       case outcome of
         Inl found \<Rightarrow> Inr found
       | Inr st' \<Rightarrow> probe_files ca fs st'))"

definition provider_symbol_coverage :: "code_environment \<Rightarrow> repository \<Rightarrow> provider \<Rightarrow> (symbol_coverage option) result" where
  "provider_symbol_coverage code rp p =
     ebind (candidate_files_for_provider rp p) (\<lambda>fs. probe_files (code p) fs (0, None))"

section \<open>Degrading\<close>

definition degrade_runtime_capability :: "string \<Rightarrow> runtime_capability \<Rightarrow> runtime_capability" where
  "degrade_runtime_capability reason c =
     (if cap_availability c \<noteq> RC_AVAILABLE then c else c\<lparr>cap_availability := RC_DEGRADED, cap_reason := Some reason\<rparr>)"

definition code_operations :: "code_capabilities \<Rightarrow> runtime_capability list" where
  "code_operations cc = [cc_symbol_search cc, cc_symbols_in_file cc, cc_definitions cc, cc_references cc, cc_implementations cc]"

definition degrade_unless :: "bool \<Rightarrow> string \<Rightarrow> runtime_capability \<Rightarrow> runtime_capability" where
  "degrade_unless shown reason c = (if shown then c else degrade_runtime_capability reason c)"

definition without_symbols :: string where
  "without_symbols = ''provider-backed symbol coverage produced no symbols on representative owned files''"

definition verify_capabilities :: "symbol_coverage option \<Rightarrow> code_capabilities \<Rightarrow> code_capabilities" where
  "verify_capabilities coverage cc =
     (case coverage of
        None \<Rightarrow>
          \<lparr>cc_structural_symbols = cc_structural_symbols cc,
           cc_symbol_search = degrade_runtime_capability without_symbols (cc_symbol_search cc),
           cc_symbols_in_file = degrade_runtime_capability without_symbols (cc_symbols_in_file cc),
           cc_definitions = degrade_runtime_capability without_symbols (cc_definitions cc),
           cc_references = degrade_runtime_capability without_symbols (cc_references cc),
           cc_implementations = degrade_runtime_capability without_symbols (cc_implementations cc)\<rparr>
      | Some sc \<Rightarrow>
          let name = quoted (gn_name (sy_representative_symbol sc)); file = quoted (sy_representative_file sc) in
          \<lparr>cc_structural_symbols = cc_structural_symbols cc,
           cc_symbol_search = degrade_unless (sy_has_workspace_match sc)
             (''exact symbol search returned no provider-backed match for '' @ name) (cc_symbol_search cc),
           cc_symbols_in_file = cc_symbols_in_file cc,
           cc_definitions = degrade_unless (sy_has_definition sc)
             (''provider-backed definition lookup returned no result for '' @ name @ '' in '' @ file) (cc_definitions cc),
           cc_references = degrade_unless (sy_has_references sc)
             (''provider-backed reference lookup returned no result for '' @ name @ '' in '' @ file) (cc_references cc),
           cc_implementations = cc_implementations cc\<rparr>)"

definition verified_runtime_capabilities :: "code_environment \<Rightarrow> repository \<Rightarrow> provider \<Rightarrow> code_capabilities result" where
  "verified_runtime_capabilities code rp p =
     (let cc = ca_capabilities (code p) in
      if \<forall>c\<in>set (code_operations cc). cap_availability c \<noteq> RC_AVAILABLE then Inr cc
      else ebind (provider_symbol_coverage code rp p) (\<lambda>coverage. Inr (verify_capabilities coverage cc)))"

definition code_runtime_capabilities :: "code_environment \<Rightarrow> repository \<Rightarrow> code_capabilities list result" where
  "code_runtime_capabilities code rp = mapE (verified_runtime_capabilities code rp) (code_providers rp)"

section \<open>Every claim left has evidence\<close>

lemma no_answer_Inr: "no_answer r = Inr xs \<Longrightarrow> x \<in> set xs \<Longrightarrow> r = Inr xs"
  by (auto simp: no_answer_def split: sum.splits err.splits)

definition coverage_of :: "code_answers \<Rightarrow> string \<Rightarrow> entity_info list \<Rightarrow> symbol_coverage \<Rightarrow> bool" where
  "coverage_of ca path symbols c \<longleftrightarrow>
     sy_representative_file c = path \<and> sy_representative_symbol c \<in> set symbols \<and>
     is_searchable_symbol_name (gn_name (sy_representative_symbol c)) \<and>
     (sy_has_workspace_match c \<longrightarrow> (\<exists>ms. ca_get_symbol ca (gn_name (sy_representative_symbol c)) True = Inr ms \<and>
        (\<exists>m\<in>set ms. refer_to_same_anchor m (sy_representative_symbol c)))) \<and>
     (\<exists>line column. ei_line_start (sy_representative_symbol c) = Some line \<and>
        ei_column_start (sy_representative_symbol c) = Some column \<and>
        (sy_has_definition c \<longrightarrow> (\<exists>l ls. ca_find_definition ca path line column = Inr (l # ls))) \<and>
        (sy_has_references c \<longrightarrow> (\<exists>l ls. ca_find_references ca path line column True = Inr (l # ls))))"

lemma has_definition_shown: "has_definition ca path line column = Inr True \<Longrightarrow> \<exists>l ls. ca_find_definition ca path line column = Inr (l # ls)"
  by (auto simp: has_definition_def ebind_Inr_iff neq_Nil_conv dest: no_answer_Inr)

lemma has_references_shown: "has_references ca path line column = Inr True \<Longrightarrow> \<exists>l ls. ca_find_references ca path line column True = Inr (l # ls)"
  by (auto simp: has_references_def ebind_Inr_iff neq_Nil_conv dest: no_answer_Inr)

lemma has_workspace_match_shown:
  "has_workspace_symbol_match ca s = Inr True \<Longrightarrow> \<exists>ms. ca_get_symbol ca (gn_name s) True = Inr ms \<and> (\<exists>m\<in>set ms. refer_to_same_anchor m s)"
  by (auto simp: has_workspace_symbol_match_def ebind_Inr_iff dest: no_answer_Inr)

text \<open>What the probe returns or carries on is a coverage of the file, or what it started with.\<close>

lemma probe_symbols_coverage:
  assumes "probe_symbols ca path ss (checked, first) = Inr outcome"
    and "set ss \<subseteq> {s \<in> set symbols. is_searchable_symbol_name (gn_name s)}"
    and "\<And>c. coverage_of ca path symbols c \<Longrightarrow> J c" and "\<And>c. first = Some c \<Longrightarrow> J c"
  shows "case outcome of Inl found \<Rightarrow> (\<forall>c. found = Some c \<longrightarrow> J c) | Inr (n, carried) \<Rightarrow> (\<forall>c. carried = Some c \<longrightarrow> J c)"
  using assms
proof (induction ss arbitrary: checked first)
  case (Cons s ss)
  show ?case
  proof (cases "\<exists>line column. ei_line_start s = Some line \<and> ei_column_start s = Some column")
    case False
    then have "probe_symbols ca path ss (checked, first) = Inr outcome"
      using Cons.prems(1) by (auto split: option.splits)
    from Cons.IH [OF this _ Cons.prems(3,4)] Cons.prems(2) show ?thesis by simp
  next
    case True
    then obtain line column where pos: "ei_line_start s = Some line" "ei_column_start s = Some column" by blast
    show ?thesis
    proof (cases "10 < Suc checked")
      case True
      then have "outcome = Inl first" using Cons.prems(1) pos by simp
      then show ?thesis using Cons.prems(4) by simp
    next
      case few: False
      then obtain matched where m: "has_workspace_symbol_match ca s = Inr matched"
        using Cons.prems(1) pos by (auto simp: ebind_Inr_iff)
      show ?thesis
      proof (cases matched)
        case False
        let ?c = "\<lparr>sy_representative_file = path, sy_representative_symbol = s, sy_has_workspace_match = False,
          sy_has_definition = False, sy_has_references = False\<rparr>"
        have "probe_symbols ca path ss (Suc checked, case first of None \<Rightarrow> Some ?c | Some c \<Rightarrow> Some c) = Inr outcome"
          using Cons.prems(1) pos few m False by simp
        moreover have "J ?c" using Cons.prems(2) pos by (intro Cons.prems(3)) (simp add: coverage_of_def)
        ultimately show ?thesis using Cons.IH [OF _ _ Cons.prems(3)] Cons.prems(2,4) by (auto split: option.splits)
      next
        case True
        then obtain d r where d: "has_definition ca path line column = Inr d" and r: "has_references ca path line column = Inr r"
          and o: "outcome = Inl (Some \<lparr>sy_representative_file = path, sy_representative_symbol = s, sy_has_workspace_match = True,
             sy_has_definition = d, sy_has_references = r\<rparr>)" (is "_ = Inl (Some ?c)")
          using Cons.prems(1) pos few m by (auto simp: ebind_Inr_iff)
        have "coverage_of ca path symbols ?c"
          using Cons.prems(2) pos m True d r has_definition_shown has_references_shown has_workspace_match_shown
          by (auto simp: coverage_of_def)
        then show ?thesis using Cons.prems(3) by (simp add: o)
      qed
    qed
  qed
qed auto

lemma searchable_candidates_sub:
  "set (searchable_symbol_candidates symbols) \<subseteq> {s \<in> set symbols. is_searchable_symbol_name (gn_name s)}"
  by (auto simp: searchable_symbol_candidates_def dest: in_set_takeD)

text \<open>A coverage of one of the files the provider listed symbols for.\<close>

definition covered_by :: "code_answers \<Rightarrow> file_info list \<Rightarrow> symbol_coverage \<Rightarrow> bool" where
  "covered_by ca fs c \<longleftrightarrow> (\<exists>f\<in>set fs. \<exists>symbols. ca_list_symbols ca (fi_repository_rel_path f) None False = Inr symbols \<and>
     coverage_of ca (fi_repository_rel_path f) symbols c)"

lemma probe_files_coverage:
  assumes "probe_files ca fs st = Inr (Some c)" and "set fs \<subseteq> set all_files"
    and "\<And>c. snd st = Some c \<Longrightarrow> covered_by ca all_files c"
  shows "covered_by ca all_files c"
  using assms
proof (induction fs arbitrary: st)
  case Nil
  then show ?case by (cases st) simp
next
  case (Cons f fs)
  obtain symbols outcome where sy: "no_answer (ca_list_symbols ca (fi_repository_rel_path f) None False) = Inr symbols"
    and out: "probe_symbols ca (fi_repository_rel_path f) (searchable_symbol_candidates symbols) (fst st, snd st) = Inr outcome"
    using Cons.prems(1) by (auto simp: ebind_Inr_iff)
  have cov: "covered_by ca all_files c" if "coverage_of ca (fi_repository_rel_path f) symbols c" for c
    using that Cons.prems(2) sy no_answer_Inr [OF sy] unfolding covered_by_def coverage_of_def by fastforce
  note r = probe_symbols_coverage [OF out searchable_candidates_sub, of "covered_by ca all_files", OF cov Cons.prems(3)]
  show ?case
  proof (cases outcome)
    case (Inl found)
    then show ?thesis using Cons.prems(1) r sy out by simp
  next
    case (Inr st')
    have "covered_by ca all_files c" if "snd st' = Some c" for c
      using r that Inr by (cases st') simp
    moreover have "probe_files ca fs st' = Inr (Some c)" using Cons.prems(1) sy out Inr by simp
    ultimately show ?thesis using Cons.IH Cons.prems(2) by simp
  qed
qed

lemma provider_symbol_coverage_shown:
  assumes "provider_symbol_coverage code rp p = Inr (Some c)"
  shows "\<exists>fs. candidate_files_for_provider rp p = Inr fs \<and> covered_by (code p) fs c"
  using assms probe_files_coverage [of "code p" _ "(0, None)" c]
  by (auto simp: provider_symbol_coverage_def ebind_Inr_iff)

lemma degrade_available [simp]: "cap_availability (degrade_runtime_capability reason c) \<noteq> RC_AVAILABLE"
  by (simp add: degrade_runtime_capability_def)

lemma degrade_unless_available [simp]:
  "cap_availability (degrade_unless shown reason c) = RC_AVAILABLE \<longleftrightarrow> shown \<and> cap_availability c = RC_AVAILABLE"
  by (simp add: degrade_unless_def)

lemma verified_cases:
  assumes "verified_runtime_capabilities code rp p = Inr cc" and "\<exists>c\<in>set (code_operations cc). cap_availability c = RC_AVAILABLE"
  obtains sc fs where "candidate_files_for_provider rp p = Inr fs" "covered_by (code p) fs sc"
    "cc = verify_capabilities (Some sc) (ca_capabilities (code p))"
proof -
  have "\<exists>c\<in>set (code_operations (ca_capabilities (code p))). cap_availability c = RC_AVAILABLE"
    using assms by (auto simp: verified_runtime_capabilities_def Let_def split: if_splits)
  then obtain coverage where cov: "provider_symbol_coverage code rp p = Inr coverage"
    and cc: "cc = verify_capabilities coverage (ca_capabilities (code p))"
    using assms(1) by (auto simp: verified_runtime_capabilities_def Let_def ebind_Inr_iff split: if_splits)
  have "coverage \<noteq> None" using assms(2) by (cases coverage) (auto simp: cc verify_capabilities_def code_operations_def)
  then obtain sc where "coverage = Some sc" by blast
  then show ?thesis using that provider_symbol_coverage_shown cov cc by blast
qed

text \<open>A capability is kept or degraded with a reason; it is never raised.\<close>

definition kept_or_degraded :: "runtime_capability \<Rightarrow> runtime_capability \<Rightarrow> bool" where
  "kept_or_degraded claimed c \<longleftrightarrow> c = claimed \<or>
     (cap_availability claimed = RC_AVAILABLE \<and> cap_availability c = RC_DEGRADED \<and>
      (\<exists>reason. cap_reason c = Some reason \<and> \<not> blank reason) \<and> cap_provenance c = cap_provenance claimed)"

lemma kept_or_degraded_refl [simp]: "kept_or_degraded c c"
  by (simp add: kept_or_degraded_def)

lemma kept_or_degraded_degrade: "\<not> blank reason \<Longrightarrow> kept_or_degraded c (degrade_runtime_capability reason c)"
  by (simp add: kept_or_degraded_def degrade_runtime_capability_def)

lemma kept_or_degraded_unless: "\<not> blank reason \<Longrightarrow> kept_or_degraded c (degrade_unless shown reason c)"
  by (simp add: degrade_unless_def kept_or_degraded_degrade)

lemma kept_or_degraded_wf: "kept_or_degraded claimed c \<Longrightarrow> wf_capability claimed \<Longrightarrow> wf_capability c"
  by (auto simp: kept_or_degraded_def wf_capability_def)

lemma verify_keeps_or_degrades: "list_all2 kept_or_degraded (code_operations cc) (code_operations (verify_capabilities coverage cc))"
  by (auto simp: verify_capabilities_def code_operations_def Let_def without_symbols_def quoted_def py_isspace_def
      intro!: kept_or_degraded_degrade kept_or_degraded_unless split: option.split)

lemma verified_keeps_or_degrades:
  assumes "verified_runtime_capabilities code rp p = Inr cc"
  shows "list_all2 kept_or_degraded (code_operations (ca_capabilities (code p))) (code_operations cc)"
  using assms verify_keeps_or_degrades
  by (auto simp: verified_runtime_capabilities_def Let_def ebind_Inr_iff list.rel_refl split: if_splits)

section \<open>Properties\<close>



end
