(* ===== verification/Truth_Coverage.thy ===== *)
theory Truth_Coverage
  imports Code_Capabilities
begin

text \<open>
  Truth coverage (\<open>core/truth_coverage_models.py\<close>, \<open>core/truth_coverage_service.py\<close>): how much of what
  the system reports about a repository, or about one change, is authoritative, derived, heuristic or
  unavailable, in five domains. Runtime capabilities come from the providers and are arguments; those of
  code providers go through the check of \<open>Code_Capabilities\<close>.
\<close>

section \<open>Models\<close>

datatype coverage_domain = TD_ARCHITECTURE | TD_CODE | TD_TESTS | TD_QUALITY | TD_ACTIONS

datatype truth_availability = TA_AVAILABLE | TA_DEGRADED | TA_UNAVAILABLE

fun coverage_domain_value :: "coverage_domain \<Rightarrow> string" where
  "coverage_domain_value TD_ARCHITECTURE = ''architecture''"
| "coverage_domain_value TD_CODE = ''code''"
| "coverage_domain_value TD_TESTS = ''tests''"
| "coverage_domain_value TD_QUALITY = ''quality''"
| "coverage_domain_value TD_ACTIONS = ''actions''"

fun truth_availability_value :: "truth_availability \<Rightarrow> string" where
  "truth_availability_value TA_AVAILABLE = ''available''"
| "truth_availability_value TA_DEGRADED = ''degraded''"
| "truth_availability_value TA_UNAVAILABLE = ''unavailable''"

definition all_source_kinds :: "source_kind list" where
  "all_source_kinds =
     [SK_MANIFEST, SK_DOCUMENT, SK_SYNTAX, SK_LSP, SK_TEST_TOOL, SK_QUALITY_TOOL, SK_OWNERSHIP, SK_DEPENDENCY_GRAPH, SK_HEURISTIC]"

definition action_capability_keys :: "string list" where
  "action_capability_keys = [''tests'', ''builds'', ''runners'']"

text \<open>
  \<open>TruthCoverageByDomain\<close>, and also the accumulator that is finalised into it; the accumulator's list of
  provenance entries is written but never read, so it has no field here.
\<close>

record domain_coverage =
  dc_domain :: coverage_domain
  dc_total :: int
  dc_authoritative :: int
  dc_derived :: int
  dc_heuristic :: int
  dc_unavailable :: int
  dc_availability :: truth_availability
  dc_degraded_reason :: "string option"
  dc_source_kind_mix :: "(string \<times> int) list"
  dc_source_tool_mix :: "(string \<times> int) list"
  dc_execution_available :: "bool option"
  dc_action_capabilities :: "(string \<times> bool) list"

definition validate_kind_mix :: "(string \<times> int) list \<Rightarrow> unit result" where
  "validate_kind_mix mix =
     foldE (\<lambda>(k, n) _.
       ebind (check (k \<in> source_kind_value ` set all_source_kinds) (ValueErr (''unsupported source_kind mix key: '' @ quoted k))) (\<lambda>_.
       check (0 \<le> n) (ValueErr ''source_kind_mix counts must be >= 0''))) mix ()"

definition validate_tool_mix :: "(string \<times> int) list \<Rightarrow> unit result" where
  "validate_tool_mix mix =
     foldE (\<lambda>(k, n) _.
       ebind (check (\<not> blank k) (ValueErr ''source_tool_mix keys must not be empty'')) (\<lambda>_.
       check (0 \<le> n) (ValueErr ''source_tool_mix counts must be >= 0''))) mix ()"

definition validate_action_keys :: "(string \<times> bool) list \<Rightarrow> unit result" where
  "validate_action_keys cs =
     foldE (\<lambda>(k, b) _. check (k \<in> set action_capability_keys) (ValueErr (''unsupported action capability key: '' @ quoted k))) cs ()"

definition finalize :: "domain_coverage \<Rightarrow> domain_coverage result" where
  "finalize d =
     ebind (check (0 \<le> dc_total d \<and> 0 \<le> dc_authoritative d \<and> 0 \<le> dc_derived d \<and> 0 \<le> dc_heuristic d \<and> 0 \<le> dc_unavailable d)
       (ValueErr ''coverage counts must be >= 0'')) (\<lambda>_.
     ebind (check (case dc_degraded_reason d of None \<Rightarrow> True | Some r \<Rightarrow> \<not> blank r) (ValueErr ''degraded_reason must not be empty'')) (\<lambda>_.
     ebind (validate_kind_mix (dc_source_kind_mix d)) (\<lambda>_.
     ebind (validate_tool_mix (dc_source_tool_mix d)) (\<lambda>_.
     ebind (validate_action_keys (dc_action_capabilities d)) (\<lambda>_.
     ebind (check (dc_authoritative d + dc_derived d + dc_heuristic d + dc_unavailable d = dc_total d)
       (ValueErr ''authoritative + derived + heuristic + unavailable must equal total_entities'')) (\<lambda>_.
     ebind (check (\<not> (dc_availability d = TA_DEGRADED \<and> dc_degraded_reason d = None))
       (ValueErr ''degraded availability requires degraded_reason'')) (\<lambda>_.
     ebind (check (\<not> (dc_availability d = TA_AVAILABLE \<and> dc_degraded_reason d \<noteq> None))
       (ValueErr ''available coverage must not include degraded_reason'')) (\<lambda>_.
     ebind (check (\<not> (dc_domain d \<noteq> TD_ACTIONS \<and> dc_action_capabilities d \<noteq> []))
       (ValueErr ''action_capabilities are allowed only for the actions domain'')) (\<lambda>_.
     ebind (check (\<not> (dc_domain d \<notin> {TD_QUALITY, TD_ACTIONS} \<and> dc_execution_available d \<noteq> None))
       (ValueErr ''execution_available is allowed only for quality and actions domains'')) (\<lambda>_. Inr d))))))))))"

record truth_summary =
  ts_scope_kind :: string
  ts_scope_id :: string
  ts_domains :: "domain_coverage list"
  ts_authoritative :: int
  ts_derived :: int
  ts_heuristic :: int
  ts_unavailable :: int
  ts_availability :: truth_availability
  ts_provenance :: provenance

definition all_domains :: "coverage_domain list" where
  "all_domains = [TD_ARCHITECTURE, TD_CODE, TD_TESTS, TD_QUALITY, TD_ACTIONS]"

definition validate_summary :: "truth_summary \<Rightarrow> truth_summary result" where
  "validate_summary s =
     ebind (check (\<not> blank (ts_scope_kind s) \<and> \<not> blank (ts_scope_id s)) (ValueErr ''value must not be empty'')) (\<lambda>_.
     ebind (check (ts_scope_kind s \<in> {''repository'', ''change''}) (ValueErr (''unsupported scope_kind: '' @ quoted (ts_scope_kind s)))) (\<lambda>_.
     ebind (check (set (map dc_domain (ts_domains s)) = set all_domains \<and> length (ts_domains s) = length all_domains)
       (ValueErr ''domains must contain exactly one entry for each truth coverage domain'')) (\<lambda>_.
     ebind (check (ts_authoritative s = sum_list (map dc_authoritative (ts_domains s)))
       (ValueErr ''overall_authoritative_count is inconsistent with domain counts'')) (\<lambda>_.
     ebind (check (ts_derived s = sum_list (map dc_derived (ts_domains s)))
       (ValueErr ''overall_derived_count is inconsistent with domain counts'')) (\<lambda>_.
     ebind (check (ts_heuristic s = sum_list (map dc_heuristic (ts_domains s)))
       (ValueErr ''overall_heuristic_count is inconsistent with domain counts'')) (\<lambda>_.
     ebind (check (ts_unavailable s = sum_list (map dc_unavailable (ts_domains s)))
       (ValueErr ''overall_unavailable_count is inconsistent with domain counts'')) (\<lambda>_.
     ebind (check (ts_provenance s \<noteq> []) (ValueErr ''provenance must not be empty'')) (\<lambda>_. Inr s))))))))"

section \<open>The accumulator\<close>

definition new_accumulator :: "coverage_domain \<Rightarrow> domain_coverage" where
  "new_accumulator domain =
     \<lparr>dc_domain = domain, dc_total = 0, dc_authoritative = 0, dc_derived = 0, dc_heuristic = 0, dc_unavailable = 0,
      dc_availability = TA_UNAVAILABLE, dc_degraded_reason = None, dc_source_kind_mix = [], dc_source_tool_mix = [],
      dc_execution_available = None, dc_action_capabilities = []\<rparr>"

text \<open>\<open>mix[key] += 1\<close> of a \<open>Counter\<close>.\<close>

definition bump :: "string \<Rightarrow> (string \<times> int) list \<Rightarrow> (string \<times> int) list" where
  "bump k mix = AList.update k ((case map_of mix k of None \<Rightarrow> 0 | Some n \<Rightarrow> n) + 1) mix"

definition count_confidence :: "confidence_mode \<Rightarrow> domain_coverage \<Rightarrow> domain_coverage" where
  "count_confidence c acc =
     (case c of
        AUTHORITATIVE \<Rightarrow> acc\<lparr>dc_authoritative := dc_authoritative acc + 1\<rparr>
      | DERIVED \<Rightarrow> acc\<lparr>dc_derived := dc_derived acc + 1\<rparr>
      | HEURISTIC \<Rightarrow> acc\<lparr>dc_heuristic := dc_heuristic acc + 1\<rparr>)"

definition add_provenance_item :: "provenance \<Rightarrow> domain_coverage \<Rightarrow> domain_coverage result" where
  "add_provenance_item p acc =
     ebind (preferred_confidence_mode p) (\<lambda>c.
     ebind (preferred_source_kind p) (\<lambda>k.
     ebind (preferred_source_tool p) (\<lambda>tool.
       let acc = count_confidence c (acc\<lparr>dc_total := dc_total acc + 1\<rparr>) in
       Inr (acc\<lparr>dc_source_kind_mix := bump (source_kind_value k) (dc_source_kind_mix acc),
                dc_source_tool_mix := (case tool of None \<Rightarrow> dc_source_tool_mix acc | Some t \<Rightarrow> bump t (dc_source_tool_mix acc))\<rparr>))))"

definition add_unavailable :: "int \<Rightarrow> string option \<Rightarrow> domain_coverage \<Rightarrow> domain_coverage result" where
  "add_unavailable count reason acc =
     (if count < 0 then Inl (ValueErr ''unavailable count must be >= 0'')
      else Inr (acc\<lparr>dc_total := dc_total acc + count, dc_unavailable := dc_unavailable acc + count,
                    dc_degraded_reason := (if reason \<noteq> None \<and> dc_degraded_reason acc = None then reason
                                           else dc_degraded_reason acc)\<rparr>))"

definition apply_runtime_capability ::
  "runtime_capability \<Rightarrow> domain_coverage \<times> string list \<Rightarrow> (domain_coverage \<times> string list) result" where
  "apply_runtime_capability c st =
     (case st of (acc, reasons) \<Rightarrow>
        if cap_availability c = RC_AVAILABLE
        then ebind (add_provenance_item (cap_provenance c) acc) (\<lambda>acc'. Inr (acc', reasons))
        else ebind (add_unavailable 1 (cap_reason c) acc) (\<lambda>acc'.
          Inr (acc', case cap_reason c of None \<Rightarrow> reasons | Some r \<Rightarrow> reasons @ [r])))"

definition apply_capabilities ::
  "coverage_domain \<Rightarrow> runtime_capability list \<Rightarrow> (domain_coverage \<times> string list) result" where
  "apply_capabilities domain cs = foldE apply_runtime_capability cs (new_accumulator domain, [])"

definition joined_reasons :: "string list \<Rightarrow> string" where
  "joined_reasons reasons = join_with ''; '' (sorted_set reasons)"

definition rated :: "truth_availability \<Rightarrow> string option \<Rightarrow> domain_coverage \<Rightarrow> domain_coverage" where
  "rated availability reason acc = acc\<lparr>dc_availability := availability, dc_degraded_reason := reason\<rparr>"

section \<open>The five domains of a repository\<close>

record capability_answers =
  rn_code :: code_environment
  rn_tests :: "provider \<Rightarrow> test_capabilities"
  rn_quality :: "provider \<Rightarrow> string list \<Rightarrow> quality_capabilities"
  rn_actions :: "provider \<Rightarrow> action_capabilities"

definition supports_role :: "repository \<Rightarrow> provider_role \<Rightarrow> bool" where
  "supports_role rp role \<longleftrightarrow> (\<exists>p\<in>set (rp_providers rp). role \<in> set (rp_roles rp (pv_id p)))"

definition architecture_items :: "repository \<Rightarrow> provenance list" where
  "architecture_items rp =
     map gn_provenance (get_components rp) @ map gn_provenance (get_aggregators rp) @ map gn_provenance (get_runners rp) @
     map gn_provenance (get_package_managers rp) @ map gn_provenance (get_external_packages rp) @
     map gn_provenance (get_files rp) @ map ce_provenance (all_dependency_edges rp)"

definition architecture_domain :: "repository \<Rightarrow> domain_coverage result" where
  "architecture_domain rp =
     ebind (foldE add_provenance_item (architecture_items rp) (new_accumulator TD_ARCHITECTURE)) (\<lambda>acc.
       finalize
         (if \<not> supports_role rp ROLE_ARCHITECTURE then rated TA_UNAVAILABLE (Some ''repository has no architecture provider'') acc
          else if dc_total acc = 0
          then rated TA_DEGRADED (Some ''architecture provider exists but no architecture entities were produced'') acc
          else acc\<lparr>dc_availability := TA_AVAILABLE\<rparr>))"

definition code_operation_count :: int where
  "code_operation_count = 5"

definition code_domain :: "capability_answers \<Rightarrow> repository \<Rightarrow> domain_coverage result" where
  "code_domain rn rp =
     (if \<not> supports_role rp ROLE_CODE
      then ebind (add_unavailable code_operation_count (Some ''repository has no code intelligence provider'') (new_accumulator TD_CODE)) (\<lambda>acc.
             finalize (acc\<lparr>dc_availability := TA_UNAVAILABLE\<rparr>))
      else ebind (code_runtime_capabilities (rn_code rn) rp) (\<lambda>ccs.
           ebind (apply_capabilities TD_CODE (concat (map code_operations ccs))) (\<lambda>(acc, reasons).
             let acc = acc\<lparr>dc_availability :=
                   (if dc_unavailable acc = dc_total acc \<or> 0 < dc_unavailable acc then TA_DEGRADED else TA_AVAILABLE)\<rparr> in
             finalize (if reasons \<noteq> [] then acc\<lparr>dc_degraded_reason := Some (joined_reasons reasons)\<rparr> else acc))))"

definition tests_domain :: "capability_answers \<Rightarrow> repository \<Rightarrow> domain_coverage result" where
  "tests_domain rn rp =
     (if \<not> supports_role rp ROLE_TEST
      then finalize (rated TA_UNAVAILABLE (Some ''repository has no test provider'') (new_accumulator TD_TESTS))
      else ebind (apply_capabilities TD_TESTS
             (concat (map (\<lambda>p. [tc_discovery (rn_tests rn p), tc_execution (rn_tests rn p)]) (test_providers rp)))) (\<lambda>(acc, reasons).
        finalize
          (if dc_total acc = 0
           then rated TA_UNAVAILABLE (Some ''test provider exists but exposes no runtime test capabilities'') acc
           else if 0 < dc_unavailable acc
           then rated TA_DEGRADED (Some (if reasons \<noteq> [] then joined_reasons reasons else ''test capability is partially unavailable'')) acc
           else if dc_authoritative acc = 0 \<and> 0 < dc_heuristic acc
           then rated TA_DEGRADED (Some ''test capability is available only through heuristic fallback'') acc
           else acc\<lparr>dc_availability := TA_AVAILABLE\<rparr>)))"

definition quality_providers :: "repository \<Rightarrow> provider list" where
  "quality_providers rp = filter (\<lambda>p. ROLE_QUALITY \<in> set (pv_implements p)) (get_providers_for_role rp ROLE_QUALITY)"

definition quality_domain :: "capability_answers \<Rightarrow> repository \<Rightarrow> domain_coverage result" where
  "quality_domain rn rp =
     (if quality_providers rp = []
      then finalize ((rated TA_UNAVAILABLE (Some ''repository has no quality provider'') (new_accumulator TD_QUALITY))
             \<lparr>dc_execution_available := Some False\<rparr>)
      else ebind (relevant_repository_rel_paths rp None) (\<lambda>paths.
           ebind (quality_providers_for_files rp paths) (\<lambda>ps.
           ebind (apply_capabilities TD_QUALITY
             (concat (map (\<lambda>p. [qc_lint (rn_quality rn p paths), qc_format (rn_quality rn p paths)]) ps))) (\<lambda>(acc, reasons).
             let acc = acc\<lparr>dc_execution_available := Some (dc_unavailable acc = 0 \<and> 0 < dc_total acc)\<rparr> in
             finalize
               (if dc_unavailable acc = 0 then acc\<lparr>dc_availability := TA_AVAILABLE\<rparr>
                else rated TA_DEGRADED (Some (joined_reasons
                  (if reasons \<noteq> [] then reasons
                   else [case dc_degraded_reason acc of
                           None \<Rightarrow> ''quality capability is partially unavailable''
                         | Some r \<Rightarrow> if r = [] then ''quality capability is partially unavailable'' else r]))) acc)))))"

definition action_providers :: "repository \<Rightarrow> provider list" where
  "action_providers rp = filter (\<lambda>p. pv_actions p \<noteq> None) (rp_providers rp)"

definition some_available :: "(action_capabilities \<Rightarrow> runtime_capability) \<Rightarrow> action_capabilities list \<Rightarrow> bool" where
  "some_available operation snapshots \<longleftrightarrow> (\<exists>s\<in>set snapshots. cap_availability (operation s) = RC_AVAILABLE)"

definition actions_domain :: "capability_answers \<Rightarrow> repository \<Rightarrow> domain_coverage result" where
  "actions_domain rn rp =
     (let snapshots = map (rn_actions rn) (action_providers rp) in
      ebind (apply_capabilities TD_ACTIONS (concat (map (\<lambda>s. [ac_tests s, ac_builds s, ac_runners s]) snapshots))) (\<lambda>(acc, reasons).
        let capabilities = [(''tests'', some_available ac_tests snapshots), (''builds'', some_available ac_builds snapshots),
              (''runners'', some_available ac_runners snapshots)];
            acc = acc\<lparr>dc_action_capabilities := capabilities, dc_execution_available := Some (\<exists>(k, b)\<in>set capabilities. b)\<rparr>;
            missing = map fst (filter (\<lambda>(k, b). \<not> b) capabilities) in
        finalize
          (if snapshots = [] then rated TA_UNAVAILABLE (Some ''no deterministic actions were discovered'') acc
           else if missing \<noteq> []
           then rated TA_DEGRADED (Some (if reasons \<noteq> [] then joined_reasons reasons
                  else ''deterministic actions are missing for: '' @ join_with '', '' (sort missing))) acc
           else rated TA_AVAILABLE None acc)))"

section \<open>Summaries\<close>

text \<open>\<open>max(sorted(mix), key=...)\<close>: the first of the keys with the largest count.\<close>

definition most_frequent :: "(string \<times> int) list \<Rightarrow> string" where
  "most_frequent mix = fst (hd (sort_key (\<lambda>(k, n). - n) (sort_key fst mix)))"

definition source_kind_of :: "string \<Rightarrow> source_kind result" where
  "source_kind_of v =
     of_option (ValueErr (quoted v @ '' is not a valid SourceKind'')) (find (\<lambda>k. source_kind_value k = v) all_source_kinds)"

definition domain_summary_provenance :: "domain_coverage \<Rightarrow> provenance_entry result" where
  "domain_summary_provenance d =
     (if dc_total d = 0
      then derived_summary_provenance SK_HEURISTIC None
             (coverage_domain_value (dc_domain d) @ '' truth coverage is '' @ truth_availability_value (dc_availability d)) []
      else ebind (if dc_source_kind_mix d = [] then Inr SK_HEURISTIC else source_kind_of (most_frequent (dc_source_kind_mix d))) (\<lambda>k.
             derived_summary_provenance k
               (if dc_source_tool_mix d = [] then None else Some (most_frequent (dc_source_tool_mix d)))
               (coverage_domain_value (dc_domain d) @ '' truth coverage summarized as '' @
                  truth_availability_value (dc_availability d)) []))"

definition overall_availability :: "domain_coverage list \<Rightarrow> truth_availability" where
  "overall_availability ds =
     (if \<forall>d\<in>set ds. dc_availability d = TA_UNAVAILABLE then TA_UNAVAILABLE
      else if \<exists>d\<in>set ds. dc_availability d \<noteq> TA_AVAILABLE then TA_DEGRADED
      else TA_AVAILABLE)"

definition summarize_domains :: "string \<Rightarrow> string \<Rightarrow> domain_coverage list \<Rightarrow> truth_summary result" where
  "summarize_domains scope_kind scope_id ds =
     ebind (mapE domain_summary_provenance ds) (\<lambda>es.
     ebind (if append_new [] es = []
            then ebind (derived_summary_provenance SK_HEURISTIC None
                   (scope_kind @ '' truth coverage contains no provenance-bearing entities'') []) (\<lambda>e. Inr [e])
            else Inr (append_new [] es)) (\<lambda>p.
       validate_summary
         \<lparr>ts_scope_kind = scope_kind, ts_scope_id = scope_id, ts_domains = ds,
          ts_authoritative = sum_list (map dc_authoritative ds), ts_derived = sum_list (map dc_derived ds),
          ts_heuristic = sum_list (map dc_heuristic ds), ts_unavailable = sum_list (map dc_unavailable ds),
          ts_availability = overall_availability ds, ts_provenance = p\<rparr>))"

definition repository_truth_coverage :: "capability_answers \<Rightarrow> string \<Rightarrow> repository \<Rightarrow> truth_summary result" where
  "repository_truth_coverage rn repository_id rp =
     ebind (architecture_domain rp) (\<lambda>a.
     ebind (code_domain rn rp) (\<lambda>c.
     ebind (tests_domain rn rp) (\<lambda>t.
     ebind (quality_domain rn rp) (\<lambda>q.
     ebind (actions_domain rn rp) (\<lambda>x.
       summarize_domains ''repository'' repository_id [a, c, t, q, x])))))"

section \<open>The coverage of a change\<close>

text \<open>The parts of a change impact, each by its provenance; contexts also by what names them.\<close>

record change_parts =
  cp_target_kind :: string
  cp_owner_id :: string
  cp_evidence_path :: "string option"
  cp_primary_component :: "provenance option"
  cp_component_context :: "provenance option"
  cp_dependent_components :: "provenance list"
  cp_file_context :: "(string \<times> provenance) option"
  cp_symbol_context :: "(string \<times> provenance) option"
  cp_reference_locations :: "provenance list"
  cp_file_relationships :: "provenance list"
  cp_render_edges :: "provenance list"
  cp_findings_and_flows :: "provenance list"
  cp_implementations :: "provenance list"
  cp_related_tests :: "provenance list"
  cp_quality_gates :: "provenance list"
  cp_related_runners :: "provenance list"

definition option_list :: "'a option \<Rightarrow> 'a list" where
  "option_list x = (case x of None \<Rightarrow> [] | Some y \<Rightarrow> [y])"

definition change_architecture_items :: "change_parts \<Rightarrow> provenance list" where
  "change_architecture_items cp =
     option_list (cp_primary_component cp) @ option_list (cp_component_context cp) @ cp_dependent_components cp"

definition change_code_items :: "change_parts \<Rightarrow> provenance list" where
  "change_code_items cp =
     option_list (map_option snd (cp_file_context cp)) @ option_list (map_option snd (cp_symbol_context cp)) @
     cp_reference_locations cp @ cp_file_relationships cp @ cp_render_edges cp @ cp_findings_and_flows cp @ cp_implementations cp"

definition artifact_rated :: "domain_coverage \<Rightarrow> domain_coverage" where
  "artifact_rated acc =
     (if dc_total acc = 0 then rated TA_UNAVAILABLE None acc
      else if 0 < dc_heuristic acc then rated TA_DEGRADED (Some ''artifact includes heuristic coverage in this domain'') acc
      else acc\<lparr>dc_availability := TA_AVAILABLE\<rparr>)"

definition artifact_domain :: "coverage_domain \<Rightarrow> provenance list \<Rightarrow> domain_coverage result" where
  "artifact_domain domain items =
     ebind (foldE add_provenance_item items (new_accumulator domain)) (\<lambda>acc. Inr (artifact_rated acc))"

definition change_scope_id :: "change_parts \<Rightarrow> string result" where
  "change_scope_id cp =
     (if cp_target_kind cp = ''symbol''
      then of_option (ValueErr ''symbol change impact requires symbol_context'') (map_option fst (cp_symbol_context cp))
      else if cp_target_kind cp = ''file''
      then (case cp_file_context cp of
              Some (path, _) \<Rightarrow> Inr path
            | None \<Rightarrow> of_option (ValueErr ''file change impact requires evidence_path when file_context is unavailable'') (cp_evidence_path cp))
      else Inr (cp_owner_id cp))"

definition change_truth_coverage_from_parts :: "change_parts \<Rightarrow> truth_summary result" where
  "change_truth_coverage_from_parts cp =
     ebind (artifact_domain TD_ARCHITECTURE (change_architecture_items cp)) (\<lambda>a.
     ebind (artifact_domain TD_CODE (change_code_items cp)) (\<lambda>c.
     ebind (artifact_domain TD_TESTS (cp_related_tests cp)) (\<lambda>t.
     ebind (artifact_domain TD_QUALITY (cp_quality_gates cp)) (\<lambda>q.
     ebind (artifact_domain TD_ACTIONS (cp_related_runners cp)) (\<lambda>x.
     ebind (change_scope_id cp) (\<lambda>scope_id.
     ebind (mapE finalize
       [a, c, t, q\<lparr>dc_execution_available := Some (cp_quality_gates cp \<noteq> [])\<rparr>,
        x\<lparr>dc_action_capabilities := [(''tests'', False), (''builds'', False), (''runners'', cp_related_runners cp \<noteq> [])],
          dc_execution_available := Some (cp_related_runners cp \<noteq> [])\<rparr>]) (\<lambda>ds.
       summarize_domains ''change'' scope_id ds)))))))"

section \<open>What the accumulator counts\<close>

definition confidence_of :: "provenance \<Rightarrow> confidence_mode" where
  "confidence_of p =
     (if \<exists>e\<in>set p. pe_confidence_mode e = AUTHORITATIVE then AUTHORITATIVE
      else if \<exists>e\<in>set p. pe_confidence_mode e = DERIVED then DERIVED else HEURISTIC)"

definition confident :: "confidence_mode \<Rightarrow> provenance list \<Rightarrow> int" where
  "confident c ps = int (length (filter (\<lambda>p. confidence_of p = c) ps))"

lemma confident_simps [simp]:
  "confident c [] = 0" "confident c (p # ps) = (if confidence_of p = c then 1 else 0) + confident c ps"
  "confident c (ps @ qs) = confident c ps + confident c qs"
  by (simp_all add: confident_def)

lemma confident_nonneg [simp]: "0 \<le> confident c ps"
  by (simp add: confident_def)

lemma confident_total: "confident AUTHORITATIVE ps + confident DERIVED ps + confident HEURISTIC ps = int (length ps)"
proof (induction ps)
  case (Cons p ps)
  then show ?case by (cases "confidence_of p") simp_all
qed simp

text \<open>The mixes hold valid keys with positive counts.\<close>

definition kind_mix_ok :: "(string \<times> int) list \<Rightarrow> bool" where
  "kind_mix_ok mix \<longleftrightarrow> (\<forall>(k, n)\<in>set mix. k \<in> source_kind_value ` set all_source_kinds \<and> 0 < n)"

definition tool_mix_ok :: "(string \<times> int) list \<Rightarrow> bool" where
  "tool_mix_ok mix \<longleftrightarrow> (\<forall>(k, n)\<in>set mix. \<not> blank k \<and> 0 < n)"

lemma all_source_kinds_complete [simp]: "k \<in> set all_source_kinds"
  by (cases k) (simp_all add: all_source_kinds_def)

lemma bump_entries:
  assumes "\<forall>(k, n)\<in>set mix. P k \<and> 0 < n" and "P k"
  shows "\<forall>(k, n)\<in>set (bump k mix). P k \<and> 0 < n"
proof -
  have "set (bump k mix) \<subseteq> insert (k, (case map_of mix k of None \<Rightarrow> 0 | Some n \<Rightarrow> n) + 1) (set mix)"
    unfolding bump_def by (rule set_update_subset)
  moreover have "0 < (case map_of mix k of None \<Rightarrow> 0 | Some n \<Rightarrow> n) + 1"
    using assms(1) by (auto dest!: map_of_SomeD split: option.split)
  ultimately show ?thesis using assms by auto
qed

lemma kind_mix_ok_bump: "kind_mix_ok mix \<Longrightarrow> kind_mix_ok (bump (source_kind_value k) mix)"
  unfolding kind_mix_ok_def by (rule bump_entries) simp_all

lemma tool_mix_ok_bump: "tool_mix_ok mix \<Longrightarrow> \<not> blank t \<Longrightarrow> tool_mix_ok (bump t mix)"
  unfolding tool_mix_ok_def by (rule bump_entries) simp_all

text \<open>Adding items moves exactly the counters and keeps the mixes valid.\<close>

definition counted :: "provenance list \<Rightarrow> int \<Rightarrow> domain_coverage \<Rightarrow> domain_coverage \<Rightarrow> bool" where
  "counted ps unavailable acc acc' \<longleftrightarrow>
     (\<exists>kinds tools reason. acc' = acc\<lparr>dc_total := dc_total acc + int (length ps) + unavailable,
        dc_authoritative := dc_authoritative acc + confident AUTHORITATIVE ps,
        dc_derived := dc_derived acc + confident DERIVED ps, dc_heuristic := dc_heuristic acc + confident HEURISTIC ps,
        dc_unavailable := dc_unavailable acc + unavailable, dc_source_kind_mix := kinds, dc_source_tool_mix := tools,
        dc_degraded_reason := reason\<rparr> \<and> (unavailable = 0 \<longrightarrow> reason = dc_degraded_reason acc)) \<and>
     (kind_mix_ok (dc_source_kind_mix acc) \<longrightarrow> kind_mix_ok (dc_source_kind_mix acc')) \<and>
     (tool_mix_ok (dc_source_tool_mix acc) \<longrightarrow> tool_mix_ok (dc_source_tool_mix acc'))"

lemma counted_refl: "counted [] 0 acc acc"
proof -
  have "acc = acc\<lparr>dc_total := dc_total acc + int (length []) + 0, dc_authoritative := dc_authoritative acc + confident AUTHORITATIVE [],
      dc_derived := dc_derived acc + confident DERIVED [], dc_heuristic := dc_heuristic acc + confident HEURISTIC [],
      dc_unavailable := dc_unavailable acc + 0, dc_source_kind_mix := dc_source_kind_mix acc,
      dc_source_tool_mix := dc_source_tool_mix acc, dc_degraded_reason := dc_degraded_reason acc\<rparr>" by simp
  then show ?thesis unfolding counted_def by blast
qed

lemma counted_trans:
  assumes "counted ps m acc1 acc2" and "counted qs n acc2 acc3" and "0 \<le> m" and "0 \<le> n"
  shows "counted (ps @ qs) (m + n) acc1 acc3"
proof -
  from assms(1) obtain k1 t1 r1 where a: "acc2 = acc1\<lparr>dc_total := dc_total acc1 + int (length ps) + m,
        dc_authoritative := dc_authoritative acc1 + confident AUTHORITATIVE ps,
        dc_derived := dc_derived acc1 + confident DERIVED ps, dc_heuristic := dc_heuristic acc1 + confident HEURISTIC ps,
        dc_unavailable := dc_unavailable acc1 + m, dc_source_kind_mix := k1, dc_source_tool_mix := t1,
        dc_degraded_reason := r1\<rparr>" "m = 0 \<longrightarrow> r1 = dc_degraded_reason acc1" unfolding counted_def by blast
  from assms(2) obtain k2 t2 r2 where b: "acc3 = acc2\<lparr>dc_total := dc_total acc2 + int (length qs) + n,
        dc_authoritative := dc_authoritative acc2 + confident AUTHORITATIVE qs,
        dc_derived := dc_derived acc2 + confident DERIVED qs, dc_heuristic := dc_heuristic acc2 + confident HEURISTIC qs,
        dc_unavailable := dc_unavailable acc2 + n, dc_source_kind_mix := k2, dc_source_tool_mix := t2,
        dc_degraded_reason := r2\<rparr>" "n = 0 \<longrightarrow> r2 = dc_degraded_reason acc2" unfolding counted_def by blast
  have "acc3 = acc1\<lparr>dc_total := dc_total acc1 + int (length (ps @ qs)) + (m + n),
        dc_authoritative := dc_authoritative acc1 + confident AUTHORITATIVE (ps @ qs),
        dc_derived := dc_derived acc1 + confident DERIVED (ps @ qs), dc_heuristic := dc_heuristic acc1 + confident HEURISTIC (ps @ qs),
        dc_unavailable := dc_unavailable acc1 + (m + n), dc_source_kind_mix := k2, dc_source_tool_mix := t2,
        dc_degraded_reason := r2\<rparr>" by (simp add: a(1) b(1) algebra_simps)
  moreover have "m + n = 0 \<longrightarrow> r2 = dc_degraded_reason acc1" using a b assms(3,4) by auto
  ultimately show ?thesis using assms(1,2) unfolding counted_def by blast
qed

lemma add_provenance_item_counted:
  assumes "wf_provenance p"
  shows "\<exists>acc'. add_provenance_item p acc = Inr acc' \<and> counted [p] 0 acc acc'"
proof -
  have ne: "p \<noteq> []" and wf: "\<forall>e\<in>set p. wf_provenance_entry e" using assms by (auto simp: wf_provenance_def)
  have c: "preferred_confidence_mode p = Inr (confidence_of p)"
    using ne by (simp add: preferred_confidence_mode_Inr_iff confidence_of_def)
  obtain k where k: "preferred_source_kind p = Inr k" using preferred_source_kind_ok [OF ne] ..
  obtain t where t: "preferred_source_tool p = Inr t" "case t of Some s \<Rightarrow> \<not> blank s | None \<Rightarrow> True"
    using preferred_source_tool_ok [OF ne wf] by blast
  let ?kinds = "bump (source_kind_value k) (dc_source_kind_mix acc)"
  let ?tools = "case t of None \<Rightarrow> dc_source_tool_mix acc | Some s \<Rightarrow> bump s (dc_source_tool_mix acc)"
  define acc' where "acc' = (count_confidence (confidence_of p) (acc\<lparr>dc_total := dc_total acc + 1\<rparr>))
    \<lparr>dc_source_kind_mix := ?kinds, dc_source_tool_mix := ?tools\<rparr>"
  have mix: "dc_source_kind_mix (count_confidence c d) = dc_source_kind_mix d"
    "dc_source_tool_mix (count_confidence c d) = dc_source_tool_mix d" for c d
    by (cases c; simp add: count_confidence_def)+
  have add: "add_provenance_item p acc = Inr acc'"
    using c k t(1) by (cases t) (simp_all add: add_provenance_item_def acc'_def Let_def mix)
  have eq: "acc' = acc\<lparr>dc_total := dc_total acc + int (length [p]) + 0, dc_authoritative := dc_authoritative acc + confident AUTHORITATIVE [p],
      dc_derived := dc_derived acc + confident DERIVED [p], dc_heuristic := dc_heuristic acc + confident HEURISTIC [p],
      dc_unavailable := dc_unavailable acc + 0, dc_source_kind_mix := ?kinds, dc_source_tool_mix := ?tools,
      dc_degraded_reason := dc_degraded_reason acc\<rparr>"
    by (cases "confidence_of p") (simp_all add: acc'_def count_confidence_def)
  have kinds: "kind_mix_ok (dc_source_kind_mix acc) \<longrightarrow> kind_mix_ok (dc_source_kind_mix acc')"
    by (simp add: acc'_def kind_mix_ok_bump)
  have tools: "tool_mix_ok (dc_source_tool_mix acc) \<longrightarrow> tool_mix_ok (dc_source_tool_mix acc')"
    using t(2) by (cases t) (simp_all add: acc'_def tool_mix_ok_bump)
  have "counted [p] 0 acc acc'"
    unfolding counted_def
  proof (intro conjI exI)
    show "acc' = acc\<lparr>dc_total := dc_total acc + int (length [p]) + 0, dc_authoritative := dc_authoritative acc + confident AUTHORITATIVE [p],
      dc_derived := dc_derived acc + confident DERIVED [p], dc_heuristic := dc_heuristic acc + confident HEURISTIC [p],
      dc_unavailable := dc_unavailable acc + 0, dc_source_kind_mix := ?kinds, dc_source_tool_mix := ?tools,
      dc_degraded_reason := dc_degraded_reason acc\<rparr>" by (rule eq)
  qed (use kinds tools in simp_all)
  then show ?thesis using add by blast
qed

lemma add_items_counted:
  assumes "\<forall>p\<in>set ps. wf_provenance p"
  shows "\<exists>acc'. foldE add_provenance_item ps acc = Inr acc' \<and> counted ps 0 acc acc'"
  using assms
proof (induction ps arbitrary: acc)
  case Nil
  then show ?case by (simp add: counted_refl)
next
  case (Cons p ps)
  obtain a where a: "add_provenance_item p acc = Inr a" "counted [p] 0 acc a"
    using add_provenance_item_counted Cons.prems by fastforce
  obtain b where b: "foldE add_provenance_item ps a = Inr b" "counted ps 0 a b" using Cons by fastforce
  show ?case using a b counted_trans [OF a(2) b(2)] by simp
qed

text \<open>Applying capabilities counts the available ones as items and the others as unavailable, with their reasons.\<close>

definition available_provenance :: "runtime_capability list \<Rightarrow> provenance list" where
  "available_provenance cs = map cap_provenance (filter (\<lambda>c. cap_availability c = RC_AVAILABLE) cs)"

definition withheld :: "runtime_capability list \<Rightarrow> runtime_capability list" where
  "withheld cs = filter (\<lambda>c. cap_availability c \<noteq> RC_AVAILABLE) cs"

definition sound_capability :: "runtime_capability \<Rightarrow> bool" where
  "sound_capability c \<longleftrightarrow> wf_capability c \<and> wf_provenance (cap_provenance c)"

lemma apply_capability_counted:
  assumes "sound_capability c"
  shows "\<exists>acc'. apply_runtime_capability c (acc, reasons) = Inr (acc', reasons @ map (\<lambda>c. the (cap_reason c)) (withheld [c])) \<and>
     counted (available_provenance [c]) (int (length (withheld [c]))) acc acc'"
proof (cases "cap_availability c = RC_AVAILABLE")
  case True
  then show ?thesis using add_provenance_item_counted [of "cap_provenance c" acc] assms
    by (auto simp: apply_runtime_capability_def available_provenance_def withheld_def sound_capability_def)
next
  case False
  then obtain r where r: "cap_reason c = Some r" using assms by (auto simp: sound_capability_def wf_capability_def)
  let ?acc' = "acc\<lparr>dc_total := dc_total acc + 1, dc_unavailable := dc_unavailable acc + 1,
    dc_degraded_reason := (if dc_degraded_reason acc = None then Some r else dc_degraded_reason acc)\<rparr>"
  have eq: "?acc' = acc\<lparr>dc_total := dc_total acc + int (length []) + 1, dc_authoritative := dc_authoritative acc + confident AUTHORITATIVE [],
      dc_derived := dc_derived acc + confident DERIVED [], dc_heuristic := dc_heuristic acc + confident HEURISTIC [],
      dc_unavailable := dc_unavailable acc + 1, dc_source_kind_mix := dc_source_kind_mix acc,
      dc_source_tool_mix := dc_source_tool_mix acc,
      dc_degraded_reason := (if dc_degraded_reason acc = None then Some r else dc_degraded_reason acc)\<rparr>" by simp
  have "counted [] 1 acc ?acc'"
    unfolding counted_def by (intro conjI exI, rule eq) simp_all
  then show ?thesis using False r
    by (auto simp: apply_runtime_capability_def add_unavailable_def available_provenance_def withheld_def)
qed

lemma apply_capabilities_counted_from:
  assumes "\<forall>c\<in>set cs. sound_capability c"
  shows "\<exists>acc'. foldE apply_runtime_capability cs (acc, reasons) = Inr (acc', reasons @ map (\<lambda>c. the (cap_reason c)) (withheld cs)) \<and>
     counted (available_provenance cs) (int (length (withheld cs))) acc acc'"
  using assms
proof (induction cs arbitrary: acc reasons)
  case Nil
  then show ?case by (simp add: counted_refl available_provenance_def withheld_def)
next
  case (Cons c cs)
  obtain a where a: "apply_runtime_capability c (acc, reasons) = Inr (a, reasons @ map (\<lambda>c. the (cap_reason c)) (withheld [c]))"
    "counted (available_provenance [c]) (int (length (withheld [c]))) acc a"
    using apply_capability_counted Cons.prems by fastforce
  obtain b where b: "foldE apply_runtime_capability cs (a, reasons @ map (\<lambda>c. the (cap_reason c)) (withheld [c])) =
      Inr (b, (reasons @ map (\<lambda>c. the (cap_reason c)) (withheld [c])) @ map (\<lambda>c. the (cap_reason c)) (withheld cs))"
    "counted (available_provenance cs) (int (length (withheld cs))) a b"
    using Cons.IH Cons.prems by fastforce
  have "counted (available_provenance [c] @ available_provenance cs)
      (int (length (withheld [c])) + int (length (withheld cs))) acc b"
    by (rule counted_trans [OF a(2) b(2)]) simp_all
  then show ?case using a(1) b(1) by (auto simp: available_provenance_def withheld_def)
qed

text \<open>The state of a domain that its validator accepts.\<close>

definition balanced :: "domain_coverage \<Rightarrow> bool" where
  "balanced d \<longleftrightarrow> 0 \<le> dc_authoritative d \<and> 0 \<le> dc_derived d \<and> 0 \<le> dc_heuristic d \<and> 0 \<le> dc_unavailable d \<and>
     dc_authoritative d + dc_derived d + dc_heuristic d + dc_unavailable d = dc_total d \<and>
     kind_mix_ok (dc_source_kind_mix d) \<and> tool_mix_ok (dc_source_tool_mix d)"

lemma counted_new:
  assumes "counted ps n (new_accumulator domain) acc" and "0 \<le> n"
  shows "balanced acc \<and> dc_domain acc = domain \<and> dc_total acc = int (length ps) + n \<and>
     dc_authoritative acc = confident AUTHORITATIVE ps \<and> dc_derived acc = confident DERIVED ps \<and>
     dc_heuristic acc = confident HEURISTIC ps \<and> dc_unavailable acc = n \<and> dc_availability acc = TA_UNAVAILABLE \<and>
     (n = 0 \<longrightarrow> dc_degraded_reason acc = None) \<and> dc_execution_available acc = None \<and> dc_action_capabilities acc = []"
  using assms confident_total [of ps]
  by (auto simp: counted_def balanced_def new_accumulator_def kind_mix_ok_def tool_mix_ok_def)

lemma apply_capabilities_new:
  assumes "\<forall>c\<in>set cs. sound_capability c"
  obtains acc where "apply_capabilities domain cs = Inr (acc, map (\<lambda>c. the (cap_reason c)) (withheld cs))"
    "counted (available_provenance cs) (int (length (withheld cs))) (new_accumulator domain) acc"
  using apply_capabilities_counted_from [OF assms, of "new_accumulator domain" "[]"]
  by (auto simp: apply_capabilities_def)

definition reason_fits :: "truth_availability \<Rightarrow> string option \<Rightarrow> bool" where
  "reason_fits availability reason \<longleftrightarrow>
     (case reason of None \<Rightarrow> availability \<noteq> TA_DEGRADED | Some r \<Rightarrow> \<not> blank r \<and> availability \<noteq> TA_AVAILABLE)"

lemma reason_fits_simps [simp]:
  "reason_fits a None \<longleftrightarrow> a \<noteq> TA_DEGRADED" "reason_fits a (Some r) \<longleftrightarrow> \<not> blank r \<and> a \<noteq> TA_AVAILABLE"
  by (simp_all add: reason_fits_def)

definition shaped :: "domain_coverage \<Rightarrow> bool" where
  "shaped d \<longleftrightarrow> reason_fits (dc_availability d) (dc_degraded_reason d) \<and>
     (if dc_domain d = TD_ACTIONS then fst ` set (dc_action_capabilities d) \<subseteq> set action_capability_keys
      else dc_action_capabilities d = []) \<and>
     (dc_execution_available d \<noteq> None \<longrightarrow> dc_domain d \<in> {TD_QUALITY, TD_ACTIONS})"

lemma validate_kind_mix_ok: "kind_mix_ok mix \<Longrightarrow> validate_kind_mix mix = Inr ()"
  unfolding validate_kind_mix_def kind_mix_ok_def by (induction mix) auto

lemma validate_tool_mix_ok: "tool_mix_ok mix \<Longrightarrow> validate_tool_mix mix = Inr ()"
  unfolding validate_tool_mix_def tool_mix_ok_def by (induction mix) auto

lemma validate_action_keys_ok: "fst ` set cs \<subseteq> set action_capability_keys \<Longrightarrow> validate_action_keys cs = Inr ()"
  unfolding validate_action_keys_def by (induction cs) auto

lemma finalize_ok:
  assumes "balanced d" and "shaped d"
  shows "finalize d = Inr d"
proof -
  have keys: "validate_action_keys (dc_action_capabilities d) = Inr ()"
    using assms(2) by (intro validate_action_keys_ok) (auto simp: shaped_def split: if_splits)
  have mixes: "validate_kind_mix (dc_source_kind_mix d) = Inr ()" "validate_tool_mix (dc_source_tool_mix d) = Inr ()"
    using assms(1) by (simp_all add: balanced_def validate_kind_mix_ok validate_tool_mix_ok)
  have sums: "0 \<le> dc_total d \<and> 0 \<le> dc_authoritative d \<and> 0 \<le> dc_derived d \<and> 0 \<le> dc_heuristic d \<and> 0 \<le> dc_unavailable d"
      "dc_authoritative d + dc_derived d + dc_heuristic d + dc_unavailable d = dc_total d"
    using assms(1) unfolding balanced_def by linarith+
  have reason: "case dc_degraded_reason d of None \<Rightarrow> True | Some r \<Rightarrow> \<not> blank r"
      "\<not> (dc_availability d = TA_DEGRADED \<and> dc_degraded_reason d = None)"
      "\<not> (dc_availability d = TA_AVAILABLE \<and> dc_degraded_reason d \<noteq> None)"
    using assms(2) unfolding shaped_def by (cases "dc_degraded_reason d"; simp)+
  have shape: "\<not> (dc_domain d \<noteq> TD_ACTIONS \<and> dc_action_capabilities d \<noteq> [])"
      "\<not> (dc_domain d \<notin> {TD_QUALITY, TD_ACTIONS} \<and> dc_execution_available d \<noteq> None)"
    using assms(2) unfolding shaped_def by auto
  show ?thesis
    unfolding finalize_def keys mixes ebind_simps ebind_check_Inr using sums reason shape by blast
qed

lemma most_frequent_in: "mix \<noteq> [] \<Longrightarrow> most_frequent mix \<in> fst ` set mix"
proof -
  assume "mix \<noteq> []"
  then have "hd (sort_key (\<lambda>(k, n). - n) (sort_key fst mix)) \<in> set (sort_key fst mix)"
    by (intro hd_sort_key_in) simp
  then show ?thesis by (simp add: most_frequent_def)
qed

lemma source_kind_of_ok:
  assumes "v \<in> source_kind_value ` set all_source_kinds"
  shows "\<exists>k. source_kind_of v = Inr k"
proof -
  have "find (\<lambda>k. source_kind_value k = v) all_source_kinds \<noteq> None"
    using assms unfolding find_set_None by blast
  then show ?thesis by (auto simp: source_kind_of_def)
qed

lemma domain_summary_ok:
  assumes "balanced d"
  shows "\<exists>e. domain_summary_provenance d = Inr e"
proof -
  have words: "\<not> blank (coverage_domain_value (dc_domain d) @ s)" for s
    by (cases "dc_domain d") (simp_all add: py_isspace_def)
  have kind: "\<exists>k. (if dc_source_kind_mix d = [] then Inr SK_HEURISTIC else source_kind_of (most_frequent (dc_source_kind_mix d))) = Inr k"
    using most_frequent_in [of "dc_source_kind_mix d"] assms source_kind_of_ok
    by (force simp: balanced_def kind_mix_ok_def)
  have tool: "case (if dc_source_tool_mix d = [] then None else Some (most_frequent (dc_source_tool_mix d))) of
      Some t \<Rightarrow> \<not> blank t | None \<Rightarrow> True"
    using most_frequent_in [of "dc_source_tool_mix d"] assms by (force simp: balanced_def tool_mix_ok_def)
  note ok = derived_summary_ok [OF words, where paths = "[]"]
  show ?thesis
  proof (cases "dc_total d = 0")
    case True
    then show ?thesis using ok [where tool = None] by (simp add: domain_summary_provenance_def)
  next
    case False
    obtain k where "(if dc_source_kind_mix d = [] then Inr SK_HEURISTIC else source_kind_of (most_frequent (dc_source_kind_mix d))) = Inr k"
      using kind by blast
    then show ?thesis using False ok [OF _ _ tool] by (simp add: domain_summary_provenance_def)
  qed
qed

lemma summarize_domains_ok:
  assumes "\<forall>d\<in>set ds. balanced d" and "map dc_domain ds = all_domains" and "\<not> blank scope_id"
    and "scope_kind \<in> {''repository'', ''change''}"
  shows "\<exists>p. summarize_domains scope_kind scope_id ds = Inr
     \<lparr>ts_scope_kind = scope_kind, ts_scope_id = scope_id, ts_domains = ds,
      ts_authoritative = sum_list (map dc_authoritative ds), ts_derived = sum_list (map dc_derived ds),
      ts_heuristic = sum_list (map dc_heuristic ds), ts_unavailable = sum_list (map dc_unavailable ds),
      ts_availability = overall_availability ds, ts_provenance = p\<rparr>"
proof -
  have "is_ok (mapE domain_summary_provenance ds)"
    using assms(1) domain_summary_ok unfolding mapE_is_ok by (simp add: is_ok_iff)
  then obtain es where es: "mapE domain_summary_provenance ds = Inr es" by (auto simp: is_ok_iff)
  have len: "length ds = length all_domains" using assms(2) by (metis length_map)
  then have "es \<noteq> []" using mapE_length [OF es] by (auto simp: all_domains_def)
  then have ne: "append_new [] es \<noteq> []" by simp
  have "\<not> blank scope_kind" using assms(4) by (auto simp: py_isspace_def)
  then show ?thesis using es ne assms len
    by (simp add: summarize_domains_def validate_summary_def)
qed

section \<open>The coverage of a change, exactly\<close>

definition covers :: "coverage_domain \<Rightarrow> provenance list \<Rightarrow> domain_coverage \<Rightarrow> bool" where
  "covers domain ps d \<longleftrightarrow> dc_domain d = domain \<and> dc_total d = int (length ps) \<and>
     dc_authoritative d = confident AUTHORITATIVE ps \<and> dc_derived d = confident DERIVED ps \<and>
     dc_heuristic d = confident HEURISTIC ps \<and> dc_unavailable d = 0 \<and>
     dc_availability d =
       (if ps = [] then TA_UNAVAILABLE else if HEURISTIC \<in> confidence_of ` set ps then TA_DEGRADED else TA_AVAILABLE)"

lemma confident_pos: "0 < confident c ps \<longleftrightarrow> c \<in> confidence_of ` set ps"
  by (induction ps) (auto simp: confident_def)

lemma artifact_domain_ok:
  assumes "\<forall>p\<in>set ps. wf_provenance p"
  shows "\<exists>d. artifact_domain domain ps = Inr d \<and> covers domain ps d \<and> balanced d \<and>
     reason_fits (dc_availability d) (dc_degraded_reason d) \<and>
     dc_execution_available d = None \<and> dc_action_capabilities d = []"
proof -
  obtain acc where acc: "foldE add_provenance_item ps (new_accumulator domain) = Inr acc"
    "counted ps 0 (new_accumulator domain) acc"
    using add_items_counted [OF assms] by blast
  note c = counted_new [OF acc(2)]
  have "covers domain ps (artifact_rated acc)"
    using c confident_pos [of HEURISTIC ps] by (auto simp: covers_def artifact_rated_def rated_def)
  moreover have "balanced (artifact_rated acc)"
    using c by (auto simp: balanced_def artifact_rated_def rated_def)
  moreover have "reason_fits (dc_availability (artifact_rated acc)) (dc_degraded_reason (artifact_rated acc))"
    using c by (simp add: artifact_rated_def rated_def py_isspace_def)
  moreover have "dc_execution_available (artifact_rated acc) = None" "dc_action_capabilities (artifact_rated acc) = []"
    using c by (simp_all add: artifact_rated_def rated_def)
  ultimately show ?thesis using acc(1) by (simp add: artifact_domain_def)
qed

lemma balanced_update [simp]:
  "balanced (d\<lparr>dc_execution_available := b\<rparr>) = balanced d" "balanced (d\<lparr>dc_action_capabilities := cs\<rparr>) = balanced d"
  "balanced (d\<lparr>dc_availability := a\<rparr>) = balanced d" "balanced (d\<lparr>dc_degraded_reason := r\<rparr>) = balanced d"
  by (simp_all add: balanced_def)

lemma covers_update [simp]:
  "covers domain ps (d\<lparr>dc_execution_available := b\<rparr>) = covers domain ps d"
  "covers domain ps (d\<lparr>dc_action_capabilities := cs\<rparr>) = covers domain ps d"
  by (simp_all add: covers_def)

text \<open>
  C15. The coverage of a change says exactly what its parts are: for well-formed parts and a named scope
  it never raises, each domain counts its parts by the strongest confidence of their provenance, a
  domain is unavailable when it has no part, degraded when some part is only heuristic and available
  otherwise, and the overall counts are those of all the parts together.
\<close>

theorem change_coverage_exact:
  assumes "items = [change_architecture_items cp, change_code_items cp, cp_related_tests cp, cp_quality_gates cp, cp_related_runners cp]"
    and "\<forall>p\<in>set (concat items). wf_provenance p" and "change_scope_id cp = Inr i" and "\<not> blank i"
  shows "\<exists>ts. change_truth_coverage_from_parts cp = Inr ts \<and> ts_scope_id ts = i \<and>
     list_all2 (\<lambda>(domain, ps) d. covers domain ps d) (zip all_domains items) (ts_domains ts) \<and>
     ts_authoritative ts = confident AUTHORITATIVE (concat items) \<and> ts_derived ts = confident DERIVED (concat items) \<and>
     ts_heuristic ts = confident HEURISTIC (concat items) \<and> ts_unavailable ts = 0"
proof -
  have wf: "\<forall>p\<in>set ps. wf_provenance p" if "ps \<in> set items" for ps using that assms(2) by auto
  obtain a where a: "artifact_domain TD_ARCHITECTURE (change_architecture_items cp) = Inr a"
    "covers TD_ARCHITECTURE (change_architecture_items cp) a" "balanced a" "shaped a"
    using artifact_domain_ok [OF wf, of "change_architecture_items cp" TD_ARCHITECTURE] assms(1) by (auto simp: shaped_def covers_def)
  obtain c where c: "artifact_domain TD_CODE (change_code_items cp) = Inr c"
    "covers TD_CODE (change_code_items cp) c" "balanced c" "shaped c"
    using artifact_domain_ok [OF wf, of "change_code_items cp" TD_CODE] assms(1) by (auto simp: shaped_def covers_def)
  obtain t where t: "artifact_domain TD_TESTS (cp_related_tests cp) = Inr t" "covers TD_TESTS (cp_related_tests cp) t" "balanced t" "shaped t"
    using artifact_domain_ok [OF wf, of "cp_related_tests cp" TD_TESTS] assms(1) by (auto simp: shaped_def covers_def)
  obtain q where q: "artifact_domain TD_QUALITY (cp_quality_gates cp) = Inr q" "covers TD_QUALITY (cp_quality_gates cp) q" "balanced q"
    "shaped (q\<lparr>dc_execution_available := Some (cp_quality_gates cp \<noteq> [])\<rparr>)"
    using artifact_domain_ok [OF wf, of "cp_quality_gates cp" TD_QUALITY] assms(1) by (auto simp: shaped_def covers_def)
  obtain x where x: "artifact_domain TD_ACTIONS (cp_related_runners cp) = Inr x" "covers TD_ACTIONS (cp_related_runners cp) x" "balanced x"
    "shaped (x\<lparr>dc_action_capabilities := [(''tests'', False), (''builds'', False), (''runners'', cp_related_runners cp \<noteq> [])],
       dc_execution_available := Some (cp_related_runners cp \<noteq> [])\<rparr>)"
    using artifact_domain_ok [OF wf, of "cp_related_runners cp" TD_ACTIONS] assms(1)
    by (auto simp: shaped_def covers_def action_capability_keys_def)
  let ?q = "q\<lparr>dc_execution_available := Some (cp_quality_gates cp \<noteq> [])\<rparr>"
  let ?x = "x\<lparr>dc_action_capabilities := [(''tests'', False), (''builds'', False), (''runners'', cp_related_runners cp \<noteq> [])],
    dc_execution_available := Some (cp_related_runners cp \<noteq> [])\<rparr>"
  let ?ds = "[a, c, t, ?q, ?x]"
  have fin: "mapE finalize ?ds = Inr ?ds" using a c t q x by (simp add: finalize_ok)
  have dom: "map dc_domain ?ds = all_domains" using a c t q x by (simp add: covers_def all_domains_def)
  have "\<forall>d\<in>set ?ds. balanced d" using a c t q x by simp
  from summarize_domains_ok [OF this dom assms(4), of "''change''"]
  obtain p where s: "summarize_domains ''change'' i ?ds = Inr
     \<lparr>ts_scope_kind = ''change'', ts_scope_id = i, ts_domains = ?ds,
      ts_authoritative = sum_list (map dc_authoritative ?ds), ts_derived = sum_list (map dc_derived ?ds),
      ts_heuristic = sum_list (map dc_heuristic ?ds), ts_unavailable = sum_list (map dc_unavailable ?ds),
      ts_availability = overall_availability ?ds, ts_provenance = p\<rparr>" (is "_ = Inr ?ts") by auto
  have "change_truth_coverage_from_parts cp = Inr ?ts"
    unfolding change_truth_coverage_from_parts_def a(1) c(1) t(1) q(1) x(1) assms(3) ebind_simps fin by (rule s)
  moreover have "list_all2 (\<lambda>(domain, ps) d. covers domain ps d) (zip all_domains items) ?ds"
    using a c t q x by (simp add: assms(1) all_domains_def)
  ultimately show ?thesis using a(2) c(2) t(2) q(2) x(2) by (simp add: covers_def assms(1))
qed

definition sample_change :: change_parts where
  "sample_change =
     \<lparr>cp_target_kind = ''file'', cp_owner_id = ''component:npm:a'', cp_evidence_path = Some ''src/a/x.ts'',
      cp_primary_component = Some [sample_entry SK_MANIFEST []], cp_component_context = None, cp_dependent_components = [],
      cp_file_context = None, cp_symbol_context = None, cp_reference_locations = [[sample_entry SK_LSP []]],
      cp_file_relationships = [], cp_render_edges = [], cp_findings_and_flows = [], cp_implementations = [],
      cp_related_tests = [[(sample_entry SK_HEURISTIC [])\<lparr>pe_confidence_mode := HEURISTIC\<rparr>]], cp_quality_gates = [],
      cp_related_runners = []\<rparr>"

theorem change_coverage_exact_witness:
  "\<exists>ts. change_truth_coverage_from_parts sample_change = Inr ts \<and> ts_scope_id ts = ''src/a/x.ts'' \<and> ts_derived ts = 2 \<and> ts_heuristic ts = 1"
proof -
  let ?items = "[change_architecture_items sample_change, change_code_items sample_change, cp_related_tests sample_change,
    cp_quality_gates sample_change, cp_related_runners sample_change]"
  have wf: "\<forall>p\<in>set (concat ?items). wf_provenance p"
    by (simp add: sample_change_def change_architecture_items_def change_code_items_def option_list_def wf_provenance_def
        wf_provenance_entry_def sample_entry_def py_isspace_def)
  have scope: "change_scope_id sample_change = Inr ''src/a/x.ts''" by code_simp
  have "confident DERIVED (concat ?items) = 2" "confident HEURISTIC (concat ?items) = 1"
    by (simp_all add: sample_change_def change_architecture_items_def change_code_items_def option_list_def confidence_of_def
        sample_entry_def)
  moreover have "\<not> blank ''src/a/x.ts''" by (simp add: py_isspace_def)
  ultimately show ?thesis using change_coverage_exact [OF refl wf scope] by auto
qed

section \<open>The coverage of a repository\<close>

lemma joined_reasons_not_blank:
  assumes "reasons \<noteq> []" and "\<forall>r\<in>set reasons. \<not> blank r"
  shows "\<not> blank (joined_reasons reasons)"
proof -
  have "\<not> blank (join_with sep ws)" if "ws \<noteq> []" "\<forall>w\<in>set ws. \<not> blank w" for sep ws
    using that by (induction sep ws rule: join_with.induct) auto
  then show ?thesis using assms by (simp add: joined_reasons_def)
qed

lemma withheld_reasons:
  "\<forall>c\<in>set cs. sound_capability c \<Longrightarrow> r \<in> set (map (\<lambda>c. the (cap_reason c)) (withheld cs)) \<Longrightarrow> \<not> blank r"
  by (auto simp: withheld_def sound_capability_def wf_capability_def)

lemma withheld_joined:
  "\<forall>c\<in>set cs. sound_capability c \<Longrightarrow> withheld cs \<noteq> [] \<Longrightarrow> \<not> blank (joined_reasons (map (\<lambda>c. the (cap_reason c)) (withheld cs)))"
  by (rule joined_reasons_not_blank) (use withheld_reasons in auto)

definition settled :: "coverage_domain \<Rightarrow> domain_coverage \<Rightarrow> bool" where
  "settled domain d \<longleftrightarrow> dc_domain d = domain \<and> balanced d \<and> shaped d"

lemma settled_finalize: "settled domain d \<Longrightarrow> finalize d = Inr d"
  by (simp add: settled_def finalize_ok)

text \<open>The state from which each domain is rated.\<close>

definition tallied :: "coverage_domain \<Rightarrow> runtime_capability list \<Rightarrow> domain_coverage \<Rightarrow> bool" where
  "tallied domain cs acc \<longleftrightarrow> balanced acc \<and> dc_domain acc = domain \<and>
     dc_total acc = int (length (available_provenance cs)) + int (length (withheld cs)) \<and>
     dc_unavailable acc = int (length (withheld cs)) \<and> (withheld cs = [] \<longrightarrow> dc_degraded_reason acc = None) \<and>
     dc_execution_available acc = None \<and> dc_action_capabilities acc = [] \<and> dc_availability acc = TA_UNAVAILABLE"

lemma counted_cases:
  assumes "\<forall>c\<in>set cs. sound_capability c"
  obtains acc where "apply_capabilities domain cs = Inr (acc, map (\<lambda>c. the (cap_reason c)) (withheld cs))" "tallied domain cs acc"
proof -
  obtain acc where a: "apply_capabilities domain cs = Inr (acc, map (\<lambda>c. the (cap_reason c)) (withheld cs))"
    "counted (available_provenance cs) (int (length (withheld cs))) (new_accumulator domain) acc"
    using apply_capabilities_new [OF assms] .
  show ?thesis using that [OF a(1)] counted_new [OF a(2)] by (simp add: tallied_def)
qed

lemma architecture_domain_ok:
  assumes "\<forall>p\<in>set (architecture_items rp). wf_provenance p"
  shows "\<exists>d. architecture_domain rp = Inr d \<and> settled TD_ARCHITECTURE d"
proof -
  obtain acc where acc: "foldE add_provenance_item (architecture_items rp) (new_accumulator TD_ARCHITECTURE) = Inr acc"
    "counted (architecture_items rp) 0 (new_accumulator TD_ARCHITECTURE) acc" using add_items_counted [OF assms] by blast
  define d where "d = (if \<not> supports_role rp ROLE_ARCHITECTURE then rated TA_UNAVAILABLE (Some ''repository has no architecture provider'') acc
    else if dc_total acc = 0
    then rated TA_DEGRADED (Some ''architecture provider exists but no architecture entities were produced'') acc
    else acc\<lparr>dc_availability := TA_AVAILABLE\<rparr>)"
  have s: "settled TD_ARCHITECTURE d"
    using counted_new [OF acc(2)] by (simp add: d_def settled_def shaped_def rated_def py_isspace_def)
  show ?thesis using s settled_finalize [OF s] by (simp add: architecture_domain_def acc(1) d_def)
qed

lemma code_domain_ok:
  assumes "code_runtime_capabilities (rn_code rn) rp = Inr ccs" and "\<forall>cc\<in>set ccs. \<forall>c\<in>set (code_operations cc). sound_capability c"
    and "supports_role rp ROLE_CODE \<longrightarrow> ccs \<noteq> []"
  shows "\<exists>d. code_domain rn rp = Inr d \<and> settled TD_CODE d \<and>
     (dc_availability d = TA_AVAILABLE \<longrightarrow> supports_role rp ROLE_CODE \<and>
        (\<forall>cc\<in>set ccs. \<forall>c\<in>set (code_operations cc). cap_availability c = RC_AVAILABLE))"
proof (cases "supports_role rp ROLE_CODE")
  case False
  define d where "d = (new_accumulator TD_CODE)\<lparr>dc_total := 5, dc_unavailable := 5,
    dc_degraded_reason := Some ''repository has no code intelligence provider''\<rparr>"
  have s: "settled TD_CODE d"
    by (simp add: d_def settled_def shaped_def balanced_def new_accumulator_def kind_mix_ok_def tool_mix_ok_def py_isspace_def)
  have "code_domain rn rp = finalize d"
    using False by (simp add: code_domain_def add_unavailable_def code_operation_count_def new_accumulator_def d_def)
  then show ?thesis using s settled_finalize [OF s] by (simp add: d_def new_accumulator_def)
next
  case True
  let ?cs = "concat (map code_operations ccs)"
  have sound: "\<forall>c\<in>set ?cs. sound_capability c" using assms(2) by auto
  obtain acc where app: "apply_capabilities TD_CODE ?cs = Inr (acc, map (\<lambda>c. the (cap_reason c)) (withheld ?cs))"
    and acc: "tallied TD_CODE ?cs acc" by (rule counted_cases [OF sound])
  have ne: "?cs \<noteq> []" using assms(3) True by (cases ccs) (simp_all add: code_operations_def)
  show ?thesis
  proof (cases "withheld ?cs = []")
    case none: True
    then have all: "\<forall>c\<in>set ?cs. cap_availability c = RC_AVAILABLE" by (auto simp: withheld_def filter_empty_conv)
    then have "available_provenance ?cs \<noteq> []" using ne by (cases ?cs) (simp_all add: available_provenance_def)
    then have d: "code_domain rn rp = finalize (acc\<lparr>dc_availability := TA_AVAILABLE\<rparr>)"
      using True none acc by (simp add: code_domain_def assms(1) app tallied_def Let_def)
    have s: "settled TD_CODE (acc\<lparr>dc_availability := TA_AVAILABLE\<rparr>)"
      using acc none by (simp add: settled_def shaped_def tallied_def)
    show ?thesis using d s settled_finalize [OF s] all True by auto
  next
    case some: False
    let ?d = "acc\<lparr>dc_availability := TA_DEGRADED, dc_degraded_reason := Some (joined_reasons (map (\<lambda>c. the (cap_reason c)) (withheld ?cs)))\<rparr>"
    have d: "code_domain rn rp = finalize ?d"
      using True some acc by (simp add: code_domain_def assms(1) app tallied_def Let_def)
    have s: "settled TD_CODE ?d" using acc withheld_joined [OF sound some] by (simp add: settled_def shaped_def tallied_def)
    show ?thesis using d s settled_finalize [OF s] by auto
  qed
qed

lemma tests_domain_ok:
  assumes "\<forall>p\<in>set (test_providers rp). sound_capability (tc_discovery (rn_tests rn p)) \<and> sound_capability (tc_execution (rn_tests rn p))"
  shows "\<exists>d. tests_domain rn rp = Inr d \<and> settled TD_TESTS d"
proof (cases "supports_role rp ROLE_TEST")
  case False
  let ?d = "rated TA_UNAVAILABLE (Some ''repository has no test provider'') (new_accumulator TD_TESTS)"
  have s: "settled TD_TESTS ?d"
    by (simp add: settled_def shaped_def rated_def balanced_def new_accumulator_def kind_mix_ok_def tool_mix_ok_def py_isspace_def)
  show ?thesis using False s settled_finalize [OF s] by (simp add: tests_domain_def)
next
  case True
  let ?cs = "concat (map (\<lambda>p. [tc_discovery (rn_tests rn p), tc_execution (rn_tests rn p)]) (test_providers rp))"
  have sound: "\<forall>c\<in>set ?cs. sound_capability c" using assms by auto
  obtain acc where app: "apply_capabilities TD_TESTS ?cs = Inr (acc, map (\<lambda>c. the (cap_reason c)) (withheld ?cs))"
    and acc: "tallied TD_TESTS ?cs acc" by (rule counted_cases [OF sound])
  define reasons where "reasons = map (\<lambda>c. the (cap_reason c)) (withheld ?cs)"
  define d where "d = (if dc_total acc = 0
     then rated TA_UNAVAILABLE (Some ''test provider exists but exposes no runtime test capabilities'') acc
     else if 0 < dc_unavailable acc
     then rated TA_DEGRADED (Some (if reasons \<noteq> [] then joined_reasons reasons else ''test capability is partially unavailable'')) acc
     else if dc_authoritative acc = 0 \<and> 0 < dc_heuristic acc
     then rated TA_DEGRADED (Some ''test capability is available only through heuristic fallback'') acc
     else acc\<lparr>dc_availability := TA_AVAILABLE\<rparr>)"
  have "reasons \<noteq> [] \<Longrightarrow> \<not> blank (joined_reasons reasons)" using withheld_joined [OF sound] by (simp add: reasons_def)
  then have s: "settled TD_TESTS d" using acc by (simp add: d_def settled_def shaped_def rated_def tallied_def py_isspace_def)
  have "tests_domain rn rp = finalize d"
    unfolding tests_domain_def d_def reasons_def using True by (simp only: app if_True if_False not_True_eq_False ebind_simps prod.case)
  then show ?thesis using s settled_finalize [OF s] by simp
qed

lemma quality_domain_ok:
  assumes "relevant_repository_rel_paths rp None = Inr paths" and "quality_providers_for_files rp paths = Inr ps"
    and "\<forall>p\<in>set ps. sound_capability (qc_lint (rn_quality rn p paths)) \<and> sound_capability (qc_format (rn_quality rn p paths))"
  shows "\<exists>d. quality_domain rn rp = Inr d \<and> settled TD_QUALITY d"
proof (cases "quality_providers rp = []")
  case True
  let ?d = "(rated TA_UNAVAILABLE (Some ''repository has no quality provider'') (new_accumulator TD_QUALITY))\<lparr>dc_execution_available := Some False\<rparr>"
  have s: "settled TD_QUALITY ?d"
    by (simp add: settled_def shaped_def rated_def balanced_def new_accumulator_def kind_mix_ok_def tool_mix_ok_def py_isspace_def)
  show ?thesis using True s settled_finalize [OF s] by (simp add: quality_domain_def)
next
  case False
  let ?cs = "concat (map (\<lambda>p. [qc_lint (rn_quality rn p paths), qc_format (rn_quality rn p paths)]) ps)"
  have sound: "\<forall>c\<in>set ?cs. sound_capability c" using assms(3) by auto
  obtain acc where app: "apply_capabilities TD_QUALITY ?cs = Inr (acc, map (\<lambda>c. the (cap_reason c)) (withheld ?cs))"
    and acc: "tallied TD_QUALITY ?cs acc" by (rule counted_cases [OF sound])
  let ?acc = "acc\<lparr>dc_execution_available := Some (dc_unavailable acc = 0 \<and> 0 < dc_total acc)\<rparr>"
  show ?thesis
  proof (cases "withheld ?cs = []")
    case none: True
    have s: "settled TD_QUALITY (?acc\<lparr>dc_availability := TA_AVAILABLE\<rparr>)"
      using acc none by (simp add: settled_def shaped_def tallied_def)
    have "quality_domain rn rp = finalize (?acc\<lparr>dc_availability := TA_AVAILABLE\<rparr>)"
      using False none acc by (simp add: quality_domain_def assms(1,2) app tallied_def Let_def)
    then show ?thesis using s settled_finalize [OF s] by simp
  next
    case some: False
    let ?d = "rated TA_DEGRADED (Some (joined_reasons (map (\<lambda>c. the (cap_reason c)) (withheld ?cs)))) ?acc"
    have s: "settled TD_QUALITY ?d"
      using acc withheld_joined [OF sound some] by (simp add: settled_def shaped_def rated_def tallied_def)
    have "quality_domain rn rp = finalize ?d"
      using False some acc by (simp add: quality_domain_def assms(1,2) app tallied_def Let_def)
    then show ?thesis using s settled_finalize [OF s] by simp
  qed
qed

lemma actions_domain_ok:
  assumes "\<forall>p\<in>set (action_providers rp). sound_capability (ac_tests (rn_actions rn p)) \<and>
     sound_capability (ac_builds (rn_actions rn p)) \<and> sound_capability (ac_runners (rn_actions rn p))"
  shows "\<exists>d. actions_domain rn rp = Inr d \<and> settled TD_ACTIONS d"
proof -
  define snapshots where "snapshots = map (rn_actions rn) (action_providers rp)"
  define cs where "cs = concat (map (\<lambda>s. [ac_tests s, ac_builds s, ac_runners s]) snapshots)"
  have sound: "\<forall>c\<in>set cs. sound_capability c" using assms by (auto simp: cs_def snapshots_def)
  obtain acc where app: "apply_capabilities TD_ACTIONS cs = Inr (acc, map (\<lambda>c. the (cap_reason c)) (withheld cs))"
    and acc: "tallied TD_ACTIONS cs acc" by (rule counted_cases [OF sound])
  define reasons where "reasons = map (\<lambda>c. the (cap_reason c)) (withheld cs)"
  define capabilities where "capabilities = [(''tests'', some_available ac_tests snapshots), (''builds'', some_available ac_builds snapshots),
              (''runners'', some_available ac_runners snapshots)]"
  define acc2 where "acc2 = acc\<lparr>dc_action_capabilities := capabilities, dc_execution_available := Some (\<exists>(k, b)\<in>set capabilities. b)\<rparr>"
  define missing where "missing = map fst (filter (\<lambda>(k, b). \<not> b) capabilities)"
  define reason where "reason = (if reasons \<noteq> [] then joined_reasons reasons
    else ''deterministic actions are missing for: '' @ join_with '', '' (sort missing))"
  define d where "d = (if snapshots = [] then rated TA_UNAVAILABLE (Some ''no deterministic actions were discovered'') acc2
    else if missing \<noteq> [] then rated TA_DEGRADED (Some reason) acc2 else rated TA_AVAILABLE None acc2)"
  have "\<not> blank reason"
  proof (cases "reasons = []")
    case True
    then show ?thesis by (simp add: reason_def py_isspace_def)
  next
    case False
    then show ?thesis using withheld_joined [OF sound] by (simp add: reason_def reasons_def)
  qed
  then have s: "settled TD_ACTIONS d"
    using acc by (simp add: d_def acc2_def settled_def shaped_def rated_def tallied_def capabilities_def action_capability_keys_def py_isspace_def)
  have "actions_domain rn rp = finalize d"
    by (simp only: actions_domain_def Let_def snapshots_def [symmetric] cs_def [symmetric] app ebind_simps prod.case
        reasons_def [symmetric] capabilities_def [symmetric] acc2_def [symmetric] missing_def [symmetric] reason_def [symmetric] d_def)
  then show ?thesis using s settled_finalize [OF s] by simp
qed

section \<open>Properties of the repository coverage\<close>

text \<open>Roles are detected from what the provider classes implement, as \<open>_validate_provider_roles\<close> checks.\<close>

definition roles_implemented :: "repository \<Rightarrow> bool" where
  "roles_implemented rp \<longleftrightarrow> (\<forall>p\<in>set (rp_providers rp). set (rp_roles rp (pv_id p)) \<subseteq> set (pv_implements p))"

definition sound_answers :: "capability_answers \<Rightarrow> bool" where
  "sound_answers rn \<longleftrightarrow>
     (\<forall>p. (\<forall>c\<in>set (code_operations (ca_capabilities (rn_code rn p))). sound_capability c) \<and>
          sound_capability (tc_discovery (rn_tests rn p)) \<and> sound_capability (tc_execution (rn_tests rn p)) \<and>
          (\<forall>paths. sound_capability (qc_lint (rn_quality rn p paths)) \<and> sound_capability (qc_format (rn_quality rn p paths))) \<and>
          sound_capability (ac_tests (rn_actions rn p)) \<and> sound_capability (ac_builds (rn_actions rn p)) \<and>
          sound_capability (ac_runners (rn_actions rn p)))"

lemma kept_or_degraded_sound: "kept_or_degraded claimed c \<Longrightarrow> sound_capability claimed \<Longrightarrow> sound_capability c"
  using kept_or_degraded_wf by (auto simp: sound_capability_def kept_or_degraded_def)

lemma verified_sound:
  assumes "sound_answers rn" and "code_runtime_capabilities (rn_code rn) rp = Inr ccs" and "cc \<in> set ccs"
  shows "\<forall>c\<in>set (code_operations cc). sound_capability c"
proof
  fix c assume c: "c \<in> set (code_operations cc)"
  obtain p where "verified_runtime_capabilities (rn_code rn) rp p = Inr cc"
    using assms(2,3) mapE_set unfolding code_runtime_capabilities_def by fastforce
  then have "list_all2 kept_or_degraded (code_operations (ca_capabilities (rn_code rn p))) (code_operations cc)"
    by (rule verified_keeps_or_degrades)
  then obtain claimed where "claimed \<in> set (code_operations (ca_capabilities (rn_code rn p)))" "kept_or_degraded claimed c"
    using c by (metis in_set_conv_nth list_all2_conv_all_nth)
  then show "sound_capability c" using assms(1) kept_or_degraded_sound by (auto simp: sound_answers_def)
qed

lemma code_role_has_provider:
  assumes "roles_implemented rp" and "code_runtime_capabilities code rp = Inr ccs" and "supports_role rp ROLE_CODE"
  shows "ccs \<noteq> []"
proof -
  obtain p where "p \<in> set (rp_providers rp)" "ROLE_CODE \<in> set (rp_roles rp (pv_id p))" using assms(3) by (auto simp: supports_role_def)
  then have "p \<in> set (code_providers rp)"
    using assms(1) by (auto simp: code_providers_def get_providers_for_role_def is_code_provider_def roles_implemented_def)
  then show ?thesis using mapE_length assms(2) unfolding code_runtime_capabilities_def by fastforce
qed

text \<open>
  The coverage of a repository is always reported: when the architecture's provenance and the
  providers' capabilities are sound and ownership and the capability checks do not raise, the report is
  built without any of its validators failing, with the five domains in order, each balanced (its
  authoritative, derived, heuristic and unavailable counts add up to its total) and the overall
  counts their sums; it is available only if all five domains are.
\<close>

theorem repository_coverage_reported:
  assumes "\<forall>p\<in>set (architecture_items rp). wf_provenance p" and "sound_answers rn" and "roles_implemented rp"
    and "code_runtime_capabilities (rn_code rn) rp = Inr ccs" and "relevant_repository_rel_paths rp None = Inr paths"
    and "quality_providers_for_files rp paths = Inr ps" and "\<not> blank repository_id"
  shows "\<exists>ts. repository_truth_coverage rn repository_id rp = Inr ts \<and> map dc_domain (ts_domains ts) = all_domains \<and>
     (\<forall>d\<in>set (ts_domains ts). dc_authoritative d + dc_derived d + dc_heuristic d + dc_unavailable d = dc_total d) \<and>
     ts_authoritative ts + ts_derived ts + ts_heuristic ts + ts_unavailable ts = sum_list (map dc_total (ts_domains ts)) \<and>
     (ts_availability ts = TA_AVAILABLE \<longleftrightarrow> (\<forall>d\<in>set (ts_domains ts). dc_availability d = TA_AVAILABLE))"
proof -
  obtain a where a: "architecture_domain rp = Inr a" "settled TD_ARCHITECTURE a" using architecture_domain_ok [OF assms(1)] by blast
  have "\<forall>cc\<in>set ccs. \<forall>c\<in>set (code_operations cc). sound_capability c" using verified_sound [OF assms(2,4)] by blast
  then obtain c where c: "code_domain rn rp = Inr c" "settled TD_CODE c"
    using code_domain_ok [OF assms(4)] code_role_has_provider [OF assms(3,4)] by blast
  obtain t where t: "tests_domain rn rp = Inr t" "settled TD_TESTS t"
    using tests_domain_ok [of rp rn] assms(2) by (auto simp: sound_answers_def)
  obtain q where q: "quality_domain rn rp = Inr q" "settled TD_QUALITY q"
    using quality_domain_ok [OF assms(5,6), of rn] assms(2) by (auto simp: sound_answers_def)
  obtain x where x: "actions_domain rn rp = Inr x" "settled TD_ACTIONS x"
    using actions_domain_ok [of rp rn] assms(2) by (auto simp: sound_answers_def)
  let ?ds = "[a, c, t, q, x]"
  have bal: "\<forall>d\<in>set ?ds. balanced d" and dom: "map dc_domain ?ds = all_domains"
    using a c t q x by (simp_all add: settled_def all_domains_def)
  then obtain p where s: "summarize_domains ''repository'' repository_id ?ds = Inr
     \<lparr>ts_scope_kind = ''repository'', ts_scope_id = repository_id, ts_domains = ?ds,
      ts_authoritative = sum_list (map dc_authoritative ?ds), ts_derived = sum_list (map dc_derived ?ds),
      ts_heuristic = sum_list (map dc_heuristic ?ds), ts_unavailable = sum_list (map dc_unavailable ?ds),
      ts_availability = overall_availability ?ds, ts_provenance = p\<rparr>" (is "_ = Inr ?ts")
    using summarize_domains_ok [OF bal dom assms(7), of "''repository''"] by auto
  have r: "repository_truth_coverage rn repository_id rp = Inr ?ts"
    unfolding repository_truth_coverage_def a(1) c(1) t(1) q(1) x(1) ebind_simps by (rule s)
  have sums: "\<forall>d\<in>set ?ds. dc_authoritative d + dc_derived d + dc_heuristic d + dc_unavailable d = dc_total d"
    using bal unfolding balanced_def by blast
  then have "ts_authoritative ?ts + ts_derived ?ts + ts_heuristic ?ts + ts_unavailable ?ts = sum_list (map dc_total ?ds)" by simp
  moreover have "overall_availability ?ds = TA_AVAILABLE \<longleftrightarrow> (\<forall>d\<in>set ?ds. dc_availability d = TA_AVAILABLE)"
    by (auto simp: overall_availability_def)
  ultimately show ?thesis using r sums dom by simp
qed

definition sample_capability_answers :: capability_answers where
  "sample_capability_answers =
     \<lparr>rn_code = (\<lambda>p. sample_answers),
      rn_tests = (\<lambda>p. \<lparr>tc_discovery = sample_capability ''discovery'', tc_execution = sample_capability ''execution''\<rparr>),
      rn_quality = (\<lambda>p paths. \<lparr>qc_lint = sample_capability ''lint'', qc_format = sample_capability ''format''\<rparr>),
      rn_actions = (\<lambda>p. \<lparr>ac_tests = sample_capability ''tests'', ac_builds = sample_capability ''builds'',
        ac_runners = (sample_capability ''runners'')\<lparr>cap_availability := RC_UNAVAILABLE, cap_reason := Some ''none''\<rparr>\<rparr>)\<rparr>"

lemma sample_answers_sound: "sound_answers sample_capability_answers"
  by (simp add: sound_answers_def sample_capability_answers_def sample_answers_def code_operations_def sample_capability_def
      sound_capability_def wf_capability_def wf_provenance_def wf_provenance_entry_def sample_entry_def py_isspace_def)

theorem repository_coverage_reported_witness:
  "\<exists>ts. repository_truth_coverage sample_capability_answers ''repo:r'' code_sample_repository = Inr ts \<and>
     map dc_domain (ts_domains ts) = all_domains"
proof -
  have a: "\<forall>p\<in>set (architecture_items code_sample_repository). wf_provenance p" by code_simp
  have b: "roles_implemented code_sample_repository"
    by (simp add: roles_implemented_def code_sample_repository_def code_sample_provider_def sample_provider_def)
  have "is_ok (code_runtime_capabilities (rn_code sample_capability_answers) code_sample_repository)" by code_simp
  then obtain ccs where c: "code_runtime_capabilities (rn_code sample_capability_answers) code_sample_repository = Inr ccs"
    by (auto simp: is_ok_iff)
  have "is_ok (ebind (relevant_repository_rel_paths code_sample_repository None) (quality_providers_for_files code_sample_repository))"
    by code_simp
  then obtain paths ps where "relevant_repository_rel_paths code_sample_repository None = Inr paths"
    "quality_providers_for_files code_sample_repository paths = Inr ps" by (auto simp: is_ok_iff ebind_Inr_iff)
  moreover have "\<not> blank ''repo:r''" by (simp add: py_isspace_def)
  ultimately show ?thesis using repository_coverage_reported [OF a sample_answers_sound b c] by blast
qed

text \<open>
  Available code intelligence is not an empty claim: when the code domain of a repository is
  available, every code provider was checked and every one of its five operations is available after
  the check, and there is at least one such provider.
\<close>

theorem available_code_is_verified:
  assumes "sound_answers rn" and "roles_implemented rp" and "code_domain rn rp = Inr d" and "dc_availability d = TA_AVAILABLE"
  shows "code_providers rp \<noteq> [] \<and> (\<forall>p\<in>set (code_providers rp). \<exists>cc. verified_runtime_capabilities (rn_code rn) rp p = Inr cc \<and>
     (\<forall>c\<in>set (code_operations cc). cap_availability c = RC_AVAILABLE))"
proof -
  have role: "supports_role rp ROLE_CODE"
  proof (rule ccontr)
    assume "\<not> supports_role rp ROLE_CODE"
    then have "dc_availability d = TA_UNAVAILABLE"
      using assms(3) by (auto simp: code_domain_def add_unavailable_def code_operation_count_def finalize_def ebind_Inr_iff)
    then show False using assms(4) by simp
  qed
  then obtain ccs where ccs: "code_runtime_capabilities (rn_code rn) rp = Inr ccs"
    using assms(3) by (auto simp: code_domain_def ebind_Inr_iff)
  have "\<forall>cc\<in>set ccs. \<forall>c\<in>set (code_operations cc). sound_capability c" using verified_sound [OF assms(1) ccs] by blast
  then have all: "\<forall>cc\<in>set ccs. \<forall>c\<in>set (code_operations cc). cap_availability c = RC_AVAILABLE"
    using code_domain_ok [OF ccs] code_role_has_provider [OF assms(2) ccs] assms(3,4) by fastforce
  have m: "mapE (verified_runtime_capabilities (rn_code rn) rp) (code_providers rp) = Inr ccs"
    using ccs by (simp add: code_runtime_capabilities_def)
  have "\<exists>cc. verified_runtime_capabilities (rn_code rn) rp p = Inr cc \<and> (\<forall>c\<in>set (code_operations cc). cap_availability c = RC_AVAILABLE)"
    if "p \<in> set (code_providers rp)" for p
    using mapE_set_source [OF m that] all by blast
  moreover have "code_providers rp \<noteq> []" using code_role_has_provider [OF assms(2) ccs role] mapE_length [OF m] by auto
  ultimately show ?thesis by blast
qed

theorem available_code_is_verified_witness:
  "\<exists>cc. verified_runtime_capabilities (\<lambda>p. sample_answers) code_sample_repository code_sample_provider = Inr cc \<and>
     (\<forall>c\<in>set (code_operations cc). cap_availability c = RC_AVAILABLE)"
proof -
  have "case code_domain sample_capability_answers code_sample_repository of Inl e \<Rightarrow> False | Inr d \<Rightarrow> dc_availability d = TA_AVAILABLE"
    by code_simp
  then obtain d where d: "code_domain sample_capability_answers code_sample_repository = Inr d" "dc_availability d = TA_AVAILABLE"
    by (auto split: sum.splits)
  have b: "roles_implemented code_sample_repository"
    by (simp add: roles_implemented_def code_sample_repository_def code_sample_provider_def sample_provider_def)
  have "code_sample_provider \<in> set (code_providers code_sample_repository)"
    by (simp add: code_providers_def get_providers_for_role_def is_code_provider_def code_sample_repository_def
        code_sample_provider_def sample_provider_def)
  then show ?thesis using available_code_is_verified [OF sample_answers_sound b d] by (auto simp: sample_capability_answers_def)
qed

text \<open>
  Quality can be reported as available although nothing can be checked: with a quality provider but
  no relevant file the domain is available, with no entity at all, while execution is not available.
\<close>

theorem quality_available_without_files:
  assumes "quality_providers rp \<noteq> []" and "relevant_repository_rel_paths rp None = Inr []"
  shows "\<exists>d. quality_domain rn rp = Inr d \<and> dc_availability d = TA_AVAILABLE \<and> dc_total d = 0 \<and> dc_execution_available d = Some False"
proof -
  let ?d = "(new_accumulator TD_QUALITY)\<lparr>dc_execution_available := Some False, dc_availability := TA_AVAILABLE\<rparr>"
  have "quality_domain rn rp = finalize ?d"
    using assms by (simp add: quality_domain_def quality_providers_for_files_def apply_capabilities_def new_accumulator_def Let_def)
  moreover have "finalize ?d = Inr ?d"
    by (rule finalize_ok) (simp_all add: shaped_def balanced_def new_accumulator_def kind_mix_ok_def tool_mix_ok_def)
  ultimately show ?thesis by (simp add: new_accumulator_def)
qed

theorem quality_available_without_files_witness:
  "\<exists>d. quality_domain sample_capability_answers
       (sample_repository\<lparr>rp_providers := [sample_provider\<lparr>pv_files := [sample_file_of ''run.sh'' ''runner:npm:dev'']\<rparr>]\<rparr>) = Inr d \<and>
     dc_availability d = TA_AVAILABLE \<and> dc_execution_available d = Some False"
proof -
  let ?rp = "sample_repository\<lparr>rp_providers := [sample_provider\<lparr>pv_files := [sample_file_of ''run.sh'' ''runner:npm:dev'']\<rparr>]\<rparr>"
  have "quality_providers ?rp \<noteq> []"
    by (simp add: quality_providers_def get_providers_for_role_def sample_repository_def sample_provider_def)
  moreover have "relevant_repository_rel_paths ?rp None = Inr []" by code_simp
  ultimately show ?thesis using quality_available_without_files [of ?rp sample_capability_answers] by blast
qed

end
