(* ===== verification/Change_Evidence.thy ===== *)
theory Change_Evidence
  imports Code_References "HOL-Library.Multiset"
begin

text \<open>
  The evidence of a change (\<open>core/change_models.py\<close>, \<open>core/change_evidence.py\<close>): the surfaces a change
  reaches, the edges that say why, and the preview of the edges in a fixed order of their kinds.
  \<open>change_facts\<close> are the thirteen collections that \<open>assemble\<close>, the truth coverage of a change, its
  provenance and \<open>ChangeImpact\<close> all take; the code passes each by name.
\<close>

section \<open>Models\<close>

text \<open>Validators that quality gates, runner and test impacts and edges share.\<close>

definition validate_non_empty :: "string \<Rightarrow> string \<Rightarrow> unit result" where
  "validate_non_empty field_name value = check (\<not> blank value) (ValueErr (field_name @ '' must not be empty''))"

definition validate_provenance :: "provenance \<Rightarrow> unit result" where
  "validate_provenance p = check (p \<noteq> []) (ValueErr ''provenance must not be empty'')"

record quality_gate =
  qg_provider_id :: string
  qg_provider_roles :: "string list"
  qg_applies :: bool
  qg_reason :: string
  qg_provenance :: provenance

definition validate_quality_gate :: "quality_gate \<Rightarrow> quality_gate result" where
  "validate_quality_gate g =
     ebind (validate_non_empty ''provider_id'' (qg_provider_id g)) (\<lambda>_.
     ebind (validate_non_empty ''reason'' (qg_reason g)) (\<lambda>_.
     ebind (validate_provenance (qg_provenance g)) (\<lambda>_. Inr g)))"

record runner_impact =
  rim_runner :: runner
  rim_reason :: string
  rim_provenance :: provenance

definition validate_runner_impact :: "runner_impact \<Rightarrow> runner_impact result" where
  "validate_runner_impact r =
     ebind (validate_non_empty ''reason'' (rim_reason r)) (\<lambda>_.
     ebind (validate_provenance (rim_provenance r)) (\<lambda>_. Inr r))"

record test_impact =
  tim_related_test :: resolved_related_test
  tim_reason :: string
  tim_provenance :: provenance

definition validate_test_impact :: "test_impact \<Rightarrow> test_impact result" where
  "validate_test_impact t =
     ebind (validate_non_empty ''reason'' (tim_reason t)) (\<lambda>_.
     ebind (validate_provenance (tim_provenance t)) (\<lambda>_. Inr t))"

datatype change_edge_kind =
    TARGET_OWNER | OWNER_PRIMARY_COMPONENT | TARGET_REFERENCE | TARGET_DEPENDENCY_FILE | TARGET_DEPENDENT_FILE
  | TARGET_RENDER_CHILD | TARGET_RENDER_PARENT | TARGET_INVARIANT_FINDING | TARGET_LOCAL_FLOW_EDGE
  | TARGET_IMPLEMENTATION_LOCATION | COMPONENT_IMPLEMENTATION_COMPONENT | COMPONENT_DEPENDENT_COMPONENT
  | TARGET_RELATED_TEST | TARGET_RELATED_RUNNER | TARGET_QUALITY_GATE

fun change_edge_kind_value :: "change_edge_kind \<Rightarrow> string" where
  "change_edge_kind_value TARGET_OWNER = ''target_owner''"
| "change_edge_kind_value OWNER_PRIMARY_COMPONENT = ''owner_primary_component''"
| "change_edge_kind_value TARGET_REFERENCE = ''target_reference''"
| "change_edge_kind_value TARGET_DEPENDENCY_FILE = ''target_dependency_file''"
| "change_edge_kind_value TARGET_DEPENDENT_FILE = ''target_dependent_file''"
| "change_edge_kind_value TARGET_RENDER_CHILD = ''target_render_child''"
| "change_edge_kind_value TARGET_RENDER_PARENT = ''target_render_parent''"
| "change_edge_kind_value TARGET_INVARIANT_FINDING = ''target_invariant_finding''"
| "change_edge_kind_value TARGET_LOCAL_FLOW_EDGE = ''target_local_flow_edge''"
| "change_edge_kind_value TARGET_IMPLEMENTATION_LOCATION = ''target_implementation_location''"
| "change_edge_kind_value COMPONENT_IMPLEMENTATION_COMPONENT = ''component_implementation_component''"
| "change_edge_kind_value COMPONENT_DEPENDENT_COMPONENT = ''component_dependent_component''"
| "change_edge_kind_value TARGET_RELATED_TEST = ''target_related_test''"
| "change_edge_kind_value TARGET_RELATED_RUNNER = ''target_related_runner''"
| "change_edge_kind_value TARGET_QUALITY_GATE = ''target_quality_gate''"

record change_edge =
  cg_source_node_kind :: string
  cg_source_node_id :: string
  cg_target_node_kind :: string
  cg_target_node_id :: string
  cg_edge_kind :: change_edge_kind
  cg_reason :: string
  cg_provenance :: provenance

definition mk_change_edge ::
  "string \<Rightarrow> string \<Rightarrow> string \<Rightarrow> string \<Rightarrow> change_edge_kind \<Rightarrow> string \<Rightarrow> provenance \<Rightarrow> change_edge result" where
  "mk_change_edge source_kind source_id target_kind target_id kind reason p =
     ebind (validate_non_empty ''source_node_kind'' source_kind) (\<lambda>_.
     ebind (validate_non_empty ''source_node_id'' source_id) (\<lambda>_.
     ebind (validate_non_empty ''target_node_kind'' target_kind) (\<lambda>_.
     ebind (validate_non_empty ''target_node_id'' target_id) (\<lambda>_.
     ebind (validate_non_empty ''reason'' reason) (\<lambda>_.
     ebind (validate_provenance p) (\<lambda>_.
       Inr \<lparr>cg_source_node_kind = source_kind, cg_source_node_id = source_id, cg_target_node_kind = target_kind,
            cg_target_node_id = target_id, cg_edge_kind = kind, cg_reason = reason, cg_provenance = p\<rparr>))))))"

record change_evidence_preview =
  xv_total_edges :: int
  xv_counts_by_kind :: "(string \<times> int) list"
  xv_edges_preview :: "change_edge list"
  xv_truncated :: bool

definition change_edge_order :: "change_edge_kind list" where
  "change_edge_order =
     [TARGET_OWNER, OWNER_PRIMARY_COMPONENT, TARGET_REFERENCE, TARGET_DEPENDENCY_FILE, TARGET_DEPENDENT_FILE,
      TARGET_RENDER_CHILD, TARGET_RENDER_PARENT, TARGET_INVARIANT_FINDING, TARGET_LOCAL_FLOW_EDGE,
      TARGET_IMPLEMENTATION_LOCATION, COMPONENT_IMPLEMENTATION_COMPONENT, COMPONENT_DEPENDENT_COMPONENT,
      TARGET_RELATED_TEST, TARGET_RELATED_RUNNER, TARGET_QUALITY_GATE]"

definition validate_counts_by_kind :: "(string \<times> int) list \<Rightarrow> unit result" where
  "validate_counts_by_kind counts =
     ebind (check (counts \<noteq> []) (ValueErr ''counts_by_kind must not be empty'')) (\<lambda>_.
     foldE (\<lambda>(k, n) _.
       if k \<notin> change_edge_kind_value ` set change_edge_order
       then Inl (ValueErr (''unsupported evidence edge kind: '' @ quoted k))
       else check (0 \<le> n) (ValueErr ''counts_by_kind values must be >= 0'')) counts ())"

definition validate_change_evidence_preview :: "change_evidence_preview \<Rightarrow> change_evidence_preview result" where
  "validate_change_evidence_preview v =
     (let shown = int (length (xv_edges_preview v)) in
     ebind (check (1 \<le> xv_total_edges v) (ValueErr ''total_edges must be >= 1'')) (\<lambda>_.
     ebind (validate_counts_by_kind (xv_counts_by_kind v)) (\<lambda>_.
     ebind (check (xv_edges_preview v \<noteq> []) (ValueErr ''edges_preview must not be empty'')) (\<lambda>_.
     ebind (check (sum_list (map snd (xv_counts_by_kind v)) = xv_total_edges v)
       (ValueErr ''sum(counts_by_kind.values()) must equal total_edges'')) (\<lambda>_.
     ebind (check (\<not> (xv_truncated v \<and> xv_total_edges v \<le> shown))
       (ValueErr ''truncated previews must contain fewer edges than total_edges'')) (\<lambda>_.
     ebind (check (\<not> (\<not> xv_truncated v \<and> shown \<noteq> xv_total_edges v))
       (ValueErr ''non-truncated previews must contain exactly total_edges entries'')) (\<lambda>_.
     ebind (check (shown \<le> xv_total_edges v) (ValueErr ''edges_preview must not exceed total_edges'')) (\<lambda>_.
       Inr v))))))))"

record change_facts =
  cf_dependency_files :: "file_relationship list"
  cf_dependent_files :: "file_relationship list"
  cf_render_children :: "render_edge list"
  cf_render_parents :: "render_edge list"
  cf_invariant_findings :: "invariant_finding list"
  cf_local_flow_edges :: "static_flow_edge list"
  cf_implementation_locations :: "code_location list"
  cf_implementation_components :: "component list"
  cf_dependent_components :: "component list"
  cf_reference_locations :: "code_location list"
  cf_related_tests :: "test_impact list"
  cf_related_runners :: "runner_impact list"
  cf_quality_gates :: "quality_gate list"

section \<open>The assembler\<close>

definition target_node_id :: "string \<Rightarrow> string \<Rightarrow> string" where
  "target_node_id target_kind target_value = ''change_target:'' @ target_kind @ '':'' @ target_value"

definition reference_location_node_id :: "code_location \<Rightarrow> string" where
  "reference_location_node_id l =
     ''location:'' @ cl_repository_rel_path l @ '':'' @ str_int (cl_line_start l) @ '':'' @ str_int (cl_column_start l)"

definition quality_gate_node_id :: "string \<Rightarrow> string" where
  "quality_gate_node_id provider_id = ''quality_gate:'' @ provider_id"

definition ownership_edge_provenance :: "string \<Rightarrow> string \<Rightarrow> string option \<Rightarrow> provenance result" where
  "ownership_edge_provenance target_kind owner_id evidence_path =
     ebind (if target_kind = ''owner''
            then ownership_provenance (''owner '' @ quoted owner_id @ '' was provided directly as the change target'') []
            else ownership_provenance (''owner '' @ quoted owner_id @ '' resolved from ownership metadata'')
                   (case evidence_path of Some p \<Rightarrow> [p] | None \<Rightarrow> [])) (\<lambda>e. Inr [e])"

definition target_owner_edge ::
  "string \<Rightarrow> string \<Rightarrow> owned_node_info \<Rightarrow> string option \<Rightarrow> change_edge result" where
  "target_owner_edge target_kind node_id owner evidence_path =
     ebind (ownership_edge_provenance target_kind (oi_id owner) evidence_path) (\<lambda>p.
       mk_change_edge ''change_target'' node_id ''owner'' (oi_id owner) TARGET_OWNER
         (if target_kind = ''file'' then ''owner resolved from file ownership''
          else if target_kind = ''symbol'' then ''owner resolved from symbol file ownership''
          else ''target directly specifies owner'') p)"

definition owner_primary_component_edges :: "owned_node_info \<Rightarrow> component option \<Rightarrow> change_edge list result" where
  "owner_primary_component_edges owner primary =
     (case primary of
        None \<Rightarrow> Inr []
      | Some c \<Rightarrow>
          ebind (mk_change_edge ''owner'' (oi_id owner) ''component'' (gn_id c) OWNER_PRIMARY_COMPONENT
            ''primary component resolved from ownership/component context'' (gn_provenance c)) (\<lambda>e. Inr [e]))"

definition reference_edges :: "string \<Rightarrow> string \<Rightarrow> code_location list \<Rightarrow> change_edge list result" where
  "reference_edges target_kind node_id locations =
     mapE (\<lambda>l. mk_change_edge ''change_target'' node_id ''reference_location'' (reference_location_node_id l) TARGET_REFERENCE
       (if target_kind = ''symbol'' then ''reference discovered from symbol references''
        else if target_kind = ''file'' then ''reference discovered from file-owned symbols''
        else ''reference discovered from owner-backed symbols/files'') (cl_provenance l)) locations"

definition relationship_edges :: "string \<Rightarrow> file_relationship list \<Rightarrow> change_edge list result" where
  "relationship_edges node_id relationships =
     mapE (\<lambda>r. case fr_relationship_kind r of
         IMPORTS \<Rightarrow> mk_change_edge ''change_target'' node_id ''file'' (''file:'' @ fr_repository_rel_path r) TARGET_DEPENDENCY_FILE
           ''dependency file discovered from deterministic import resolution'' (fr_provenance r)
       | IMPORTED_BY \<Rightarrow> mk_change_edge ''change_target'' node_id ''file'' (''file:'' @ fr_repository_rel_path r) TARGET_DEPENDENT_FILE
           ''dependent file discovered from deterministic import resolution'' (fr_provenance r)) relationships"

definition render_change_edges :: "string \<Rightarrow> render_edge list \<Rightarrow> change_edge list result" where
  "render_change_edges node_id edges =
     mapE (\<lambda>r. case rd_relationship_kind r of
         RENDERS \<Rightarrow> mk_change_edge ''change_target'' node_id ''file'' (''file:'' @ rd_repository_rel_path r) TARGET_RENDER_CHILD
           ''render child discovered from deterministic JSX component resolution'' (rd_provenance r)
       | RENDERED_BY \<Rightarrow> mk_change_edge ''change_target'' node_id ''file'' (''file:'' @ rd_repository_rel_path r) TARGET_RENDER_PARENT
           ''render parent discovered from deterministic JSX component resolution'' (rd_provenance r)) edges"

definition implementation_location_edges :: "string \<Rightarrow> code_location list \<Rightarrow> change_edge list result" where
  "implementation_location_edges node_id locations =
     mapE (\<lambda>l. mk_change_edge ''change_target'' node_id ''implementation_location'' (reference_location_node_id l)
       TARGET_IMPLEMENTATION_LOCATION
       ''implementation candidate discovered from deterministic interface implementation analysis'' (cl_provenance l)) locations"

definition invariant_edges :: "string \<Rightarrow> invariant_finding list \<Rightarrow> change_edge list result" where
  "invariant_edges node_id findings =
     mapE (\<lambda>f. mk_change_edge ''change_target'' node_id ''invariant_finding''
       (''invariant:'' @ if_repository_rel_path f @ '':'' @ str_int (if_line_start f) @ '':'' @ str_int (if_column_start f) @
        '':'' @ if_field_name f) TARGET_INVARIANT_FINDING
       ''field invariant finding discovered from deterministic TypeScript static analysis'' (if_provenance f)) findings"

definition local_flow_change_edges :: "string \<Rightarrow> static_flow_edge list \<Rightarrow> change_edge list result" where
  "local_flow_change_edges node_id edges =
     mapE (\<lambda>e. mk_change_edge ''change_target'' node_id ''local_flow_edge''
       (''flow:'' @ sf_repository_rel_path e @ '':'' @ str_int (sf_line_start e) @ '':'' @ str_int (sf_column_start e) @
        '':'' @ sf_source_label e @ '':'' @ sf_target_label e) TARGET_LOCAL_FLOW_EDGE
       (case sf_edge_kind e of
          CALLS_LOCAL_SYMBOL \<Rightarrow> ''local static flow edge discovered from deterministic TypeScript analysis''
        | PRODUCES_VALUE_FOR \<Rightarrow> ''local producer-to-consumer flow discovered from deterministic TypeScript analysis'')
       (sf_provenance e)) edges"

definition implementation_component_edges :: "component option \<Rightarrow> component list \<Rightarrow> change_edge list result" where
  "implementation_component_edges primary components =
     (case primary of
        None \<Rightarrow> Inr []
      | Some p \<Rightarrow>
          mapE (\<lambda>c. mk_change_edge ''component'' (gn_id p) ''component'' (gn_id c) COMPONENT_IMPLEMENTATION_COMPONENT
            ''implementation candidate component discovered from deterministic interface implementation analysis''
            (gn_provenance c)) components)"

text \<open>\<open>edges_by_source\<close> is a dictionary built in order, so the last edge of a source is the one kept.\<close>

definition dependent_component_edges ::
  "component option \<Rightarrow> component list \<Rightarrow> component_dependency_edge list \<Rightarrow> change_edge list result" where
  "dependent_component_edges primary dependents edges =
     (case primary of
        None \<Rightarrow> Inr []
      | Some p \<Rightarrow>
          let by_source = map_of (rev (map (\<lambda>e. (ce_source_component_id e, e))
                (filter (\<lambda>e. ce_target_kind e = ''component'' \<and> ce_target_id e = gn_id p) edges))) in
          mapE (\<lambda>c. case by_source (gn_id c) of
              None \<Rightarrow> Inl (ValueErr (''dependent component preview item is missing matching dependency-edge provenance: '' @
                quoted (gn_id c) @ '' -> '' @ quoted (gn_id p)))
            | Some e \<Rightarrow> mk_change_edge ''component'' (gn_id c) ''component'' (gn_id p) COMPONENT_DEPENDENT_COMPONENT
                ''dependent component references the primary component through architecture dependency projection''
                (ce_provenance e)) dependents)"

definition related_test_edges :: "string \<Rightarrow> test_impact list \<Rightarrow> change_edge list result" where
  "related_test_edges node_id tests =
     mapE (\<lambda>t. mk_change_edge ''change_target'' node_id ''test'' (rr_test_id (tim_related_test t)) TARGET_RELATED_TEST
       (tim_reason t) (tim_provenance t)) tests"

definition related_runner_edges :: "string \<Rightarrow> runner_impact list \<Rightarrow> change_edge list result" where
  "related_runner_edges node_id runners =
     mapE (\<lambda>r. mk_change_edge ''change_target'' node_id ''runner'' (gn_id (rim_runner r)) TARGET_RELATED_RUNNER
       (rim_reason r) (rim_provenance r)) runners"

definition quality_gate_edges :: "string \<Rightarrow> quality_gate list \<Rightarrow> change_edge list result" where
  "quality_gate_edges node_id gates =
     mapE (\<lambda>g. mk_change_edge ''change_target'' node_id ''quality_gate'' (quality_gate_node_id (qg_provider_id g))
       TARGET_QUALITY_GATE (qg_reason g) (qg_provenance g)) gates"

text \<open>\<open>order_index\<close>: the position of a kind in \<open>_ORDER\<close>.\<close>

fun change_edge_rank :: "change_edge_kind \<Rightarrow> nat" where
  "change_edge_rank TARGET_OWNER = 0"
| "change_edge_rank OWNER_PRIMARY_COMPONENT = 1"
| "change_edge_rank TARGET_REFERENCE = 2"
| "change_edge_rank TARGET_DEPENDENCY_FILE = 3"
| "change_edge_rank TARGET_DEPENDENT_FILE = 4"
| "change_edge_rank TARGET_RENDER_CHILD = 5"
| "change_edge_rank TARGET_RENDER_PARENT = 6"
| "change_edge_rank TARGET_INVARIANT_FINDING = 7"
| "change_edge_rank TARGET_LOCAL_FLOW_EDGE = 8"
| "change_edge_rank TARGET_IMPLEMENTATION_LOCATION = 9"
| "change_edge_rank COMPONENT_IMPLEMENTATION_COMPONENT = 10"
| "change_edge_rank COMPONENT_DEPENDENT_COMPONENT = 11"
| "change_edge_rank TARGET_RELATED_TEST = 12"
| "change_edge_rank TARGET_RELATED_RUNNER = 13"
| "change_edge_rank TARGET_QUALITY_GATE = 14"

definition change_edge_key :: "change_edge \<Rightarrow> nat \<times> string \<times> string \<times> string" where
  "change_edge_key e = (change_edge_rank (cg_edge_kind e), cg_source_node_id e, cg_target_node_id e, cg_reason e)"

definition preview_limit :: nat where
  "preview_limit = 25"

text \<open>\<open>Counter\<close> over the kinds, in the order of their values.\<close>

definition count_kinds :: "change_edge list \<Rightarrow> (string \<times> int) list" where
  "count_kinds es =
     map (\<lambda>k. (k, int (count_list (map (\<lambda>e. change_edge_kind_value (cg_edge_kind e)) es) k)))
       (sorted_set (map (\<lambda>e. change_edge_kind_value (cg_edge_kind e)) es))"

definition evidence_parts ::
  "string \<Rightarrow> string \<Rightarrow> string option \<Rightarrow> owned_node_info \<Rightarrow> component option \<Rightarrow> component_dependency_edge list \<Rightarrow> change_facts \<Rightarrow>
   change_edge list result list" where
  "evidence_parts target_kind target_value evidence_path owner primary dependent_edges cf =
     (let node_id = target_node_id target_kind target_value in
       [ebind (target_owner_edge target_kind node_id owner evidence_path) (\<lambda>e. Inr [e]),
        owner_primary_component_edges owner primary,
        reference_edges target_kind node_id (cf_reference_locations cf),
        relationship_edges node_id (cf_dependency_files cf),
        relationship_edges node_id (cf_dependent_files cf),
        render_change_edges node_id (cf_render_children cf),
        render_change_edges node_id (cf_render_parents cf),
        invariant_edges node_id (cf_invariant_findings cf),
        local_flow_change_edges node_id (cf_local_flow_edges cf),
        implementation_location_edges node_id (cf_implementation_locations cf),
        implementation_component_edges primary (cf_implementation_components cf),
        dependent_component_edges primary (cf_dependent_components cf) dependent_edges,
        related_test_edges node_id (cf_related_tests cf),
        related_runner_edges node_id (cf_related_runners cf),
        quality_gate_edges node_id (cf_quality_gates cf)])"

definition evidence_edges ::
  "string \<Rightarrow> string \<Rightarrow> string option \<Rightarrow> owned_node_info \<Rightarrow> component option \<Rightarrow> component_dependency_edge list \<Rightarrow> change_facts \<Rightarrow>
   change_edge list result" where
  "evidence_edges target_kind target_value evidence_path owner primary dependent_edges cf =
     ebind (mapE (\<lambda>es. es) (evidence_parts target_kind target_value evidence_path owner primary dependent_edges cf))
       (\<lambda>parts. Inr (concat parts))"

definition assemble ::
  "string \<Rightarrow> string \<Rightarrow> string option \<Rightarrow> owned_node_info \<Rightarrow> component option \<Rightarrow> component_dependency_edge list \<Rightarrow> change_facts \<Rightarrow>
   change_evidence_preview result" where
  "assemble target_kind target_value evidence_path owner primary dependent_edges cf =
     ebind (evidence_edges target_kind target_value evidence_path owner primary dependent_edges cf) (\<lambda>edges.
     let ordered = sort_key change_edge_key edges; shown = take preview_limit ordered in
       validate_change_evidence_preview
         \<lparr>xv_total_edges = int (length ordered), xv_counts_by_kind = count_kinds ordered, xv_edges_preview = shown,
          xv_truncated = length shown < length ordered\<rparr>)"

section \<open>What a preview says\<close>

lemma change_edge_rank_position: "change_edge_order ! change_edge_rank k = k" "change_edge_rank k < length change_edge_order"
  by (cases k; simp add: change_edge_order_def)+

lemma set_change_edge_order: "k \<in> set change_edge_order"
  using change_edge_rank_position nth_mem by metis

lemma change_edge_kind_value_inj: "change_edge_kind_value k = change_edge_kind_value l \<longleftrightarrow> k = l"
  by (cases k; cases l) auto

text \<open>How many edges of each kind a change has.\<close>

definition relationships_of :: "file_relationship_kind \<Rightarrow> change_facts \<Rightarrow> nat" where
  "relationships_of kind cf =
     length (filter (\<lambda>r. fr_relationship_kind r = kind) (cf_dependency_files cf @ cf_dependent_files cf))"

definition renders_of :: "render_edge_kind \<Rightarrow> change_facts \<Rightarrow> nat" where
  "renders_of kind cf = length (filter (\<lambda>r. rd_relationship_kind r = kind) (cf_render_children cf @ cf_render_parents cf))"

fun evidence_count :: "component option \<Rightarrow> change_facts \<Rightarrow> change_edge_kind \<Rightarrow> nat" where
  "evidence_count primary cf TARGET_OWNER = 1"
| "evidence_count primary cf OWNER_PRIMARY_COMPONENT = (if primary = None then 0 else 1)"
| "evidence_count primary cf TARGET_REFERENCE = length (cf_reference_locations cf)"
| "evidence_count primary cf TARGET_DEPENDENCY_FILE = relationships_of IMPORTS cf"
| "evidence_count primary cf TARGET_DEPENDENT_FILE = relationships_of IMPORTED_BY cf"
| "evidence_count primary cf TARGET_RENDER_CHILD = renders_of RENDERS cf"
| "evidence_count primary cf TARGET_RENDER_PARENT = renders_of RENDERED_BY cf"
| "evidence_count primary cf TARGET_INVARIANT_FINDING = length (cf_invariant_findings cf)"
| "evidence_count primary cf TARGET_LOCAL_FLOW_EDGE = length (cf_local_flow_edges cf)"
| "evidence_count primary cf TARGET_IMPLEMENTATION_LOCATION = length (cf_implementation_locations cf)"
| "evidence_count primary cf COMPONENT_IMPLEMENTATION_COMPONENT =
     (if primary = None then 0 else length (cf_implementation_components cf))"
| "evidence_count primary cf COMPONENT_DEPENDENT_COMPONENT =
     (if primary = None then 0 else length (cf_dependent_components cf))"
| "evidence_count primary cf TARGET_RELATED_TEST = length (cf_related_tests cf)"
| "evidence_count primary cf TARGET_RELATED_RUNNER = length (cf_related_runners cf)"
| "evidence_count primary cf TARGET_QUALITY_GATE = length (cf_quality_gates cf)"

lemma mk_change_edge_Inr:
  "mk_change_edge sk si tk ti k r p = Inr e \<longleftrightarrow>
     \<not> blank sk \<and> \<not> blank si \<and> \<not> blank tk \<and> \<not> blank ti \<and> \<not> blank r \<and> p \<noteq> [] \<and>
     e = \<lparr>cg_source_node_kind = sk, cg_source_node_id = si, cg_target_node_kind = tk, cg_target_node_id = ti,
          cg_edge_kind = k, cg_reason = r, cg_provenance = p\<rparr>"
  by (auto simp: mk_change_edge_def validate_non_empty_def validate_provenance_def)

lemma mk_change_edge_kind: "mk_change_edge sk si tk ti k r p = Inr e \<Longrightarrow> cg_edge_kind e = k"
  by (simp add: mk_change_edge_Inr)

lemmas part_edges_defs =
  target_owner_edge_def owner_primary_component_edges_def reference_edges_def relationship_edges_def render_change_edges_def
  invariant_edges_def local_flow_change_edges_def implementation_location_edges_def implementation_component_edges_def
  dependent_component_edges_def related_test_edges_def related_runner_edges_def quality_gate_edges_def

text \<open>The kinds of the edges of each part.\<close>

definition relationship_edge_kind :: "file_relationship \<Rightarrow> change_edge_kind" where
  "relationship_edge_kind r = (case fr_relationship_kind r of IMPORTS \<Rightarrow> TARGET_DEPENDENCY_FILE | IMPORTED_BY \<Rightarrow> TARGET_DEPENDENT_FILE)"

definition render_change_edge_kind :: "render_edge \<Rightarrow> change_edge_kind" where
  "render_change_edge_kind r = (case rd_relationship_kind r of RENDERS \<Rightarrow> TARGET_RENDER_CHILD | RENDERED_BY \<Rightarrow> TARGET_RENDER_PARENT)"

lemma mapE_kinds:
  assumes "mapE f xs = Inr es" and "\<And>x e. f x = Inr e \<Longrightarrow> cg_edge_kind e = k"
  shows "map cg_edge_kind es = replicate (length xs) k"
  using mapE_images [OF assms(1), of cg_edge_kind "\<lambda>_. k"] assms(2) by (simp add: map_replicate_const)

lemma relationship_kinds: "relationship_edges i rs = Inr es \<Longrightarrow> map cg_edge_kind es = map relationship_edge_kind rs"
  unfolding relationship_edges_def
  by (erule mapE_images)
    (auto simp: relationship_edge_kind_def dest: mk_change_edge_kind split: file_relationship_kind.splits)

lemma render_kinds: "render_change_edges i rs = Inr es \<Longrightarrow> map cg_edge_kind es = map render_change_edge_kind rs"
  unfolding render_change_edges_def
  by (erule mapE_images) (auto simp: render_change_edge_kind_def dest: mk_change_edge_kind split: render_edge_kind.splits)

lemma primary_kinds:
  "owner_primary_component_edges owner primary = Inr es \<Longrightarrow>
     map cg_edge_kind es = (if primary = None then [] else [OWNER_PRIMARY_COMPONENT])"
  by (auto simp: owner_primary_component_edges_def ebind_Inr_iff dest: mk_change_edge_kind split: option.splits)

lemma implementation_component_kinds:
  "implementation_component_edges primary cs = Inr es \<Longrightarrow>
     map cg_edge_kind es = (if primary = None then [] else replicate (length cs) COMPONENT_IMPLEMENTATION_COMPONENT)"
  by (cases primary) (auto simp: implementation_component_edges_def dest: mk_change_edge_kind intro: mapE_kinds)

lemma dependent_component_kinds:
  "dependent_component_edges primary cs edges = Inr es \<Longrightarrow>
     map cg_edge_kind es = (if primary = None then [] else replicate (length cs) COMPONENT_DEPENDENT_COMPONENT)"
  by (cases primary)
    (auto simp: dependent_component_edges_def Let_def dest: mk_change_edge_kind split: option.splits intro!: mapE_kinds)

definition evidence_kinds :: "component option \<Rightarrow> change_facts \<Rightarrow> change_edge_kind list" where
  "evidence_kinds primary cf =
     [TARGET_OWNER] @ (if primary = None then [] else [OWNER_PRIMARY_COMPONENT]) @
     replicate (length (cf_reference_locations cf)) TARGET_REFERENCE @
     map relationship_edge_kind (cf_dependency_files cf) @ map relationship_edge_kind (cf_dependent_files cf) @
     map render_change_edge_kind (cf_render_children cf) @ map render_change_edge_kind (cf_render_parents cf) @
     replicate (length (cf_invariant_findings cf)) TARGET_INVARIANT_FINDING @
     replicate (length (cf_local_flow_edges cf)) TARGET_LOCAL_FLOW_EDGE @
     replicate (length (cf_implementation_locations cf)) TARGET_IMPLEMENTATION_LOCATION @
     (if primary = None then [] else replicate (length (cf_implementation_components cf)) COMPONENT_IMPLEMENTATION_COMPONENT) @
     (if primary = None then [] else replicate (length (cf_dependent_components cf)) COMPONENT_DEPENDENT_COMPONENT) @
     replicate (length (cf_related_tests cf)) TARGET_RELATED_TEST @
     replicate (length (cf_related_runners cf)) TARGET_RELATED_RUNNER @
     replicate (length (cf_quality_gates cf)) TARGET_QUALITY_GATE"

lemma mapE_id_Cons: "mapE (\<lambda>es. es) (r # rs) = Inr parts \<longleftrightarrow> (\<exists>es rest. r = Inr es \<and> mapE (\<lambda>es. es) rs = Inr rest \<and> parts = es # rest)"
  by (auto simp: ebind_Inr_iff)

lemma evidence_edges_kinds:
  assumes "evidence_edges target_kind target_value evidence_path owner primary edges cf = Inr es"
  shows "map cg_edge_kind es = evidence_kinds primary cf"
  using assms unfolding evidence_edges_def evidence_parts_def Let_def ebind_Inr_iff mapE_id_Cons
  unfolding reference_edges_def invariant_edges_def local_flow_change_edges_def implementation_location_edges_def
    related_test_edges_def related_runner_edges_def quality_gate_edges_def
  by (fastforce simp: evidence_kinds_def target_owner_edge_def ebind_Inr_iff
      dest: mk_change_edge_kind primary_kinds relationship_kinds render_kinds implementation_component_kinds
        dependent_component_kinds mapE_kinds [OF _ mk_change_edge_kind])

lemma count_list_kinds:
  "count_list (map relationship_edge_kind rs) k =
     (case k of TARGET_DEPENDENCY_FILE \<Rightarrow> length (filter (\<lambda>r. fr_relationship_kind r = IMPORTS) rs)
      | TARGET_DEPENDENT_FILE \<Rightarrow> length (filter (\<lambda>r. fr_relationship_kind r = IMPORTED_BY) rs) | _ \<Rightarrow> 0)"
  "count_list (map render_change_edge_kind es) k =
     (case k of TARGET_RENDER_CHILD \<Rightarrow> length (filter (\<lambda>r. rd_relationship_kind r = RENDERS) es)
      | TARGET_RENDER_PARENT \<Rightarrow> length (filter (\<lambda>r. rd_relationship_kind r = RENDERED_BY) es) | _ \<Rightarrow> 0)"
  by (induction rs; cases k; simp add: relationship_edge_kind_def split: file_relationship_kind.splits)
    (induction es; cases k; simp add: render_change_edge_kind_def split: render_edge_kind.splits)

lemma count_list_replicate: "count_list (replicate n x) y = (if x = y then n else 0)"
  by (induction n) auto

lemma count_evidence_kinds: "count_list (evidence_kinds primary cf) k = evidence_count primary cf k"
  by (cases k) (auto simp: evidence_kinds_def count_list_kinds count_list_replicate relationships_of_def renders_of_def)

lemma count_list_sort_key: "count_list (map g (sort_key f xs)) y = count_list (map g xs) y"
  by (rule mset_eq_length_filter) simp

lemma map_of_tabulate: "map_of (map (\<lambda>k. (k, f k)) ks) k = (if k \<in> set ks then Some (f k) else None)"
  by (induction ks) auto

lemma count_kinds_exact:
  "map_of (count_kinds es) (change_edge_kind_value k) =
     (let n = count_list (map cg_edge_kind es) k in if n = 0 then None else Some (int n))"
proof -
  have "count_list (map (\<lambda>e. change_edge_kind_value (cg_edge_kind e)) es) (change_edge_kind_value k) =
      count_list (map cg_edge_kind es) k"
    by (induction es) (simp_all add: change_edge_kind_value_inj)
  moreover have "change_edge_kind_value k \<in> set (map (\<lambda>e. change_edge_kind_value (cg_edge_kind e)) es) \<longleftrightarrow>
      count_list (map cg_edge_kind es) k \<noteq> 0"
    by (induction es) (auto simp: change_edge_kind_value_inj)
  ultimately show ?thesis by (simp add: count_kinds_def map_of_tabulate Let_def)
qed

lemma sum_count_kinds: "sum_list (map snd (count_kinds es)) = int (length es)"
proof -
  let ?ks = "map (\<lambda>e. change_edge_kind_value (cg_edge_kind e)) es"
  have "sum_list (map snd (count_kinds es)) = (\<Sum>k\<in>set ?ks. int (count_list ?ks k))"
    unfolding count_kinds_def map_map o_def snd_conv by (subst sum_list_distinct_conv_sum_set) simp_all
  also have "\<dots> = int (length ?ks)" unfolding of_nat_sum [symmetric] using sum_count_set [of ?ks "set ?ks"] by simp
  finally show ?thesis by simp
qed

lemma validate_count_kinds: "es \<noteq> [] \<Longrightarrow> validate_counts_by_kind (count_kinds es) = Inr ()"
proof -
  have keys: "\<forall>(k, n)\<in>set (count_kinds es). k \<in> change_edge_kind_value ` set change_edge_order \<and> 0 \<le> n"
    using set_change_edge_order by (auto simp: count_kinds_def)
  have "foldE (\<lambda>(k, n) _. if k \<notin> change_edge_kind_value ` set change_edge_order
       then Inl (ValueErr (''unsupported evidence edge kind: '' @ quoted k))
       else check (0 \<le> n) (ValueErr ''counts_by_kind values must be >= 0'')) cs () = Inr ()"
    if "\<forall>(k, n)\<in>set cs. k \<in> change_edge_kind_value ` set change_edge_order \<and> 0 \<le> n" for cs
    using that by (induction cs) auto
  from this [OF keys] show "es \<noteq> [] \<Longrightarrow> ?thesis" by (simp add: validate_counts_by_kind_def count_kinds_def)
qed

text \<open>The preview that \<open>assemble\<close> builds passes its validator whatever the edges are.\<close>

lemma assemble_Inr_iff:
  "assemble target_kind target_value evidence_path owner primary edges cf = Inr v \<longleftrightarrow>
     (\<exists>es. evidence_edges target_kind target_value evidence_path owner primary edges cf = Inr es \<and>
        v = \<lparr>xv_total_edges = int (length es), xv_counts_by_kind = count_kinds (sort_key change_edge_key es),
             xv_edges_preview = take preview_limit (sort_key change_edge_key es), xv_truncated = preview_limit < length es\<rparr>)"
proof -
  have "validate_change_evidence_preview
      \<lparr>xv_total_edges = int (length es), xv_counts_by_kind = count_kinds (sort_key change_edge_key es),
       xv_edges_preview = take preview_limit (sort_key change_edge_key es), xv_truncated = preview_limit < length es\<rparr> =
      Inr \<lparr>xv_total_edges = int (length es), xv_counts_by_kind = count_kinds (sort_key change_edge_key es),
       xv_edges_preview = take preview_limit (sort_key change_edge_key es), xv_truncated = preview_limit < length es\<rparr>"
    if run: "evidence_edges target_kind target_value evidence_path owner primary edges cf = Inr es" for es
  proof -
    have "es \<noteq> []" using evidence_edges_kinds [OF run] by (auto simp: evidence_kinds_def)
    then show ?thesis
      by (simp add: validate_change_evidence_preview_def Let_def sum_count_kinds validate_count_kinds preview_limit_def min_def Suc_le_eq)
  qed
  then show ?thesis by (auto simp: assemble_def ebind_Inr_iff Let_def min_less_iff_disj)
qed

lemma change_edge_key_first: "change_edge_key e \<le> change_edge_key f \<Longrightarrow> change_edge_rank (cg_edge_kind e) \<le> change_edge_rank (cg_edge_kind f)"
  by (auto simp: change_edge_key_def)

text \<open>Every edge passed its validators.\<close>

definition sound_edge :: "change_edge \<Rightarrow> bool" where
  "sound_edge e \<longleftrightarrow> \<not> blank (cg_source_node_id e) \<and> \<not> blank (cg_target_node_id e) \<and> \<not> blank (cg_reason e) \<and> cg_provenance e \<noteq> []"

lemma mk_change_edge_sound: "mk_change_edge sk si tk ti k r p = Inr e \<Longrightarrow> sound_edge e"
  by (auto simp: mk_change_edge_Inr sound_edge_def)

lemma mapE_sound:
  "mapE f xs = Inr es \<Longrightarrow> (\<And>x e. f x = Inr e \<Longrightarrow> sound_edge e) \<Longrightarrow> list_all sound_edge es"
  by (auto simp: list_all_iff dest: mapE_set)

lemma relationship_edges_sound: "relationship_edges i rs = Inr es \<Longrightarrow> list_all sound_edge es"
  unfolding relationship_edges_def
  by (erule mapE_sound) (auto dest: mk_change_edge_sound split: file_relationship_kind.splits)

lemma render_change_edges_sound: "render_change_edges i xs = Inr es \<Longrightarrow> list_all sound_edge es"
  unfolding render_change_edges_def
  by (erule mapE_sound) (auto dest: mk_change_edge_sound split: render_edge_kind.splits)

lemma component_edges_sound:
  "owner_primary_component_edges owner primary = Inr es \<Longrightarrow> list_all sound_edge es"
  "implementation_component_edges primary cs = Inr es \<Longrightarrow> list_all sound_edge es"
  "dependent_component_edges primary cs edges = Inr es \<Longrightarrow> list_all sound_edge es"
proof -
  show "owner_primary_component_edges owner primary = Inr es \<Longrightarrow> list_all sound_edge es"
    by (cases primary) (auto simp: owner_primary_component_edges_def ebind_Inr_iff dest: mk_change_edge_sound)
  show "implementation_component_edges primary cs = Inr es \<Longrightarrow> list_all sound_edge es"
    by (cases primary) (auto simp: implementation_component_edges_def dest: mk_change_edge_sound elim!: mapE_sound)
  show "dependent_component_edges primary cs edges = Inr es \<Longrightarrow> list_all sound_edge es"
    by (cases primary)
      (auto simp: dependent_component_edges_def Let_def dest: mk_change_edge_sound elim!: mapE_sound split: option.splits)
qed

lemma item_edges_sound:
  "reference_edges target_kind i ls = Inr es \<Longrightarrow> list_all sound_edge es"
  "invariant_edges i fs = Inr es \<Longrightarrow> list_all sound_edge es"
  "local_flow_change_edges i xs = Inr es \<Longrightarrow> list_all sound_edge es"
  "implementation_location_edges i ls = Inr es \<Longrightarrow> list_all sound_edge es"
  "related_test_edges i ts = Inr es \<Longrightarrow> list_all sound_edge es"
  "related_runner_edges i rs = Inr es \<Longrightarrow> list_all sound_edge es"
  "quality_gate_edges i gs = Inr es \<Longrightarrow> list_all sound_edge es"
  unfolding reference_edges_def invariant_edges_def local_flow_change_edges_def implementation_location_edges_def
    related_test_edges_def related_runner_edges_def quality_gate_edges_def
  by (erule mapE_sound, erule mk_change_edge_sound)+

lemma owner_edge_sound: "ebind (target_owner_edge target_kind i owner path) (\<lambda>e. Inr [e]) = Inr es \<Longrightarrow> list_all sound_edge es"
  by (auto simp: target_owner_edge_def ebind_Inr_iff dest: mk_change_edge_sound)

lemma evidence_parts_sound:
  "\<forall>r\<in>set (evidence_parts target_kind target_value evidence_path owner primary edges cf). \<forall>es. r = Inr es \<longrightarrow> list_all sound_edge es"
  unfolding evidence_parts_def Let_def list.set ball_simps
  by (intro conjI allI impI TrueI)
    (erule item_edges_sound relationship_edges_sound render_change_edges_sound component_edges_sound owner_edge_sound)+

lemma evidence_edges_sound:
  assumes "evidence_edges target_kind target_value evidence_path owner primary edges cf = Inr es"
  shows "list_all sound_edge es"
proof -
  obtain parts where m: "mapE (\<lambda>es. es) (evidence_parts target_kind target_value evidence_path owner primary edges cf) = Inr parts"
    and es: "es = concat parts"
    using assms by (auto simp: evidence_edges_def ebind_Inr_iff)
  have "list_all sound_edge p" if "p \<in> set parts" for p
    using mapE_set [OF m that] evidence_parts_sound by blast
  then show ?thesis by (auto simp: es list_all_iff)
qed

lemma evidence_edges_owner:
  assumes "evidence_edges target_kind target_value evidence_path owner primary edges cf = Inr es"
  shows "es \<noteq> [] \<and> cg_edge_kind (hd es) = TARGET_OWNER \<and> cg_target_node_id (hd es) = oi_id owner"
proof -
  define first where "first = target_owner_edge target_kind (target_node_id target_kind target_value) owner evidence_path"
  define rest where "rest = tl (evidence_parts target_kind target_value evidence_path owner primary edges cf)"
  have rest: "evidence_parts target_kind target_value evidence_path owner primary edges cf = ebind first (\<lambda>e. Inr [e]) # rest"
    unfolding rest_def evidence_parts_def Let_def first_def list.sel ..
  obtain parts where m: "mapE (\<lambda>es. es) (evidence_parts target_kind target_value evidence_path owner primary edges cf) = Inr parts"
    and es: "es = concat parts"
    using assms by (auto simp: evidence_edges_def ebind_Inr_iff)
  from m [unfolded rest mapE_id_Cons] obtain es1 parts' where "ebind first (\<lambda>e. Inr [e]) = Inr es1" and parts: "parts = es1 # parts'"
    by blast
  then obtain e where "first = Inr e" and "es1 = [e]" by (auto simp: ebind_Inr_iff)
  moreover from \<open>first = Inr e\<close> have "cg_edge_kind e = TARGET_OWNER \<and> cg_target_node_id e = oi_id owner"
    by (auto simp: first_def target_owner_edge_def ebind_Inr_iff mk_change_edge_Inr)
  ultimately show ?thesis by (simp add: es parts)
qed

lemma owner_edge_first:
  assumes run: "evidence_edges target_kind target_value evidence_path owner primary edges cf = Inr es"
  shows "cg_edge_kind (hd (sort_key change_edge_key es)) = TARGET_OWNER \<and>
    cg_target_node_id (hd (sort_key change_edge_key es)) = oi_id owner"
proof -
  note s = evidence_edges_owner [OF run]
  let ?h = "hd (sort_key change_edge_key es)"
  have ne: "es \<noteq> []" using s by simp
  have mem: "?h \<in> set es" by (rule hd_sort_key_in [OF ne])
  have "change_edge_key ?h \<le> change_edge_key (hd es)" by (rule hd_sort_key_min [OF ne hd_in_set [OF ne]])
  then have "change_edge_rank (cg_edge_kind ?h) = 0" using change_edge_key_first s by fastforce
  then have kind: "cg_edge_kind ?h = TARGET_OWNER" by (cases "cg_edge_kind ?h") auto
  obtain rest where es: "es = hd es # rest" using ne by (metis list.exhaust_sel)
  have "count_list (map cg_edge_kind (hd es # rest)) TARGET_OWNER = 1"
    using evidence_edges_kinds [OF run] es by (metis count_evidence_kinds evidence_count.simps(1))
  then have "TARGET_OWNER \<notin> cg_edge_kind ` set rest" using s by (simp add: count_list_0_iff)
  then have "?h = hd es" using mem kind es by (metis image_eqI set_ConsD)
  then show ?thesis using s kind by simp
qed

text \<open>
  The evidence preview of a change is exact: the count of each kind is the number of items of that
  kind the change reaches, kinds without items are not listed, the total is their sum, at most 25 edges
  are shown and the preview is marked truncated exactly when there are more. The shown edges are sorted by
  kind, each has a provenance, and the first is the owner of the target.
\<close>

theorem change_evidence_exact:
  assumes "assemble target_kind target_value evidence_path owner primary edges cf = Inr v"
  shows "(\<forall>k. map_of (xv_counts_by_kind v) (change_edge_kind_value k) =
       (if evidence_count primary cf k = 0 then None else Some (int (evidence_count primary cf k)))) \<and>
    xv_total_edges v = (\<Sum>k\<in>set change_edge_order. int (evidence_count primary cf k)) \<and>
    int (length (xv_edges_preview v)) = min 25 (xv_total_edges v) \<and> (xv_truncated v \<longleftrightarrow> 25 < xv_total_edges v) \<and>
    sorted (map change_edge_key (xv_edges_preview v)) \<and> (\<forall>e\<in>set (xv_edges_preview v). cg_provenance e \<noteq> []) \<and>
    cg_edge_kind (hd (xv_edges_preview v)) = TARGET_OWNER \<and> cg_target_node_id (hd (xv_edges_preview v)) = oi_id owner"
proof -
  obtain es where run: "evidence_edges target_kind target_value evidence_path owner primary edges cf = Inr es"
    and v: "v = \<lparr>xv_total_edges = int (length es), xv_counts_by_kind = count_kinds (sort_key change_edge_key es),
       xv_edges_preview = take preview_limit (sort_key change_edge_key es), xv_truncated = preview_limit < length es\<rparr>"
    using assms unfolding assemble_Inr_iff by blast
  note s = evidence_edges_sound [OF run]
  let ?ks = "map cg_edge_kind es"
  have count: "count_list ?ks k = evidence_count primary cf k" for k
    using evidence_edges_kinds [OF run] by (simp add: count_evidence_kinds)
  have total: "int (length es) = (\<Sum>k\<in>set change_edge_order. int (evidence_count primary cf k))"
    using sum_count_set [of ?ks "set change_edge_order"] set_change_edge_order
    by (simp add: count subset_iff flip: of_nat_sum)
  define sorted_es where "sorted_es = sort_key change_edge_key es"
  have w: "xv_total_edges v = int (length es)" "xv_counts_by_kind v = count_kinds sorted_es" "xv_edges_preview v = take 25 sorted_es"
    "xv_truncated v \<longleftrightarrow> 25 < length es" "length sorted_es = length es" "set sorted_es = set es" "sorted (map change_edge_key sorted_es)"
    by (simp_all add: v sorted_es_def preview_limit_def)
  have "hd (xv_edges_preview v) = hd sorted_es" by (simp add: w hd_take)
  moreover have "map_of (xv_counts_by_kind v) (change_edge_kind_value k) =
      (if evidence_count primary cf k = 0 then None else Some (int (evidence_count primary cf k)))" for k
    by (simp add: w(2) count_kinds_exact Let_def) (simp add: sorted_es_def count_list_sort_key count)
  moreover have "set (xv_edges_preview v) \<subseteq> set es" using set_take_subset [of 25 sorted_es] by (simp add: w)
  moreover have "sorted (map change_edge_key (xv_edges_preview v))" using w(7) by (simp add: w(3) take_map [symmetric] sorted_wrt_take)
  moreover have "int (length (xv_edges_preview v)) = min 25 (xv_total_edges v)" "xv_truncated v \<longleftrightarrow> 25 < xv_total_edges v"
    by (simp_all add: w)
  ultimately show ?thesis
    using s owner_edge_first [OF run, folded sorted_es_def] total w(1) by (auto simp: list_all_iff sound_edge_def)
qed

end
