(* ===== verification/References_Service.thy ===== *)
theory References_Service
  imports Code_References
begin

text \<open>
  References gathered over symbols and files (\<open>CodeReferenceService\<close> in
  \<open>core/code_reference_service.py\<close>). The loops over symbols, files and locations may return early once
  enough locations are known; what comes after an early return is not asked, so its errors do not happen.
\<close>

definition resolve_symbol :: "code_environment \<Rightarrow> repository \<Rightarrow> string \<Rightarrow> entity_info result" where
  "resolve_symbol code rp symbol_id =
     ebind (check (startswith symbol_id ''entity:'') (ValueErr (''unsupported symbol id format: '' @ quoted symbol_id))) (\<lambda>_.
     let parts = split_on CHR '':'' symbol_id in
     ebind (check (4 \<le> length parts) (ValueErr (''unsupported symbol id format: '' @ quoted symbol_id))) (\<lambda>_.
     ebind (list_symbols_in_file code rp (parts ! 1) None False) (\<lambda>items.
     case filter (\<lambda>e. gn_id e = symbol_id) items of
       [] \<Rightarrow> Inl (ValueErr (''symbol id could not be resolved: '' @ quoted symbol_id))
     | [m] \<Rightarrow> Inr m
     | _ \<Rightarrow> Inl (ValueErr (''symbol id resolved ambiguously: '' @ quoted symbol_id)))))"

definition location_key :: "code_location \<Rightarrow> string \<times> int \<times> int \<times> int option \<times> int option \<times> string option" where
  "location_key l =
     (cl_repository_rel_path l, cl_line_start l, cl_column_start l, cl_line_end l, cl_column_end l, cl_symbol_id l)"

definition enough :: "int option \<Rightarrow> code_location list \<Rightarrow> bool" where
  "enough max_locations refs \<longleftrightarrow> (case max_locations of None \<Rightarrow> False | Some m \<Rightarrow> m \<le> int (length refs))"

text \<open>
  The dictionary of locations by key, in insertion order, as the list of its values. The flag says
  that the loop returned early.
\<close>

definition set_default :: "code_location \<Rightarrow> code_location list \<Rightarrow> code_location list" where
  "set_default l refs = (if location_key l \<in> location_key ` set refs then refs else refs @ [l])"

fun gather_locations :: "int option \<Rightarrow> code_location list \<Rightarrow> code_location list \<Rightarrow> bool \<times> code_location list" where
  "gather_locations max_locations [] refs = (False, refs)"
| "gather_locations max_locations (l # ls) refs =
     (let refs' = set_default l refs in
      if enough max_locations refs' then (True, refs') else gather_locations max_locations ls refs')"

fun gather_all ::
  "int option \<Rightarrow> ('a \<Rightarrow> code_location list result) \<Rightarrow> 'a list \<Rightarrow> code_location list \<Rightarrow> code_location list result" where
  "gather_all max_locations find_all [] refs = Inr refs"
| "gather_all max_locations find_all (x # xs) refs =
     ebind (find_all x) (\<lambda>ls.
       case gather_locations max_locations ls refs of
         (True, refs') \<Rightarrow> Inr refs'
       | (False, refs') \<Rightarrow> gather_all max_locations find_all xs refs')"

definition validate_maximum :: "string \<Rightarrow> int option \<Rightarrow> unit result" where
  "validate_maximum field_name m =
     check (case m of None \<Rightarrow> True | Some v \<Rightarrow> 1 \<le> v) (ValueErr (field_name @ '' must be at least 1''))"

definition references_for_file ::
  "code_environment \<Rightarrow> repository \<Rightarrow> int option \<Rightarrow> string \<Rightarrow> code_location list result" where
  "references_for_file code rp max_locations path =
     ebind (validate_maximum ''max_locations'' max_locations) (\<lambda>_.
     ebind (list_symbols_in_file code rp path None False) (\<lambda>symbols.
     ebind (gather_all max_locations (\<lambda>s. find_references_by_symbol_id code rp (gn_id s) False) symbols []) (\<lambda>refs.
       Inr (sort_key location_order refs))))"

definition references_for_owner ::
  "code_environment \<Rightarrow> repository \<Rightarrow> string \<Rightarrow> int option \<Rightarrow> int option \<Rightarrow> code_location list result" where
  "references_for_owner code rp owner_id max_locations max_files =
     ebind (validate_maximum ''max_locations'' max_locations) (\<lambda>_.
     ebind (validate_maximum ''max_files'' max_files) (\<lambda>_.
     ebind (list_files_by_owner rp owner_id) (\<lambda>files.
     ebind (gather_all max_locations (\<lambda>f. references_for_file code rp max_locations (fi_repository_rel_path f))
              (case max_files of None \<Rightarrow> files | Some m \<Rightarrow> take (nat m) files) []) (\<lambda>refs.
       Inr (sort_key location_order refs)))))"

section \<open>What the gathering keeps\<close>

lemma set_default_facts:
  "distinct (map location_key refs) \<Longrightarrow> distinct (map location_key (set_default l refs))"
  "set (set_default l refs) \<subseteq> insert l (set refs)"
  "location_key ` set (set_default l refs) = insert (location_key l) (location_key ` set refs)"
  "length (set_default l refs) \<le> Suc (length refs)"
  by (auto simp: set_default_def)

text \<open>
  \<open>gathered\<close> relates the locations found so far to the ones after looking at more: keys stay distinct,
  nothing is invented, the limit is respected, and without an early return nothing is missed.
\<close>

definition gathered :: "int option \<Rightarrow> bool \<Rightarrow> code_location set \<Rightarrow> code_location list \<Rightarrow> code_location list \<Rightarrow> bool" where
  "gathered max_locations full found refs refs' \<longleftrightarrow>
     (distinct (map location_key refs) \<longrightarrow> distinct (map location_key refs')) \<and>
     set refs' \<subseteq> set refs \<union> found \<and>
     (\<not> enough max_locations refs \<longrightarrow> (if full then enough max_locations refs' \<and> (\<forall>m. max_locations = Some m \<longrightarrow> int (length refs') \<le> m)
        else \<not> enough max_locations refs' \<and> location_key ` set refs' = location_key ` set refs \<union> location_key ` found))"

lemma gather_locations_gathered:
  assumes "gather_locations max_locations ls refs = (full, refs')"
  shows "gathered max_locations full (set ls) refs refs'"
  using assms
proof (induction ls arbitrary: refs)
  case Nil
  then show ?case by (auto simp: gathered_def)
next
  case (Cons l ls)
  let ?r = "set_default l refs"
  show ?case
  proof (cases "enough max_locations ?r")
    case True
    then have "full" "refs' = ?r" using Cons.prems by (simp_all add: Let_def)
    then show ?thesis
      using True set_default_facts [where refs = refs and l = l] by (auto simp: gathered_def enough_def split: option.splits)
  next
    case False
    then have "gathered max_locations full (set ls) ?r refs'" using Cons by (simp add: Let_def)
    then show ?thesis using False set_default_facts [where refs = refs and l = l] unfolding gathered_def by (auto split: if_splits)
  qed
qed

definition found_by :: "('a \<Rightarrow> code_location list result) \<Rightarrow> 'a list \<Rightarrow> code_location set" where
  "found_by find_all xs = {l. \<exists>x\<in>set xs. \<exists>ls. find_all x = Inr ls \<and> l \<in> set ls}"

lemma gather_all_gathered:
  assumes "gather_all max_locations find_all xs refs = Inr refs'"
  shows "\<exists>full. gathered max_locations full (found_by find_all xs) refs refs'"
  using assms
proof (induction xs arbitrary: refs)
  case Nil
  then show ?case by (auto simp: gathered_def found_by_def)
next
  case (Cons x xs)
  from Cons.prems obtain ls where ls: "find_all x = Inr ls" by (auto simp: ebind_Inr_iff)
  obtain full r where g: "gather_locations max_locations ls refs = (full, r)" by fastforce
  have rest: "(if full then Inr r else gather_all max_locations find_all xs r) = Inr refs'"
    using Cons.prems by (simp add: ls g split: bool.splits)
  have found: "found_by find_all (x # xs) = set ls \<union> found_by find_all xs" using ls by (auto simp: found_by_def)
  note step = gather_locations_gathered [OF g]
  show ?case
  proof (cases full)
    case True
    then show ?thesis using step rest unfolding found gathered_def by (intro exI [of _ True]) auto
  next
    case False
    then obtain full' where "gathered max_locations full' (found_by find_all xs) r refs'" using Cons.IH rest by auto
    then show ?thesis using step False unfolding found gathered_def by (intro exI [of _ full']) (auto split: if_splits)
  qed
qed

lemma gather_locations_unlimited: "fst (gather_locations None ls refs) = False"
  by (induction ls arbitrary: refs) (auto simp: Let_def enough_def)

lemma gather_all_asks:
  assumes "gather_all max_locations find_all xs refs = Inr refs'" and "max_locations = None" and "x \<in> set xs"
  shows "\<exists>ls. find_all x = Inr ls"
  using assms(1,3)
proof (induction xs arbitrary: refs)
  case (Cons y ys)
  then obtain ls where ls: "find_all y = Inr ls" by (auto simp: ebind_Inr_iff)
  obtain r where "gather_locations max_locations ls refs = (False, r)"
    using gather_locations_unlimited assms(2) by (metis prod.collapse)
  then show ?case using Cons ls by auto
qed simp

lemma gathered_start:
  assumes "gather_all max_locations find_all xs [] = Inr refs" and "\<forall>m. max_locations = Some m \<longrightarrow> 1 \<le> m"
  shows "distinct (map location_key refs) \<and> set refs \<subseteq> found_by find_all xs \<and>
    (\<forall>m. max_locations = Some m \<longrightarrow> int (length refs) \<le> m) \<and>
    (\<not> enough max_locations refs \<longrightarrow> location_key ` set refs = location_key ` found_by find_all xs)"
proof -
  obtain full where g: "gathered max_locations full (found_by find_all xs) [] refs" using gather_all_gathered [OF assms(1)] by blast
  have "\<not> enough max_locations []" using assms(2) by (auto simp: enough_def split: option.splits)
  then show ?thesis using g by (auto simp: gathered_def enough_def split: if_splits option.splits)
qed

lemma validate_maximum_Inr: "validate_maximum field_name m = Inr () \<longleftrightarrow> (\<forall>v. m = Some v \<longrightarrow> 1 \<le> v)"
  by (auto simp: validate_maximum_def split: option.splits)

text \<open>The references of one symbol, and of the symbols of one file.\<close>

definition symbol_references :: "code_environment \<Rightarrow> repository \<Rightarrow> entity_info \<Rightarrow> code_location list result" where
  "symbol_references code rp s = find_references_by_symbol_id code rp (gn_id s) False"

lemma references_for_file_gathered:
  assumes "references_for_file code rp max_locations path = Inr refs"
  shows "\<exists>symbols. list_symbols_in_file code rp path None False = Inr symbols \<and>
    distinct (map location_key refs) \<and> sorted (map location_order refs) \<and>
    set refs \<subseteq> found_by (symbol_references code rp) symbols \<and> (\<forall>m. max_locations = Some m \<longrightarrow> int (length refs) \<le> m) \<and>
    (\<not> enough max_locations refs \<longrightarrow> location_key ` set refs = location_key ` found_by (symbol_references code rp) symbols)"
proof -
  from assms obtain symbols found where syms: "list_symbols_in_file code rp path None False = Inr symbols"
    and max: "\<forall>v. max_locations = Some v \<longrightarrow> 1 \<le> v"
    and run: "gather_all max_locations (symbol_references code rp) symbols [] = Inr found" and refs: "refs = sort_key location_order found"
    by (auto simp: references_for_file_def symbol_references_def [abs_def] ebind_Inr_iff validate_maximum_Inr)
  have "distinct (map location_key refs) \<longleftrightarrow> distinct (map location_key found)"
    unfolding refs by (metis distinct_map distinct_sort set_sort)
  moreover have "enough max_locations refs \<longleftrightarrow> enough max_locations found" by (auto simp: enough_def refs split: option.splits)
  ultimately show ?thesis using gathered_start [OF run max] syms by (auto simp: refs)
qed



end
