(* ===== verification/Contexts.thy ===== *)
theory Contexts
  imports References_Service
begin

text \<open>
  Contexts: what is known of a component, a file or a symbol (\<open>core/file_semantic_facts.py\<close>,
  \<open>core/context_service.py\<close>, the context records of \<open>core/intelligence_models.py\<close>). The bundle of facts
  of a file caches each fact; here each is computed from the path and the evidence tier. A Python slice
  \<open>xs[:n]\<close> is \<open>py_take\<close>, negative limits included.
\<close>

section \<open>Previews and shared summaries\<close>

definition py_take :: "int \<Rightarrow> 'a list \<Rightarrow> 'a list" where
  "py_take n xs = take (nat (if n < 0 then int (length xs) + n else n)) xs"

lemma py_take_set: "set (py_take n xs) \<subseteq> set xs"
  by (simp add: py_take_def set_take_subset)

lemma length_py_take: "length (py_take n xs) \<le> length xs"
  by (simp add: py_take_def)

definition lsp_tool_for_path :: "string \<Rightarrow> string" where
  "lsp_tool_for_path path =
     (let lowered = lower path in
      if endswith lowered ''.py'' then ''basedpyright''
      else if endswith lowered ''.go'' then ''gopls''
      else ''typescript-language-server'')"

text \<open>\<open>if path not in paths: paths.append(path)\<close> over all evidence paths of the entries.\<close>

definition evidence_paths_of :: "provenance \<Rightarrow> string list" where
  "evidence_paths_of p = concat (map pe_evidence_paths p)"

definition summarized_test_provenance :: "resolved_related_test list \<Rightarrow> string \<Rightarrow> provenance_entry result" where
  "summarized_test_provenance tests label =
     (let paths = append_new [] (concat (map (\<lambda>t. evidence_paths_of (rr_provenance t)) tests));
          authoritative = (\<forall>t\<in>set tests. is_authoritative_test_provenance (rr_provenance t)) in
      mk_provenance_entry (if authoritative then AUTHORITATIVE else DERIVED)
        (if authoritative then SK_TEST_TOOL else SK_HEURISTIC) None
        (label @ '' derived from discovered test metadata'') (take 10 paths))"

section \<open>The facts of a file\<close>

definition fact_symbols :: "code_environment \<Rightarrow> repository \<Rightarrow> string \<Rightarrow> evidence_tier \<Rightarrow> entity_info list result" where
  "fact_symbols code rp path tier =
     (if tier = STRUCTURAL then list_structural_symbols_in_file code rp path None False
      else list_symbols_in_file code rp path None False)"

definition fact_reference_sites :: "code_environment \<Rightarrow> repository \<Rightarrow> string \<Rightarrow> evidence_tier \<Rightarrow> code_location list result" where
  "fact_reference_sites code rp path tier = (if tier = STRUCTURAL then Inr [] else references_for_file code rp None path)"

definition fact_dependency_files :: "code_environment \<Rightarrow> repository \<Rightarrow> string \<Rightarrow> evidence_tier \<Rightarrow> file_relationship list result" where
  "fact_dependency_files code rp path tier = get_file_relationships code rp path (Some IMPORTS) tier"

definition fact_dependent_files :: "code_environment \<Rightarrow> repository \<Rightarrow> string \<Rightarrow> evidence_tier \<Rightarrow> file_relationship list result" where
  "fact_dependent_files code rp path tier = get_file_relationships code rp path (Some IMPORTED_BY) tier"

definition fact_render_children :: "code_environment \<Rightarrow> repository \<Rightarrow> string \<Rightarrow> render_edge list result" where
  "fact_render_children code rp path = get_file_render_edges code rp path (Some RENDERS)"

definition fact_render_parents :: "code_environment \<Rightarrow> repository \<Rightarrow> string \<Rightarrow> render_edge list result" where
  "fact_render_parents code rp path = get_file_render_edges code rp path (Some RENDERED_BY)"

definition fact_invariant_findings :: "code_environment \<Rightarrow> repository \<Rightarrow> string \<Rightarrow> evidence_tier \<Rightarrow> invariant_finding list result" where
  "fact_invariant_findings code rp path tier = (if tier = STRUCTURAL then Inr [] else get_file_invariant_findings code rp path)"

definition fact_local_flow_edges :: "code_environment \<Rightarrow> repository \<Rightarrow> string \<Rightarrow> evidence_tier \<Rightarrow> static_flow_edge list result" where
  "fact_local_flow_edges code rp path tier = (if tier = STRUCTURAL then Inr [] else get_file_local_flow_edges code rp path)"

definition fact_implementation_locations :: "code_environment \<Rightarrow> repository \<Rightarrow> string \<Rightarrow> evidence_tier \<Rightarrow> code_location list result" where
  "fact_implementation_locations code rp path tier =
     (if tier = STRUCTURAL then Inr [] else get_file_implementation_locations code rp path)"

definition fact_related_tests :: "repository \<Rightarrow> string \<Rightarrow> resolved_related_test list result" where
  "fact_related_tests rp path = ebind (mk_related_test_target (Some path) None) (get_related_tests rp)"

definition fact_quality_provider_ids :: "repository \<Rightarrow> string \<Rightarrow> string list result" where
  "fact_quality_provider_ids rp path = provider_ids_for_files rp [path]"

text \<open>The facts that a file context reads, in the order in which it first reads them.\<close>

record file_facts =
  ff_reference_sites :: "code_location list"
  ff_implementation_locations :: "code_location list"
  ff_file_owner :: file_owner_info
  ff_symbols :: "entity_info list"
  ff_dependency_files :: "file_relationship list"
  ff_dependent_files :: "file_relationship list"
  ff_render_children :: "render_edge list"
  ff_render_parents :: "render_edge list"
  ff_invariant_findings :: "invariant_finding list"
  ff_local_flow_edges :: "static_flow_edge list"
  ff_related_tests :: "resolved_related_test list"
  ff_quality_provider_ids :: "string list"

definition read_facts ::
  "code_environment \<Rightarrow> repository \<Rightarrow> string \<Rightarrow> evidence_tier \<Rightarrow> bool \<Rightarrow> bool \<Rightarrow> int option \<Rightarrow> file_facts result" where
  "read_facts code rp path tier include_reference_sites include_implementation_locations reference_site_limit =
     ebind (if include_reference_sites
            then ebind (fact_reference_sites code rp path tier) (\<lambda>ls.
                   Inr (case reference_site_limit of None \<Rightarrow> ls | Some n \<Rightarrow> py_take n ls))
            else Inr []) (\<lambda>reference_sites.
     ebind (if include_implementation_locations then fact_implementation_locations code rp path tier else Inr []) (\<lambda>implementations.
     ebind (get_file_owner rp path) (\<lambda>file_owner.
     ebind (fact_symbols code rp path tier) (\<lambda>symbols.
     ebind (fact_dependency_files code rp path tier) (\<lambda>dependency_files.
     ebind (fact_dependent_files code rp path tier) (\<lambda>dependent_files.
     ebind (fact_render_children code rp path) (\<lambda>render_children.
     ebind (fact_render_parents code rp path) (\<lambda>render_parents.
     ebind (fact_invariant_findings code rp path tier) (\<lambda>findings.
     ebind (fact_local_flow_edges code rp path tier) (\<lambda>flow_edges.
     ebind (fact_related_tests rp path) (\<lambda>tests.
     ebind (fact_quality_provider_ids rp path) (\<lambda>quality_ids.
       Inr \<lparr>ff_reference_sites = reference_sites, ff_implementation_locations = implementations, ff_file_owner = file_owner,
            ff_symbols = symbols, ff_dependency_files = dependency_files, ff_dependent_files = dependent_files,
            ff_render_children = render_children, ff_render_parents = render_parents, ff_invariant_findings = findings,
            ff_local_flow_edges = flow_edges, ff_related_tests = tests, ff_quality_provider_ids = quality_ids\<rparr>))))))))))))"

section \<open>The provenance of a file context\<close>

text \<open>\<open>preferred_source_tool(provenance) if provenance else self._lsp_tool_for_path(path)\<close>.\<close>

definition source_tool_or_lsp :: "string \<Rightarrow> provenance \<Rightarrow> (string option) result" where
  "source_tool_or_lsp path p = (if p \<noteq> [] then preferred_source_tool p else Inr (Some (lsp_tool_for_path path)))"

definition symbol_source_kind :: "entity_info list \<Rightarrow> source_kind" where
  "symbol_source_kind symbols =
     (let kinds = map pe_source_kind (concat (map gn_provenance symbols)) in
      if SK_LSP \<in> set kinds then SK_LSP else if SK_SYNTAX \<in> set kinds then SK_SYNTAX else SK_DEPENDENCY_GRAPH)"

text \<open>\<open>_summarized_..._paths\<close>: the file itself, then each item's path and evidence paths, at most ten.\<close>

definition summarized_paths :: "string \<Rightarrow> (string \<times> provenance) list \<Rightarrow> string list" where
  "summarized_paths path items =
     take 10 (append_new [path] (concat (map (\<lambda>(p, entries). p # evidence_paths_of entries) items)))"

definition summarized_static_analysis_paths :: "string \<Rightarrow> invariant_finding list \<Rightarrow> static_flow_edge list \<Rightarrow> string list" where
  "summarized_static_analysis_paths path findings edges =
     take 10 (append_new [path]
       (concat (map (\<lambda>f. if_repository_rel_path f # map as_repository_rel_path (if_producer_sites f)) findings) @
        map sf_repository_rel_path edges))"

text \<open>\<open>entries.append(...)\<close> under a condition.\<close>

definition when_any :: "bool \<Rightarrow> provenance_entry result \<Rightarrow> provenance result" where
  "when_any b entry = (if b then ebind entry (\<lambda>e. Inr [e]) else Inr [])"

definition derived_from ::
  "source_kind \<Rightarrow> (string option) result \<Rightarrow> string \<Rightarrow> string list \<Rightarrow> provenance_entry result" where
  "derived_from kind tool summary paths = ebind tool (\<lambda>t. derived_summary_provenance kind t summary paths)"

definition file_context_provenance :: "string \<Rightarrow> file_facts \<Rightarrow> provenance result" where
  "file_context_provenance path ff =
     (let tool = source_tool_or_lsp path;
          relationships = ff_dependency_files ff @ ff_dependent_files ff;
          renders = ff_render_children ff @ ff_render_parents ff;
          findings = ff_invariant_findings ff; flows = ff_local_flow_edges ff in
     ebind (mapE (\<lambda>part. part)
       [when_any True (ownership_provenance (''file context derived from ownership index for '' @ quoted path) [path]),
        when_any (ff_symbols ff \<noteq> []) (derived_from (symbol_source_kind (ff_symbols ff))
          (tool (concat (map gn_provenance (ff_symbols ff))))
          (''file symbols derived from deterministic code symbols for '' @ quoted path) [path]),
        when_any (ff_reference_sites ff \<noteq> []) (derived_from SK_LSP (tool (concat (map cl_provenance (ff_reference_sites ff))))
          (''exact reference sites derived from deterministic symbol-reference queries for '' @ quoted path)
          (summarized_paths path (map (\<lambda>l. (cl_repository_rel_path l, cl_provenance l)) (ff_reference_sites ff)))),
        when_any (relationships \<noteq> []) (derived_from SK_DEPENDENCY_GRAPH (tool (concat (map fr_provenance relationships)))
          (''file relationships derived from deterministic dependency-graph resolution for '' @ quoted path)
          (summarized_paths path (map (\<lambda>r. (fr_repository_rel_path r, fr_provenance r)) relationships))),
        when_any (renders \<noteq> []) (derived_from SK_DEPENDENCY_GRAPH (tool (concat (map rd_provenance renders)))
          (''UI render relationships derived from deterministic JSX component resolution for '' @ quoted path)
          (summarized_paths path (map (\<lambda>r. (rd_repository_rel_path r, rd_provenance r)) renders))),
        when_any (findings \<noteq> [] \<or> flows \<noteq> []) (derived_from SK_DEPENDENCY_GRAPH
          (tool (concat (map if_provenance findings) @ concat (map sf_provenance flows)))
          (''file context includes deterministic TypeScript static analysis findings for '' @ quoted path)
          (summarized_static_analysis_paths path findings flows)),
        when_any (ff_implementation_locations ff \<noteq> []) (lsp_provenance (lsp_tool_for_path path)
          (''implementation candidates derived from deterministic LSP implementation queries for '' @ quoted path)
          (summarized_paths path (map (\<lambda>l. (cl_repository_rel_path l, cl_provenance l)) (ff_implementation_locations ff)))),
        when_any (ff_related_tests ff \<noteq> []) (summarized_test_provenance (ff_related_tests ff) ''file-related tests'')]) (\<lambda>parts.
       Inr (concat parts)))"

section \<open>File contexts\<close>

record file_context =
  fx_file_info :: file_info
  fx_owner :: owned_node_info
  fx_symbol_count :: int
  fx_symbols_preview :: "entity_info list"
  fx_reference_site_count :: int
  fx_reference_sites_preview :: "code_location list"
  fx_dependency_file_count :: int
  fx_dependency_files_preview :: "file_relationship list"
  fx_dependent_file_count :: int
  fx_dependent_files_preview :: "file_relationship list"
  fx_render_child_count :: int
  fx_render_children_preview :: "render_edge list"
  fx_render_parent_count :: int
  fx_render_parents_preview :: "render_edge list"
  fx_invariant_finding_count :: int
  fx_invariant_findings_preview :: "invariant_finding list"
  fx_local_flow_edge_count :: int
  fx_local_flow_edges_preview :: "static_flow_edge list"
  fx_implementation_location_count :: int
  fx_implementation_locations_preview :: "code_location list"
  fx_related_test_count :: int
  fx_related_tests_preview :: "resolved_related_test list"
  fx_quality_provider_ids :: "string list"
  fx_provenance :: provenance

definition validate_file_context :: "file_context \<Rightarrow> file_context result" where
  "validate_file_context c =
     (let kinds = pe_source_kind ` set (fx_provenance c) in
     ebind (check (fx_provenance c \<noteq> []) (ValueErr ''provenance must not be empty'')) (\<lambda>_.
     ebind (check (\<not> (0 < fx_symbol_count c \<and> SK_LSP \<notin> kinds \<and> SK_SYNTAX \<notin> kinds))
       (ValueErr ''file contexts with symbol evidence must include LSP or syntax provenance'')) (\<lambda>_.
     ebind (check (\<not> ((0 < fx_reference_site_count c \<or> 0 < fx_implementation_location_count c) \<and> SK_LSP \<notin> kinds))
       (ValueErr ''file contexts with reference or implementation evidence must include LSP provenance'')) (\<lambda>_.
       Inr c))))"

definition build_file_context ::
  "code_environment \<Rightarrow> repository \<Rightarrow> string \<Rightarrow> evidence_tier \<Rightarrow> int \<Rightarrow> int \<Rightarrow> bool \<Rightarrow> bool \<Rightarrow> int option \<Rightarrow> file_context result" where
  "build_file_context code rp path tier symbol_limit test_limit include_reference_sites include_implementation_locations reference_site_limit =
     ebind (read_facts code rp path tier include_reference_sites include_implementation_locations reference_site_limit) (\<lambda>ff.
     ebind (file_context_provenance path ff) (\<lambda>p.
       validate_file_context
         \<lparr>fx_file_info = fo_file_info (ff_file_owner ff), fx_owner = fo_owner (ff_file_owner ff),
          fx_symbol_count = int (length (ff_symbols ff)), fx_symbols_preview = py_take symbol_limit (ff_symbols ff),
          fx_reference_site_count = int (length (ff_reference_sites ff)),
          fx_reference_sites_preview = py_take symbol_limit (ff_reference_sites ff),
          fx_dependency_file_count = int (length (ff_dependency_files ff)),
          fx_dependency_files_preview = py_take symbol_limit (ff_dependency_files ff),
          fx_dependent_file_count = int (length (ff_dependent_files ff)),
          fx_dependent_files_preview = py_take symbol_limit (ff_dependent_files ff),
          fx_render_child_count = int (length (ff_render_children ff)),
          fx_render_children_preview = py_take symbol_limit (ff_render_children ff),
          fx_render_parent_count = int (length (ff_render_parents ff)),
          fx_render_parents_preview = py_take symbol_limit (ff_render_parents ff),
          fx_invariant_finding_count = int (length (ff_invariant_findings ff)),
          fx_invariant_findings_preview = py_take symbol_limit (ff_invariant_findings ff),
          fx_local_flow_edge_count = int (length (ff_local_flow_edges ff)),
          fx_local_flow_edges_preview = py_take symbol_limit (ff_local_flow_edges ff),
          fx_implementation_location_count = int (length (ff_implementation_locations ff)),
          fx_implementation_locations_preview = py_take symbol_limit (ff_implementation_locations ff),
          fx_related_test_count = int (length (ff_related_tests ff)), fx_related_tests_preview = py_take test_limit (ff_related_tests ff),
          fx_quality_provider_ids = ff_quality_provider_ids ff, fx_provenance = p\<rparr>))"

definition describe_file ::
  "code_environment \<Rightarrow> repository \<Rightarrow> string \<Rightarrow> evidence_tier \<Rightarrow> int \<Rightarrow> int \<Rightarrow> bool \<Rightarrow> bool \<Rightarrow> int option \<Rightarrow> file_context result" where
  "describe_file code rp path tier symbol_limit test_limit include_reference_sites include_implementation_locations reference_site_limit =
     ebind (normalize_repository_relative_path path) (\<lambda>n.
     ebind (normalize_repository_relative_path n) (\<lambda>m.
       build_file_context code rp m tier symbol_limit test_limit include_reference_sites include_implementation_locations
         reference_site_limit))"

section \<open>Component and symbol contexts\<close>

definition validate_context_batch :: "string list \<Rightarrow> string \<Rightarrow> unit result" where
  "validate_context_batch items field_name =
     ebind (check (items \<noteq> []) (ValueErr (field_name @ '' must not be empty''))) (\<lambda>_.
     ebind (check (\<forall>i\<in>set items. \<not> blank i) (ValueErr (field_name @ '' must not contain empty values''))) (\<lambda>_.
     check (distinct items) (ValueErr (field_name @ '' must not contain duplicates''))))"

definition describe_files ::
  "code_environment \<Rightarrow> repository \<Rightarrow> string list \<Rightarrow> int \<Rightarrow> int \<Rightarrow> bool \<Rightarrow> bool \<Rightarrow> int option \<Rightarrow> evidence_tier \<Rightarrow> file_context list result" where
  "describe_files code rp paths symbol_limit test_limit include_reference_sites include_implementation_locations reference_site_limit tier =
     ebind (validate_context_batch paths ''repository_rel_paths'') (\<lambda>_.
       mapE (\<lambda>path. describe_file code rp path tier symbol_limit test_limit include_reference_sites
         include_implementation_locations reference_site_limit) paths)"

record component_context =
  kx_component :: component
  kx_owned_file_count :: int
  kx_owned_files_preview :: "file_info list"
  kx_runner_ids :: "string list"
  kx_related_test_ids :: "string list"
  kx_dependency_count :: int
  kx_dependencies_preview :: "dependency_ref list"
  kx_dependent_count :: int
  kx_dependents_preview :: "string list"
  kx_provenance :: provenance

definition validate_component_context :: "component_context \<Rightarrow> component_context result" where
  "validate_component_context c = ebind (check (kx_provenance c \<noteq> []) (ValueErr ''provenance must not be empty'')) (\<lambda>_. Inr c)"

definition component_context_provenance ::
  "string \<Rightarrow> file_info list \<Rightarrow> dependency_ref list \<Rightarrow> resolved_related_test list \<Rightarrow> provenance result" where
  "component_context_provenance component_id owned_files dependencies tests =
     ebind (mapE (\<lambda>part. part)
       [when_any True (ownership_provenance (''component context derived from ownership index for '' @ quoted component_id)
          (map fi_repository_rel_path (take 10 owned_files))),
        when_any (dependencies \<noteq> []) (derived_summary_provenance SK_MANIFEST None
          (''dependency context summarized from '' @ str_nat (length dependencies) @ '' declared component dependencies'')
          (take 10 (append_new [] (concat (map (\<lambda>d. evidence_paths_of (dr_provenance d)) dependencies))))),
        when_any (tests \<noteq> []) (summarized_test_provenance tests ''component-related tests'')]) (\<lambda>parts. Inr (concat parts))"

definition describe_component ::
  "repository \<Rightarrow> int \<Rightarrow> int \<Rightarrow> int \<Rightarrow> int \<Rightarrow> string \<Rightarrow> component_context result" where
  "describe_component rp file_limit dependency_limit dependent_limit test_limit component_id =
     ebind (of_option (ValueErr (''unknown component id: '' @ quoted component_id)) (components_by_id rp component_id)) (\<lambda>c.
     ebind (build_ownership_index rp) (\<lambda>ox.
     ebind (files_for_owner ox component_id) (\<lambda>owned_files.
     ebind (ebind (mk_related_test_target None (Some component_id)) (get_related_tests rp)) (\<lambda>tests.
     ebind (get_component_dependencies rp component_id) (\<lambda>dependencies.
     ebind (get_component_dependents rp component_id) (\<lambda>dependents.
     ebind (related_runner_ids_for_component (files_for_owner ox) (get_runners rp) c owned_files) (\<lambda>runner_ids.
     ebind (component_context_provenance component_id owned_files dependencies tests) (\<lambda>p.
       validate_component_context
         \<lparr>kx_component = c, kx_owned_file_count = int (length owned_files), kx_owned_files_preview = py_take file_limit owned_files,
          kx_runner_ids = runner_ids, kx_related_test_ids = map rr_test_id (py_take test_limit tests),
          kx_dependency_count = int (length dependencies), kx_dependencies_preview = py_take dependency_limit dependencies,
          kx_dependent_count = int (length dependents), kx_dependents_preview = py_take dependent_limit dependents,
          kx_provenance = p\<rparr>))))))))"

definition describe_components ::
  "repository \<Rightarrow> string list \<Rightarrow> int \<Rightarrow> int \<Rightarrow> int \<Rightarrow> int \<Rightarrow> component_context list result" where
  "describe_components rp component_ids file_limit dependency_limit dependent_limit test_limit =
     ebind (validate_context_batch component_ids ''component_ids'') (\<lambda>_.
       mapE (describe_component rp file_limit dependency_limit dependent_limit test_limit) component_ids)"

record symbol_context =
  yx_symbol :: entity_info
  yx_owner :: owned_node_info
  yx_definition_count :: int
  yx_definitions :: "code_location list"
  yx_reference_count :: int
  yx_references_preview :: "code_location list"
  yx_related_test_count :: int
  yx_related_tests_preview :: "resolved_related_test list"
  yx_provenance :: provenance

definition validate_symbol_context :: "symbol_context \<Rightarrow> symbol_context result" where
  "validate_symbol_context c =
     ebind (check (yx_provenance c \<noteq> []) (ValueErr ''provenance must not be empty'')) (\<lambda>_.
     ebind (check (\<not> ((0 < yx_definition_count c \<or> 0 < yx_reference_count c) \<and> SK_LSP \<notin> pe_source_kind ` set (yx_provenance c)))
       (ValueErr ''symbol contexts with definitions or references must include LSP provenance'')) (\<lambda>_. Inr c))"

definition symbol_context_provenance :: "string \<Rightarrow> resolved_related_test list \<Rightarrow> provenance result" where
  "symbol_context_provenance path tests =
     ebind (mapE (\<lambda>part. part)
       [when_any True (lsp_provenance (lsp_tool_for_path path)
          (''symbol context derived from LSP symbol, definition, and reference queries for '' @ quoted path) [path]),
        when_any (tests \<noteq> []) (summarized_test_provenance tests ''symbol-related tests'')]) (\<lambda>parts. Inr (concat parts))"

definition describe_symbol_context :: "code_environment \<Rightarrow> repository \<Rightarrow> string \<Rightarrow> int \<Rightarrow> int \<Rightarrow> symbol_context result" where
  "describe_symbol_context code rp symbol_id reference_limit test_limit =
     ebind (resolve_symbol code rp symbol_id) (\<lambda>symbol.
     ebind (get_file_owner rp (ei_repository_rel_path symbol)) (\<lambda>w.
     ebind (find_definition_by_symbol_id code rp symbol_id) (\<lambda>definitions.
     ebind (find_references_by_symbol_id code rp symbol_id False) (\<lambda>references.
     ebind (fact_related_tests rp (ei_repository_rel_path symbol)) (\<lambda>tests.
     ebind (symbol_context_provenance (ei_repository_rel_path symbol) tests) (\<lambda>p.
       validate_symbol_context
         \<lparr>yx_symbol = symbol, yx_owner = fo_owner w, yx_definition_count = int (length definitions), yx_definitions = definitions,
          yx_reference_count = int (length references), yx_references_preview = py_take reference_limit references,
          yx_related_test_count = int (length tests), yx_related_tests_preview = py_take test_limit tests, yx_provenance = p\<rparr>))))))"

section \<open>Contexts are built from the facts they report\<close>

text \<open>Provenance that can be summarised: well formed entries whose paths the validator leaves as they are.\<close>

definition usable :: "provenance \<Rightarrow> bool" where
  "usable p \<longleftrightarrow> (\<forall>e\<in>set p. wf_provenance_entry e \<and> (\<forall>q\<in>set (pe_evidence_paths e). stable_path q))"

definition usable_items :: "(string \<times> provenance) list \<Rightarrow> bool" where
  "usable_items items \<longleftrightarrow> (\<forall>(q, p)\<in>set items. stable_path q \<and> usable p)"

definition usable_facts :: "file_facts \<Rightarrow> bool" where
  "usable_facts ff \<longleftrightarrow>
     (\<forall>s\<in>set (ff_symbols ff). usable (gn_provenance s)) \<and>
     usable_items (map (\<lambda>l. (cl_repository_rel_path l, cl_provenance l)) (ff_reference_sites ff @ ff_implementation_locations ff)) \<and>
     usable_items (map (\<lambda>r. (fr_repository_rel_path r, fr_provenance r)) (ff_dependency_files ff @ ff_dependent_files ff)) \<and>
     usable_items (map (\<lambda>r. (rd_repository_rel_path r, rd_provenance r)) (ff_render_children ff @ ff_render_parents ff)) \<and>
     (\<forall>f\<in>set (ff_invariant_findings ff). usable (if_provenance f) \<and> stable_path (if_repository_rel_path f) \<and>
        (\<forall>a\<in>set (if_producer_sites f). stable_path (as_repository_rel_path a))) \<and>
     usable_items (map (\<lambda>e. (sf_repository_rel_path e, sf_provenance e)) (ff_local_flow_edges ff)) \<and>
     (\<forall>t\<in>set (ff_related_tests ff). usable (rr_provenance t))"

lemma usable_concat: "usable (concat ps) \<longleftrightarrow> (\<forall>p\<in>set ps. usable p)"
  by (auto simp: usable_def)

lemma usable_append: "usable (p @ q) \<longleftrightarrow> usable p \<and> usable q"
  by (auto simp: usable_def)

lemma usable_items_append: "usable_items (xs @ ys) \<longleftrightarrow> usable_items xs \<and> usable_items ys"
  by (auto simp: usable_items_def)

lemma usable_items_provenance: "usable_items (map (\<lambda>x. (g x, h x)) xs) \<Longrightarrow> usable (concat (map h xs))"
  by (auto simp: usable_items_def usable_concat)

lemma lsp_tool_ok [simp]: "\<not> blank (lsp_tool_for_path path)"
  by (simp add: lsp_tool_for_path_def Let_def py_isspace_def)

lemma source_tool_or_lsp_ok:
  assumes "usable p"
  obtains t where "source_tool_or_lsp path p = Inr t" and "case t of Some s \<Rightarrow> \<not> blank s | None \<Rightarrow> True"
proof (cases "p = []")
  case True
  then show ?thesis using that by (auto simp: source_tool_or_lsp_def)
next
  case False
  then show ?thesis using that assms preferred_source_tool_ok [of p] by (auto simp: source_tool_or_lsp_def usable_def)
qed

lemma mk_entry_ok:
  assumes "\<not> blank summary" and "\<forall>p\<in>set paths. stable_path p" and "distinct paths" and "case tool of Some t \<Rightarrow> \<not> blank t | None \<Rightarrow> True"
  shows "\<exists>e. mk_provenance_entry cm sk tool summary paths = Inr e \<and> pe_source_kind e = sk"
  using assms by (cases tool) (auto simp: mk_provenance_entry_def validate_source_tool_def validate_evidence_summary_def validate_paths_stable)

lemma summarized_paths_ok:
  assumes "stable_path path" and "usable_items items"
  shows "\<forall>p\<in>set (summarized_paths path items). stable_path p" and "distinct (summarized_paths path items)"
  using assms by (fastforce simp: summarized_paths_def usable_items_def usable_def evidence_paths_of_def dest!: in_set_takeD)
    (simp add: summarized_paths_def distinct_append_new)

lemma static_paths_ok:
  assumes "stable_path path" and "\<forall>f\<in>set findings. stable_path (if_repository_rel_path f) \<and> (\<forall>a\<in>set (if_producer_sites f). stable_path (as_repository_rel_path a))"
    and "\<forall>e\<in>set edges. stable_path (sf_repository_rel_path e)"
  shows "\<forall>p\<in>set (summarized_static_analysis_paths path findings edges). stable_path p"
    and "distinct (summarized_static_analysis_paths path findings edges)"
  using assms by (auto simp: summarized_static_analysis_paths_def distinct_append_new dest!: in_set_takeD)

lemma summarized_test_provenance_ok:
  assumes "\<forall>t\<in>set tests. usable (rr_provenance t)" and "\<not> blank label"
  shows "\<exists>e. summarized_test_provenance tests label = Inr e \<and>
    pe_source_kind e = (if \<forall>t\<in>set tests. is_authoritative_test_provenance (rr_provenance t) then SK_TEST_TOOL else SK_HEURISTIC)"
  unfolding summarized_test_provenance_def Let_def
  by (rule mk_entry_ok) (use assms in \<open>auto simp: usable_def evidence_paths_of_def distinct_append_new dest!: in_set_takeD\<close>)

lemma derived_from_ok:
  assumes "usable p" and "\<not> blank summary" and "\<forall>p\<in>set paths. stable_path p" and "distinct paths"
  shows "\<exists>e. derived_from kind (source_tool_or_lsp path p) summary paths = Inr e \<and> pe_source_kind e = kind"
proof -
  obtain t where "source_tool_or_lsp path p = Inr t" "case t of Some s \<Rightarrow> \<not> blank s | None \<Rightarrow> True"
    by (rule source_tool_or_lsp_ok [OF assms(1)])
  then show ?thesis using mk_entry_ok [OF assms(2-4), of t DERIVED kind] by (simp add: derived_from_def derived_summary_provenance_def)
qed

lemma when_any_ok:
  assumes "b \<Longrightarrow> \<exists>e. entry = Inr e \<and> pe_source_kind e = kind"
  shows "\<exists>p. when_any b entry = Inr p \<and> map pe_source_kind p = (if b then [kind] else [])"
  using assms by (auto simp: when_any_def)

lemma mapE_parts_Nil: "\<exists>parts. mapE (\<lambda>part. part) [] = Inr parts \<and> map pe_source_kind (concat parts) = []"
  by simp

lemma mapE_parts_Cons:
  assumes "\<exists>p. r = Inr p \<and> map pe_source_kind p = ks" and "\<exists>parts. mapE (\<lambda>part. part) rs = Inr parts \<and> map pe_source_kind (concat parts) = ls"
  shows "\<exists>parts. mapE (\<lambda>part. part) (r # rs) = Inr parts \<and> map pe_source_kind (concat parts) = ks @ ls"
  using assms by auto

text \<open>The source kinds that the provenance of a file context lists, one per kind of fact present.\<close>

definition fact_kinds :: "file_facts \<Rightarrow> source_kind list" where
  "fact_kinds ff =
     [SK_OWNERSHIP] @
     (if ff_symbols ff \<noteq> [] then [symbol_source_kind (ff_symbols ff)] else []) @
     (if ff_reference_sites ff \<noteq> [] then [SK_LSP] else []) @
     (if ff_dependency_files ff @ ff_dependent_files ff \<noteq> [] then [SK_DEPENDENCY_GRAPH] else []) @
     (if ff_render_children ff @ ff_render_parents ff \<noteq> [] then [SK_DEPENDENCY_GRAPH] else []) @
     (if ff_invariant_findings ff \<noteq> [] \<or> ff_local_flow_edges ff \<noteq> [] then [SK_DEPENDENCY_GRAPH] else []) @
     (if ff_implementation_locations ff \<noteq> [] then [SK_LSP] else []) @
     (if ff_related_tests ff \<noteq> []
      then [if \<forall>t\<in>set (ff_related_tests ff). is_authoritative_test_provenance (rr_provenance t) then SK_TEST_TOOL else SK_HEURISTIC]
      else [])"

lemma file_context_provenance_ok:
  assumes stable: "stable_path path" and u: "usable_facts ff"
  shows "\<exists>p. file_context_provenance path ff = Inr p \<and> map pe_source_kind p = fact_kinds ff"
proof -
  note uf = u [unfolded usable_facts_def]
  let ?sites = "\<lambda>ls. map (\<lambda>l. (cl_repository_rel_path l, cl_provenance l)) (ls :: code_location list)"
  have sites: "usable_items (?sites (ff_reference_sites ff))" "usable_items (?sites (ff_implementation_locations ff))"
    using uf by (simp_all add: usable_items_append)
  let ?rels = "ff_dependency_files ff @ ff_dependent_files ff" and ?renders = "ff_render_children ff @ ff_render_parents ff"
  let ?static = "concat (map if_provenance (ff_invariant_findings ff)) @ concat (map sf_provenance (ff_local_flow_edges ff))"
  have static: "usable ?static"
    using uf usable_items_provenance [of sf_repository_rel_path sf_provenance "ff_local_flow_edges ff"] by (auto simp: usable_append usable_concat)
  have edges: "\<forall>e\<in>set (ff_local_flow_edges ff). stable_path (sf_repository_rel_path e)" using uf by (auto simp: usable_items_def)
  have findings: "\<forall>f\<in>set (ff_invariant_findings ff). stable_path (if_repository_rel_path f) \<and>
      (\<forall>a\<in>set (if_producer_sites f). stable_path (as_repository_rel_path a))" using uf by blast
  have own: "\<exists>e. ownership_provenance (''file context derived from ownership index for '' @ quoted path) [path] = Inr e \<and> pe_source_kind e = SK_OWNERSHIP"
    unfolding ownership_provenance_def by (rule mk_entry_ok) (use stable in simp_all)
  have symbols: "\<exists>e. derived_from (symbol_source_kind (ff_symbols ff)) (source_tool_or_lsp path (concat (map gn_provenance (ff_symbols ff))))
      (''file symbols derived from deterministic code symbols for '' @ quoted path) [path] = Inr e \<and> pe_source_kind e = symbol_source_kind (ff_symbols ff)"
    by (rule derived_from_ok) (use uf stable in \<open>simp_all add: usable_concat\<close>)
  have refs: "\<exists>e. derived_from SK_LSP (source_tool_or_lsp path (concat (map cl_provenance (ff_reference_sites ff))))
      (''exact reference sites derived from deterministic symbol-reference queries for '' @ quoted path)
      (summarized_paths path (?sites (ff_reference_sites ff))) = Inr e \<and> pe_source_kind e = SK_LSP"
    by (rule derived_from_ok) (use usable_items_provenance [OF sites(1)] summarized_paths_ok [OF stable sites(1)] in simp_all)
  have rels: "\<exists>e. derived_from SK_DEPENDENCY_GRAPH (source_tool_or_lsp path (concat (map fr_provenance ?rels)))
      (''file relationships derived from deterministic dependency-graph resolution for '' @ quoted path)
      (summarized_paths path (map (\<lambda>r. (fr_repository_rel_path r, fr_provenance r)) ?rels)) = Inr e \<and> pe_source_kind e = SK_DEPENDENCY_GRAPH"
  proof (rule derived_from_ok)
    have i: "usable_items (map (\<lambda>r. (fr_repository_rel_path r, fr_provenance r)) ?rels)" using uf by blast
    show "usable (concat (map fr_provenance ?rels))" by (rule usable_items_provenance [OF i])
    note paths = summarized_paths_ok [OF stable i]
    show "\<forall>p\<in>set (summarized_paths path (map (\<lambda>r. (fr_repository_rel_path r, fr_provenance r)) ?rels)). stable_path p"
      by (rule paths(1))
    show "distinct (summarized_paths path (map (\<lambda>r. (fr_repository_rel_path r, fr_provenance r)) ?rels))" by (rule paths(2))
  qed simp
  have renders: "\<exists>e. derived_from SK_DEPENDENCY_GRAPH (source_tool_or_lsp path (concat (map rd_provenance ?renders)))
      (''UI render relationships derived from deterministic JSX component resolution for '' @ quoted path)
      (summarized_paths path (map (\<lambda>r. (rd_repository_rel_path r, rd_provenance r)) ?renders)) = Inr e \<and> pe_source_kind e = SK_DEPENDENCY_GRAPH"
  proof (rule derived_from_ok)
    have i: "usable_items (map (\<lambda>r. (rd_repository_rel_path r, rd_provenance r)) ?renders)" using uf by blast
    show "usable (concat (map rd_provenance ?renders))" by (rule usable_items_provenance [OF i])
    note paths = summarized_paths_ok [OF stable i]
    show "\<forall>p\<in>set (summarized_paths path (map (\<lambda>r. (rd_repository_rel_path r, rd_provenance r)) ?renders)). stable_path p"
      by (rule paths(1))
    show "distinct (summarized_paths path (map (\<lambda>r. (rd_repository_rel_path r, rd_provenance r)) ?renders))" by (rule paths(2))
  qed simp
  have analysis: "\<exists>e. derived_from SK_DEPENDENCY_GRAPH (source_tool_or_lsp path ?static)
      (''file context includes deterministic TypeScript static analysis findings for '' @ quoted path)
      (summarized_static_analysis_paths path (ff_invariant_findings ff) (ff_local_flow_edges ff)) = Inr e \<and> pe_source_kind e = SK_DEPENDENCY_GRAPH"
    by (rule derived_from_ok) (use static static_paths_ok [OF stable findings edges] in simp_all)
  have impls: "\<exists>e. lsp_provenance (lsp_tool_for_path path)
      (''implementation candidates derived from deterministic LSP implementation queries for '' @ quoted path)
      (summarized_paths path (?sites (ff_implementation_locations ff))) = Inr e \<and> pe_source_kind e = SK_LSP"
    unfolding lsp_provenance_def by (rule mk_entry_ok) (use summarized_paths_ok [OF stable sites(2)] in simp_all)
  have tests: "\<exists>e. summarized_test_provenance (ff_related_tests ff) ''file-related tests'' = Inr e \<and> pe_source_kind e =
      (if \<forall>t\<in>set (ff_related_tests ff). is_authoritative_test_provenance (rr_provenance t) then SK_TEST_TOOL else SK_HEURISTIC)"
    by (rule summarized_test_provenance_ok) (use uf in \<open>simp_all add: py_isspace_def\<close>)
  note parts = mapE_parts_Cons [OF when_any_ok [OF own] mapE_parts_Cons [OF when_any_ok [OF symbols] mapE_parts_Cons [OF when_any_ok [OF refs]
    mapE_parts_Cons [OF when_any_ok [OF rels] mapE_parts_Cons [OF when_any_ok [OF renders] mapE_parts_Cons [OF when_any_ok [OF analysis]
    mapE_parts_Cons [OF when_any_ok [OF impls] mapE_parts_Cons [OF when_any_ok [OF tests] mapE_parts_Nil]]]]]]]]
  show ?thesis
    unfolding file_context_provenance_def fact_kinds_def Let_def
    using parts [of True "ff_symbols ff \<noteq> []" "ff_reference_sites ff \<noteq> []" "?rels \<noteq> []" "?renders \<noteq> []"
      "ff_invariant_findings ff \<noteq> [] \<or> ff_local_flow_edges ff \<noteq> []" "ff_implementation_locations ff \<noteq> []" "ff_related_tests ff \<noteq> []"]
    by (force simp del: mapE.simps)
qed



text \<open>
  A symbol context always carries language server provenance, so its validator never refuses it: when the
  symbol, its owner, definitions, references and tests are found, a context with all of them is returned.
\<close>

theorem symbol_context_total:
  assumes symbol: "resolve_symbol code rp symbol_id = Inr symbol" and owner: "get_file_owner rp (ei_repository_rel_path symbol) = Inr w"
    and definitions: "find_definition_by_symbol_id code rp symbol_id = Inr ds"
    and references: "find_references_by_symbol_id code rp symbol_id False = Inr rs"
    and tests: "fact_related_tests rp (ei_repository_rel_path symbol) = Inr ts"
    and stable: "stable_path (ei_repository_rel_path symbol)" "\<forall>t\<in>set ts. usable (rr_provenance t)"
  shows "\<exists>c. describe_symbol_context code rp symbol_id n m = Inr c \<and> yx_symbol c = symbol \<and> yx_owner c = fo_owner w \<and>
    yx_definitions c = ds \<and> yx_reference_count c = int (length rs) \<and> yx_references_preview c = py_take n rs \<and>
    yx_related_test_count c = int (length ts) \<and> yx_related_tests_preview c = py_take m ts \<and>
    pe_source_kind (hd (yx_provenance c)) = SK_LSP"
proof -
  let ?path = "ei_repository_rel_path symbol"
  have e1: "\<exists>e. lsp_provenance (lsp_tool_for_path ?path)
      (''symbol context derived from LSP symbol, definition, and reference queries for '' @ quoted ?path) [?path] = Inr e \<and> pe_source_kind e = SK_LSP"
    unfolding lsp_provenance_def by (rule mk_entry_ok) (use stable in simp_all)
  have e2: "\<exists>e. summarized_test_provenance ts ''symbol-related tests'' = Inr e \<and> pe_source_kind e =
      (if \<forall>t\<in>set ts. is_authoritative_test_provenance (rr_provenance t) then SK_TEST_TOOL else SK_HEURISTIC)"
    by (rule summarized_test_provenance_ok [OF stable(2)]) (simp add: py_isspace_def)
  note parts = mapE_parts_Cons [OF when_any_ok [OF e1] mapE_parts_Cons [OF when_any_ok [OF e2] mapE_parts_Nil]]
  obtain p ks where p: "symbol_context_provenance ?path ts = Inr p" and "map pe_source_kind p = SK_LSP # ks"
    unfolding symbol_context_provenance_def using parts [of True "ts \<noteq> []"] by (force simp del: mapE.simps)
  then have p: "symbol_context_provenance ?path ts = Inr p" "p \<noteq> []" "pe_source_kind (hd p) = SK_LSP" by auto
  then have "SK_LSP \<in> pe_source_kind ` set p" by (metis hd_in_set image_eqI)
  then show ?thesis
    by (simp add: describe_symbol_context_def symbol owner definitions references tests p validate_symbol_context_def check_def)
qed

theorem symbol_context_total_witness:
  "is_ok (describe_symbol_context (\<lambda>p. sample_answers) code_sample_repository ''entity:src/a/x.ts:class:Queue:3-9'' 1 1)"
proof -
  let ?id = "''entity:src/a/x.ts:class:Queue:3-9''"
  have symbol: "resolve_symbol (\<lambda>p. sample_answers) code_sample_repository ?id = Inr sample_symbol" by code_simp
  have ds: "is_ok (find_definition_by_symbol_id (\<lambda>p. sample_answers) code_sample_repository ?id)" by code_simp
  have rs: "is_ok (find_references_by_symbol_id (\<lambda>p. sample_answers) code_sample_repository ?id False)" by code_simp
  have w: "is_ok (get_file_owner code_sample_repository (ei_repository_rel_path sample_symbol))" by code_simp
  have ts: "fact_related_tests code_sample_repository (ei_repository_rel_path sample_symbol) = Inr []" by code_simp
  obtain v d r where v: "get_file_owner code_sample_repository (ei_repository_rel_path sample_symbol) = Inr v"
    and d: "find_definition_by_symbol_id (\<lambda>p. sample_answers) code_sample_repository ?id = Inr d"
    and r: "find_references_by_symbol_id (\<lambda>p. sample_answers) code_sample_repository ?id False = Inr r"
    using ds rs w by (auto simp: is_ok_iff)
  have "stable_path (ei_repository_rel_path sample_symbol)" by code_simp
  from symbol_context_total [OF symbol v d r ts this, of 1 1] show ?thesis by (auto simp: is_ok_iff)
qed

end
