(* ===== verification/Fnmatch.thy ===== *)
theory Fnmatch
  imports Code_Intelligence
begin

text \<open>
  How a symbol name is matched against a query (\<open>_matches_query\<close> of \<open>providers/shared/lsp_code/backend.py\<close>):
  Python's \<open>fnmatchcase\<close>, where a star stands for any text, a question mark for one character and brackets for a set of
  characters.
\<close>

section \<open>Patterns\<close>

datatype pattern_item = Any_Text | Any_Char | One_Of bool "(char \<times> char) list" | Literal char

text \<open>
  The inside of brackets is a list of ranges; a hyphen after a character and before another makes a range, which is empty
  when its ends are in the wrong order. A leading exclamation mark negates the set.
\<close>

fun char_ranges :: "string \<Rightarrow> (char \<times> char) list" where
  "char_ranges [] = []"
| "char_ranges (a # h # b # s) = (if h = CHR ''-'' then (a, b) # char_ranges s else (a, a) # char_ranges (h # b # s))"
| "char_ranges (a # s) = (a, a) # char_ranges s"

text \<open>The closing bracket: not the first character of the set, nor the one after a leading exclamation mark.\<close>

definition bracket_split :: "string \<Rightarrow> (string \<times> string) option" where
  "bracket_split s =
     (let (bang, s1) = (case s of c # t \<Rightarrow> if c = CHR ''!'' then ([c], t) else ([], s) | [] \<Rightarrow> ([], s));
          (first, s2) = (case s1 of c # t \<Rightarrow> if c = CHR '']'' then ([c], t) else ([], s1) | [] \<Rightarrow> ([], s1));
          inner = takeWhile (\<lambda>c. c \<noteq> CHR '']'') s2 in
      if CHR '']'' \<in> set s2 then Some (bang @ first @ inner, drop (Suc (length inner)) s2) else None)"

definition bracket_item :: "string \<Rightarrow> pattern_item" where
  "bracket_item inside =
     (case inside of c # s \<Rightarrow> if c = CHR ''!'' then One_Of False (char_ranges s) else One_Of True (char_ranges inside)
      | [] \<Rightarrow> One_Of True [])"

lemma bracket_split_shorter:
  assumes "bracket_split s = Some (inside, rest)"
  shows "length rest < length s"
proof -
  have "length (drop (Suc (length (takeWhile (\<lambda>c. c \<noteq> CHR '']'') t))) t) < length t" if "CHR '']'' \<in> set t" for t :: string
    using that by (cases t) auto
  from this [of s] this [of "tl s"] this [of "tl (tl s)"] show ?thesis using assms
    by (auto simp: bracket_split_def Let_def split: list.splits if_splits)
qed

function pattern_items :: "string \<Rightarrow> pattern_item list" where
  "pattern_items [] = []"
| "pattern_items (c # s) =
     (if c = CHR ''*'' then Any_Text # pattern_items s
      else if c = CHR ''?'' then Any_Char # pattern_items s
      else if c = CHR ''['' then (case bracket_split s of
        None \<Rightarrow> Literal c # pattern_items s
      | Some (inside, rest) \<Rightarrow> bracket_item inside # pattern_items rest)
      else Literal c # pattern_items s)"
  by pat_completeness auto
termination
  by (relation "measure length") (auto dest: bracket_split_shorter intro: less_SucI)

fun item_matches :: "pattern_item \<Rightarrow> char \<Rightarrow> bool" where
  "item_matches (Literal d) c \<longleftrightarrow> c = d"
| "item_matches (One_Of positive ranges) c \<longleftrightarrow> (\<exists>(a, b)\<in>set ranges. a \<le> c \<and> c \<le> b) = positive"
| "item_matches i c \<longleftrightarrow> True"

fun items_match :: "pattern_item list \<Rightarrow> string \<Rightarrow> bool" where
  "items_match [] s \<longleftrightarrow> s = []"
| "items_match (Any_Text # is) [] \<longleftrightarrow> items_match is []"
| "items_match (Any_Text # is) (c # s) \<longleftrightarrow> items_match is (c # s) \<or> items_match (Any_Text # is) s"
| "items_match (i # is) [] \<longleftrightarrow> False"
| "items_match (i # is) (c # s) \<longleftrightarrow> item_matches i c \<and> items_match is s"

definition fnmatchcase :: "string \<Rightarrow> string \<Rightarrow> bool" where
  "fnmatchcase name pat \<longleftrightarrow> items_match (pattern_items pat) name"

definition casefold :: "string \<Rightarrow> string" where
  "casefold s = concat (map (\<lambda>c. if c = CHR 0xDF then ''ss'' else [lower_char c]) s)"

definition matches_query :: "string \<Rightarrow> string \<Rightarrow> bool \<Rightarrow> bool" where
  "matches_query symbol_name query case_sensitive =
     (let name = (if case_sensitive then symbol_name else casefold symbol_name);
          pat = (if case_sensitive then query else casefold query) in
      if CHR ''*'' \<in> set query \<or> CHR ''?'' \<in> set query then fnmatchcase name pat else name = pat)"

section \<open>What matches\<close>

lemma Any_Text_splits: "items_match (Any_Text # is) s \<longleftrightarrow> (\<exists>a b. s = a @ b \<and> items_match is b)"
proof (induction s)
  case (Cons c s)
  have "(\<exists>a b. c # s = a @ b \<and> items_match is b) \<longleftrightarrow> items_match is (c # s) \<or> (\<exists>a b. s = a @ b \<and> items_match is b)"
    by (metis Cons_eq_append_conv append_Cons append_Nil)
  then show ?case using Cons by simp
qed simp

lemma single_matches: "i \<noteq> Any_Text \<Longrightarrow> items_match (i # is) s \<longleftrightarrow> (\<exists>c t. s = c # t \<and> item_matches i c \<and> items_match is t)"
  by (cases i; cases s) auto

text \<open>The declarative reading: the name is a sequence of pieces, one for each item.\<close>

fun piece_matches :: "pattern_item \<Rightarrow> string \<Rightarrow> bool" where
  "piece_matches Any_Text w \<longleftrightarrow> True"
| "piece_matches i w \<longleftrightarrow> (\<exists>c. w = [c] \<and> item_matches i c)"

lemma pieces_Cons:
  "(\<exists>ws. s = concat ws \<and> list_all2 piece_matches (i # is) ws) \<longleftrightarrow>
     (\<exists>w ws. s = w @ concat ws \<and> piece_matches i w \<and> list_all2 piece_matches is ws)"
  unfolding list_all2_Cons1 by (metis concat.simps(2))

lemma items_match_pieces: "items_match is s \<longleftrightarrow> (\<exists>ws. s = concat ws \<and> list_all2 piece_matches is ws)"
proof (induction "is" arbitrary: s)
  case (Cons i "is")
  show ?case
  proof (cases "i = Any_Text")
    case True
    then show ?thesis unfolding pieces_Cons Any_Text_splits True Cons by auto
  next
    case False
    then have piece: "piece_matches i w \<longleftrightarrow> (\<exists>c. w = [c] \<and> item_matches i c)" for w by (cases i) auto
    show ?thesis unfolding single_matches [OF False] Cons pieces_Cons piece by (metis append_Cons append_Nil)
  qed
qed simp

lemma plain_pattern: "\<forall>c\<in>set pat. c \<notin> {CHR ''*'', CHR ''?'', CHR ''[''} \<Longrightarrow> pattern_items pat = map Literal pat"
  by (induction pat) auto

lemma literals_match: "items_match (map Literal pat) s \<longleftrightarrow> s = pat"
  by (induction pat arbitrary: s) (auto simp: single_matches)

text \<open>
  A query without wildcards matches exactly the names it is equal to (up to case when case does not count). A query
  with wildcards matches the names that are cut into pieces by its items: any text for a star, one character for a
  question mark or brackets, the character itself otherwise; without brackets, matching \<open>pre*\<close> is
  starting with \<open>pre\<close>.
\<close>

theorem query_matching:
  "(CHR ''*'' \<notin> set query \<and> CHR ''?'' \<notin> set query \<longrightarrow> matches_query symbol_name query True = (symbol_name = query)) \<and>
   (CHR ''*'' \<in> set query \<or> CHR ''?'' \<in> set query \<longrightarrow>
      matches_query symbol_name query True =
        (\<exists>ws. symbol_name = concat ws \<and> list_all2 piece_matches (pattern_items query) ws)) \<and>
   (set pre \<inter> {CHR ''*'', CHR ''?'', CHR ''[''} = {} \<longrightarrow>
      matches_query symbol_name (pre @ ''*'') True = startswith symbol_name pre)"
proof (intro conjI impI)
  assume "set pre \<inter> {CHR ''*'', CHR ''?'', CHR ''[''} = {}"
  then have "pattern_items (pre @ ''*'') = map Literal pre @ [Any_Text]"
    by (induction pre) auto
  moreover have "items_match (map Literal pre @ [Any_Text]) s \<longleftrightarrow> take (length pre) s = pre" for s
  proof (induction pre arbitrary: s)
    case (Cons a pre)
    then show ?case by (cases s) (auto simp: single_matches)
  qed (simp add: Any_Text_splits)
  ultimately show "matches_query symbol_name (pre @ ''*'') True = startswith symbol_name pre"
    by (simp add: matches_query_def fnmatchcase_def startswith_def)
qed (auto simp: matches_query_def fnmatchcase_def items_match_pieces)

theorem query_matching_witness:
  "matches_query ''run_test'' ''run_*'' True \<and> \<not> matches_query ''test_run'' ''run_*'' True \<and> matches_query ''Run'' ''[q-s]un'' True = False \<and>
   matches_query ''run'' ''[q-s]?n'' True"
proof -
  have "matches_query ''run_test'' (''run_'' @ ''*'') True" "\<not> matches_query ''test_run'' (''run_'' @ ''*'') True"
    using query_matching [of "''run''" _ "''run_''"] by (simp_all add: startswith_def)
  moreover have "matches_query ''Run'' ''[q-s]un'' True = False \<and> matches_query ''run'' ''[q-s]?n'' True" by code_simp
  ultimately show ?thesis by simp
qed

end
