(* ===== verification/Symbol_Lookup.thy ===== *)
theory Symbol_Lookup
  imports Contexts Fnmatch "HOL-Library.Multiset"
begin

text \<open>
  Finding symbols by name (\<open>core/symbol_lookup_service.py\<close>, \<open>SymbolLookupHit\<close>): each symbol the providers
  know becomes a hit with its owner, its references in other files and its authoritative tests, and the
  hits are ranked. Names are Latin-1 strings; \<open>casefold\<close> writes the sharp s as \<open>ss\<close>, and leaves the micro
  sign, which Python maps out of Latin-1 to a character that no other name contains.
\<close>

section \<open>Hits\<close>

record symbol_hit =
  sh_symbol :: entity_info
  sh_owner :: "owned_node_info option"
  sh_reference_count :: int
  sh_reference_preview :: "code_location list"
  sh_related_tests_preview :: "resolved_related_test list"
  sh_definition_anchor :: "code_location option"
  sh_context_source :: string
  sh_provenance :: provenance

definition validate_symbol_hit :: "symbol_hit \<Rightarrow> symbol_hit result" where
  "validate_symbol_hit h =
     ebind (required_text ''context_source'' (sh_context_source h)) (\<lambda>source.
     ebind (check (0 \<le> sh_reference_count h) (ValueErr ''reference_count must be >= 0'')) (\<lambda>_.
     ebind (check (sh_provenance h \<noteq> []) (ValueErr ''provenance must not be empty'')) (\<lambda>_.
     ebind (check (\<not> ((0 < sh_reference_count h \<or> sh_definition_anchor h \<noteq> None) \<and>
           SK_LSP \<notin> pe_source_kind ` set (sh_provenance h)))
       (ValueErr ''symbol lookup hits with definitions or references must include LSP provenance'')) (\<lambda>_.
       Inr (h\<lparr>sh_context_source := source\<rparr>)))))"

definition lookup_owner :: "repository \<Rightarrow> string \<Rightarrow> (owned_node_info option) result" where
  "lookup_owner rp path =
     (case get_file_owner rp path of
        Inr w \<Rightarrow> Inr (Some (fo_owner w))
      | Inl (ValueErr m) \<Rightarrow> Inr None
      | Inl e \<Rightarrow> Inl e)"

definition definition_anchor :: "code_environment \<Rightarrow> repository \<Rightarrow> entity_info \<Rightarrow> (code_location option) result" where
  "definition_anchor code rp s =
     ebind (no_answer (find_definition_by_symbol_id code rp (gn_id s))) (\<lambda>definitions.
       case (definitions, ei_line_start s, ei_column_start s) of
         (d # _, _, _) \<Rightarrow> Inr (Some d)
       | ([], Some line, Some column) \<Rightarrow>
           ebind (preferred_source_tool (gn_provenance s)) (\<lambda>tool.
           ebind (lsp_location_provenance (case tool of Some t \<Rightarrow> if t = [] then ''lsp'' else t | None \<Rightarrow> ''lsp'')
             (ei_repository_rel_path s) ''definition'') (\<lambda>e.
           ebind (validate_code_location
             \<lparr>cl_repository_rel_path = ei_repository_rel_path s, cl_line_start = line, cl_line_end = ei_line_end s,
              cl_column_start = column, cl_column_end = ei_column_end s, cl_symbol_id = Some (gn_id s), cl_provenance = [e]\<rparr>)
             (\<lambda>l. Inr (Some l))))
       | _ \<Rightarrow> Inr None)"

definition external_references :: "code_environment \<Rightarrow> repository \<Rightarrow> entity_info \<Rightarrow> code_location list result" where
  "external_references code rp s =
     ebind (no_answer (find_references_by_symbol_id code rp (gn_id s) False)) (\<lambda>references.
       Inr (filter (\<lambda>l. cl_repository_rel_path l \<noteq> ei_repository_rel_path s) references))"

definition lookup_tests :: "repository \<Rightarrow> string \<Rightarrow> resolved_related_test list result" where
  "lookup_tests rp path =
     ebind (no_answer (fact_related_tests rp path)) (\<lambda>tests. Inr (filter rr_is_authoritative tests))"

definition context_source :: "bool \<Rightarrow> bool \<Rightarrow> bool \<Rightarrow> string" where
  "context_source owner has_references has_related_tests =
     join_with '' + '' ([''symbol''] @ (if owner then [''owner''] else []) @ (if has_references then [''references''] else []) @
       (if has_related_tests then [''related_tests''] else []))"

definition merged_provenance :: "provenance list \<Rightarrow> provenance" where
  "merged_provenance groups = append_new [] (concat groups)"

definition reference_preview_limit :: nat where "reference_preview_limit = 3"

definition related_test_preview_limit :: nat where "related_test_preview_limit = 2"

definition build_hit :: "code_environment \<Rightarrow> repository \<Rightarrow> entity_info \<Rightarrow> symbol_hit result" where
  "build_hit code rp s =
     ebind (lookup_owner rp (ei_repository_rel_path s)) (\<lambda>owner.
     ebind (definition_anchor code rp s) (\<lambda>anchor.
     ebind (external_references code rp s) (\<lambda>references.
     ebind (lookup_tests rp (ei_repository_rel_path s)) (\<lambda>tests.
       validate_symbol_hit
         \<lparr>sh_symbol = s, sh_owner = owner, sh_reference_count = int (length references),
          sh_reference_preview = take reference_preview_limit references,
          sh_related_tests_preview = take related_test_preview_limit tests, sh_definition_anchor = anchor,
          sh_context_source = context_source (owner \<noteq> None) (references \<noteq> []) (tests \<noteq> []),
          sh_provenance = merged_provenance
            ([gn_provenance s, case anchor of None \<Rightarrow> [] | Some l \<Rightarrow> cl_provenance l] @
             map cl_provenance references @ map rr_provenance tests)\<rparr>))))"

section \<open>Ranking\<close>

definition is_exact_name_match :: "string \<Rightarrow> string \<Rightarrow> bool \<Rightarrow> bool" where
  "is_exact_name_match symbol_name query case_sensitive =
     (if CHR ''*'' \<in> set query \<or> CHR ''?'' \<in> set query then False
      else if case_sensitive then symbol_name = query else casefold symbol_name = casefold query)"

definition rank_key :: "string \<Rightarrow> bool \<Rightarrow> symbol_hit \<Rightarrow> int \<times> int \<times> int \<times> string \<times> int \<times> int \<times> string" where
  "rank_key query case_sensitive h =
     (- of_bool (is_exact_name_match (gn_name (sh_symbol h)) query case_sensitive), - of_bool (0 < sh_reference_count h),
      - of_bool (sh_related_tests_preview h \<noteq> []), ei_repository_rel_path (sh_symbol h),
      or_default (10 ^ 9) (ei_line_start (sh_symbol h)), or_default (10 ^ 9) (ei_column_start (sh_symbol h)), gn_id (sh_symbol h))"

definition find_symbols :: "code_environment \<Rightarrow> repository \<Rightarrow> string \<Rightarrow> bool \<Rightarrow> symbol_hit list result" where
  "find_symbols code rp query case_sensitive =
     ebind (get_symbol code rp query case_sensitive) (\<lambda>symbols.
     ebind (mapE (build_hit code rp) symbols) (\<lambda>hits.
       Inr (sort_key (rank_key query case_sensitive) hits)))"

section \<open>What a lookup returns\<close>

lemma build_hit_Inr:
  assumes "build_hit code rp s = Inr h"
  shows "\<exists>references tests. external_references code rp s = Inr references \<and> lookup_tests rp (ei_repository_rel_path s) = Inr tests \<and>
    lookup_owner rp (ei_repository_rel_path s) = Inr (sh_owner h) \<and> definition_anchor code rp s = Inr (sh_definition_anchor h) \<and>
    sh_symbol h = s \<and> sh_reference_count h = int (length references) \<and> sh_reference_preview h = take 3 references \<and>
    sh_related_tests_preview h = take 2 tests \<and>
    sh_provenance h = merged_provenance ([gn_provenance s, case sh_definition_anchor h of None \<Rightarrow> [] | Some l \<Rightarrow> cl_provenance l] @
      map cl_provenance references @ map rr_provenance tests) \<and>
    (sh_reference_count h > 0 \<or> sh_definition_anchor h \<noteq> None \<longrightarrow> SK_LSP \<in> pe_source_kind ` set (sh_provenance h))"
  using assms
  by (auto simp: build_hit_def validate_symbol_hit_def ebind_Inr_iff reference_preview_limit_def related_test_preview_limit_def check_def
      split: if_splits)

text \<open>What a hit says of its symbol.\<close>

definition describes :: "code_environment \<Rightarrow> repository \<Rightarrow> symbol_hit \<Rightarrow> bool" where
  "describes code rp h \<longleftrightarrow>
     (\<exists>references. external_references code rp (sh_symbol h) = Inr references \<and> sh_reference_count h = int (length references) \<and>
        sh_reference_preview h = take 3 references) \<and>
     (\<forall>l\<in>set (sh_reference_preview h). cl_repository_rel_path l \<noteq> ei_repository_rel_path (sh_symbol h) \<and>
        set (cl_provenance l) \<subseteq> set (sh_provenance h)) \<and>
     (\<forall>t\<in>set (sh_related_tests_preview h). rr_is_authoritative t) \<and>
     set (gn_provenance (sh_symbol h)) \<subseteq> set (sh_provenance h) \<and> distinct (sh_provenance h) \<and>
     (0 < sh_reference_count h \<or> sh_definition_anchor h \<noteq> None \<longrightarrow> SK_LSP \<in> pe_source_kind ` set (sh_provenance h))"

lemma build_hit_describes:
  assumes "build_hit code rp s = Inr h"
  shows "sh_symbol h = s \<and> describes code rp h"
proof -
  from build_hit_Inr [OF assms] obtain references tests where h: "external_references code rp s = Inr references"
      "lookup_tests rp (ei_repository_rel_path s) = Inr tests" "sh_symbol h = s" "sh_reference_count h = int (length references)"
      "sh_reference_preview h = take 3 references" "sh_related_tests_preview h = take 2 tests"
    and p: "sh_provenance h = merged_provenance ([gn_provenance s, case sh_definition_anchor h of None \<Rightarrow> [] | Some l \<Rightarrow> cl_provenance l] @
      map cl_provenance references @ map rr_provenance tests)"
    and lsp: "sh_reference_count h > 0 \<or> sh_definition_anchor h \<noteq> None \<longrightarrow> SK_LSP \<in> pe_source_kind ` set (sh_provenance h)"
    by blast
  have "\<forall>l\<in>set references. cl_repository_rel_path l \<noteq> ei_repository_rel_path s"
    using h(1) by (auto simp: external_references_def ebind_Inr_iff)
  moreover have "\<forall>t\<in>set tests. rr_is_authoritative t" using h(2) by (auto simp: lookup_tests_def ebind_Inr_iff)
  moreover have "set (gn_provenance s) \<subseteq> set (sh_provenance h)" "\<forall>l\<in>set references. set (cl_provenance l) \<subseteq> set (sh_provenance h)"
    "distinct (sh_provenance h)"
    by (auto simp: p merged_provenance_def distinct_append_new)
  ultimately show ?thesis using h lsp by (auto simp: describes_def dest: in_set_takeD)
qed

lemma exact_before_inexact:
  assumes "rank_key query cs h \<le> rank_key query cs g" and "is_exact_name_match (gn_name (sh_symbol g)) query cs"
  shows "is_exact_name_match (gn_name (sh_symbol h)) query cs"
proof (rule ccontr)
  assume "\<not> is_exact_name_match (gn_name (sh_symbol h)) query cs"
  moreover have "fst (rank_key query cs h) \<le> fst (rank_key query cs g)" using assms(1) by (auto simp: less_eq_prod_def)
  ultimately show False using assms(2) by (simp add: rank_key_def)
qed

text \<open>
  Looking up a name gives one hit for each symbol the providers find, in rank order, so every exact match
  comes before every other hit; each hit counts exactly the references in other files, shows the first
  three of them and only authoritative tests, carries the provenance of the symbol, and LSP provenance when
  it shows a definition or counts a reference.
\<close>

theorem symbol_lookup_ranked:
  assumes "find_symbols code rp query case_sensitive = Inr hits"
  shows "\<exists>symbols. get_symbol code rp query case_sensitive = Inr symbols \<and> mset (map sh_symbol hits) = mset symbols \<and>
    (\<forall>h\<in>set hits. describes code rp h) \<and> sorted (map (rank_key query case_sensitive) hits) \<and>
    (\<forall>i j. i < j \<and> j < length hits \<and> is_exact_name_match (gn_name (sh_symbol (hits ! j))) query case_sensitive \<longrightarrow>
       is_exact_name_match (gn_name (sh_symbol (hits ! i))) query case_sensitive)"
proof -
  from assms obtain symbols built where symbols: "get_symbol code rp query case_sensitive = Inr symbols"
    and built: "mapE (build_hit code rp) symbols = Inr built" and hits: "hits = sort_key (rank_key query case_sensitive) built"
    by (auto simp: find_symbols_def ebind_Inr_iff)
  have "list_all2 (\<lambda>s h. build_hit code rp s = Inr h) symbols built" using built by (simp add: mapE_Inr_iff)
  then have "map sh_symbol built = symbols \<and> (\<forall>h\<in>set built. describes code rp h)"
    by (induction rule: list_all2_induct) (auto dest: build_hit_describes)
  moreover have "mset hits = mset built" by (simp add: hits)
  then have "mset (map sh_symbol hits) = mset (map sh_symbol built)" "set hits = set built"
    by (simp add: mset_map) (metis \<open>mset hits = mset built\<close> mset_eq_setD)
  ultimately have "mset (map sh_symbol hits) = mset symbols" "\<forall>h\<in>set hits. describes code rp h" by auto
  moreover have sorted: "sorted (map (rank_key query case_sensitive) hits)" by (simp add: hits)
  moreover have "is_exact_name_match (gn_name (sh_symbol (hits ! i))) query case_sensitive"
    if "i < j" "j < length hits" "is_exact_name_match (gn_name (sh_symbol (hits ! j))) query case_sensitive" for i j
  proof -
    have "map (rank_key query case_sensitive) hits ! i \<le> map (rank_key query case_sensitive) hits ! j"
      using sorted that by (intro sorted_nth_mono) auto
    then show ?thesis using exact_before_inexact that by auto
  qed
  ultimately show ?thesis using symbols by blast
qed

theorem symbol_lookup_ranked_witness:
  "\<exists>h. find_symbols (\<lambda>p. sample_answers) code_sample_repository ''Queue'' False = Inr [h] \<and> describes (\<lambda>p. sample_answers) code_sample_repository h"
proof -
  have "case find_symbols (\<lambda>p. sample_answers) code_sample_repository ''Queue'' False of Inl e \<Rightarrow> False | Inr hits \<Rightarrow> length hits = 1" by code_simp
  then obtain h where run: "find_symbols (\<lambda>p. sample_answers) code_sample_repository ''Queue'' False = Inr [h]"
    by (auto split: sum.splits simp: length_Suc_conv)
  from symbol_lookup_ranked [OF run] show ?thesis using run by auto
qed

end
