(* ===== verification/Change_Impact.thy ===== *)
theory Change_Impact
  imports Contexts Truth_Coverage Change_Evidence
begin

text \<open>
  The impact of a change (\<open>core/impact_target_resolution.py\<close>, \<open>core/change_impact_service.py\<close>,
  \<open>ChangeImpact\<close> of \<open>core/change_models.py\<close>). The bundle of facts that a resolved file target carries is
  named by its path; its cached properties are the \<open>fact_\<dots>\<close> functions of \<open>Contexts\<close>.
\<close>

section \<open>Resolving the target\<close>

record impact_target =
  it_target_kind :: string
  it_owner :: owned_node_info
  it_evidence_path :: "string option"
  it_owner_primary_component_id :: "string option"
  it_file_primary_component_id :: "string option"
  it_file_context :: "file_context option"
  it_facts_path :: "string option"
  it_symbol_context :: "symbol_context option"
  it_reference_locations :: "code_location list"
  it_related_tests :: "resolved_related_test list"

definition primary_id_for_owner :: "repository \<Rightarrow> string \<Rightarrow> (string option) result" where
  "primary_id_for_owner rp owner_id =
     ebind (build_ownership_index rp) (\<lambda>ox.
       primary_component_id_for_owner (owner_info ox) (files_for_owner ox) (get_components rp) owner_id)"

definition primary_id_for_file :: "repository \<Rightarrow> string \<Rightarrow> string \<Rightarrow> (string option) result" where
  "primary_id_for_file rp path owner_id =
     ebind (build_ownership_index rp) (\<lambda>ox.
       primary_component_id_for_file (owner_info ox) (files_for_owner ox) (get_components rp) path owner_id)"

definition resolve_symbol_impact :: "code_environment \<Rightarrow> repository \<Rightarrow> string \<Rightarrow> int \<Rightarrow> int \<Rightarrow> impact_target result" where
  "resolve_symbol_impact code rp symbol_id reference_limit test_limit =
     ebind (describe_symbol_context code rp symbol_id reference_limit test_limit) (\<lambda>yx.
     let owner = yx_owner yx; path = ei_repository_rel_path (yx_symbol yx) in
     ebind (primary_id_for_owner rp (oi_id owner)) (\<lambda>owner_primary.
     ebind (primary_id_for_file rp path (oi_id owner)) (\<lambda>file_primary.
     ebind (fact_related_tests rp path) (\<lambda>tests.
       Inr \<lparr>it_target_kind = ''symbol'', it_owner = owner, it_evidence_path = Some path,
            it_owner_primary_component_id = owner_primary, it_file_primary_component_id = file_primary, it_file_context = None,
            it_facts_path = None, it_symbol_context = Some yx,
            it_reference_locations = py_take reference_limit (yx_references_preview yx),
            it_related_tests = py_take test_limit tests\<rparr>))))"

definition resolve_file_impact ::
  "code_environment \<Rightarrow> repository \<Rightarrow> string \<Rightarrow> evidence_tier \<Rightarrow> int \<Rightarrow> int \<Rightarrow> bool \<Rightarrow> bool \<Rightarrow> impact_target result" where
  "resolve_file_impact code rp path tier reference_limit test_limit include_references include_implementations =
     ebind (normalize_repository_relative_path path) (\<lambda>n.
     ebind (normalize_repository_relative_path n) (\<lambda>m.
     ebind (get_file_owner rp m) (\<lambda>w.
     ebind (build_file_context code rp m tier 20 test_limit True include_implementations None) (\<lambda>fx.
     ebind (if include_references
            then ebind (fact_reference_sites code rp m tier) (\<lambda>ls. Inr (py_take reference_limit ls)) else Inr []) (\<lambda>references.
     ebind (fact_related_tests rp m) (\<lambda>tests.
     let owner = fx_owner fx; evidence_path = fi_repository_rel_path (fo_file_info w) in
     ebind (primary_id_for_owner rp (oi_id owner)) (\<lambda>owner_primary.
     ebind (primary_id_for_file rp evidence_path (oi_id owner)) (\<lambda>file_primary.
       Inr \<lparr>it_target_kind = ''file'', it_owner = owner, it_evidence_path = Some evidence_path,
            it_owner_primary_component_id = owner_primary, it_file_primary_component_id = file_primary, it_file_context = Some fx,
            it_facts_path = Some m, it_symbol_context = None, it_reference_locations = references,
            it_related_tests = py_take test_limit tests\<rparr>))))))))"

definition resolve_owner_impact :: "code_environment \<Rightarrow> repository \<Rightarrow> string \<Rightarrow> int \<Rightarrow> int \<Rightarrow> impact_target result" where
  "resolve_owner_impact code rp owner_id reference_limit test_limit =
     ebind (resolve_owner rp owner_id) (\<lambda>owner.
     ebind (no_answer (ebind (references_for_owner code rp owner_id (Some reference_limit) (Some (max 10 reference_limit))) (\<lambda>ls.
            Inr (py_take reference_limit ls)))) (\<lambda>references.
     ebind (primary_id_for_owner rp owner_id) (\<lambda>owner_primary.
     ebind (ebind (mk_related_test_target None (Some owner_id)) (get_related_tests rp)) (\<lambda>tests.
       Inr \<lparr>it_target_kind = ''owner'', it_owner = owner, it_evidence_path = None,
            it_owner_primary_component_id = owner_primary, it_file_primary_component_id = None, it_file_context = None,
            it_facts_path = None, it_symbol_context = None, it_reference_locations = references,
            it_related_tests = py_take test_limit tests\<rparr>))))"

definition resolve_impact_target ::
  "code_environment \<Rightarrow> repository \<Rightarrow> change_target \<Rightarrow> int \<Rightarrow> int \<Rightarrow> bool \<Rightarrow> bool \<Rightarrow> evidence_tier \<Rightarrow> impact_target result" where
  "resolve_impact_target code rp t reference_limit test_limit include_references include_implementations tier =
     (case (ct_symbol_id t, ct_repository_rel_path t, ct_owner_id t) of
        (Some i, _, _) \<Rightarrow> resolve_symbol_impact code rp i reference_limit test_limit
      | (None, Some path, _) \<Rightarrow>
          resolve_file_impact code rp path tier reference_limit test_limit include_references include_implementations
      | (None, None, None) \<Rightarrow> Inl (ValueErr ''target must include `symbol_id`, `repository_rel_path`, or `owner_id`'')
      | (None, None, Some i) \<Rightarrow> resolve_owner_impact code rp i reference_limit test_limit)"

definition resolve_component :: "repository \<Rightarrow> string option \<Rightarrow> (component option) result" where
  "resolve_component rp component_id =
     (case component_id of
        None \<Rightarrow> Inr None
      | Some i \<Rightarrow> ebind (of_option (ValueErr (''dependent component id could not be resolved: '' @ quoted i)) (components_by_id rp i))
                  (\<lambda>c. Inr (Some c)))"

section \<open>The facts of a change\<close>

definition primary_component_context ::
  "repository \<Rightarrow> component option \<Rightarrow> int \<Rightarrow> int \<Rightarrow> (component_context option) result" where
  "primary_component_context rp primary dependent_limit test_limit =
     (case primary of
        None \<Rightarrow> Inr None
      | Some c \<Rightarrow> ebind (describe_components rp [gn_id c] 20 20 dependent_limit test_limit) (\<lambda>cs. Inr (Some (hd cs))))"

definition impact_dependent_components :: "repository \<Rightarrow> component option \<Rightarrow> int \<Rightarrow> component list result" where
  "impact_dependent_components rp primary dependent_limit =
     (case primary of
        None \<Rightarrow> Inr []
      | Some c \<Rightarrow>
          ebind (get_component_dependents rp (gn_id c)) (\<lambda>ids.
            mapE (\<lambda>i. of_option (ValueErr (''dependent component id could not be resolved: '' @ quoted i)) (components_by_id rp i))
              (py_take dependent_limit ids)))"

text \<open>The facts of the file named by the bundle, or of the evidence path, or none; both are read with the same functions.\<close>

definition from_facts :: "impact_target \<Rightarrow> (string \<Rightarrow> 'a list result) \<Rightarrow> (string \<Rightarrow> 'a list result) \<Rightarrow> 'a list result" where
  "from_facts t of_bundle ask =
     (case it_evidence_path t of
        None \<Rightarrow> Inr []
      | Some path \<Rightarrow> (case it_facts_path t of Some p \<Rightarrow> of_bundle p | None \<Rightarrow> ask path))"

definition impact_file_relationships ::
  "code_environment \<Rightarrow> repository \<Rightarrow> impact_target \<Rightarrow> evidence_tier \<Rightarrow> (file_relationship list \<times> file_relationship list) result" where
  "impact_file_relationships code rp t tier =
     ebind (from_facts t (\<lambda>p. fact_dependency_files code rp p tier) (\<lambda>p. get_file_relationships code rp p (Some IMPORTS) tier)) (\<lambda>ds.
     ebind (from_facts t (\<lambda>p. fact_dependent_files code rp p tier) (\<lambda>p. get_file_relationships code rp p (Some IMPORTED_BY) tier)) (\<lambda>us.
       Inr (ds, us)))"

definition impact_render_edges ::
  "code_environment \<Rightarrow> repository \<Rightarrow> impact_target \<Rightarrow> (render_edge list \<times> render_edge list) result" where
  "impact_render_edges code rp t =
     ebind (from_facts t (fact_render_children code rp) (\<lambda>p. get_file_render_edges code rp p (Some RENDERS))) (\<lambda>cs.
     ebind (from_facts t (fact_render_parents code rp) (\<lambda>p. get_file_render_edges code rp p (Some RENDERED_BY))) (\<lambda>ps.
       Inr (cs, ps)))"

definition impact_invariant_findings ::
  "code_environment \<Rightarrow> repository \<Rightarrow> impact_target \<Rightarrow> evidence_tier \<Rightarrow> invariant_finding list result" where
  "impact_invariant_findings code rp t tier =
     from_facts t (\<lambda>p. fact_invariant_findings code rp p tier) (get_file_invariant_findings code rp)"

definition impact_local_flow_edges ::
  "code_environment \<Rightarrow> repository \<Rightarrow> impact_target \<Rightarrow> evidence_tier \<Rightarrow> static_flow_edge list result" where
  "impact_local_flow_edges code rp t tier =
     from_facts t (\<lambda>p. fact_local_flow_edges code rp p tier) (get_file_local_flow_edges code rp)"

definition impact_implementation_locations ::
  "code_environment \<Rightarrow> repository \<Rightarrow> impact_target \<Rightarrow> evidence_tier \<Rightarrow> code_location list result" where
  "impact_implementation_locations code rp t tier =
     from_facts t (\<lambda>p. fact_implementation_locations code rp p tier) (get_file_implementation_locations code rp)"

text \<open>\<open>resolved.setdefault(component.id, component)\<close>; a location without a known owner is skipped.\<close>

definition implementation_component :: "repository \<Rightarrow> code_location \<Rightarrow> component list result" where
  "implementation_component rp l =
     (case get_file_owner rp (cl_repository_rel_path l) of
        Inl (ValueErr m) \<Rightarrow> Inr []
      | Inl e \<Rightarrow> Inl e
      | Inr w \<Rightarrow> Inr (if oi_kind (fo_owner w) \<noteq> ''component'' then [] else
          case components_by_id rp (oi_id (fo_owner w)) of None \<Rightarrow> [] | Some c \<Rightarrow> [c]))"

definition impact_implementation_components :: "repository \<Rightarrow> code_location list \<Rightarrow> component list result" where
  "impact_implementation_components rp ls =
     ebind (mapE (implementation_component rp) ls) (\<lambda>css.
       Inr (sort_key gn_id (fold (\<lambda>c cs. if gn_id c \<in> gn_id ` set cs then cs else cs @ [c]) (concat css) [])))"

definition impact_dependent_edges :: "repository \<Rightarrow> component option \<Rightarrow> component list \<Rightarrow> component_dependency_edge list" where
  "impact_dependent_edges rp primary dependents =
     (case primary of
        None \<Rightarrow> []
      | Some c \<Rightarrow> if dependents = [] then [] else
          filter (\<lambda>e. ce_target_kind e = ''component'' \<and> ce_target_id e = gn_id c \<and>
            ce_source_component_id e \<in> gn_id ` set dependents) (all_dependency_edges rp))"

definition impact_target_value :: "impact_target \<Rightarrow> string result" where
  "impact_target_value t =
     (if it_target_kind t = ''symbol''
      then of_option (ValueErr ''symbol target requires symbol_context'') (map_option (\<lambda>yx. gn_id (yx_symbol yx)) (it_symbol_context t))
      else if it_target_kind t = ''file'' then of_option (ValueErr ''file target requires evidence_path'') (it_evidence_path t)
      else Inr (oi_id (it_owner t)))"

definition test_impacts :: "resolved_related_test list \<Rightarrow> test_impact list result" where
  "test_impacts tests =
     mapE (\<lambda>t. validate_test_impact
       \<lparr>tim_related_test = t,
        tim_reason = (if rm_owner_id (rr_match t) \<noteq> None then ''same_owner''
                      else if rm_repository_rel_path (rr_match t) \<noteq> None then ''same_file_context'' else ''related_test_scope''),
        tim_provenance = rr_provenance t\<rparr>) tests"

definition impact_runner :: "repository \<Rightarrow> string \<Rightarrow> runner result" where
  "impact_runner rp i =
     of_option (ValueErr (''runner id could not be resolved: '' @ quoted i)) (map_of (rev (map (\<lambda>r. (gn_id r, r)) (get_runners rp))) i)"

definition owned_runner_impact :: "runner \<Rightarrow> string \<Rightarrow> string \<Rightarrow> runner_impact result" where
  "owned_runner_impact r reason summary =
     ebind (merge_provenance_paths (gn_provenance r) 10) (\<lambda>paths.
     ebind (ownership_provenance summary paths) (\<lambda>e.
       validate_runner_impact \<lparr>rim_runner = r, rim_reason = reason, rim_provenance = [e]\<rparr>))"

definition related_runners_for_component :: "repository \<Rightarrow> component option \<Rightarrow> int \<Rightarrow> runner_impact list result" where
  "related_runners_for_component rp primary runner_limit =
     (case primary of
        None \<Rightarrow> Inr []
      | Some c \<Rightarrow>
          ebind (build_ownership_index rp) (\<lambda>ox.
          ebind (files_for_owner ox (gn_id c)) (\<lambda>owned_files.
          ebind (related_runner_ids_for_component (files_for_owner ox) (get_runners rp) c owned_files) (\<lambda>ids.
            mapE (\<lambda>i. ebind (impact_runner rp i) (\<lambda>r.
              owned_runner_impact r ''same_component''
                (''runner '' @ quoted (gn_id r) @ '' linked to component '' @ quoted (gn_id c) @ '' through ownership context'')))
              (py_take runner_limit ids)))))"

definition related_runners_for_owner :: "repository \<Rightarrow> string \<Rightarrow> component option \<Rightarrow> int \<Rightarrow> runner_impact list result" where
  "related_runners_for_owner rp owner_id primary runner_limit =
     ebind (resolve_owner rp owner_id) (\<lambda>owner.
       if oi_kind owner = ''runner''
       then ebind (impact_runner rp owner_id) (\<lambda>r.
            ebind (owned_runner_impact r ''same_owner'' (''runner impact anchored directly to runner owner '' @ quoted owner_id)) (\<lambda>i. Inr [i]))
       else if oi_kind owner \<in> {''package_manager'', ''test_definition''} then Inr []
       else related_runners_for_component rp primary runner_limit)"

definition quality_gate_for :: "bool \<Rightarrow> string \<Rightarrow> string \<Rightarrow> string list \<Rightarrow> string \<Rightarrow> quality_gate result" where
  "quality_gate_for applies reason what paths provider_id =
     ebind (derived_summary_provenance SK_QUALITY_TOOL (Some provider_id)
       (''quality applicability derived for '' @ what @ '' through provider '' @ quoted provider_id) paths) (\<lambda>e.
       validate_quality_gate
         \<lparr>qg_provider_id = provider_id, qg_provider_roles = [''quality''], qg_applies = applies, qg_reason = reason, qg_provenance = [e]\<rparr>)"

definition quality_gates_for_path :: "repository \<Rightarrow> string \<Rightarrow> string list option \<Rightarrow> quality_gate list result" where
  "quality_gates_for_path rp path provider_ids =
     ebind (case provider_ids of Some is \<Rightarrow> Inr is | None \<Rightarrow> provider_ids_for_files rp [path]) (\<lambda>ids.
       mapE (quality_gate_for True ''quality provider applies to the target file through repository quality support'' (quoted path) [path]) ids)"

definition quality_gates_for_owner :: "repository \<Rightarrow> string \<Rightarrow> quality_gate list result" where
  "quality_gates_for_owner rp owner_id =
     ebind (list_files_by_owner rp owner_id) (\<lambda>owned_files.
     ebind (provider_ids_for_owner rp owner_id) (\<lambda>ids.
       mapE (quality_gate_for (owned_files \<noteq> [])
         (if owned_files \<noteq> [] then ''quality provider applies through files owned by the target owner''
          else ''quality provider does not apply because the owner has no owned files'')
         (''owner '' @ quoted owner_id) (map fi_repository_rel_path (take 10 owned_files))) ids))"

section \<open>The impact\<close>

definition first_tool :: "provenance list \<Rightarrow> string option" where
  "first_tool ps = (case find (\<lambda>e. pe_source_tool e \<noteq> None) (concat ps) of None \<Rightarrow> None | Some e \<Rightarrow> pe_source_tool e)"

definition script_suffixes :: "string list" where
  "script_suffixes = [''.ts'', ''.tsx'', ''.js'', ''.jsx'', ''.mts'', ''.cts'', ''.mjs'', ''.cjs'']"

definition relationship_source_tool :: "file_relationship list \<Rightarrow> string option \<Rightarrow> string option" where
  "relationship_source_tool relationships evidence_path =
     (case (first_tool (map fr_provenance relationships), evidence_path) of
        (Some t, _) \<Rightarrow> Some t
      | (None, None) \<Rightarrow> None
      | (None, Some path) \<Rightarrow>
          if endswith (lower path) ''.py'' then Some ''basedpyright''
          else if \<exists>x\<in>set script_suffixes. endswith (lower path) x then Some ''typescript'' else None)"

text \<open>\<open>_render_source_tool\<close> and \<open>_static_analysis_source_tool\<close>, over the provenance of the items.\<close>

definition script_source_tool :: "provenance list \<Rightarrow> string option \<Rightarrow> string option" where
  "script_source_tool ps evidence_path =
     (case (first_tool ps, evidence_path) of
        (Some t, _) \<Rightarrow> Some t
      | (None, None) \<Rightarrow> None
      | (None, Some path) \<Rightarrow> if \<exists>x\<in>set script_suffixes. endswith (lower path) x then Some ''typescript'' else None)"

text \<open>\<open>paths = [evidence_path]\<close>, then each new path of the items; the first ten.\<close>

definition anchored_paths :: "string option \<Rightarrow> string list \<Rightarrow> string list" where
  "anchored_paths evidence_path paths = take 10 (append_new (option_list evidence_path) paths)"

definition change_provenance :: "string \<Rightarrow> change_facts \<Rightarrow> string option \<Rightarrow> provenance result" where
  "change_provenance owner_id cf evidence_path =
     (let relationships = cf_dependency_files cf @ cf_dependent_files cf;
          renders = cf_render_children cf @ cf_render_parents cf;
          findings = cf_invariant_findings cf; flows = cf_local_flow_edges cf;
          related = (\<lambda>ps summary. when_any (ps \<noteq> []) (summarize_related_provenance (concat ps) summary)) in
     ebind (mapE (\<lambda>part. part)
       [when_any True (ownership_provenance (''change analysis anchored to owner '' @ quoted owner_id) (option_list evidence_path)),
        when_any (cf_dependent_components cf \<noteq> [])
          (ebind (merge_provenance_paths (concat (map gn_provenance (cf_dependent_components cf))) 10) (\<lambda>paths.
           derived_summary_provenance SK_MANIFEST None
             (''dependent component impact derived from '' @ str_nat (length (cf_dependent_components cf)) @ '' dependency edges'') paths)),
        when_any (relationships \<noteq> []) (derived_summary_provenance SK_DEPENDENCY_GRAPH (relationship_source_tool relationships evidence_path)
          ''change analysis includes deterministic file relationship evidence''
          (anchored_paths evidence_path (map fr_repository_rel_path relationships))),
        when_any (renders \<noteq> []) (derived_summary_provenance SK_DEPENDENCY_GRAPH (script_source_tool (map rd_provenance renders) evidence_path)
          ''change analysis includes deterministic JSX render-edge evidence''
          (anchored_paths evidence_path (map rd_repository_rel_path renders))),
        when_any (findings \<noteq> [] \<or> flows \<noteq> []) (derived_summary_provenance SK_DEPENDENCY_GRAPH
          (script_source_tool (map if_provenance findings @ map sf_provenance flows) evidence_path)
          ''change analysis includes deterministic TypeScript static-analysis evidence''
          (anchored_paths evidence_path
            (concat (map (\<lambda>f. if_repository_rel_path f # map as_repository_rel_path (if_producer_sites f)) findings) @
             map sf_repository_rel_path flows))),
        when_any (cf_implementation_locations cf \<noteq> [] \<or> cf_implementation_components cf \<noteq> [])
          (derived_summary_provenance SK_LSP (Some ''gopls'') ''change analysis includes deterministic implementation candidate evidence''
            (anchored_paths evidence_path (map cl_repository_rel_path (cf_implementation_locations cf)))),
        related (map cl_provenance (cf_reference_locations cf)) ''reference impact derived from LSP definition/reference results'',
        related (map tim_provenance (cf_related_tests cf)) ''related test impact derived from discovered test provenance'',
        related (map rim_provenance (cf_related_runners cf)) ''related runner impact derived from ownership and component context'',
        related (map qg_provenance (cf_quality_gates cf)) ''quality gate applicability derived from repository quality providers'']) (\<lambda>parts.
       Inr (concat parts)))"

record change_impact =
  xi_target_kind :: string
  xi_owner :: owned_node_info
  xi_primary_component :: "component option"
  xi_component_context :: "component_context option"
  xi_file_context :: "file_context option"
  xi_symbol_context :: "symbol_context option"
  xi_facts :: change_facts
  xi_evidence :: change_evidence_preview
  xi_truth_coverage :: truth_summary
  xi_provenance :: provenance

definition validate_change_impact :: "change_impact \<Rightarrow> change_impact result" where
  "validate_change_impact x =
     ebind (check (xi_target_kind x \<in> {''symbol'', ''file'', ''owner''}) (ValueErr (''unsupported target_kind: '' @ quoted (xi_target_kind x)))) (\<lambda>_.
     ebind (check (xi_provenance x \<noteq> []) (ValueErr ''provenance must not be empty'')) (\<lambda>_.
     ebind (check (\<not> (xi_target_kind x = ''symbol'' \<and> xi_symbol_context x = None)) (ValueErr ''symbol target requires symbol_context'')) (\<lambda>_.
     ebind (check (\<not> (xi_target_kind x = ''owner'' \<and> xi_symbol_context x \<noteq> None)) (ValueErr ''owner target must not include symbol_context'')) (\<lambda>_.
     ebind (check (\<not> (xi_target_kind x = ''owner'' \<and> xi_file_context x \<noteq> None)) (ValueErr ''owner target must not include file_context'')) (\<lambda>_.
     ebind (check (case (xi_primary_component x, xi_component_context x) of
           (Some c, Some kx) \<Rightarrow> gn_id c = gn_id (kx_component kx) | _ \<Rightarrow> True)
       (ValueErr ''primary_component and component_context must reference the same component'')) (\<lambda>_. Inr x))))))"

text \<open>The arguments of \<open>change_truth_coverage_from_parts\<close>, by their provenance.\<close>

definition coverage_parts ::
  "impact_target \<Rightarrow> component option \<Rightarrow> component_context option \<Rightarrow> change_facts \<Rightarrow> change_parts" where
  "coverage_parts t primary kx cf =
     \<lparr>cp_target_kind = it_target_kind t, cp_owner_id = oi_id (it_owner t), cp_evidence_path = it_evidence_path t,
      cp_primary_component = map_option gn_provenance primary, cp_component_context = map_option kx_provenance kx,
      cp_dependent_components = map gn_provenance (cf_dependent_components cf),
      cp_file_context = map_option (\<lambda>fx. (fi_repository_rel_path (fx_file_info fx), fx_provenance fx)) (it_file_context t),
      cp_symbol_context = map_option (\<lambda>yx. (gn_id (yx_symbol yx), yx_provenance yx)) (it_symbol_context t),
      cp_reference_locations = map cl_provenance (cf_reference_locations cf),
      cp_file_relationships = map fr_provenance (cf_dependency_files cf @ cf_dependent_files cf),
      cp_render_edges = map rd_provenance (cf_render_children cf @ cf_render_parents cf),
      cp_findings_and_flows = map if_provenance (cf_invariant_findings cf) @ map sf_provenance (cf_local_flow_edges cf),
      cp_implementations = map cl_provenance (cf_implementation_locations cf) @ map gn_provenance (cf_implementation_components cf),
      cp_related_tests = map tim_provenance (cf_related_tests cf), cp_quality_gates = map qg_provenance (cf_quality_gates cf),
      cp_related_runners = map rim_provenance (cf_related_runners cf)\<rparr>"

text \<open>The first half of \<open>_analyze_resolved_target\<close>: everything that is looked up.\<close>

definition impact_facts ::
  "code_environment \<Rightarrow> repository \<Rightarrow> impact_target \<Rightarrow> component option \<Rightarrow> int \<Rightarrow> int \<Rightarrow> bool \<Rightarrow> evidence_tier \<Rightarrow> change_facts result" where
  "impact_facts code rp t primary dependent_limit runner_limit include_implementations tier =
     ebind (impact_dependent_components rp primary dependent_limit) (\<lambda>dependents.
     ebind (impact_file_relationships code rp t tier) (\<lambda>(dependency_files, dependent_files).
     ebind (impact_render_edges code rp t) (\<lambda>(render_children, render_parents).
     ebind (if tier = STRUCTURAL then Inr [] else impact_invariant_findings code rp t tier) (\<lambda>findings.
     ebind (if tier = STRUCTURAL then Inr [] else impact_local_flow_edges code rp t tier) (\<lambda>flows.
     ebind (if include_implementations then impact_implementation_locations code rp t tier else Inr []) (\<lambda>implementations.
     ebind (impact_implementation_components rp implementations) (\<lambda>implementation_components.
     ebind (test_impacts (it_related_tests t)) (\<lambda>tests.
     ebind (if it_target_kind t = ''owner'' then related_runners_for_owner rp (oi_id (it_owner t)) primary runner_limit
            else related_runners_for_component rp primary runner_limit) (\<lambda>runners.
     ebind (if it_target_kind t = ''owner'' then quality_gates_for_owner rp (oi_id (it_owner t))
            else case it_evidence_path t of
              None \<Rightarrow> Inl (ValueErr ''file and symbol targets must include evidence_path'')
            | Some path \<Rightarrow>
                ebind (case it_facts_path t of None \<Rightarrow> Inr None | Some p \<Rightarrow> ebind (fact_quality_provider_ids rp p) (\<lambda>ids. Inr (Some ids)))
                  (quality_gates_for_path rp path)) (\<lambda>gates.
       Inr \<lparr>cf_dependency_files = dependency_files, cf_dependent_files = dependent_files, cf_render_children = render_children,
            cf_render_parents = render_parents, cf_invariant_findings = findings, cf_local_flow_edges = flows,
            cf_implementation_locations = implementations, cf_implementation_components = implementation_components,
            cf_dependent_components = dependents, cf_reference_locations = it_reference_locations t, cf_related_tests = tests,
            cf_related_runners = runners, cf_quality_gates = gates\<rparr>))))))))))"

definition analyze_resolved_target ::
  "code_environment \<Rightarrow> repository \<Rightarrow> impact_target \<Rightarrow> string option \<Rightarrow> int \<Rightarrow> int \<Rightarrow> int \<Rightarrow> bool \<Rightarrow> evidence_tier \<Rightarrow> change_impact result" where
  "analyze_resolved_target code rp t primary_id dependent_limit test_limit runner_limit include_implementations tier =
     ebind (resolve_component rp primary_id) (\<lambda>primary.
     ebind (primary_component_context rp primary dependent_limit test_limit) (\<lambda>kx.
     ebind (impact_facts code rp t primary dependent_limit runner_limit include_implementations tier) (\<lambda>cf.
     ebind (impact_target_value t) (\<lambda>target_value.
     ebind (assemble (it_target_kind t) target_value (it_evidence_path t) (it_owner t) primary
       (impact_dependent_edges rp primary (cf_dependent_components cf)) cf) (\<lambda>evidence.
     ebind (change_truth_coverage_from_parts (coverage_parts t primary kx cf)) (\<lambda>coverage.
     ebind (change_provenance (oi_id (it_owner t)) cf (it_evidence_path t)) (\<lambda>p.
       validate_change_impact
         \<lparr>xi_target_kind = it_target_kind t, xi_owner = it_owner t, xi_primary_component = primary, xi_component_context = kx,
          xi_file_context = it_file_context t, xi_symbol_context = it_symbol_context t, xi_facts = cf, xi_evidence = evidence,
          xi_truth_coverage = coverage, xi_provenance = p\<rparr>)))))))"

definition analyze_change ::
  "code_environment \<Rightarrow> repository \<Rightarrow> change_target \<Rightarrow> int \<Rightarrow> int \<Rightarrow> int \<Rightarrow> int \<Rightarrow> bool \<Rightarrow> bool \<Rightarrow> evidence_tier \<Rightarrow> change_impact result" where
  "analyze_change code rp target reference_limit dependent_limit test_limit runner_limit include_references include_implementations tier =
     ebind (resolve_impact_target code rp target reference_limit test_limit (include_references \<and> tier = SEMANTIC)
       (include_implementations \<and> tier = SEMANTIC) tier) (\<lambda>t.
       analyze_resolved_target code rp t
         (if it_target_kind t \<in> {''symbol'', ''file''} then it_file_primary_component_id t else it_owner_primary_component_id t)
         dependent_limit test_limit runner_limit (include_implementations \<and> tier = SEMANTIC) tier)"

section \<open>Dependents have edges\<close>

lemma components_by_id_Some: "components_by_id rp i = Some c \<Longrightarrow> gn_id c = i \<and> c \<in> set (get_components rp)"
  unfolding components_by_id_def by (auto dest: map_of_SomeD)

lemma impact_dependents_Inr:
  assumes "impact_dependent_components rp (Some c) n = Inr ds"
  shows "\<exists>ids. get_component_dependents rp (gn_id c) = Inr ids \<and> map gn_id ds = py_take n ids \<and>
    ids = dependents_for_component (all_dependency_edges rp) (gn_id c)"
proof -
  from assms obtain ids where ids: "get_component_dependents rp (gn_id c) = Inr ids"
    and run: "mapE (\<lambda>i. of_option (ValueErr (''dependent component id could not be resolved: '' @ quoted i)) (components_by_id rp i))
      (py_take n ids) = Inr ds"
    by (auto simp: impact_dependent_components_def ebind_Inr_iff)
  have "map gn_id ds = map (\<lambda>i. i) (py_take n ids)"
    by (rule mapE_images [OF run]) (auto dest: components_by_id_Some)
  moreover have "ids = dependents_for_component (all_dependency_edges rp) (gn_id c)"
    using ids by (auto simp: get_component_dependents_def ebind_Inr_iff)
  ultimately show ?thesis using ids by simp
qed

lemma dependent_has_edge:
  assumes "impact_dependent_components rp (Some c) n = Inr ds" and "d \<in> set ds"
  shows "\<exists>e\<in>set (impact_dependent_edges rp (Some c) ds). ce_target_kind e = ''component'' \<and> ce_target_id e = gn_id c \<and>
    ce_source_component_id e = gn_id d"
proof -
  obtain ids where ids: "map gn_id ds = py_take n ids" "ids = dependents_for_component (all_dependency_edges rp) (gn_id c)"
    using impact_dependents_Inr [OF assms(1)] by blast
  have "gn_id d \<in> set (map gn_id ds)" using assms(2) by simp
  then have "gn_id d \<in> set ids" unfolding ids(1) using py_take_set by fast
  then have "\<exists>e\<in>set (all_dependency_edges rp). ce_target_kind e = ''component'' \<and> ce_target_id e = gn_id c \<and> ce_source_component_id e = gn_id d"
    by (auto simp: ids(2) dependents_for_component_def)
  then show ?thesis using assms(2) by (auto simp: impact_dependent_edges_def)
qed

text \<open>The dictionary of edges by source keeps the last one of each source.\<close>

definition edges_by_source :: "component \<Rightarrow> component_dependency_edge list \<Rightarrow> string \<Rightarrow> component_dependency_edge option" where
  "edges_by_source c edges = map_of (rev (map (\<lambda>e. (ce_source_component_id e, e))
     (filter (\<lambda>e. ce_target_kind e = ''component'' \<and> ce_target_id e = gn_id c) edges)))"

lemma edges_by_source_Some:
  "edges_by_source c edges i = Some e \<Longrightarrow> e \<in> set edges \<and> ce_source_component_id e = i \<and> ce_target_id e = gn_id c"
  by (auto simp: edges_by_source_def dest!: map_of_SomeD)

lemma edges_by_source_None:
  "edges_by_source c edges i = None \<longleftrightarrow>
     \<not> (\<exists>e\<in>set edges. ce_target_kind e = ''component'' \<and> ce_target_id e = gn_id c \<and> ce_source_component_id e = i)"
  by (force simp: edges_by_source_def map_of_eq_None_iff)

text \<open>
  C6. The assembler's error about a dependent component without a dependency edge cannot happen in an analysis:
  the dependents shown are the first ones of the dependency relation, and each gets one evidence edge to the
  primary component, whose provenance is that of a dependency edge between exactly these two components.
\<close>

theorem dependents_always_have_evidence:
  assumes dependents: "impact_dependent_components rp (Some c) n = Inr ds"
    and edges: "\<forall>e\<in>set (all_dependency_edges rp). ce_provenance e \<noteq> [] \<and> \<not> blank (ce_source_component_id e)"
    and c: "\<not> blank (gn_id c)"
  shows "\<exists>es ids. dependent_component_edges (Some c) ds (impact_dependent_edges rp (Some c) ds) = Inr es \<and>
    get_component_dependents rp (gn_id c) = Inr ids \<and> map cg_source_node_id es = py_take n ids \<and>
    (\<forall>e\<in>set es. cg_edge_kind e = COMPONENT_DEPENDENT_COMPONENT \<and> cg_target_node_id e = gn_id c \<and>
       (\<exists>d\<in>set (all_dependency_edges rp). ce_source_component_id d = cg_source_node_id e \<and> ce_target_id d = gn_id c \<and>
          cg_provenance e = ce_provenance d))"
proof -
  let ?edges = "impact_dependent_edges rp (Some c) ds"
  let ?reason = "''dependent component references the primary component through architecture dependency projection''"
  let ?step = "\<lambda>d. case edges_by_source c ?edges (gn_id d) of
      None \<Rightarrow> Inl (ValueErr (''dependent component preview item is missing matching dependency-edge provenance: '' @
        quoted (gn_id d) @ '' -> '' @ quoted (gn_id c)))
    | Some e \<Rightarrow> mk_change_edge ''component'' (gn_id d) ''component'' (gn_id c) COMPONENT_DEPENDENT_COMPONENT ?reason (ce_provenance e)"
  let ?edge = "\<lambda>d. \<lparr>cg_source_node_kind = ''component'', cg_source_node_id = gn_id d, cg_target_node_kind = ''component'',
    cg_target_node_id = gn_id c, cg_edge_kind = COMPONENT_DEPENDENT_COMPONENT, cg_reason = ?reason,
    cg_provenance = ce_provenance (the (edges_by_source c ?edges (gn_id d)))\<rparr>"
  have known: "set ?edges \<subseteq> set (all_dependency_edges rp)" by (auto simp: impact_dependent_edges_def)
  have step: "?step d = Inr (?edge d) \<and> (\<exists>e\<in>set (all_dependency_edges rp). ce_source_component_id e = gn_id d \<and> ce_target_id e = gn_id c \<and>
      cg_provenance (?edge d) = ce_provenance e)" if "d \<in> set ds" for d
  proof -
    have "edges_by_source c ?edges (gn_id d) \<noteq> None"
      unfolding edges_by_source_None using dependent_has_edge [OF dependents that] by simp
    then obtain e where e: "edges_by_source c ?edges (gn_id d) = Some e" by blast
    note s = edges_by_source_Some [OF e]
    have "e \<in> set (all_dependency_edges rp)" using s known by blast
    then have "ce_provenance e \<noteq> []" "\<not> blank (ce_source_component_id e)" using edges by blast+
    then have "ce_provenance e \<noteq> []" "\<not> blank (gn_id d)" using s by simp_all
    then show ?thesis using s known c by (auto simp: e mk_change_edge_Inr py_isspace_def)
  qed
  have "dependent_component_edges (Some c) ds ?edges = mapE ?step ds"
    by (simp add: dependent_component_edges_def edges_by_source_def [symmetric] del: mapE.simps)
  also have "\<dots> = Inr (map ?edge ds)" by (rule mapE_map) (use step in blast)
  finally have run: "dependent_component_edges (Some c) ds ?edges = Inr (map ?edge ds)" .
  obtain ids where "get_component_dependents rp (gn_id c) = Inr ids" "map gn_id ds = py_take n ids"
    using impact_dependents_Inr [OF dependents] by blast
  then show ?thesis using run step by (intro exI [of _ "map ?edge ds"] exI [of _ ids]) (auto simp: comp_def)
qed

section \<open>The parts of an impact agree\<close>

lemma count_confidence_total [simp]: "dc_total (count_confidence c acc) = dc_total acc"
  by (cases c) (simp_all add: count_confidence_def)

lemma add_provenance_item_total: "add_provenance_item p acc = Inr acc' \<Longrightarrow> dc_total acc' = dc_total acc + 1"
  by (auto simp: add_provenance_item_def ebind_Inr_iff Let_def)

lemma add_items_total: "foldE add_provenance_item ps acc = Inr acc' \<Longrightarrow> dc_total acc' = dc_total acc + int (length ps)"
proof (induction ps arbitrary: acc)
  case (Cons p ps)
  then show ?case using add_provenance_item_total by (fastforce simp: ebind_Inr_iff)
qed simp

lemma artifact_total: "artifact_domain domain ps = Inr d \<Longrightarrow> dc_total d = int (length ps)"
  by (auto simp: artifact_domain_def ebind_Inr_iff artifact_rated_def rated_def new_accumulator_def dest!: add_items_total)

lemma finalize_same: "finalize d = Inr d' \<Longrightarrow> d' = d"
  by (auto simp: finalize_def ebind_Inr_iff)

lemma mapE_finalize: "mapE finalize ds = Inr ds' \<Longrightarrow> ds' = ds"
  unfolding mapE_Inr_iff by (induction rule: list_all2_induct) (auto dest: finalize_same)

lemma summarize_domains_domains: "summarize_domains kind i ds = Inr ts \<Longrightarrow> ts_domains ts = ds"
  by (auto simp: summarize_domains_def validate_summary_def ebind_Inr_iff)

definition coverage_sizes :: "change_parts \<Rightarrow> int list" where
  "coverage_sizes cp = map (\<lambda>ps. int (length ps))
     [change_architecture_items cp, change_code_items cp, cp_related_tests cp, cp_quality_gates cp, cp_related_runners cp]"

lemma coverage_totals:
  assumes "change_truth_coverage_from_parts cp = Inr ts"
  shows "map dc_total (ts_domains ts) = coverage_sizes cp"
proof -
  from assms obtain a c t q x i ds
    where run: "artifact_domain TD_ARCHITECTURE (change_architecture_items cp) = Inr a" "artifact_domain TD_CODE (change_code_items cp) = Inr c"
      "artifact_domain TD_TESTS (cp_related_tests cp) = Inr t" "artifact_domain TD_QUALITY (cp_quality_gates cp) = Inr q"
      "artifact_domain TD_ACTIONS (cp_related_runners cp) = Inr x"
    and ds: "mapE finalize [a, c, t, q\<lparr>dc_execution_available := Some (cp_quality_gates cp \<noteq> [])\<rparr>,
        x\<lparr>dc_action_capabilities := [(''tests'', False), (''builds'', False), (''runners'', cp_related_runners cp \<noteq> [])],
          dc_execution_available := Some (cp_related_runners cp \<noteq> [])\<rparr>] = Inr ds"
    and ts: "summarize_domains ''change'' i ds = Inr ts"
    unfolding change_truth_coverage_from_parts_def ebind_Inr_iff by blast
  show ?thesis
    using run [THEN artifact_total] by (simp add: summarize_domains_domains [OF ts] mapE_finalize [OF ds] coverage_sizes_def)
qed

lemma primary_context_Inr:
  assumes "resolve_component rp i = Inr primary" and "primary_component_context rp primary n m = Inr kx"
  shows "(primary = None \<longleftrightarrow> kx = None) \<and> (\<forall>c v. primary = Some c \<and> kx = Some v \<longrightarrow> kx_component v = c)"
proof (cases primary)
  case None
  then show ?thesis using assms(2) by (simp add: primary_component_context_def)
next
  case (Some c)
  then obtain j where j: "components_by_id rp j = Some c"
    using assms(1) by (auto simp: resolve_component_def ebind_Inr_iff split: option.splits)
  then have "components_by_id rp (gn_id c) = Some c" using components_by_id_Some [OF j] by simp
  moreover from assms(2) Some obtain v where v: "describe_component rp 20 20 n m (gn_id c) = Inr v" "kx = Some v"
    by (auto simp: primary_component_context_def describe_components_def ebind_Inr_iff)
  ultimately show ?thesis using Some by (auto simp: describe_component_def ebind_Inr_iff validate_component_context_def)
qed

lemma change_provenance_owner:
  assumes "change_provenance i cf path = Inr p"
  shows "pe_source_kind (hd p) = SK_OWNERSHIP \<and> p \<noteq> []"
proof -
  from assms obtain e rest where "ownership_provenance (''change analysis anchored to owner '' @ quoted i) (option_list path) = Inr e" "p = e # rest"
    unfolding change_provenance_def Let_def by (auto simp: when_any_def ebind_Inr_iff)
  then show ?thesis by (auto simp: ownership_provenance_def dest: mk_provenance_entry_fields)
qed

lemma analyze_change_Inr:
  assumes "analyze_change code rp target rl dl sl ul ir ii tier = Inr x"
  obtains t i v es where
    "resolve_component rp i = Inr (xi_primary_component x)"
    and "primary_component_context rp (xi_primary_component x) dl sl = Inr (xi_component_context x)"
    and "impact_dependent_components rp (xi_primary_component x) dl = Inr (cf_dependent_components (xi_facts x))"
    and "assemble (it_target_kind t) v (it_evidence_path t) (it_owner t) (xi_primary_component x) es (xi_facts x) = Inr (xi_evidence x)"
    and "change_truth_coverage_from_parts (coverage_parts t (xi_primary_component x) (xi_component_context x) (xi_facts x)) = Inr (xi_truth_coverage x)"
    and "change_provenance (oi_id (it_owner t)) (xi_facts x) (it_evidence_path t) = Inr (xi_provenance x)"
    and "it_owner t = xi_owner x" and "it_file_context t = xi_file_context x" and "it_symbol_context t = xi_symbol_context x"
    and "cf_reference_locations (xi_facts x) = it_reference_locations t"
proof -
  from assms obtain t i primary kx cf v evidence coverage p
    where r: "resolve_component rp i = Inr primary" "primary_component_context rp primary dl sl = Inr kx"
      "impact_facts code rp t primary dl ul (ii \<and> tier = SEMANTIC) tier = Inr cf"
      "assemble (it_target_kind t) v (it_evidence_path t) (it_owner t) primary
         (impact_dependent_edges rp primary (cf_dependent_components cf)) cf = Inr evidence"
      "change_truth_coverage_from_parts (coverage_parts t primary kx cf) = Inr coverage"
      "change_provenance (oi_id (it_owner t)) cf (it_evidence_path t) = Inr p"
    and valid: "validate_change_impact
         \<lparr>xi_target_kind = it_target_kind t, xi_owner = it_owner t, xi_primary_component = primary, xi_component_context = kx,
          xi_file_context = it_file_context t, xi_symbol_context = it_symbol_context t, xi_facts = cf, xi_evidence = evidence,
          xi_truth_coverage = coverage, xi_provenance = p\<rparr> = Inr x"
    unfolding analyze_change_def analyze_resolved_target_def ebind_Inr_iff by blast
  have x: "x = \<lparr>xi_target_kind = it_target_kind t, xi_owner = it_owner t, xi_primary_component = primary, xi_component_context = kx,
          xi_file_context = it_file_context t, xi_symbol_context = it_symbol_context t, xi_facts = cf, xi_evidence = evidence,
          xi_truth_coverage = coverage, xi_provenance = p\<rparr>"
    using valid by (auto simp: validate_change_impact_def ebind_Inr_iff)
  have "impact_dependent_components rp primary dl = Inr (cf_dependent_components cf) \<and> cf_reference_locations cf = it_reference_locations t"
    using r(3) by (auto simp: impact_facts_def ebind_Inr_iff split: prod.splits)
  then show ?thesis using r by (intro that [where t = t and i = i and v = v]) (simp_all add: x)
qed


theorem dependents_always_have_evidence_witness:
  "\<exists>c ds es. impact_dependent_components code_sample_repository (Some c) 5 = Inr ds \<and> length ds = 1 \<and>
     dependent_component_edges (Some c) ds (impact_dependent_edges code_sample_repository (Some c) ds) = Inr es \<and>
     map cg_source_node_id es = map gn_id ds"
proof -
  let ?c = "hd (get_components code_sample_repository)"
  have "case impact_dependent_components code_sample_repository (Some ?c) 5 of Inl e \<Rightarrow> False | Inr ds \<Rightarrow> length ds = 1" by code_simp
  then obtain ds where ds: "impact_dependent_components code_sample_repository (Some ?c) 5 = Inr ds" "length ds = 1"
    by (auto split: sum.splits)
  have edges: "\<forall>e\<in>set (all_dependency_edges code_sample_repository). ce_provenance e \<noteq> [] \<and> \<not> blank (ce_source_component_id e)"
    by code_simp
  have "\<not> blank (gn_id ?c)" by code_simp
  from dependents_always_have_evidence [OF ds(1) edges this] impact_dependents_Inr [OF ds(1)] ds show ?thesis
    by (intro exI [of _ ?c] exI [of _ ds]) auto
qed

text \<open>A runner of the sample repository as the target: no component claims it, and it is its own runner impact.\<close>

definition sample_impact_target :: impact_target where
  "sample_impact_target =
     \<lparr>it_target_kind = ''owner'', it_owner = \<lparr>oi_id = ''runner:npm:dev'', oi_kind = ''runner'', oi_name = ''dev''\<rparr>,
      it_evidence_path = None, it_owner_primary_component_id = None, it_file_primary_component_id = None,
      it_file_context = None, it_facts_path = None, it_symbol_context = None, it_reference_locations = [], it_related_tests = []\<rparr>"

definition sample_impact_facts :: change_facts where
  "sample_impact_facts =
     \<lparr>cf_dependency_files = [], cf_dependent_files = [], cf_render_children = [], cf_render_parents = [], cf_invariant_findings = [],
      cf_local_flow_edges = [], cf_implementation_locations = [], cf_implementation_components = [], cf_dependent_components = [],
      cf_reference_locations = [], cf_related_tests = [],
      cf_related_runners = [\<lparr>rim_runner = hd (get_runners code_sample_repository), rim_reason = ''same_owner'',
        rim_provenance = [\<lparr>pe_confidence_mode = DERIVED, pe_source_kind = SK_OWNERSHIP, pe_source_tool = None,
          pe_evidence_summary = ''runner impact anchored directly to runner owner '' @ quoted ''runner:npm:dev'',
          pe_evidence_paths = [''package.json'']\<rparr>]\<rparr>],
      cf_quality_gates = []\<rparr>"

definition sample_owner_target :: change_target where
  "sample_owner_target = \<lparr>ct_symbol_id = None, ct_repository_rel_path = None, ct_owner_id = Some ''runner:npm:dev''\<rparr>"

lemma sample_impact_ok:
  "\<exists>x. analyze_change (\<lambda>p. sample_answers) code_sample_repository sample_owner_target 1 1 1 1 True True SEMANTIC = Inr x \<and>
    xi_facts x = sample_impact_facts"
proof -
  let ?code = "\<lambda>p :: provider. sample_answers" and ?rp = code_sample_repository and ?t = sample_impact_target and ?cf = sample_impact_facts
  have t: "resolve_owner_impact ?code ?rp ''runner:npm:dev'' 1 1 = Inr ?t" by code_simp
  have cf: "impact_facts ?code ?rp ?t None 1 1 True SEMANTIC = Inr ?cf" by code_simp
  have "is_ok (evidence_edges ''owner'' ''runner:npm:dev'' None (it_owner ?t) None [] ?cf)" by code_simp
  then obtain v where v: "assemble ''owner'' ''runner:npm:dev'' None (it_owner ?t) None [] ?cf = Inr v"
    using assemble_Inr_iff by (auto simp: is_ok_iff)
  have "is_ok (change_truth_coverage_from_parts (coverage_parts ?t None None ?cf))" by code_simp
  then obtain ts where ts: "change_truth_coverage_from_parts (coverage_parts ?t None None ?cf) = Inr ts" by (auto simp: is_ok_iff)
  have "is_ok (change_provenance ''runner:npm:dev'' ?cf None)" by code_simp
  then obtain p where p: "change_provenance ''runner:npm:dev'' ?cf None = Inr p" by (auto simp: is_ok_iff)
  have "p \<noteq> []" using change_provenance_owner [OF p] by blast
  have fields: "it_target_kind ?t = ''owner''" "it_owner_primary_component_id ?t = None" "it_evidence_path ?t = None"
    "it_file_context ?t = None" "it_symbol_context ?t = None" "oi_id (it_owner ?t) = ''runner:npm:dev''"
    by (simp_all add: sample_impact_target_def)
  have "analyze_resolved_target ?code ?rp ?t None 1 1 1 True SEMANTIC =
      Inr \<lparr>xi_target_kind = ''owner'', xi_owner = it_owner ?t, xi_primary_component = None, xi_component_context = None,
          xi_file_context = None, xi_symbol_context = None, xi_facts = ?cf, xi_evidence = v, xi_truth_coverage = ts, xi_provenance = p\<rparr>"
    using \<open>p \<noteq> []\<close>
    by (simp add: analyze_resolved_target_def resolve_component_def primary_component_context_def cf impact_target_value_def
        impact_dependent_edges_def fields v ts p validate_change_impact_def check_def)
  then show ?thesis by (simp add: analyze_change_def sample_owner_target_def resolve_impact_target_def t fields)
qed


end
