(* ===== verification/Provider_Registry.thy ===== *)
theory Provider_Registry
  imports Routing
begin

text \<open>
  Which providers support a directory and which directory is the root of a repository
  (\<open>providers/registry.py\<close>, \<open>providers/provider_metadata.py\<close>, \<open>Repository.root_candidate\<close> of
  \<open>core/repository.py\<close>). A resolved path is the list of its components, so the ancestors of a path are its
  prefixes. The file system and the providers' \<open>discover_attachments\<close> are parameters.
\<close>

section \<open>Provider support\<close>

type_synonym directory = "string list"

definition path_str :: "directory \<Rightarrow> string" where
  "path_str d = (if d = [] then ''/'' else concat (map (\<lambda>c. CHR ''/'' # c) d))"

record attachment_candidate =
  an_provider_id :: string
  an_root :: directory
  an_roles :: "provider_role list"
  an_notes :: "string list"

record provider_class =
  pk_provider_id :: string
  pk_discover :: "directory \<Rightarrow> attachment_candidate list result"

record detected_attachment =
  da_provider_id :: string
  da_root :: directory
  da_rel_path :: string
  da_roles :: "provider_role list"
  da_notes :: "string list"

record detected_support =
  dp_provider_id :: string
  dp_roles :: "provider_role list"
  dp_attachments :: "detected_attachment list"

definition normalize_provider_classes :: "provider_class list \<Rightarrow> provider_class list result" where
  "normalize_provider_classes classes =
     ebind (check (classes \<noteq> []) (ValueErr ''provider registry is empty'')) (\<lambda>_.
     ebind (foldE (\<lambda>c seen.
       if pk_provider_id c \<in> set seen
       then Inl (ValueErr (''duplicate provider id in registry: '' @ quoted (pk_provider_id c)))
       else Inr (seen @ [pk_provider_id c])) classes []) (\<lambda>_. Inr classes))"

definition is_below :: "directory \<Rightarrow> directory \<Rightarrow> bool" where
  "is_below root d \<longleftrightarrow> take (length root) d = root"

definition attachment_rel_path :: "directory \<Rightarrow> directory \<Rightarrow> string" where
  "attachment_rel_path root d = (if d = root then ''.'' else join_with ''/'' (drop (length root) d))"

definition add_candidate ::
  "(directory \<Rightarrow> directory) \<Rightarrow> string \<Rightarrow> directory \<Rightarrow> attachment_candidate \<Rightarrow> detected_attachment list \<Rightarrow> detected_attachment list result" where
  "add_candidate resolve provider_id root c normalized =
     (let d = resolve (an_root c); rel = attachment_rel_path root d in
      if an_provider_id c \<noteq> provider_id
      then Inl (ValueErr (''provider '' @ quoted provider_id @ '' returned attachment for mismatched provider id '' @ quoted (an_provider_id c)))
      else if \<not> is_below root d
      then Inl (ValueErr (''provider '' @ quoted provider_id @ '' returned attachment outside repository root: '' @ quoted (path_str d)))
      else if rel \<in> da_rel_path ` set normalized
      then Inl (ValueErr (''provider '' @ quoted provider_id @ '' discovered duplicate attachment root '' @ quoted rel))
      else Inr (normalized @
        [\<lparr>da_provider_id = provider_id, da_root = d, da_rel_path = rel, da_roles = an_roles c, da_notes = an_notes c\<rparr>]))"

definition normalize_candidates ::
  "(directory \<Rightarrow> directory) \<Rightarrow> string \<Rightarrow> directory \<Rightarrow> attachment_candidate list \<Rightarrow> detected_attachment list result" where
  "normalize_candidates resolve provider_id root candidates =
     ebind (foldE (add_candidate resolve provider_id root) candidates []) (\<lambda>normalized. Inr (sort_key da_rel_path normalized))"

definition detect_step ::
  "(directory \<Rightarrow> directory) \<Rightarrow> directory \<Rightarrow> provider_class \<Rightarrow> detected_support list \<Rightarrow> detected_support list result" where
  "detect_step resolve r c detected =
     ebind (pk_discover c r) (\<lambda>candidates.
     ebind (normalize_candidates resolve (pk_provider_id c) r candidates) (\<lambda>attachments.
       Inr (if attachments = [] then detected
            else detected @ [\<lparr>dp_provider_id = pk_provider_id c, dp_roles = append_new [] (concat (map da_roles attachments)),
                              dp_attachments = attachments\<rparr>])))"

definition detect_support_for_root ::
  "(directory \<Rightarrow> directory) \<Rightarrow> provider_class list \<Rightarrow> directory \<Rightarrow> detected_support list result" where
  "detect_support_for_root resolve provider_classes root =
     ebind (normalize_provider_classes provider_classes) (\<lambda>classes.
     let r = resolve root in
     ebind (foldE (detect_step resolve r) classes []) (\<lambda>detected.
     Inr (sort_key dp_provider_id detected)))"

definition is_supported :: "detected_support list \<Rightarrow> bool" where
  "is_supported detected \<longleftrightarrow> detected \<noteq> []"

section \<open>The root of a repository\<close>

record file_system =
  fs_exists :: "directory \<Rightarrow> bool"
  fs_is_dir :: "directory \<Rightarrow> bool"
  fs_has :: "directory \<Rightarrow> string \<Rightarrow> bool"
  fs_has_dir :: "directory \<Rightarrow> string \<Rightarrow> bool"

definition vc_markers :: "string list" where
  "vc_markers = [''.git'', ''.hg'', ''.svn'', ''.bzr'']"

definition ide_markers :: "string list" where
  "ide_markers = [''.vscode'', ''.idea'']"

definition has_marker :: "file_system \<Rightarrow> string list \<Rightarrow> directory \<Rightarrow> bool" where
  "has_marker fs markers d \<longleftrightarrow> (\<exists>m\<in>set markers. fs_has fs d m)"

text \<open>\<open>[path, *path.parents]\<close>.\<close>

definition ancestors :: "directory \<Rightarrow> directory list" where
  "ancestors d = map (\<lambda>n. take n d) (rev [0..<Suc (length d)])"

text \<open>\<open>ancestors[: boundary_index + 1]\<close>: up to and including the first directory with a marker, or all.\<close>

fun up_to_boundary :: "(directory \<Rightarrow> bool) \<Rightarrow> directory list \<Rightarrow> directory list" where
  "up_to_boundary marked [] = []"
| "up_to_boundary marked (d # ds) = (if marked d then [d] else d # up_to_boundary marked ds)"

definition boundary_marker :: "file_system \<Rightarrow> directory \<Rightarrow> bool" where
  "boundary_marker fs = has_marker fs (vc_markers @ ide_markers @ [''.suit''])"

fun first_supported :: "(directory \<Rightarrow> detected_support list result) \<Rightarrow> directory list \<Rightarrow> (directory option) result" where
  "first_supported detect [] = Inr None"
| "first_supported detect (d # ds) =
     (case detect d of
        Inr s \<Rightarrow> if is_supported s then Inr (Some d) else first_supported detect ds
      | Inl (ValueErr m) \<Rightarrow> first_supported detect ds
      | Inl e \<Rightarrow> Inl e)"

text \<open>\<open>path\<close> is the resolved path; the messages quote it as given.\<close>

definition root_candidate ::
  "file_system \<Rightarrow> (directory \<Rightarrow> detected_support list result) \<Rightarrow> directory \<Rightarrow> directory result" where
  "root_candidate fs detect path =
     ebind (check (fs_exists fs path) (ValueErr (''repository path does not exist: '' @ quoted (path_str path)))) (\<lambda>_.
     ebind (check (fs_is_dir fs path) (ValueErr (''repository path is not a directory: '' @ path_str path))) (\<lambda>_.
     let probes = up_to_boundary (boundary_marker fs) (ancestors path) in
     ebind (first_supported detect probes) (\<lambda>supported.
       Inr (case supported of
              Some d \<Rightarrow> d
            | None \<Rightarrow> (case find (has_marker fs vc_markers) probes of
                Some d \<Rightarrow> d
              | None \<Rightarrow> (case find (\<lambda>d. fs_has_dir fs d ''.suit'') probes of
                  Some d \<Rightarrow> d
                | None \<Rightarrow> (case find (has_marker fs ide_markers) probes of Some d \<Rightarrow> d | None \<Rightarrow> path)))))))"

section \<open>What detection guarantees\<close>

definition normalized_below :: "string \<Rightarrow> directory \<Rightarrow> detected_attachment list \<Rightarrow> bool" where
  "normalized_below provider_id root as \<longleftrightarrow> distinct (map da_rel_path as) \<and>
     (\<forall>a\<in>set as. da_provider_id a = provider_id \<and> is_below root (da_root a) \<and> da_rel_path a = attachment_rel_path root (da_root a))"

lemma add_candidate_Inr:
  assumes "add_candidate resolve provider_id root c as = Inr bs" and "normalized_below provider_id root as"
  shows "normalized_below provider_id root bs \<and> map da_root bs = map da_root as @ [resolve (an_root c)]"
  using assms by (auto simp: add_candidate_def normalized_below_def Let_def split: if_splits)

lemma add_candidates_Inr:
  assumes "foldE (add_candidate resolve provider_id root) cs as = Inr bs" and "normalized_below provider_id root as"
  shows "normalized_below provider_id root bs \<and> map da_root bs = map da_root as @ map (resolve \<circ> an_root) cs"
  using assms
proof (induction cs arbitrary: as)
  case (Cons c cs)
  then obtain as' where "add_candidate resolve provider_id root c as = Inr as'" "foldE (add_candidate resolve provider_id root) cs as' = Inr bs"
    by (auto simp: ebind_Inr_iff)
  then show ?case using Cons.IH [of as'] add_candidate_Inr Cons.prems(2) by fastforce
qed simp

lemma normalize_candidates_Inr:
  assumes "normalize_candidates resolve provider_id root cs = Inr as"
  shows "normalized_below provider_id root as \<and> sorted (map da_rel_path as) \<and> set (map da_root as) = (resolve \<circ> an_root) ` set cs"
proof -
  from assms obtain ns where run: "foldE (add_candidate resolve provider_id root) cs [] = Inr ns" and as: "as = sort_key da_rel_path ns"
    by (auto simp: normalize_candidates_def ebind_Inr_iff)
  have n: "normalized_below provider_id root ns \<and> map da_root ns = map (resolve \<circ> an_root) cs"
    using add_candidates_Inr [OF run] by (simp add: normalized_below_def)
  then have "distinct (map da_rel_path as)" unfolding as normalized_below_def by (metis distinct_map distinct_sort set_sort)
  moreover have "set (map da_root as) = (resolve \<circ> an_root) ` set cs" unfolding as using n by (metis list.set_map set_sort)
  ultimately show ?thesis using n by (simp add: as normalized_below_def)
qed

definition supported_by :: "(directory \<Rightarrow> directory) \<Rightarrow> directory \<Rightarrow> provider_class list \<Rightarrow> detected_support \<Rightarrow> bool" where
  "supported_by resolve r classes s \<longleftrightarrow> dp_attachments s \<noteq> [] \<and> normalized_below (dp_provider_id s) r (dp_attachments s) \<and>
     set (dp_roles s) = (\<Union>a\<in>set (dp_attachments s). set (da_roles a)) \<and>
     (\<exists>c\<in>set classes. pk_provider_id c = dp_provider_id s \<and>
        (\<exists>cs. pk_discover c r = Inr cs \<and> set (map da_root (dp_attachments s)) = (resolve \<circ> an_root) ` set cs))"

lemma detect_steps_Inr:
  assumes "foldE (detect_step resolve r) cs detected = Inr ds"
  shows "\<exists>new. ds = detected @ new \<and> (\<forall>s\<in>set new. supported_by resolve r cs s) \<and>
    map dp_provider_id new = map pk_provider_id (filter (\<lambda>c. \<exists>a as. pk_discover c r = Inr (a # as)) cs)"
  using assms
proof (induction cs arbitrary: detected)
  case (Cons c cs)
  from Cons.prems obtain mid where step: "detect_step resolve r c detected = Inr mid" and tail: "foldE (detect_step resolve r) cs mid = Inr ds"
    by (auto simp: ebind_Inr_iff)
  from step obtain candidates as where c: "pk_discover c r = Inr candidates"
      "normalize_candidates resolve (pk_provider_id c) r candidates = Inr as"
    and mid: "mid = (if as = [] then detected
       else detected @ [\<lparr>dp_provider_id = pk_provider_id c, dp_roles = append_new [] (concat (map da_roles as)), dp_attachments = as\<rparr>])"
    by (auto simp: detect_step_def ebind_Inr_iff)
  have rest: "foldE (detect_step resolve r) cs (if as = [] then detected
       else detected @ [\<lparr>dp_provider_id = pk_provider_id c, dp_roles = append_new [] (concat (map da_roles as)), dp_attachments = as\<rparr>]) = Inr ds"
    using tail by (simp only: mid)
  note n = normalize_candidates_Inr [OF c(2)]
  have empty: "as = [] \<longleftrightarrow> candidates = []" using n by (metis image_is_empty list.map_disc_iff set_empty2)
  from Cons.IH [OF rest] obtain new where new: "\<forall>s\<in>set new. supported_by resolve r cs s"
      "map dp_provider_id new = map pk_provider_id (filter (\<lambda>c. \<exists>a as. pk_discover c r = Inr (a # as)) cs)"
      "ds = (if as = [] then detected
       else detected @ [\<lparr>dp_provider_id = pk_provider_id c, dp_roles = append_new [] (concat (map da_roles as)), dp_attachments = as\<rparr>]) @ new"
    by blast
  have weaken: "supported_by resolve r (c # cs) s" if "supported_by resolve r cs s" for s using that by (auto simp: supported_by_def)
  show ?case
  proof (cases "as = []")
    case True
    then show ?thesis using new weaken empty c(1) by auto
  next
    case False
    let ?s = "\<lparr>dp_provider_id = pk_provider_id c, dp_roles = append_new [] (concat (map da_roles as)), dp_attachments = as\<rparr>"
    have "supported_by resolve r (c # cs) ?s" using n c False by (auto simp: supported_by_def)
    moreover have "\<exists>a as. pk_discover c r = Inr (a # as)" using c(1) False empty by (cases candidates) auto
    ultimately show ?thesis using new weaken False by (intro exI [of _ "?s # new"]) auto
  qed
qed simp

lemma distinct_map_filter: "distinct (map f xs) \<Longrightarrow> distinct (map f (filter P xs))"
  by (induction xs) auto

lemma normalize_classes_Inr:
  assumes "normalize_provider_classes cs = Inr ds"
  shows "ds = cs \<and> cs \<noteq> [] \<and> distinct (map pk_provider_id cs)"
proof -
  have "distinct (map pk_provider_id xs) \<and> set (map pk_provider_id xs) \<inter> set seen = {}"
    if "foldE (\<lambda>c seen. if pk_provider_id c \<in> set seen
       then Inl (ValueErr (''duplicate provider id in registry: '' @ quoted (pk_provider_id c)))
       else Inr (seen @ [pk_provider_id c])) xs seen = Inr s" for xs seen s
    using that
  proof (induction xs arbitrary: seen)
    case (Cons x xs)
    then show ?case by (fastforce split: if_splits)
  qed simp
  then show ?thesis using assms by (auto simp: normalize_provider_classes_def ebind_Inr_iff)
qed

text \<open>
  Detection reports every provider that finds something and nothing else: the ids are the ones of the classes
  that return an attachment candidate, each once and in order, and every attachment lies in the repository, carries its
  provider's id and a path of its own below the root.
\<close>

theorem detection_complete:
  assumes "detect_support_for_root resolve classes root = Inr detected"
  shows "sorted (map dp_provider_id detected) \<and> distinct (map dp_provider_id detected) \<and>
    set (map dp_provider_id detected) = {pk_provider_id c |c. c \<in> set classes \<and> (\<exists>a as. pk_discover c (resolve root) = Inr (a # as))} \<and>
    (\<forall>s\<in>set detected. supported_by resolve (resolve root) classes s)"
proof -
  from assms obtain cs ds where cs: "normalize_provider_classes classes = Inr cs"
    and run: "foldE (detect_step resolve (resolve root)) cs [] = Inr ds" and detected: "detected = sort_key dp_provider_id ds"
    by (auto simp: detect_support_for_root_def ebind_Inr_iff Let_def)
  have c: "cs = classes" "distinct (map pk_provider_id classes)" using normalize_classes_Inr [OF cs] by auto
  obtain new where new: "ds = new" "\<forall>s\<in>set new. supported_by resolve (resolve root) classes s"
      "map dp_provider_id new = map pk_provider_id (filter (\<lambda>c. \<exists>a as. pk_discover c (resolve root) = Inr (a # as)) classes)"
    using detect_steps_Inr [OF run] c by auto
  have "distinct (map dp_provider_id ds)" unfolding new by (rule distinct_map_filter [OF c(2)])
  then have "distinct (map dp_provider_id detected)" unfolding detected by (metis distinct_map distinct_sort set_sort)
  moreover have "set (map dp_provider_id detected) = set (map dp_provider_id new)" by (simp add: detected new(1))
  moreover have "set (map dp_provider_id new) = {pk_provider_id c |c. c \<in> set classes \<and> (\<exists>a as. pk_discover c (resolve root) = Inr (a # as))}"
    unfolding new(3) by auto
  ultimately show ?thesis using new(1,2) by (simp add: detected)
qed

section \<open>Repository roots\<close>

lemma ancestors_Nil [simp]: "ancestors [] = [[]]"
  by (simp add: ancestors_def)

lemma set_ancestors: "set (ancestors d) = (\<lambda>n. take n d) ` {0..length d}"
  by (auto simp: ancestors_def intro: image_eqI [where x = "length d"])

lemma ancestors_snoc: "ancestors (d @ [c]) = (d @ [c]) # ancestors d"
proof -
  have "map (\<lambda>n. take n (d @ [c])) (rev [0..<Suc (length d)]) = ancestors d"
    by (simp add: ancestors_def)
  then show ?thesis by (simp add: ancestors_def)
qed

lemma ancestors_split: "r \<in> set (ancestors d) \<Longrightarrow> \<exists>nearer. ancestors d = nearer @ ancestors r \<and> r \<notin> set nearer"
proof (induction d rule: rev_induct)
  case (snoc c d)
  show ?case
  proof (cases "r = d @ [c]")
    case True
    then show ?thesis by simp
  next
    case False
    then have "r \<in> set (ancestors d)" using snoc.prems by (simp add: ancestors_snoc)
    then obtain nearer where "ancestors d = nearer @ ancestors r \<and> r \<notin> set nearer" using snoc.IH by blast
    then show ?thesis using False by (intro exI [of _ "(d @ [c]) # nearer"]) (simp add: ancestors_snoc)
  qed
qed simp

lemma up_to_boundary_append:
  "up_to_boundary marked (xs @ ys) = (if \<exists>x\<in>set xs. marked x then up_to_boundary marked xs else xs @ up_to_boundary marked ys)"
  by (induction xs) auto

lemma set_up_to_boundary: "set (up_to_boundary marked xs) \<subseteq> set xs"
  by (induction xs) auto

text \<open>The probes from a directory between a path and its boundary are the rest of the probes of the path.\<close>

lemma probes_split:
  assumes "r \<in> set (up_to_boundary marked (ancestors d))"
  shows "\<exists>nearer. up_to_boundary marked (ancestors d) = nearer @ up_to_boundary marked (ancestors r) \<and>
    r \<notin> set nearer \<and> (\<forall>x\<in>set nearer. \<not> marked x)"
proof -
  have "r \<in> set (ancestors d)" using assms set_up_to_boundary by blast
  then obtain nearer where n: "ancestors d = nearer @ ancestors r" "r \<notin> set nearer" using ancestors_split by blast
  have "up_to_boundary marked nearer = up_to_boundary marked nearer @ []" by simp
  moreover have "\<not> (\<exists>x\<in>set nearer. marked x)"
  proof
    assume "\<exists>x\<in>set nearer. marked x"
    then have "up_to_boundary marked (ancestors d) = up_to_boundary marked nearer" by (simp add: n(1) up_to_boundary_append)
    then have "r \<in> set nearer" using assms set_up_to_boundary by fastforce
    then show False using n(2) by simp
  qed
  ultimately show ?thesis using n by (intro exI [of _ nearer]) (simp add: up_to_boundary_append)
qed

lemma first_supported_append:
  "first_supported detect (xs @ ys) =
     (case first_supported detect xs of Inr None \<Rightarrow> first_supported detect ys | r \<Rightarrow> r)"
proof (induction xs)
  case (Cons x xs)
  then show ?case by (auto split: sum.splits err.splits option.splits)
qed simp

lemma first_supported_Some:
  "first_supported detect ds = Inr (Some d) \<Longrightarrow> \<exists>xs ys s. ds = xs @ d # ys \<and> detect d = Inr s \<and> is_supported s \<and>
     first_supported detect xs = Inr None"
proof (induction ds)
  case (Cons x xs)
  show ?case
  proof (cases "detect x")
    case (Inl e)
    then obtain m where m: "e = ValueErr m" "first_supported detect xs = Inr (Some d)" using Cons.prems by (cases e) auto
    obtain us vs s where "xs = us @ d # vs" "detect d = Inr s" "is_supported s" "first_supported detect us = Inr None"
      using Cons.IH [OF m(2)] by blast
    then show ?thesis using Inl m by (intro exI [of _ "x # us"] exI [of _ vs] exI [of _ s]) simp
  next
    case (Inr s)
    show ?thesis
    proof (cases "is_supported s")
      case True
      then show ?thesis using Inr Cons.prems by (intro exI [of _ "[]"] exI [of _ xs] exI [of _ s]) auto
    next
      case False
      then have "first_supported detect xs = Inr (Some d)" using Cons.prems Inr by simp
      from Cons.IH [OF this] obtain us vs t where "xs = us @ d # vs" "detect d = Inr t" "is_supported t" "first_supported detect us = Inr None"
        by blast
      then show ?thesis using Inr False by (intro exI [of _ "x # us"] exI [of _ vs] exI [of _ t]) simp
    qed
  qed
qed simp

lemma first_supported_None_append:
  "first_supported detect (xs @ ys) = Inr None \<longleftrightarrow> first_supported detect xs = Inr None \<and> first_supported detect ys = Inr None"
  by (auto simp: first_supported_append split: sum.splits option.splits)

lemma ancestors_hd: "\<exists>rest. ancestors d = d # rest"
  by (cases d rule: rev_cases) (simp_all add: ancestors_snoc)

lemma probes_hd: "\<exists>rest. up_to_boundary marked (ancestors d) = d # rest"
  using ancestors_hd [of d] by auto

lemma find_append: "find P (xs @ ys) = (case find P xs of None \<Rightarrow> find P ys | Some x \<Rightarrow> Some x)"
  by (induction xs) auto

lemma find_Some_in: "find P xs = Some x \<Longrightarrow> x \<in> set xs \<and> P x"
  by (induction xs) (auto split: if_splits)

text \<open>The four searches of \<open>root_candidate\<close> over the probes, and the path itself when none succeeds.\<close>

definition choose_root :: "file_system \<Rightarrow> (directory option) \<Rightarrow> directory list \<Rightarrow> directory \<Rightarrow> directory" where
  "choose_root fs supported probes path =
     (case supported of Some d \<Rightarrow> d | None \<Rightarrow> (case find (has_marker fs vc_markers) probes of
          Some d \<Rightarrow> d
        | None \<Rightarrow> (case find (\<lambda>d. fs_has_dir fs d ''.suit'') probes of
            Some d \<Rightarrow> d
          | None \<Rightarrow> (case find (has_marker fs ide_markers) probes of Some d \<Rightarrow> d | None \<Rightarrow> path))))"

lemma root_candidate_Inr_iff:
  "root_candidate fs detect path = Inr r \<longleftrightarrow> fs_exists fs path \<and> fs_is_dir fs path \<and>
     (\<exists>supported. first_supported detect (up_to_boundary (boundary_marker fs) (ancestors path)) = Inr supported \<and>
        r = choose_root fs supported (up_to_boundary (boundary_marker fs) (ancestors path)) path)"
  by (auto simp: root_candidate_def choose_root_def ebind_Inr_iff Let_def)

lemma choose_root_in:
  assumes "\<And>d. supported = Some d \<Longrightarrow> d \<in> set probes" and "path \<in> set probes"
  shows "choose_root fs supported probes path \<in> set probes"
  using assms by (auto simp: choose_root_def split: option.splits dest: find_Some_in)

lemma choose_root_again:
  assumes "r = choose_root fs None (nearer @ r # rest) path" and "r \<noteq> path"
  shows "choose_root fs None (r # rest) r = r"
proof -
  have "(has_marker fs vc_markers r \<or> find (has_marker fs vc_markers) (r # rest) = None)"
    using assms by (auto simp: choose_root_def find_append split: option.splits dest: find_Some_in)
  moreover have "fs_has_dir fs r ''.suit'' \<or> find (\<lambda>d. fs_has_dir fs d ''.suit'') (r # rest) = None" if "\<not> has_marker fs vc_markers r"
    using assms that by (auto simp: choose_root_def find_append split: option.splits dest: find_Some_in)
  moreover have "has_marker fs ide_markers r \<or> find (has_marker fs ide_markers) (r # rest) = None"
    if "\<not> has_marker fs vc_markers r" "\<not> fs_has_dir fs r ''.suit''"
    using assms that by (auto simp: choose_root_def find_append split: option.splits dest: find_Some_in)
  ultimately show ?thesis by (auto simp: choose_root_def split: option.splits)
qed

lemma first_occurrence: "xs @ d # ys = ns @ d # zs \<Longrightarrow> d \<notin> set xs \<Longrightarrow> d \<notin> set ns \<Longrightarrow> xs = ns"
proof (induction xs arbitrary: ns)
  case Nil
  then show ?case by (cases ns) auto
next
  case (Cons x xs)
  then show ?case by (cases ns) auto
qed

text \<open>
  The root of a path is the path or one of its ancestors, not above the nearest directory with a marker; when a
  directory up to there is supported it is the nearest supported one. It is its own root, so
  the registry, the workspace and the repository, which each resolve it again, agree.
\<close>

theorem root_candidate_stable:
  assumes root: "root_candidate fs detect path = Inr r"
    and directories: "\<forall>d. is_below d path \<longrightarrow> fs_exists fs d \<and> fs_is_dir fs d"
  shows "is_below r path \<and> root_candidate fs detect r = Inr r \<and>
    (\<exists>nearer rest. up_to_boundary (boundary_marker fs) (ancestors path) = nearer @ r # rest \<and>
       (\<forall>d\<in>set nearer. \<not> boundary_marker fs d) \<and>
       ((\<exists>d s. d \<in> set (nearer @ r # rest) \<and> detect d = Inr s \<and> is_supported s) \<longrightarrow>
          (\<exists>s. detect r = Inr s \<and> is_supported s) \<and> (\<forall>d\<in>set nearer. \<forall>s. detect d = Inr s \<longrightarrow> \<not> is_supported s)))"
proof -
  let ?marked = "boundary_marker fs"
  let ?probes = "up_to_boundary ?marked (ancestors path)"
  from root obtain supported where sup: "first_supported detect ?probes = Inr supported"
    and r: "r = choose_root fs supported ?probes path"
    unfolding root_candidate_Inr_iff by blast
  have none: "\<forall>d\<in>set xs. \<forall>s. detect d = Inr s \<longrightarrow> \<not> is_supported s" if "first_supported detect xs = Inr None" for xs
    using that by (induction xs) (auto split: sum.splits err.splits if_splits)
  have "path \<in> set ?probes" using probes_hd [of ?marked path] by auto
  moreover have "d \<in> set ?probes" if "supported = Some d" for d using first_supported_Some [OF sup [unfolded that]] by auto
  ultimately have in_probes: "r \<in> set ?probes" unfolding r by (intro choose_root_in)
  obtain nearer where split: "?probes = nearer @ up_to_boundary ?marked (ancestors r)" "r \<notin> set nearer" "\<forall>x\<in>set nearer. \<not> ?marked x"
    using probes_split [OF in_probes] by blast
  obtain rest where rest: "up_to_boundary ?marked (ancestors r) = r # rest" using probes_hd by blast
  have "r \<in> set (ancestors path)" using in_probes set_up_to_boundary by blast
  then have below: "is_below r path" by (auto simp: set_ancestors is_below_def)
  have again: "\<exists>supported'. first_supported detect (r # rest) = Inr supported' \<and> r = choose_root fs supported' (r # rest) r"
  proof (cases supported)
    case None
    then have "first_supported detect (r # rest) = Inr None"
      using sup unfolding split(1) rest by (simp add: first_supported_None_append)
    moreover have chosen: "r = choose_root fs None (nearer @ r # rest) path" using r unfolding split(1) rest None .
    have "choose_root fs None (r # rest) r = r"
    proof (cases "r = path")
      case True
      have "nearer = []"
      proof (cases nearer)
        case (Cons x xs)
        then show ?thesis using split(1,2) probes_hd [of ?marked path] True by auto
      qed simp
      then show ?thesis using chosen True by (metis append_Nil)
    qed (rule choose_root_again [OF chosen])
    ultimately show ?thesis by (metis)
  next
    case (Some d)
    then have "r = d" by (simp add: r choose_root_def)
    then obtain s where "detect r = Inr s" "is_supported s" using first_supported_Some [OF sup [unfolded Some]] by blast
    then show ?thesis by (intro exI [of _ "Some r"]) (simp add: choose_root_def)
  qed
  then have "root_candidate fs detect r = Inr r" using directories below by (auto simp: root_candidate_Inr_iff rest)
  moreover have "(\<exists>s. detect r = Inr s \<and> is_supported s) \<and> (\<forall>d\<in>set nearer. \<forall>s. detect d = Inr s \<longrightarrow> \<not> is_supported s)"
    if "\<exists>d s. d \<in> set (nearer @ r # rest) \<and> detect d = Inr s \<and> is_supported s"
  proof (cases supported)
    case None
    then show ?thesis using none [of ?probes] sup that unfolding split(1) rest by blast
  next
    case (Some d)
    then have d: "r = d" by (simp add: r choose_root_def)
    from first_supported_Some [OF sup [unfolded Some]] obtain xs ys s where x: "?probes = xs @ d # ys" "detect d = Inr s" "is_supported s"
      "first_supported detect xs = Inr None" by blast
    have "d \<notin> set xs" using none [OF x(4)] x(2,3) by blast
    moreover have "xs @ d # ys = nearer @ d # rest" using x(1) unfolding split(1) rest by (metis d)
    moreover have "d \<notin> set nearer" using split(2) unfolding d .
    ultimately have "xs = nearer" by (metis first_occurrence)
    then show ?thesis using none [OF x(4)] x(2,3) d by blast
  qed
  ultimately show ?thesis using below split rest by (intro conjI exI [of _ nearer] exI [of _ rest]) simp_all
qed

text \<open>A checkout with a package two levels below its version control root.\<close>

definition sample_class :: provider_class where
  "sample_class = \<lparr>pk_provider_id = ''npm'', pk_discover = (\<lambda>d. Inr (if d = [''r'', ''p''] then
     [\<lparr>an_provider_id = ''npm'', an_root = d, an_roles = [ROLE_CODE], an_notes = []\<rparr>] else []))\<rparr>"

definition sample_file_system :: file_system where
  "sample_file_system =
     \<lparr>fs_exists = (\<lambda>d. True), fs_is_dir = (\<lambda>d. True), fs_has = (\<lambda>d m. d = [''r''] \<and> m = ''.git''), fs_has_dir = (\<lambda>d m. False)\<rparr>"

theorem root_candidate_stable_witness:
  "root_candidate sample_file_system (detect_support_for_root (\<lambda>d. d) [sample_class]) [''r'', ''p'', ''src''] = Inr [''r'', ''p''] \<and>
   root_candidate sample_file_system (detect_support_for_root (\<lambda>d. d) [sample_class]) [''r'', ''p''] = Inr [''r'', ''p'']"
proof -
  let ?detect = "detect_support_for_root (\<lambda>d. d) [sample_class]"
  have run: "root_candidate sample_file_system ?detect [''r'', ''p'', ''src''] = Inr [''r'', ''p'']" by code_simp
  have "\<forall>d. is_below d [''r'', ''p'', ''src''] \<longrightarrow> fs_exists sample_file_system d \<and> fs_is_dir sample_file_system d"
    by (simp add: sample_file_system_def)
  from root_candidate_stable [OF run this] run show ?thesis by blast
qed

theorem detection_complete_witness:
  "\<exists>s. detect_support_for_root (\<lambda>d. d) [sample_class] [''r'', ''p''] = Inr [s] \<and> dp_provider_id s = ''npm''"
proof -
  have "case detect_support_for_root (\<lambda>d. d) [sample_class] [''r'', ''p''] of Inl e \<Rightarrow> False | Inr ds \<Rightarrow> length ds = 1" by code_simp
  then obtain s where s: "detect_support_for_root (\<lambda>d. d) [sample_class] [''r'', ''p''] = Inr [s]"
    by (auto split: sum.splits simp: length_Suc_conv)
  from detection_complete [OF s] s show ?thesis by (auto simp: sample_class_def)
qed

end
