(* ===== verification/Workspace_Registry.thy ===== *)
theory Workspace_Registry
  imports Provider_Registry "HOL-Library.AList"
begin

text \<open>
  The workspaces that an MCP server has open (\<open>WorkspaceRegistry\<close> in \<open>mcp/state.py\<close>, \<open>Workspace\<close> in
  \<open>core/workspace.py\<close>, \<open>mcp/workspace_service.py\<close>). A workspace is its id and its repositories by root, each
  operation runs under the registry's lock. \<open>root_of\<close> is \<open>Repository.root_candidate\<close> and \<open>supported\<close> is
  \<open>support_for_path(root).is_supported\<close>. Building the repository itself is taken to succeed when it is supported.
\<close>

section \<open>The registry\<close>

datatype mcp_error = McpNotFound string | McpValidation string | McpUnsupported string | McpRaised err

type_synonym 'a mcp_result = "mcp_error + 'a"

record mcp_workspace =
  wk_id :: string
  wk_repositories :: "(string \<times> string) list"

record workspace_registry =
  wg_workspaces :: "(string \<times> mcp_workspace) list"
  wg_ids_by_root :: "(string \<times> string) list"

record open_state =
  os_workspace :: string
  os_root :: string
  os_repository :: string
  os_reused :: bool

definition root_name :: "string \<Rightarrow> string" where
  "root_name root = last (split_on CHR ''/'' root)"

definition new_workspace :: "(string \<Rightarrow> bool) \<Rightarrow> string \<Rightarrow> string \<Rightarrow> mcp_workspace result" where
  "new_workspace supported available root =
     (if \<not> supported root
      then Inl (ValueErr (''workspace cannot be created for unsupported repository '' @ quoted root @
             ''. No registered providers matched this repository. Available providers: '' @ available @ ''.''))
      else case add_repository supported root [] of
        (Inl e, rs) \<Rightarrow> Inl e
      | (Inr i, rs) \<Rightarrow> Inr \<lparr>wk_id = ''workspace:'' @ root_name root, wk_repositories = rs\<rparr>)"

definition list_workspaces :: "workspace_registry \<Rightarrow> mcp_workspace list" where
  "list_workspaces rg = sort_key wk_id (map snd (wg_workspaces rg))"

definition get_workspace :: "workspace_registry \<Rightarrow> string \<Rightarrow> mcp_workspace mcp_result" where
  "get_workspace rg i = of_option (McpNotFound (''unknown workspace id: '' @ quoted i)) (map_of (wg_workspaces rg) i)"

definition registry_get_repository :: "workspace_registry \<Rightarrow> string \<Rightarrow> string \<Rightarrow> string mcp_result" where
  "registry_get_repository rg i repository_id =
     ebind (get_workspace rg i) (\<lambda>w.
       case get_repository_by_id i repository_id (wk_repositories w) of
         Inr root \<Rightarrow> Inr root
       | Inl (ValueErr m) \<Rightarrow> Inl (McpNotFound (''unknown repository id '' @ quoted repository_id @ '' in workspace '' @ quoted i))
       | Inl e \<Rightarrow> Inl (McpRaised e))"

text \<open>
  \<open>workspace.get_repository(root)\<close>, which adds the repository when the workspace does not have it, on the workspace
  of an id; the dictionary lookup of the id raises \<open>KeyError\<close>.
\<close>

definition visit_repository ::
  "(string \<Rightarrow> bool) \<Rightarrow> string \<Rightarrow> string \<Rightarrow> workspace_registry \<Rightarrow> string mcp_result \<times> workspace_registry" where
  "visit_repository supported i root rg =
     (case map_of (wg_workspaces rg) i of
        None \<Rightarrow> (Inl (McpRaised (KeyErr i)), rg)
      | Some w \<Rightarrow> (case add_repository supported root (wk_repositories w) of
          (Inl e, rs) \<Rightarrow> (Inl (McpRaised e), rg)
        | (Inr r, rs) \<Rightarrow> (Inr r, rg\<lparr>wg_workspaces := AList.update i (w\<lparr>wk_repositories := rs\<rparr>) (wg_workspaces rg)\<rparr>)))"

definition registry_open_workspace ::
  "(string \<Rightarrow> string result) \<Rightarrow> (string \<Rightarrow> bool) \<Rightarrow> string \<Rightarrow> string \<Rightarrow> workspace_registry \<Rightarrow> open_state mcp_result \<times> workspace_registry" where
  "registry_open_workspace root_of supported available path rg =
     (case root_of path of
        Inl e \<Rightarrow> (Inl (McpRaised e), rg)
      | Inr root \<Rightarrow> (case map_of (wg_ids_by_root rg) root of
          Some i \<Rightarrow> (case visit_repository supported i root rg of
              (Inl e, rg') \<Rightarrow> (Inl e, rg')
            | (Inr r, rg') \<Rightarrow> (Inr \<lparr>os_workspace = i, os_root = root, os_repository = r, os_reused = True\<rparr>, rg'))
        | None \<Rightarrow> (case new_workspace supported available root of
              Inl e \<Rightarrow> (Inl (McpRaised e), rg)
            | Inr w \<Rightarrow> (Inr \<lparr>os_workspace = wk_id w, os_root = fst (hd (wk_repositories w)), os_repository = snd (hd (wk_repositories w)),
                             os_reused = False\<rparr>,
                rg\<lparr>wg_workspaces := AList.update (wk_id w) w (wg_workspaces rg),
                   wg_ids_by_root := fold (\<lambda>(r, j). AList.update r (wk_id w)) (wk_repositories w) (wg_ids_by_root rg)\<rparr>))))"

definition registry_add_repository ::
  "(string \<Rightarrow> string result) \<Rightarrow> (string \<Rightarrow> bool) \<Rightarrow> string \<Rightarrow> string \<Rightarrow> workspace_registry \<Rightarrow> open_state mcp_result \<times> workspace_registry" where
  "registry_add_repository root_of supported i path rg =
     (case root_of path of
        Inl e \<Rightarrow> (Inl (McpRaised e), rg)
      | Inr root \<Rightarrow> (case get_workspace rg i of
          Inl e \<Rightarrow> (Inl e, rg)
        | Inr w \<Rightarrow> (case map_of (wg_ids_by_root rg) root of
            Some j \<Rightarrow> (case visit_repository supported j root rg of
                (Inl e, rg') \<Rightarrow> (Inl e, rg')
              | (Inr r, rg') \<Rightarrow> (Inr \<lparr>os_workspace = j, os_root = root, os_repository = r, os_reused = True\<rparr>, rg'))
          | None \<Rightarrow> (case visit_repository supported i root rg of
                (Inl e, rg') \<Rightarrow> (Inl e, rg')
              | (Inr r, rg') \<Rightarrow> (Inr \<lparr>os_workspace = i, os_root = root, os_repository = r, os_reused = False\<rparr>,
                  rg'\<lparr>wg_ids_by_root := AList.update root i (wg_ids_by_root rg')\<rparr>)))))"

definition registry_close_workspace :: "string \<Rightarrow> workspace_registry \<Rightarrow> unit mcp_result \<times> workspace_registry" where
  "registry_close_workspace i rg =
     (case map_of (wg_workspaces rg) i of
        None \<Rightarrow> (Inl (McpNotFound (''unknown workspace id: '' @ quoted i)), rg)
      | Some w \<Rightarrow> (Inr (), \<lparr>wg_workspaces = AList.delete i (wg_workspaces rg),
                         wg_ids_by_root = fold (\<lambda>(r, j). AList.delete r) (wk_repositories w) (wg_ids_by_root rg)\<rparr>))"

section \<open>The service\<close>

text \<open>The MCP errors are \<open>ValueError\<close>s too; other exceptions pass.\<close>

fun error_text :: "mcp_error \<Rightarrow> string option" where
  "error_text (McpNotFound m) = Some m"
| "error_text (McpValidation m) = Some m"
| "error_text (McpUnsupported m) = Some m"
| "error_text (McpRaised (ValueErr m)) = Some m"
| "error_text (McpRaised e) = None"

definition translate_error :: "string \<Rightarrow> mcp_error \<Rightarrow> mcp_error" where
  "translate_error unsupported_text e =
     (case error_text e of None \<Rightarrow> e | Some m \<Rightarrow> if contains unsupported_text m then McpUnsupported m else McpValidation m)"

definition tool_open_workspace ::
  "(string \<Rightarrow> string result) \<Rightarrow> (string \<Rightarrow> bool) \<Rightarrow> string \<Rightarrow> string \<Rightarrow> workspace_registry \<Rightarrow> open_state mcp_result \<times> workspace_registry" where
  "tool_open_workspace root_of supported available path rg =
     (case registry_open_workspace root_of supported available path rg of
        (Inl e, rg') \<Rightarrow> (Inl (translate_error ''No registered providers matched'' e), rg')
      | ok \<Rightarrow> ok)"

definition tool_add_repository ::
  "(string \<Rightarrow> string result) \<Rightarrow> (string \<Rightarrow> bool) \<Rightarrow> string \<Rightarrow> string \<Rightarrow> workspace_registry \<Rightarrow> open_state mcp_result \<times> workspace_registry" where
  "tool_add_repository root_of supported i path rg =
     (case registry_add_repository root_of supported i path rg of
        (Inl (McpNotFound m), rg') \<Rightarrow> (Inl (McpNotFound m), rg')
      | (Inl e, rg') \<Rightarrow> (Inl (translate_error ''unsupported repository'' e), rg')
      | ok \<Rightarrow> ok)"

definition get_repository_by_path ::
  "(string \<Rightarrow> string result) \<Rightarrow> (string \<Rightarrow> bool) \<Rightarrow> string \<Rightarrow> string \<Rightarrow> workspace_registry \<Rightarrow> string mcp_result \<times> workspace_registry" where
  "get_repository_by_path root_of supported i path rg =
     (case get_workspace rg i of
        Inl e \<Rightarrow> (Inl e, rg)
      | Inr w \<Rightarrow> (case root_of path of
          Inl e \<Rightarrow> (Inl (McpRaised e), rg)
        | Inr root \<Rightarrow> if root \<notin> fst ` set (wk_repositories w)
            then (Inl (McpNotFound (''repository '' @ quoted root @ '' is not tracked in workspace '' @ quoted i)), rg)
            else visit_repository supported i root rg))"

section \<open>The invariant\<close>

definition workspace_ok :: "mcp_workspace \<Rightarrow> bool" where
  "workspace_ok w \<longleftrightarrow> wk_repositories w \<noteq> [] \<and> distinct (map fst (wk_repositories w)) \<and> distinct (map snd (wk_repositories w))"

definition has_root :: "workspace_registry \<Rightarrow> string \<Rightarrow> string \<Rightarrow> bool" where
  "has_root rg i root \<longleftrightarrow> (\<exists>w. map_of (wg_workspaces rg) i = Some w \<and> root \<in> fst ` set (wk_repositories w))"

definition registry_ok :: "workspace_registry \<Rightarrow> bool" where
  "registry_ok rg \<longleftrightarrow>
     (\<forall>i w. map_of (wg_workspaces rg) i = Some w \<longrightarrow> wk_id w = i \<and> workspace_ok w) \<and>
     (\<forall>root i. map_of (wg_ids_by_root rg) root = Some i \<longleftrightarrow> has_root rg i root)"

text \<open>The abstract registry: the workspace of each root.\<close>

definition attachments :: "workspace_registry \<Rightarrow> string \<Rightarrow> string option" where
  "attachments rg = map_of (wg_ids_by_root rg)"

lemma add_repository_known: "supported root \<Longrightarrow> map_of rs root = Some r \<Longrightarrow> add_repository supported root rs = (Inr r, rs)"
  by (simp add: add_repository_def)

lemma add_repository_new:
  assumes "supported root" and "map_of rs root = None"
  shows "\<exists>r. add_repository supported root rs = (Inr r, rs @ [(root, r)]) \<and> r \<notin> snd ` set rs"
proof -
  let ?r = "next_repository_id (map snd rs) (last (split_on CHR ''/'' root))"
  have "?r \<notin> set (map snd rs)"
    using next_suffix_new [of "map snd rs"] by (simp only: next_repository_id_def split: if_split) blast
  then show ?thesis using assms by (simp add: add_repository_def Let_def)
qed

lemma map_of_update [simp]: "map_of (AList.update k v xs) = (map_of xs)(k \<mapsto> v)"
  by (simp add: AList.update_conv' fun_eq_iff)

lemma map_of_delete [simp]: "map_of (AList.delete k xs) = (map_of xs)(k := None)"
  by (simp add: AList.delete_conv' fun_eq_iff)

lemma find_by_id: "distinct (map snd rs) \<Longrightarrow> (root, r) \<in> set rs \<Longrightarrow> find (\<lambda>(root, j). j = r) rs = Some (root, r)"
  by (induction rs) (auto simp: image_iff)

lemma map_of_update_all: "map_of (fold (\<lambda>(r, j). AList.update r i) rs xs) root = (if root \<in> fst ` set rs then Some i else map_of xs root)"
  by (induction rs arbitrary: xs) (auto split: prod.splits)

lemma map_of_delete_all: "map_of (fold (\<lambda>(r, j). AList.delete r) rs xs) root = (if root \<in> fst ` set rs then None else map_of xs root)"
  by (induction rs arbitrary: xs) (auto split: prod.splits)

text \<open>A root that belongs to the workspace of an id is found there, and visiting it changes nothing.\<close>

lemma visit_known:
  assumes "registry_ok rg" and "attachments rg root = Some i" and "supported root"
  shows "\<exists>r rg'. visit_repository supported i root rg = (Inr r, rg') \<and> attachments rg' = attachments rg \<and> registry_ok rg' \<and>
    map_of (wg_workspaces rg') = map_of (wg_workspaces rg) \<and> registry_get_repository rg i r = Inr root"
proof -
  have "has_root rg i root" using assms(1,2) by (simp add: registry_ok_def attachments_def)
  then obtain w where w: "map_of (wg_workspaces rg) i = Some w" "root \<in> fst ` set (wk_repositories w)" by (auto simp: has_root_def)
  then obtain r where r: "map_of (wk_repositories w) root = Some r" by (metis map_of_eq_None_iff not_None_eq)
  let ?rg = "rg\<lparr>wg_workspaces := AList.update i w (wg_workspaces rg)\<rparr>"
  have same: "map_of (wg_workspaces ?rg) = map_of (wg_workspaces rg)" using w(1) by (auto simp: fun_eq_iff)
  have "visit_repository supported i root rg = (Inr r, ?rg)"
    using w(1) r assms(3) by (simp add: visit_repository_def add_repository_known)
  moreover have "registry_ok ?rg" using assms(1) same by (simp add: registry_ok_def has_root_def)
  moreover have "registry_get_repository rg i r = Inr root"
  proof -
    have "distinct (map snd (wk_repositories w))" using assms(1) w(1) by (auto simp: registry_ok_def workspace_ok_def)
    moreover have "(root, r) \<in> set (wk_repositories w)" using r by (rule map_of_SomeD)
    ultimately have "find (\<lambda>(root, j). j = r) (wk_repositories w) = Some (root, r)" by (rule find_by_id)
    then show ?thesis using w(1) by (simp add: registry_get_repository_def get_workspace_def get_repository_by_id_def)
  qed
  ultimately show ?thesis using same by (auto simp: attachments_def)
qed

lemma unattached: "registry_ok rg \<Longrightarrow> attachments rg root = None \<Longrightarrow> \<not> has_root rg i root"
  unfolding registry_ok_def attachments_def by (metis option.distinct(1))

lemma new_workspace_supported:
  "supported root \<Longrightarrow> new_workspace supported available root =
     Inr \<lparr>wk_id = ''workspace:'' @ root_name root, wk_repositories = [(root, ''repo:'' @ root_name root)]\<rparr>"
  by (simp add: new_workspace_def add_repository_def next_repository_id_def repository_id_candidate_def root_name_def Let_def)

lemma open_new:
  assumes "registry_ok rg" and "root_of path = Inr root" and "attachments rg root = None" and "supported root"
  defines "i \<equiv> ''workspace:'' @ root_name root"
  shows "\<exists>rg'. registry_open_workspace root_of supported available path rg =
       (Inr \<lparr>os_workspace = i, os_root = root, os_repository = ''repo:'' @ root_name root, os_reused = False\<rparr>, rg') \<and>
     attachments rg' = (attachments rg)(root \<mapsto> i) \<and>
     map_of (wg_workspaces rg') = (map_of (wg_workspaces rg))(i \<mapsto> \<lparr>wk_id = i, wk_repositories = [(root, ''repo:'' @ root_name root)]\<rparr>) \<and>
     (map_of (wg_workspaces rg) i = None \<longrightarrow> registry_ok rg')"
proof -
  let ?w = "\<lparr>wk_id = i, wk_repositories = [(root, ''repo:'' @ root_name root)]\<rparr>"
  let ?rg = "rg\<lparr>wg_workspaces := AList.update i ?w (wg_workspaces rg), wg_ids_by_root := AList.update root i (wg_ids_by_root rg)\<rparr>"
  have run: "registry_open_workspace root_of supported available path rg =
       (Inr \<lparr>os_workspace = i, os_root = root, os_repository = ''repo:'' @ root_name root, os_reused = False\<rparr>, ?rg)"
    using assms by (simp add: registry_open_workspace_def attachments_def new_workspace_supported i_def)
  have "registry_ok ?rg" if free: "map_of (wg_workspaces rg) i = None"
  proof -
    have "has_root ?rg j q \<longleftrightarrow> has_root rg j q \<or> (j = i \<and> q = root)" for j q using free by (auto simp: has_root_def)
    moreover have "map_of (wg_ids_by_root ?rg) q = Some j \<longleftrightarrow> map_of (wg_ids_by_root rg) q = Some j \<or> (j = i \<and> q = root)" for j q
      using assms(3) by (auto simp: attachments_def)
    moreover have "workspace_ok ?w" by (simp add: workspace_ok_def)
    ultimately show ?thesis using assms(1) unfolding registry_ok_def by simp
  qed
  then show ?thesis using run by (intro exI [of _ ?rg]) (simp add: attachments_def)
qed

lemma add_new:
  assumes "registry_ok rg" and "root_of path = Inr root" and "attachments rg root = None" and "supported root"
    and w: "map_of (wg_workspaces rg) i = Some w"
  shows "\<exists>r rg'. registry_add_repository root_of supported i path rg =
       (Inr \<lparr>os_workspace = i, os_root = root, os_repository = r, os_reused = False\<rparr>, rg') \<and>
     attachments rg' = (attachments rg)(root \<mapsto> i) \<and> registry_ok rg'"
proof -
  have "\<not> has_root rg i root" by (rule unattached [OF assms(1,3)])
  then have "map_of (wk_repositories w) root = None" using w by (auto simp: has_root_def map_of_eq_None_iff)
  then obtain r where r: "add_repository supported root (wk_repositories w) = (Inr r, wk_repositories w @ [(root, r)])"
      "r \<notin> snd ` set (wk_repositories w)" "root \<notin> fst ` set (wk_repositories w)"
    using add_repository_new [where supported = supported, OF assms(4)] by (metis map_of_eq_None_iff)
  let ?w = "w\<lparr>wk_repositories := wk_repositories w @ [(root, r)]\<rparr>"
  let ?rg = "\<lparr>wg_workspaces = AList.update i ?w (wg_workspaces rg), wg_ids_by_root = AList.update root i (wg_ids_by_root rg)\<rparr>"
  have run: "registry_add_repository root_of supported i path rg =
      (Inr \<lparr>os_workspace = i, os_root = root, os_repository = r, os_reused = False\<rparr>, ?rg)"
    using assms r by (simp add: registry_add_repository_def get_workspace_def attachments_def visit_repository_def)
  have ok: "wk_id w = i" "workspace_ok w" using assms(1) w by (auto simp: registry_ok_def)
  have "workspace_ok ?w" using ok r by (auto simp: workspace_ok_def)
  moreover have "has_root ?rg j q \<longleftrightarrow> has_root rg j q \<or> (j = i \<and> q = root)" for j q using w by (auto simp: has_root_def)
  moreover have "map_of (wg_ids_by_root ?rg) q = Some j \<longleftrightarrow> map_of (wg_ids_by_root rg) q = Some j \<or> (j = i \<and> q = root)" for j q
    using assms(3) by (auto simp: attachments_def)
  ultimately have "registry_ok ?rg" using assms(1) ok unfolding registry_ok_def by simp
  then show ?thesis using run by (intro exI [of _ r] exI [of _ ?rg]) (simp add: attachments_def)
qed

lemma close_known:
  assumes "registry_ok rg" and w: "map_of (wg_workspaces rg) i = Some w"
  shows "\<exists>rg'. registry_close_workspace i rg = (Inr (), rg') \<and>
     attachments rg' = (\<lambda>root. if attachments rg root = Some i then None else attachments rg root) \<and> registry_ok rg' \<and>
     map_of (wg_workspaces rg') = (map_of (wg_workspaces rg))(i := None)"
proof -
  let ?rg = "\<lparr>wg_workspaces = AList.delete i (wg_workspaces rg),
              wg_ids_by_root = fold (\<lambda>(r, j). AList.delete r) (wk_repositories w) (wg_ids_by_root rg)\<rparr>"
  have mine: "attachments rg root = Some i \<longleftrightarrow> root \<in> fst ` set (wk_repositories w)" for root
    using assms by (auto simp: registry_ok_def has_root_def attachments_def)
  have abs: "attachments ?rg = (\<lambda>root. if attachments rg root = Some i then None else attachments rg root)"
    by (rule ext) (simp add: attachments_def map_of_delete_all mine [unfolded attachments_def])
  have "map_of (wg_ids_by_root ?rg) root = Some j \<longleftrightarrow> has_root ?rg j root" for root j
  proof -
    have "attachments ?rg root = Some j \<longleftrightarrow> j \<noteq> i \<and> attachments rg root = Some j" by (auto simp: abs)
    also have "\<dots> \<longleftrightarrow> has_root ?rg j root" using assms(1) by (auto simp: registry_ok_def attachments_def has_root_def)
    finally show ?thesis by (simp add: attachments_def)
  qed
  then have "registry_ok ?rg" using assms(1) by (simp add: registry_ok_def)
  then show ?thesis using w abs by (auto simp: registry_close_workspace_def)
qed

section \<open>The registry refines a map from roots to workspaces\<close>

datatype registry_op = Open_Workspace string | Add_Repository string string | Close_Workspace string

definition run_op :: "(string \<Rightarrow> string result) \<Rightarrow> (string \<Rightarrow> bool) \<Rightarrow> string \<Rightarrow> registry_op \<Rightarrow> workspace_registry \<Rightarrow> workspace_registry" where
  "run_op root_of supported available op rg =
     (case op of
        Open_Workspace path \<Rightarrow> snd (registry_open_workspace root_of supported available path rg)
      | Add_Repository i path \<Rightarrow> snd (registry_add_repository root_of supported i path rg)
      | Close_Workspace i \<Rightarrow> snd (registry_close_workspace i rg))"

definition spec_op :: "(string \<Rightarrow> string result) \<Rightarrow> (string \<Rightarrow> bool) \<Rightarrow> registry_op \<Rightarrow> (string \<Rightarrow> string option) \<Rightarrow> string \<Rightarrow> string option" where
  "spec_op root_of supported op m =
     (case op of
        Open_Workspace path \<Rightarrow> (case root_of path of
            Inl e \<Rightarrow> m
          | Inr root \<Rightarrow> if m root = None \<and> supported root then m(root \<mapsto> ''workspace:'' @ root_name root) else m)
      | Add_Repository i path \<Rightarrow> (case root_of path of
            Inl e \<Rightarrow> m
          | Inr root \<Rightarrow> if m root = None \<and> supported root \<and> i \<in> ran m then m(root \<mapsto> i) else m)
      | Close_Workspace i \<Rightarrow> (\<lambda>root. if m root = Some i then None else m root))"

text \<open>A workspace may be opened for a new root only while no open workspace has the root's directory name.\<close>

definition name_free :: "(string \<Rightarrow> string result) \<Rightarrow> (string \<Rightarrow> bool) \<Rightarrow> registry_op \<Rightarrow> (string \<Rightarrow> string option) \<Rightarrow> bool" where
  "name_free root_of supported op m \<longleftrightarrow>
     (case op of
        Open_Workspace path \<Rightarrow> (case root_of path of
            Inl e \<Rightarrow> True
          | Inr root \<Rightarrow> m root = None \<and> supported root \<longrightarrow> ''workspace:'' @ root_name root \<notin> ran m)
      | _ \<Rightarrow> True)"

lemma workspace_open: "registry_ok rg \<Longrightarrow> i \<in> ran (attachments rg) \<longleftrightarrow> (\<exists>w. map_of (wg_workspaces rg) i = Some w)"
proof
  assume ok: "registry_ok rg" and "\<exists>w. map_of (wg_workspaces rg) i = Some w"
  then obtain w where w: "map_of (wg_workspaces rg) i = Some w" by blast
  then have "wk_repositories w \<noteq> []" using ok by (auto simp: registry_ok_def workspace_ok_def)
  then have "has_root rg i (fst (hd (wk_repositories w)))" using w by (auto simp: has_root_def)
  then show "i \<in> ran (attachments rg)" using ok by (auto simp: registry_ok_def attachments_def ran_def)
qed (auto simp: registry_ok_def attachments_def ran_def has_root_def)

lemma visit_unsupported: "\<not> supported root \<Longrightarrow> snd (visit_repository supported i root rg) = rg"
  by (auto simp: visit_repository_def add_repository_def split: option.splits)

lemma visit_keeps:
  assumes "registry_ok rg" and "attachments rg root = Some i"
  shows "attachments (snd (visit_repository supported i root rg)) = attachments rg \<and> registry_ok (snd (visit_repository supported i root rg))"
proof (cases "supported root")
  case True
  then show ?thesis using visit_known [of rg root i supported] assms by auto
qed (simp add: visit_unsupported assms)

lemma step_refines:
  assumes ok: "registry_ok rg" and free: "name_free root_of supported op (attachments rg)"
  shows "registry_ok (run_op root_of supported available op rg) \<and>
    attachments (run_op root_of supported available op rg) = spec_op root_of supported op (attachments rg)"
proof (cases op)
  case (Open_Workspace path)
  show ?thesis
  proof (cases "root_of path")
    case (Inl e)
    then show ?thesis using Open_Workspace ok by (simp add: run_op_def spec_op_def registry_open_workspace_def)
  next
    case (Inr root)
    show ?thesis
    proof (cases "attachments rg root")
      case None
      show ?thesis
      proof (cases "supported root")
        case True
        have "map_of (wg_workspaces rg) (''workspace:'' @ root_name root) = None"
          using free workspace_open [OF ok] True None Inr Open_Workspace by (simp add: name_free_def)
        then show ?thesis using open_new [where root_of = root_of and supported = supported and available = available, OF ok Inr None True]
            Open_Workspace Inr None True by (auto simp: run_op_def spec_op_def)
      next
        case False
        then show ?thesis using Open_Workspace Inr None ok
          by (simp add: run_op_def spec_op_def registry_open_workspace_def attachments_def new_workspace_def)
      qed
    next
      case (Some i)
      have "run_op root_of supported available op rg = snd (visit_repository supported i root rg)"
        using Open_Workspace Inr Some
        by (auto simp: run_op_def registry_open_workspace_def attachments_def split: prod.splits sum.splits)
      then show ?thesis using visit_keeps [OF ok Some, of supported] Open_Workspace Inr Some by (simp add: spec_op_def)
    qed
  qed
next
  case (Add_Repository i path)
  show ?thesis
  proof (cases "root_of path")
    case (Inl e)
    then show ?thesis using Add_Repository ok by (simp add: run_op_def spec_op_def registry_add_repository_def)
  next
    case (Inr root)
    show ?thesis
    proof (cases "map_of (wg_workspaces rg) i")
      case None
      then have "i \<notin> ran (attachments rg)" using workspace_open [OF ok] by simp
      then show ?thesis using Add_Repository Inr None ok
        by (simp add: run_op_def spec_op_def registry_add_repository_def get_workspace_def)
    next
      case (Some w)
      then have i: "i \<in> ran (attachments rg)" using workspace_open [OF ok] by simp
      show ?thesis
      proof (cases "attachments rg root")
        case None
        show ?thesis
        proof (cases "supported root")
          case True
          show ?thesis using add_new [where root_of = root_of and supported = supported, OF ok Inr None True Some] Add_Repository Inr None True i
            by (auto simp: run_op_def spec_op_def)
        next
          case False
          have "run_op root_of supported available op rg = rg"
            using Add_Repository Inr None Some False
            by (simp add: run_op_def registry_add_repository_def get_workspace_def attachments_def visit_repository_def add_repository_def)
          then show ?thesis using Add_Repository Inr None ok False by (simp add: spec_op_def)
        qed
      next
        case (Some j)
        have "run_op root_of supported available op rg = snd (visit_repository supported j root rg)"
          using Add_Repository Inr Some \<open>map_of (wg_workspaces rg) i = Some w\<close>
          by (auto simp: run_op_def registry_add_repository_def get_workspace_def attachments_def split: prod.splits sum.splits)
        then show ?thesis using visit_keeps [OF ok Some, of supported] Add_Repository Inr Some by (simp add: spec_op_def)
      qed
    qed
  qed
next
  case (Close_Workspace i)
  show ?thesis
  proof (cases "map_of (wg_workspaces rg) i")
    case None
    then have "i \<notin> ran (attachments rg)" using workspace_open [OF ok] by simp
    then have "(\<lambda>root. if attachments rg root = Some i then None else attachments rg root) = attachments rg" by (auto simp: ran_def)
    then show ?thesis using Close_Workspace None ok by (simp add: run_op_def spec_op_def registry_close_workspace_def)
  next
    case (Some w)
    show ?thesis using close_known [OF ok Some] Close_Workspace by (auto simp: run_op_def spec_op_def)
  qed
qed

fun names_free :: "(string \<Rightarrow> string result) \<Rightarrow> (string \<Rightarrow> bool) \<Rightarrow> registry_op list \<Rightarrow> (string \<Rightarrow> string option) \<Rightarrow> bool" where
  "names_free root_of supported [] m \<longleftrightarrow> True"
| "names_free root_of supported (op # ops) m \<longleftrightarrow>
     name_free root_of supported op m \<and> names_free root_of supported ops (spec_op root_of supported op m)"

definition empty_registry :: workspace_registry where
  "empty_registry = \<lparr>wg_workspaces = [], wg_ids_by_root = []\<rparr>"

lemma empty_registry_ok: "registry_ok empty_registry" "attachments empty_registry = Map.empty"
  by (auto simp: empty_registry_def registry_ok_def has_root_def attachments_def)

lemma runs_refine:
  assumes "registry_ok rg" and "names_free root_of supported ops (attachments rg)"
  shows "registry_ok (fold (run_op root_of supported available) ops rg) \<and>
    attachments (fold (run_op root_of supported available) ops rg) = fold (spec_op root_of supported) ops (attachments rg)"
  using assms
proof (induction ops arbitrary: rg)
  case (Cons op ops)
  then have free: "name_free root_of supported op (attachments rg)"
    and rest: "names_free root_of supported ops (spec_op root_of supported op (attachments rg))" by simp_all
  note step = step_refines [OF Cons.prems(1) free, of available]
  show ?case using Cons.IH [of "run_op root_of supported available op rg"] step rest by simp
qed simp


definition sample_ops :: "registry_op list" where
  "sample_ops = [Open_Workspace ''/a/x'', Add_Repository ''workspace:x'' ''/b/x'', Open_Workspace ''/c/y'', Close_Workspace ''workspace:y'']"


text \<open>
  The id of a workspace is only the directory name of its first root. Opening a second root with the same name
  replaces the first workspace: the ids that were handed out for the first root now lead to the second, and
  once that workspace is closed the first root cannot be opened any more, the registry raises \<open>KeyError\<close>.
\<close>

theorem same_name_replaces_workspace:
  assumes ok: "registry_ok rg" and a: "root_of p = Inr a" "supported a" "attachments rg a = None"
    and b: "root_of q = Inr b" "supported b" "attachments rg b = None" and "a \<noteq> b" and "root_name a = root_name b"
    and fresh: "map_of (wg_workspaces rg) (''workspace:'' @ root_name a) = None"
  shows "\<exists>w r rg1 rg2 rg3. registry_open_workspace root_of supported available p rg =
       (Inr \<lparr>os_workspace = w, os_root = a, os_repository = r, os_reused = False\<rparr>, rg1) \<and>
     registry_get_repository rg1 w r = Inr a \<and>
     registry_open_workspace root_of supported available q rg1 =
       (Inr \<lparr>os_workspace = w, os_root = b, os_repository = r, os_reused = False\<rparr>, rg2) \<and>
     registry_get_repository rg2 w r = Inr b \<and> attachments rg2 a = Some w \<and> \<not> has_root rg2 w a \<and>
     registry_close_workspace w rg2 = (Inr (), rg3) \<and>
     registry_open_workspace root_of supported available p rg3 = (Inl (McpRaised (KeyErr w)), rg3)"
proof -
  let ?w = "''workspace:'' @ root_name a" and ?r = "''repo:'' @ root_name a"
  obtain rg1 where one: "registry_open_workspace root_of supported available p rg =
       (Inr \<lparr>os_workspace = ?w, os_root = a, os_repository = ?r, os_reused = False\<rparr>, rg1)"
      "attachments rg1 = (attachments rg)(a \<mapsto> ?w)" "registry_ok rg1"
      "map_of (wg_workspaces rg1) ?w = Some \<lparr>wk_id = ?w, wk_repositories = [(a, ?r)]\<rparr>"
    using open_new [where root_of = root_of and supported = supported and available = available, OF ok a(1,3,2)] fresh by auto
  have "attachments rg1 b = None" using one(2) b(3) \<open>a \<noteq> b\<close> by simp
  from open_new [where root_of = root_of and supported = supported and available = available, OF one(3) b(1) this b(2)] \<open>root_name a = root_name b\<close>
  obtain rg2 where two: "registry_open_workspace root_of supported available q rg1 =
       (Inr \<lparr>os_workspace = ?w, os_root = b, os_repository = ?r, os_reused = False\<rparr>, rg2)"
      "attachments rg2 = (attachments rg1)(b \<mapsto> ?w)" "map_of (wg_workspaces rg2) ?w = Some \<lparr>wk_id = ?w, wk_repositories = [(b, ?r)]\<rparr>"
    by auto
  let ?rg3 = "\<lparr>wg_workspaces = AList.delete ?w (wg_workspaces rg2), wg_ids_by_root = AList.delete b (wg_ids_by_root rg2)\<rparr>"
  have close: "registry_close_workspace ?w rg2 = (Inr (), ?rg3)" using two(3) by (simp add: registry_close_workspace_def)
  have "attachments rg2 a = Some ?w" using two(2) one(2) \<open>a \<noteq> b\<close> by simp
  moreover from this have "registry_open_workspace root_of supported available p ?rg3 = (Inl (McpRaised (KeyErr ?w)), ?rg3)"
    using a(1) \<open>a \<noteq> b\<close> by (simp add: registry_open_workspace_def attachments_def visit_repository_def)
  moreover have "registry_get_repository rg1 ?w ?r = Inr a" "registry_get_repository rg2 ?w ?r = Inr b" "\<not> has_root rg2 ?w a"
    using one(4) two(3) \<open>a \<noteq> b\<close> by (simp_all add: registry_get_repository_def get_workspace_def get_repository_by_id_def has_root_def)
  ultimately show ?thesis using one(1) two(1) close by blast
qed

theorem same_name_replaces_workspace_witness:
  "\<exists>w r rg1 rg2. registry_open_workspace Inr (\<lambda>r. True) ''npm'' ''/a/x'' empty_registry =
       (Inr \<lparr>os_workspace = w, os_root = ''/a/x'', os_repository = r, os_reused = False\<rparr>, rg1) \<and>
     registry_open_workspace Inr (\<lambda>r. True) ''npm'' ''/b/x'' rg1 =
       (Inr \<lparr>os_workspace = w, os_root = ''/b/x'', os_repository = r, os_reused = False\<rparr>, rg2) \<and>
     registry_get_repository rg2 w r = Inr ''/b/x''"
proof -
  have "root_name ''/a/x'' = root_name ''/b/x''" by (simp add: root_name_def)
  moreover have "map_of (wg_workspaces empty_registry) (''workspace:'' @ root_name ''/a/x'') = None" by (simp add: empty_registry_def)
  ultimately show ?thesis
    using same_name_replaces_workspace [where root_of = Inr and supported = "\<lambda>r. True" and p = "''/a/x''" and q = "''/b/x''"
        and a = "''/a/x''" and b = "''/b/x''" and available = "''npm''", OF empty_registry_ok(1)]
    by (force simp: empty_registry_ok(2))
qed

end
