(* ===== verification/Lsp_Protocol.thy ===== *)
theory Lsp_Protocol
  imports Prelude Complex_Main
begin

text \<open>
  What language servers answer (\<open>providers/shared/lsp/messages.py\<close>, \<open>protocol.py\<close>) and how the coordinator
  passes it on (\<open>runtime/lsp_payloads.py\<close>). A decoded JSON value is a \<open>json\<close>; tuples and lists are both
  \<open>JList\<close>. The keys of an object are distinct in Python; lookups take the first entry.
\<close>

section \<open>JSON values\<close>

datatype json =
    JNull
  | JBool bool
  | JInt int
  | JFloat rat
  | JStr string
  | JList "json list"
  | JObj "(string \<times> json) list"

text \<open>\<open>d.get(key)\<close>, and \<open>isinstance(value, int)\<close>, which holds for booleans too.\<close>

definition json_get :: "string \<Rightarrow> (string \<times> json) list \<Rightarrow> json" where
  "json_get k entries = (case map_of entries k of None \<Rightarrow> JNull | Some v \<Rightarrow> v)"

fun as_int :: "json \<Rightarrow> int option" where
  "as_int (JInt i) = Some i"
| "as_int (JBool b) = Some (of_bool b)"
| "as_int j = None"

fun as_str :: "json \<Rightarrow> string option" where
  "as_str (JStr s) = Some s"
| "as_str j = None"

fun as_obj :: "json \<Rightarrow> (string \<times> json) list option" where
  "as_obj (JObj entries) = Some entries"
| "as_obj j = None"

fun as_list :: "json \<Rightarrow> json list option" where
  "as_list (JList items) = Some items"
| "as_list j = None"

text \<open>The value is a string or \<open>None\<close>.\<close>

fun as_optional_str :: "json \<Rightarrow> (string option) option" where
  "as_optional_str JNull = Some None"
| "as_optional_str (JStr s) = Some (Some s)"
| "as_optional_str j = None"

section \<open>Messages\<close>

datatype lsp_error = LspProtocol string | LspTimeout string | LspProcess string | LspRaised err

record lsp_position =
  lp_line :: int
  lp_character :: int

record lsp_range =
  lr_start :: lsp_position
  lr_end :: lsp_position

record lsp_location =
  ll_uri :: string
  ll_range :: lsp_range

record lsp_location_link =
  lk_target_uri :: string
  lk_target_range :: lsp_range
  lk_target_selection_range :: "lsp_range option"

record lsp_workspace_symbol =
  lw_name :: string
  lw_kind :: int
  lw_location :: "lsp_location option"
  lw_container_name :: "string option"

datatype lsp_document_symbol =
  LspDocumentSymbol (ld_name: string) (ld_kind: int) (ld_range: lsp_range) (ld_selection_range: lsp_range)
    (ld_detail: "string option") (ld_container_name: "string option") (ld_children: "lsp_document_symbol list")

section \<open>The parser\<close>

definition protocol :: "string \<Rightarrow> 'a option \<Rightarrow> lsp_error + 'a" where
  "protocol m = of_option (LspProtocol m)"

definition parse_position :: "json \<Rightarrow> lsp_error + lsp_position" where
  "parse_position payload =
     ebind (protocol ''position payload must be an object'' (as_obj payload)) (\<lambda>entries.
     case (as_int (json_get ''line'' entries), as_int (json_get ''character'' entries)) of
       (Some l, Some c) \<Rightarrow> Inr \<lparr>lp_line = l, lp_character = c\<rparr>
     | _ \<Rightarrow> Inl (LspProtocol ''position line and character must be integers''))"

definition parse_range :: "json \<Rightarrow> lsp_error + lsp_range" where
  "parse_range payload =
     ebind (protocol ''range payload must be an object'' (as_obj payload)) (\<lambda>entries.
     ebind (parse_position (json_get ''start'' entries)) (\<lambda>s.
     ebind (parse_position (json_get ''end'' entries)) (\<lambda>e.
       Inr \<lparr>lr_start = s, lr_end = e\<rparr>)))"

definition parse_location :: "json \<Rightarrow> lsp_error + lsp_location" where
  "parse_location payload =
     ebind (protocol ''location payload must be an object'' (as_obj payload)) (\<lambda>entries.
     ebind (protocol ''location uri must be a string'' (as_str (json_get ''uri'' entries))) (\<lambda>uri.
     ebind (parse_range (json_get ''range'' entries)) (\<lambda>r.
       Inr \<lparr>ll_uri = uri, ll_range = r\<rparr>)))"

text \<open>An optional part is parsed unless it is missing or \<open>None\<close>.\<close>

definition unless_null :: "(json \<Rightarrow> lsp_error + 'a) \<Rightarrow> json \<Rightarrow> lsp_error + 'a option" where
  "unless_null parse payload = (if payload = JNull then Inr None else ebind (parse payload) (\<lambda>x. Inr (Some x)))"

definition parse_location_link :: "json \<Rightarrow> lsp_error + lsp_location_link" where
  "parse_location_link payload =
     ebind (protocol ''location link payload must be an object'' (as_obj payload)) (\<lambda>entries.
     ebind (protocol ''location link targetUri must be a string'' (as_str (json_get ''targetUri'' entries))) (\<lambda>uri.
     ebind (check (json_get ''targetRange'' entries \<noteq> JNull) (LspProtocol ''location link targetRange is required'')) (\<lambda>_.
     ebind (parse_range (json_get ''targetRange'' entries)) (\<lambda>r.
     ebind (unless_null parse_range (json_get ''targetSelectionRange'' entries)) (\<lambda>s.
       Inr \<lparr>lk_target_uri = uri, lk_target_range = r, lk_target_selection_range = s\<rparr>)))))"

definition link_location :: "lsp_location_link \<Rightarrow> lsp_location" where
  "link_location k =
     \<lparr>ll_uri = lk_target_uri k,
      ll_range = (case lk_target_selection_range k of Some r \<Rightarrow> r | None \<Rightarrow> lk_target_range k)\<rparr>"

text \<open>A location or a link, told apart by their keys.\<close>

definition parse_location_or_link :: "string \<Rightarrow> (string \<times> json) list \<Rightarrow> lsp_error + lsp_location" where
  "parse_location_or_link otherwise entries =
     (if ''uri'' \<in> fst ` set entries then parse_location (JObj entries)
      else if ''targetUri'' \<in> fst ` set entries
      then ebind (parse_location_link (JObj entries)) (\<lambda>k. Inr (link_location k))
      else Inl (LspProtocol otherwise))"

fun parse_locations :: "json \<Rightarrow> lsp_error + lsp_location list" where
  "parse_locations JNull = Inr []"
| "parse_locations (JObj entries) =
     ebind (parse_location_or_link ''location response object must be a Location or LocationLink'' entries) (\<lambda>l. Inr [l])"
| "parse_locations (JList items) =
     mapE (\<lambda>item.
       ebind (protocol ''definition/reference/implementation list items must be objects'' (as_obj item)) (\<lambda>entries.
         parse_location_or_link ''definition/reference/implementation list items must be Location or LocationLink objects'' entries))
       items"
| "parse_locations j =
     Inl (LspProtocol ''definition/reference/implementation response must be a location, a list of locations, or null'')"

definition parse_workspace_symbol :: "json \<Rightarrow> lsp_error + lsp_workspace_symbol" where
  "parse_workspace_symbol payload =
     ebind (protocol ''workspace symbol payload must be an object'' (as_obj payload)) (\<lambda>entries.
     ebind (protocol ''workspace symbol name must be a string'' (as_str (json_get ''name'' entries))) (\<lambda>name.
     ebind (protocol ''workspace symbol kind must be an integer'' (as_int (json_get ''kind'' entries))) (\<lambda>kind.
     ebind (protocol ''workspace symbol containerName must be a string when present''
       (as_optional_str (json_get ''containerName'' entries))) (\<lambda>container.
     ebind (unless_null parse_location (json_get ''location'' entries)) (\<lambda>l.
       Inr \<lparr>lw_name = name, lw_kind = kind, lw_location = l, lw_container_name = container\<rparr>)))))"

fun parse_workspace_symbols :: "json \<Rightarrow> lsp_error + lsp_workspace_symbol list" where
  "parse_workspace_symbols JNull = Inr []"
| "parse_workspace_symbols (JList items) = mapE parse_workspace_symbol items"
| "parse_workspace_symbols j = Inl (LspProtocol ''workspace/symbol response must be a list or null'')"

definition parse_document_symbol_information :: "(string \<times> json) list \<Rightarrow> lsp_error + lsp_document_symbol" where
  "parse_document_symbol_information entries =
     ebind (protocol ''document symbol name must be a string'' (as_str (json_get ''name'' entries))) (\<lambda>name.
     ebind (protocol ''document symbol kind must be an integer'' (as_int (json_get ''kind'' entries))) (\<lambda>kind.
     ebind (protocol ''document symbol containerName must be a string when present''
       (as_optional_str (json_get ''containerName'' entries))) (\<lambda>container.
     ebind (parse_location (json_get ''location'' entries)) (\<lambda>l.
       Inr (LspDocumentSymbol name kind (ll_range l) (ll_range l) None container [])))))"

text \<open>\<open>payload.get("children", [])\<close>: missing children are none, but \<open>null\<close> is an error.\<close>

definition children_payload :: "(string \<times> json) list \<Rightarrow> json" where
  "children_payload entries = (case map_of entries ''children'' of None \<Rightarrow> JList [] | Some j \<Rightarrow> j)"

lemma size_field: "map_of entries k = Some v \<Longrightarrow> size v < Suc (size_list (size_prod (\<lambda>x. 0) size) entries)"
  by (induction entries) (auto split: if_splits)

lemma children_smaller:
  assumes "as_obj j = Some entries" and "as_list (children_payload entries) = Some items" and "x \<in> set items"
  shows "size x < size j"
proof -
  obtain v where v: "map_of entries ''children'' = Some v" "as_list v = Some items"
    using assms(2,3) by (auto simp: children_payload_def split: option.splits)
  have "size x < size (JList items)" using assms(3) by (induction items) auto
  also have "JList items = v" using v(2) by (cases v) auto
  also have "size v < size (JObj entries)" using size_field [OF v(1)] by simp
  also have "JObj entries = j" using assms(1) by (cases j) auto
  finally show ?thesis .
qed

lemma protocol_Inr [simp]: "protocol m x = Inr y \<longleftrightarrow> x = Some y"
  by (cases x) (simp_all add: protocol_def of_option_def)

function parse_document_symbol :: "json \<Rightarrow> lsp_error + lsp_document_symbol" where
  "parse_document_symbol payload =
     ebind (protocol ''document symbol payload must be an object'' (as_obj payload)) (\<lambda>entries.
     if ''location'' \<in> fst ` set entries then parse_document_symbol_information entries else
     ebind (protocol ''document symbol name must be a string'' (as_str (json_get ''name'' entries))) (\<lambda>name.
     ebind (protocol ''document symbol kind must be an integer'' (as_int (json_get ''kind'' entries))) (\<lambda>kind.
     ebind (protocol ''document symbol detail must be a string when present''
       (as_optional_str (json_get ''detail'' entries))) (\<lambda>detail.
     ebind (protocol ''document symbol containerName must be a string when present''
       (as_optional_str (json_get ''containerName'' entries))) (\<lambda>container.
     ebind (protocol ''document symbol children must be a list when present'' (as_list (children_payload entries))) (\<lambda>items.
     ebind (parse_range (json_get ''range'' entries)) (\<lambda>r.
     ebind (parse_range (json_get ''selectionRange'' entries)) (\<lambda>s.
     ebind (mapE parse_document_symbol items) (\<lambda>children.
       Inr (LspDocumentSymbol name kind r s detail container children))))))))))"
  by pat_completeness auto
termination by (relation "measure size") (auto intro: children_smaller)

fun parse_document_symbols :: "json \<Rightarrow> lsp_error + lsp_document_symbol list" where
  "parse_document_symbols JNull = Inr []"
| "parse_document_symbols (JList items) = mapE parse_document_symbol items"
| "parse_document_symbols j = Inl (LspProtocol ''textDocument/documentSymbol response must be a list or null'')"

declare parse_document_symbol.simps [simp del]


section \<open>The coordinator's payloads\<close>

definition require :: "string \<Rightarrow> string \<Rightarrow> 'a option \<Rightarrow> 'a result" where
  "require k what = of_option (ValueErr (''payload field '' @ quoted k @ '' must be '' @ what))"

definition require_dict :: "(string \<times> json) list \<Rightarrow> string \<Rightarrow> (string \<times> json) list result" where
  "require_dict item k = require k ''an object'' (as_obj (json_get k item))"

definition require_str :: "(string \<times> json) list \<Rightarrow> string \<Rightarrow> string result" where
  "require_str item k = require k ''a string'' (as_str (json_get k item))"

definition optional_payload_str :: "(string \<times> json) list \<Rightarrow> string \<Rightarrow> string option result" where
  "optional_payload_str item k = require k ''a string when present'' (as_optional_str (json_get k item))"

definition require_int :: "(string \<times> json) list \<Rightarrow> string \<Rightarrow> int result" where
  "require_int item k = require k ''an integer'' (as_int (json_get k item))"

definition json_optional :: "string option \<Rightarrow> json" where
  "json_optional x = (case x of None \<Rightarrow> JNull | Some s \<Rightarrow> JStr s)"

definition position_to_dict :: "lsp_position \<Rightarrow> (string \<times> json) list" where
  "position_to_dict p = [(''line'', JInt (lp_line p)), (''character'', JInt (lp_character p))]"

definition position_from_dict :: "(string \<times> json) list \<Rightarrow> lsp_position result" where
  "position_from_dict item =
     ebind (require_int item ''line'') (\<lambda>l.
     ebind (require_int item ''character'') (\<lambda>c. Inr \<lparr>lp_line = l, lp_character = c\<rparr>))"

definition range_to_dict :: "lsp_range \<Rightarrow> (string \<times> json) list" where
  "range_to_dict r = [(''start'', JObj (position_to_dict (lr_start r))), (''end'', JObj (position_to_dict (lr_end r)))]"

definition range_from_dict :: "(string \<times> json) list \<Rightarrow> lsp_range result" where
  "range_from_dict item =
     ebind (require_dict item ''start'') (\<lambda>d. ebind (position_from_dict d) (\<lambda>s.
     ebind (require_dict item ''end'') (\<lambda>d. ebind (position_from_dict d) (\<lambda>e.
       Inr \<lparr>lr_start = s, lr_end = e\<rparr>))))"

definition location_to_dict :: "lsp_location \<Rightarrow> (string \<times> json) list" where
  "location_to_dict l = [(''uri'', JStr (ll_uri l)), (''range'', JObj (range_to_dict (ll_range l)))]"

definition location_from_dict :: "(string \<times> json) list \<Rightarrow> lsp_location result" where
  "location_from_dict item =
     ebind (require_str item ''uri'') (\<lambda>u.
     ebind (require_dict item ''range'') (\<lambda>d. ebind (range_from_dict d) (\<lambda>r.
       Inr \<lparr>ll_uri = u, ll_range = r\<rparr>)))"

definition workspace_symbol_to_dict :: "lsp_workspace_symbol \<Rightarrow> (string \<times> json) list" where
  "workspace_symbol_to_dict s =
     [(''name'', JStr (lw_name s)), (''kind'', JInt (lw_kind s)), (''container_name'', json_optional (lw_container_name s)),
      (''location'', case lw_location s of None \<Rightarrow> JNull | Some l \<Rightarrow> JObj (location_to_dict l))]"

definition workspace_symbol_from_dict :: "(string \<times> json) list \<Rightarrow> lsp_workspace_symbol result" where
  "workspace_symbol_from_dict item =
     (let l = json_get ''location'' item in
      ebind (check (l = JNull \<or> as_obj l \<noteq> None) (ValueErr ''workspace symbol location payload must be an object when present'')) (\<lambda>_.
      ebind (require_str item ''name'') (\<lambda>name.
      ebind (require_int item ''kind'') (\<lambda>kind.
      ebind (optional_payload_str item ''container_name'') (\<lambda>container.
      ebind (case as_obj l of None \<Rightarrow> Inr None | Some d \<Rightarrow> ebind (location_from_dict d) (\<lambda>x. Inr (Some x))) (\<lambda>x.
        Inr \<lparr>lw_name = name, lw_kind = kind, lw_location = x, lw_container_name = container\<rparr>))))))"

primrec document_symbol_to_dict :: "lsp_document_symbol \<Rightarrow> (string \<times> json) list" where
  "document_symbol_to_dict (LspDocumentSymbol name kind r s detail container children) =
     [(''name'', JStr name), (''kind'', JInt kind), (''detail'', json_optional detail), (''container_name'', json_optional container),
      (''range'', JObj (range_to_dict r)), (''selection_range'', JObj (range_to_dict s)),
      (''children'', JList (map JObj (map document_symbol_to_dict children)))]"

lemma payload_child_smaller:
  assumes "as_list (json_get ''children'' item) = Some items" and "d \<in> set (List.map_filter as_obj items)"
  shows "size_list (size_prod (\<lambda>x. 0) size) d < size_list (size_prod (\<lambda>x. 0) size) item"
proof -
  obtain j where j: "j \<in> set items" "as_obj j = Some d" using assms(2) by (auto simp: map_filter_def)
  obtain v where v: "map_of item ''children'' = Some v" "as_list v = Some items"
    using assms(1) by (auto simp: json_get_def split: option.splits)
  have "Suc (size_list (size_prod (\<lambda>x. 0) size) d) = size j" using j(2) by (cases j) auto
  also have "size j < size (JList items)" using j(1) by (induction items) auto
  also have "JList items = v" using v(2) by (cases v) auto
  also have "size v < Suc (size_list (size_prod (\<lambda>x. 0) size) item)" by (rule size_field [OF v(1)])
  finally show ?thesis by simp
qed

text \<open>Children that are no objects are skipped.\<close>

function document_symbol_from_dict :: "(string \<times> json) list \<Rightarrow> lsp_document_symbol result" where
  "document_symbol_from_dict item =
     ebind (of_option (ValueErr ''document symbol children payload must be a list'') (as_list (json_get ''children'' item))) (\<lambda>items.
     ebind (require_str item ''name'') (\<lambda>name.
     ebind (require_int item ''kind'') (\<lambda>kind.
     ebind (optional_payload_str item ''detail'') (\<lambda>detail.
     ebind (optional_payload_str item ''container_name'') (\<lambda>container.
     ebind (require_dict item ''range'') (\<lambda>d. ebind (range_from_dict d) (\<lambda>r.
     ebind (require_dict item ''selection_range'') (\<lambda>d. ebind (range_from_dict d) (\<lambda>s.
     ebind (mapE document_symbol_from_dict (List.map_filter as_obj items)) (\<lambda>children.
       Inr (LspDocumentSymbol name kind r s detail container children)))))))))))"
  by pat_completeness auto
termination
  by (relation "measure (size_list (size_prod (\<lambda>x. 0) size))")
    (auto simp: of_option_Inr_iff intro: payload_child_smaller)

declare document_symbol_from_dict.simps [simp del]

lemma require_simps [simp]:
  "require_dict ((k, JObj d) # item) k = Inr d" "require_str ((k, JStr s) # item) k = Inr s"
  "require_int ((k, JInt i) # item) k = Inr i" "optional_payload_str ((k, json_optional x) # item) k = Inr x"
  by (simp_all add: require_dict_def require_str_def require_int_def optional_payload_str_def require_def of_option_def
      json_get_def json_optional_def split: option.split)

lemma require_skip [simp]:
  assumes "k' \<noteq> k"
  shows "require_dict ((k', v) # item) k = require_dict item k" "require_str ((k', v) # item) k = require_str item k"
    "require_int ((k', v) # item) k = require_int item k" "optional_payload_str ((k', v) # item) k = optional_payload_str item k"
    "json_get k ((k', v) # item) = json_get k item"
  using assms by (simp_all add: require_dict_def require_str_def require_int_def optional_payload_str_def json_get_def)

lemma json_get_here [simp]: "json_get k ((k, v) # item) = v" "json_get k [] = JNull"
  by (simp_all add: json_get_def)

lemma position_payload [simp]: "position_from_dict (position_to_dict p) = Inr p"
  by (simp add: position_from_dict_def position_to_dict_def)

lemma range_payload [simp]: "range_from_dict (range_to_dict r) = Inr r"
  by (simp add: range_from_dict_def range_to_dict_def)

lemma location_payload [simp]: "location_from_dict (location_to_dict l) = Inr l"
  by (simp add: location_from_dict_def location_to_dict_def)

lemma workspace_symbol_payload [simp]: "workspace_symbol_from_dict (workspace_symbol_to_dict s) = Inr s"
  by (cases "lw_location s") (simp_all add: workspace_symbol_from_dict_def workspace_symbol_to_dict_def Let_def)

lemma map_filter_objects [simp]: "List.map_filter as_obj (map JObj ds) = ds"
  by (induction ds) (simp_all add: map_filter_def)

lemma document_symbol_payload [simp]: "document_symbol_from_dict (document_symbol_to_dict s) = Inr s"
proof (induction s)
  case (LspDocumentSymbol name kind r s detail container children)
  have "mapE document_symbol_from_dict (map document_symbol_to_dict children) = Inr children"
    using LspDocumentSymbol by (induction children) auto
  then show ?case by (simp add: document_symbol_from_dict.simps of_option_def del: map_map)
qed

end
