(* ===== verification/Lsp_Wire.thy ===== *)
theory Lsp_Wire
  imports Lsp_Protocol Lsp_Probe Code_Intelligence
begin

text \<open>
  Messages on the wire (\<open>_write_message\<close>, \<open>_read_message\<close> and \<open>_reader_loop\<close> of \<open>providers/shared/lsp/client.py\<close>).
  Bytes are characters. Parsing the text of a body (\<open>json.loads\<close>) is a parameter.
\<close>

section \<open>Messages on the wire\<close>

definition crlf :: string where
  "crlf = [CHR 0x0D, CHR 0x0A]"

definition frame :: "string \<Rightarrow> string" where
  "frame body = ''Content-Length: '' @ str_nat (length body) @ crlf @ crlf @ body"

text \<open>\<open>stdout.readline()\<close>: up to and with the next line feed, or what is left.\<close>

fun readline :: "string \<Rightarrow> string \<times> string" where
  "readline [] = ([], [])"
| "readline (c # s) = (if c = CHR 0x0A then ([c], s) else (c # fst (readline s), snd (readline s)))"

lemma readline_append: "fst (readline s) @ snd (readline s) = s"
  by (induction s) auto

lemma readline_shorter: "fst (readline s) \<noteq> [] \<Longrightarrow> length (snd (readline s)) < length s"
  using arg_cong [OF readline_append [of s], of length] by (cases "fst (readline s)") auto

text \<open>\<open>header.split(":", 1)[1]\<close>.\<close>

definition after_colon :: "string \<Rightarrow> string" where
  "after_colon header = drop 1 (dropWhile (\<lambda>c. c \<noteq> CHR '':'') header)"

definition header_length :: "string \<Rightarrow> int option \<Rightarrow> lsp_error + int option" where
  "header_length line known =
     (if \<exists>c\<in>set line. 128 \<le> (of_char c :: nat) then Inl (LspRaised (ValueErr ''ascii codec can't decode header''))
      else let header = strip line in
        if startswith (lower header) ''content-length:''
        then (case parse_int (after_colon header) of
                None \<Rightarrow> Inl (LspRaised (ValueErr (''invalid literal for int() with base 10: '' @ strip (after_colon header))))
              | Some n \<Rightarrow> Inr (Some n))
        else Inr known)"

function read_headers :: "int option \<Rightarrow> string \<Rightarrow> (lsp_error + int option) \<times> string" where
  "read_headers known s =
     (let (line, rest) = readline s in
      if line = [] then (Inl (LspProtocol ''unexpected EOF while reading language server response''), rest)
      else if line = crlf \<or> line = [CHR 0x0A] then (Inr known, rest)
      else (case header_length line known of Inl e \<Rightarrow> (Inl e, rest) | Inr known' \<Rightarrow> read_headers known' rest))"
  by pat_completeness auto
termination
proof (relation "measure (length \<circ> snd)", goal_cases)
  case (2 known s x line rest y)
  then show ?case using readline_shorter [of s] by (auto simp: prod_eq_iff)
qed simp

declare read_headers.simps [simp del]

text \<open>A negative length makes \<open>stdout.read\<close> read up to the end.\<close>

definition read_message :: "string \<Rightarrow> (lsp_error + string) \<times> string" where
  "read_message s =
     (case read_headers None s of
        (Inl e, rest) \<Rightarrow> (Inl e, rest)
      | (Inr None, rest) \<Rightarrow> (Inl (LspProtocol ''language server response is missing Content-Length header''), rest)
      | (Inr (Some n), rest) \<Rightarrow>
          let body = (if n < 0 then rest else take (nat n) rest) in
          (if int (length body) = n then Inr body else Inl (LspProtocol ''language server response body was truncated''),
           drop (length body) rest))"

lemma read_headers_shorter: "fst (read_headers known s) = Inr n \<Longrightarrow> length (snd (read_headers known s)) < length s"
proof (induction known s rule: read_headers.induct)
  case (1 known s)
  let ?line = "fst (readline s)" and ?rest = "snd (readline s)"
  have here: "length ?rest < length s" if "?line \<noteq> []" by (rule readline_shorter [OF that])
  show ?case
  proof (cases "?line = [] \<or> ?line = crlf \<or> ?line = [CHR 0x0A]")
    case True
    then show ?thesis using 1(2) here by (auto simp: read_headers.simps [of known s] Let_def split: prod.splits if_splits)
  next
    case False
    then obtain known' where k: "header_length ?line known = Inr known'"
      using 1(2) by (auto simp: read_headers.simps [of known s] Let_def split: prod.splits sum.splits)
    have same: "read_headers known s = read_headers known' ?rest"
      using False k by (simp add: read_headers.simps [of known s] Let_def case_prod_unfold)
    have "length (snd (read_headers known' ?rest)) < length ?rest"
      using False k 1(2) same by (intro 1(1) [OF refl]) auto
    then show ?thesis using here False same by simp
  qed
qed

lemma read_message_shorter: "fst (read_message s) = Inr body \<Longrightarrow> length (snd (read_message s)) < length s"
  using read_headers_shorter [of None s]
  by (fastforce simp: read_message_def Let_def split: prod.splits sum.splits option.splits if_splits)

text \<open>
  The reader thread: one item for each message, up to the first exception, which it queues before it ends.
\<close>

function reader_loop :: "(string \<Rightarrow> lsp_error + json) \<Rightarrow> string \<Rightarrow> (lsp_error + json) list" where
  "reader_loop loads s =
     (case read_message s of
        (Inl e, rest) \<Rightarrow> [Inl e]
      | (Inr body, rest) \<Rightarrow> (case loads body of Inl e \<Rightarrow> [Inl e] | Inr j \<Rightarrow> Inr j # reader_loop loads rest))"
  by pat_completeness auto
termination
proof (relation "measure (length \<circ> snd)", goal_cases)
  case (2 loads s x rest body j)
  then show ?case using read_message_shorter [of s body] by (simp add: prod_eq_iff)
qed simp

declare reader_loop.simps [simp del]


lemma strip_between:
  assumes "\<forall>c\<in>set a \<union> set b. py_isspace c" and "w \<noteq> []" and "\<not> py_isspace (hd w)" and "\<not> py_isspace (last w)"
  shows "strip (a @ w @ b) = w"
proof -
  have "dropWhile py_isspace (a @ w @ b) = w @ b"
    using assms by (subst dropWhile_append2) (auto simp: neq_Nil_conv)
  moreover have "dropWhile py_isspace (rev b @ rev w) = rev w"
    using assms by (subst dropWhile_append2) (auto simp: hd_rev dropWhile_eq_self_iff)
  ultimately show ?thesis by (simp add: strip_def)
qed

lemma digit_facts: "is_digit c \<Longrightarrow> \<not> py_isspace c \<and> c \<noteq> CHR ''_'' \<and> c \<noteq> CHR ''-'' \<and> c \<noteq> CHR ''+'' \<and> (of_char c :: nat) < 128"
  by (auto simp: is_digit_def py_isspace_def less_eq_char_def)

lemma str_nat_unfold: "\<not> n < 10 \<Longrightarrow> str_nat n = str_nat (n div 10) @ [digit_char n]" "n < 10 \<Longrightarrow> str_nat n = [digit_char n]"
  by (subst str_nat.simps, simp)+

lemma is_digit_digit_char: "is_digit (digit_char n)"
  by (simp add: is_digit_def less_eq_char_def)

lemma str_nat_digits: "\<forall>c\<in>set (str_nat n). is_digit c"
proof (induction n rule: str_nat.induct)
  case (1 n)
  show ?case
  proof (cases "n < 10")
    case True
    show ?thesis unfolding str_nat_unfold(2) [OF True] using is_digit_digit_char by simp
  next
    case False
    show ?thesis unfolding str_nat_unfold(1) [OF False] using 1 [OF False] is_digit_digit_char [of n] by (simp del: digit_char.simps)
  qed
qed

lemma str_nat_ne [simp]: "str_nat n \<noteq> []"
  by (subst str_nat.simps) simp

lemma str_nat_char: "c \<in> set (str_nat n) \<Longrightarrow> \<not> py_isspace c \<and> c \<noteq> CHR ''_'' \<and> c \<noteq> CHR 0x0A \<and> (of_char c :: nat) < 128"
  using str_nat_digits digit_facts by (metis py_isspace_def insertCI)

lemma str_nat_last: "\<not> py_isspace (last (str_nat n))" "\<not> py_isspace (hd (str_nat n))"
  using str_nat_char [OF last_in_set [OF str_nat_ne]] str_nat_char [OF hd_in_set [OF str_nat_ne]] by blast+

lemma digits_value_snoc: "digits_value (ds @ [c]) = 10 * digits_value ds + (int (of_char c) - 48)"
  by (simp add: digits_value_def)

lemma digits_value_numeral: "digits_value (str_nat n) = int n"
proof (induction n rule: str_nat.induct)
  case (1 n)
  have d: "int (of_char (digit_char n)) - 48 = int (n mod 10)" by simp
  show ?case
  proof (cases "n < 10")
    case True
    then show ?thesis using d by (simp add: str_nat_unfold(2) [of n] digits_value_def del: digit_char.simps)
  next
    case False
    then have "digits_value (str_nat n) = 10 * int (n div 10) + int (n mod 10)"
      using 1 d by (simp add: str_nat_unfold(1) [of n] digits_value_snoc del: digit_char.simps)
    then show ?thesis by presburger
  qed
qed

lemma split_on_clean_word: "c \<notin> set w \<Longrightarrow> split_on c w = [w]"
  by (induction w) auto

lemma parse_int_numeral: "parse_int ('' '' @ str_nat n) = Some (int n)"
proof -
  have space: "py_isspace (CHR '' '')" by (simp add: py_isspace_def)
  have "strip ('' '' @ str_nat n @ []) = str_nat n"
    by (rule strip_between) (use space str_nat_last in simp_all)
  then have strip: "strip ('' '' @ str_nat n) = str_nat n" by simp
  have "CHR ''_'' \<notin> set (str_nat n)" using str_nat_char by blast
  then have "split_on CHR ''_'' (str_nat n) = [str_nat n]" by (rule split_on_clean_word)
  then have digits: "parse_digits (str_nat n) = Some (int n)"
    using str_nat_digits by (simp add: parse_digits_def digits_value_numeral)
  obtain c ds where s: "str_nat n = c # ds" by (cases "str_nat n") simp_all
  then have "is_digit c" using str_nat_digits [of n] by simp
  from digit_facts [OF this] show ?thesis using digits unfolding parse_int_def strip by (simp add: s)
qed

lemma readline_split: "CHR 0x0A \<notin> set w \<Longrightarrow> readline (w @ CHR 0x0A # rest) = (w @ [CHR 0x0A], rest)"
  by (induction w) auto

lemma header_name: "startswith (lower (''Content-Length: '' @ w)) ''content-length:''" "after_colon (''Content-Length: '' @ w) = '' '' @ w"
proof -
  have "lower ''Content-Length: '' = ''content-length: ''" by code_simp
  then have "lower (''Content-Length: '' @ w) = ''content-length: '' @ lower w" by (simp add: lower_def)
  then show "startswith (lower (''Content-Length: '' @ w)) ''content-length:''" by (simp add: startswith_def)
qed (simp add: after_colon_def)

lemma header_chars: "\<forall>c\<in>set ''Content-Length: ''. (of_char c :: nat) < 128" "CHR 0x0A \<notin> set ''Content-Length: ''"
    "\<forall>c\<in>set crlf. (of_char c :: nat) < 128"
  by code_simp+

lemma header_of_frame: "header_length (''Content-Length: '' @ str_nat n @ crlf) known = Inr (Some (int n))"
proof -
  have "(of_char c :: nat) < 128" if "c \<in> set (''Content-Length: '' @ str_nat n @ crlf)" for c
  proof -
    from that consider "c \<in> set ''Content-Length: ''" | "c \<in> set (str_nat n)" | "c \<in> set crlf" unfolding set_append by blast
    then show ?thesis by cases (use header_chars str_nat_char in blast)+
  qed
  then have ascii: "\<not> (\<exists>c\<in>set (''Content-Length: '' @ str_nat n @ crlf). 128 \<le> (of_char c :: nat))"
    unfolding not_le [symmetric] by blast
  have ends: "\<forall>c\<in>set [] \<union> set crlf. py_isspace c" "\<not> py_isspace (CHR ''C'')" by (simp_all add: crlf_def py_isspace_def)
  have "strip ([] @ (''Content-Length: '' @ str_nat n) @ crlf) = ''Content-Length: '' @ str_nat n"
    by (rule strip_between) (use ends str_nat_last in simp_all)
  then have "strip (''Content-Length: '' @ str_nat n @ crlf) = ''Content-Length: '' @ str_nat n" by simp
  then show ?thesis unfolding header_length_def if_not_P [OF ascii]
    by (simp only: Let_def header_name parse_int_numeral option.case if_True)
qed

lemma header_without_newline: "CHR 0x0A \<notin> set (''Content-Length: '' @ str_nat n @ [CHR 0x0D])"
proof -
  have "CHR 0x0A \<notin> set (str_nat n)" using str_nat_char by blast
  moreover have "CHR 0x0A \<notin> set [CHR 0x0D]" by simp
  ultimately show ?thesis unfolding set_append using header_chars(2) by blast
qed

lemma frame_line: "readline (frame body @ rest) = (''Content-Length: '' @ str_nat (length body) @ crlf, crlf @ body @ rest)"
proof -
  let ?name = "''Content-Length: ''"
  have "frame body @ rest = (?name @ str_nat (length body) @ [CHR 0x0D]) @ CHR 0x0A # crlf @ body @ rest"
    unfolding frame_def crlf_def append_assoc append_Cons append_Nil ..
  moreover have "(?name @ str_nat (length body) @ [CHR 0x0D]) @ [CHR 0x0A] = ?name @ str_nat (length body) @ crlf"
    unfolding crlf_def append_assoc append_Cons append_Nil ..
  ultimately show ?thesis using readline_split [OF header_without_newline [of "length body"], of "crlf @ body @ rest"] by (simp only:)
qed

lemma read_frame: "read_message (frame body @ rest) = (Inr body, rest)"
proof -
  let ?line = "''Content-Length: '' @ str_nat (length body) @ crlf"
  have other: "?line \<noteq> []" "?line \<noteq> crlf" "?line \<noteq> [CHR 0x0A]" by (simp_all add: crlf_def)
  have "read_headers None (frame body @ rest) = read_headers (Some (int (length body))) (crlf @ body @ rest)"
    by (subst read_headers.simps)
      (simp only: frame_line header_of_frame Let_def prod.case other if_False sum.case simp_thms)
  also have "\<dots> = (Inr (Some (int (length body))), body @ rest)"
    by (subst read_headers.simps) (simp add: crlf_def)
  finally show ?thesis by (simp add: read_message_def)
qed

text \<open>
  C29. The reader recovers every message of a stream of frames, in order; at the end of the stream, or at the first body that
  is no JSON, it queues one exception.
\<close>

theorem reader_recovers_messages:
  "reader_loop loads (concat (map frame bodies)) =
     (let good = takeWhile (\<lambda>b. is_ok (loads b)) bodies in
      map loads good @
      [if good = bodies then Inl (LspProtocol ''unexpected EOF while reading language server response'')
       else loads (bodies ! length good)])"
proof (induction bodies)
  case Nil
  then show ?case by (simp add: reader_loop.simps read_message_def read_headers.simps)
next
  case (Cons b bs)
  show ?case
  proof (cases "loads b")
    case (Inl e)
    then show ?thesis by (simp add: reader_loop.simps [of loads "frame b @ _"] read_frame is_ok_def)
  next
    case (Inr j)
    then show ?thesis using Cons by (simp add: reader_loop.simps [of loads "frame b @ _"] read_frame is_ok_def Let_def)
  qed
qed

end
