(* ===== verification/Lsp_Client.thy ===== *)
theory Lsp_Client
  imports Lsp_Wire Lsp_Probe
begin

text \<open>
  The client of a language server (\<open>providers/shared/lsp/client.py\<close>, \<open>process.py\<close>): requests and their answers, documents, and
  the life of the process. What the server answers is a parameter: the messages that the reader queues after a message
  was written, and, for a waiting request, before its deadline.
\<close>

section \<open>Operations that may wait for ever\<close>

text \<open>
  An operation on a state that raises, returns or, when it waits for ever, has no outcome.
\<close>

type_synonym ('s, 'a) session_op = "'s \<Rightarrow> ((lsp_error + 'a) \<times> 's) option"

definition clift :: "lsp_error + 'a \<Rightarrow> ('s, 'a) session_op" where
  "clift r c = Some (r, c)"

definition cbind :: "('s, 'a) session_op \<Rightarrow> ('a \<Rightarrow> ('s, 'b) session_op) \<Rightarrow> ('s, 'b) session_op" where
  "cbind m k c =
     (case m c of None \<Rightarrow> None | Some (Inl e, c') \<Rightarrow> Some (Inl e, c') | Some (Inr x, c') \<Rightarrow> k x c')"

text \<open>\<open>try ... finally\<close>: an exception of the last part replaces the outcome of the first.\<close>

definition cfinally :: "('s, 'a) session_op \<Rightarrow> ('s, unit) session_op \<Rightarrow> ('s, 'a) session_op" where
  "cfinally m f c =
     (case m c of
        None \<Rightarrow> None
      | Some (r, c') \<Rightarrow> (case f c' of
          None \<Rightarrow> None
        | Some (Inl e, c'') \<Rightarrow> Some (Inl e, c'')
        | Some (Inr u, c'') \<Rightarrow> Some (r, c'')))"

definition client_keeps :: "('s \<Rightarrow> bool) \<Rightarrow> ('s, 'a) session_op \<Rightarrow> bool" where
  "client_keeps P m \<longleftrightarrow> (\<forall>c r c'. P c \<longrightarrow> m c = Some (r, c') \<longrightarrow> P c')"

lemma keeps_clift [simp]: "client_keeps P (clift r)"
  by (simp add: client_keeps_def clift_def)

lemma keepsI: "(\<And>c r c'. P c \<Longrightarrow> m c = Some (r, c') \<Longrightarrow> P c') \<Longrightarrow> client_keeps P m"
  by (simp add: client_keeps_def)

lemma keepsD: "client_keeps P m \<Longrightarrow> P c \<Longrightarrow> m c = Some (r, c') \<Longrightarrow> P c'"
  unfolding client_keeps_def by blast

lemma cbind_outcome:
  assumes "cbind m k c = Some (r, c')"
  obtains (failed) e where "m c = Some (Inl e, c')" "r = Inl e" | (passed) x d where "m c = Some (Inr x, d)" "k x d = Some (r, c')"
proof (cases "m c")
  case (Some o1)
  obtain r1 d where "o1 = (r1, d)" by (cases o1)
  then show ?thesis using assms Some that by (cases r1) (auto simp: cbind_def)
qed (use assms in \<open>simp add: cbind_def\<close>)

lemma cfinally_outcome:
  assumes "cfinally m f c = Some (r, c')"
  obtains (failed) r1 d e where "m c = Some (r1, d)" "f d = Some (Inl e, c')" "r = Inl e"
    | (passed) d where "m c = Some (r, d)" "f d = Some (Inr (), c')"
proof (cases "m c")
  case (Some o1)
  obtain r1 d where o1: "o1 = (r1, d)" by (cases o1)
  show ?thesis
  proof (cases "f d")
    case None
    then show ?thesis using assms Some o1 by (simp add: cfinally_def)
  next
    case (Some o2)
    obtain r2 d2 where "o2 = (r2, d2)" by (cases o2)
    then show ?thesis using assms Some \<open>m c = Some o1\<close> o1 that by (cases r2) (auto simp: cfinally_def)
  qed
qed (use assms in \<open>simp add: cfinally_def\<close>)

lemma keeps_cbind: "client_keeps P m \<Longrightarrow> (\<And>x. client_keeps P (k x)) \<Longrightarrow> client_keeps P (cbind m k)"
  by (rule keepsI, elim cbind_outcome) (auto dest: keepsD)

lemma keeps_cfinally: "client_keeps P m \<Longrightarrow> client_keeps P f \<Longrightarrow> client_keeps P (cfinally m f)"
  by (rule keepsI, elim cfinally_outcome) (auto dest: keepsD)

section \<open>The client\<close>

text \<open>
  The state: the process and the reader thread run or not, the messages written to the process and the items the reader
  queued. An operation that waits for ever has no outcome.
\<close>

record lsp_client =
  lc_timeout :: "rat option"
  lc_next_request_id :: int
  lc_initialized :: bool
  lc_process :: bool
  lc_reader :: bool
  lc_sent :: "json list"
  lc_inbox :: "(lsp_error + json) list"

definition new_client :: "rat option \<Rightarrow> lsp_client" where
  "new_client timeout =
     \<lparr>lc_timeout = timeout, lc_next_request_id = 1, lc_initialized = False, lc_process = False, lc_reader = False, lc_sent = [], lc_inbox = []\<rparr>"

type_synonym 'a client_op = "(lsp_client, 'a) session_op"

text \<open>The server, and the files that the client opens in it; \<open>sv_uri\<close> is \<open>Path.as_uri\<close>, \<open>sv_repr\<close> the \<open>repr\<close> of an error.\<close>

record server =
  sv_starts :: bool
  sv_command :: string
  sv_answers :: "json list \<Rightarrow> (lsp_error + json) list"
  sv_read_text :: "string \<Rightarrow> lsp_error + string"
  sv_uri :: "string \<Rightarrow> string"
  sv_repr :: "json \<Rightarrow> string"
  sv_initialization_options :: "(string \<times> json) list"

text \<open>The reader queues items until one is an exception.\<close>

definition queued :: "(lsp_error + json) list \<Rightarrow> (lsp_error + json) list" where
  "queued items = takeWhile is_ok items @ take 1 (dropWhile is_ok items)"

definition deliver :: "server \<Rightarrow> lsp_client \<Rightarrow> lsp_client" where
  "deliver sv c =
     (if lc_reader c
      then let items = sv_answers sv (lc_sent c) in
        c\<lparr>lc_inbox := lc_inbox c @ queued items, lc_reader := (\<forall>i\<in>set items. is_ok i)\<rparr>
      else c)"

definition write_message :: "server \<Rightarrow> json \<Rightarrow> unit client_op" where
  "write_message sv m c =
     (if lc_process c then Some (Inr (), deliver sv (c\<lparr>lc_sent := lc_sent c @ [m]\<rparr>))
      else Some (Inl (LspProcess ''language server process has not been started''), c))"

definition notification :: "string \<Rightarrow> json \<Rightarrow> json" where
  "notification method params = JObj [(''jsonrpc'', JStr ''2.0''), (''method'', JStr method), (''params'', params)]"

definition request_message :: "int \<Rightarrow> string \<Rightarrow> json \<Rightarrow> json" where
  "request_message i method params =
     JObj [(''jsonrpc'', JStr ''2.0''), (''id'', JInt i), (''method'', JStr method), (''params'', params)]"

definition notify :: "server \<Rightarrow> string \<Rightarrow> json \<Rightarrow> unit client_op" where
  "notify sv method params = write_message sv (notification method params)"

text \<open>\<open>value == request_id\<close> for a JSON value; \<open>True\<close> is 1 and \<open>1.0\<close> is 1.\<close>

fun json_is_int :: "int \<Rightarrow> json \<Rightarrow> bool" where
  "json_is_int i (JInt j) \<longleftrightarrow> i = j"
| "json_is_int i (JBool b) \<longleftrightarrow> i = of_bool b"
| "json_is_int i (JFloat r) \<longleftrightarrow> of_int i = r"
| "json_is_int i j \<longleftrightarrow> False"

text \<open>\<open>f"{t:.0f}"\<close>, which rounds halves to even.\<close>

definition whole_seconds :: "rat \<Rightarrow> string" where
  "whole_seconds t =
     (let n = \<lfloor>t\<rfloor>; d = t - of_int n in str_int (if d < 1/2 \<or> (d = 1/2 \<and> even n) then n else n + 1))"

text \<open>Without a timeout an empty queue blocks for ever.\<close>

fun await_response ::
  "(json \<Rightarrow> string) \<Rightarrow> rat option \<Rightarrow> string \<Rightarrow> int \<Rightarrow> (lsp_error + json) list \<Rightarrow> ((lsp_error + json) \<times> (lsp_error + json) list) option" where
  "await_response rep timeout method i [] =
     map_option (\<lambda>t. (Inl (LspTimeout (''language server timed out waiting for '' @ quoted method @ '' after '' @ whole_seconds t @ ''s'')), [])) timeout"
| "await_response rep timeout method i (Inl e # items) = Some (Inl e, items)"
| "await_response rep timeout method i (Inr j # items) =
     (case as_obj j of
        None \<Rightarrow> Some (Inl (LspProtocol ''language server response must be an object''), items)
      | Some response \<Rightarrow>
          if \<not> json_is_int i (json_get ''id'' response) then await_response rep timeout method i items
          else if json_get ''error'' response \<noteq> JNull
          then Some (Inl (LspProtocol (''language server returned an error for '' @ quoted method @ '': '' @ rep (json_get ''error'' response))), items)
          else Some (Inr (json_get ''result'' response), items))"

definition client_request :: "server \<Rightarrow> string \<Rightarrow> json \<Rightarrow> json client_op" where
  "client_request sv method params c =
     (let i = lc_next_request_id c in
      cbind (write_message sv (request_message i method params))
        (\<lambda>_ c. map_option (\<lambda>(r, items). (r, c\<lparr>lc_inbox := items\<rparr>)) (await_response (sv_repr sv) (lc_timeout c) method i (lc_inbox c)))
        (c\<lparr>lc_next_request_id := i + 1\<rparr>))"

definition start_process :: "server \<Rightarrow> unit client_op" where
  "start_process sv c =
     (if lc_process c then Some (Inr (), c)
      else if sv_starts sv then Some (Inr (), c\<lparr>lc_process := True, lc_sent := []\<rparr>)
      else Some (Inl (LspProcess (''failed to start language server: '' @ sv_command sv)), c))"

text \<open>Stopping the process ends its reader too.\<close>

definition stop_process :: "unit client_op" where
  "stop_process c = Some (Inr (), c\<lparr>lc_process := False, lc_reader := False\<rparr>)"

definition ensure_reader_started :: "lsp_client \<Rightarrow> lsp_client" where
  "ensure_reader_started c = (if lc_reader c then c else c\<lparr>lc_inbox := [], lc_reader := True\<rparr>)"

definition client_capabilities :: json where
  "client_capabilities = JObj
     [(''textDocument'', JObj
        [(''documentSymbol'', JObj [(''hierarchicalDocumentSymbolSupport'', JBool True)]),
         (''definition'', JObj [(''linkSupport'', JBool True)]),
         (''references'', JObj []),
         (''implementation'', JObj [(''linkSupport'', JBool True)])]),
      (''workspace'', JObj [(''symbol'', JObj [(''symbolKind'', JObj [(''valueSet'', JList (map JInt [1..26]))])])])]"

definition initialize_params :: "server \<Rightarrow> string \<Rightarrow> string \<Rightarrow> json" where
  "initialize_params sv dir name = JObj
     [(''processId'', JNull), (''rootUri'', JStr (sv_uri sv dir)), (''capabilities'', client_capabilities),
      (''workspaceFolders'', JList [JObj [(''uri'', JStr (sv_uri sv dir)), (''name'', JStr name)]]),
      (''initializationOptions'', JObj (sv_initialization_options sv))]"

definition client_initialize :: "server \<Rightarrow> string \<Rightarrow> string \<Rightarrow> unit client_op" where
  "client_initialize sv dir name c =
     (if lc_initialized c then Some (Inr (), c)
      else cbind (start_process sv) (\<lambda>_.
        cbind (\<lambda>c. Some (Inr (), ensure_reader_started c)) (\<lambda>_.
        cbind (client_request sv ''initialize'' (initialize_params sv dir name)) (\<lambda>_.
        cbind (notify sv ''initialized'' (JObj [])) (\<lambda>_ c. Some (Inr (), c\<lparr>lc_initialized := True\<rparr>))))) c)"

definition client_workspace_symbol :: "server \<Rightarrow> string \<Rightarrow> lsp_workspace_symbol list client_op" where
  "client_workspace_symbol sv query =
     cbind (client_request sv ''workspace/symbol'' (JObj [(''query'', JStr query)])) (\<lambda>p. clift (parse_workspace_symbols p))"

definition language_id :: "string \<Rightarrow> string" where
  "language_id name =
     (let sfx = lower (path_suffix name) in
      if sfx = ''.py'' then ''python''
      else if sfx \<in> {''.ts'', ''.mts'', ''.cts''} then ''typescript''
      else if sfx = ''.tsx'' then ''typescriptreact''
      else if sfx \<in> {''.js'', ''.mjs'', ''.cjs''} then ''javascript''
      else if sfx = ''.jsx'' then ''javascriptreact''
      else if sfx = ''.go'' then ''go''
      else ''plaintext'')"

definition file_name :: "string \<Rightarrow> string" where
  "file_name path = last (split_on CHR ''/'' path)"

definition document_uri :: "server \<Rightarrow> string \<Rightarrow> string \<times> json" where
  "document_uri sv path = (''textDocument'', JObj [(''uri'', JStr (sv_uri sv path))])"

definition did_open_params :: "server \<Rightarrow> string \<Rightarrow> string \<Rightarrow> json" where
  "did_open_params sv path contents = JObj
     [(''textDocument'', JObj [(''uri'', JStr (sv_uri sv path)), (''languageId'', JStr (language_id (file_name path))),
                              (''version'', JInt 1), (''text'', JStr contents)])]"

definition request_for_open_document :: "server \<Rightarrow> string \<Rightarrow> string \<Rightarrow> json \<Rightarrow> json client_op" where
  "request_for_open_document sv path method params =
     cbind (clift (sv_read_text sv path)) (\<lambda>contents.
     cbind (notify sv ''textDocument/didOpen'' (did_open_params sv path contents)) (\<lambda>_.
     cfinally (client_request sv method params) (notify sv ''textDocument/didClose'' (JObj [document_uri sv path]))))"

definition to_lsp_position :: "int \<Rightarrow> int \<Rightarrow> lsp_error + json" where
  "to_lsp_position line column =
     (if line < 1 \<or> column < 1 then Inl (LspRaised (ValueErr ''line and column must be >= 1''))
      else Inr (JObj [(''line'', JInt (line - 1)), (''character'', JInt (column - 1))]))"

definition client_document_symbol :: "server \<Rightarrow> string \<Rightarrow> lsp_document_symbol list client_op" where
  "client_document_symbol sv path =
     cbind (request_for_open_document sv path ''textDocument/documentSymbol'' (JObj [document_uri sv path]))
       (\<lambda>p. clift (parse_document_symbols p))"

definition positional_request :: "server \<Rightarrow> string \<Rightarrow> (string \<times> json) list \<Rightarrow> string \<Rightarrow> int \<Rightarrow> int \<Rightarrow> lsp_location list client_op" where
  "positional_request sv method extra path line column =
     cbind (clift (to_lsp_position line column)) (\<lambda>pos.
     cbind (request_for_open_document sv path method (JObj ([document_uri sv path, (''position'', pos)] @ extra)))
       (\<lambda>p. clift (parse_locations p)))"

definition client_definition :: "server \<Rightarrow> string \<Rightarrow> int \<Rightarrow> int \<Rightarrow> lsp_location list client_op" where
  "client_definition sv = positional_request sv ''textDocument/definition'' []"

definition client_references :: "server \<Rightarrow> bool \<Rightarrow> string \<Rightarrow> int \<Rightarrow> int \<Rightarrow> lsp_location list client_op" where
  "client_references sv include_declaration =
     positional_request sv ''textDocument/references'' [(''context'', JObj [(''includeDeclaration'', JBool include_declaration)])]"

definition client_implementation :: "server \<Rightarrow> string \<Rightarrow> int \<Rightarrow> int \<Rightarrow> lsp_location list client_op" where
  "client_implementation sv = positional_request sv ''textDocument/implementation'' []"

definition client_shutdown :: "server \<Rightarrow> unit client_op" where
  "client_shutdown sv c =
     (if \<not> lc_initialized c then stop_process c
      else cfinally (cbind (client_request sv ''shutdown'' JNull) (\<lambda>_. notify sv ''exit'' JNull))
        (cbind stop_process (\<lambda>_ c. Some (Inr (), c\<lparr>lc_initialized := False\<rparr>))) c)"


section \<open>What a client keeps\<close>

datatype client_call =
    Call_Initialize string string
  | Call_Workspace_Symbol string
  | Call_Document_Symbol string
  | Call_Definition string int int
  | Call_References bool string int int
  | Call_Implementation string int int
  | Call_Shutdown

definition ignoring :: "'a client_op \<Rightarrow> unit client_op" where
  "ignoring m = cbind m (\<lambda>_. clift (Inr ()))"

fun call_outcome :: "server \<Rightarrow> client_call \<Rightarrow> unit client_op" where
  "call_outcome sv (Call_Initialize dir name) = client_initialize sv dir name"
| "call_outcome sv (Call_Workspace_Symbol q) = ignoring (client_workspace_symbol sv q)"
| "call_outcome sv (Call_Document_Symbol path) = ignoring (client_document_symbol sv path)"
| "call_outcome sv (Call_Definition path l c) = ignoring (client_definition sv path l c)"
| "call_outcome sv (Call_References d path l c) = ignoring (client_references sv d path l c)"
| "call_outcome sv (Call_Implementation path l c) = ignoring (client_implementation sv path l c)"
| "call_outcome sv Call_Shutdown = client_shutdown sv"

text \<open>The clients that any sequence of calls leads to, whether the calls succeed or fail.\<close>

inductive client_reachable :: "server \<Rightarrow> lsp_client \<Rightarrow> bool" for sv where
  created: "client_reachable sv (new_client timeout)"
| called: "client_reachable sv c \<Longrightarrow> call_outcome sv call c = Some (r, c') \<Longrightarrow> client_reachable sv c'"

definition message_id :: "json \<Rightarrow> json" where
  "message_id m = (case as_obj m of None \<Rightarrow> JNull | Some entries \<Rightarrow> json_get ''id'' entries)"

text \<open>The server answers requests that were sent to it and sends no requests of its own.\<close>

definition answers_only :: "server \<Rightarrow> bool" where
  "answers_only sv \<longleftrightarrow> (\<forall>sent j i. Inr j \<in> set (sv_answers sv sent) \<and> json_is_int i (message_id j) \<longrightarrow> JInt i \<in> message_id ` set sent)"

datatype document_event = Opened json | Closed json

definition document_event :: "json \<Rightarrow> document_event option" where
  "document_event m =
     (case as_obj m of
        None \<Rightarrow> None
      | Some entries \<Rightarrow>
          let u = (case as_obj (json_get ''params'' entries) of None \<Rightarrow> JNull
                   | Some ps \<Rightarrow> (case as_obj (json_get ''textDocument'' ps) of None \<Rightarrow> JNull | Some d \<Rightarrow> json_get ''uri'' d)) in
          if json_get ''method'' entries = JStr ''textDocument/didOpen'' then Some (Opened u)
          else if json_get ''method'' entries = JStr ''textDocument/didClose'' then Some (Closed u)
          else None)"

definition document_events :: "json list \<Rightarrow> document_event list" where
  "document_events sent = List.map_filter document_event sent"

definition opened_and_closed :: "document_event list \<Rightarrow> bool" where
  "opened_and_closed es \<longleftrightarrow> (\<exists>us. es = concat (map (\<lambda>u. [Opened u, Closed u]) us))"

definition ids_below :: "lsp_client \<Rightarrow> bool" where
  "ids_below c \<longleftrightarrow> (\<forall>m\<in>set (lc_sent c). \<forall>i. message_id m = JInt i \<longrightarrow> i < lc_next_request_id c) \<and>
     (\<forall>j i. Inr j \<in> set (lc_inbox c) \<and> json_is_int i (message_id j) \<longrightarrow> i < lc_next_request_id c)"

lemma keeps_ignoring: "client_keeps P m \<Longrightarrow> client_keeps P (ignoring m)"
  unfolding ignoring_def by (intro keeps_cbind keeps_clift)

text \<open>
  What an invariant has to be kept by, for every call to keep it: the steps on the process, a document that is opened,
  asked about and closed, and other messages.
\<close>

definition plain_message :: "json \<Rightarrow> bool" where
  "plain_message m \<longleftrightarrow> document_event m = None"

lemma calls_keep:
  assumes start: "client_keeps P (start_process sv)" and stop: "client_keeps P stop_process"
    and reader: "\<And>c. P c \<Longrightarrow> P (ensure_reader_started c)"
    and flag: "\<And>c b. P c \<Longrightarrow> P (c\<lparr>lc_initialized := b\<rparr>)"
    and plain_request: "\<And>method params. method \<notin> {''textDocument/didOpen'', ''textDocument/didClose''} \<Longrightarrow> client_keeps P (client_request sv method params)"
    and plain_notify: "\<And>method params. method \<notin> {''textDocument/didOpen'', ''textDocument/didClose''} \<Longrightarrow> client_keeps P (notify sv method params)"
    and document: "\<And>path method params. method \<notin> {''textDocument/didOpen'', ''textDocument/didClose''} \<Longrightarrow>
      client_keeps P (request_for_open_document sv path method params)"
  shows "client_keeps P (call_outcome sv call)"
proof -
  have flagged: "client_keeps P (\<lambda>c. Some (Inr (), c\<lparr>lc_initialized := b\<rparr>))" for b
    using flag by (auto simp: client_keeps_def)
  have started: "client_keeps P (\<lambda>c. Some (Inr (), ensure_reader_started c))"
    using reader by (auto simp: client_keeps_def)
  have pos: "client_keeps P (positional_request sv m extra path l c)" if "m \<notin> {''textDocument/didOpen'', ''textDocument/didClose''}"
    for m extra path l c
    unfolding positional_request_def by (intro keeps_cbind keeps_clift document that)
  have run: "client_keeps P (cbind (start_process sv) (\<lambda>_. cbind (\<lambda>c. Some (Inr (), ensure_reader_started c)) (\<lambda>_.
        cbind (client_request sv ''initialize'' (initialize_params sv dir name)) (\<lambda>_.
        cbind (notify sv ''initialized'' (JObj [])) (\<lambda>_ c. Some (Inr (), c\<lparr>lc_initialized := True\<rparr>))))))" for dir name
    by (intro keeps_cbind start started plain_request plain_notify flagged) auto
  have down: "client_keeps P (cfinally (cbind (client_request sv ''shutdown'' JNull) (\<lambda>_. notify sv ''exit'' JNull))
      (cbind stop_process (\<lambda>_ c. Some (Inr (), c\<lparr>lc_initialized := False\<rparr>))))"
    by (intro keeps_cfinally keeps_cbind stop plain_request plain_notify flagged) auto
  show ?thesis
  proof (cases call)
    case (Call_Initialize dir name)
    have "client_keeps P (client_initialize sv dir name)"
    proof (rule keepsI)
      fix c r c' assume "P c" and "client_initialize sv dir name c = Some (r, c')"
      then show "P c'" using keepsD [OF run [of dir name] \<open>P c\<close>, of r c']
        by (cases "lc_initialized c") (simp_all only: client_initialize_def if_True if_False option.inject prod.inject)
    qed
    then show ?thesis using Call_Initialize by simp
  next
    case Call_Shutdown
    have "client_keeps P (client_shutdown sv)"
    proof (rule keepsI)
      fix c r c' assume "P c" and "client_shutdown sv c = Some (r, c')"
      then show "P c'" using keepsD [OF down \<open>P c\<close>, of r c'] keepsD [OF stop \<open>P c\<close>, of r c']
        by (cases "lc_initialized c") (simp_all only: client_shutdown_def not_True_eq_False not_False_eq_True if_True if_False)
    qed
    then show ?thesis using Call_Shutdown by simp
  next
    case (Call_Workspace_Symbol q)
    have "client_keeps P (client_workspace_symbol sv q)"
      unfolding client_workspace_symbol_def by (intro keeps_cbind keeps_clift plain_request) simp
    then show ?thesis using Call_Workspace_Symbol by (simp add: keeps_ignoring)
  next
    case (Call_Document_Symbol path)
    have "client_keeps P (client_document_symbol sv path)"
      unfolding client_document_symbol_def by (intro keeps_cbind keeps_clift document) simp
    then show ?thesis using Call_Document_Symbol by (simp add: keeps_ignoring)
  qed (simp_all add: keeps_ignoring pos client_definition_def client_references_def client_implementation_def)
qed

lemma reachable_invariant:
  assumes "client_reachable sv c" and "\<And>timeout. P (new_client timeout)" and "\<And>call. client_keeps P (call_outcome sv call)"
  shows "P c"
  using assms(1) by (induction rule: client_reachable.induct) (use assms(2,3) in \<open>auto simp: client_keeps_def\<close>)

subsection \<open>No answer is taken for another\<close>

lemma set_queued: "set (queued items) \<subseteq> set items"
  unfolding queued_def by (auto dest: set_takeWhileD in_set_takeD intro: set_dropWhileD)

lemma message_ids [simp]:
  "message_id (notification method params) = JNull" "message_id (request_message i method params) = JInt i"
  by (simp_all add: message_id_def notification_def request_message_def json_get_def)

lemma message_id_JObj [simp]: "message_id (JObj entries) = json_get ''id'' entries"
  by (simp add: message_id_def)

lemma delivered_inbox:
  assumes "answers_only sv" and "ids_below c"
  shows "ids_below (deliver sv c)"
proof -
  have "i < lc_next_request_id c" if "Inr j \<in> set (queued (sv_answers sv (lc_sent c)))" "json_is_int i (message_id j)" for j i
  proof -
    have "Inr j \<in> set (sv_answers sv (lc_sent c))" using that(1) set_queued by blast
    then have "JInt i \<in> message_id ` set (lc_sent c)" using that(2) assms(1) unfolding answers_only_def by blast
    then show ?thesis using assms(2) by (auto simp: ids_below_def)
  qed
  then show ?thesis using assms(2) by (auto simp: ids_below_def deliver_def Let_def)
qed

lemma ids_below_notify:
  assumes "answers_only sv"
  shows "client_keeps ids_below (notify sv method params)"
proof -
  have "ids_below c \<Longrightarrow> ids_below (c\<lparr>lc_sent := lc_sent c @ [notification method params]\<rparr>)" for c
    by (auto simp: ids_below_def)
  then show ?thesis using delivered_inbox [OF assms]
    by (auto simp: client_keeps_def notify_def write_message_def split: if_splits)
qed

lemma await_suffix: "await_response rep timeout method i items = Some (r, rest) \<Longrightarrow> set rest \<subseteq> set items"
proof (induction items)
  case (Cons x items)
  then show ?case by (cases x) (auto split: option.splits if_splits)
qed (auto split: option.splits)

lemma ids_below_mono: "ids_below c \<Longrightarrow> lc_next_request_id c \<le> n \<Longrightarrow> ids_below (c\<lparr>lc_next_request_id := n\<rparr>)"
  unfolding ids_below_def by fastforce

lemma ids_below_request:
  assumes "answers_only sv"
  shows "client_keeps ids_below (client_request sv method params)"
  unfolding client_keeps_def
proof (intro allI impI)
  fix c r c' assume c: "ids_below c" and run: "client_request sv method params c = Some (r, c')"
  let ?i = "lc_next_request_id c"
  let ?c = "c\<lparr>lc_next_request_id := ?i + 1\<rparr>"
  let ?sent = "?c\<lparr>lc_sent := lc_sent c @ [request_message ?i method params]\<rparr>"
  have "ids_below ?c" by (rule ids_below_mono [OF c]) simp
  then have sent: "ids_below (deliver sv ?sent)"
    by (intro delivered_inbox [OF assms]) (auto simp: ids_below_def)
  show "ids_below c'"
  proof (cases "lc_process c")
    case True
    then obtain items where items: "await_response (sv_repr sv) (lc_timeout (deliver sv ?sent)) method ?i (lc_inbox (deliver sv ?sent)) = Some (r, items)"
        and c': "c' = (deliver sv ?sent)\<lparr>lc_inbox := items\<rparr>"
      using run by (auto simp: client_request_def cbind_def write_message_def Let_def)
    show ?thesis using sent await_suffix [OF items] by (auto simp: c' ids_below_def)
  next
    case False
    then show ?thesis using run \<open>ids_below ?c\<close> by (auto simp: client_request_def cbind_def write_message_def Let_def)
  qed
qed

lemma ids_below_calls:
  assumes "answers_only sv"
  shows "client_keeps ids_below (call_outcome sv call)"
proof (rule calls_keep)
  show "client_keeps ids_below (start_process sv)" by (auto simp: client_keeps_def start_process_def ids_below_def split: if_splits)
  show "client_keeps ids_below stop_process" by (auto simp: client_keeps_def stop_process_def ids_below_def)
  show "ids_below c \<Longrightarrow> ids_below (ensure_reader_started c)" for c by (auto simp: ids_below_def ensure_reader_started_def)
  show "ids_below c \<Longrightarrow> ids_below (c\<lparr>lc_initialized := b\<rparr>)" for c b by (auto simp: ids_below_def)
  note [simp] = ids_below_request [OF assms] ids_below_notify [OF assms]
  show "client_keeps ids_below (request_for_open_document sv path meth params)" for path meth params
    unfolding request_for_open_document_def by (intro keeps_cbind keeps_cfinally) simp_all
qed (simp_all add: ids_below_request [OF assms] ids_below_notify [OF assms])

lemma await_answer:
  assumes "await_response rep timeout method i items = Some (Inr v, rest)"
  shows "\<exists>pre response. items = pre @ Inr (JObj response) # rest \<and> json_is_int i (json_get ''id'' response) \<and>
    json_get ''error'' response = JNull \<and> v = json_get ''result'' response"
  using assms
proof (induction items)
  case (Cons x items)
  obtain j where x: "x = Inr j" using Cons.prems by (cases x) auto
  obtain response where j: "j = JObj response" using Cons.prems x by (cases j) auto
  show ?case
  proof (cases "json_is_int i (json_get ''id'' response)")
    case True
    then show ?thesis using Cons.prems by (auto simp: x j split: if_splits)
  next
    case False
    then obtain pre response' where "items = pre @ Inr (JObj response') # rest" "json_is_int i (json_get ''id'' response')"
        "json_get ''error'' response' = JNull" "v = json_get ''result'' response'"
      using Cons by (auto simp: x j)
    then show ?thesis by (intro exI [of _ "x # pre"]) simp
  qed
qed (simp split: option.splits)

text \<open>
  C25. A server that only answers what it was asked never has an answer taken for that of another request: whatever calls were
  made before, timed out or failed, the result of a request is the result of an error-free response
  with its id, which the server gave after this request was sent, and no earlier request had that id.
\<close>

theorem answers_are_not_confused:
  assumes "client_reachable sv c" and "answers_only sv" and run: "client_request sv method params c = Some (Inr v, c')"
  shows "\<exists>pre response post i. queued (sv_answers sv (lc_sent c @ [request_message i method params])) = pre @ Inr (JObj response) # post \<and>
    json_is_int i (json_get ''id'' response) \<and> json_get ''error'' response = JNull \<and> v = json_get ''result'' response \<and>
    JInt i \<notin> message_id ` set (lc_sent c)"
proof -
  have ok: "ids_below c"
  proof (rule reachable_invariant [OF assms(1)])
    show "ids_below (new_client timeout)" for timeout by (simp add: ids_below_def new_client_def)
  qed (rule ids_below_calls [OF assms(2)])
  let ?i = "lc_next_request_id c"
  let ?sent = "lc_sent c @ [request_message ?i method params]"
  let ?c = "deliver sv (c\<lparr>lc_next_request_id := ?i + 1, lc_sent := ?sent\<rparr>)"
  have "lc_process c" using run by (auto simp: client_request_def cbind_def write_message_def Let_def split: if_splits)
  then obtain rest where "await_response (sv_repr sv) (lc_timeout ?c) method ?i (lc_inbox ?c) = Some (Inr v, rest)"
    using run by (auto simp: client_request_def cbind_def write_message_def Let_def)
  from await_answer [OF this] obtain pre response where
    r: "lc_inbox ?c = pre @ Inr (JObj response) # rest" "json_is_int ?i (json_get ''id'' response)"
      "json_get ''error'' response = JNull" "v = json_get ''result'' response" by blast
  have old: "Inr (JObj response) \<notin> set (lc_inbox c)"
    using ok r(2) by (fastforce simp: ids_below_def message_id_def)
  have "Inr (JObj response) \<in> set (lc_inbox ?c)" using r(1) by simp
  then have "Inr (JObj response) \<in> set (queued (sv_answers sv ?sent))"
    using old by (auto simp: deliver_def Let_def split: if_splits)
  then obtain pre' post' where "queued (sv_answers sv ?sent) = pre' @ Inr (JObj response) # post'" by (auto dest: split_list)
  moreover have "JInt ?i \<notin> message_id ` set (lc_sent c)" using ok by (force simp: ids_below_def)
  ultimately show ?thesis using r by blast
qed


definition silent_server :: server where
  "silent_server =
     \<lparr>sv_starts = True, sv_command = ''gopls'', sv_answers = (\<lambda>sent. []), sv_read_text = (\<lambda>path. Inr ''package main''),
      sv_uri = (\<lambda>path. ''file://'' @ path), sv_repr = (\<lambda>j. ''{}''), sv_initialization_options = []\<rparr>"

text \<open>A server that answers every request with the number of messages it was sent.\<close>

definition counting_answers :: "json list \<Rightarrow> (lsp_error + json) list" where
  "counting_answers sent =
     (case rev sent of
        [] \<Rightarrow> []
      | m # ms \<Rightarrow> (case message_id m of
          JInt i \<Rightarrow> [Inr (JObj [(''id'', JInt i), (''result'', JInt (int (length sent)))])]
        | _ \<Rightarrow> []))"

definition counting_server :: server where
  "counting_server = silent_server\<lparr>sv_answers := counting_answers\<rparr>"

definition initialized_client :: lsp_client where
  "initialized_client =
     \<lparr>lc_timeout = Some 15, lc_next_request_id = 2, lc_initialized = True, lc_process = True, lc_reader = True,
      lc_sent = [request_message 1 ''initialize'' (initialize_params counting_server ''/r'' ''r''), notification ''initialized'' (JObj [])],
      lc_inbox = []\<rparr>"

lemma initialized_client_reachable: "client_reachable counting_server initialized_client"
proof -
  have "client_initialize counting_server ''/r'' ''r'' (new_client (Some 15)) = Some (Inr (), initialized_client)"
    by (simp add: client_initialize_def cbind_def start_process_def new_client_def counting_server_def silent_server_def
        ensure_reader_started_def client_request_def write_message_def deliver_def queued_def notify_def initialized_client_def Let_def
        counting_answers_def initialize_params_def)
  then have "call_outcome counting_server (Call_Initialize ''/r'' ''r'') (new_client (Some 15)) = Some (Inr (), initialized_client)" by simp
  then show ?thesis by (rule called [OF created])
qed

lemma counting_server_answers_only: "answers_only counting_server"
  unfolding answers_only_def
proof (intro allI impI)
  fix sent j i assume a: "Inr j \<in> set (sv_answers counting_server sent) \<and> json_is_int i (message_id j)"
  then obtain m ms where m: "rev sent = m # ms" by (cases "rev sent") (auto simp: counting_server_def counting_answers_def)
  then have "m \<in> set (rev sent)" by simp
  moreover have "message_id m = JInt i" using a m
    by (cases "message_id m") (auto simp: counting_server_def counting_answers_def)
  ultimately show "JInt i \<in> message_id ` set sent" by (metis image_eqI set_rev)
qed

theorem answers_are_not_confused_witness:
  "\<exists>c' pre response post i. client_request counting_server ''workspace/symbol'' JNull initialized_client = Some (Inr (JInt 3), c') \<and>
     queued (sv_answers counting_server (lc_sent initialized_client @ [request_message i ''workspace/symbol'' JNull])) = pre @ Inr (JObj response) # post \<and>
     JInt 3 = json_get ''result'' response"
proof -
  have "\<exists>c'. client_request counting_server ''workspace/symbol'' JNull initialized_client = Some (Inr (JInt 3), c')"
    by (simp add: cbind_def counting_server_def silent_server_def client_request_def write_message_def deliver_def queued_def
        initialized_client_def Let_def counting_answers_def)
  then show ?thesis
    using answers_are_not_confused [OF initialized_client_reachable counting_server_answers_only] by blast
qed

text \<open>
  The client tells responses from other messages by their id alone. A server's own request that happens to have the id
  of the pending request is taken for its response: the result is \<open>None\<close>, and the real response stays
  in the queue, where the next request drops it.
\<close>

theorem server_request_is_taken_for_response:
  assumes "lc_process c" and "lc_reader c" and "lc_inbox c = []" and "i = lc_next_request_id c"
    and "sv_answers sv (lc_sent c @ [request_message i method params]) =
      [Inr (request_message i own_method own_params), Inr (JObj [(''id'', JInt i), (''result'', v)])]"
  shows "\<exists>c'. client_request sv method params c = Some (Inr JNull, c') \<and> lc_inbox c' = [Inr (JObj [(''id'', JInt i), (''result'', v)])]"
  using assms by (simp add: client_request_def cbind_def write_message_def deliver_def queued_def request_message_def json_get_def Let_def)

definition intruding_server :: server where
  "intruding_server = counting_server\<lparr>sv_answers := \<lambda>sent.
     [Inr (request_message 2 ''workspace/configuration'' JNull), Inr (JObj [(''id'', JInt 2), (''result'', JList [])])]\<rparr>"

theorem server_request_is_taken_for_response_witness:
  "\<exists>c'. client_request intruding_server ''workspace/symbol'' JNull initialized_client = Some (Inr JNull, c') \<and>
     lc_inbox c' = [Inr (JObj [(''id'', JInt 2), (''result'', JList [])])]"
  by (rule server_request_is_taken_for_response [where i = 2 and own_method = "''workspace/configuration''" and own_params = JNull])
    (simp_all add: initialized_client_def intruding_server_def)

subsection \<open>Opened documents are closed\<close>

lemma write_message_sent:
  assumes "write_message sv m c = Some (r, c')"
  shows "if lc_process c then r = Inr () \<and> lc_sent c' = lc_sent c @ [m] \<and> lc_process c' else r \<noteq> Inr () \<and> lc_sent c' = lc_sent c \<and> \<not> lc_process c'"
  using assms by (auto simp: write_message_def deliver_def Let_def split: if_splits)

lemma request_sent:
  assumes "client_request sv method params c = Some (r, c')"
  shows "if lc_process c then lc_sent c' = lc_sent c @ [request_message (lc_next_request_id c) method params] \<and> lc_process c'
    else lc_sent c' = lc_sent c"
  using assms unfolding client_request_def Let_def
  by (elim cbind_outcome) (auto dest!: write_message_sent split: if_splits)

lemma events_of_messages:
  assumes "method \<notin> {''textDocument/didOpen'', ''textDocument/didClose''}"
  shows "document_event (request_message i method params) = None" "document_event (notification method params) = None"
  using assms by (simp_all add: document_event_def request_message_def notification_def Let_def)

lemma events_of_document:
  "document_event (notification ''textDocument/didOpen'' (did_open_params sv path contents)) = Some (Opened (JStr (sv_uri sv path)))"
  "document_event (notification ''textDocument/didClose'' (JObj [document_uri sv path])) = Some (Closed (JStr (sv_uri sv path)))"
  by (simp_all add: document_event_def notification_def did_open_params_def document_uri_def Let_def)

lemma document_events_append [simp]: "document_events (xs @ ys) = document_events xs @ document_events ys"
  by (induction xs) (auto simp: document_events_def map_filter_def)

lemma document_events_one:
  "document_events [m] = (case document_event m of None \<Rightarrow> [] | Some e \<Rightarrow> [e])"
  by (simp add: document_events_def map_filter_def split: option.split)

definition documents_closed :: "lsp_client \<Rightarrow> bool" where
  "documents_closed c \<longleftrightarrow> opened_and_closed (document_events (lc_sent c))"

lemma opened_and_closed_snoc: "opened_and_closed es \<Longrightarrow> opened_and_closed (es @ [Opened u, Closed u])"
proof -
  assume "opened_and_closed es"
  then obtain us where "es = concat (map (\<lambda>u. [Opened u, Closed u]) us)" by (auto simp: opened_and_closed_def)
  then have "es @ [Opened u, Closed u] = concat (map (\<lambda>u. [Opened u, Closed u]) (us @ [u]))" by simp
  then show ?thesis unfolding opened_and_closed_def by blast
qed

lemma opened_and_closed_Nil: "opened_and_closed (document_events [])"
  by (simp add: opened_and_closed_def document_events_def map_filter_def)

lemma documents_closed_calls: "client_keeps documents_closed (call_outcome sv call)"
proof (rule calls_keep)
  show "client_keeps documents_closed (start_process sv)"
    by (rule keepsI) (auto simp: start_process_def documents_closed_def opened_and_closed_Nil split: if_splits)
  show "client_keeps documents_closed stop_process" by (rule keepsI) (auto simp: stop_process_def documents_closed_def)
  show "documents_closed c \<Longrightarrow> documents_closed (ensure_reader_started c)" for c by (simp add: documents_closed_def ensure_reader_started_def)
  show "documents_closed c \<Longrightarrow> documents_closed (c\<lparr>lc_initialized := b\<rparr>)" for c b by (simp add: documents_closed_def)
  fix meth params path assume plain: "meth \<notin> {''textDocument/didOpen'', ''textDocument/didClose''}"
  note events = events_of_messages [OF plain]
  show "client_keeps documents_closed (client_request sv meth params)"
    by (rule keepsI) (auto dest!: request_sent simp: documents_closed_def document_events_one events split: if_splits)
  show "client_keeps documents_closed (notify sv meth params)"
    unfolding notify_def
    by (rule keepsI) (auto dest!: write_message_sent simp: documents_closed_def document_events_one events split: if_splits)
  show "client_keeps documents_closed (request_for_open_document sv path meth params)"
  proof (rule keepsI)
    fix c r c' assume c: "documents_closed c" and run: "request_for_open_document sv path meth params c = Some (r, c')"
    show "documents_closed c'"
    proof (cases "lc_sent c' = lc_sent c")
      case True
      then show ?thesis using c by (simp add: documents_closed_def)
    next
      case False
      then obtain contents c1 where opened: "notify sv ''textDocument/didOpen'' (did_open_params sv path contents) c = Some (Inr (), c1)"
        and rest: "cfinally (client_request sv meth params) (notify sv ''textDocument/didClose'' (JObj [document_uri sv path])) c1 = Some (r, c')"
        using run unfolding request_for_open_document_def notify_def
        by (elim cbind_outcome) (auto simp: clift_def dest: write_message_sent split: if_splits)
      have c1: "lc_process c1" "lc_sent c1 = lc_sent c @ [notification ''textDocument/didOpen'' (did_open_params sv path contents)]"
        using write_message_sent [OF opened [unfolded notify_def]] by (auto split: if_splits)
      obtain r2 d where asked: "client_request sv meth params c1 = Some (r2, d)"
        and closed: "\<exists>u. notify sv ''textDocument/didClose'' (JObj [document_uri sv path]) d = Some (u, c')"
        using rest by (elim cfinally_outcome) blast+
      have "lc_process d" "lc_sent d = lc_sent c1 @ [request_message (lc_next_request_id c1) meth params]"
        using request_sent [OF asked] c1(1) by simp_all
      then have "lc_sent c' = lc_sent c1 @ [request_message (lc_next_request_id c1) meth params, notification ''textDocument/didClose'' (JObj [document_uri sv path])]"
        using closed by (auto simp: notify_def dest!: write_message_sent)
      then have "document_events (lc_sent c') = document_events (lc_sent c) @ [Opened (JStr (sv_uri sv path)), Closed (JStr (sv_uri sv path))]"
        by (simp add: c1(2) document_events_def map_filter_def events events_of_document)
      then show ?thesis using c by (simp add: documents_closed_def opened_and_closed_snoc)
    qed
  qed
qed

text \<open>
  C27. Whatever calls a client made, and however they ended, its messages to the running server open and close
  documents in pairs: no document is left open, and none is asked about twice at a time.
\<close>

theorem opened_documents_are_closed:
  assumes "client_reachable sv c"
  shows "opened_and_closed (document_events (lc_sent c))"
proof -
  have "documents_closed c"
  proof (rule reachable_invariant [OF assms])
    show "documents_closed (new_client timeout)" for timeout
      by (simp add: documents_closed_def new_client_def opened_and_closed_Nil)
  qed (rule documents_closed_calls)
  then show ?thesis by (simp add: documents_closed_def)
qed


lemma asked_client:
  "\<exists>r c. client_document_symbol counting_server ''/r/a.go'' initialized_client = Some (r, c) \<and>
     document_events (lc_sent c) = [Opened (JStr ''file:///r/a.go''), Closed (JStr ''file:///r/a.go'')]"
  by (simp add: client_document_symbol_def request_for_open_document_def cbind_def cfinally_def clift_def notify_def write_message_def client_request_def
      deliver_def queued_def initialized_client_def counting_server_def silent_server_def counting_answers_def Let_def
      document_events_def map_filter_def document_event_def did_open_params_def document_uri_def notification_def request_message_def)

theorem opened_documents_are_closed_witness:
  "\<exists>c us. client_reachable counting_server c \<and> document_events (lc_sent c) \<noteq> [] \<and>
     document_events (lc_sent c) = concat (map (\<lambda>u. [Opened u, Closed u]) us)"
proof -
  obtain r c where c: "client_document_symbol counting_server ''/r/a.go'' initialized_client = Some (r, c)"
    "document_events (lc_sent c) \<noteq> []" using asked_client by force
  then have "\<exists>r'. call_outcome counting_server (Call_Document_Symbol ''/r/a.go'') initialized_client = Some (r', c)"
    by (cases r) (simp_all add: ignoring_def cbind_def clift_def)
  then have "client_reachable counting_server c" using called [OF initialized_client_reachable] by blast
  from opened_documents_are_closed [OF this] show ?thesis using \<open>client_reachable _ c\<close> c(2) by (auto simp: opened_and_closed_def)
qed

subsection \<open>Every call returns\<close>

definition client_returns :: "'a client_op \<Rightarrow> bool" where
  "client_returns m \<longleftrightarrow> (\<forall>c. lc_timeout c \<noteq> None \<longrightarrow> (\<exists>r c'. m c = Some (r, c') \<and> lc_timeout c' \<noteq> None))"

lemma returnsE:
  assumes "client_returns m" and "lc_timeout c \<noteq> None"
  obtains r c' where "m c = Some (r, c')" "lc_timeout c' \<noteq> None"
  using assms unfolding client_returns_def by blast

lemma returnsD: "client_returns m \<Longrightarrow> lc_timeout c \<noteq> None \<Longrightarrow> \<exists>r c'. m c = Some (r, c') \<and> lc_timeout c' \<noteq> None"
  unfolding client_returns_def by blast

lemma returnsI: "(\<And>c. lc_timeout c \<noteq> None \<Longrightarrow> \<exists>r c'. m c = Some (r, c') \<and> lc_timeout c' \<noteq> None) \<Longrightarrow> client_returns m"
  unfolding client_returns_def by blast

lemma returns_clift [simp]: "client_returns (clift r)"
  by (simp add: client_returns_def clift_def)

lemma returns_cbind:
  assumes "client_returns m" and "\<And>x. client_returns (k x)"
  shows "client_returns (cbind m k)"
proof (rule returnsI)
  fix c :: lsp_client assume "lc_timeout c \<noteq> None"
  with assms(1) obtain r d where d: "m c = Some (r, d)" "lc_timeout d \<noteq> None" by (rule returnsE)
  show "\<exists>r c'. cbind m k c = Some (r, c') \<and> lc_timeout c' \<noteq> None"
  proof (cases r)
    case (Inr x)
    from assms(2) [of x] d(2) obtain r' d' where "k x d = Some (r', d')" "lc_timeout d' \<noteq> None" by (rule returnsE)
    then show ?thesis using d Inr by (simp add: cbind_def)
  qed (use d in \<open>simp add: cbind_def\<close>)
qed

lemma returns_cfinally:
  assumes "client_returns m" and "client_returns f"
  shows "client_returns (cfinally m f)"
proof (rule returnsI)
  fix c :: lsp_client assume "lc_timeout c \<noteq> None"
  with assms(1) obtain r d where d: "m c = Some (r, d)" "lc_timeout d \<noteq> None" by (rule returnsE)
  from assms(2) d(2) obtain r' d' where "f d = Some (r', d')" "lc_timeout d' \<noteq> None" by (rule returnsE)
  then show "\<exists>r c'. cfinally m f c = Some (r, c') \<and> lc_timeout c' \<noteq> None"
    using d by (cases r') (simp_all add: cfinally_def)
qed

lemma returns_write: "client_returns (write_message sv m)"
  by (simp add: client_returns_def write_message_def deliver_def Let_def)

lemma await_returns: "timeout \<noteq> None \<Longrightarrow> await_response rep timeout method i items \<noteq> None"
proof (induction items)
  case (Cons x items)
  then show ?case by (cases x) (auto split: option.splits)
qed simp

lemma returns_request: "client_returns (client_request sv method params)"
proof (rule returnsI)
  fix c :: lsp_client assume "lc_timeout c \<noteq> None"
  then have "lc_timeout (c\<lparr>lc_next_request_id := lc_next_request_id c + 1\<rparr>) \<noteq> None" by simp
  with returns_write obtain r d where d: "write_message sv (request_message (lc_next_request_id c) method params)
      (c\<lparr>lc_next_request_id := lc_next_request_id c + 1\<rparr>) = Some (r, d)" "lc_timeout d \<noteq> None" by (rule returnsE)
  obtain r2 items where "await_response (sv_repr sv) (lc_timeout d) method (lc_next_request_id c) (lc_inbox d) = Some (r2, items)"
    using await_returns [OF d(2)] by fastforce
  then show "\<exists>r c'. client_request sv method params c = Some (r, c') \<and> lc_timeout c' \<noteq> None"
    using d by (cases r) (simp_all add: client_request_def cbind_def Let_def)
qed

lemma returns_document: "client_returns (request_for_open_document sv path method params)"
  unfolding request_for_open_document_def notify_def by (intro returns_cbind returns_cfinally returns_clift returns_write returns_request)

lemma returns_process: "client_returns (start_process sv)" "client_returns stop_process"
    "client_returns (\<lambda>c. Some (Inr (), ensure_reader_started c))" "client_returns (\<lambda>c. Some (Inr (), c\<lparr>lc_initialized := b\<rparr>))"
  by (simp_all add: client_returns_def start_process_def stop_process_def ensure_reader_started_def)

lemma returns_ignoring: "client_returns m \<Longrightarrow> client_returns (ignoring m)"
  unfolding ignoring_def by (intro returns_cbind returns_clift)

lemma returns_positional: "client_returns (positional_request sv method extra path l c)"
  unfolding positional_request_def by (intro returns_cbind returns_clift returns_document)

lemma returns_initialize: "client_returns (client_initialize sv dir name)"
proof (rule returnsI)
  fix c :: lsp_client assume c: "lc_timeout c \<noteq> None"
  have "client_returns (cbind (start_process sv) (\<lambda>_. cbind (\<lambda>c. Some (Inr (), ensure_reader_started c)) (\<lambda>_.
        cbind (client_request sv ''initialize'' (initialize_params sv dir name)) (\<lambda>_.
        cbind (notify sv ''initialized'' (JObj [])) (\<lambda>_ c. Some (Inr (), c\<lparr>lc_initialized := True\<rparr>))))))"
    unfolding notify_def by (intro returns_cbind returns_process returns_request returns_write)
  from returnsD [OF this c] show "\<exists>r c'. client_initialize sv dir name c = Some (r, c') \<and> lc_timeout c' \<noteq> None"
    using c by (cases "lc_initialized c") (auto simp: client_initialize_def)
qed

lemma returns_shutdown: "client_returns (client_shutdown sv)"
proof (rule returnsI)
  fix c :: lsp_client assume c: "lc_timeout c \<noteq> None"
  have "client_returns (cfinally (cbind (client_request sv ''shutdown'' JNull) (\<lambda>_. notify sv ''exit'' JNull))
      (cbind stop_process (\<lambda>_ c. Some (Inr (), c\<lparr>lc_initialized := False\<rparr>))))"
    unfolding notify_def by (intro returns_cfinally returns_cbind returns_process returns_request returns_write)
  from returnsD [OF this c] show "\<exists>r c'. client_shutdown sv c = Some (r, c') \<and> lc_timeout c' \<noteq> None"
    using c by (cases "lc_initialized c") (auto simp: client_shutdown_def stop_process_def)
qed

lemma shutdown_stops:
  assumes "client_shutdown sv c = Some (r, c')"
  shows "\<not> lc_process c' \<and> \<not> lc_initialized c' \<and> \<not> lc_reader c'"
proof (cases "lc_initialized c")
  case True
  then show ?thesis using assms unfolding client_shutdown_def
    by (auto simp: cbind_def stop_process_def elim!: cfinally_outcome)
qed (use assms in \<open>auto simp: client_shutdown_def stop_process_def\<close>)

text \<open>
  With a timeout every call of the client returns, whatever the server does, and a shutdown leaves no process
  behind even when the server does not answer it. Without a timeout, which is the default, a silent server blocks every
  request for ever.
\<close>

theorem calls_return_with_timeout:
  "(lc_timeout c \<noteq> None \<longrightarrow>
      (\<exists>r c'. call_outcome sv call c = Some (r, c')) \<and>
      (\<exists>r c'. client_shutdown sv c = Some (r, c') \<and> \<not> lc_process c' \<and> \<not> lc_initialized c')) \<and>
   (lc_timeout c = None \<and> lc_process c \<and> lc_inbox c = [] \<longrightarrow> client_request silent_server method params c = None)"
proof (intro conjI impI)
  assume c: "lc_timeout c \<noteq> None"
  have "client_returns (call_outcome sv call)"
    by (cases call) (simp_all add: returns_ignoring returns_initialize returns_shutdown returns_positional returns_cbind returns_request returns_document
        client_workspace_symbol_def client_document_symbol_def client_definition_def client_references_def client_implementation_def)
  from returnsD [OF this c] show "\<exists>r c'. call_outcome sv call c = Some (r, c')" by blast
  from returnsD [OF returns_shutdown c] show "\<exists>r c'. client_shutdown sv c = Some (r, c') \<and> \<not> lc_process c' \<and> \<not> lc_initialized c'"
    by (metis shutdown_stops)
next
  assume "lc_timeout c = None \<and> lc_process c \<and> lc_inbox c = []"
  then show "client_request silent_server method params c = None"
    by (simp add: client_request_def cbind_def write_message_def deliver_def silent_server_def queued_def Let_def)
qed

theorem calls_return_with_timeout_witness:
  "(\<exists>r c'. call_outcome silent_server (Call_Definition ''/r/a.go'' 3 1) initialized_client = Some (r, c')) \<and>
   client_request silent_server ''workspace/symbol'' JNull (initialized_client\<lparr>lc_timeout := None\<rparr>) = None"
  using calls_return_with_timeout [of initialized_client silent_server "Call_Definition ''/r/a.go'' 3 1"]
    calls_return_with_timeout [of "initialized_client\<lparr>lc_timeout := None\<rparr>" silent_server Call_Shutdown "''workspace/symbol''" JNull]
  by (simp add: initialized_client_def)

end
