(* ===== verification/Lsp_Backend.thy ===== *)
theory Lsp_Backend
  imports Lsp_Client Fnmatch Coordinator Code_Capabilities
begin

text \<open>
  Code questions over a language server (\<open>providers/shared/lsp_code/backend.py\<close>, \<open>session.py\<close>, \<open>symbol_service_base.py\<close>). The
  backend uses a client through a session manager; the manager that starts a server for each call and the one
  that asks the coordinator are both modelled. The file system is a parameter, so are \<open>Path.resolve\<close> and the path of a \<open>file:\<close> URI.
\<close>

section \<open>Sessions\<close>

record 's session_manager =
  sm_open :: "('s, unit) session_op"
  sm_workspace_symbol :: "string \<Rightarrow> ('s, lsp_workspace_symbol list) session_op"
  sm_document_symbol :: "string \<Rightarrow> ('s, lsp_document_symbol list) session_op"
  sm_definition :: "string \<Rightarrow> int \<Rightarrow> int \<Rightarrow> ('s, lsp_location list) session_op"
  sm_references :: "bool \<Rightarrow> string \<Rightarrow> int \<Rightarrow> int \<Rightarrow> ('s, lsp_location list) session_op"
  sm_implementation :: "string \<Rightarrow> int \<Rightarrow> int \<Rightarrow> ('s, lsp_location list) session_op"
  sm_close :: "('s, unit) session_op"

text \<open>\<open>with self.open_session() as client\<close>: the client is initialised inside the \<open>try\<close> that shuts it down.\<close>

definition with_session :: "'s session_manager \<Rightarrow> ('s, 'a) session_op \<Rightarrow> ('s, 'a) session_op" where
  "with_session sm body = cfinally (cbind (sm_open sm) (\<lambda>_. body)) (sm_close sm)"

text \<open>\<open>except LspProtocolError\<close>.\<close>

definition on_protocol_error :: "'a \<Rightarrow> ('s, 'a) session_op \<Rightarrow> ('s, 'a) session_op" where
  "on_protocol_error answer m c =
     (case m c of Some (Inl (LspProtocol e), c') \<Rightarrow> Some (Inr answer, c') | outcome \<Rightarrow> outcome)"

definition per_call_manager :: "server \<Rightarrow> rat option \<Rightarrow> string \<Rightarrow> lsp_client session_manager" where
  "per_call_manager sv timeout dir =
     \<lparr>sm_open = (\<lambda>c. client_initialize sv dir (file_name dir) (new_client timeout)),
      sm_workspace_symbol = client_workspace_symbol sv, sm_document_symbol = client_document_symbol sv,
      sm_definition = client_definition sv, sm_references = client_references sv, sm_implementation = client_implementation sv,
      sm_close = client_shutdown sv\<rparr>"

section \<open>The backend\<close>

record repository_symbol =
  ls_name :: string
  ls_kind :: string
  ls_path :: string
  ls_line_start :: int
  ls_line_end :: int
  ls_column_start :: int
  ls_column_end :: int
  ls_container_name :: "string option"
  ls_signature :: "string option"

type_synonym source_span = "string \<times> int \<times> int \<times> int \<times> int"

text \<open>\<open>be_entries\<close> are the paths below the root that \<open>rglob\<close> walks; \<open>be_ready\<close> is \<open>ensure_ready\<close> with the resolver.\<close>

record backend =
  be_root :: string
  be_ready :: "lsp_error + unit"
  be_extensions :: "string list"
  be_kind_by_code :: "(int \<times> string) list"
  be_ignored :: "string list"
  be_included :: "string list option"
  be_fallback :: bool
  be_resolve :: "string \<Rightarrow> string"
  be_exists :: "string \<Rightarrow> bool"
  be_is_file :: "string \<Rightarrow> bool"
  be_uri_path :: "string \<Rightarrow> string option"
  be_entries :: "string list"

definition symbol_kind :: "backend \<Rightarrow> int \<Rightarrow> string" where
  "symbol_kind be k = (case map_of (be_kind_by_code be) k of None \<Rightarrow> ''unknown'' | Some name \<Rightarrow> name)"

definition relative_to_root :: "backend \<Rightarrow> string \<Rightarrow> string" where
  "relative_to_root be file =
     (if file = be_root be then ''.'' else drop (if be_root be = ''/'' then 1 else length (be_root be) + 1) file)"

definition path_from_uri :: "backend \<Rightarrow> string \<Rightarrow> string option" where
  "path_from_uri be uri =
     (case be_uri_path be uri of
        None \<Rightarrow> None
      | Some path \<Rightarrow> let file = be_resolve be path in if inside_path (be_root be) file then Some file else None)"

definition supported_symbol_file :: "backend \<Rightarrow> string \<Rightarrow> bool" where
  "supported_symbol_file be file \<longleftrightarrow> lower (path_suffix (file_name file)) \<in> set (be_extensions be)"

definition validate_query :: "string \<Rightarrow> lsp_error + string" where
  "validate_query query =
     (if strip query = [] then Inl (LspRaised (ValueErr ''symbol query must not be empty'')) else Inr (strip query))"

definition workspace_query :: "string \<Rightarrow> string" where
  "workspace_query query =
     (let collapsed = strip (filter (\<lambda>c. c \<noteq> CHR ''*'' \<and> c \<noteq> CHR ''?'') query) in if collapsed = [] then query else collapsed)"

definition validate_position :: "int \<Rightarrow> int \<Rightarrow> lsp_error + unit" where
  "validate_position line column =
     check (\<not> (line < 1 \<or> column < 1)) (LspRaised (ValueErr ''line and column must be >= 1''))"

definition validate_repository_file :: "backend \<Rightarrow> string \<Rightarrow> lsp_error + string" where
  "validate_repository_file be path =
     (let normalized = removeprefix ''./'' (replace_char (CHR 0x5C) (CHR ''/'') (strip path)) in
      if normalized = [] then Inl (LspRaised (ValueErr ''repository_rel_path must not be empty''))
      else let file = be_resolve be (join_path (be_root be) normalized) in
        if \<not> inside_path (be_root be) file then Inl (LspRaised (ValueErr (''path escapes repository root: '' @ quoted path)))
        else if \<not> be_exists be file then Inl (LspRaised (ValueErr (''file does not exist: '' @ quoted path)))
        else if \<not> be_is_file be file then Inl (LspRaised (ValueErr (''path is not a file: '' @ quoted path)))
        else Inr file)"

definition filter_symbols :: "string \<Rightarrow> bool \<Rightarrow> repository_symbol list \<Rightarrow> repository_symbol list" where
  "filter_symbols query case_sensitive = filter (\<lambda>s. matches_query (ls_name s) query case_sensitive)"

definition translate_workspace_symbol :: "backend \<Rightarrow> lsp_workspace_symbol \<Rightarrow> repository_symbol option" where
  "translate_workspace_symbol be s =
     (case lw_location s of
        None \<Rightarrow> None
      | Some l \<Rightarrow> (case path_from_uri be (ll_uri l) of
          None \<Rightarrow> None
        | Some file \<Rightarrow> if \<not> supported_symbol_file be file then None
            else Some \<lparr>ls_name = lw_name s, ls_kind = symbol_kind be (lw_kind s), ls_path = relative_to_root be file,
              ls_line_start = lp_line (lr_start (ll_range l)) + 1, ls_line_end = lp_line (lr_end (ll_range l)) + 1,
              ls_column_start = lp_character (lr_start (ll_range l)) + 1, ls_column_end = lp_character (lr_end (ll_range l)) + 1,
              ls_container_name = lw_container_name s, ls_signature = lw_container_name s\<rparr>))"

text \<open>\<open>a or b\<close> on optional strings: an empty string counts as missing.\<close>

definition or_else :: "string option \<Rightarrow> string option \<Rightarrow> string option" where
  "or_else a b = (case a of Some (c # s) \<Rightarrow> a | _ \<Rightarrow> b)"

fun flatten_symbols :: "backend \<Rightarrow> string \<Rightarrow> string option \<Rightarrow> lsp_document_symbol list \<Rightarrow> repository_symbol list" where
  "flatten_symbols be path container [] = []"
| "flatten_symbols be path container (LspDocumentSymbol name kind r sel detail own children # rest) =
     (let current = or_else container own in
      \<lparr>ls_name = name, ls_kind = symbol_kind be kind, ls_path = path,
       ls_line_start = lp_line (lr_start r) + 1, ls_line_end = lp_line (lr_end r) + 1,
       ls_column_start = lp_character (lr_start sel) + 1, ls_column_end = lp_character (lr_end sel) + 1,
       ls_container_name = current, ls_signature = or_else detail current\<rparr> #
      flatten_symbols be path (Some name) children @ flatten_symbols be path container rest)"

definition translate_location :: "backend \<Rightarrow> lsp_location \<Rightarrow> source_span option" where
  "translate_location be l =
     (case path_from_uri be (ll_uri l) of
        None \<Rightarrow> None
      | Some file \<Rightarrow> if \<not> supported_symbol_file be file then None
          else Some (relative_to_root be file, lp_line (lr_start (ll_range l)) + 1, lp_line (lr_end (ll_range l)) + 1,
                     lp_character (lr_start (ll_range l)) + 1, lp_character (lr_end (ll_range l)) + 1))"

definition translate_locations :: "backend \<Rightarrow> lsp_location list \<Rightarrow> source_span list" where
  "translate_locations be locations = List.map_filter (translate_location be) locations"

definition is_included_path :: "backend \<Rightarrow> string \<Rightarrow> bool" where
  "is_included_path be path =
     (case be_included be of
        None \<Rightarrow> True
      | Some dirs \<Rightarrow>
          \<exists>d\<in>set dirs. d = [] \<or> normal_root path = d \<or> startswith (normal_root path) (d @ ''/''))"


text \<open>
  The walk over the files with a supported extension; \<open>sorted(set(...))\<close> compares paths by their parts, and no part
  but the last may be ignored or start with a dot.
\<close>

definition symbol_file_candidate :: "backend \<Rightarrow> string \<Rightarrow> bool" where
  "symbol_file_candidate be path \<longleftrightarrow>
     (let parts = split_on CHR ''/'' path in
      (\<exists>e\<in>set (be_extensions be). endswith (last parts) e) \<and> is_included_path be path \<and>
      (\<forall>part\<in>set (butlast parts). part \<notin> set (be_ignored be) \<and> \<not> startswith part ''.''))"

definition iter_symbol_files :: "backend \<Rightarrow> string list" where
  "iter_symbol_files be =
     map (join_with ''/'') (sorted_set (map (split_on CHR ''/'') (filter (symbol_file_candidate be) (be_entries be))))"

fun fallback_symbols :: "'s session_manager \<Rightarrow> backend \<Rightarrow> string \<Rightarrow> bool \<Rightarrow> string list \<Rightarrow> ('s, repository_symbol list) session_op" where
  "fallback_symbols sm be query case_sensitive [] = clift (Inr [])"
| "fallback_symbols sm be query case_sensitive (path # paths) =
     cbind (sm_document_symbol sm (join_path (be_root be) path)) (\<lambda>raw.
     cbind (fallback_symbols sm be query case_sensitive paths) (\<lambda>more.
       clift (Inr (filter_symbols query case_sensitive (flatten_symbols be path None raw) @ more))))"

definition repository_symbol_order :: "repository_symbol \<Rightarrow> string \<times> string \<times> int \<times> int" where
  "repository_symbol_order s = (ls_name s, ls_path s, ls_line_start s, ls_column_start s)"

definition file_symbol_order :: "repository_symbol \<Rightarrow> string \<times> string \<times> int \<times> int" where
  "file_symbol_order s = (ls_name s, ls_kind s, ls_line_start s, ls_column_start s)"

definition backend_symbols :: "'s session_manager \<Rightarrow> backend \<Rightarrow> string \<Rightarrow> bool \<Rightarrow> ('s, repository_symbol list) session_op" where
  "backend_symbols sm be query case_sensitive =
     cbind (clift (validate_query query)) (\<lambda>q.
     on_protocol_error []
       (cbind (clift (be_ready be)) (\<lambda>_.
        with_session sm
          (cbind (on_protocol_error [] (sm_workspace_symbol sm (workspace_query q))) (\<lambda>raw.
           let found = filter_symbols q case_sensitive (List.map_filter (translate_workspace_symbol be) raw) in
           if found \<noteq> [] then clift (Inr (sort_key repository_symbol_order found))
           else if \<not> be_fallback be then clift (Inr [])
           else cbind (fallback_symbols sm be q case_sensitive (iter_symbol_files be)) (\<lambda>found.
             clift (Inr (sort_key repository_symbol_order found))))))))"

text \<open>
  The question about one file, in a session of its own; an unsupported file and a failing server have no answers.
\<close>

definition ask_about_file :: "'s session_manager \<Rightarrow> backend \<Rightarrow> string \<Rightarrow> (string \<Rightarrow> ('s, 'a list) session_op) \<Rightarrow> ('a list \<Rightarrow> string \<Rightarrow> lsp_error + 'b list) \<Rightarrow> ('s, 'b list) session_op" where
  "ask_about_file sm be path ask translate =
     cbind (clift (validate_repository_file be path)) (\<lambda>file.
     if \<not> supported_symbol_file be file then clift (Inr [])
     else cbind (on_protocol_error None (cbind (clift (be_ready be)) (\<lambda>_.
       with_session sm (on_protocol_error None (cbind (ask file) (\<lambda>raw. clift (Inr (Some raw)))))))) (\<lambda>answer.
       clift (case answer of None \<Rightarrow> Inr [] | Some raw \<Rightarrow> translate raw file)))"

definition select_file_symbols :: "backend \<Rightarrow> string option \<Rightarrow> bool \<Rightarrow> lsp_document_symbol list \<Rightarrow> string \<Rightarrow> lsp_error + repository_symbol list" where
  "select_file_symbols be query case_sensitive raw file =
     (let flattened = flatten_symbols be (relative_to_root be file) None raw in
      ebind (case query of None \<Rightarrow> Inr flattened
             | Some q \<Rightarrow> ebind (validate_query q) (\<lambda>q. Inr (filter_symbols q case_sensitive flattened))) (\<lambda>found.
        Inr (sort_key file_symbol_order found)))"

definition backend_file_symbols :: "'s session_manager \<Rightarrow> backend \<Rightarrow> string \<Rightarrow> string option \<Rightarrow> bool \<Rightarrow> ('s, repository_symbol list) session_op" where
  "backend_file_symbols sm be path query case_sensitive =
     ask_about_file sm be path (sm_document_symbol sm) (select_file_symbols be query case_sensitive)"

definition backend_definition :: "'s session_manager \<Rightarrow> backend \<Rightarrow> string \<Rightarrow> int \<Rightarrow> int \<Rightarrow> ('s, source_span list) session_op" where
  "backend_definition sm be path line column =
     cbind (clift (validate_position line column)) (\<lambda>_.
       ask_about_file sm be path (\<lambda>file. sm_definition sm file line column) (\<lambda>locations file. Inr (translate_locations be locations)))"

definition backend_references :: "'s session_manager \<Rightarrow> backend \<Rightarrow> string \<Rightarrow> int \<Rightarrow> int \<Rightarrow> bool \<Rightarrow> ('s, source_span list) session_op" where
  "backend_references sm be path line column include_definition =
     cbind (clift (validate_position line column)) (\<lambda>_.
       ask_about_file sm be path (\<lambda>file. sm_references sm include_definition file line column)
         (\<lambda>locations file. Inr (translate_locations be locations)))"

definition backend_implementations :: "'s session_manager \<Rightarrow> backend \<Rightarrow> string \<Rightarrow> int \<Rightarrow> int \<Rightarrow> ('s, source_span list) session_op" where
  "backend_implementations sm be path line column =
     cbind (clift (validate_position line column)) (\<lambda>_.
       ask_about_file sm be path (\<lambda>file. sm_implementation sm file line column) (\<lambda>locations file. Inr (translate_locations be locations)))"


section \<open>The coordinator's client\<close>

text \<open>
  \<open>_CoordinatorLspClient\<close>: \<open>ask\<close> is the request over the connection, which answers with the items of a payload or with no
  payload. Starting the coordinator and waiting for the server is \<open>connect\<close>.
\<close>

definition raised :: "'a result \<Rightarrow> lsp_error + 'a" where
  "raised r = (case r of Inl e \<Rightarrow> Inl (LspRaised e) | Inr x \<Rightarrow> Inr x)"

definition coordinator_answer ::
  "string \<Rightarrow> ((string \<times> json) list \<Rightarrow> 'a result) \<Rightarrow> lsp_error + ((string \<times> json) list list option) \<Rightarrow> lsp_error + 'a list" where
  "coordinator_answer operation from_dict answer =
     ebind answer (\<lambda>payload.
       case payload of
         None \<Rightarrow> Inl (LspRaised (ValueErr (''coordinator '' @ operation @ '' response is missing a payload'')))
       | Some items \<Rightarrow> raised (mapE from_dict items))"

definition attachment_file :: "(string \<Rightarrow> string) \<Rightarrow> string \<Rightarrow> string \<Rightarrow> lsp_error + string" where
  "attachment_file resolve attachment file =
     (let path = resolve file in
      if \<not> inside_path attachment path
      then Inl (LspRaised (ValueErr (path @ '' is not in the subpath of '' @ attachment)))
      else Inr (if path = attachment then ''.'' else drop (if attachment = ''/'' then 1 else length attachment + 1) path))"

definition coordinator_manager ::
  "(string \<Rightarrow> string) \<Rightarrow> string \<Rightarrow> (lsp_error + unit) option \<Rightarrow>
   (lsp_request \<Rightarrow> lsp_error + ((string \<times> json) list list option)) \<Rightarrow> unit session_manager" where
  "coordinator_manager resolve attachment connect ask =
     \<lparr>sm_open = (\<lambda>s. map_option (\<lambda>r. (r, s)) connect),
      sm_workspace_symbol = (\<lambda>q. clift (coordinator_answer ''workspace_symbol'' workspace_symbol_from_dict (ask (AskWorkspaceSymbol q)))),
      sm_document_symbol = (\<lambda>file. clift (ebind (attachment_file resolve attachment file) (\<lambda>path.
        coordinator_answer ''document_symbol'' document_symbol_from_dict (ask (AskDocumentSymbol path))))),
      sm_definition = (\<lambda>file l c. clift (ebind (attachment_file resolve attachment file) (\<lambda>path.
        coordinator_answer ''definition'' location_from_dict (ask (AskDefinition path l c))))),
      sm_references = (\<lambda>d file l c. clift (ebind (attachment_file resolve attachment file) (\<lambda>path.
        coordinator_answer ''references'' location_from_dict (ask (AskReferences path l c d))))),
      sm_implementation = (\<lambda>file l c. clift (ebind (attachment_file resolve attachment file) (\<lambda>path.
        coordinator_answer ''implementation'' location_from_dict (ask (AskImplementation path l c))))),
      sm_close = clift (Inr ())\<rparr>"

section \<open>Attachments below the repository\<close>

definition attachment_prefix :: "string \<Rightarrow> string" where
  "attachment_prefix rel_path = (if normal_root rel_path = ''.'' then [] else normal_root rel_path)"

definition normal_rel_path :: "string \<Rightarrow> string" where
  "normal_rel_path path =
     (let normalized = removeprefix ''./'' (replace_char (CHR 0x5C) (CHR ''/'') (strip path)) in
      if normalized = ''.'' then [] else normalized)"

definition to_attachment_rel_path :: "string \<Rightarrow> string \<Rightarrow> string result" where
  "to_attachment_rel_path prefix path =
     (let normalized = normal_rel_path path in
      if prefix = [] then Inr normalized
      else if normalized = prefix then Inr []
      else if \<not> startswith normalized (prefix @ ''/'')
      then Inl (ValueErr (''file is outside attachment '' @ quoted prefix @ '': '' @ quoted path))
      else Inr (removeprefix (prefix @ ''/'') normalized))"

definition to_repository_rel_path :: "string \<Rightarrow> string \<Rightarrow> string" where
  "to_repository_rel_path prefix path =
     (let normalized = normal_rel_path path in
      if prefix = [] then normalized else if normalized = [] then prefix else prefix @ ''/'' @ normalized)"

definition to_repository_symbol :: "string \<Rightarrow> repository_symbol \<Rightarrow> repository_symbol" where
  "to_repository_symbol prefix s = (if prefix = [] then s else s\<lparr>ls_path := to_repository_rel_path prefix (ls_path s)\<rparr>)"

definition rebase_locations :: "string \<Rightarrow> source_span list \<Rightarrow> source_span list" where
  "rebase_locations prefix = map (\<lambda>(path, span). (to_repository_rel_path prefix path, span))"

definition service_get_symbols :: "'s session_manager \<Rightarrow> backend \<Rightarrow> string \<Rightarrow> string \<Rightarrow> bool \<Rightarrow> ('s, repository_symbol list) session_op" where
  "service_get_symbols sm be prefix query case_sensitive =
     cbind (backend_symbols sm be query case_sensitive) (\<lambda>found. clift (Inr (map (to_repository_symbol prefix) found)))"

definition service_file_symbols :: "'s session_manager \<Rightarrow> backend \<Rightarrow> string \<Rightarrow> string \<Rightarrow> string option \<Rightarrow> bool \<Rightarrow> ('s, repository_symbol list) session_op" where
  "service_file_symbols sm be prefix path query case_sensitive =
     cbind (clift (raised (to_attachment_rel_path prefix path))) (\<lambda>p.
     cbind (backend_file_symbols sm be p query case_sensitive) (\<lambda>found. clift (Inr (map (to_repository_symbol prefix) found))))"

definition service_locations :: "string \<Rightarrow> (string \<Rightarrow> ('s, source_span list) session_op) \<Rightarrow> string \<Rightarrow> ('s, source_span list) session_op" where
  "service_locations prefix find_spans path =
     cbind (clift (raised (to_attachment_rel_path prefix path))) (\<lambda>p.
     cbind (find_spans p) (\<lambda>spans. clift (Inr (rebase_locations prefix spans))))"

definition service_definition :: "'s session_manager \<Rightarrow> backend \<Rightarrow> string \<Rightarrow> string \<Rightarrow> int \<Rightarrow> int \<Rightarrow> ('s, source_span list) session_op" where
  "service_definition sm be prefix path l c = service_locations prefix (\<lambda>p. backend_definition sm be p l c) path"

definition service_references :: "'s session_manager \<Rightarrow> backend \<Rightarrow> string \<Rightarrow> string \<Rightarrow> int \<Rightarrow> int \<Rightarrow> bool \<Rightarrow> ('s, source_span list) session_op" where
  "service_references sm be prefix path l c d = service_locations prefix (\<lambda>p. backend_references sm be p l c d) path"

definition service_implementations :: "'s session_manager \<Rightarrow> backend \<Rightarrow> string \<Rightarrow> string \<Rightarrow> int \<Rightarrow> int \<Rightarrow> ('s, source_span list) session_op" where
  "service_implementations sm be prefix path l c = service_locations prefix (\<lambda>p. backend_implementations sm be p l c) path"


section \<open>Queries\<close>

datatype backend_query =
    Query_Symbols string bool
  | Query_File_Symbols string "string option" bool
  | Query_Definition string int int
  | Query_References string int int bool
  | Query_Implementations string int int

datatype backend_answer = Symbols "repository_symbol list" | Spans "source_span list"

definition answering :: "('a \<Rightarrow> backend_answer) \<Rightarrow> ('s, 'a) session_op \<Rightarrow> ('s, backend_answer) session_op" where
  "answering f m = cbind m (\<lambda>x. clift (Inr (f x)))"

fun run_query :: "'s session_manager \<Rightarrow> backend \<Rightarrow> backend_query \<Rightarrow> ('s, backend_answer) session_op" where
  "run_query sm be (Query_Symbols q cs) = answering Symbols (backend_symbols sm be q cs)"
| "run_query sm be (Query_File_Symbols path q cs) = answering Symbols (backend_file_symbols sm be path q cs)"
| "run_query sm be (Query_Definition path l c) = answering Spans (backend_definition sm be path l c)"
| "run_query sm be (Query_References path l c d) = answering Spans (backend_references sm be path l c d)"
| "run_query sm be (Query_Implementations path l c) = answering Spans (backend_implementations sm be path l c)"

section \<open>What a session manager promises\<close>

text \<open>Closing a session really closes it; then no query leaves one open, and none ends with a protocol error.\<close>

definition settles :: "('s \<Rightarrow> bool) \<Rightarrow> ('s, 'a) session_op \<Rightarrow> bool" where
  "settles shut m \<longleftrightarrow> (\<forall>s r s'. shut s \<longrightarrow> m s = Some (r, s') \<longrightarrow> shut s' \<and> (\<forall>e. r \<noteq> Inl (LspProtocol e)))"

lemma settlesI: "(\<And>s r s'. shut s \<Longrightarrow> m s = Some (r, s') \<Longrightarrow> shut s' \<and> (\<forall>e. r \<noteq> Inl (LspProtocol e))) \<Longrightarrow> settles shut m"
  by (simp add: settles_def)

lemma settlesD: "settles shut m \<Longrightarrow> shut s \<Longrightarrow> m s = Some (r, s') \<Longrightarrow> shut s' \<and> (\<forall>e. r \<noteq> Inl (LspProtocol e))"
  unfolding settles_def by blast

lemma settles_clift: "(\<And>e. r \<noteq> Inl (LspProtocol e)) \<Longrightarrow> settles shut (clift r)"
  by (auto simp: settles_def clift_def)

lemma settles_cbind:
  assumes "settles shut m" and "\<And>x. settles shut (k x)"
  shows "settles shut (cbind m k)"
proof (rule settlesI)
  fix s r s' assume s: "shut s" and run: "cbind m k s = Some (r, s')"
  from run show "shut s' \<and> (\<forall>e. r \<noteq> Inl (LspProtocol e))"
  proof (cases rule: cbind_outcome)
    case (failed e)
    then show ?thesis using settlesD [OF assms(1) s failed(1)] by auto
  next
    case (passed x d)
    show ?thesis using settlesD [OF assms(2) _ passed(2)] settlesD [OF assms(1) s passed(1)] by blast
  qed
qed

lemma settles_if: "(b \<Longrightarrow> settles shut m) \<Longrightarrow> (\<not> b \<Longrightarrow> settles shut n) \<Longrightarrow> settles shut (if b then m else n)"
  by simp

lemma on_protocol_error_outcome:
  assumes "on_protocol_error answer m s = Some (r, s')"
  shows "(\<forall>e. r \<noteq> Inl (LspProtocol e)) \<and> (\<exists>r'. m s = Some (r', s') \<and> (r = r' \<or> (\<exists>e. r' = Inl (LspProtocol e)) \<and> r = Inr answer))"
  using assms by (auto simp: on_protocol_error_def split: option.splits prod.splits sum.splits lsp_error.splits)

lemma ready_passed: "cbind (clift prepared) (\<lambda>_. m) s = Some (r, s') \<Longrightarrow> s' = s \<or> m s = Some (r, s')"
  by (cases prepared) (auto simp: cbind_def clift_def)

locale session_contract =
  fixes sm :: "'s session_manager" and shut :: "'s \<Rightarrow> bool"
  assumes close_shuts: "sm_close sm s = Some (r, s') \<Longrightarrow> shut s'"
begin

lemma with_session_closed: "with_session sm body s = Some (r, s') \<Longrightarrow> shut s'"
  unfolding with_session_def by (elim cfinally_outcome) (auto dest: close_shuts)

lemma guarded_session:
  "settles shut (on_protocol_error answer (cbind (clift prepared) (\<lambda>_. with_session sm body)))"
proof (rule settlesI)
  fix s r s' assume "shut s" and run: "on_protocol_error answer (cbind (clift prepared) (\<lambda>_. with_session sm body)) s = Some (r, s')"
  note o = on_protocol_error_outcome [OF run]
  then have "shut s'" using \<open>shut s\<close> by (auto dest!: ready_passed with_session_closed)
  then show "shut s' \<and> (\<forall>e. r \<noteq> Inl (LspProtocol e))" using o by blast
qed

lemma ask_about_file_settles:
  assumes "\<And>raw file e. translate raw file \<noteq> Inl (LspProtocol e)"
  shows "settles shut (ask_about_file sm be path ask translate)"
  unfolding ask_about_file_def
  by (intro settles_cbind settles_if settles_clift guarded_session)
    (auto simp: validate_repository_file_def Let_def assms split: option.splits if_splits)

lemma query_settles: "settles shut (run_query sm be query)"
proof -
  have spans: "settles shut (ask_about_file sm be path ask (\<lambda>locations file. Inr (translate_locations be locations)))" for path ask
    by (rule ask_about_file_settles) simp
  have position: "settles shut (cbind (clift (validate_position l c)) (\<lambda>_. m))" if "settles shut m" for l c and m :: "('s, 'a) session_op"
    by (intro settles_cbind settles_clift that) (auto simp: validate_position_def check_def)
  have symbols: "settles shut (backend_symbols sm be q cs)" for q cs
    unfolding backend_symbols_def
    by (intro settles_cbind settles_clift guarded_session) (auto simp: validate_query_def)
  have file_symbols: "settles shut (backend_file_symbols sm be path q cs)" for path q cs
    unfolding backend_file_symbols_def
    by (rule ask_about_file_settles) (auto simp: select_file_symbols_def Let_def validate_query_def ebind_Inl_iff split: option.splits)
  show ?thesis
    by (cases query) (auto intro!: settles_cbind settles_clift symbols file_symbols position spans
      simp: answering_def backend_definition_def backend_references_def backend_implementations_def)
qed

end

interpretation per_call: session_contract "per_call_manager sv timeout dir" "\<lambda>c. \<not> lc_process c"
  for sv timeout dir
  by unfold_locales (auto simp: per_call_manager_def dest: shutdown_stops)

interpretation coordinated: session_contract "coordinator_manager resolve attachment connect ask" "\<lambda>s. True"
  for resolve attachment connect ask
  by unfold_locales simp


subsection \<open>Queries with a timeout return\<close>

lemma returns_on_protocol_error: "client_returns m \<Longrightarrow> client_returns (on_protocol_error answer m)"
  unfolding client_returns_def on_protocol_error_def
  by (fastforce split: option.splits sum.splits lsp_error.splits)

lemma returns_per_call_session:
  assumes "client_returns body" and "timeout \<noteq> None"
  shows "client_returns (with_session (per_call_manager sv timeout dir) body)"
proof -
  have "client_returns (sm_open (per_call_manager sv timeout dir))"
  proof (rule returnsI)
    fix c :: lsp_client
    have "lc_timeout (new_client timeout) \<noteq> None" using assms(2) by (simp add: new_client_def)
    from returnsD [OF returns_initialize this] show "\<exists>r c'. sm_open (per_call_manager sv timeout dir) c = Some (r, c') \<and> lc_timeout c' \<noteq> None"
      by (simp add: per_call_manager_def)
  qed
  then show ?thesis unfolding with_session_def
    by (intro returns_cfinally returns_cbind assms(1)) (simp_all add: per_call_manager_def returns_shutdown)
qed

lemma returns_if: "client_returns m \<Longrightarrow> client_returns n \<Longrightarrow> client_returns (if b then m else n)"
  by simp

lemma returns_operations:
  "client_returns (sm_workspace_symbol (per_call_manager sv timeout dir) q)" "client_returns (sm_document_symbol (per_call_manager sv timeout dir) file)"
  "client_returns (sm_definition (per_call_manager sv timeout dir) file l c)" "client_returns (sm_references (per_call_manager sv timeout dir) d file l c)"
  "client_returns (sm_implementation (per_call_manager sv timeout dir) file l c)"
  by (simp_all add: per_call_manager_def client_workspace_symbol_def client_document_symbol_def client_definition_def client_references_def
      client_implementation_def returns_positional returns_cbind returns_request returns_document)

lemma returns_fallback: "client_returns (fallback_symbols (per_call_manager sv timeout dir) be q cs paths)"
  by (induction paths) (auto intro!: returns_cbind returns_clift returns_operations)

lemma returns_ask_about_file:
  assumes "\<And>file. client_returns (ask file)" and "timeout \<noteq> None"
  shows "client_returns (ask_about_file (per_call_manager sv timeout dir) be path ask translate)"
  unfolding ask_about_file_def
  by (intro returns_cbind returns_clift returns_if returns_on_protocol_error returns_per_call_session assms)

lemma returns_query:
  assumes "timeout \<noteq> None"
  shows "client_returns (run_query (per_call_manager sv timeout dir) be query)"
proof -
  let ?sm = "per_call_manager sv timeout dir"
  have "client_returns (let found = f raw in if found \<noteq> [] then clift (Inr (g found)) else if b then clift (Inr [])
      else cbind (fallback_symbols ?sm be q cs paths) (\<lambda>found. clift (Inr (g found))))" for f g b q cs paths and raw :: "lsp_workspace_symbol list"
    unfolding Let_def by (intro returns_if returns_cbind returns_clift returns_fallback)
  then have "client_returns (backend_symbols ?sm be q cs)" for q cs
    unfolding backend_symbols_def
    by (intro returns_cbind returns_clift returns_on_protocol_error returns_per_call_session returns_operations assms)
  then show ?thesis
    by (cases query) (auto intro!: returns_cbind returns_clift returns_ask_about_file returns_operations assms
      simp: answering_def backend_file_symbols_def backend_definition_def backend_references_def backend_implementations_def)
qed


section \<open>What is answered\<close>

definition in_repository :: "backend \<Rightarrow> string \<Rightarrow> bool" where
  "in_repository be path \<longleftrightarrow> path \<in> set (be_entries be) \<or>
     (\<exists>file. inside_path (be_root be) file \<and> supported_symbol_file be file \<and> path = relative_to_root be file)"

lemma path_from_uri_inside: "path_from_uri be uri = Some file \<Longrightarrow> inside_path (be_root be) file"
  by (auto simp: path_from_uri_def Let_def split: option.splits if_splits)

lemma translated_symbol:
  "translate_workspace_symbol be s = Some x \<Longrightarrow> in_repository be (ls_path x)"
  by (auto simp: translate_workspace_symbol_def in_repository_def dest: path_from_uri_inside split: option.splits if_splits)

lemma set_map_filter: "x \<in> set (List.map_filter f xs) \<longleftrightarrow> (\<exists>y\<in>set xs. f y = Some x)"
  by (induction xs) (auto simp: map_filter_def)

lemma translated_spans: "(p, sp) \<in> set (translate_locations be ls) \<Longrightarrow> in_repository be p"
  unfolding translate_locations_def set_map_filter
  by (auto simp: translate_location_def in_repository_def dest: path_from_uri_inside split: option.splits if_splits)

lemma flattened_path: "x \<in> set (flatten_symbols be path container ss) \<Longrightarrow> ls_path x = path"
  by (induction be path container ss rule: flatten_symbols.induct) (auto simp: Let_def)

lemma iter_symbol_files_listed: "path \<in> set (iter_symbol_files be) \<Longrightarrow> path \<in> set (be_entries be)"
  by (auto simp: iter_symbol_files_def join_split_on)

lemma fallback_answer:
  assumes "fallback_symbols sm be q cs paths s = Some (Inr xs, s')" and "x \<in> set xs"
  shows "ls_path x \<in> set paths \<and> matches_query (ls_name x) q cs"
  using assms
proof (induction paths arbitrary: s xs)
  case (Cons path paths)
  from Cons.prems(1) obtain raw d where raw: "sm_document_symbol sm (join_path (be_root be) path) s = Some (Inr raw, d)"
      "cbind (fallback_symbols sm be q cs paths) (\<lambda>more. clift (Inr (filter_symbols q cs (flatten_symbols be path None raw) @ more))) d = Some (Inr xs, s')"
    by (auto elim: cbind_outcome)
  from raw(2) obtain more d' where more: "fallback_symbols sm be q cs paths d = Some (Inr more, d')" "d' = s'"
      "xs = filter_symbols q cs (flatten_symbols be path None raw) @ more"
    by (auto elim!: cbind_outcome simp: clift_def)
  from Cons.prems(2) consider "x \<in> set (filter_symbols q cs (flatten_symbols be path None raw))" | "x \<in> set more" by (auto simp: more(3))
  then show ?case
  proof cases
    case 1
    then show ?thesis by (auto simp: filter_symbols_def dest: flattened_path)
  next
    case 2
    then show ?thesis using Cons.IH [of d more] more(1,2) by simp
  qed
qed (simp add: clift_def)

lemma session_answer:
  assumes "on_protocol_error answer (cbind (clift prepared) (\<lambda>_. with_session sm body)) s = Some (Inr x, s')"
  shows "x = answer \<or> (\<exists>t t'. body t = Some (Inr x, t'))"
proof -
  obtain r where r: "cbind (clift prepared) (\<lambda>_. with_session sm body) s = Some (r, s')" "Inr x = r \<or> x = answer"
    using on_protocol_error_outcome [OF assms] by auto
  show ?thesis
  proof (cases "x = answer")
    case False
    then have "with_session sm body s = Some (Inr x, s')" using r by (cases prepared) (auto simp: cbind_def clift_def)
    then show ?thesis unfolding with_session_def by (elim cfinally_outcome) (auto elim: cbind_outcome)
  qed simp
qed

lemma file_answer:
  assumes "ask_about_file sm be path ask translate s = Some (Inr xs, s')"
  shows "xs = [] \<or> (\<exists>file raw. inside_path (be_root be) file \<and> supported_symbol_file be file \<and> translate raw file = Inr xs)"
proof -
  obtain f where valid: "validate_repository_file be path = Inr f"
    and run: "(if \<not> supported_symbol_file be f then clift (Inr []) else
      cbind (on_protocol_error None (cbind (clift (be_ready be)) (\<lambda>_. with_session sm (on_protocol_error None (cbind (ask f) (\<lambda>raw. clift (Inr (Some raw))))))))
        (\<lambda>answer. clift (case answer of None \<Rightarrow> Inr [] | Some raw \<Rightarrow> translate raw f))) s = Some (Inr xs, s')"
    using assms unfolding ask_about_file_def by (auto elim!: cbind_outcome simp: clift_def)
  have "inside_path (be_root be) f" using valid by (auto simp: validate_repository_file_def Let_def split: if_splits)
  moreover have "xs = [] \<or> supported_symbol_file be f \<and> (\<exists>raw. translate raw f = Inr xs)"
  proof (cases "supported_symbol_file be f")
    case True
    then obtain answer where "clift (case answer of None \<Rightarrow> Inr [] | Some raw \<Rightarrow> translate raw f) s' = Some (Inr xs, s')"
      using run by (auto elim!: cbind_outcome simp: clift_def)
    then show ?thesis using True by (cases answer) (auto simp: clift_def)
  qed (use run in \<open>simp add: clift_def\<close>)
  ultimately show ?thesis by blast
qed


lemma found_symbols:
  assumes "body = (let found = filter_symbols q cs (List.map_filter (translate_workspace_symbol be) raw) in
      if found \<noteq> [] then clift (Inr (sort_key repository_symbol_order found))
      else if \<not> be_fallback be then clift (Inr [])
      else cbind (fallback_symbols sm be q cs (iter_symbol_files be)) (\<lambda>found. clift (Inr (sort_key repository_symbol_order found))))"
    and "body s = Some (Inr xs, s')"
  shows "sorted (map repository_symbol_order xs) \<and> (\<forall>x\<in>set xs. matches_query (ls_name x) q cs \<and> in_repository be (ls_path x))"
proof -
  let ?found = "filter_symbols q cs (List.map_filter (translate_workspace_symbol be) raw)"
  consider "xs = sort_key repository_symbol_order ?found" | "xs = []"
    | found d where "fallback_symbols sm be q cs (iter_symbol_files be) s = Some (Inr found, d)" "xs = sort_key repository_symbol_order found"
    using assms by (auto simp: Let_def clift_def elim!: cbind_outcome split: if_splits)
  then show ?thesis
  proof cases
    case 1
    then show ?thesis by (auto simp: filter_symbols_def set_map_filter dest: translated_symbol)
  next
    case 3
    then show ?thesis using fallback_answer [OF 3(1)] iter_symbol_files_listed by (force simp: in_repository_def)
  qed simp
qed

text \<open>
  C28. Whatever the language server says, the answers are about the repository and about the question: every symbol and every
  span names a supported file below the root, or a listed file that was asked about, and a server's locations outside are dropped; the
  symbols of a search match its query and come in order.
\<close>

theorem answers_are_about_the_repository:
  assumes "run_query sm be query s = Some (Inr answer, s')"
  shows "case answer of
      Symbols xs \<Rightarrow> (\<forall>x\<in>set xs. in_repository be (ls_path x)) \<and>
        (\<forall>q cs. query = Query_Symbols q cs \<longrightarrow> sorted (map repository_symbol_order xs) \<and> (\<forall>x\<in>set xs. matches_query (ls_name x) (strip q) cs))
    | Spans xs \<Rightarrow> (\<forall>(path, sp)\<in>set xs. in_repository be path)"
proof -
  have spans: "\<forall>(path, sp)\<in>set xs. in_repository be path"
    if "ask_about_file sm be path ask (\<lambda>ls f. Inr (translate_locations be ls)) t = Some (Inr xs, s')" for path ask xs t
    using file_answer [OF that] translated_spans by auto
  have position: "\<exists>xs. answer = Spans xs \<and> m s = Some (Inr xs, s')"
    if "answering Spans (cbind (clift (validate_position l c)) (\<lambda>_. m)) s = Some (Inr answer, s')" for m l c
    using that by (auto simp: answering_def clift_def elim!: cbind_outcome)
  show ?thesis
  proof (cases query)
    case (Query_Symbols q cs)
    then obtain xs q' where answer: "answer = Symbols xs" and q': "validate_query q = Inr q'"
      and run: "on_protocol_error []
       (cbind (clift (be_ready be)) (\<lambda>_.
        with_session sm
          (cbind (on_protocol_error [] (sm_workspace_symbol sm (workspace_query q'))) (\<lambda>raw.
           let found = filter_symbols q' cs (List.map_filter (translate_workspace_symbol be) raw) in
           if found \<noteq> [] then clift (Inr (sort_key repository_symbol_order found))
           else if \<not> be_fallback be then clift (Inr [])
           else cbind (fallback_symbols sm be q' cs (iter_symbol_files be)) (\<lambda>found.
             clift (Inr (sort_key repository_symbol_order found))))))) s = Some (Inr xs, s')"
      using assms by (auto simp: answering_def backend_symbols_def clift_def elim!: cbind_outcome)
    have "q' = strip q" using q' by (auto simp: validate_query_def split: if_splits)
    moreover have "sorted (map repository_symbol_order xs) \<and> (\<forall>x\<in>set xs. matches_query (ls_name x) q' cs \<and> in_repository be (ls_path x))"
      using session_answer [OF run] by (auto elim!: cbind_outcome dest!: found_symbols [OF refl])
    ultimately show ?thesis using Query_Symbols answer by simp
  next
    case (Query_File_Symbols path q cs)
    then obtain xs where answer: "answer = Symbols xs"
      and run: "ask_about_file sm be path (sm_document_symbol sm) (select_file_symbols be q cs) s = Some (Inr xs, s')"
      using assms by (auto simp: answering_def backend_file_symbols_def clift_def elim!: cbind_outcome)
    have "in_repository be (ls_path x)" if "x \<in> set xs" for x
    proof -
      have "xs \<noteq> []" using that by auto
      then obtain f raw where f: "inside_path (be_root be) f" "supported_symbol_file be f" and found: "select_file_symbols be q cs raw f = Inr xs"
        using file_answer [OF run] by blast
      have "x \<in> set (flatten_symbols be (relative_to_root be f) None raw)"
        using found that by (auto simp: select_file_symbols_def Let_def ebind_Inr_iff filter_symbols_def split: option.splits)
      then show ?thesis using f flattened_path unfolding in_repository_def by blast
    qed
    then show ?thesis using Query_File_Symbols answer by simp
  next
    case (Query_Definition path l c)
    then show ?thesis using assms spans by (auto simp: backend_definition_def dest!: position)
  next
    case (Query_References path l c d)
    then show ?thesis using assms spans by (auto simp: backend_references_def dest!: position)
  next
    case (Query_Implementations path l c)
    then show ?thesis using assms spans by (auto simp: backend_implementations_def dest!: position)
  qed
qed

text \<open>
  A server that answers a query but answers the following shutdown with an error, or dies before it, makes the query return nothing:
  the exception of the shutdown replaces the answer and is then taken for a failed query.
\<close>

theorem failed_shutdown_loses_answer:
  assumes "validate_repository_file be path = Inr f" and "supported_symbol_file be f" and "be_ready be = Inr ()"
    and "1 \<le> line" and "1 \<le> column"
    and "sm_open sm s = Some (Inr (), s1)" and "sm_definition sm f line column s1 = Some (Inr locations, s2)"
    and "sm_close sm s2 = Some (Inl (LspProtocol e), s3)"
  shows "backend_definition sm be path line column s = Some (Inr [], s3)"
  using assms
  by (simp add: backend_definition_def ask_about_file_def with_session_def on_protocol_error_def cbind_def cfinally_def clift_def
      validate_position_def)

section \<open>Through the coordinator\<close>

lemma mapE_inverse: "(\<And>x. g (f x) = Inr x) \<Longrightarrow> mapE g (map f xs) = Inr xs"
  by (induction xs) simp_all

text \<open>
  The coordinator's client gives back exactly what the coordinator's server answered: symbols, nested document symbols and
  locations survive the payload.
\<close>

theorem coordinator_is_transparent:
  assumes "sm = coordinator_manager resolve attachment connect ask"
    and "attachment_file resolve attachment f = Inr path"
    and "ask (AskWorkspaceSymbol q) = Inr (Some (map workspace_symbol_to_dict ws))"
    and "ask (AskDocumentSymbol path) = Inr (Some (map document_symbol_to_dict ds))"
    and "ask (AskReferences path l c d) = Inr (Some (map location_to_dict ls))"
  shows "sm_workspace_symbol sm q s = Some (Inr ws, s) \<and> sm_document_symbol sm f s = Some (Inr ds, s) \<and>
    sm_references sm d f l c s = Some (Inr ls, s)"
  using assms by (simp add: coordinator_manager_def coordinator_answer_def raised_def mapE_inverse clift_def)

section \<open>Rebasing paths\<close>

definition plain_rel_path :: "string \<Rightarrow> bool" where
  "plain_rel_path p \<longleftrightarrow> p \<noteq> [] \<and> \<not> py_isspace (hd p) \<and> \<not> py_isspace (last p) \<and> CHR 0x5C \<notin> set p \<and> \<not> startswith p ''./'' \<and> p \<noteq> ''.'' \<and>
     last p \<noteq> CHR ''/''"

lemma strip_plain: "p \<noteq> [] \<Longrightarrow> \<not> py_isspace (hd p) \<Longrightarrow> \<not> py_isspace (last p) \<Longrightarrow> strip p = p"
  using strip_between [of "[]" "[]" p] by simp

lemma normal_plain: "plain_rel_path p \<Longrightarrow> normal_rel_path p = p"
  by (auto simp: plain_rel_path_def normal_rel_path_def Let_def strip_plain replace_char_id removeprefix_def)

lemma normal_Nil: "normal_rel_path [] = []"
  by (simp add: normal_rel_path_def strip_def replace_char_def removeprefix_def startswith_def)

lemma plain_join:
  assumes "plain_rel_path prefix" and "plain_rel_path p"
  shows "plain_rel_path (prefix @ ''/'' @ p)"
proof -
  have "\<not> startswith (prefix @ ''/'' @ p) ''./''"
    using assms by (cases prefix; cases "tl prefix") (auto simp: plain_rel_path_def startswith_def)
  then show ?thesis using assms by (auto simp: plain_rel_path_def append_eq_Cons_conv)
qed

text \<open>
  An attachment's paths and the repository's paths correspond: taking a path of an attachment to the repository and back
  gives the path, and the other way round for a path below the attachment.
\<close>

theorem rebasing_round_trip:
  assumes "prefix = [] \<or> plain_rel_path prefix" and "p = [] \<or> plain_rel_path p"
  shows "to_attachment_rel_path prefix (to_repository_rel_path prefix p) = Inr p \<and>
    (\<forall>r. (r = [] \<or> plain_rel_path r) \<and> to_attachment_rel_path prefix r = Inr p \<longrightarrow> to_repository_rel_path prefix p = r)"
proof -
  have normal: "normal_rel_path r = r" if "r = [] \<or> plain_rel_path r" for r
    using that normal_plain normal_Nil by blast
  have there: "to_repository_rel_path prefix p = (if prefix = [] then p else if p = [] then prefix else prefix @ ''/'' @ p)"
    using normal [OF assms(2)] by (simp add: to_repository_rel_path_def)
  have "to_repository_rel_path prefix p = [] \<or> plain_rel_path (to_repository_rel_path prefix p)"
    using assms plain_join by (auto simp: there)
  from normal [OF this] have "to_attachment_rel_path prefix (to_repository_rel_path prefix p) = Inr p"
    by (auto simp: to_attachment_rel_path_def there startswith_def removeprefix_def)
  moreover have "to_repository_rel_path prefix p = r"
    if "r = [] \<or> plain_rel_path r" "to_attachment_rel_path prefix r = Inr p" for r
  proof -
    have r: "(if prefix = [] then Inr r else if r = prefix then Inr []
        else if \<not> startswith r (prefix @ ''/'') then Inl (ValueErr (''file is outside attachment '' @ quoted prefix @ '': '' @ quoted r))
        else Inr (removeprefix (prefix @ ''/'') r)) = Inr p"
      using that(2) normal [OF that(1)] by (simp add: to_attachment_rel_path_def Let_def)
    show ?thesis
    proof (cases "startswith r (prefix @ ''/'')")
      case True
      then have "r = prefix @ ''/'' @ removeprefix (prefix @ ''/'') r"
        by (simp add: startswith_def removeprefix_def) (metis append.assoc append_Cons append_Nil append_take_drop_id)
      then show ?thesis using r True that(1) by (auto simp: there plain_rel_path_def split: if_splits)
    qed (use r in \<open>auto simp: there split: if_splits\<close>)
  qed
  ultimately show ?thesis by blast
qed


section \<open>Examples\<close>

definition sample_backend :: backend where
  "sample_backend =
     \<lparr>be_root = ''/r'', be_ready = Inr (), be_extensions = [''.go''], be_kind_by_code = [(12, ''function'')], be_ignored = [''vendor''],
      be_included = None, be_fallback = True, be_resolve = (\<lambda>p. p), be_exists = (\<lambda>p. p = ''/r/a.go''), be_is_file = (\<lambda>p. True),
      be_uri_path = (\<lambda>uri. if startswith uri ''file://'' then Some (drop 7 uri) else None), be_entries = [''a.go'']\<rparr>"

definition sample_span :: lsp_range where
  "sample_span = \<lparr>lr_start = \<lparr>lp_line = 2, lp_character = 5\<rparr>, lr_end = \<lparr>lp_line = 2, lp_character = 9\<rparr>\<rparr>"

definition sample_ask :: "lsp_request \<Rightarrow> lsp_error + ((string \<times> json) list list option)" where
  "sample_ask r =
     (case r of
        AskDefinition path l c \<Rightarrow> Inr (Some [location_to_dict \<lparr>ll_uri = ''file:///r/a.go'', ll_range = sample_span\<rparr>,
                                         location_to_dict \<lparr>ll_uri = ''file:///lib/b.go'', ll_range = sample_span\<rparr>])
      | AskWorkspaceSymbol q \<Rightarrow> Inr (Some [workspace_symbol_to_dict
          \<lparr>lw_name = ''Run'', lw_kind = 12, lw_location = Some \<lparr>ll_uri = ''file:///r/a.go'', ll_range = sample_span\<rparr>, lw_container_name = None\<rparr>])
      | AskReferences path l c d \<Rightarrow> Inr (Some [])
      | AskDocumentSymbol path \<Rightarrow> Inr (Some [])
      | AskImplementation path l c \<Rightarrow> Inr None)"

abbreviation sample_manager :: "unit session_manager" where
  "sample_manager \<equiv> coordinator_manager (\<lambda>p. p) ''/r'' (Some (Inr ())) sample_ask"


lemma sample_definition:
  "run_query sample_manager sample_backend (Query_Definition ''a.go'' 3 6) () = Some (Inr (Spans [(''a.go'', 3, 3, 6, 10)]), ())"
  by code_simp

theorem answers_are_about_the_repository_witness:
  "run_query sample_manager sample_backend (Query_Definition ''a.go'' 3 6) () = Some (Inr (Spans [(''a.go'', 3, 3, 6, 10)]), ()) \<and>
   in_repository sample_backend ''a.go''"
  using answers_are_about_the_repository [OF sample_definition] sample_definition by simp

definition rude_answers :: "json list \<Rightarrow> (lsp_error + json) list" where
  "rude_answers sent =
     (case as_obj (last sent) of
        None \<Rightarrow> []
      | Some m \<Rightarrow> (case json_get ''id'' m of
          JInt i \<Rightarrow> [Inr (JObj
            (if json_get ''method'' m = JStr ''shutdown'' then [(''id'', JInt i), (''error'', JStr ''busy'')]
             else if json_get ''method'' m = JStr ''textDocument/definition''
             then [(''id'', JInt i), (''result'', JObj (location_to_dict \<lparr>ll_uri = ''file:///r/a.go'', ll_range = sample_span\<rparr>))]
             else [(''id'', JInt i), (''result'', JNull)]))]
        | _ \<Rightarrow> []))"

definition rude_server :: server where
  "rude_server = silent_server\<lparr>sv_answers := rude_answers\<rparr>"

definition after_open :: lsp_client where
  "after_open = snd (the (sm_open (per_call_manager rude_server (Some 15) ''/r'') (new_client (Some 15))))"

definition after_definition :: lsp_client where
  "after_definition = snd (the (sm_definition (per_call_manager rude_server (Some 15) ''/r'') ''/r/a.go'' 3 6 after_open))"

definition after_close :: lsp_client where
  "after_close = snd (the (sm_close (per_call_manager rude_server (Some 15) ''/r'') after_definition))"

lemma rude_session:
  "map_option fst (sm_open (per_call_manager rude_server (Some 15) ''/r'') (new_client (Some 15))) = Some (Inr ())"
  "map_option fst (sm_definition (per_call_manager rude_server (Some 15) ''/r'') ''/r/a.go'' 3 6 after_open) =
     Some (Inr [\<lparr>ll_uri = ''file:///r/a.go'', ll_range = sample_span\<rparr>])"
  "map_option fst (sm_close (per_call_manager rude_server (Some 15) ''/r'') after_definition) =
     Some (Inl (LspProtocol ''language server returned an error for `shutdown`: {}''))"
  by code_simp+


lemma outcome_of: "map_option fst x = Some r \<Longrightarrow> x = Some (r, snd (the x))"
  by (cases x) auto

theorem failed_shutdown_loses_answer_witness:
  "sm_definition (per_call_manager rude_server (Some 15) ''/r'') ''/r/a.go'' 3 6 after_open =
     Some (Inr [\<lparr>ll_uri = ''file:///r/a.go'', ll_range = sample_span\<rparr>], after_definition) \<and>
   backend_definition (per_call_manager rude_server (Some 15) ''/r'') sample_backend ''a.go'' 3 6 (new_client (Some 15)) = Some (Inr [], after_close)"
proof -
  have valid: "validate_repository_file sample_backend ''a.go'' = Inr ''/r/a.go''" "supported_symbol_file sample_backend ''/r/a.go''"
    "be_ready sample_backend = Inr ()" by code_simp+
  have "(1::int) \<le> 3" "(1::int) \<le> 6" by simp_all
  from failed_shutdown_loses_answer [OF valid this outcome_of [OF rude_session(1), folded after_open_def]
      outcome_of [OF rude_session(2), folded after_definition_def] outcome_of [OF rude_session(3), folded after_close_def]]
  show ?thesis using outcome_of [OF rude_session(2), folded after_definition_def] by blast
qed

theorem coordinator_is_transparent_witness:
  "sm_workspace_symbol sample_manager ''Run'' () = Some (Inr
     [\<lparr>lw_name = ''Run'', lw_kind = 12, lw_location = Some \<lparr>ll_uri = ''file:///r/a.go'', ll_range = sample_span\<rparr>, lw_container_name = None\<rparr>], ())"
proof -
  have "attachment_file (\<lambda>p. p) ''/r'' ''/r/a.go'' = Inr ''a.go''" by code_simp
  then show ?thesis
    using coordinator_is_transparent [OF refl, of "\<lambda>p. p" "''/r''" "''/r/a.go''" "''a.go''" sample_ask "''Run''"
      "[\<lparr>lw_name = ''Run'', lw_kind = 12, lw_location = Some \<lparr>ll_uri = ''file:///r/a.go'', ll_range = sample_span\<rparr>, lw_container_name = None\<rparr>]"
      "[]" 1 1 True "[]" "Some (Inr ())" "()"] by (simp add: sample_ask_def)
qed

theorem rebasing_round_trip_witness:
  "to_repository_rel_path ''pkg/go'' ''cmd/main.go'' = ''pkg/go/cmd/main.go'' \<and>
   to_attachment_rel_path ''pkg/go'' (to_repository_rel_path ''pkg/go'' ''cmd/main.go'') = Inr ''cmd/main.go''"
proof -
  have "plain_rel_path ''pkg/go''" "plain_rel_path ''cmd/main.go''"
    by (simp_all add: plain_rel_path_def startswith_def py_isspace_def)
  moreover have "to_repository_rel_path ''pkg/go'' ''cmd/main.go'' = ''pkg/go/cmd/main.go''" by code_simp
  ultimately show ?thesis using rebasing_round_trip [of "''pkg/go''" "''cmd/main.go''"] by simp
qed

end
