(* ===== verification/Implementation_Flow.thy ===== *)
theory Implementation_Flow
  imports Contexts Code_Capabilities
begin

text \<open>
  The implementation-flow summary of a file (\<open>core/implementation_flow_service.py\<close>, \<open>ImplementationFlowSummaryRef\<close> of
  \<open>core/intelligence_models.py\<close>): steps from symbols, references in other files, tests, render and flow edges,
  implementations and the providers, merged, ranked and cut to a preview with as many kinds of steps as fit.
\<close>

section \<open>Steps\<close>

definition symbol_seam_kinds :: "string list" where
  "symbol_seam_kinds = [''function'', ''method'', ''class'', ''interface'', ''struct'', ''enum'', ''constructor'']"

definition path_label :: "string \<Rightarrow> string" where
  "path_label path = (if path_parts path = [] then path else last (path_parts path))"

definition flow_eligible :: "repository \<Rightarrow> string \<Rightarrow> bool result" where
  "flow_eligible rp path =
     (case get_providers_for_file_role rp path ROLE_CODE of
        Inr ps \<Rightarrow> Inr (ps \<noteq> [])
      | Inl (ValueErr m) \<Rightarrow> Inr False
      | Inl e \<Rightarrow> Inl e)"

definition external_references_for_symbol :: "code_environment \<Rightarrow> repository \<Rightarrow> string \<Rightarrow> entity_info \<Rightarrow> code_location list result" where
  "external_references_for_symbol code rp path s =
     ebind (no_answer (find_references_by_symbol_id code rp (gn_id s) False)) (\<lambda>references.
       Inr (filter (\<lambda>r. cl_repository_rel_path r \<noteq> path) references))"

definition is_symbol_anchor_candidate :: "entity_info \<Rightarrow> bool" where
  "is_symbol_anchor_candidate s \<longleftrightarrow>
     ei_line_start s \<noteq> None \<and> ei_column_start s \<noteq> None \<and> \<not> blank (gn_name s) \<and> ei_entity_kind s \<in> set symbol_seam_kinds"

definition symbol_rank_key :: "entity_info \<Rightarrow> code_location list \<Rightarrow> int \<times> int \<times> int \<times> int" where
  "symbol_rank_key s references =
     (- int (length references), if gn_name s \<noteq> [] \<and> py_isupper (hd (gn_name s)) then - 1 else 0,
      or_default (10 ^ 9) (ei_line_start s), or_default (10 ^ 9) (ei_column_start s))"

text \<open>The ranked symbols with their references in other files, which the service caches.\<close>

definition ranked_symbols :: "code_environment \<Rightarrow> repository \<Rightarrow> string \<Rightarrow> (entity_info \<times> code_location list) list result" where
  "ranked_symbols code rp path =
     ebind (list_symbols_in_file code rp path None False) (\<lambda>symbols.
     ebind (mapE (\<lambda>s. ebind (external_references_for_symbol code rp path s) (\<lambda>references. Inr (s, references)))
       (filter is_symbol_anchor_candidate symbols)) (\<lambda>ranked.
       Inr (sort_key (\<lambda>(s, references). symbol_rank_key s references) ranked)))"

definition symbol_anchor_step :: "entity_info \<Rightarrow> (flow_step option) result" where
  "symbol_anchor_step s =
     (case (ei_line_start s, ei_column_start s) of
        (Some l, Some c) \<Rightarrow> ebind (validate_flow_step
          \<lparr>fs_repository_rel_path = ei_repository_rel_path s, fs_line_start = l, fs_column_start = c, fs_step_kind = SYMBOL_ANCHOR,
           fs_source_label = gn_name s, fs_target_label = None, fs_detail_label = Some (ei_entity_kind s), fs_provenance = gn_provenance s\<rparr>)
          (\<lambda>step. Inr (Some step))
      | _ \<Rightarrow> Inr None)"

definition external_reference_anchor_step :: "entity_info \<Rightarrow> code_location list \<Rightarrow> (flow_step option) result" where
  "external_reference_anchor_step s references =
     (case references of
        [] \<Rightarrow> Inr None
      | anchor # _ \<Rightarrow> ebind (validate_flow_step
          \<lparr>fs_repository_rel_path = cl_repository_rel_path anchor, fs_line_start = cl_line_start anchor, fs_column_start = cl_column_start anchor,
           fs_step_kind = EXTERNAL_REFERENCE_ANCHOR, fs_source_label = gn_name s,
           fs_target_label = Some (path_label (cl_repository_rel_path anchor)), fs_detail_label = Some (ei_entity_kind s),
           fs_provenance = cl_provenance anchor\<rparr>) (\<lambda>step. Inr (Some step)))"

definition test_seam_step :: "resolved_related_test \<Rightarrow> (flow_step option) result" where
  "test_seam_step t =
     (if SK_HEURISTIC \<in> pe_source_kind ` set (rr_provenance t) then Inr None
      else case td_test_files (rm_test (rr_match t)) of
        [] \<Rightarrow> Inr None
      | test_path # _ \<Rightarrow> ebind (validate_flow_step
          \<lparr>fs_repository_rel_path = test_path, fs_line_start = 1, fs_column_start = 1, fs_step_kind = TEST_SEAM,
           fs_source_label = gn_name (rm_test (rr_match t)), fs_target_label = None, fs_detail_label = Some (rm_reason (rr_match t)),
           fs_provenance = rr_provenance t\<rparr>) (\<lambda>step. Inr (Some step)))"

text \<open>Only the first test that gives a step.\<close>

fun first_test_seam :: "resolved_related_test list \<Rightarrow> flow_step list result" where
  "first_test_seam [] = Inr []"
| "first_test_seam (t # ts) =
     ebind (test_seam_step t) (\<lambda>step. case step of Some s \<Rightarrow> Inr [s] | None \<Rightarrow> first_test_seam ts)"

definition render_detail_label :: "render_edge \<Rightarrow> string option" where
  "render_detail_label e =
     (let details = (if rd_prop_names e \<noteq> [] then [join_with '', '' (take 4 (rd_prop_names e))] else []) @
                    (if rd_has_spread_props e then [''spread props''] else []);
          label = join_with ''; '' details in
      if label = [] then None else Some label)"

definition render_step :: "string \<Rightarrow> render_edge \<Rightarrow> flow_step result" where
  "render_step path e =
     (let current = path_label path; related = path_label (rd_repository_rel_path e);
          renders = (rd_relationship_kind e = RENDERS) in
      validate_flow_step
        \<lparr>fs_repository_rel_path = rd_repository_rel_path e, fs_line_start = rd_line_start e, fs_column_start = rd_column_start e,
         fs_step_kind = (if rd_prop_names e \<noteq> [] then PROP_EDGE else RENDER_EDGE),
         fs_source_label = (if renders then current else related), fs_target_label = Some (if renders then related else current),
         fs_detail_label = render_detail_label e, fs_provenance = rd_provenance e\<rparr>)"

definition local_flow_step :: "static_flow_edge \<Rightarrow> flow_step result" where
  "local_flow_step e =
     validate_flow_step
       \<lparr>fs_repository_rel_path = sf_repository_rel_path e, fs_line_start = sf_line_start e, fs_column_start = sf_column_start e,
        fs_step_kind = LOCAL_FLOW_EDGE, fs_source_label = sf_source_label e, fs_target_label = Some (sf_target_label e),
        fs_detail_label = None, fs_provenance = sf_provenance e\<rparr>"

definition implementation_source_label :: "code_location \<Rightarrow> string" where
  "implementation_source_label l =
     (case cl_symbol_id l of Some (c # s) \<Rightarrow> c # s | _ \<Rightarrow> path_label (cl_repository_rel_path l))"

definition implementation_anchor_step :: "code_location \<Rightarrow> flow_step result" where
  "implementation_anchor_step l =
     validate_flow_step
       \<lparr>fs_repository_rel_path = cl_repository_rel_path l, fs_line_start = cl_line_start l, fs_column_start = cl_column_start l,
        fs_step_kind = IMPLEMENTATION_ANCHOR, fs_source_label = implementation_source_label l, fs_target_label = None,
        fs_detail_label = None, fs_provenance = cl_provenance l\<rparr>"

definition present_steps :: "flow_step option list \<Rightarrow> flow_step list" where
  "present_steps steps = List.map_filter id steps"

definition collect_generic_steps :: "code_environment \<Rightarrow> repository \<Rightarrow> string \<Rightarrow> flow_step list result" where
  "collect_generic_steps code rp path =
     ebind (ranked_symbols code rp path) (\<lambda>ranked.
     ebind (mapE (\<lambda>(s, references). symbol_anchor_step s) ranked) (\<lambda>symbol_steps.
     ebind (mapE (\<lambda>(s, references). external_reference_anchor_step s references) ranked) (\<lambda>reference_steps.
     ebind (ebind (mk_related_test_target (Some path) None) (get_related_tests rp)) (\<lambda>tests.
     ebind (first_test_seam tests) (\<lambda>test_steps.
     ebind (get_file_render_edges code rp path (Some RENDERS)) (\<lambda>children.
     ebind (get_file_render_edges code rp path (Some RENDERED_BY)) (\<lambda>parents.
     ebind (mapE (render_step path) (children @ parents)) (\<lambda>render_steps.
     ebind (get_file_local_flow_edges code rp path) (\<lambda>flow_edges.
     ebind (mapE local_flow_step flow_edges) (\<lambda>flow_steps.
     ebind (get_file_implementation_locations code rp path) (\<lambda>locations.
     ebind (mapE implementation_anchor_step locations) (\<lambda>implementation_steps.
       Inr (present_steps symbol_steps @ present_steps reference_steps @ test_steps @ render_steps @ flow_steps @ implementation_steps)))))))))))))"

section \<open>Ranking and preview\<close>

definition dedupe_steps :: "flow_step list \<Rightarrow> flow_step list" where
  "dedupe_steps = merge_by_key flow_step_key merge_flow_step"

fun step_kind_priority :: "flow_step_kind \<Rightarrow> int" where
  "step_kind_priority SYMBOL_ANCHOR = 0"
| "step_kind_priority EXTERNAL_REFERENCE_ANCHOR = 1"
| "step_kind_priority TEST_SEAM = 2"
| "step_kind_priority STATE_SITE = 3"
| "step_kind_priority EVENT_SUBSCRIBE = 4"
| "step_kind_priority EVENT_PUBLISH = 5"
| "step_kind_priority API_CALL = 6"
| "step_kind_priority CONTRACT_USE = 7"
| "step_kind_priority PROP_EDGE = 8"
| "step_kind_priority RENDER_EDGE = 9"
| "step_kind_priority LOCAL_FLOW_EDGE = 10"
| "step_kind_priority IMPLEMENTATION_ANCHOR = 11"
| "step_kind_priority RELATED_TEST_ANCHOR = 12"

definition step_rank_key :: "flow_step \<Rightarrow> int \<times> string \<times> int \<times> int \<times> string \<times> string \<times> string" where
  "step_rank_key s =
     (step_kind_priority (fs_step_kind s), fs_repository_rel_path s, fs_line_start s, fs_column_start s, fs_source_label s,
      case fs_target_label s of None \<Rightarrow> [] | Some l \<Rightarrow> l, case fs_detail_label s of None \<Rightarrow> [] | Some l \<Rightarrow> l)"

definition rank_steps :: "flow_step list \<Rightarrow> flow_step list" where
  "rank_steps = sort_key step_rank_key"

definition flow_preview_limit :: "string \<Rightarrow> nat" where
  "flow_preview_limit detail_level = (if detail_level = ''compact'' then 4 else if detail_level = ''standard'' then 6 else 10)"

text \<open>The loop appends the first step of each kind until the preview is full; \<open>room\<close> is what is left of the limit.\<close>

fun kind_diverse :: "nat \<Rightarrow> flow_step_kind list \<Rightarrow> flow_step list \<Rightarrow> flow_step list" where
  "kind_diverse room seen [] = []"
| "kind_diverse room seen (s # steps) =
     (if fs_step_kind s \<in> set seen then kind_diverse room seen steps
      else if room \<le> 1 then [s]
      else s # kind_diverse (room - 1) (fs_step_kind s # seen) steps)"

definition step_identity :: "flow_step \<Rightarrow> string \<times> int \<times> int \<times> flow_step_kind \<times> string \<times> string option \<times> string option" where
  "step_identity s =
     (fs_repository_rel_path s, fs_line_start s, fs_column_start s, fs_step_kind s, fs_source_label s, fs_target_label s, fs_detail_label s)"

fun remaining_preview_steps :: "nat \<Rightarrow> flow_step list \<Rightarrow> flow_step list \<Rightarrow> flow_step list" where
  "remaining_preview_steps room preview [] = []"
| "remaining_preview_steps room preview (s # steps) =
     (if step_identity s \<in> step_identity ` set preview then remaining_preview_steps room preview steps
      else if room \<le> 1 then [s]
      else s # remaining_preview_steps (room - 1) preview steps)"

definition cap_steps :: "flow_step list \<Rightarrow> string \<Rightarrow> flow_step list" where
  "cap_steps steps detail_level =
     (let limit = flow_preview_limit detail_level in
      if length steps \<le> limit then steps
      else let preview = kind_diverse limit [] steps in
        if limit \<le> length preview then preview
        else preview @ remaining_preview_steps (limit - length preview) preview steps)"

section \<open>The summary\<close>

record flow_summary =
  fw_step_count :: int
  fw_steps_preview :: "flow_step list"
  fw_provider_ids :: "string list"
  fw_provenance :: provenance

definition validate_flow_summary :: "flow_summary \<Rightarrow> flow_summary result" where
  "validate_flow_summary w =
     ebind (check (1 \<le> fw_step_count w) (ValueErr ''step_count must be >= 1'')) (\<lambda>_.
     ebind (check (\<forall>i\<in>set (fw_provider_ids w). \<not> blank i) (ValueErr ''provider_ids must not contain empty values'')) (\<lambda>_.
     ebind (check (distinct (fw_provider_ids w)) (ValueErr ''provider_ids must not contain duplicates'')) (\<lambda>_.
     ebind (check (fw_steps_preview w \<noteq> []) (ValueErr ''steps_preview must not be empty'')) (\<lambda>_.
     ebind (check (int (length (fw_steps_preview w)) \<le> fw_step_count w) (ValueErr ''step_count must be >= len(steps_preview)'')) (\<lambda>_.
     ebind (check (fw_provenance w \<noteq> []) (ValueErr ''provenance must not be empty'')) (\<lambda>_.
     ebind (check (SK_HEURISTIC \<notin> pe_source_kind ` set (fw_provenance w))
       (ValueErr ''implementation flow summary provenance must not be heuristic'')) (\<lambda>_. Inr w)))))))"

definition flow_provider_ids :: "repository \<Rightarrow> string \<Rightarrow> string list result" where
  "flow_provider_ids rp path =
     ebind (get_providers_for_file_role rp path ROLE_CODE) (\<lambda>ps. Inr (sorted_set (map pv_id ps)))"

definition summary_evidence_paths :: "string \<Rightarrow> flow_step list \<Rightarrow> string list" where
  "summary_evidence_paths path steps =
     take 10 (append_new [path] (concat (map (\<lambda>s. fs_repository_rel_path s # concat (map pe_evidence_paths (fs_provenance s))) steps)))"

definition flow_summary_provenance :: "string \<Rightarrow> flow_step list \<Rightarrow> provenance result" where
  "flow_summary_provenance path steps =
     (let merged = merge_unique_provenance (map fs_provenance steps) in
      ebind (preferred_source_tool merged) (\<lambda>tool.
      ebind (derived_summary_provenance SK_DEPENDENCY_GRAPH tool
        (''implementation-flow summary assembled from deterministic code, test, and provider-backed flow evidence for '' @ quoted path)
        (summary_evidence_paths path steps)) (\<lambda>e. Inr (merged @ [e]))))"

definition summarize_file :: "code_environment \<Rightarrow> repository \<Rightarrow> string \<Rightarrow> string \<Rightarrow> (flow_summary option) result" where
  "summarize_file code rp path detail_level =
     ebind (flow_eligible rp path) (\<lambda>eligible.
     if \<not> eligible then Inr None else
     ebind (collect_generic_steps code rp path) (\<lambda>generic.
     ebind (get_file_implementation_flow_steps code rp path) (\<lambda>provided.
     let merged = dedupe_steps (generic @ provided) in
     if merged = [] then Inr None else
     let preview = cap_steps (rank_steps merged) detail_level in
     if preview = [] then Inr None else
     ebind (flow_provider_ids rp path) (\<lambda>ids.
     ebind (flow_summary_provenance path merged) (\<lambda>p.
     ebind (validate_flow_summary
       \<lparr>fw_step_count = int (length merged), fw_steps_preview = preview, fw_provider_ids = ids, fw_provenance = p\<rparr>) (\<lambda>w.
       Inr (Some w)))))))"

section \<open>The preview\<close>

lemma kind_diverse_props:
  "set (kind_diverse room seen steps) \<subseteq> set steps"
  "sorted (map f steps) \<Longrightarrow> sorted (map f (kind_diverse room seen steps))"
  "distinct (map fs_step_kind (kind_diverse room seen steps))"
  "fs_step_kind ` set (kind_diverse room seen steps) \<inter> set seen = {}"
  by (induction room seen steps rule: kind_diverse.induct) (auto simp: subset_iff)

lemma kind_diverse_length:
  "1 \<le> room \<Longrightarrow> length (kind_diverse room seen steps) = min room (card (fs_step_kind ` set steps - set seen))"
proof (induction room seen steps rule: kind_diverse.induct)
  case (2 room seen s steps)
  let ?K = "fs_step_kind ` set steps"
  show ?case
  proof (cases "fs_step_kind s \<in> set seen")
    case True
    then show ?thesis using 2 by (simp add: insert_Diff_if)
  next
    case False
    have e: "card (fs_step_kind ` set (s # steps) - set seen) = Suc (card (?K - set (fs_step_kind s # seen)))"
      using False by (simp add: insert_Diff_if) (metis Diff_insert finite_Diff finite_imageI finite_set card.insert_remove)
    show ?thesis using 2 False e by (cases "room \<le> 1") auto
  qed
qed simp

lemma remaining_props:
  "set (remaining_preview_steps room preview steps) \<subseteq> set steps"
  "step_identity ` set (remaining_preview_steps room preview steps) \<inter> step_identity ` set preview = {}"
  by (induction room preview steps rule: remaining_preview_steps.induct) auto

lemma remaining_distinct:
  "distinct (map step_identity steps) \<Longrightarrow> distinct (map step_identity (remaining_preview_steps room preview steps))"
proof (induction room preview steps rule: remaining_preview_steps.induct)
  case (2 room preview s steps)
  then show ?case using remaining_props(1) [of "room - 1" preview steps] by (simp add: image_subset_iff) blast
qed simp

lemma remaining_length:
  "1 \<le> room \<Longrightarrow> length (remaining_preview_steps room preview steps) =
     min room (length (filter (\<lambda>s. step_identity s \<notin> step_identity ` set preview) steps))"
  by (induction room preview steps rule: remaining_preview_steps.induct) auto

lemma flow_step_kind_value_inj: "inj flow_step_kind_value"
proof
  fix a b assume "flow_step_kind_value a = flow_step_kind_value b"
  then show "a = b" by (cases a; cases b) simp_all
qed

lemma step_identity_key: "step_identity a = step_identity b \<longleftrightarrow> flow_step_key a = flow_step_key b"
  using flow_step_kind_value_inj by (auto simp: step_identity_def flow_step_key_def inj_eq)

lemma same_image_by:
  assumes "f ` A = f ` B" and factor: "g = h \<circ> f"
  shows "g ` A = g ` B"
  unfolding factor image_comp [symmetric] by (simp add: assms(1))

lemma ranked_steps_distinct: "distinct (map step_identity (rank_steps (dedupe_steps steps)))"
  using flow_steps.merged_keys_distinct [of steps]
  by (simp add: rank_steps_def dedupe_steps_def distinct_map inj_on_def step_identity_key)

lemma cap_steps_length:
  assumes "distinct (map step_identity steps)"
  shows "length (cap_steps steps d) = min (flow_preview_limit d) (length steps)"
proof -
  let ?n = "flow_preview_limit d" and ?p = "kind_diverse (flow_preview_limit d) [] steps"
  have n: "1 \<le> ?n" by (simp add: flow_preview_limit_def)
  have p: "length ?p \<le> ?n" by (simp add: kind_diverse_length [OF n])
  have i: "inj_on step_identity (set steps)" and ds: "distinct steps" using assms by (auto simp: distinct_map)
  have dp: "distinct ?p" using kind_diverse_props(3) [of ?n "[]" steps] by (simp add: distinct_map)
  have sp: "set ?p \<subseteq> set steps" by (rule kind_diverse_props)
  have "filter (\<lambda>s. step_identity s \<notin> step_identity ` set ?p) steps = filter (\<lambda>s. s \<notin> set ?p) steps"
    using i sp by (intro filter_cong refl) (auto simp: inj_on_def image_iff subset_iff)
  moreover have "length (filter (\<lambda>s. s \<notin> set ?p) steps) = card (set steps - set ?p)"
    using ds by (simp add: distinct_length_filter set_diff_eq Int_def conj_commute)
  moreover have "card (set steps - set ?p) = length steps - length ?p"
    using ds dp sp by (simp add: card_Diff_subset distinct_card)
  ultimately show ?thesis using n p
    by (auto simp: cap_steps_def Let_def remaining_length)
qed

lemma kind_diverse_identities: "distinct (map step_identity (kind_diverse room seen steps))"
proof -
  have "fs_step_kind = (\<lambda>(_, _, _, k, _). k) \<circ> step_identity" by (simp add: fun_eq_iff step_identity_def)
  then show ?thesis using kind_diverse_props(3) [of room seen steps] by (metis distinct_map map_map)
qed

lemma cap_steps_distinct:
  assumes "distinct (map step_identity steps)"
  shows "distinct (map step_identity (cap_steps steps d))"
proof -
  have "distinct (map step_identity (preview @ remaining_preview_steps room preview steps))"
    if "distinct (map step_identity preview)" for preview room
    unfolding map_append distinct_append
    using that remaining_props(2) [of room preview steps] remaining_distinct [OF assms, of room preview]
    by (simp only: set_map Int_commute)
  then show ?thesis using assms by (simp add: cap_steps_def Let_def kind_diverse_identities del: map_append)
qed

lemma cap_steps_subset: "set (cap_steps steps d) \<subseteq> set steps"
proof -
  have "set (preview @ remaining_preview_steps room preview steps) \<subseteq> set steps" if "set preview \<subseteq> set steps" for preview room
    using that remaining_props(1) [of room preview steps] by simp
  then show ?thesis using kind_diverse_props(1) [of "flow_preview_limit d" "[]" steps]
    by (simp add: cap_steps_def Let_def del: set_append)
qed

lemma cap_steps_kinds:
  "card (fs_step_kind ` set (cap_steps steps d)) = min (flow_preview_limit d) (card (fs_step_kind ` set steps))"
proof (cases "length steps \<le> flow_preview_limit d")
  case True
  then show ?thesis using card_image_le [of "set steps" fs_step_kind] card_length [of steps]
    by (simp add: cap_steps_def)
next
  case False
  let ?n = "flow_preview_limit d" and ?p = "kind_diverse (flow_preview_limit d) [] steps"
  let ?K = "fs_step_kind ` set steps"
  have l: "length ?p = min ?n (card ?K)" by (simp add: kind_diverse_length flow_preview_limit_def)
  have c: "card (fs_step_kind ` set ?p) = length ?p"
    using kind_diverse_props(3) [of ?n "[]" steps] by (metis distinct_card length_map list.set_map)
  show ?thesis
  proof (cases "?n \<le> length ?p")
    case True
    then show ?thesis using False l c by (simp add: cap_steps_def Let_def)
  next
    case room: False
    then have "length ?p = card ?K" using l by simp
    then have "fs_step_kind ` set ?p = ?K"
      using c kind_diverse_props(1) [of ?n "[]" steps] by (intro card_subset_eq) auto
    moreover have "fs_step_kind ` set (cap_steps steps d) = ?K"
      using False room cap_steps_subset [of steps d] calculation by (auto simp: cap_steps_def Let_def)
    ultimately show ?thesis using l room by simp
  qed
qed

text \<open>
  C30. The preview of a file's flow is a fair sample. The merged steps are told apart by what they say, so the preview never
  repeats a step; it holds exactly as many steps as the detail level allows (4, 6 or 10, or all of them when there are
  fewer), all of them steps of the file; and it shows as many kinds of steps as fit: every kind when the kinds fit into
  the limit, otherwise as many different kinds as the preview has places.
\<close>

theorem flow_preview_representative:
  "let ranked = rank_steps (dedupe_steps steps); preview = cap_steps ranked detail_level; limit = flow_preview_limit detail_level in
     length preview = min limit (card (step_identity ` set steps)) \<and>
     distinct (map step_identity preview) \<and> set preview \<subseteq> set ranked \<and>
     step_identity ` set preview \<subseteq> step_identity ` set steps \<and>
     card (fs_step_kind ` set preview) = min limit (card (fs_step_kind ` set steps))"
proof -
  let ?r = "rank_steps (dedupe_steps steps)"
  have k: "flow_step_key ` set ?r = flow_step_key ` set steps"
    using flow_steps.merged_keys_set [of steps] by (simp add: rank_steps_def dedupe_steps_def)
  have i: "step_identity ` set ?r = step_identity ` set steps"
  proof (rule same_image_by [OF k])
    show "step_identity = (\<lambda>(p, l, c, v, rest). (p, l, c, inv flow_step_kind_value v, rest)) \<circ> flow_step_key"
      by (simp add: fun_eq_iff step_identity_def flow_step_key_def inv_f_f [OF flow_step_kind_value_inj])
  qed
  have kd: "fs_step_kind ` set ?r = fs_step_kind ` set steps"
  proof (rule same_image_by [OF i])
    show "fs_step_kind = (\<lambda>(_, _, _, k, _). k) \<circ> step_identity" by (simp add: fun_eq_iff step_identity_def)
  qed
  have l: "length ?r = card (step_identity ` set steps)"
    using ranked_steps_distinct [of steps] i by (metis distinct_card length_map list.set_map)
  have "set (cap_steps ?r detail_level) \<subseteq> set ?r" by (rule cap_steps_subset)
  moreover have "step_identity ` set (cap_steps ?r detail_level) \<subseteq> step_identity ` set steps"
    unfolding i [symmetric] by (rule image_mono) (rule cap_steps_subset)
  ultimately show ?thesis
    by (simp add: Let_def cap_steps_length cap_steps_distinct cap_steps_kinds ranked_steps_distinct kd l)
qed

section \<open>The whole summary\<close>

lemma flow_summary_provenance_steps:
  assumes "flow_summary_provenance path steps = Inr p"
  shows "set p \<supseteq> (\<Union>s\<in>set steps. set (fs_provenance s))"
    and "SK_HEURISTIC \<in> pe_source_kind ` set p \<longleftrightarrow> (\<exists>s\<in>set steps. SK_HEURISTIC \<in> pe_source_kind ` set (fs_provenance s))"
proof -
  obtain e where "p = merge_unique_provenance (map fs_provenance steps) @ [e]" "pe_source_kind e = SK_DEPENDENCY_GRAPH"
    using assms by (auto simp: flow_summary_provenance_def Let_def ebind_Inr_iff dest!: derived_summary_fields)
  then show "set p \<supseteq> (\<Union>s\<in>set steps. set (fs_provenance s))"
    and "SK_HEURISTIC \<in> pe_source_kind ` set p \<longleftrightarrow> (\<exists>s\<in>set steps. SK_HEURISTIC \<in> pe_source_kind ` set (fs_provenance s))"
    by auto
qed

lemma summary_of_steps:
  assumes "summarize_file code rp path d = Inr (Some w)"
  obtains generic provided where
    "collect_generic_steps code rp path = Inr generic" "get_file_implementation_flow_steps code rp path = Inr provided"
    "fw_step_count w = int (length (dedupe_steps (generic @ provided)))"
    "fw_steps_preview w = cap_steps (rank_steps (dedupe_steps (generic @ provided))) d"
    "flow_summary_provenance path (dedupe_steps (generic @ provided)) = Inr (fw_provenance w)"
    "validate_flow_summary w = Inr w"
  using assms
  by (auto simp: summarize_file_def ebind_Inr_iff Let_def validate_flow_summary_def split: if_splits)

lemma summary_without_guesses:
  assumes "summarize_file code rp path d = Inr (Some w)" and "s \<in> set (fw_steps_preview w)"
  shows "set (fs_provenance s) \<subseteq> set (fw_provenance w)" and "SK_HEURISTIC \<notin> pe_source_kind ` set (fs_provenance s)"
proof -
  obtain generic provided where
    v: "fw_steps_preview w = cap_steps (rank_steps (dedupe_steps (generic @ provided))) d" and
    p: "flow_summary_provenance path (dedupe_steps (generic @ provided)) = Inr (fw_provenance w)" and
    ok: "validate_flow_summary w = Inr w"
    using assms(1) by (rule summary_of_steps)
  have "s \<in> set (dedupe_steps (generic @ provided))"
    using assms(2) cap_steps_subset [of "rank_steps (dedupe_steps (generic @ provided))" d] v by (auto simp: rank_steps_def)
  then show "set (fs_provenance s) \<subseteq> set (fw_provenance w)"
    using flow_summary_provenance_steps(1) [OF p] by auto
  moreover have "SK_HEURISTIC \<notin> pe_source_kind ` set (fw_provenance w)"
    using ok by (simp add: validate_flow_summary_def)
  ultimately show "SK_HEURISTIC \<notin> pe_source_kind ` set (fs_provenance s)" by blast
qed

end
