(* ===== verification/Markdown_Parser.thy ===== *)
theory Markdown_Parser
  imports Provenance Builds
begin

text \<open>
  The structure of a markdown document (\<open>providers/markdown/parser.py\<close> and the markdown records of
  \<open>core/structured_artifact_models.py\<close>). Every regular expression is a matcher on one line; the text of the file is an
  argument. What is shown: sections form a tree, code is never read as prose, and exactly which documents are rejected.
\<close>

section \<open>Records and validators\<close>

text \<open>
  A link or a checklist item starts and ends on one line, which is kept once. The counts of the document are the lengths
  of its lists by construction.
\<close>

record md_section =
  ms_heading :: string
  ms_depth :: nat
  ms_line_start :: nat
  ms_line_end :: nat
  ms_anchor :: string

record md_code_block =
  mb_line_start :: nat
  mb_line_end :: nat
  mb_language :: "string option"

record md_link =
  mk_destination :: string
  mk_line :: nat
  mk_text :: string

record md_frontmatter =
  mf_line_start :: nat
  mf_line_end :: nat
  mf_keys :: "string list"

record md_checklist_item =
  mi_text :: string
  mi_checked :: bool
  mi_line :: nat

record md_document =
  md_sections :: "md_section list"
  md_code_blocks :: "md_code_block list"
  md_links :: "md_link list"
  md_front :: "md_frontmatter option"
  md_checklist :: "md_checklist_item list"
  md_provenance :: provenance

definition mk_md_section :: "string \<Rightarrow> nat \<Rightarrow> nat \<Rightarrow> nat \<Rightarrow> string \<Rightarrow> md_section result" where
  "mk_md_section heading depth line_start line_end anchor =
     ebind (check (\<not> blank heading) (ValueErr ''text fields must not be empty'')) (\<lambda>_.
     ebind (check (\<not> blank anchor) (ValueErr ''text fields must not be empty'')) (\<lambda>_.
       Inr \<lparr>ms_heading = strip heading, ms_depth = depth, ms_line_start = line_start, ms_line_end = line_end,
            ms_anchor = strip anchor\<rparr>))"

definition mk_md_link :: "string \<Rightarrow> nat \<Rightarrow> string \<Rightarrow> md_link result" where
  "mk_md_link destination n label =
     ebind (check (\<not> blank destination) (ValueErr ''destination must not be empty'')) (\<lambda>_.
       Inr \<lparr>mk_destination = strip destination, mk_line = n, mk_text = label\<rparr>)"

definition mk_md_checklist_item :: "string \<Rightarrow> bool \<Rightarrow> nat \<Rightarrow> md_checklist_item result" where
  "mk_md_checklist_item label checked n =
     ebind (check (\<not> blank label) (ValueErr ''text must not be empty'')) (\<lambda>_.
       Inr \<lparr>mi_text = strip label, mi_checked = checked, mi_line = n\<rparr>)"

section \<open>The patterns of a line\<close>

text \<open>\<open>_ATX_HEADING_RE\<close>: at most three blanks, one to six hashes, blanks, the title, and perhaps closing hashes.\<close>

definition closing_hashes :: "string \<Rightarrow> bool" where
  "closing_hashes s \<longleftrightarrow>
     (let t = dropWhile py_isspace s; u = dropWhile (\<lambda>c. c = CHR ''#'') t in
      length t < length s \<and> length u < length t \<and> blank u)"

fun atx_title :: "string \<Rightarrow> string" where
  "atx_title [] = []"
| "atx_title (c # s) = (if closing_hashes (c # s) then [] else c # atx_title s)"

definition atx_heading :: "string \<Rightarrow> (nat \<times> string) option" where
  "atx_heading line =
     (let marked = dropWhile py_isspace line; title = dropWhile (\<lambda>c. c = CHR ''#'') marked;
          depth = length (takeWhile (\<lambda>c. c = CHR ''#'') marked) in
      if length (takeWhile py_isspace line) \<le> 3 \<and> 1 \<le> depth \<and> depth \<le> 6 \<and> title \<noteq> [] \<and> py_isspace (hd title)
      then Some (depth, atx_title (dropWhile py_isspace title)) else None)"

text \<open>\<open>_SETEXT_RE\<close>, with the depth the underline stands for.\<close>

definition setext_depth :: "string \<Rightarrow> nat option" where
  "setext_depth line =
     (case dropWhile py_isspace line of
        [] \<Rightarrow> None
      | c # s \<Rightarrow>
         if length (takeWhile py_isspace line) \<le> 3 \<and> c \<in> {CHR ''='', CHR ''-''} \<and> blank (dropWhile (\<lambda>d. d = c) s)
         then Some (if c = CHR ''='' then 1 else 2) else None)"

text \<open>\<open>_FENCE_RE\<close>: the marker, its width and what follows it.\<close>

definition fence :: "string \<Rightarrow> (char \<times> nat \<times> string) option" where
  "fence line =
     (case dropWhile py_isspace line of
        [] \<Rightarrow> None
      | c # s \<Rightarrow>
         let width = length (takeWhile (\<lambda>d. d = c) (c # s)) in
         if length (takeWhile py_isspace line) \<le> 3 \<and> c \<in> {CHR ''`'', CHR ''~''} \<and> 3 \<le> width
         then Some (c, width, drop width (c # s)) else None)"

text \<open>\<open>_CHECKLIST_RE\<close>: whether the item is checked, and its text.\<close>

definition checklist_item :: "string \<Rightarrow> (bool \<times> string) option" where
  "checklist_item line =
     (case dropWhile py_isspace line of
        [] \<Rightarrow> None
      | c # s \<Rightarrow>
         (case dropWhile py_isspace s of
            open_bracket # mark # closing # label \<Rightarrow>
              if c \<in> {CHR ''-'', CHR ''*'', CHR ''+''} \<and> s \<noteq> [] \<and> py_isspace (hd s) \<and> open_bracket = CHR ''['' \<and>
                 mark \<in> {CHR '' '', CHR ''x'', CHR ''X''} \<and> closing = CHR '']'' \<and> label \<noteq> [] \<and> py_isspace (hd label)
              then Some (lower [mark] = ''x'', dropWhile py_isspace label) else None
          | _ \<Rightarrow> None))"

text \<open>\<open>_LINK_RE\<close> at one position, and \<open>finditer\<close> over the line; a link after \<open>!\<close> is an image.\<close>

definition link_match :: "string \<Rightarrow> (string \<times> string \<times> string) option" where
  "link_match s =
     (case s of
        [] \<Rightarrow> None
      | c # s' \<Rightarrow>
         let label = takeWhile (\<lambda>c. c \<noteq> CHR '']'') s'; after = dropWhile (\<lambda>c. c \<noteq> CHR '']'') s';
             inner = (\<lambda>c. c \<noteq> CHR '')'' \<and> c \<noteq> CHR 0x0A);
             destination = takeWhile inner (drop 2 after); rest = dropWhile inner (drop 2 after) in
         if c = CHR ''['' \<and> label \<noteq> [] \<and> startswith after ''](''  \<and> destination \<noteq> [] \<and> startswith rest '')''
         then Some (label, destination, drop 1 rest) else None)"

lemma length_dropWhile_drop: "length (dropWhile P (drop n s)) \<le> length s"
  using length_dropWhile_le [of P "drop n s"] by simp

lemma link_match_shorter: "link_match (c # s) = Some (label, destination, rest) \<Longrightarrow> length rest \<le> length s"
  using length_dropWhile_drop [of _ 2 "dropWhile (\<lambda>c. c \<noteq> CHR '']'') s"] length_dropWhile_le [of "\<lambda>c. c \<noteq> CHR '']''" s]
  by (auto simp: link_match_def Let_def split: if_splits) (meson diff_le_self le_trans)

function links_in :: "char option \<Rightarrow> string \<Rightarrow> (string \<times> string) list" where
  "links_in previous [] = []"
| "links_in previous (c # s) =
     (case (if previous = Some (CHR ''!'') then None else link_match (c # s)) of
        Some (label, destination, rest) \<Rightarrow> (strip label, strip destination) # links_in (Some (CHR '')'')) rest
      | None \<Rightarrow> links_in (Some c) s)"
  by pat_completeness auto
termination
  by (relation "measure (\<lambda>(_, s). length s)") (auto dest!: link_match_shorter split: if_splits)

text \<open>\<open>_FRONTMATTER_RE\<close> and \<open>_FRONTMATTER_KEY_RE\<close>.\<close>

definition is_frontmatter :: "string \<Rightarrow> bool" where
  "is_frontmatter line \<longleftrightarrow> (startswith line ''---'' \<or> startswith line ''+++'') \<and> blank (drop 3 line)"

definition key_char :: "char \<Rightarrow> bool" where
  "key_char c \<longleftrightarrow> (let n = (of_char c :: nat) in
     (65 \<le> n \<and> n \<le> 90) \<or> (97 \<le> n \<and> n \<le> 122) \<or> (48 \<le> n \<and> n \<le> 57) \<or> c = CHR ''_'' \<or> c = CHR ''-'')"

definition frontmatter_key :: "string \<Rightarrow> string option" where
  "frontmatter_key line =
     (let after = dropWhile py_isspace (dropWhile key_char line) in
      if takeWhile key_char line \<noteq> [] \<and> startswith after '':''
      then Some (strip (hd (split_on CHR '':'' line))) else None)"

section \<open>The parts of a document\<close>

definition parse_frontmatter :: "string list \<Rightarrow> md_frontmatter option" where
  "parse_frontmatter ls =
     (case ls of
        [] \<Rightarrow> None
      | first # rest \<Rightarrow>
         let body = takeWhile (\<lambda>line. strip line \<noteq> strip first) rest in
         if is_frontmatter first \<and> length body < length rest
         then Some \<lparr>mf_line_start = 1, mf_line_end = length body + 2, mf_keys = List.map_filter frontmatter_key body\<rparr> else None)"

definition frontmatter_lines :: "md_frontmatter option \<Rightarrow> nat list" where
  "frontmatter_lines front = (case front of None \<Rightarrow> [] | Some f \<Rightarrow> [1..<mf_line_end f + 1])"

text \<open>
  \<open>n\<close> is the number of the first of the lines. A block reaches to its closing fence, or to the end of the document.
\<close>

definition closes_fence :: "char \<Rightarrow> nat \<Rightarrow> string \<Rightarrow> bool" where
  "closes_fence marker width line \<longleftrightarrow> startswith (dropWhile py_isspace line) (replicate width marker)"

function parse_code_blocks :: "nat \<Rightarrow> string list \<Rightarrow> md_code_block list" where
  "parse_code_blocks n [] = []"
| "parse_code_blocks n (line # ls) =
     (case fence line of
        None \<Rightarrow> parse_code_blocks (n + 1) ls
      | Some (marker, width, info) \<Rightarrow>
         let body = length (takeWhile (\<lambda>l. \<not> closes_fence marker width l) ls);
             line_end = min (n + body + 1) (n + length ls) in
         \<lparr>mb_line_start = n, mb_line_end = line_end, mb_language = (if blank info then None else Some (strip info))\<rparr>
           # parse_code_blocks (line_end + 1) (drop (body + 1) ls))"
  by pat_completeness auto
termination by (relation "measure (\<lambda>(_, ls). length ls)") auto

definition masked_lines :: "string list \<Rightarrow> nat list" where
  "masked_lines ls =
     frontmatter_lines (parse_frontmatter ls) @
     concat (map (\<lambda>b. [mb_line_start b..<mb_line_end b + 1]) (parse_code_blocks 1 ls))"

definition strip_char :: "char \<Rightarrow> string \<Rightarrow> string" where
  "strip_char c s = rev (dropWhile (\<lambda>d. d = c) (rev (dropWhile (\<lambda>d. d = c) s)))"

definition normalize_heading_text :: "string \<Rightarrow> string" where
  "normalize_heading_text v = strip (strip_char CHR ''#'' (strip v))"

definition setext_heading :: "nat list \<Rightarrow> nat \<Rightarrow> string \<Rightarrow> string list \<Rightarrow> nat option" where
  "setext_heading masked n line ls =
     (case ls of [] \<Rightarrow> None | underline # _ \<Rightarrow> if n + 1 \<in> set masked \<or> blank line then None else setext_depth underline)"

definition heading_of :: "nat list \<Rightarrow> nat \<Rightarrow> string \<Rightarrow> string list \<Rightarrow> (string \<times> nat \<times> nat) option" where
  "heading_of masked n line ls =
     (if n \<in> set masked then None
      else case atx_heading line of
        Some (depth, title) \<Rightarrow> Some (normalize_heading_text title, depth, n)
      | None \<Rightarrow> map_option (\<lambda>depth. (normalize_heading_text line, depth, n)) (setext_heading masked n line ls))"

fun parse_headings :: "nat list \<Rightarrow> nat \<Rightarrow> string list \<Rightarrow> (string \<times> nat \<times> nat) list" where
  "parse_headings masked n [] = []"
| "parse_headings masked n (line # ls) =
     (case heading_of masked n line ls of None \<Rightarrow> [] | Some h \<Rightarrow> [h]) @ parse_headings masked (n + 1) ls"

text \<open>\<open>[^a-z0-9]+\<close> becomes one dash.\<close>

fun slug :: "bool \<Rightarrow> string \<Rightarrow> string" where
  "slug dashed [] = []"
| "slug dashed (c # s) =
     (let n = (of_char c :: nat) in
      if (97 \<le> n \<and> n \<le> 122) \<or> (48 \<le> n \<and> n \<le> 57) then c # slug False s
      else if dashed then slug True s else CHR ''-'' # slug True s)"

definition anchor_for_heading :: "string \<Rightarrow> nat \<Rightarrow> string" where
  "anchor_for_heading heading line_start =
     (let anchor = strip_char CHR ''-'' (slug False (lower heading)) in
      if anchor = [] then ''section-'' @ str_nat line_start else anchor)"

definition section_end :: "nat \<Rightarrow> nat \<Rightarrow> (string \<times> nat \<times> nat) list \<Rightarrow> nat" where
  "section_end line_count depth later =
     (case find (\<lambda>(_, next_depth, _). next_depth \<le> depth) later of
        None \<Rightarrow> line_count | Some (_, _, next_line_start) \<Rightarrow> next_line_start - 1)"

fun build_sections :: "nat \<Rightarrow> (string \<times> nat \<times> nat) list \<Rightarrow> md_section list result" where
  "build_sections line_count [] = Inr []"
| "build_sections line_count ((heading, depth, line_start) # later) =
     ebind (mk_md_section heading depth line_start (max line_start (section_end line_count depth later))
       (anchor_for_heading heading line_start)) (\<lambda>s.
     ebind (build_sections line_count later) (\<lambda>ss. Inr (s # ss)))"

text \<open>The checklist item and the links of one line, and of all lines that are not masked.\<close>

definition line_items :: "nat \<Rightarrow> string \<Rightarrow> (md_checklist_item list \<times> md_link list) result" where
  "line_items n line =
     ebind (case checklist_item line of
         None \<Rightarrow> Inr []
       | Some (checked, label) \<Rightarrow> ebind (mk_md_checklist_item (strip label) checked n) (\<lambda>i. Inr [i])) (\<lambda>items.
     ebind (mapE (\<lambda>(label, destination). mk_md_link destination n label) (links_in None line)) (\<lambda>links.
       Inr (items, links)))"

definition parse_items :: "nat list \<Rightarrow> string list \<Rightarrow> (md_checklist_item list \<times> md_link list) result" where
  "parse_items masked ls =
     ebind (mapE (\<lambda>(n, line). line_items n line)
       (filter (\<lambda>(n, line). n \<notin> set masked) (zip [1..<length ls + 1] ls))) (\<lambda>found.
       Inr (concat (map fst found), concat (map snd found)))"

definition parse_markdown_document :: "string \<Rightarrow> string \<Rightarrow> md_document result" where
  "parse_markdown_document contents path =
     (let ls = splitlines contents; masked = masked_lines ls in
      ebind (build_sections (length ls) (parse_headings masked 1 ls)) (\<lambda>sections.
      ebind (parse_items masked ls) (\<lambda>(items, links).
      ebind (document_provenance (''markdown document structure parsed directly from '' @ quoted path) [path] None) (\<lambda>e.
        Inr \<lparr>md_sections = sections, md_code_blocks = parse_code_blocks 1 ls, md_links = links,
             md_front = parse_frontmatter ls, md_checklist = items, md_provenance = [e]\<rparr>))))"

section \<open>Where things are\<close>

lemma heading_of_line: "heading_of masked n line ls = Some (h, d, l) \<Longrightarrow> l = n \<and> n \<notin> set masked"
  by (auto simp: heading_of_def split: if_splits option.splits)

lemma parse_headings_member:
  "(h, d, l) \<in> set (parse_headings masked n ls) \<Longrightarrow> n \<le> l \<and> l < n + length ls \<and> l \<notin> set masked"
proof (induction ls arbitrary: n)
  case (Cons line ls)
  have "n + 1 \<le> l \<and> l < n + 1 + length ls \<and> l \<notin> set masked" if "(h, d, l) \<in> set (parse_headings masked (n + 1) ls)"
    using Cons.IH [OF that] .
  moreover have "(h, d, l) \<in> set (parse_headings masked (n + 1) ls) \<or> heading_of masked n line ls = Some (h, d, l)"
    using Cons.prems by (auto split: option.splits)
  ultimately show ?case using heading_of_line [of masked n line ls h d l] by auto
qed simp

lemma parse_headings_sorted: "sorted_wrt (<) (map (snd \<circ> snd) (parse_headings masked n ls))"
proof (induction ls arbitrary: n)
  case (Cons line ls)
  have "n < snd (snd h)" if "h \<in> set (parse_headings masked (n + 1) ls)" for h
    using parse_headings_member [of "fst h" "fst (snd h)" "snd (snd h)"] that by fastforce
  moreover have "l = n" if "heading_of masked n line ls = Some (h, d, l)" for h d l using heading_of_line [OF that] by simp
  ultimately show ?case using Cons.IH [of "n + 1"] by (auto split: option.splits)
qed simp

lemma build_sections_nth:
  assumes "build_sections line_count hs = Inr ss"
  shows "length ss = length hs"
    and "i < length hs \<Longrightarrow> ms_depth (ss ! i) = fst (snd (hs ! i)) \<and> ms_line_start (ss ! i) = snd (snd (hs ! i)) \<and>
      ms_line_end (ss ! i) = max (snd (snd (hs ! i))) (section_end line_count (fst (snd (hs ! i))) (drop (Suc i) hs))"
proof -
  have "length ss = length hs \<and> (\<forall>i<length hs. ms_depth (ss ! i) = fst (snd (hs ! i)) \<and> ms_line_start (ss ! i) = snd (snd (hs ! i)) \<and>
      ms_line_end (ss ! i) = max (snd (snd (hs ! i))) (section_end line_count (fst (snd (hs ! i))) (drop (Suc i) hs)))"
    using assms
  proof (induction hs arbitrary: ss)
    case (Cons h hs)
    obtain heading depth l where h: "h = (heading, depth, l)" by (cases h)
    show ?case using Cons by (auto simp: h ebind_Inr_iff mk_md_section_def nth_Cons split: nat.splits)
  qed simp
  then show "length ss = length hs"
    and "i < length hs \<Longrightarrow> ms_depth (ss ! i) = fst (snd (hs ! i)) \<and> ms_line_start (ss ! i) = snd (snd (hs ! i)) \<and>
      ms_line_end (ss ! i) = max (snd (snd (hs ! i))) (section_end line_count (fst (snd (hs ! i))) (drop (Suc i) hs))"
    by simp_all
qed

lemma section_end_later:
  "section_end line_count depth (drop (Suc i) hs) = line_count \<and> (\<forall>j. i < j \<longrightarrow> j < length hs \<longrightarrow> depth < fst (snd (hs ! j))) \<or>
   (\<exists>k. i < k \<and> k < length hs \<and> fst (snd (hs ! k)) \<le> depth \<and> section_end line_count depth (drop (Suc i) hs) = snd (snd (hs ! k)) - 1 \<and>
     (\<forall>j. i < j \<longrightarrow> j < k \<longrightarrow> depth < fst (snd (hs ! j))))"
proof (cases "find (\<lambda>(_, next_depth, _). next_depth \<le> depth) (drop (Suc i) hs)")
  case None
  have "depth < fst (snd (hs ! j))" if "i < j" "j < length hs" for j
  proof -
    have "hs ! j \<in> set (drop (Suc i) hs)" using that by (auto simp: in_set_conv_nth intro!: exI [of _ "j - Suc i"])
    then show ?thesis using None by (simp add: find_set_None case_prod_unfold) (meson not_le)
  qed
  then show ?thesis using None by (simp add: section_end_def)
next
  case (Some h)
  then obtain m where m: "m < length (drop (Suc i) hs)" "drop (Suc i) hs ! m = h" "fst (snd h) \<le> depth"
    "\<forall>j<m. depth < fst (snd (drop (Suc i) hs ! j))"
    by (auto simp: find_Some_iff case_prod_unfold not_le)
  have "depth < fst (snd (hs ! j))" if "i < j" "j < Suc i + m" for j
    using m(1,4) that by (auto dest!: spec [of _ "j - Suc i"])
  then show ?thesis using m Some
    by (intro disjI2 exI [of _ "Suc i + m"]) (auto simp: section_end_def split: prod.splits)
qed

definition nested_or_apart :: "md_section \<Rightarrow> md_section \<Rightarrow> bool" where
  "nested_or_apart a b \<longleftrightarrow>
     ms_line_start a < ms_line_start b \<and>
     (ms_line_end a < ms_line_start b \<or> ms_line_end b \<le> ms_line_end a \<and> ms_depth a < ms_depth b)"

lemma sections_nested:
  assumes b: "build_sections line_count hs = Inr ss" and sorted: "sorted_wrt (<) (map (snd \<circ> snd) hs)"
    and bound: "\<And>h d l. (h, d, l) \<in> set hs \<Longrightarrow> 1 \<le> l \<and> l \<le> line_count"
  shows "sorted_wrt nested_or_apart ss"
    and "\<forall>s\<in>set ss. 1 \<le> ms_line_start s \<and> ms_line_start s \<le> ms_line_end s \<and> ms_line_end s \<le> line_count"
proof -
  note len = build_sections_nth(1) [OF b] and nth = build_sections_nth(2) [OF b]
  let ?d = "\<lambda>i. fst (snd (hs ! i))" and ?l = "\<lambda>i. snd (snd (hs ! i))" and ?e = "\<lambda>i. section_end line_count (fst (snd (hs ! i))) (drop (Suc i) hs)"
  have l: "1 \<le> ?l i \<and> ?l i \<le> line_count" if "i < length hs" for i using bound [of "fst (hs ! i)" "?d i" "?l i"] that by simp
  have mono: "?l i < ?l j" if "i < j" "j < length hs" for i j using sorted_wrt_nth_less [OF sorted, of i j] that by simp
  have upper: "?e i \<le> line_count" if "i < length hs" for i
    using section_end_later [of line_count "?d i" i hs] l by fastforce
  have before: "?e i < ?l k" if "i < k" "k < length hs" "?d k \<le> ?d i" for i k
  proof -
    have "\<exists>m. i < m \<and> m < length hs \<and> ?e i = ?l m - 1 \<and> (\<forall>j. i < j \<longrightarrow> j < m \<longrightarrow> ?d i < ?d j)"
      using section_end_later [of line_count "?d i" i hs] that by (metis not_le)
    then obtain m where m: "i < m" "m < length hs" "?e i = ?l m - 1" "\<forall>j. i < j \<longrightarrow> j < m \<longrightarrow> ?d i < ?d j" by blast
    have "m \<le> k" using m(4) that by (metis linorder_not_le)
    then have "?l m \<le> ?l k" using mono that(2) by (cases "m = k") (simp_all add: order_less_imp_le)
    then show ?thesis using m(3) l [OF m(2)] by linarith
  qed
  have pair: "nested_or_apart (ss ! i) (ss ! j)" if "i < j" "j < length hs" for i j
  proof (cases "?e i < ?l j")
    case True
    then show ?thesis using that mono [OF that] nth [of i] nth [of j] by (simp add: nested_or_apart_def)
  next
    case False
    have d: "?d i < ?d j" using before [OF that] False by (meson linorder_not_le)
    have "max (?l j) (?e j) \<le> ?e i"
    proof -
      consider "?e i = line_count" | k where "i < k" "k < length hs" "?d k \<le> ?d i" "?e i = ?l k - 1"
        using section_end_later [of line_count "?d i" i hs] by blast
      then show ?thesis
      proof cases
        case 1
        then show ?thesis using upper [OF that(2)] l [OF that(2)] by simp
      next
        case (2 k)
        have "j < k" using False 2 mono [of k j] that l [of k] by (cases j k rule: linorder_cases) auto
        then have "?e j < ?l k" "?l j < ?l k" using before [of j k] 2 d mono [of j k] by simp_all
        then show ?thesis unfolding 2(4) by linarith
      qed
    qed
    then show ?thesis using that d mono [OF that] nth [of i] nth [of j] by (simp add: nested_or_apart_def)
  qed
  show "sorted_wrt nested_or_apart ss" using pair len by (simp add: sorted_wrt_iff_nth_less)
  show "\<forall>s\<in>set ss. 1 \<le> ms_line_start s \<and> ms_line_start s \<le> ms_line_end s \<and> ms_line_end s \<le> line_count"
    using nth l upper len by (auto simp: in_set_conv_nth)
qed

lemma code_blocks_apart:
  "sorted_wrt (\<lambda>a b. mb_line_end a < mb_line_start b) (parse_code_blocks n ls) \<and>
   (\<forall>b\<in>set (parse_code_blocks n ls). n \<le> mb_line_start b \<and> mb_line_start b \<le> mb_line_end b \<and> mb_line_end b < n + length ls)"
proof (induction n ls rule: parse_code_blocks.induct)
  case (2 n line ls)
  show ?case
  proof (cases "fence line")
    case None
    then show ?thesis using 2(1) [OF None] by fastforce
  next
    case (Some f)
    obtain marker width info where f: "f = (marker, width, info)" by (cases f)
    define body line_end where "body = length (takeWhile (\<lambda>l. \<not> closes_fence marker width l) ls)"
      and "line_end = min (n + body + 1) (n + length ls)"
    note IH = 2(2) [OF Some, of marker "(width, info)" width info, unfolded f, OF refl refl body_def line_end_def]
    have "n \<le> line_end" "line_end < n + Suc (length ls)" by (simp_all add: line_end_def)
    moreover have "line_end + 1 + length (drop (body + 1) ls) \<le> n + Suc (length ls)" by (simp add: line_end_def)
    moreover have "parse_code_blocks n (line # ls) =
        \<lparr>mb_line_start = n, mb_line_end = line_end, mb_language = (if blank info then None else Some (strip info))\<rparr>
          # parse_code_blocks (line_end + 1) (drop (body + 1) ls)"
      by (simp add: Some f Let_def body_def line_end_def)
    ultimately show ?thesis using IH by fastforce
  qed
qed simp

section \<open>Documents\<close>

lemma document_parts:
  assumes "parse_markdown_document contents path = Inr d"
  shows "build_sections (length (splitlines contents)) (parse_headings (masked_lines (splitlines contents)) 1 (splitlines contents)) = Inr (md_sections d)"
    and "parse_items (masked_lines (splitlines contents)) (splitlines contents) = Inr (md_checklist d, md_links d)"
    and "md_code_blocks d = parse_code_blocks 1 (splitlines contents)" and "md_front d = parse_frontmatter (splitlines contents)"
  using assms by (auto simp: parse_markdown_document_def Let_def ebind_Inr_iff)

text \<open>
  C31. The sections of a document form a forest in reading order: each has its lines inside the document, and of two sections
  the later one either starts after the earlier one has ended, or lies inside it and is deeper.
\<close>

theorem markdown_sections_nest:
  assumes "parse_markdown_document contents path = Inr d"
  shows "sorted_wrt nested_or_apart (md_sections d) \<and>
    (\<forall>s\<in>set (md_sections d). 1 \<le> ms_line_start s \<and> ms_line_start s \<le> ms_line_end s \<and> ms_line_end s \<le> length (splitlines contents))"
  using sections_nested [OF document_parts(1) [OF assms] parse_headings_sorted] parse_headings_member by fastforce

lemma line_items_lines:
  "line_items n line = Inr (items, links) \<Longrightarrow> (\<forall>i\<in>set items. mi_line i = n) \<and> (\<forall>l\<in>set links. mk_line l = n)"
proof -
  assume found: "line_items n line = Inr (items, links)"
  have "\<forall>i\<in>set items. mi_line i = n"
    using found by (auto simp: line_items_def ebind_Inr_iff mk_md_checklist_item_def split: option.splits)
  moreover have "mapE (\<lambda>(label, destination). mk_md_link destination n label) (links_in None line) = Inr links"
    using found by (auto simp: line_items_def ebind_Inr_iff)
  then have "\<forall>l\<in>set links. mk_line l = n" by (auto dest!: mapE_set simp: mk_md_link_def)
  ultimately show ?thesis by simp
qed

lemma parse_items_lines:
  assumes "parse_items masked ls = Inr (items, links)"
  shows "i \<in> set items \<Longrightarrow> mi_line i \<notin> set masked" and "l \<in> set links \<Longrightarrow> mk_line l \<notin> set masked"
proof -
  obtain found where found: "mapE (\<lambda>(n, line). line_items n line)
      (filter (\<lambda>(n, line). n \<notin> set masked) (zip [1..<length ls + 1] ls)) = Inr found"
    and eq: "items = concat (map fst found)" "links = concat (map snd found)"
    using assms by (auto simp: parse_items_def ebind_Inr_iff)
  have "\<exists>n. n \<notin> set masked \<and> (\<forall>i\<in>set (fst f). mi_line i = n) \<and> (\<forall>l\<in>set (snd f). mk_line l = n)" if "f \<in> set found" for f
    using mapE_set [OF found that] line_items_lines [of _ _ "fst f" "snd f"] by fastforce
  then show "i \<in> set items \<Longrightarrow> mi_line i \<notin> set masked" and "l \<in> set links \<Longrightarrow> mk_line l \<notin> set masked"
    unfolding eq by fastforce+
qed

text \<open>
  Code is never read as prose: no section starts, no link lies and no checklist item lies on a line of a fenced code
  block or of the front matter; and the code blocks follow one another without a common line.
\<close>

theorem markdown_code_is_opaque:
  assumes "parse_markdown_document contents path = Inr d"
  shows "(ms_line_start ` set (md_sections d) \<union> mi_line ` set (md_checklist d) \<union> mk_line ` set (md_links d)) \<inter>
      (set (frontmatter_lines (md_front d)) \<union> (\<Union>b\<in>set (md_code_blocks d). {mb_line_start b..mb_line_end b})) = {} \<and>
    sorted_wrt (\<lambda>a b. mb_line_end a < mb_line_start b) (md_code_blocks d)"
proof -
  let ?ls = "splitlines contents"
  have masked: "set (masked_lines ?ls) = set (frontmatter_lines (md_front d)) \<union> (\<Union>b\<in>set (md_code_blocks d). {mb_line_start b..mb_line_end b})"
    unfolding document_parts(3,4) [OF assms] masked_lines_def by (auto simp: less_Suc_eq_le)
  have "ms_line_start s \<notin> set (masked_lines ?ls)" if "s \<in> set (md_sections d)" for s
  proof -
    note b = document_parts(1) [OF assms]
    obtain i where "i < length (md_sections d)" "s = md_sections d ! i" using \<open>s \<in> _\<close> by (auto simp: in_set_conv_nth)
    then have "ms_line_start s \<in> (snd \<circ> snd) ` set (parse_headings (masked_lines ?ls) 1 ?ls)"
      using build_sections_nth [OF b] by force
    then show ?thesis using parse_headings_member by fastforce
  qed
  moreover have "sorted_wrt (\<lambda>a b. mb_line_end a < mb_line_start b) (md_code_blocks d)"
    using code_blocks_apart [of 1 ?ls] by (simp add: document_parts(3) [OF assms])
  ultimately show ?thesis
    using parse_items_lines [OF document_parts(2) [OF assms]] unfolding masked [symmetric] by blast
qed

section \<open>Documents that are rejected\<close>

lemma slug_clean: "c \<in> set (slug dashed s) \<Longrightarrow> \<not> py_isspace c"
proof (induction dashed s rule: slug.induct)
  case (2 dashed d s)
  have "py_isspace d \<Longrightarrow> (of_char d :: nat) \<in> {9, 10, 11, 12, 13, 28, 29, 30, 31, 32, 133, 160}"
    unfolding py_isspace_def by (elim insertE emptyE) simp_all
  moreover have "\<not> py_isspace CHR ''-''" by (simp add: py_isspace_def)
  ultimately show ?case using 2 by (fastforce simp: Let_def split: if_splits)
qed simp

lemma set_strip_char: "set (strip_char c s) \<subseteq> set s"
  by (auto simp: strip_char_def dest!: set_dropWhileD)

lemma anchor_not_blank: "\<not> blank (anchor_for_heading heading n)"
proof (cases "strip_char CHR ''-'' (slug False (lower heading)) = []")
  case False
  then obtain c cs where c: "strip_char CHR ''-'' (slug False (lower heading)) = c # cs" by (cases "strip_char CHR ''-'' (slug False (lower heading))") auto
  have "c \<in> set (slug False (lower heading))" using set_strip_char [of "CHR ''-''" "slug False (lower heading)"] unfolding c by auto
  then show ?thesis using slug_clean by (auto simp: anchor_for_heading_def Let_def c)
qed (simp add: anchor_for_heading_def py_isspace_def)

lemma build_sections_ok: "is_ok (build_sections line_count hs) \<longleftrightarrow> (\<forall>(heading, d, l)\<in>set hs. \<not> blank heading)"
proof (induction hs)
  case (Cons h hs)
  obtain heading d l where "h = (heading, d, l)" by (cases h)
  then show ?case using Cons anchor_not_blank by (auto simp: is_ok_iff ebind_Inr_iff mk_md_section_def)
qed simp

definition readable_line :: "string \<Rightarrow> bool" where
  "readable_line line \<longleftrightarrow>
     (case checklist_item line of None \<Rightarrow> True | Some (checked, label) \<Rightarrow> \<not> blank label) \<and>
     (\<forall>(label, destination)\<in>set (links_in None line). \<not> blank destination)"

lemma line_items_ok: "is_ok (line_items n line) \<longleftrightarrow> readable_line line"
  by (auto simp: line_items_def readable_line_def is_ok_iff ebind_Inr_iff mk_md_checklist_item_def mk_md_link_def
      mapE_is_ok [unfolded is_ok_iff] split: option.splits)

text \<open>
  C32. Exactly which documents are rejected: those with a heading, a checklist item or a link target, outside of code and front
  matter, that is empty once it is stripped, and those whose path is no valid evidence. One unfinished item \<open>- [ ] \<close>
  therefore takes the structure of the whole document away.
\<close>

theorem markdown_accepted_iff:
  "is_ok (parse_markdown_document contents path) \<longleftrightarrow>
     (let ls = splitlines contents; masked = masked_lines ls in
      (\<forall>(heading, d, l)\<in>set (parse_headings masked 1 ls). \<not> blank heading) \<and>
      (\<forall>(n, line)\<in>set (zip [1..<length ls + 1] ls). n \<in> set masked \<or> readable_line line) \<and>
      is_ok (document_provenance (''markdown document structure parsed directly from '' @ quoted path) [path] None))"
proof -
  have items: "is_ok (parse_items masked ls) \<longleftrightarrow>
      (\<forall>(n, line)\<in>set (zip [1..<length ls + 1] ls). n \<in> set masked \<or> readable_line line)" for masked ls
  proof -
    have "is_ok (parse_items masked ls) \<longleftrightarrow> is_ok (mapE (\<lambda>(n, line). line_items n line)
        (filter (\<lambda>(n, line). n \<notin> set masked) (zip [1..<length ls + 1] ls)))"
      by (auto simp: parse_items_def is_ok_iff ebind_Inr_iff)
    then show ?thesis by (auto simp: mapE_is_ok line_items_ok)
  qed
  let ?ls = "splitlines contents"
  show ?thesis
    unfolding Let_def build_sections_ok [of "length ?ls", symmetric] items [symmetric]
    by (cases "build_sections (length ?ls) (parse_headings (masked_lines ?ls) 1 ?ls)"; cases "parse_items (masked_lines ?ls) ?ls";
        cases "document_provenance (''markdown document structure parsed directly from '' @ quoted path) [path] None")
      (simp_all add: parse_markdown_document_def Let_def split: prod.splits)
qed

section \<open>A document\<close>

definition sample_markdown :: "string list" where
  "sample_markdown = [''---'', ''title: x'', ''---'', ''# Guide ##'', ''see [doc](d.md) and ![pic](p.png)'', ''Sub'', ''---'',
     ''~~~py'', ''# no heading'', ''~~~'', ''- [x] done'', ''# End'']"

lemma sample_markdown_parsed:
  "map_sum id (\<lambda>d. (map ms_heading (md_sections d), map ms_line_end (md_sections d), map mk_line (md_links d), map mi_line (md_checklist d)))
     (parse_markdown_document (join_with [CHR 0x0A] sample_markdown) ''a.md'') =
   Inr ([''Guide'', ''Sub'', ''End''], [11, 11, 12], [5], [11])"
  by code_simp

lemma markdown_sections_nest_witness:
  "\<exists>d. parse_markdown_document (join_with [CHR 0x0A] sample_markdown) ''a.md'' = Inr d \<and>
     map ms_line_end (md_sections d) = [11, 11, 12] \<and> sorted_wrt nested_or_apart (md_sections d)"
proof -
  obtain d where d: "parse_markdown_document (join_with [CHR 0x0A] sample_markdown) ''a.md'' = Inr d"
    and "map ms_line_end (md_sections d) = [11, 11, 12]"
    using sample_markdown_parsed by (cases "parse_markdown_document (join_with [CHR 0x0A] sample_markdown) ''a.md''") auto
  then show ?thesis using markdown_sections_nest [OF d] by simp
qed

lemma markdown_code_is_opaque_witness:
  "\<exists>d. parse_markdown_document (join_with [CHR 0x0A] sample_markdown) ''a.md'' = Inr d \<and> map mk_line (md_links d) = [5] \<and>
     sorted_wrt (\<lambda>a b. mb_line_end a < mb_line_start b) (md_code_blocks d)"
proof -
  obtain d where d: "parse_markdown_document (join_with [CHR 0x0A] sample_markdown) ''a.md'' = Inr d"
    and "map mk_line (md_links d) = [5]"
    using sample_markdown_parsed by (cases "parse_markdown_document (join_with [CHR 0x0A] sample_markdown) ''a.md''") auto
  then show ?thesis using markdown_code_is_opaque [OF d] by simp
qed

lemma markdown_accepted_iff_witness:
  "\<not> is_ok (parse_markdown_document (join_with [CHR 0x0A] [''# Plan'', ''- [ ] '']) ''plan.md'') \<and>
   is_ok (parse_markdown_document (join_with [CHR 0x0A] sample_markdown) ''a.md'')"
  unfolding markdown_accepted_iff by code_simp

end
