(* ===== verification/Openapi_Parser.thy ===== *)
theory Openapi_Parser
  imports Lsp_Protocol Markdown_Parser
begin

text \<open>
  The structure of an OpenAPI document (\<open>providers/openapi/parser.py\<close> and the OpenAPI records of
  \<open>core/structured_artifact_models.py\<close>): a line automaton for YAML, and the walk of a decoded JSON value. The text of
  the file and \<open>json.loads\<close> are arguments.
\<close>

section \<open>Records and validators\<close>

record oa_operation =
  oo_path :: string
  oo_method :: string
  oo_operation_id :: "string option"
  oo_line :: "nat option"

record oa_named =
  on_name :: string
  on_line :: "nat option"

record oa_document =
  od_spec_version :: "string option"
  od_path_count :: nat
  od_operations :: "oa_operation list"
  od_schemas :: "oa_named list"
  od_tags :: "oa_named list"
  od_provenance :: provenance

definition mk_oa_operation :: "string \<Rightarrow> string \<Rightarrow> string option \<Rightarrow> nat option \<Rightarrow> oa_operation result" where
  "mk_oa_operation path method operation_id line =
     ebind (check (\<not> blank path \<and> \<not> blank method) (ValueErr ''text fields must not be empty'')) (\<lambda>_.
       Inr \<lparr>oo_path = strip path, oo_method = strip method, oo_operation_id = operation_id, oo_line = line\<rparr>)"

text \<open>A schema and a tag have the same fields and the same validator.\<close>

definition mk_oa_named :: "string \<Rightarrow> nat option \<Rightarrow> oa_named result" where
  "mk_oa_named name line =
     ebind (check (\<not> blank name) (ValueErr ''name must not be empty'')) (\<lambda>_. Inr \<lparr>on_name = strip name, on_line = line\<rparr>)"

definition http_methods :: "string list" where
  "http_methods = [''get'', ''post'', ''put'', ''patch'', ''delete'', ''options'', ''head'', ''trace'']"

definition oa_supported_filenames :: "string list" where
  "oa_supported_filenames =
     [''openapi.yaml'', ''openapi.yml'', ''openapi.json'', ''swagger.yaml'', ''swagger.yml'', ''swagger.json'']"

definition openapi_document ::
  "string \<Rightarrow> string option \<Rightarrow> oa_operation list \<Rightarrow> oa_named list \<Rightarrow> oa_named list \<Rightarrow> oa_document result" where
  "openapi_document path spec_version operations schemas tags =
     ebind (document_provenance ''OpenAPI document structure parsed deterministically from the specification file'' [path] (Some ''openapi'')) (\<lambda>e.
       Inr \<lparr>od_spec_version = spec_version, od_path_count = card (oo_path ` set operations), od_operations = operations,
            od_schemas = schemas, od_tags = tags, od_provenance = [e]\<rparr>)"

section \<open>YAML\<close>

definition is_quote :: "char \<Rightarrow> bool" where
  "is_quote c \<longleftrightarrow> c = CHR 0x22 \<or> c = CHR 0x27"

text \<open>\<open>quote\<close> is the quote character that is open.\<close>

fun strip_inline_comment :: "char option \<Rightarrow> string \<Rightarrow> string" where
  "strip_inline_comment quote [] = []"
| "strip_inline_comment quote (c # s) =
     (let quote' = (if is_quote c then (if quote = None then Some c else if quote = Some c then None else quote) else quote) in
      if c = CHR ''#'' \<and> quote' = None then [] else c # strip_inline_comment quote' s)"

definition strip_yaml_quotes :: "string \<Rightarrow> string" where
  "strip_yaml_quotes v =
     (let n = strip v in
      if 2 \<le> length n \<and> hd n = last n \<and> is_quote (hd n) then strip (butlast (tl n)) else n)"

definition parse_yaml_mapping_line :: "string \<Rightarrow> string \<times> string option" where
  "parse_yaml_mapping_line line =
     (if CHR '':'' \<notin> set line then (strip_yaml_quotes (strip (strip_inline_comment None line)), None)
      else let key = takeWhile (\<lambda>c. c \<noteq> CHR '':'') line; v = drop 1 (dropWhile (\<lambda>c. c \<noteq> CHR '':'') line);
               normalized = strip (strip_inline_comment None v) in
        (strip_yaml_quotes (strip key), Some (if normalized = [] then [] else strip_yaml_quotes normalized)))"

definition parse_yaml_list_mapping_value :: "string \<Rightarrow> string \<Rightarrow> string option" where
  "parse_yaml_list_mapping_value line key =
     (case parse_yaml_mapping_line line of
        (mapping_key, v) \<Rightarrow> if mapping_key \<noteq> key \<or> v = Some [] then None else v)"

text \<open>What the loop over the lines keeps; \<open>yl_operation\<close> is \<open>current_operation_index\<close>.\<close>

record yaml_loop =
  yl_spec_version :: "string option"
  yl_section :: "string option"
  yl_subsection :: "string option"
  yl_path :: "string option"
  yl_operation :: "nat option"
  yl_operations :: "oa_operation list"
  yl_schemas :: "oa_named list"
  yl_tags :: "oa_named list"

definition yaml_start :: yaml_loop where
  "yaml_start = \<lparr>yl_spec_version = None, yl_section = None, yl_subsection = None, yl_path = None, yl_operation = None,
     yl_operations = [], yl_schemas = [], yl_tags = []\<rparr>"

definition yaml_top_level :: "string \<Rightarrow> yaml_loop \<Rightarrow> yaml_loop" where
  "yaml_top_level stripped y =
     (case parse_yaml_mapping_line stripped of
        (key, v) \<Rightarrow>
          y\<lparr>yl_spec_version := (if key \<in> {''openapi'', ''swagger''} \<and> v \<noteq> None \<and> yl_spec_version y = None then v else yl_spec_version y),
            yl_section := Some key, yl_subsection := None, yl_path := None, yl_operation := None\<rparr>)"

definition yaml_paths_line :: "nat \<Rightarrow> nat \<Rightarrow> string \<Rightarrow> yaml_loop \<Rightarrow> yaml_loop result" where
  "yaml_paths_line n indent stripped y =
     (case parse_yaml_mapping_line stripped of
        (key, v) \<Rightarrow>
          if indent = 2 then Inr (y\<lparr>yl_path := (if v = Some [] \<and> startswith key ''/'' then Some key else None), yl_operation := None\<rparr>)
          else if indent = 4 \<and> yl_path y \<noteq> None \<and> v = Some [] \<and> lower key \<in> set http_methods
          then ebind (mk_oa_operation (the (yl_path y)) (lower key) None (Some n)) (\<lambda>o'.
            Inr (y\<lparr>yl_operations := yl_operations y @ [o'], yl_operation := Some (length (yl_operations y))\<rparr>))
          else if 6 \<le> indent \<and> yl_operation y \<noteq> None \<and> key = ''operationId'' \<and> v \<noteq> None
          then (let i = the (yl_operation y) in
            Inr (y\<lparr>yl_operations := (yl_operations y)[i := (yl_operations y ! i)\<lparr>oo_operation_id := v\<rparr>]\<rparr>))
          else Inr y)"

definition yaml_components_line :: "nat \<Rightarrow> nat \<Rightarrow> string \<Rightarrow> yaml_loop \<Rightarrow> yaml_loop result" where
  "yaml_components_line n indent stripped y =
     (case parse_yaml_mapping_line stripped of
        (key, v) \<Rightarrow>
          if indent = 2 then Inr (y\<lparr>yl_subsection := (if v = Some [] then Some key else None)\<rparr>)
          else if yl_subsection y = Some ''schemas'' \<and> indent = 4 \<and> v = Some []
          then ebind (mk_oa_named key (Some n)) (\<lambda>s. Inr (y\<lparr>yl_schemas := yl_schemas y @ [s]\<rparr>))
          else Inr y)"

definition yaml_tags_line :: "nat \<Rightarrow> nat \<Rightarrow> string \<Rightarrow> yaml_loop \<Rightarrow> yaml_loop result" where
  "yaml_tags_line n indent stripped y =
     (let tag = (if indent = 2 \<and> startswith stripped ''- '' then parse_yaml_list_mapping_value (drop 2 stripped) ''name''
                 else if 4 \<le> indent then (case parse_yaml_mapping_line stripped of (key, v) \<Rightarrow> if key = ''name'' then v else None)
                 else None) in
      case tag of
        None \<Rightarrow> Inr y
      | Some name \<Rightarrow> ebind (mk_oa_named name (Some n)) (\<lambda>t. Inr (y\<lparr>yl_tags := yl_tags y @ [t]\<rparr>)))"

definition yaml_line :: "nat \<times> string \<Rightarrow> yaml_loop \<Rightarrow> yaml_loop result" where
  "yaml_line numbered y =
     (case numbered of (n, line) \<Rightarrow>
        let stripped = strip line; indent = length (takeWhile (\<lambda>c. c = CHR '' '') line) in
        if stripped = [] \<or> startswith stripped ''#'' then Inr y
        else if indent = 0 then Inr (yaml_top_level stripped y)
        else if yl_section y = Some ''paths'' then yaml_paths_line n indent stripped y
        else if yl_section y = Some ''components'' then yaml_components_line n indent stripped y
        else if yl_section y = Some ''tags'' then yaml_tags_line n indent stripped y
        else Inr y)"

definition numbered_lines :: "string \<Rightarrow> (nat \<times> string) list" where
  "numbered_lines contents = zip [1..<length (splitlines contents) + 1] (splitlines contents)"

definition parse_yaml_document :: "string \<Rightarrow> string \<Rightarrow> oa_document result" where
  "parse_yaml_document contents path =
     ebind (foldE yaml_line (numbered_lines contents) yaml_start) (\<lambda>y.
       openapi_document path (yl_spec_version y) (yl_operations y) (yl_schemas y) (yl_tags y))"

section \<open>JSON\<close>

definition json_text :: "json \<Rightarrow> string option" where
  "json_text j = (case j of JStr s \<Rightarrow> if blank s then None else Some (strip s) | _ \<Rightarrow> None)"

text \<open>Searching a line for the key in double quotes and a colon, and for a property with a value.\<close>

definition key_at :: "string \<Rightarrow> string \<Rightarrow> bool" where
  "key_at key s \<longleftrightarrow>
     (let q = [CHR 0x22] @ key @ [CHR 0x22] in startswith s q \<and> startswith (dropWhile py_isspace (drop (length q) s)) '':'')"

definition property_at :: "string \<Rightarrow> string \<Rightarrow> string \<Rightarrow> bool" where
  "property_at key v s \<longleftrightarrow>
     key_at key s \<and>
     (let after = dropWhile py_isspace (drop (length key + 2) s) in
      startswith (dropWhile py_isspace (drop 1 after)) ([CHR 0x22] @ v @ [CHR 0x22]))"

fun somewhere :: "(string \<Rightarrow> bool) \<Rightarrow> string \<Rightarrow> bool" where
  "somewhere P [] \<longleftrightarrow> P []"
| "somewhere P (c # s) \<longleftrightarrow> P (c # s) \<or> somewhere P s"

definition find_json_key_line :: "string \<Rightarrow> string \<Rightarrow> nat option \<Rightarrow> nat option" where
  "find_json_key_line contents key start_line =
     (let first = (case start_line of None \<Rightarrow> 1 | Some 0 \<Rightarrow> 1 | Some n \<Rightarrow> n) in
      map_option fst (find (\<lambda>(n, line). first \<le> n \<and> somewhere (key_at key) line) (numbered_lines contents)))"

definition find_json_property_value_line :: "string \<Rightarrow> string \<Rightarrow> string \<Rightarrow> nat option" where
  "find_json_property_value_line contents key v =
     map_option fst (find (\<lambda>(n, line). somewhere (property_at key v) line) (numbered_lines contents))"

definition entries_of :: "json \<Rightarrow> (string \<times> json) list" where
  "entries_of j = (case as_obj j of None \<Rightarrow> [] | Some entries \<Rightarrow> entries)"

definition or_line :: "nat option \<Rightarrow> nat option \<Rightarrow> nat option" where
  "or_line a b = (case a of None \<Rightarrow> b | Some n \<Rightarrow> if n = 0 then b else a)"

definition json_operations :: "string \<Rightarrow> (string \<times> json) list \<Rightarrow> oa_operation list result" where
  "json_operations contents paths =
     ebind (mapE (\<lambda>(path_name, path_payload).
       let path_line = find_json_key_line contents path_name None in
       mapE (\<lambda>(method, operation).
         mk_oa_operation path_name (lower method) (json_text (json_get ''operationId'' (entries_of operation)))
           (or_line (find_json_key_line contents method path_line) path_line))
         (filter (\<lambda>(method, operation). lower method \<in> set http_methods \<and> as_obj operation \<noteq> None) (entries_of path_payload)))
       paths) (\<lambda>found. Inr (concat found))"

definition json_schemas :: "string \<Rightarrow> (string \<times> json) list \<Rightarrow> oa_named list result" where
  "json_schemas contents entries =
     mapE (\<lambda>(name, _). mk_oa_named name (find_json_key_line contents name None))
       (entries_of (json_get ''schemas'' (entries_of (json_get ''components'' entries))))"

definition json_tags :: "string \<Rightarrow> (string \<times> json) list \<Rightarrow> oa_named list result" where
  "json_tags contents entries =
     mapE (\<lambda>name. mk_oa_named name (find_json_property_value_line contents ''name'' name))
       (List.map_filter (\<lambda>item. json_text (json_get ''name'' (entries_of item)))
         (case as_list (json_get ''tags'' entries) of None \<Rightarrow> [] | Some items \<Rightarrow> items))"

text \<open>\<open>loads\<close> answers \<open>None\<close> where \<open>json.loads\<close> raises a decoding error.\<close>

definition parse_json_document :: "(string \<Rightarrow> json option) \<Rightarrow> string \<Rightarrow> string \<Rightarrow> oa_document result" where
  "parse_json_document loads contents path =
     (let entries = (case loads contents of None \<Rightarrow> [] | Some payload \<Rightarrow> entries_of payload);
          spec_version = (case json_text (json_get ''openapi'' entries) of None \<Rightarrow> json_text (json_get ''swagger'' entries) | Some v \<Rightarrow> Some v) in
      ebind (json_operations contents (entries_of (json_get ''paths'' entries))) (\<lambda>operations.
      ebind (json_schemas contents entries) (\<lambda>schemas.
      ebind (json_tags contents entries) (\<lambda>tags.
        openapi_document path spec_version operations schemas tags))))"

definition parse_openapi_document :: "(string \<Rightarrow> json option) \<Rightarrow> string \<Rightarrow> string \<Rightarrow> string \<Rightarrow> oa_document result" where
  "parse_openapi_document loads name contents path =
     (let n = lower name in
      if n \<notin> set oa_supported_filenames then Inl (ValueErr (''unsupported OpenAPI filename: '' @ quoted name))
      else if endswith n ''.json'' then parse_json_document loads contents path
      else parse_yaml_document contents path)"

section \<open>What the line automaton finds\<close>

definition sound_operation :: "nat \<Rightarrow> oa_operation \<Rightarrow> bool" where
  "sound_operation m o' \<longleftrightarrow>
     startswith (oo_path o') ''/'' \<and> oo_method o' \<in> set http_methods \<and>
     (\<exists>n. oo_line o' = Some n \<and> 1 \<le> n \<and> n < m)"

definition sound_loop :: "nat \<Rightarrow> yaml_loop \<Rightarrow> bool" where
  "sound_loop m y \<longleftrightarrow>
     1 \<le> m \<and> (\<forall>p. yl_path y = Some p \<longrightarrow> startswith p ''/'') \<and>
     (\<forall>i. yl_operation y = Some i \<longrightarrow> i < length (yl_operations y)) \<and>
     (\<forall>o'\<in>set (yl_operations y). sound_operation m o') \<and>
     sorted_wrt (<) (map (\<lambda>o'. the (oo_line o')) (yl_operations y)) \<and>
     (\<forall>t\<in>set (yl_schemas y @ yl_tags y). \<not> blank (on_name t))"

lemma sound_loop_later: "sound_loop m y \<Longrightarrow> m \<le> m' \<Longrightarrow> sound_loop m' y"
  by (fastforce simp: sound_loop_def sound_operation_def)

lemma strip_slash: "startswith p ''/'' \<Longrightarrow> startswith (strip p) ''/''"
proof -
  assume "startswith p ''/''"
  then obtain s where p: "p = CHR ''/'' # s" by (cases p) (auto simp: startswith_def)
  have "strip p = CHR ''/'' # rev (dropWhile py_isspace (rev s)) \<or> strip p = [CHR ''/'']"
    by (auto simp: p strip_def dropWhile_append py_isspace_def)
  then show ?thesis by (auto simp: startswith_def)
qed

lemma methods_plain: "m \<in> set http_methods \<Longrightarrow> strip m = m"
  by (auto simp: http_methods_def strip_def py_isspace_def)

lemma mk_oa_operation_sound:
  assumes "mk_oa_operation p method i (Some n) = Inr o'" and "startswith p ''/''" and "method \<in> set http_methods"
  shows "startswith (oo_path o') ''/''" "oo_method o' \<in> set http_methods" "oo_line o' = Some n"
  using assms by (auto simp: mk_oa_operation_def methods_plain strip_slash)

lemma mk_oa_named_sound: "mk_oa_named name line = Inr t \<Longrightarrow> \<not> blank (on_name t)"
  by (auto simp: mk_oa_named_def)

lemma sound_operation_update:
  assumes "sound_loop m y" and "yl_operation y = Some i"
  shows "sound_loop m (y\<lparr>yl_operations := (yl_operations y)[i := (yl_operations y ! i)\<lparr>oo_operation_id := v\<rparr>]\<rparr>)"
proof -
  have i: "i < length (yl_operations y)" using assms by (simp add: sound_loop_def)
  then have "sound_operation m ((yl_operations y ! i)\<lparr>oo_operation_id := v\<rparr>)"
    using assms(1) nth_mem [OF i] by (simp add: sound_loop_def sound_operation_def)
  moreover have "map (\<lambda>o'. the (oo_line o')) ((yl_operations y)[i := (yl_operations y ! i)\<lparr>oo_operation_id := v\<rparr>]) =
      map (\<lambda>o'. the (oo_line o')) (yl_operations y)"
    using i by (simp add: list_eq_iff_nth_eq nth_list_update)
  ultimately show ?thesis using assms(1)
    by (auto simp: sound_loop_def dest!: subsetD [OF set_update_subset_insert])
qed

lemma yaml_line_sound:
  assumes y: "sound_loop n y" and run: "yaml_line (n, line) y = Inr y'"
  shows "sound_loop (n + 1) y'"
proof -
  let ?stripped = "strip line" and ?indent = "length (takeWhile (\<lambda>c. c = CHR '' '') line)"
  have later: "sound_loop (n + 1) y" using sound_loop_later [OF y] by simp
  have top: "sound_loop (n + 1) (yaml_top_level ?stripped y)"
    using later by (auto simp: yaml_top_level_def sound_loop_def split: prod.splits)
  have paths: "sound_loop (n + 1) y'" if p: "yaml_paths_line n ?indent ?stripped y = Inr y'"
  proof -
    obtain key v where kv: "parse_yaml_mapping_line ?stripped = (key, v)" by (cases "parse_yaml_mapping_line ?stripped")
    consider "y' = y" | v' where "y' = y\<lparr>yl_path := v', yl_operation := None\<rparr>" "\<forall>q. v' = Some q \<longrightarrow> startswith q ''/''"
      | q o' where "yl_path y = Some q" "lower key \<in> set http_methods" "mk_oa_operation q (lower key) None (Some n) = Inr o'"
          "y' = y\<lparr>yl_operations := yl_operations y @ [o'], yl_operation := Some (length (yl_operations y))\<rparr>"
      | i where "yl_operation y = Some i" "y' = y\<lparr>yl_operations := (yl_operations y)[i := (yl_operations y ! i)\<lparr>oo_operation_id := v\<rparr>]\<rparr>"
      using p kv by (fastforce simp: yaml_paths_line_def Let_def ebind_Inr_iff split: if_splits)
    then show ?thesis
    proof cases
      case (3 q o')
      have q: "startswith q ''/''" using y 3(1) by (simp add: sound_loop_def)
      note o' = mk_oa_operation_sound [OF 3(3) q 3(2)]
      have "the (oo_line x) < n" if "x \<in> set (yl_operations y)" for x
        using y that by (fastforce simp: sound_loop_def sound_operation_def)
      then show ?thesis using later o' y unfolding 3(4)
        by (auto simp: sound_loop_def sound_operation_def sorted_wrt_append)
    qed (use later sound_operation_update [OF later] in \<open>auto simp: sound_loop_def\<close>)
  qed
  have components: "sound_loop (n + 1) y'" if "yaml_components_line n ?indent ?stripped y = Inr y'"
    using that later by (auto simp: yaml_components_line_def ebind_Inr_iff sound_loop_def dest!: mk_oa_named_sound split: prod.splits if_splits)
  have tags: "sound_loop (n + 1) y'" if "yaml_tags_line n ?indent ?stripped y = Inr y'"
    using that later by (auto simp: yaml_tags_line_def Let_def ebind_Inr_iff sound_loop_def dest!: mk_oa_named_sound split: option.splits)
  show ?thesis using run later top paths components tags by (auto simp: yaml_line_def Let_def split: if_splits)
qed

lemma yaml_lines_sound:
  "sound_loop n y \<Longrightarrow> foldE yaml_line (zip [n..<n + length ls] ls) y = Inr y' \<Longrightarrow> sound_loop (n + length ls) y'"
proof (induction ls arbitrary: n y)
  case (Cons line ls)
  have z: "zip [n..<n + length (line # ls)] (line # ls) = (n, line) # zip [n + 1..<n + 1 + length ls] ls"
    by (subst upt_conv_Cons) (simp_all del: upt_Suc)
  obtain y1 where "yaml_line (n, line) y = Inr y1" "foldE yaml_line (zip [n + 1..<n + 1 + length ls] ls) y1 = Inr y'"
    using Cons.prems(2) unfolding z by (auto simp: ebind_Inr_iff)
  then show ?case using Cons.IH [of "n + 1" y1] yaml_line_sound [OF Cons.prems(1)] by simp
qed simp

text \<open>
  What the YAML automaton reports stands in the document: the operations come in the order of their lines, each on a line
  of its own inside the document, under a path that starts with a slash and with a method of HTTP in lower case; schemas and
  tags have names; and the number of paths is the number of different paths of the operations.
\<close>

theorem yaml_operations_stand_in_document:
  assumes "parse_yaml_document contents path = Inr d"
  shows "(\<forall>o'\<in>set (od_operations d). sound_operation (length (splitlines contents) + 1) o') \<and>
    sorted_wrt (<) (map (\<lambda>o'. the (oo_line o')) (od_operations d)) \<and>
    (\<forall>t\<in>set (od_schemas d @ od_tags d). \<not> blank (on_name t)) \<and>
    od_path_count d = card (oo_path ` set (od_operations d))"
proof -
  obtain y where y: "foldE yaml_line (zip [1..<1 + length (splitlines contents)] (splitlines contents)) yaml_start = Inr y"
    and d: "openapi_document path (yl_spec_version y) (yl_operations y) (yl_schemas y) (yl_tags y) = Inr d"
    using assms by (auto simp: parse_yaml_document_def numbered_lines_def ebind_Inr_iff)
  have "sound_loop 1 yaml_start" by (simp add: sound_loop_def yaml_start_def)
  from yaml_lines_sound [OF this y] have s: "sound_loop (1 + length (splitlines contents)) y" .
  have "od_operations d = yl_operations y" "od_schemas d = yl_schemas y" "od_tags d = yl_tags y"
    "od_path_count d = card (oo_path ` set (od_operations d))"
    using d by (auto simp: openapi_document_def ebind_Inr_iff)
  then show ?thesis using s by (simp add: sound_loop_def)
qed

definition sample_openapi :: "string list" where
  "sample_openapi = [''openapi: 3.0.0'', ''paths:'', ''  /pets:'', ''    get:'', ''      operationId: listPets  # all of them'',
     ''    post:'', ''      summary: none'', ''components:'', ''  schemas:'', ''    Pet:'', ''tags:'', ''  - name: pets'']"

lemma yaml_operations_stand_in_document_witness:
  "\<exists>d. parse_yaml_document (join_with [CHR 0x0A] sample_openapi) ''openapi.yaml'' = Inr d \<and>
     map oo_operation_id (od_operations d) = [Some ''listPets'', None] \<and> od_path_count d = 1 \<and>
     sorted_wrt (<) (map (\<lambda>o'. the (oo_line o')) (od_operations d))"
proof -
  have "map_sum id (\<lambda>d. (map oo_operation_id (od_operations d), od_path_count d)) (parse_yaml_document (join_with [CHR 0x0A] sample_openapi) ''openapi.yaml'') =
      Inr ([Some ''listPets'', None], 1)"
    by code_simp
  then obtain d where d: "parse_yaml_document (join_with [CHR 0x0A] sample_openapi) ''openapi.yaml'' = Inr d"
    and "map oo_operation_id (od_operations d) = [Some ''listPets'', None]" "od_path_count d = 1"
    by (cases "parse_yaml_document (join_with [CHR 0x0A] sample_openapi) ''openapi.yaml''") auto
  then show ?thesis using yaml_operations_stand_in_document [OF d] by simp
qed

end
