(* ===== verification/Document_Providers.thy ===== *)
theory Document_Providers
  imports Openapi_Parser Lsp_Probe Paths
begin

text \<open>
  The two providers of documents (\<open>providers/markdown/markdown_provider.py\<close>, \<open>providers/openapi/openapi_provider.py\<close>): the
  walk over the directories of a repository, the component that owns the documents, their files, and the structure of one
  document. A directory is the list of its entries; the contents of a file are an argument.
\<close>

section \<open>The walk\<close>

datatype dir_entry = FileEntry string | DirEntry string "dir_entry list"

definition ignored_dir_names :: "string list" where
  "ignored_dir_names =
     [''.git'', ''.hg'', ''.svn'', ''.bzr'', ''.suit'', ''node_modules'', ''vendor'', ''__pycache__'', ''.pytest_cache'',
      ''.mypy_cache'', ''.ruff_cache'', ''.tox'', ''.venv'', ''venv'', ''dist'', ''build'', ''target'', ''out'', ''.next'', ''.nuxt'', ''.cache'']"

fun file_entry_names :: "dir_entry list \<Rightarrow> string list" where
  "file_entry_names [] = []"
| "file_entry_names (FileEntry name # es) = name # file_entry_names es"
| "file_entry_names (DirEntry name sub # es) = file_entry_names es"

text \<open>\<open>os.walk\<close> with the ignored directories pruned; \<open>pre\<close> are the names of the directories passed.\<close>

fun walk_document_files :: "(string \<Rightarrow> bool) \<Rightarrow> string list \<Rightarrow> dir_entry list \<Rightarrow> string list list"
  and walk_dirs :: "(string \<Rightarrow> bool) \<Rightarrow> string list \<Rightarrow> dir_entry list \<Rightarrow> (string \<times> string list list) list" where
  "walk_document_files keep pre es =
     map (\<lambda>name. pre @ [name]) (filter keep (sort (file_entry_names es))) @ concat (map snd (sort_key fst (walk_dirs keep pre es)))"
| "walk_dirs keep pre [] = []"
| "walk_dirs keep pre (FileEntry name # es) = walk_dirs keep pre es"
| "walk_dirs keep pre (DirEntry name sub # es) =
     (if name \<in> set ignored_dir_names then [] else [(name, walk_document_files keep (pre @ [name]) sub)]) @ walk_dirs keep pre es"

definition repository_rel_paths :: "(string \<Rightarrow> bool) \<Rightarrow> dir_entry list \<Rightarrow> string list" where
  "repository_rel_paths keep es = sort (map (join_with ''/'') (walk_document_files keep [] es))"

definition is_markdown_file :: "string \<Rightarrow> bool" where
  "is_markdown_file name \<longleftrightarrow> lower (path_suffix name) \<in> {''.md'', ''.markdown''}"

definition is_spec_file :: "string \<Rightarrow> bool" where
  "is_spec_file name \<longleftrightarrow> lower name \<in> set oa_supported_filenames"

definition markdown_files :: "dir_entry list \<Rightarrow> string list" where
  "markdown_files es = repository_rel_paths is_markdown_file es"

definition spec_files :: "dir_entry list \<Rightarrow> string list" where
  "spec_files es = repository_rel_paths is_spec_file es"

section \<open>Components and files\<close>

definition markdown_owner_id :: string where
  "markdown_owner_id = ''component:markdown:documents''"

definition openapi_owner_id :: string where
  "openapi_owner_id = ''component:openapi:specs''"

definition document_component :: "string \<Rightarrow> string \<Rightarrow> string \<Rightarrow> provenance_entry result \<Rightarrow> component list result" where
  "document_component owner_id name source_root evidence =
     ebind evidence (\<lambda>e. Inr [\<lparr>gn_id = owner_id, gn_name = name, gn_evidence_ids = [], gn_provenance = [e],
       co_component_kind = CK_OTHER, co_language = PL_OTHER, co_source_roots = [source_root], co_artifact_paths = []\<rparr>])"

definition markdown_get_components :: "string \<Rightarrow> string list \<Rightarrow> component list result" where
  "markdown_get_components attachment_root files =
     (if files = [] then Inr []
      else document_component markdown_owner_id ''Markdown Documents'' attachment_root
        (document_node_provenance (''markdown document component derived from '' @ str_nat (length files) @ '' markdown files'') (take 10 files) None))"

definition openapi_get_components :: "string \<Rightarrow> string list \<Rightarrow> component list result" where
  "openapi_get_components attachment_root files =
     (if files = [] then Inr []
      else document_component openapi_owner_id ''OpenAPI Specifications'' attachment_root
        (document_node_provenance (''OpenAPI specification component derived from '' @ str_nat (length files) @ '' specification files'') (take 10 files)
          (Some ''openapi'')))"

definition document_file_info :: "string \<Rightarrow> string \<Rightarrow> string \<Rightarrow> file_info result" where
  "document_file_info owner_id summary path =
     ebind (make_file_id path) (\<lambda>i.
     ebind (ownership_node_provenance (summary @ quoted path) [path]) (\<lambda>e.
       Inr \<lparr>gn_id = i, gn_name = last (split_on CHR ''/'' path), gn_evidence_ids = [], gn_provenance = [e],
            fi_repository_rel_path = path, fi_language = Some PL_OTHER, fi_owner_id = owner_id\<rparr>))"

definition markdown_get_files :: "string list \<Rightarrow> file_info list result" where
  "markdown_get_files files =
     mapE (document_file_info markdown_owner_id ''markdown file ownership assigned by markdown provider for '') files"

definition openapi_get_files :: "string list \<Rightarrow> file_info list result" where
  "openapi_get_files files =
     mapE (document_file_info openapi_owner_id ''OpenAPI file ownership assigned by openapi provider for '') files"

section \<open>The structure of a document\<close>

datatype structured_artifact = MarkdownArtifact md_document | OpenApiArtifact oa_document

definition artifact_path :: "string \<Rightarrow> string" where
  "artifact_path path = replace_char CHR 0x5C CHR ''/'' (strip path)"

definition markdown_describe :: "(string \<Rightarrow> string result) \<Rightarrow> string list \<Rightarrow> string \<Rightarrow> (structured_artifact option) result" where
  "markdown_describe read_text files path =
     (let p = artifact_path path in
      if p \<notin> set files then Inr None
      else ebind (read_text p) (\<lambda>contents. ebind (Markdown_Parser.parse_markdown_document contents p) (\<lambda>d. Inr (Some (MarkdownArtifact d)))))"

definition openapi_describe ::
  "(string \<Rightarrow> json option) \<Rightarrow> (string \<Rightarrow> string result) \<Rightarrow> string list \<Rightarrow> string \<Rightarrow> (structured_artifact option) result" where
  "openapi_describe loads read_text files path =
     (let p = artifact_path path in
      if p \<notin> set files then Inr None
      else ebind (read_text p) (\<lambda>contents.
        ebind (parse_openapi_document loads (last (split_on CHR ''/'' p)) contents p) (\<lambda>d. Inr (Some (OpenApiArtifact d)))))"

section \<open>What is listed\<close>

text \<open>The path of a file below a directory, as the names on the way, with no ignored directory among them.\<close>

inductive visible_file :: "dir_entry list \<Rightarrow> string list \<Rightarrow> bool" where
  here: "FileEntry name \<in> set es \<Longrightarrow> visible_file es [name]"
| below: "DirEntry name sub \<in> set es \<Longrightarrow> name \<notin> set ignored_dir_names \<Longrightarrow> visible_file sub parts \<Longrightarrow> visible_file es (name # parts)"

inductive_simps visible_file_Cons: "visible_file es (name # parts)"
inductive_cases visible_file_Nil: "visible_file es []"

lemma visible_file_ne: "visible_file es parts \<Longrightarrow> parts \<noteq> []"
  by (auto elim: visible_file_Nil)

lemma set_file_entry_names: "set (file_entry_names es) = {name. FileEntry name \<in> set es}"
  by (induction es rule: file_entry_names.induct) auto

lemma walk_lists:
  "parts \<in> set (walk_document_files keep pre es) \<longleftrightarrow> (\<exists>rest. parts = pre @ rest \<and> visible_file es rest \<and> keep (last rest))"
  "parts \<in> \<Union> (set ` snd ` set (walk_dirs keep pre es)) \<longleftrightarrow>
     (\<exists>name sub rest. DirEntry name sub \<in> set es \<and> name \<notin> set ignored_dir_names \<and> parts = pre @ name # rest \<and>
        visible_file sub rest \<and> keep (last rest))"
proof (induction keep pre es and keep pre es arbitrary: parts and parts rule: walk_document_files_walk_dirs.induct)
  case (1 keep pre es)
  have "parts \<in> set (walk_document_files keep pre es) \<longleftrightarrow>
      (\<exists>name. FileEntry name \<in> set es \<and> keep name \<and> parts = pre @ [name]) \<or> parts \<in> \<Union> (set ` snd ` set (walk_dirs keep pre es))"
    by (auto simp: set_file_entry_names)
  also have "\<dots> \<longleftrightarrow> (\<exists>rest. parts = pre @ rest \<and> visible_file es rest \<and> keep (last rest))"
  proof -
    have "visible_file es rest \<and> keep (last rest) \<longleftrightarrow>
        (\<exists>name. FileEntry name \<in> set es \<and> keep name \<and> rest = [name]) \<or>
        (\<exists>name sub rest'. DirEntry name sub \<in> set es \<and> name \<notin> set ignored_dir_names \<and> rest = name # rest' \<and>
          visible_file sub rest' \<and> keep (last rest'))" for rest
      by (cases rest) (auto simp: visible_file_Cons elim: visible_file_Nil dest: visible_file_ne)
    then show ?thesis unfolding 1 by blast
  qed
  finally show ?case .
next
  case (4 keep pre name sub es)
  show ?case
  proof (cases "name \<in> set ignored_dir_names")
    case True
    then show ?thesis using 4(2) by auto
  next
    case False
    then show ?thesis using 4(1) [OF False] 4(2) by auto
  qed
qed auto

lemma split_join_names:
  "parts \<noteq> [] \<Longrightarrow> \<forall>name\<in>set parts. CHR ''/'' \<notin> set name \<Longrightarrow> split_on CHR ''/'' (join_with ''/'' parts) = parts"
  by (rule split_on_join) auto

text \<open>The names of a directory contain no slash, as on every file system.\<close>

fun plain_names :: "dir_entry list \<Rightarrow> bool" where
  "plain_names [] \<longleftrightarrow> True"
| "plain_names (FileEntry name # es) \<longleftrightarrow> CHR ''/'' \<notin> set name \<and> plain_names es"
| "plain_names (DirEntry name sub # es) \<longleftrightarrow> CHR ''/'' \<notin> set name \<and> plain_names sub \<and> plain_names es"

lemma plain_names_member:
  "plain_names es \<Longrightarrow> FileEntry name \<in> set es \<Longrightarrow> CHR ''/'' \<notin> set name"
  "plain_names es \<Longrightarrow> DirEntry name sub \<in> set es \<Longrightarrow> CHR ''/'' \<notin> set name \<and> plain_names sub"
  by (induction es rule: plain_names.induct) auto

lemma visible_plain: "visible_file es parts \<Longrightarrow> plain_names es \<Longrightarrow> \<forall>name\<in>set parts. CHR ''/'' \<notin> set name"
  by (induction es parts rule: visible_file.induct) (auto dest: plain_names_member)

lemma listed_path:
  assumes "plain_names es"
  shows "p \<in> set (repository_rel_paths keep es) \<longleftrightarrow> visible_file es (split_on CHR ''/'' p) \<and> keep (last (split_on CHR ''/'' p))"
proof -
  have "p \<in> set (repository_rel_paths keep es) \<longleftrightarrow> (\<exists>parts. p = join_with ''/'' parts \<and> visible_file es parts \<and> keep (last parts))"
    by (auto simp: repository_rel_paths_def walk_lists(1) simp del: walk_document_files.simps)
  also have "\<dots> \<longleftrightarrow> visible_file es (split_on CHR ''/'' p) \<and> keep (last (split_on CHR ''/'' p))"
    using split_join_names visible_file_ne visible_plain [OF _ assms] join_split_on by metis
  finally show ?thesis .
qed

lemma lower_char_dot: "lower_char c = CHR ''.'' \<longleftrightarrow> c = CHR ''.''"
proof
  assume l: "lower_char c = CHR ''.''"
  have "(of_char (lower_char c) :: nat) = 46" by (simp add: l)
  moreover have "(of_char c :: nat) < 256" by simp
  ultimately have "(of_char c :: nat) = 46" by (auto simp: lower_char_def Let_def split: if_splits)
  then have "(of_char c :: nat) = of_char CHR ''.''" by simp
  then show "c = CHR ''.''" by (simp only: of_char_eq_iff)
qed (simp add: lower_char_def)

lemma last_dot_lower: "last_dot (lower name) = last_dot name"
proof -
  have "takeWhile (\<lambda>c. c \<noteq> CHR ''.'') (rev (lower name)) = map lower_char (takeWhile (\<lambda>c. c \<noteq> CHR ''.'') (rev name))"
    by (simp add: lower_def rev_map takeWhile_map o_def lower_char_dot)
  moreover have "CHR ''.'' \<in> set (lower name) \<longleftrightarrow> CHR ''.'' \<in> set name"
    unfolding lower_def list.set_map image_iff by (metis lower_char_dot)
  moreover have "length (lower name) = length name" by (simp add: lower_def)
  ultimately show ?thesis by (simp add: last_dot_def Let_def)
qed

lemma path_suffix_lower: "path_suffix (lower name) = lower (path_suffix name)"
  unfolding path_suffix_def last_dot_lower by (simp add: lower_def drop_map split: option.splits)

lemma spec_file_no_markdown: "is_spec_file name \<Longrightarrow> \<not> is_markdown_file name"
proof -
  have "\<forall>n\<in>set oa_supported_filenames. path_suffix n \<notin> {''.md'', ''.markdown''}" by code_simp
  then show "is_spec_file name \<Longrightarrow> \<not> is_markdown_file name"
    by (auto simp: is_spec_file_def is_markdown_file_def simp flip: path_suffix_lower)
qed

text \<open>
  The two providers list exactly the documents of their kind that no ignored directory hides, in order, and they never
  claim the same file: every document of a repository has one owner.
\<close>

theorem documents_listed_exactly:
  assumes "plain_names es"
  shows "set (markdown_files es) = {p. visible_file es (split_on CHR ''/'' p) \<and> is_markdown_file (last (split_on CHR ''/'' p))} \<and>
    set (spec_files es) = {p. visible_file es (split_on CHR ''/'' p) \<and> is_spec_file (last (split_on CHR ''/'' p))} \<and>
    sorted (markdown_files es) \<and> sorted (spec_files es) \<and> set (markdown_files es) \<inter> set (spec_files es) = {}"
  using listed_path [OF assms] spec_file_no_markdown
  by (auto simp: markdown_files_def spec_files_def) (simp_all add: repository_rel_paths_def)

definition sample_tree :: "dir_entry list" where
  "sample_tree = [FileEntry ''README.MD'', DirEntry ''node_modules'' [FileEntry ''a.md''],
     DirEntry ''api'' [FileEntry ''openapi.yaml'', FileEntry ''notes.markdown'', FileEntry ''.md'']]"

lemma documents_listed_exactly_witness:
  "markdown_files sample_tree = [''README.MD'', ''api/notes.markdown''] \<and> spec_files sample_tree = [''api/openapi.yaml''] \<and>
   set (markdown_files sample_tree) \<inter> set (spec_files sample_tree) = {}"
proof -
  have "plain_names sample_tree" by code_simp
  moreover have "markdown_files sample_tree = [''README.MD'', ''api/notes.markdown'']" by code_simp
  moreover have "spec_files sample_tree = [''api/openapi.yaml'']" by code_simp
  ultimately show ?thesis using documents_listed_exactly [of sample_tree] by blast
qed

lemma document_file_info_owner:
  "document_file_info owner_id summary path = Inr f \<Longrightarrow> fi_owner_id f = owner_id \<and> fi_repository_rel_path f = path"
  by (auto simp: document_file_info_def ebind_Inr_iff)

text \<open>A file a provider lists is owned by the component the provider reports.\<close>

lemma document_files_owned:
  assumes "markdown_get_files files = Inr fs \<and> markdown_get_components root_path files = Inr cs \<or>
    openapi_get_files files = Inr fs \<and> openapi_get_components root_path files = Inr cs"
  shows "map fi_repository_rel_path fs = files" and "\<forall>f\<in>set fs. \<exists>c\<in>set cs. gn_id c = fi_owner_id f"
proof -
  have "\<exists>owner_id summary. mapE (document_file_info owner_id summary) files = Inr fs \<and> (files \<noteq> [] \<longrightarrow> (\<exists>c\<in>set cs. gn_id c = owner_id))"
    using assms by (auto simp: markdown_get_files_def openapi_get_files_def markdown_get_components_def openapi_get_components_def
        document_component_def ebind_Inr_iff split: if_splits)
  then obtain owner_id summary where f: "mapE (document_file_info owner_id summary) files = Inr fs"
    and c: "files \<noteq> [] \<longrightarrow> (\<exists>c\<in>set cs. gn_id c = owner_id)" by blast
  show "map fi_repository_rel_path fs = files"
    using f unfolding mapE_Inr_iff by (induction rule: list_all2_induct) (auto dest: document_file_info_owner)
  show "\<forall>f\<in>set fs. \<exists>c\<in>set cs. gn_id c = fi_owner_id f"
  proof
    fix x assume "x \<in> set fs"
    then obtain p where "p \<in> set files" "document_file_info owner_id summary p = Inr x" using mapE_set [OF f] by blast
    then show "\<exists>c\<in>set cs. gn_id c = fi_owner_id x" using c document_file_info_owner by fastforce
  qed
qed

end
