(* ===== verification/Runtime_Client.thy ===== *)
theory Runtime_Client
  imports Coordinator
begin

text \<open>
  The thin client of the coordinator (\<open>runtime/client.py\<close>) with its discovery file (\<open>discovery.py\<close>), its project lock
  (\<open>lockfile.py\<close>) and the server families (\<open>resolution.py\<close>). Sockets, processes, the clock and the file system are
  arguments: the outcome of the \<open>k\<close>-th attempt, or a state that the client's calls move on. Shown are that the errors of
  the coordinator survive the wire, that attempts are bounded, that a coordinator that answers is never replaced, and
  when the client's waits end.
\<close>

section \<open>Answers of the coordinator\<close>

fun server_state_value :: "server_state \<Rightarrow> string" where
  "server_state_value SV_STARTING = ''starting''"
| "server_state_value SV_READY = ''ready''"
| "server_state_value SV_WARMING = ''warming''"
| "server_state_value SV_DEGRADED = ''degraded''"
| "server_state_value SV_STOPPED = ''stopped''"

fun coord_error_message :: "coord_error \<Rightarrow> string" where
  "coord_error_message (ProtocolErr m) = m"
| "coord_error_message (UnavailableErr m) = m"
| "coord_error_message (VersionMismatchErr m) = m"
| "coord_error_message (InternalErr m) = m"
| "coord_error_message (NotReadyErr family attachment st retry) =
     server_family_value family @ '' is '' @ server_state_value st @ '' for attachment '' @ quoted attachment @
       ''; retry after '' @ str_int retry @ ''s''"
| "coord_error_message (RequestTimeoutErr family attachment st retry) =
     server_family_value family @ '' is '' @ server_state_value st @ '' for attachment '' @ quoted attachment @
       ''; retry after '' @ str_int retry @ ''s''"

text \<open>
  \<open>CoordinatorRpcConnection.request\<close>, from the envelope that arrives: the code of an error is the name of its class, and
  the errors about a session are rebuilt from the payload.
\<close>

definition retry_or :: "int option \<Rightarrow> int" where
  "retry_or retry = (case retry of None \<Rightarrow> 15 | Some r \<Rightarrow> if r = 0 then 15 else r)"

definition readiness_error :: "'p payload option \<Rightarrow> coord_error" where
  "readiness_error p =
     (case p of
        Some (ReadinessP r) \<Rightarrow> NotReadyErr (ry_server_family r) (ry_attachment_root r) (st_state (ry_status r)) (retry_or (ry_retry_after r))
      | _ \<Rightarrow> ProtocolErr ''coordinator returned a runtime-not-ready error without a valid readiness payload'')"

definition rpc_answer :: "'p envelope \<Rightarrow> coord_error + 'p payload option" where
  "rpc_answer envelope =
     (if ev_ok envelope then Inr (ev_payload envelope)
      else case ev_error envelope of
        None \<Rightarrow> Inl (ProtocolErr ''coordinator returned an error response without an error payload'')
      | Some (VersionMismatchErr m) \<Rightarrow> Inl (VersionMismatchErr m)
      | Some (ProtocolErr m) \<Rightarrow> Inl (ProtocolErr m)
      | Some (NotReadyErr family attachment st retry) \<Rightarrow> Inl (readiness_error (ev_payload envelope))
      | Some (RequestTimeoutErr family attachment st retry) \<Rightarrow> Inl (readiness_error (ev_payload envelope))
      | Some e \<Rightarrow> Inl (UnavailableErr (coord_error_message e)))"

text \<open>
  One exchange: sending and receiving may fail, then the envelope is read. A payload that is not of the expected class
  raises pydantic's \<open>ValidationError\<close>.
\<close>

type_synonym 'p exchange = "request \<Rightarrow> coord_error + 'p envelope"

definition rpc_request :: "'p exchange \<Rightarrow> request \<Rightarrow> coord_error + 'p payload option" where
  "rpc_request exchange rq = ebind (exchange rq) rpc_answer"

definition get_runtime_status :: "'p exchange \<Rightarrow> coord_error + (identity \<times> server_status list)" where
  "get_runtime_status exchange =
     ebind (rpc_request exchange GetRuntimeStatusRequest) (\<lambda>p. case p of
       None \<Rightarrow> Inl (ProtocolErr ''runtime status response is missing a payload'')
     | Some (StatusP i servers) \<Rightarrow> Inr (i, servers)
     | Some q \<Rightarrow> Inl (InternalErr ''validation error''))"

definition ensure_server_ready :: "(string \<Rightarrow> string) \<Rightarrow> server_family \<Rightarrow> string \<Rightarrow> 'p exchange \<Rightarrow> coord_error + readiness" where
  "ensure_server_ready resolve family attachment exchange =
     ebind (rpc_request exchange (EnsureServerReadyRequest family (resolve attachment))) (\<lambda>p. case p of
       None \<Rightarrow> Inl (ProtocolErr ''ensure_server_ready response is missing a payload'')
     | Some (ReadinessP r) \<Rightarrow> Inr r
     | Some q \<Rightarrow> Inl (InternalErr ''validation error''))"

section \<open>Connections\<close>

text \<open>The classes below \<open>CoordinatorUnavailableError\<close>.\<close>

fun is_unavailable :: "coord_error \<Rightarrow> bool" where
  "is_unavailable (UnavailableErr m) \<longleftrightarrow> True"
| "is_unavailable (NotReadyErr family attachment st retry) \<longleftrightarrow> True"
| "is_unavailable (RequestTimeoutErr family attachment st retry) \<longleftrightarrow> True"
| "is_unavailable e \<longleftrightarrow> False"

fun is_version_mismatch :: "coord_error \<Rightarrow> bool" where
  "is_version_mismatch (VersionMismatchErr m) \<longleftrightarrow> True"
| "is_version_mismatch e \<longleftrightarrow> False"

definition connect_to_coordinator :: "(string \<Rightarrow> string) \<Rightarrow> string \<Rightarrow> coord_error + 'p envelope \<Rightarrow> coord_error + unit" where
  "connect_to_coordinator resolve project handshake =
     ebind handshake (\<lambda>envelope.
     ebind (rpc_answer envelope) (\<lambda>p. case p of
       None \<Rightarrow> Inl (ProtocolErr ''coordinator handshake response is missing a payload'')
     | Some (HandshakeP i) \<Rightarrow>
         if resolve (ci_project_root i) = project then Inr ()
         else Inl (ProtocolErr ''coordinator handshake returned a mismatched project root'')
     | Some q \<Rightarrow> Inl (InternalErr ''validation error'')))"

text \<open>\<open>dial k\<close> is what the \<open>k\<close>-th connection attempt gives; the number of the next attempt is returned too.\<close>

fun connect_attempts :: "nat \<Rightarrow> (nat \<Rightarrow> coord_error + unit) \<Rightarrow> nat \<Rightarrow> (coord_error + unit) \<times> nat" where
  "connect_attempts 0 dial k = (dial k, Suc k)"
| "connect_attempts (Suc again) dial k =
     (case dial k of
        Inr u \<Rightarrow> (Inr u, Suc k)
      | Inl e \<Rightarrow> if is_unavailable e then connect_attempts again dial (Suc k) else (Inl e, Suc k))"

definition connect_with_retries :: "nat \<Rightarrow> (nat \<Rightarrow> coord_error + unit) \<Rightarrow> nat \<Rightarrow> (coord_error + unit) \<times> nat" where
  "connect_with_retries attempts dial k = connect_attempts (max 1 attempts - 1) dial k"

definition connect_retry_attempts :: nat where
  "connect_retry_attempts = 10"

section \<open>The discovery file\<close>

record discovery =
  dr_identity :: identity
  dr_endpoint :: string
  dr_pid :: int

text \<open>What one read of the file gives: it is not there, the system denies it, or it does not hold a record.\<close>

datatype read_outcome = ReadFound discovery | ReadMissing | ReadDenied | ReadInvalid

fun read_discovery :: "nat \<Rightarrow> (nat \<Rightarrow> read_outcome) \<Rightarrow> nat \<Rightarrow> read_outcome + discovery option" where
  "read_discovery 0 reads k = Inr None"
| "read_discovery (Suc again) reads k =
     (case reads k of
        ReadFound r \<Rightarrow> Inr (Some r)
      | ReadMissing \<Rightarrow> Inr None
      | failure \<Rightarrow> if again = 0 then Inl failure else read_discovery again reads (Suc k))"

definition discovery_retries :: nat where
  "discovery_retries = 12"

text \<open>\<open>write\<close> and the unlinking of \<open>remove_if_owned\<close>: attempt \<open>k\<close> is permitted or not.\<close>

fun permitted_within :: "nat \<Rightarrow> (nat \<Rightarrow> bool) \<Rightarrow> bool" where
  "permitted_within 0 permitted \<longleftrightarrow> False"
| "permitted_within (Suc n) permitted \<longleftrightarrow> permitted 0 \<or> permitted_within n (\<lambda>k. permitted (Suc k))"

definition write_discovery :: "(nat \<Rightarrow> bool) \<Rightarrow> discovery \<Rightarrow> discovery option \<Rightarrow> read_outcome + discovery option" where
  "write_discovery permitted r stored =
     (if permitted_within discovery_retries permitted then Inr (Some r) else Inl ReadDenied)"

definition remove_if_owned :: "(nat \<Rightarrow> bool) \<Rightarrow> string \<Rightarrow> read_outcome + discovery option \<Rightarrow> discovery option \<Rightarrow> discovery option" where
  "remove_if_owned permitted instance_id current stored =
     (case current of
        Inr (Some r) \<Rightarrow>
          if ci_instance_id (dr_identity r) = instance_id \<and> permitted_within discovery_retries permitted then None else stored
      | _ \<Rightarrow> stored)"

section \<open>Electing a coordinator\<close>

text \<open>
  What a client sees of the project: the discovery file, the running processes and how often attempts to connect have
  been made; and what it has done: processes it ended and candidates it started.
\<close>

record project_world =
  pw_stored :: "discovery option"
  pw_running :: "int list"
  pw_dials :: nat
  pw_terminated :: "int list"
  pw_spawned :: "string list"

record client_config =
  cc_endpoint :: string
  cc_protocol_version :: string
  cc_build_version :: string
  cc_instance_id :: string

definition current_status_record :: "seconds \<Rightarrow> project_world \<Rightarrow> discovery option" where
  "current_status_record now w =
     (case pw_stored w of
        None \<Rightarrow> None
      | Some r \<Rightarrow> if ci_expires_at (dr_identity r) \<le> now \<or> dr_pid r \<notin> set (pw_running w) then None else Some r)"

text \<open>\<open>dial endpoint k\<close>. A failed probe is an error that is returned, not raised.\<close>

definition probe_existing_coordinator ::
  "client_config \<Rightarrow> (string \<Rightarrow> nat \<Rightarrow> coord_error + unit) \<Rightarrow> seconds \<Rightarrow> project_world \<Rightarrow> (coord_error + coord_error option) \<times> project_world" where
  "probe_existing_coordinator cc dial now w =
     (let endpoint = (case current_status_record now w of None \<Rightarrow> cc_endpoint cc | Some r \<Rightarrow> dr_endpoint r) in
      case connect_with_retries 2 (dial endpoint) (pw_dials w) of
        (r, k) \<Rightarrow>
          ((case r of
              Inr u \<Rightarrow> Inr None
            | Inl e \<Rightarrow> if is_unavailable e \<or> is_version_mismatch e then Inr (Some e) else Inl e),
           w\<lparr>pw_dials := k\<rparr>))"

text \<open>\<open>terminate_process\<close>: asked to end, then killed; \<open>dies\<close> tells whether that ends it.\<close>

definition terminate_process :: "(int \<Rightarrow> bool) \<Rightarrow> int \<Rightarrow> project_world \<Rightarrow> project_world" where
  "terminate_process dies pid w =
     w\<lparr>pw_running := (if dies pid then removeAll pid (pw_running w) else pw_running w), pw_terminated := pw_terminated w @ [pid]\<rparr>"

definition remove_owned_record :: "(nat \<Rightarrow> bool) \<Rightarrow> string \<Rightarrow> project_world \<Rightarrow> project_world" where
  "remove_owned_record permitted instance_id w =
     w\<lparr>pw_stored := remove_if_owned permitted instance_id (Inr (pw_stored w)) (pw_stored w)\<rparr>"

definition replace_or_cleanup_locked ::
  "client_config \<Rightarrow> (int \<Rightarrow> bool) \<Rightarrow> (nat \<Rightarrow> bool) \<Rightarrow> seconds \<Rightarrow> coord_error \<Rightarrow> project_world \<Rightarrow> project_world" where
  "replace_or_cleanup_locked cc dies permitted now last_error w =
     (case pw_stored w of
        None \<Rightarrow> w
      | Some r \<Rightarrow>
          let i = dr_identity r; cleaned = remove_owned_record permitted (ci_instance_id i) in
          if ci_protocol_version i \<noteq> cc_protocol_version cc \<or> ci_build_version i \<noteq> cc_build_version cc
          then cleaned (terminate_process dies (dr_pid r) w)
          else if dr_pid r \<notin> set (pw_running w) \<or> ci_expires_at i \<le> now then cleaned w
          else if is_version_mismatch last_error then cleaned (terminate_process dies (dr_pid r) w)
          else cleaned (terminate_process dies (dr_pid r) w))"

definition spawn_candidate :: "client_config \<Rightarrow> project_world \<Rightarrow> project_world" where
  "spawn_candidate cc w = w\<lparr>pw_spawned := pw_spawned w @ [cc_instance_id cc]\<rparr>"

text \<open>
  \<open>_wait_for_coordinator\<close>; \<open>_BOOTSTRAP_TIMEOUT_SECONDS\<close> is \<open>None\<close>, so the loop has no deadline. \<open>exited k\<close> is the exit
  code of the candidate after attempt \<open>k\<close>.
\<close>

partial_function (option) wait_for_coordinator ::
  "(nat \<Rightarrow> coord_error + unit) \<Rightarrow> (nat \<Rightarrow> int option) \<Rightarrow> nat \<Rightarrow> ((coord_error + unit) \<times> nat) option" where
  "wait_for_coordinator dial exited k =
     (case dial k of
        Inr u \<Rightarrow> Some (Inr u, Suc k)
      | Inl e \<Rightarrow>
          if is_unavailable e \<or> is_version_mismatch e
          then (case exited k of
              Some code \<Rightarrow> Some (Inl (UnavailableErr (''coordinator process exited before binding the project endpoint (exit code '' @ str_int code @ '')'')), Suc k)
            | None \<Rightarrow> wait_for_coordinator dial exited (Suc k))
          else Some (Inl e, Suc k))"

datatype client_error = CoordErr coord_error | ElectionErr string

text \<open>
  \<open>_posix_project_lock\<close>: attempt \<open>k\<close> is made at \<open>clock k\<close> and finds the lock \<open>free k\<close> or not.
\<close>

partial_function (option) acquire_lock :: "seconds option \<Rightarrow> (nat \<Rightarrow> seconds) \<Rightarrow> (nat \<Rightarrow> bool) \<Rightarrow> nat \<Rightarrow> (client_error + unit) option" where
  "acquire_lock deadline clock free k =
     (if free k then Some (Inr ())
      else case deadline of
        None \<Rightarrow> acquire_lock deadline clock free (Suc k)
      | Some d \<Rightarrow>
          if d \<le> clock k then Some (Inl (ElectionErr ''timed out acquiring project lock''))
          else acquire_lock deadline clock free (Suc k))"

definition project_lock :: "seconds \<Rightarrow> seconds \<Rightarrow> (nat \<Rightarrow> seconds) \<Rightarrow> (nat \<Rightarrow> bool) \<Rightarrow> (client_error + unit) option" where
  "project_lock timeout now clock free = acquire_lock (if timeout \<le> 0 then None else Some (now + timeout)) clock free 0"

text \<open>
  \<open>_ensure_coordinator\<close>. While the client waits for the lock others may run, so the world is then \<open>meanwhile w\<close>;
  \<open>locked\<close> is the outcome of the lock.
\<close>

definition ensure_coordinator ::
  "client_config \<Rightarrow> (string \<Rightarrow> nat \<Rightarrow> coord_error + unit) \<Rightarrow> (nat \<Rightarrow> int option) \<Rightarrow> (int \<Rightarrow> bool) \<Rightarrow> (nat \<Rightarrow> bool) \<Rightarrow> seconds \<Rightarrow> seconds \<Rightarrow>
   client_error + unit \<Rightarrow> (project_world \<Rightarrow> project_world) \<Rightarrow> project_world \<Rightarrow> ((client_error + unit) \<times> project_world) option" where
  "ensure_coordinator cc dial exited dies permitted now later locked meanwhile w =
     (case probe_existing_coordinator cc dial now w of
        (Inl e, w1) \<Rightarrow> Some (Inl (CoordErr e), w1)
      | (Inr None, w1) \<Rightarrow> Some (Inr (), w1)
      | (Inr (Some e), w1) \<Rightarrow>
          (case locked of
             Inl e' \<Rightarrow> Some (Inl e', meanwhile w1)
           | Inr u \<Rightarrow>
               (case probe_existing_coordinator cc dial later (meanwhile w1) of
                  (Inl e2, w2) \<Rightarrow> Some (Inl (CoordErr e2), w2)
                | (Inr None, w2) \<Rightarrow> Some (Inr (), w2)
                | (Inr (Some e2), w2) \<Rightarrow>
                    let w3 = spawn_candidate cc (replace_or_cleanup_locked cc dies permitted later e2 w2) in
                    (case wait_for_coordinator (dial (cc_endpoint cc)) exited (pw_dials w3) of
                       None \<Rightarrow> None
                     | Some (r, k) \<Rightarrow> Some (map_sum CoordErr id r, w3\<lparr>pw_dials := k\<rparr>)))))"

text \<open>\<open>open_connection\<close>, up to the body that uses the connection.\<close>

definition open_connection ::
  "client_config \<Rightarrow> (string \<Rightarrow> nat \<Rightarrow> coord_error + unit) \<Rightarrow> ((client_error + unit) \<times> project_world) option \<Rightarrow>
   ((client_error + unit) \<times> project_world) option" where
  "open_connection cc dial ensured =
     (case ensured of
        Some (Inr u, w) \<Rightarrow>
          (case connect_with_retries connect_retry_attempts (dial (cc_endpoint cc)) (pw_dials w) of
             (r, k) \<Rightarrow> Some (map_sum CoordErr id r, w\<lparr>pw_dials := k\<rparr>))
      | failed \<Rightarrow> failed)"

text \<open>\<open>shutdown\<close>: \<open>ask_shutdown\<close> is the outcome of the request on an open connection.\<close>

definition ask_for_shutdown ::
  "client_config \<Rightarrow> (string \<Rightarrow> nat \<Rightarrow> coord_error + unit) \<Rightarrow> (nat \<Rightarrow> bool) \<Rightarrow> seconds \<Rightarrow> (int \<Rightarrow> bool) \<Rightarrow> coord_error + unit \<Rightarrow>
   project_world \<Rightarrow> (coord_error + unit) \<times> project_world" where
  "ask_for_shutdown cc dial permitted now still_running ask_shutdown w =
     (let found = current_status_record now w;
          endpoint = (case found of None \<Rightarrow> cc_endpoint cc | Some r \<Rightarrow> dr_endpoint r) in
      case connect_with_retries 2 (dial endpoint) (pw_dials w) of
        (Inr u, k) \<Rightarrow> (ask_shutdown, w\<lparr>pw_dials := k\<rparr>)
      | (Inl e, k) \<Rightarrow>
          let w1 = w\<lparr>pw_dials := k\<rparr> in
          if \<not> is_unavailable e then (Inl e, w1)
          else (case found of
              None \<Rightarrow> (Inr (), w1)
            | Some r \<Rightarrow> if still_running (dr_pid r) then (Inl e, w1)
                else (Inr (), remove_owned_record permitted (ci_instance_id (dr_identity r)) w1)))"

section \<open>Waiting for a server\<close>

text \<open>
  The loop of \<open>wait_until_server_ready\<close> over the state \<open>'w\<close> of everything outside: \<open>ask\<close> asks the coordinator, \<open>clock\<close>
  reads \<open>time.monotonic\<close> and \<open>sleep\<close> lets time pass.
\<close>

record 'w outside =
  ow_ask :: "'w \<Rightarrow> (coord_error + readiness) \<times> 'w"
  ow_clock :: "'w \<Rightarrow> seconds"
  ow_sleep :: "seconds \<Rightarrow> 'w \<Rightarrow> 'w"

definition pause :: "seconds \<Rightarrow> readiness \<Rightarrow> seconds" where
  "pause poll r = max poll (of_int (max 0 (case ry_retry_after r of None \<Rightarrow> 0 | Some n \<Rightarrow> n)))"

partial_function (option) wait_loop ::
  "'w outside \<Rightarrow> seconds option \<Rightarrow> seconds \<Rightarrow> 'w \<Rightarrow> ((coord_error + readiness) \<times> 'w) option" where
  "wait_loop ow deadline poll w =
     (case ow_ask ow w of
        (Inl e, w1) \<Rightarrow> Some (Inl e, w1)
      | (Inr r, w1) \<Rightarrow>
          if ry_ready r then Some (Inr r, w1)
          else case deadline of
            None \<Rightarrow> wait_loop ow deadline poll (ow_sleep ow (pause poll r) w1)
          | Some d \<Rightarrow>
              let remaining = d - ow_clock ow w1 in
              if remaining \<le> 0 then Some (Inr r, w1)
              else wait_loop ow deadline poll (ow_sleep ow (min (pause poll r) remaining) w1))"

definition wait_until_server_ready ::
  "'w outside \<Rightarrow> seconds option \<Rightarrow> seconds \<Rightarrow> 'w \<Rightarrow> ((coord_error + readiness) \<times> 'w) option" where
  "wait_until_server_ready ow timeout poll w =
     wait_loop ow (map_option (\<lambda>t. ow_clock ow w + max 0 t) timeout) poll w"

text \<open>\<open>wait_for_project_warmup\<close> over the expected sessions in order: each is waited for with the time that is left.\<close>

fun wait_for_sessions ::
  "('k \<Rightarrow> 'w outside) \<Rightarrow> seconds option \<Rightarrow> seconds \<Rightarrow> 'k list \<Rightarrow> 'w \<Rightarrow> ((coord_error + unit) \<times> 'w) option" where
  "wait_for_sessions ows deadline poll [] w = Some (Inr (), w)"
| "wait_for_sessions ows deadline poll (key # keys) w =
     (case wait_until_server_ready (ows key) (map_option (\<lambda>d. max 0 (d - ow_clock (ows key) w)) deadline) poll w of
        None \<Rightarrow> None
      | Some (Inl e, w1) \<Rightarrow> Some (Inl e, w1)
      | Some (Inr r, w1) \<Rightarrow> if ry_ready r then wait_for_sessions ows deadline poll keys w1 else Some (Inr (), w1))"

definition session_order :: "session_key \<Rightarrow> string \<times> string" where
  "session_order key = (server_family_value (fst key), snd key)"

definition wait_for_project_warmup ::
  "(session_key \<Rightarrow> 'w outside) \<Rightarrow> ('w \<Rightarrow> seconds) \<Rightarrow> ('w \<Rightarrow> coord_error + 's) \<Rightarrow> session_key list \<Rightarrow> seconds option \<Rightarrow> seconds \<Rightarrow> 'w \<Rightarrow>
   (coord_error + 's option) option" where
  "wait_for_project_warmup ows clock status expected timeout poll w =
     (if expected = [] then Some (Inr None)
      else case wait_for_sessions ows (map_option (\<lambda>t. clock w + max 0 t) timeout) poll (sort_key session_order expected) w of
        None \<Rightarrow> None
      | Some (Inl e, w1) \<Rightarrow> Some (Inl e)
      | Some (Inr u, w1) \<Rightarrow> Some (map_sum id Some (status w1)))"

definition provider_id_to_server_family :: "string \<Rightarrow> server_family option" where
  "provider_id_to_server_family provider_id =
     (let n = strip provider_id in
      if n = ''go'' then Some GOPLS else if n = ''python'' then Some BASEDPYRIGHT
      else if n = ''npm'' then Some TYPESCRIPT_LANGUAGE_SERVER else None)"

text \<open>The detected providers with the roots they are attached at; a set, so each session is expected once.\<close>

definition expected_project_sessions :: "(string \<Rightarrow> string) \<Rightarrow> (string \<times> string list) list \<Rightarrow> session_key list" where
  "expected_project_sessions resolve detected =
     remdups (concat (map (\<lambda>(provider_id, attachments). case provider_id_to_server_family provider_id of
       None \<Rightarrow> [] | Some family \<Rightarrow> map (\<lambda>a. (family, resolve a)) attachments) detected))"

definition warmup_has_settled :: "identity \<Rightarrow> server_status list \<Rightarrow> session_key list \<Rightarrow> bool" where
  "warmup_has_settled i servers expected \<longleftrightarrow>
     ci_state i \<noteq> CS_SHUTTING_DOWN \<and>
     (\<forall>key\<in>set expected. case map_of (rev (map (\<lambda>s. ((st_family s, st_attachment_root s), s)) servers)) key of
        None \<Rightarrow> False | Some s \<Rightarrow> st_state s = SV_READY)"

definition prepend_pythonpath_entry :: "string option \<Rightarrow> string \<Rightarrow> string" where
  "prepend_pythonpath_entry existing entry =
     (let normalized = strip entry; current = (case existing of None \<Rightarrow> [] | Some e \<Rightarrow> e) in
      if normalized = [] then current
      else if current = [] then normalized
      else if normalized \<in> set (filter (\<lambda>p. p \<noteq> []) (split_on CHR '':'' current)) then current
      else normalized @ '':'' @ current)"

section \<open>Errors on the wire\<close>

text \<open>The error a client raises for an error of the coordinator.\<close>

fun received :: "coord_error \<Rightarrow> coord_error" where
  "received (RequestTimeoutErr family attachment st retry) = NotReadyErr family attachment st (retry_or (Some retry))"
| "received (NotReadyErr family attachment st retry) = NotReadyErr family attachment st (retry_or (Some retry))"
| "received (InternalErr m) = UnavailableErr m"
| "received e = e"


section \<open>Attempts\<close>

text \<open>The attempts to connect: at most as many as asked for, and the first that is not refused as unavailable decides.\<close>

lemma connect_attempts_result:
  "connect_attempts n dial k = (r, k') \<Longrightarrow>
     k < k' \<and> k' \<le> k + Suc n \<and> r = dial (k' - 1) \<and>
     (\<forall>j. k \<le> j \<longrightarrow> j < k' - 1 \<longrightarrow> (\<exists>e. dial j = Inl e \<and> is_unavailable e)) \<and>
     (k' = k + Suc n \<or> (case r of Inl e \<Rightarrow> \<not> is_unavailable e | Inr u \<Rightarrow> True))"
proof (induction n dial k rule: connect_attempts.induct)
  case (2 n dial k)
  show ?case
  proof (cases "\<exists>e. dial k = Inl e \<and> is_unavailable e")
    case True
    then obtain e where e: "dial k = Inl e" "is_unavailable e" by blast
    have run: "connect_attempts n dial (Suc k) = (r, k')" using 2(2) e by simp
    note IH = 2(1) [OF e run]
    have "\<exists>e. dial j = Inl e \<and> is_unavailable e" if "k \<le> j" "j < k' - 1" for j
      using IH that e by (cases "j = k") auto
    then show ?thesis using IH by auto
  next
    case False
    then show ?thesis using 2(2) by (auto split: sum.splits if_splits)
  qed
qed auto

lemma connect_with_retries_result:
  assumes "connect_with_retries attempts dial k = (r, k')"
  shows "k < k'" "k' \<le> k + max 1 attempts" "r = dial (k' - 1)"
    and "k' = k + max 1 attempts \<or> (case r of Inl e \<Rightarrow> \<not> is_unavailable e | Inr u \<Rightarrow> True)"
  using connect_attempts_result [OF assms [unfolded connect_with_retries_def]] by auto

section \<open>A coordinator that answers is left alone\<close>

lemma probe_frame:
  "probe_existing_coordinator cc dial now w = (r, w1) \<Longrightarrow>
     pw_stored w1 = pw_stored w \<and> pw_running w1 = pw_running w \<and> pw_terminated w1 = pw_terminated w \<and> pw_spawned w1 = pw_spawned w \<and>
     pw_dials w1 \<le> pw_dials w + 2"
  by (auto simp: probe_existing_coordinator_def Let_def dest!: connect_with_retries_result(2) split: prod.splits)

lemma replaced_ends:
  "\<exists>xs. pw_terminated (replace_or_cleanup_locked cc dies permitted now e w) = pw_terminated w @ xs \<and>
     (xs = [] \<or> (\<exists>r. pw_stored w = Some r \<and> xs = [dr_pid r])) \<and>
     pw_spawned (replace_or_cleanup_locked cc dies permitted now e w) = pw_spawned w"
  by (cases "pw_stored w") (auto simp: replace_or_cleanup_locked_def terminate_process_def remove_owned_record_def Let_def split: if_splits)

text \<open>
  C35. Whatever the outcome, a client ends a process or starts a candidate only after its second probe, made under the lock, has
  failed too; it ends at most the one process the discovery file names, and it starts at most one candidate.
\<close>

theorem answering_coordinator_is_kept:
  assumes "ensure_coordinator cc dial exited dies permitted now later locked meanwhile w = Some (r, w')"
    and "\<And>w1. pw_terminated (meanwhile w1) = pw_terminated w1 \<and> pw_spawned (meanwhile w1) = pw_spawned w1"
  shows "pw_terminated w' = pw_terminated w \<and> pw_spawned w' = pw_spawned w \<or>
    (\<exists>e1 w1 e2 w2 xs. probe_existing_coordinator cc dial now w = (Inr (Some e1), w1) \<and> locked = Inr () \<and>
       probe_existing_coordinator cc dial later (meanwhile w1) = (Inr (Some e2), w2) \<and>
       pw_terminated w' = pw_terminated w @ xs \<and> (xs = [] \<or> (\<exists>d. pw_stored w2 = Some d \<and> xs = [dr_pid d])) \<and>
       pw_spawned w' = pw_spawned w @ [cc_instance_id cc])"
proof -
  obtain p w1 where p1: "probe_existing_coordinator cc dial now w = (p, w1)" by (cases "probe_existing_coordinator cc dial now w")
  note f1 = probe_frame [OF p1]
  show ?thesis
  proof (cases "\<exists>e1. p = Inr (Some e1) \<and> locked = Inr ()")
    case True
    then obtain e1 where e1: "p = Inr (Some e1)" "locked = Inr ()" by blast
    obtain q w2 where p2: "probe_existing_coordinator cc dial later (meanwhile w1) = (q, w2)"
      by (cases "probe_existing_coordinator cc dial later (meanwhile w1)")
    have f2: "pw_terminated w2 = pw_terminated w" "pw_spawned w2 = pw_spawned w"
      using probe_frame [OF p2] f1 assms(2) [of w1] by simp_all
    show ?thesis
    proof (cases "\<exists>e2. q = Inr (Some e2)")
      case True
      then obtain e2 where e2: "q = Inr (Some e2)" by blast
      define w3 where "w3 = spawn_candidate cc (replace_or_cleanup_locked cc dies permitted later e2 w2)"
      have w': "pw_terminated w' = pw_terminated w3 \<and> pw_spawned w' = pw_spawned w3"
        using assms(1) p1 e1 p2 e2 by (auto simp: ensure_coordinator_def Let_def w3_def split: option.splits)
      obtain xs where xs: "pw_terminated (replace_or_cleanup_locked cc dies permitted later e2 w2) = pw_terminated w2 @ xs"
        "xs = [] \<or> (\<exists>r. pw_stored w2 = Some r \<and> xs = [dr_pid r])"
        "pw_spawned (replace_or_cleanup_locked cc dies permitted later e2 w2) = pw_spawned w2"
        using replaced_ends by blast
      have "pw_terminated w' = pw_terminated w @ xs" "pw_spawned w' = pw_spawned w @ [cc_instance_id cc]"
        using w' xs f2 by (simp_all add: w3_def spawn_candidate_def)
      then show ?thesis using p1 e1 p2 e2 xs(2) by blast
    qed (use assms(1) p1 e1 p2 f2 in \<open>auto simp: ensure_coordinator_def split: sum.splits option.splits\<close>)
  qed (use assms p1 f1 in \<open>auto simp: ensure_coordinator_def split: sum.splits option.splits\<close>)
qed

section \<open>Waits that end\<close>

definition moving_clock :: "'w outside \<Rightarrow> bool" where
  "moving_clock ow \<longleftrightarrow>
     (\<forall>w. ow_clock ow w \<le> ow_clock ow (snd (ow_ask ow w))) \<and> (\<forall>s w. 0 \<le> s \<longrightarrow> ow_clock ow w + s \<le> ow_clock ow (ow_sleep ow s w))"

lemma pauses_shrink:
  assumes "0 < poll" and "0 < (d :: rat) - t" and "t + min p (d - t) \<le> t'" and "poll \<le> p"
  shows "nat \<lceil>(d - t') / poll\<rceil> < nat \<lceil>(d - t) / poll\<rceil>"
proof -
  have pos: "0 < \<lceil>(d - t) / poll\<rceil>" using assms(1,2) by simp
  show ?thesis
  proof (cases "d \<le> t'")
    case True
    then have "(d - t') / poll \<le> 0" using assms(1) by (simp add: divide_nonpos_pos)
    then have "\<lceil>(d - t') / poll\<rceil> \<le> 0" by simp
    then show ?thesis using pos by simp
  next
    case False
    then have "d - t' \<le> d - t - poll" using assms(3,4) by (auto simp: min_def split: if_splits)
    then have "(d - t') / poll \<le> (d - t - poll) / poll" using assms(1) by (intro divide_right_mono) simp_all
    also have "\<dots> = (d - t) / poll - 1" using assms(1) by (simp add: diff_divide_distrib)
    finally have "(d - t') / poll \<le> (d - t) / poll - 1" .
    then have "\<lceil>(d - t') / poll\<rceil> \<le> \<lceil>(d - t) / poll\<rceil> - 1" by linarith
    then show ?thesis using pos by simp
  qed
qed

lemma wait_loop_returns:
  assumes "0 < poll" and clock: "moving_clock ow"
  shows "\<exists>r w'. wait_loop ow (Some d) poll w = Some (r, w') \<and> (case r of Inl e \<Rightarrow> True | Inr x \<Rightarrow> ry_ready x \<or> d \<le> ow_clock ow w')"
proof (induction "nat \<lceil>(d - ow_clock ow w) / poll\<rceil>" arbitrary: w rule: less_induct)
  case less
  obtain a w1 where a: "ow_ask ow w = (a, w1)" by (cases "ow_ask ow w")
  have t1: "ow_clock ow w \<le> ow_clock ow w1" using clock a unfolding moving_clock_def by (metis snd_conv)
  show ?case
  proof (cases "\<exists>r. a = Inr r \<and> \<not> ry_ready r \<and> 0 < d - ow_clock ow w1")
    case True
    then obtain r where r: "a = Inr r" "\<not> ry_ready r" "0 < d - ow_clock ow w1" by blast
    let ?s = "min (pause poll r) (d - ow_clock ow w1)"
    have poll: "poll \<le> pause poll r" by (simp add: pause_def)
    have "ow_clock ow w1 + ?s \<le> ow_clock ow (ow_sleep ow ?s w1)"
      using clock r(3) poll assms(1) unfolding moving_clock_def by (metis less_eq_rat_def min_def order_trans)
    then have "nat \<lceil>(d - ow_clock ow (ow_sleep ow ?s w1)) / poll\<rceil> < nat \<lceil>(d - ow_clock ow w1) / poll\<rceil>"
      using pauses_shrink [OF assms(1) r(3) _ poll] by blast
    also have "\<dots> \<le> nat \<lceil>(d - ow_clock ow w) / poll\<rceil>"
      using t1 assms(1) by (intro nat_mono ceiling_mono divide_right_mono) simp_all
    finally show ?thesis using less [of "ow_sleep ow ?s w1"] a r by (subst wait_loop.simps) (simp add: Let_def)
  next
    case False
    then show ?thesis using a by (subst wait_loop.simps) (auto simp: Let_def split: sum.splits)
  qed
qed


lemma acquire_lock_returns:
  assumes "k \<le> j" and "d \<le> clock j"
  shows "\<exists>r. acquire_lock (Some d) clock free k = Some r"
  using assms(1)
proof (induction k rule: inc_induct)
  case base
  then show ?case using assms(2) by (subst acquire_lock.simps) simp
next
  case (step k)
  then show ?case by (subst acquire_lock.simps) simp
qed

lemma wait_for_coordinator_returns:
  assumes "k \<le> j" and "exited j \<noteq> None \<or> (case dial j of Inr u \<Rightarrow> True | Inl e \<Rightarrow> \<not> is_unavailable e \<and> \<not> is_version_mismatch e)"
  shows "\<exists>r. wait_for_coordinator dial exited k = Some r"
  using assms(1)
proof (induction k rule: inc_induct)
  case base
  then show ?case using assms(2) by (subst wait_for_coordinator.simps) (auto split: sum.splits option.splits)
next
  case (step k)
  then show ?case by (subst wait_for_coordinator.simps) (auto split: sum.splits option.splits)
qed

section \<open>A server that cannot be started\<close>

text \<open>
  The coordinator's session of a server whose start always fails, beside the clock: asking requests a warm-up, and while
  the client sleeps the warm-up runs and fails.
\<close>

definition failing_warmup :: "seconds \<Rightarrow> string \<Rightarrow> session \<Rightarrow> session" where
  "failing_warmup now reason sn =
     (if sn_warmup_in_progress sn then cancel_warmup_request (snd (ensure_initialized now now now True (LSP_ERROR reason) sn)) else sn)"

definition missing_server :: "string \<Rightarrow> (seconds \<times> session) outside" where
  "missing_server reason =
     \<lparr>ow_ask = (\<lambda>(t, sn). let sn' = snd (request_warmup t sn) in (Inr (readiness_payload t sn'), (t, sn'))),
      ow_clock = fst,
      ow_sleep = (\<lambda>s (t, sn). (t + s, failing_warmup (t + s) reason sn))\<rparr>"

definition never_started :: "session \<Rightarrow> bool" where
  "never_started sn \<longleftrightarrow> sn_client sn = None \<and> sn_state sn \<noteq> SV_READY"

lemma never_started_keeps:
  "never_started sn \<Longrightarrow> never_started (snd (request_warmup t sn))"
  "never_started sn \<Longrightarrow> never_started (failing_warmup t reason sn)"
  by (auto simp: never_started_def request_warmup_def failing_warmup_def cancel_warmup_request_def ensure_initialized_def
      close_if_idle_def mark_failure_def shutdown_locked_def Let_def split: option.splits)

lemma unbounded_wait:
  assumes "wait_loop ow deadline poll w = Some y"
  shows "ow = missing_server reason \<longrightarrow> deadline = None \<longrightarrow> never_started (snd w) \<longrightarrow> False"
proof (rule wait_loop.raw_induct [where P = "\<lambda>ow deadline poll w y. ow = missing_server reason \<longrightarrow> deadline = None \<longrightarrow> never_started (snd w) \<longrightarrow> False",
      OF _ assms], intro impI)
  fix f :: "(rat \<times> session) outside \<Rightarrow> rat option \<Rightarrow> rat \<Rightarrow> rat \<times> session \<Rightarrow> ((coord_error + readiness) \<times> rat \<times> session) option"
    and ow deadline poll w y
  assume IH: "\<And>ow deadline poll w y. f ow deadline poll w = Some y \<Longrightarrow>
      ow = missing_server reason \<longrightarrow> deadline = None \<longrightarrow> never_started (snd w) \<longrightarrow> False"
    and step: "(case ow_ask ow w of
        (Inl e, w1) \<Rightarrow> Some (Inl e, w1)
      | (Inr r, w1) \<Rightarrow>
          if ry_ready r then Some (Inr r, w1)
          else case deadline of
            None \<Rightarrow> f ow deadline poll (ow_sleep ow (pause poll r) w1)
          | Some d \<Rightarrow>
              let remaining = d - ow_clock ow w1 in
              if remaining \<le> 0 then Some (Inr r, w1)
              else f ow deadline poll (ow_sleep ow (min (pause poll r) remaining) w1)) = Some y"
    and ow: "ow = missing_server reason" and deadline: "deadline = None" and never: "never_started (snd w)"
  obtain t sn where w: "w = (t, sn)" by (cases w)
  let ?sn = "snd (request_warmup t sn)" and ?s = "pause poll (readiness_payload t (snd (request_warmup t sn)))"
  have n: "never_started ?sn" using never w never_started_keeps(1) by simp
  then have "\<not> ready ?sn" by (simp add: never_started_def ready_def)
  then have "f ow None poll (t + ?s, failing_warmup (t + ?s) reason ?sn) = Some y"
    using step by (simp add: ow deadline missing_server_def w Let_def readiness_payload_def)
  from IH [OF this] show False using never_started_keeps(2) [OF n] by (simp add: ow)
qed

text \<open>
  Without a time limit the wait for a server that cannot be started never ends: the coordinator keeps answering that the
  server is degraded, and the client keeps asking. Every semantic query goes through this wait with no limit
  (\<open>CoordinatorBackedLspSessionManager.open_client\<close>), so with a missing language server it hangs.
\<close>

theorem missing_server_is_waited_for_forever:
  "wait_until_server_ready (missing_server reason) None poll (now, new_session family attachment ttl) = None"
proof (cases "wait_loop (missing_server reason) None poll (now, new_session family attachment ttl)")
  case (Some y)
  have "never_started (new_session family attachment ttl)" by (simp add: never_started_def new_session_def)
  then show ?thesis using unbounded_wait [OF Some, of reason] by simp
qed (simp add: wait_until_server_ready_def)

lemma moving_clock_missing: "moving_clock (missing_server reason)"
  by (simp add: moving_clock_def missing_server_def Let_def split: prod.splits)


definition sample_config :: client_config where
  "sample_config = \<lparr>cc_endpoint = ''unix:///run/s.sock'', cc_protocol_version = ''1'', cc_build_version = ''b'', cc_instance_id = ''new''\<rparr>"

definition sample_project :: project_world where
  "sample_project = \<lparr>pw_stored = Some \<lparr>dr_identity = \<lparr>ci_project_root = ''/r'', ci_instance_id = ''old'', ci_protocol_version = ''1'',
       ci_build_version = ''a'', ci_state = CS_READY, ci_started_at = 0, ci_last_heartbeat = 0, ci_expires_at = 100\<rparr>,
     dr_endpoint = ''unix:///run/s.sock'', dr_pid = 7\<rparr>, pw_running = [7], pw_dials = 0, pw_terminated = [], pw_spawned = []\<rparr>"

definition late_coordinator :: "string \<Rightarrow> nat \<Rightarrow> coord_error + unit" where
  "late_coordinator endpoint k = (if k < 4 then Inl (UnavailableErr ''unable to connect'') else Inr ())"

lemma sample_election:
  "ensure_coordinator sample_config late_coordinator (\<lambda>k. None) (\<lambda>p. True) (\<lambda>k. True) 1 2 (Inr ()) id sample_project =
     Some (Inr (), sample_project\<lparr>pw_stored := None, pw_running := [], pw_dials := 5, pw_terminated := [7], pw_spawned := [''new'']\<rparr>)"
proof -
  have probe1: "probe_existing_coordinator sample_config late_coordinator 1 sample_project =
      (Inr (Some (UnavailableErr ''unable to connect'')), sample_project\<lparr>pw_dials := 2\<rparr>)"
    by code_simp
  have probe2: "probe_existing_coordinator sample_config late_coordinator 2 (id (sample_project\<lparr>pw_dials := 2\<rparr>)) =
      (Inr (Some (UnavailableErr ''unable to connect'')), sample_project\<lparr>pw_dials := 4\<rparr>)"
    by code_simp
  have replaced: "spawn_candidate sample_config (replace_or_cleanup_locked sample_config (\<lambda>p. True) (\<lambda>k. True) 2 (UnavailableErr ''unable to connect'')
      (sample_project\<lparr>pw_dials := 4\<rparr>)) =
      sample_project\<lparr>pw_stored := None, pw_running := [], pw_dials := 4, pw_terminated := [7], pw_spawned := [''new'']\<rparr>"
    by code_simp
  have wait: "wait_for_coordinator (late_coordinator (cc_endpoint sample_config)) (\<lambda>k. None) 4 = Some (Inr (), 5)"
    by (subst wait_for_coordinator.simps) (simp add: late_coordinator_def)
  show ?thesis by (simp add: ensure_coordinator_def probe1 probe2 replaced wait Let_def del: id_apply)
qed

lemma answering_coordinator_is_kept_witness:
  "\<exists>w'. ensure_coordinator sample_config late_coordinator (\<lambda>k. None) (\<lambda>p. True) (\<lambda>k. True) 1 2 (Inr ()) id sample_project = Some (Inr (), w') \<and>
     pw_terminated w' = [7] \<and> pw_spawned w' = [''new''] \<and>
     (\<exists>e1 w1. probe_existing_coordinator sample_config late_coordinator 1 sample_project = (Inr (Some e1), w1))"
proof -
  have "pw_terminated sample_project = []" "pw_spawned sample_project = []" "cc_instance_id sample_config = ''new''"
    by (simp_all add: sample_project_def sample_config_def)
  then show ?thesis using answering_coordinator_is_kept [OF sample_election] by (fastforce simp: sample_election)
qed

end
