(* ===== verification/Endpoint_Lifecycle.thy ===== *)
theory Endpoint_Lifecycle
  imports Prelude
begin

text \<open>
  The life of coordinator processes beside the two files of a project, its socket and its discovery file: \<open>listen_on_endpoint\<close> and
  \<open>cleanup_endpoint\<close> of \<open>runtime/endpoint.py\<close>, \<open>run\<close>, \<open>shutdown\<close> and the idle monitor of \<open>runtime/coordinator.py\<close>,
  \<open>remove_if_owned\<close> of \<open>runtime/discovery.py\<close>. Each step is one access to a file; processes interleave in any order.
  Closing a listener unlinks its path, as \<open>multiprocessing.connection.Listener\<close> does. The question is whether a project has
  one coordinator.
\<close>

section \<open>Processes and files\<close>

datatype life = L_STARTING | L_SERVING | L_CLOSED | L_RECORD_REMOVED | L_GONE

text \<open>\<open>ep_socket\<close> is the process that bound the socket the path names; \<open>ep_life\<close> knows the processes started so far.\<close>

record endpoint =
  ep_socket :: "string option"
  ep_record :: "string option"
  ep_life :: "string \<rightharpoonup> life"

definition no_coordinator :: endpoint where
  "no_coordinator = \<lparr>ep_socket = None, ep_record = None, ep_life = Map.empty\<rparr>"

definition set_life :: "string \<Rightarrow> life \<Rightarrow> endpoint \<Rightarrow> endpoint" where
  "set_life i l ep = ep\<lparr>ep_life := (ep_life ep)(i \<mapsto> l)\<rparr>"

definition answers :: "endpoint \<Rightarrow> bool" where
  "answers ep \<longleftrightarrow> (case ep_socket ep of None \<Rightarrow> False | Some j \<Rightarrow> ep_life ep j = Some L_SERVING)"

text \<open>A socket that answers is in use; one that does not is unlinked before binding.\<close>

definition listen_on_endpoint :: "string \<Rightarrow> endpoint \<Rightarrow> string + endpoint" where
  "listen_on_endpoint i ep =
     (if answers ep then Inl ''coordinator endpoint is already active''
      else Inr (set_life i L_SERVING (ep\<lparr>ep_socket := Some i\<rparr>)))"

definition close_listener :: "string \<Rightarrow> endpoint \<Rightarrow> endpoint" where
  "close_listener i ep = set_life i L_CLOSED (ep\<lparr>ep_socket := None\<rparr>)"

definition remove_record_if_owned :: "string \<Rightarrow> endpoint \<Rightarrow> endpoint" where
  "remove_record_if_owned i ep =
     set_life i L_RECORD_REMOVED (ep\<lparr>ep_record := (if ep_record ep = Some i then None else ep_record ep)\<rparr>)"

definition cleanup_endpoint :: "string \<Rightarrow> endpoint \<Rightarrow> endpoint" where
  "cleanup_endpoint i ep = set_life i L_GONE (ep\<lparr>ep_socket := None\<rparr>)"

text \<open>
  \<open>overlap\<close> tells whether a process may close or clean up while the path names the socket of another one; the code does
  not look.
\<close>

definition own_socket :: "string \<Rightarrow> endpoint \<Rightarrow> bool" where
  "own_socket i ep \<longleftrightarrow> ep_socket ep \<in> {None, Some i}"

inductive life_step :: "bool \<Rightarrow> endpoint \<Rightarrow> endpoint \<Rightarrow> bool" for overlap where
  spawned: "ep_life ep i = None \<Longrightarrow> life_step overlap ep (set_life i L_STARTING ep)"
| listens: "ep_life ep i = Some L_STARTING \<Longrightarrow> listen_on_endpoint i ep = Inr ep' \<Longrightarrow> life_step overlap ep ep'"
| refused: "ep_life ep i = Some L_STARTING \<Longrightarrow> listen_on_endpoint i ep = Inl e \<Longrightarrow> life_step overlap ep (set_life i L_GONE ep)"
| publishes: "ep_life ep i = Some L_SERVING \<Longrightarrow> life_step overlap ep (ep\<lparr>ep_record := Some i\<rparr>)"
| closes: "ep_life ep i = Some L_SERVING \<Longrightarrow> overlap \<or> own_socket i ep \<Longrightarrow> life_step overlap ep (close_listener i ep)"
| unpublishes: "ep_life ep i = Some L_CLOSED \<Longrightarrow> life_step overlap ep (remove_record_if_owned i ep)"
| cleans: "ep_life ep i = Some L_RECORD_REMOVED \<Longrightarrow> overlap \<or> own_socket i ep \<Longrightarrow> life_step overlap ep (cleanup_endpoint i ep)"
| killed: "ep_life ep i = Some l \<Longrightarrow> life_step overlap ep (set_life i L_GONE ep)"

inductive endpoint_reachable :: "bool \<Rightarrow> endpoint \<Rightarrow> bool" for overlap where
  fresh: "endpoint_reachable overlap no_coordinator"
| goes: "endpoint_reachable overlap ep \<Longrightarrow> life_step overlap ep ep' \<Longrightarrow> endpoint_reachable overlap ep'"

lemmas endpoint_ops =
  set_life_def listen_on_endpoint_def close_listener_def remove_record_if_owned_def cleanup_endpoint_def

section \<open>One coordinator, as long as nobody unlinks the socket of another\<close>

definition one_server :: "endpoint \<Rightarrow> bool" where
  "one_server ep \<longleftrightarrow> (\<forall>i. ep_life ep i = Some L_SERVING \<longrightarrow> ep_socket ep = Some i)"

lemma one_serverD: "one_server ep \<Longrightarrow> ep_life ep i = Some L_SERVING \<Longrightarrow> ep_socket ep = Some i"
  by (simp add: one_server_def)

lemma one_server_step: "life_step False ep ep' \<Longrightarrow> one_server ep \<Longrightarrow> one_server ep'"
proof (induction rule: life_step.induct)
  case (closes ep i)
  have "j = i" if "ep_life ep j = Some L_SERVING" for j
    using one_serverD [OF closes(3) closes(1)] one_serverD [OF closes(3) that] by simp
  then show ?case by (auto simp: one_server_def endpoint_ops)
next
  case (cleans ep i)
  have "ep_life ep j \<noteq> Some L_SERVING" for j
    using one_serverD [OF cleans(3), of j] cleans(1,2) by (auto simp: own_socket_def)
  then show ?case by (simp add: one_server_def endpoint_ops)
next
  case (listens ep i ep')
  have "ep_life ep j \<noteq> Some L_SERVING" for j
    using one_serverD [OF listens(3), of j] listens(2) by (auto simp: listen_on_endpoint_def answers_def split: if_splits)
  then show ?case using listens(2) by (auto simp: one_server_def endpoint_ops split: if_splits)
qed (simp_all add: one_server_def endpoint_ops)


section \<open>What the code allows\<close>

text \<open>The first coordinator goes idle and closes its listener; the second one starts before the first has cleaned up.\<close>

definition lives :: "(string \<times> life) list \<Rightarrow> string option \<Rightarrow> endpoint" where
  "lives ls socket = \<lparr>ep_socket = socket, ep_record = None, ep_life = map_of ls\<rparr>"

lemma lives_steps:
  "endpoint_reachable overlap (lives ls socket) \<Longrightarrow> map_of ls i = None \<Longrightarrow> endpoint_reachable overlap (lives ((i, L_STARTING) # ls) socket)"
  "endpoint_reachable overlap (lives ls socket) \<Longrightarrow> map_of ls i = Some L_STARTING \<Longrightarrow> \<not> answers (lives ls socket) \<Longrightarrow>
     endpoint_reachable overlap (lives ((i, L_SERVING) # ls) (Some i))"
  "endpoint_reachable True (lives ls socket) \<Longrightarrow> map_of ls i = Some L_SERVING \<Longrightarrow> endpoint_reachable True (lives ((i, L_CLOSED) # ls) None)"
  "endpoint_reachable overlap (lives ls socket) \<Longrightarrow> map_of ls i = Some L_CLOSED \<Longrightarrow>
     endpoint_reachable overlap (lives ((i, L_RECORD_REMOVED) # ls) socket)"
  "endpoint_reachable True (lives ls socket) \<Longrightarrow> map_of ls i = Some L_RECORD_REMOVED \<Longrightarrow> endpoint_reachable True (lives ((i, L_GONE) # ls) None)"
  using life_step.spawned [of "lives ls socket" i overlap] life_step.listens [of "lives ls socket" i _ overlap]
    life_step.closes [of "lives ls socket" i True] life_step.unpublishes [of "lives ls socket" i overlap]
    life_step.cleans [of "lives ls socket" i True]
  by (auto simp: lives_def endpoint_ops intro: endpoint_reachable.goes)

text \<open>
  The code lets a process that is going away unlink the socket of its successor, which then serves a path nobody can
  connect to; a third process finds no socket and serves beside it. A project can have two coordinators.
\<close>

theorem late_cleanup_makes_two_coordinators:
  "\<exists>ep. endpoint_reachable True ep \<and> ep_life ep ''second'' = Some L_SERVING \<and> ep_life ep ''third'' = Some L_SERVING \<and>
     ep_socket ep = Some ''third''"
proof -
  let ?ls = "[(''first'', L_RECORD_REMOVED), (''second'', L_SERVING), (''second'', L_STARTING), (''first'', L_CLOSED), (''first'', L_SERVING), (''first'', L_STARTING)]"
  have "endpoint_reachable True (lives [] None)" using endpoint_reachable.fresh [of True] by (simp add: lives_def no_coordinator_def)
  then have "endpoint_reachable True (lives [(''first'', L_STARTING)] None)" by (rule lives_steps(1)) simp
  then have "endpoint_reachable True (lives [(''first'', L_SERVING), (''first'', L_STARTING)] (Some ''first''))"
    by (rule lives_steps(2)) (simp_all add: answers_def lives_def)
  then have "endpoint_reachable True (lives [(''first'', L_CLOSED), (''first'', L_SERVING), (''first'', L_STARTING)] None)"
    by (rule lives_steps(3)) simp
  then have "endpoint_reachable True (lives [(''second'', L_STARTING), (''first'', L_CLOSED), (''first'', L_SERVING), (''first'', L_STARTING)] None)"
    by (rule lives_steps(1)) simp
  then have "endpoint_reachable True (lives [(''second'', L_SERVING), (''second'', L_STARTING), (''first'', L_CLOSED), (''first'', L_SERVING), (''first'', L_STARTING)] (Some ''second''))"
    by (rule lives_steps(2)) (simp_all add: answers_def lives_def)
  then have "endpoint_reachable True (lives ?ls (Some ''second''))" by (rule lives_steps(4)) simp
  then have "endpoint_reachable True (lives ((''first'', L_GONE) # ?ls) None)" by (rule lives_steps(5)) simp
  then have "endpoint_reachable True (lives ((''third'', L_STARTING) # (''first'', L_GONE) # ?ls) None)" by (rule lives_steps(1)) simp
  then have "endpoint_reachable True (lives ((''third'', L_SERVING) # (''third'', L_STARTING) # (''first'', L_GONE) # ?ls) (Some ''third''))"
    by (rule lives_steps(2)) (simp_all add: answers_def lives_def)
  then show ?thesis by (intro exI conjI) (assumption, simp_all add: lives_def)
qed


end
