(* ===== verification/Readonly_Registry.thy ===== *)
theory Readonly_Registry
  imports Providers Paths "HOL-Library.AList"
begin

text \<open>
  The repositories that are opened for reading only (\<open>ReadOnlyRepositoryRegistry\<close> in \<open>mcp/state.py\<close>). A repository is
  kept with a snapshot of what \<open>stat\<close> said of its files and directories, and it is used again as long as \<open>stat\<close> says
  the same. What the file system and the construction of a repository give at one moment is a \<open>moment\<close>.
\<close>

section \<open>Snapshots\<close>

record file_stat =
  sa_exists :: bool
  sa_is_dir :: "bool option"
  sa_size :: "int option"
  sa_mtime :: "int option"

record snapshot =
  ss_files :: "(string \<times> file_stat) list"
  ss_directories :: "(string \<times> file_stat) list"

text \<open>
  \<open>mo_stat root parts\<close> is whether the path is a directory, its size and its modification time, and \<open>None\<close> where \<open>stat\<close>
  raises; \<open>mo_root_of\<close> is \<open>Repository.root_candidate\<close>, \<open>mo_build\<close> the first repository of a new workspace.
\<close>

record moment =
  mo_root_of :: "string \<Rightarrow> string result"
  mo_build :: "string \<Rightarrow> repository result"
  mo_stat :: "string \<Rightarrow> string list \<Rightarrow> (bool \<times> int \<times> int) option"

definition stat_snapshot :: "(bool \<times> int \<times> int) option \<Rightarrow> file_stat" where
  "stat_snapshot s =
     (case s of
        None \<Rightarrow> \<lparr>sa_exists = False, sa_is_dir = None, sa_size = None, sa_mtime = None\<rparr>
      | Some (d, size_bytes, mtime) \<Rightarrow> \<lparr>sa_exists = True, sa_is_dir = Some d, sa_size = Some size_bytes, sa_mtime = Some mtime\<rparr>)"

definition strip_slashes :: "string \<Rightarrow> string" where
  "strip_slashes s = rev (dropWhile (\<lambda>c. c = CHR ''/'') (rev (dropWhile (\<lambda>c. c = CHR ''/'') s)))"

definition normalize_rel_path :: "string \<Rightarrow> string" where
  "normalize_rel_path p = strip_slashes (strip (replace_char CHR 0x5C CHR ''/'' p))"

text \<open>\<open>_to_os_rel_path\<close>: the components that \<open>Path\<close> keeps.\<close>

definition os_parts :: "string \<Rightarrow> string list" where
  "os_parts p = filter (\<lambda>c. c \<noteq> [] \<and> c \<noteq> ''.'') (split_on CHR ''/'' p)"

text \<open>\<open>posixpath.dirname\<close>.\<close>

definition posix_dirname :: "string \<Rightarrow> string" where
  "posix_dirname p =
     (let head = rev (dropWhile (\<lambda>c. c \<noteq> CHR ''/'') (rev p)) in
      if \<forall>c\<in>set head. c = CHR ''/'' then head else rev (dropWhile (\<lambda>c. c = CHR ''/'') (rev head)))"

lemma trailing_dropped: "\<exists>rest. s = rev (dropWhile P (rev s)) @ rest"
proof -
  have "rev (rev s) = rev (takeWhile P (rev s) @ dropWhile P (rev s))" by simp
  note this [unfolded rev_append rev_rev_ident]
  then show ?thesis ..
qed

lemma posix_dirname_prefix: "\<exists>rest. p = posix_dirname p @ rest"
proof -
  define before where "before = rev (dropWhile (\<lambda>c. c \<noteq> CHR ''/'') (rev p))"
  obtain r1 where one: "p = before @ r1" using trailing_dropped unfolding before_def by blast
  obtain r2 where two: "before = rev (dropWhile (\<lambda>c. c = CHR ''/'') (rev before)) @ r2" using trailing_dropped by blast
  have d: "posix_dirname p = (if \<forall>c\<in>set before. c = CHR ''/'' then before else rev (dropWhile (\<lambda>c. c = CHR ''/'') (rev before)))"
    unfolding posix_dirname_def before_def Let_def ..
  show ?thesis
  proof (cases "\<forall>c\<in>set before. c = CHR ''/''")
    case True
    then have "posix_dirname p = before" unfolding d by (rule if_P)
    then show ?thesis using one by metis
  next
    case False
    then have "posix_dirname p = rev (dropWhile (\<lambda>c. c = CHR ''/'') (rev before))" unfolding d by (rule if_not_P)
    then have "p = posix_dirname p @ (r2 @ r1)" using one two by (metis append_assoc)
    then show ?thesis ..
  qed
qed

lemma posix_dirname_shorter: "posix_dirname p \<noteq> p \<Longrightarrow> length (posix_dirname p) < length p"
proof -
  assume ne: "posix_dirname p \<noteq> p"
  obtain rest where r: "p = posix_dirname p @ rest" using posix_dirname_prefix by blast
  then have "rest \<noteq> []" using ne by auto
  then show ?thesis using arg_cong [OF r, of length] by simp
qed

function enclosing :: "string \<Rightarrow> string list" where
  "enclosing p =
     (if p = [] \<or> p = ''.'' then []
      else p # (if posix_dirname p = p then [] else enclosing (posix_dirname p)))"
  by pat_completeness auto
termination
  by (relation "measure length") (simp_all add: posix_dirname_shorter)

declare enclosing.simps [simp del]

definition parent_directories :: "string \<Rightarrow> string list" where
  "parent_directories p = [] # enclosing (posix_dirname (normalize_rel_path p))"

definition tracked_files :: "repository \<Rightarrow> string list" where
  "tracked_files rp = map (normalize_rel_path \<circ> fi_repository_rel_path) (get_files rp)"

definition tracked_directories :: "repository \<Rightarrow> string list" where
  "tracked_directories rp = map (normalize_rel_path \<circ> pv_root) (rp_providers rp) @ concat (map parent_directories (tracked_files rp))"

definition stat_at :: "moment \<Rightarrow> string \<Rightarrow> string \<Rightarrow> file_stat" where
  "stat_at m root p = stat_snapshot (mo_stat m root (os_parts p))"

definition capture_snapshot :: "moment \<Rightarrow> repository \<Rightarrow> snapshot" where
  "capture_snapshot m rp =
     \<lparr>ss_files = map (\<lambda>p. (p, stat_at m (rp_root rp) p)) (sorted_set (tracked_files rp)),
      ss_directories = map (\<lambda>p. (p, stat_at m (rp_root rp) p)) (sorted_set (tracked_directories rp))\<rparr>"

definition snapshot_is_clean :: "moment \<Rightarrow> string \<Rightarrow> snapshot \<Rightarrow> bool" where
  "snapshot_is_clean m root s \<longleftrightarrow>
     list_all (\<lambda>(p, expected). stat_at m root p = expected) (ss_files s) \<and>
     list_all (\<lambda>(p, expected). stat_at m root p = expected) (ss_directories s)"

section \<open>The registry\<close>

type_synonym read_only = "(string \<times> repository \<times> snapshot) list"

definition open_fresh :: "moment \<Rightarrow> string \<Rightarrow> read_only \<Rightarrow> (repository \<times> bool) result \<times> read_only" where
  "open_fresh m root ro =
     (case mo_build m root of
        Inl e \<Rightarrow> (Inl e, ro)
      | Inr rp \<Rightarrow> (Inr (rp, False), AList.update (rp_root rp) (rp, capture_snapshot m rp) ro))"

definition open_read_only :: "moment \<Rightarrow> string \<Rightarrow> read_only \<Rightarrow> (repository \<times> bool) result \<times> read_only" where
  "open_read_only m path ro =
     (case mo_root_of m path of
        Inl e \<Rightarrow> (Inl e, ro)
      | Inr root \<Rightarrow> (case map_of ro root of
          None \<Rightarrow> open_fresh m root ro
        | Some (rp, s) \<Rightarrow> if snapshot_is_clean m (rp_root rp) s then (Inr (rp, True), ro)
            else open_fresh m root (AList.delete root ro)))"

definition clear_read_only :: "read_only \<Rightarrow> read_only" where
  "clear_read_only ro = []"

datatype registry_call = OpenAt moment string | ClearAll

fun read_only_after :: "registry_call list \<Rightarrow> read_only" where
  "read_only_after [] = []"
| "read_only_after (OpenAt m path # calls) = snd (open_read_only m path (read_only_after calls))"
| "read_only_after (ClearAll # calls) = clear_read_only (read_only_after calls)"

section \<open>A repository that is used again\<close>

definition tracked :: "repository \<Rightarrow> string list" where
  "tracked rp = tracked_files rp @ tracked_directories rp"

definition looks_the_same :: "moment \<Rightarrow> moment \<Rightarrow> repository \<Rightarrow> bool" where
  "looks_the_same m m' rp \<longleftrightarrow> (\<forall>p\<in>set (tracked rp). stat_at m (rp_root rp) p = stat_at m' (rp_root rp) p)"

lemma clean_iff_same: "snapshot_is_clean m' (rp_root rp) (capture_snapshot m rp) \<longleftrightarrow> looks_the_same m' m rp"
  by (auto simp: snapshot_is_clean_def capture_snapshot_def looks_the_same_def tracked_def list_all_iff)

text \<open>The entry of a root: the moment it was built at is that of an earlier call.\<close>

definition entries_explained :: "registry_call list \<Rightarrow> read_only \<Rightarrow> bool" where
  "entries_explained calls ro \<longleftrightarrow>
     (\<forall>root rp s. map_of ro root = Some (rp, s) \<longrightarrow>
        rp_root rp = root \<and>
        (\<exists>m path r. OpenAt m path \<in> set calls \<and> mo_root_of m path = Inr r \<and> mo_build m r = Inr rp \<and> s = capture_snapshot m rp))"

lemma explained_more: "entries_explained calls ro \<Longrightarrow> entries_explained (c # calls) ro"
  unfolding entries_explained_def by (meson list.set_intros(2))

lemma explained_delete: "entries_explained calls ro \<Longrightarrow> entries_explained calls (AList.delete root ro)"
  by (simp add: entries_explained_def delete_conv')

lemma explained_fresh:
  assumes "entries_explained calls ro" and "OpenAt m path \<in> set calls" and "mo_root_of m path = Inr r"
  shows "entries_explained calls (snd (open_fresh m r ro))"
proof (cases "mo_build m r")
  case (Inr rp)
  then show ?thesis using assms by (fastforce simp: entries_explained_def open_fresh_def update_conv')
qed (use assms in \<open>simp add: open_fresh_def\<close>)

lemma entries_explained_after: "entries_explained calls (read_only_after calls)"
proof (induction calls rule: read_only_after.induct)
  case (2 m path calls)
  note ih = explained_more [OF 2, of "OpenAt m path"]
  show ?case
  proof (cases "mo_root_of m path")
    case (Inr r)
    have "entries_explained (OpenAt m path # calls) (snd (open_fresh m r ro))"
      if "entries_explained (OpenAt m path # calls) ro" for ro
      using explained_fresh [OF that _ Inr] by simp
    then show ?thesis using ih explained_delete [OF ih] Inr
      by (auto simp: open_read_only_def split: option.split)
  qed (use ih in \<open>simp add: open_read_only_def\<close>)
qed (simp_all add: entries_explained_def clear_read_only_def)


section \<open>A file that nothing tracks\<close>

text \<open>
  The sample repository, and the same with one more source in a directory \<open>lib\<close> that held none before: a new file changes the
  modification time of its own directory only.
\<close>

definition sample_moment :: "bool \<Rightarrow> moment" where
  "sample_moment created =
     \<lparr>mo_root_of = (\<lambda>path. Inr ''/r''),
      mo_build = (\<lambda>root. Inr (if created
        then sample_repository\<lparr>rp_providers := [sample_provider\<lparr>pv_files := pv_files sample_provider @ [sample_file_of ''lib/new.ts'' ''component:npm:a'']\<rparr>]\<rparr>
        else sample_repository)),
      mo_stat = (\<lambda>root parts.
        if parts = [''lib''] then Some (True, 64, if created then 2 else 1)
        else if parts = [''lib'', ''new.ts''] then (if created then Some (False, 10, 2) else None)
        else Some (length parts \<le> 2 \<and> parts \<noteq> [''run.sh''], 10, 0))\<rparr>"

definition listed_files :: "(repository \<times> bool) result \<Rightarrow> (string list \<times> bool) result" where
  "listed_files r = map_sum id (\<lambda>(rp, reused). (map fi_repository_rel_path (get_files rp), reused)) r"

text \<open>
  A source that is created in a directory without tracked files is not noticed: the repository opened before is used again
  and does not list it, although a repository built now would.
\<close>

theorem new_file_is_missed:
  "listed_files (fst (open_read_only (sample_moment True) ''/r'' (read_only_after [OpenAt (sample_moment False) ''/r'']))) =
     Inr ([''run.sh'', ''src/a/x.ts'', ''src/a/y.ts''], True) \<and>
   listed_files (fst (open_read_only (sample_moment True) ''/r'' (read_only_after []))) =
     Inr ([''lib/new.ts'', ''run.sh'', ''src/a/x.ts'', ''src/a/y.ts''], False)"
  by code_simp

section \<open>A concrete input\<close>


end
