(* ===== verification/Mcp_Tools.thy ===== *)
theory Mcp_Tools
  imports Workspace_Registry Coordinator Change_Set Symbol_Lookup Change_Impact
begin

text \<open>
  The tools of the MCP server (\<open>mcp/architecture_service.py\<close>, \<open>test_service.py\<close>, \<open>code_service.py\<close>, \<open>build_service.py\<close>,
  \<open>runner_service.py\<close>, \<open>action_service.py\<close>, \<open>quality_service.py\<close>, \<open>context_service.py\<close>), with their pages
  (\<open>mcp/pagination.py\<close>) and their messages about files (\<open>mcp/file_target_errors.py\<close>). A tool looks the repository up, asks
  the core and translates what it raises. Presenters, which turn the core's values into views, are left out: a tool answers
  with the core's value. The registry, the repositories and the answers of language servers, processes and linters are
  fields of the environment, by the root of the repository.
\<close>

section \<open>Pages\<close>

definition default_limit :: int where "default_limit = 50"

definition max_limit :: int where "max_limit = 200"

definition normalize_page :: "int option \<Rightarrow> int \<Rightarrow> (int \<times> int) mcp_result" where
  "normalize_page limit offset =
     (let n = (case limit of None \<Rightarrow> default_limit | Some l \<Rightarrow> l) in
      if n \<le> 0 then Inl (McpValidation ''limit must be > 0'')
      else if max_limit < n then Inl (McpValidation (''limit must be <= '' @ str_int max_limit))
      else if offset < 0 then Inl (McpValidation ''offset must be >= 0'')
      else Inr (n, offset))"

record 'a list_result =
  lr_items :: "'a list"
  lr_limit :: int
  lr_offset :: int
  lr_total :: int
  lr_truncated :: bool
  lr_next_offset :: "int option"

definition paginate :: "'a list \<Rightarrow> int option \<Rightarrow> int \<Rightarrow> 'a list_result mcp_result" where
  "paginate items limit offset =
     ebind (normalize_page limit offset) (\<lambda>(n, off).
       let item_count = int (length items); truncated = off + n < item_count in
       Inr \<lparr>lr_items = take (nat n) (drop (nat off) items), lr_limit = n, lr_offset = off, lr_total = item_count,
            lr_truncated = truncated, lr_next_offset = (if truncated then Some (off + n) else None)\<rparr>)"

section \<open>Messages about files\<close>

datatype entry_kind = NoEntry | PlainEntry | DirectoryEntry "string list"

text \<open>\<open>fw_look\<close> is what a path names, a directory with the names of the files in it.\<close>

record file_view =
  fw_resolve :: "string \<Rightarrow> string"
  fw_look :: "string \<Rightarrow> entry_kind"

text \<open>\<open>Path.parent\<close> of an absolute path without a trailing slash.\<close>

definition parent_directory :: "string \<Rightarrow> string" where
  "parent_directory p = (let q = rev (drop 1 (dropWhile (\<lambda>c. c \<noteq> CHR ''/'') (rev p))) in if q = [] then ''/'' else q)"

definition relative_label :: "string \<Rightarrow> string \<Rightarrow> string" where
  "relative_label base p = (if p = base then ''.'' else if base = ''/'' then drop 1 p else drop (length base + 1) p)"

definition same_directory_file_summary :: "file_view \<Rightarrow> string \<Rightarrow> string \<Rightarrow> string" where
  "same_directory_file_summary fw base dir =
     (if \<not> inside_path base dir then []
      else case fw_look fw dir of
        DirectoryEntry names \<Rightarrow>
          let siblings = take 8 (sort names) in
          if siblings = [] then []
          else '' Exact file siblings in '' @ quoted (relative_label base dir) @ '': '' @ join_with '', '' (map quoted siblings) @ ''.''
      | other \<Rightarrow> [])"

definition explain_file_target_error :: "file_view \<Rightarrow> string \<Rightarrow> string \<Rightarrow> string \<Rightarrow> string \<Rightarrow> string" where
  "explain_file_target_error fw base path message tool_name =
     (let normalized = removeprefix ''./'' (replace_char CHR 0x5C CHR ''/'' (strip path));
          candidate = fw_resolve fw (if normalized = [] then base else join_path base normalized) in
      if \<not> inside_path base candidate then message
      else case fw_look fw candidate of
        NoEntry \<Rightarrow> ''repository file not found: '' @ quoted normalized @ ''. '' @ quoted tool_name @
            '' requires an existing repository file target.'' @ same_directory_file_summary fw base (parent_directory candidate)
      | DirectoryEntry names \<Rightarrow> ''repository path '' @ quoted normalized @ '' is a directory, not a file. '' @ quoted tool_name @
            '' requires a repository file target.'' @ same_directory_file_summary fw base candidate
      | PlainEntry \<Rightarrow>
          if \<not> contains ''unknown repository file owner'' message then message
          else message @ ''. '' @ quoted tool_name @ '' currently supports only provider-owned files. '' @
            ''Files that exist in the repository but are not deterministically owned by a registered provider, '' @
            ''including unsupported plain-text or documentation artifacts, are not supported by this tool.'')"

section \<open>Guards\<close>

record 'q mcp_env =
  mp_registry :: workspace_registry
  mp_repository :: "string \<Rightarrow> repository"
  mp_code :: "string \<Rightarrow> code_environment"
  mp_capabilities :: "string \<Rightarrow> capability_answers"
  mp_machine :: machine
  mp_lint :: "provider \<Rightarrow> string \<Rightarrow> bool \<Rightarrow> 'q result"
  mp_format :: "provider \<Rightarrow> string \<Rightarrow> 'q result"
  mp_files :: file_view

definition with_repository :: "'q mcp_env \<Rightarrow> string \<Rightarrow> string \<Rightarrow> (string \<Rightarrow> 'a mcp_result) \<Rightarrow> 'a mcp_result" where
  "with_repository en w i k = ebind (registry_get_repository (mp_registry en) w i) k"

text \<open>\<open>except ValueError\<close> around a call of the core; other exceptions pass.\<close>

definition guarded :: "(string \<Rightarrow> mcp_error) \<Rightarrow> 'a result \<Rightarrow> 'a mcp_result" where
  "guarded translate r = (case r of Inr x \<Rightarrow> Inr x | Inl (ValueErr m) \<Rightarrow> Inl (translate m) | Inl e \<Rightarrow> Inl (McpRaised e))"

definition unguarded :: "'a result \<Rightarrow> 'a mcp_result" where
  "unguarded r = map_sum McpRaised id r"

text \<open>A tool that lists: the answer of the core, then the page.\<close>

definition paged :: "'q mcp_env \<Rightarrow> string \<Rightarrow> string \<Rightarrow> int option \<Rightarrow> int \<Rightarrow> (string \<Rightarrow> 'a list mcp_result) \<Rightarrow> 'a list_result mcp_result" where
  "paged en w i limit offset core = ebind (with_repository en w i core) (\<lambda>items. paginate items limit offset)"

text \<open>The message of a failed tool that was asked about one file.\<close>

definition about_file :: "'q mcp_env \<Rightarrow> string \<Rightarrow> string option \<Rightarrow> string \<Rightarrow> string \<Rightarrow> string" where
  "about_file en base path tool_name message =
     (case path of None \<Rightarrow> message | Some p \<Rightarrow> explain_file_target_error (mp_files en) base p message tool_name)"

section \<open>Architecture\<close>

definition tool_list_components :: "'q mcp_env \<Rightarrow> string \<Rightarrow> string \<Rightarrow> int option \<Rightarrow> int \<Rightarrow> component list_result mcp_result" where
  "tool_list_components en w i limit offset = paged en w i limit offset (\<lambda>base. Inr (get_components (mp_repository en base)))"

definition tool_list_aggregators :: "'q mcp_env \<Rightarrow> string \<Rightarrow> string \<Rightarrow> int option \<Rightarrow> int \<Rightarrow> aggregator list_result mcp_result" where
  "tool_list_aggregators en w i limit offset = paged en w i limit offset (\<lambda>base. Inr (get_aggregators (mp_repository en base)))"

definition tool_list_runners :: "'q mcp_env \<Rightarrow> string \<Rightarrow> string \<Rightarrow> int option \<Rightarrow> int \<Rightarrow> runner list_result mcp_result" where
  "tool_list_runners en w i limit offset = paged en w i limit offset (\<lambda>base. Inr (get_runners (mp_repository en base)))"

definition tool_list_package_managers :: "'q mcp_env \<Rightarrow> string \<Rightarrow> string \<Rightarrow> int option \<Rightarrow> int \<Rightarrow> package_manager list_result mcp_result" where
  "tool_list_package_managers en w i limit offset = paged en w i limit offset (\<lambda>base. Inr (get_package_managers (mp_repository en base)))"

definition tool_list_external_packages :: "'q mcp_env \<Rightarrow> string \<Rightarrow> string \<Rightarrow> int option \<Rightarrow> int \<Rightarrow> external_package list_result mcp_result" where
  "tool_list_external_packages en w i limit offset = paged en w i limit offset (\<lambda>base. Inr (get_external_packages (mp_repository en base)))"

definition tool_list_files :: "'q mcp_env \<Rightarrow> string \<Rightarrow> string \<Rightarrow> int option \<Rightarrow> int \<Rightarrow> file_info list_result mcp_result" where
  "tool_list_files en w i limit offset = paged en w i limit offset (\<lambda>base. Inr (get_files (mp_repository en base)))"

definition tool_component_dependencies ::
  "'q mcp_env \<Rightarrow> string \<Rightarrow> string \<Rightarrow> string \<Rightarrow> int option \<Rightarrow> int \<Rightarrow> dependency_ref list_result mcp_result" where
  "tool_component_dependencies en w i component_id limit offset =
     paged en w i limit offset (\<lambda>base. guarded McpNotFound (get_component_dependencies (mp_repository en base) component_id))"

definition tool_component_dependents ::
  "'q mcp_env \<Rightarrow> string \<Rightarrow> string \<Rightarrow> string \<Rightarrow> int option \<Rightarrow> int \<Rightarrow> string list_result mcp_result" where
  "tool_component_dependents en w i component_id limit offset =
     paged en w i limit offset (\<lambda>base. guarded McpNotFound (get_component_dependents (mp_repository en base) component_id))"

definition tool_dependency_edges ::
  "'q mcp_env \<Rightarrow> string \<Rightarrow> string \<Rightarrow> string option \<Rightarrow> int option \<Rightarrow> int \<Rightarrow> component_dependency_edge list_result mcp_result" where
  "tool_dependency_edges en w i component_id limit offset =
     paged en w i limit offset (\<lambda>base. guarded McpNotFound
       (case component_id of
          None \<Rightarrow> Inr (all_dependency_edges (mp_repository en base))
        | Some c \<Rightarrow> dependency_edges_of (mp_repository en base) c))"

section \<open>Tests\<close>

definition tool_list_tests :: "'q mcp_env \<Rightarrow> string \<Rightarrow> string \<Rightarrow> int option \<Rightarrow> int \<Rightarrow> discovered_test list_result mcp_result" where
  "tool_list_tests en w i limit offset = paged en w i limit offset (\<lambda>base. unguarded (get_discovered_tests (mp_repository en base)))"

definition tool_related_tests ::
  "'q mcp_env \<Rightarrow> string \<Rightarrow> string \<Rightarrow> string option \<Rightarrow> string option \<Rightarrow> int option \<Rightarrow> int \<Rightarrow> resolved_related_test list_result mcp_result" where
  "tool_related_tests en w i path owner_id limit offset =
     paged en w i limit offset (\<lambda>base. guarded (\<lambda>m. McpValidation (about_file en base path ''get_related_tests'' m))
       (ebind (mk_related_test_target path owner_id) (get_related_tests (mp_repository en base))))"

definition tool_describe_test :: "'q mcp_env \<Rightarrow> string \<Rightarrow> string \<Rightarrow> string \<Rightarrow> test_target_description mcp_result" where
  "tool_describe_test en w i test_id =
     with_repository en w i (\<lambda>base. guarded McpValidation (describe_test_target (mp_repository en base) test_id))"

definition tool_run_tests :: "'q mcp_env \<Rightarrow> string \<Rightarrow> string \<Rightarrow> string list \<Rightarrow> int \<Rightarrow> test_execution_result list mcp_result" where
  "tool_run_tests en w i test_ids timeout =
     with_repository en w i (\<lambda>base. guarded McpValidation (run_test_targets (mp_repository en base) test_ids timeout))"

section \<open>Code\<close>

definition tool_find_symbols ::
  "'q mcp_env \<Rightarrow> string \<Rightarrow> string \<Rightarrow> string \<Rightarrow> bool \<Rightarrow> int option \<Rightarrow> int \<Rightarrow> symbol_hit list_result mcp_result" where
  "tool_find_symbols en w i query case_sensitive limit offset =
     paged en w i (Some (case limit of None \<Rightarrow> 5 | Some l \<Rightarrow> l)) offset (\<lambda>base.
       guarded McpValidation (find_symbols (mp_code en base) (mp_repository en base) query case_sensitive))"

definition tool_file_symbols ::
  "'q mcp_env \<Rightarrow> string \<Rightarrow> string \<Rightarrow> string \<Rightarrow> string option \<Rightarrow> bool \<Rightarrow> int option \<Rightarrow> int \<Rightarrow> entity_info list_result mcp_result" where
  "tool_file_symbols en w i path query case_sensitive limit offset =
     paged en w i limit offset (\<lambda>base.
       if query \<noteq> None \<and> blank (the query) then Inl (McpValidation ''query must not be blank'')
       else guarded McpValidation (list_symbols_in_file (mp_code en base) (mp_repository en base) path query case_sensitive))"

definition tool_find_definition :: "'q mcp_env \<Rightarrow> string \<Rightarrow> string \<Rightarrow> lookup_target \<Rightarrow> int option \<Rightarrow> int \<Rightarrow> code_location list_result mcp_result" where
  "tool_find_definition en w i target limit offset =
     paged en w i limit offset (\<lambda>base. guarded McpValidation
       (ebind (validate_lookup_target target) (find_definition (mp_code en base) (mp_repository en base))))"

definition tool_find_references ::
  "'q mcp_env \<Rightarrow> string \<Rightarrow> string \<Rightarrow> bool \<Rightarrow> lookup_target \<Rightarrow> int option \<Rightarrow> int \<Rightarrow> code_location list_result mcp_result" where
  "tool_find_references en w i include_definition target limit offset =
     paged en w i limit offset (\<lambda>base. guarded McpValidation
       (ebind (validate_lookup_target target) (\<lambda>t. find_references (mp_code en base) (mp_repository en base) t include_definition)))"

section \<open>Builds, runners, actions and quality\<close>

definition tool_list_builds :: "'q mcp_env \<Rightarrow> string \<Rightarrow> string \<Rightarrow> int option \<Rightarrow> int \<Rightarrow> build_target_description list_result mcp_result" where
  "tool_list_builds en w i limit offset = paged en w i limit offset (\<lambda>base. unguarded (list_build_targets (mp_repository en base)))"

definition tool_describe_build :: "'q mcp_env \<Rightarrow> string \<Rightarrow> string \<Rightarrow> string \<Rightarrow> build_target_description mcp_result" where
  "tool_describe_build en w i action_id =
     with_repository en w i (\<lambda>base. guarded McpValidation (describe_build_target (mp_repository en base) action_id))"

definition tool_build_target :: "'q mcp_env \<Rightarrow> string \<Rightarrow> string \<Rightarrow> string \<Rightarrow> int \<Rightarrow> build_execution_result mcp_result" where
  "tool_build_target en w i action_id timeout =
     with_repository en w i (\<lambda>base. guarded McpValidation (build_target (mp_machine en) (mp_repository en base) action_id timeout))"

definition tool_build_project :: "'q mcp_env \<Rightarrow> string \<Rightarrow> string \<Rightarrow> int \<Rightarrow> build_project_result mcp_result" where
  "tool_build_project en w i timeout =
     with_repository en w i (\<lambda>base. guarded McpValidation (build_project (mp_machine en) (mp_repository en base) timeout))"

definition tool_describe_runner :: "'q mcp_env \<Rightarrow> string \<Rightarrow> string \<Rightarrow> string \<Rightarrow> int \<Rightarrow> int \<Rightarrow> runner_context mcp_result" where
  "tool_describe_runner en w i runner_id file_limit test_limit =
     with_repository en w i (\<lambda>base. guarded McpValidation (describe_runner (mp_repository en base) runner_id file_limit test_limit))"

definition tool_run_runner :: "'q mcp_env \<Rightarrow> string \<Rightarrow> string \<Rightarrow> string \<Rightarrow> int \<Rightarrow> runner_execution_result mcp_result" where
  "tool_run_runner en w i runner_id timeout =
     with_repository en w i (\<lambda>base. guarded McpValidation (run_runner (mp_machine en) (mp_repository en base) runner_id timeout))"

definition parse_action_kind :: "string \<Rightarrow> action_kind result" where
  "parse_action_kind v =
     (let n = lower (strip v) in
      if n = [] then Inl (ValueErr ''action_kinds must not contain empty values'')
      else of_option (ValueErr (''unsupported action kind: '' @ quoted v))
        (find (\<lambda>k. action_kind_value k = n) [AK_TEST_EXECUTION, AK_RUNNER_EXECUTION, AK_BUILD_EXECUTION]))"

definition parse_action_kinds :: "string list option \<Rightarrow> action_kind list result" where
  "parse_action_kinds kinds =
     (case kinds of
        None \<Rightarrow> Inr []
      | Some vs \<Rightarrow> ebind (mapE parse_action_kind vs) (\<lambda>ks.
          if distinct ks then Inr ks else Inl (ValueErr ''action_kinds must not contain duplicates'')))"

text \<open>The selectors of \<open>selected\<close> are the arguments of the tool; its kinds come from \<open>kinds\<close>.\<close>

definition tool_list_actions ::
  "'q mcp_env \<Rightarrow> string \<Rightarrow> string \<Rightarrow> action_query \<Rightarrow> string list option \<Rightarrow> int option \<Rightarrow> int \<Rightarrow> repository_action list_result mcp_result" where
  "tool_list_actions en w i selected kinds limit offset =
     paged en w i limit offset (\<lambda>base. guarded McpValidation
       (ebind (parse_action_kinds kinds) (\<lambda>ks.
        ebind (mk_action_query (selected\<lparr>aq_action_kinds := ks\<rparr>)) (get_actions (mp_repository en base)))))"

definition tool_quality_providers :: "'q mcp_env \<Rightarrow> string \<Rightarrow> string \<Rightarrow> string list mcp_result" where
  "tool_quality_providers en w i =
     with_repository en w i (\<lambda>base.
       Inr (map pv_id (filter (\<lambda>p. ROLE_QUALITY \<in> set (pv_implements p)) (get_providers_for_role (mp_repository en base) ROLE_QUALITY))))"

definition tool_lint_file :: "'q mcp_env \<Rightarrow> string \<Rightarrow> string \<Rightarrow> string \<Rightarrow> string \<Rightarrow> bool \<Rightarrow> 'q mcp_result" where
  "tool_lint_file en w i path provider_id is_fix =
     with_repository en w i (\<lambda>base. guarded McpValidation
       (ebind (quality_provider_for_file (mp_repository en base) path provider_id) (\<lambda>p. mp_lint en p path is_fix)))"

definition tool_format_file :: "'q mcp_env \<Rightarrow> string \<Rightarrow> string \<Rightarrow> string \<Rightarrow> string \<Rightarrow> 'q mcp_result" where
  "tool_format_file en w i path provider_id =
     with_repository en w i (\<lambda>base. guarded McpValidation
       (ebind (quality_provider_for_file (mp_repository en base) path provider_id) (\<lambda>p. mp_format en p path)))"

section \<open>Contexts and changes\<close>

text \<open>The arguments are checked before the repository is looked up; \<open>preview_checks\<close> are limits with their names.\<close>

definition preview_checks :: "(string \<Rightarrow> int \<Rightarrow> int result) \<Rightarrow> (string \<times> int) list \<Rightarrow> unit mcp_result" where
  "preview_checks validate limits = guarded McpValidation (ebind (mapE (\<lambda>(field_name, l). validate field_name l) limits) (\<lambda>_. Inr ()))"

definition tool_describe_components ::
  "'q mcp_env \<Rightarrow> string \<Rightarrow> string \<Rightarrow> string list \<Rightarrow> int \<Rightarrow> int \<Rightarrow> int \<Rightarrow> int \<Rightarrow> component_context list mcp_result" where
  "tool_describe_components en w i component_ids file_limit dependency_limit dependent_limit test_limit =
     ebind (guarded McpValidation (validate_exact_batch component_ids ''component_ids'')) (\<lambda>_.
     ebind (preview_checks validate_preview_limit
       [(''file_preview_limit'', file_limit), (''dependency_preview_limit'', dependency_limit),
        (''dependent_preview_limit'', dependent_limit), (''test_preview_limit'', test_limit)]) (\<lambda>_.
     with_repository en w i (\<lambda>base. guarded McpNotFound
       (describe_components (mp_repository en base) component_ids file_limit dependency_limit dependent_limit test_limit))))"

definition tool_describe_files ::
  "'q mcp_env \<Rightarrow> string \<Rightarrow> string \<Rightarrow> string list \<Rightarrow> int \<Rightarrow> int \<Rightarrow> file_context list mcp_result" where
  "tool_describe_files en w i paths symbol_limit test_limit =
     ebind (guarded McpValidation (validate_exact_batch paths ''repository_rel_paths'')) (\<lambda>_.
     ebind (preview_checks validate_preview_limit [(''symbol_preview_limit'', symbol_limit), (''test_preview_limit'', test_limit)]) (\<lambda>_.
     with_repository en w i (\<lambda>base.
       guarded (\<lambda>m. McpNotFound (about_file en base (case paths of [p] \<Rightarrow> Some p | ps \<Rightarrow> None) ''describe_files'' m))
         (describe_files (mp_code en base) (mp_repository en base) paths symbol_limit test_limit True True None SEMANTIC))))"

definition tool_symbol_context :: "'q mcp_env \<Rightarrow> string \<Rightarrow> string \<Rightarrow> string \<Rightarrow> int \<Rightarrow> int \<Rightarrow> symbol_context mcp_result" where
  "tool_symbol_context en w i symbol_id reference_limit test_limit =
     ebind (preview_checks validate_preview_limit [(''reference_preview_limit'', reference_limit), (''test_preview_limit'', test_limit)]) (\<lambda>_.
     with_repository en w i (\<lambda>base. guarded McpNotFound
       (describe_symbol_context (mp_code en base) (mp_repository en base) symbol_id reference_limit test_limit)))"

definition tool_analyze_change ::
  "'q mcp_env \<Rightarrow> string \<Rightarrow> string \<Rightarrow> change_target \<Rightarrow> int \<Rightarrow> int \<Rightarrow> int \<Rightarrow> int \<Rightarrow> change_impact mcp_result" where
  "tool_analyze_change en w i target reference_limit dependent_limit test_limit runner_limit =
     ebind (preview_checks validate_change_preview_limit
       [(''reference_preview_limit'', reference_limit), (''dependent_preview_limit'', dependent_limit),
        (''test_preview_limit'', test_limit), (''runner_preview_limit'', runner_limit)]) (\<lambda>_.
     with_repository en w i (\<lambda>base.
       guarded (\<lambda>m. McpValidation (about_file en base (ct_repository_rel_path target) ''analyze_change'' m))
         (ebind (mk_change_target target) (\<lambda>t.
            analyze_change (mp_code en base) (mp_repository en base) t reference_limit dependent_limit test_limit runner_limit True True SEMANTIC))))"

text \<open>The owner of a symbol is that of its context, with the limits that the method has by default.\<close>

definition owner_of_symbol :: "'q mcp_env \<Rightarrow> string \<Rightarrow> string \<Rightarrow> owned_node_info result" where
  "owner_of_symbol en base symbol_id =
     ebind (describe_symbol_context (mp_code en base) (mp_repository en base) symbol_id 20 10) (\<lambda>c. Inr (yx_owner c))"

definition tool_change_set :: "'q mcp_env \<Rightarrow> string \<Rightarrow> string \<Rightarrow> change_target \<Rightarrow> change_set mcp_result" where
  "tool_change_set en w i target =
     with_repository en w i (\<lambda>base.
       guarded (\<lambda>m. McpValidation (about_file en base (ct_repository_rel_path target) ''get_minimum_verified_change_set'' m))
         (ebind (mk_change_target target) (get_minimum_verified_change_set (owner_of_symbol en base) (mp_repository en base))))"

definition tool_truth_coverage :: "'q mcp_env \<Rightarrow> string \<Rightarrow> string \<Rightarrow> truth_summary mcp_result" where
  "tool_truth_coverage en w i =
     with_repository en w i (\<lambda>base. unguarded (repository_truth_coverage (mp_capabilities en base) i (mp_repository en base)))"

section \<open>Workspaces\<close>

definition tool_list_workspaces :: "'q mcp_env \<Rightarrow> int option \<Rightarrow> int \<Rightarrow> mcp_workspace list_result mcp_result" where
  "tool_list_workspaces en limit offset = paginate (list_workspaces (mp_registry en)) limit offset"

definition tool_workspace_repositories :: "'q mcp_env \<Rightarrow> string \<Rightarrow> int option \<Rightarrow> int \<Rightarrow> (string \<times> string) list_result mcp_result" where
  "tool_workspace_repositories en w limit offset =
     ebind (get_workspace (mp_registry en) w) (\<lambda>ws. paginate (wk_repositories ws) limit offset)"

section \<open>A client that reads on\<close>

text \<open>
  A client that asks for the page at \<open>offset\<close> and goes on with \<open>next_offset\<close> as long as there is one; \<open>None\<close> is a client
  that never ends.
\<close>

partial_function (option) collect_pages :: "(int \<Rightarrow> 'a list_result mcp_result) \<Rightarrow> int \<Rightarrow> 'a list mcp_result option" where
  "collect_pages fetch offset =
     (case fetch offset of
        Inl e \<Rightarrow> Some (Inl e)
      | Inr p \<Rightarrow> (case lr_next_offset p of
          None \<Rightarrow> Some (Inr (lr_items p))
        | Some n \<Rightarrow> Option.bind (collect_pages fetch n) (\<lambda>r. Some (map_sum id (\<lambda>rest. lr_items p @ rest) r))))"

definition valid_limit :: "int option \<Rightarrow> bool" where
  "valid_limit limit \<longleftrightarrow> (case limit of None \<Rightarrow> True | Some l \<Rightarrow> 1 \<le> l \<and> l \<le> max_limit)"

lemma normalize_page_valid:
  assumes "valid_limit limit"
  obtains n where "0 < n" and "\<And>offset. 0 \<le> offset \<Longrightarrow> normalize_page limit offset = Inr (n, offset)"
  using assms that [of "case limit of None \<Rightarrow> default_limit | Some l \<Rightarrow> l"]
  by (cases limit) (simp_all add: valid_limit_def normalize_page_def default_limit_def max_limit_def)

lemma collect_from:
  assumes n: "0 < n" and page: "\<And>offset. 0 \<le> offset \<Longrightarrow> normalize_page limit offset = Inr (n, offset)" and fetch: "fetch = paginate items limit"
  shows "collect_pages fetch (int k) = Some (Inr (drop k items))"
proof (induction "length items - k" arbitrary: k rule: less_induct)
  case less
  define m where "m = nat n"
  have m: "0 < m" "n = int m" using n by (simp_all add: m_def)
  have p: "normalize_page limit (int k) = Inr (n, int k)" by (simp add: page)
  show ?case
  proof (cases "k + m < length items")
    case True
    then have "collect_pages fetch (int (k + m)) = Some (Inr (drop (k + m) items))" using m by (intro less) simp
    moreover have "take m (drop k items) @ drop (k + m) items = drop k items"
      by (metis add.commute append_take_drop_id drop_drop)
    ultimately show ?thesis using True m p
      by (subst collect_pages.simps) (simp add: fetch paginate_def Let_def flip: of_nat_add)
  next
    case False
    then show ?thesis using m p by (subst collect_pages.simps) (simp add: fetch paginate_def Let_def)
  qed
qed

text \<open>What a listing tool owes its client: each page is cut from one answer, after the limit the tool settles on.\<close>

locale paged_answer =
  fixes fetch :: "int option \<Rightarrow> int \<Rightarrow> 'a list_result mcp_result"
    and answer :: "'a list mcp_result"
    and settle :: "int option \<Rightarrow> int option"
  assumes fetch_page: "fetch limit offset = ebind answer (\<lambda>items. paginate items (settle limit) offset)"
    and settle_valid: "valid_limit limit \<Longrightarrow> valid_limit (settle limit)"
begin

lemma pages_make_answer:
  assumes "valid_limit limit"
  shows "collect_pages (fetch limit) 0 = Some answer"
proof (cases answer)
  case (Inl e)
  then show ?thesis by (subst collect_pages.simps) (simp add: fetch_page)
next
  case (Inr items)
  obtain n where "0 < n" and "\<And>offset. 0 \<le> offset \<Longrightarrow> normalize_page (settle limit) offset = Inr (n, offset)"
    using normalize_page_valid [OF settle_valid [OF assms]] by blast
  then show ?thesis using collect_from [of n "settle limit" "fetch limit" items 0] Inr by (simp add: fetch_page fun_eq_iff)
qed

lemma page_size:
  assumes "fetch limit offset = Inr p"
  shows "int (length (lr_items p)) \<le> max_limit \<and> lr_total p = (case answer of Inl e \<Rightarrow> 0 | Inr items \<Rightarrow> int (length items))"
proof -
  obtain items where items: "answer = Inr items" using assms by (auto simp: fetch_page ebind_Inr_iff)
  show ?thesis using assms
    by (auto simp: fetch_page items paginate_def normalize_page_def max_limit_def default_limit_def Let_def split: if_splits option.splits)
qed

end

text \<open>The interface holds for every tool that lists; the answer of each is the core's, with its errors translated.\<close>

definition five_by_default :: "int option \<Rightarrow> int option" where
  "five_by_default limit = Some (case limit of None \<Rightarrow> 5 | Some l \<Rightarrow> l)"

lemma five_by_default_valid: "valid_limit limit \<Longrightarrow> valid_limit (five_by_default limit)"
  by (cases limit) (simp_all add: valid_limit_def five_by_default_def max_limit_def)

lemmas paging = paged_answer_def paged_def five_by_default_valid

interpretation files: paged_answer "tool_list_files en w i" "with_repository en w i (\<lambda>base. Inr (get_files (mp_repository en base)))" id
  for en :: "'q mcp_env" and w i
  by (simp add: paging tool_list_files_def)

interpretation dependencies: paged_answer "tool_component_dependencies en w i component_id"
    "with_repository en w i (\<lambda>base. guarded McpNotFound (get_component_dependencies (mp_repository en base) component_id))" id
  for en :: "'q mcp_env" and w i component_id
  by (simp add: paging tool_component_dependencies_def)

interpretation related_tests: paged_answer "tool_related_tests en w i path owner_id"
    "with_repository en w i (\<lambda>base. guarded (\<lambda>m. McpValidation (about_file en base path ''get_related_tests'' m))
       (ebind (mk_related_test_target path owner_id) (get_related_tests (mp_repository en base))))" id
  for en :: "'q mcp_env" and w i path owner_id
  by (simp add: paging tool_related_tests_def)

interpretation symbols: paged_answer "tool_find_symbols en w i query case_sensitive"
    "with_repository en w i (\<lambda>base. guarded McpValidation (find_symbols (mp_code en base) (mp_repository en base) query case_sensitive))"
    five_by_default
  for en :: "'q mcp_env" and w i query case_sensitive
  by (simp add: paging tool_find_symbols_def) (simp add: five_by_default_def)

interpretation references: paged_answer "tool_find_references en w i include_definition target"
    "with_repository en w i (\<lambda>base. guarded McpValidation
       (ebind (validate_lookup_target target) (\<lambda>t. find_references (mp_code en base) (mp_repository en base) t include_definition)))" id
  for en :: "'q mcp_env" and w i include_definition target
  by (simp add: paging tool_find_references_def)

interpretation actions: paged_answer "tool_list_actions en w i selected kinds"
    "with_repository en w i (\<lambda>base. guarded McpValidation
       (ebind (parse_action_kinds kinds) (\<lambda>ks. ebind (mk_action_query (selected\<lparr>aq_action_kinds := ks\<rparr>)) (get_actions (mp_repository en base)))))" id
  for en :: "'q mcp_env" and w i selected kinds
  by (simp add: paging tool_list_actions_def)

text \<open>
  C38. A client that follows the pages of a tool ends, and has then exactly the answer of the core for the repository the ids
  name, each item once and in its order, whatever valid limit it chose; if the core fails, it has the translated error.
\<close>

theorem pages_make_the_answer:
  assumes "valid_limit limit"
  shows "collect_pages (tool_list_files en w i limit) 0 =
      Some (with_repository en w i (\<lambda>base. Inr (get_files (mp_repository en base)))) \<and>
    collect_pages (tool_component_dependencies en w i component_id limit) 0 =
      Some (with_repository en w i (\<lambda>base. guarded McpNotFound (get_component_dependencies (mp_repository en base) component_id))) \<and>
    collect_pages (tool_related_tests en w i path owner_id limit) 0 =
      Some (with_repository en w i (\<lambda>base. guarded (\<lambda>m. McpValidation (about_file en base path ''get_related_tests'' m))
        (ebind (mk_related_test_target path owner_id) (get_related_tests (mp_repository en base))))) \<and>
    collect_pages (tool_find_symbols en w i query case_sensitive limit) 0 =
      Some (with_repository en w i (\<lambda>base. guarded McpValidation
        (find_symbols (mp_code en base) (mp_repository en base) query case_sensitive))) \<and>
    collect_pages (tool_find_references en w i include_definition target limit) 0 =
      Some (with_repository en w i (\<lambda>base. guarded McpValidation
        (ebind (validate_lookup_target target) (\<lambda>t. find_references (mp_code en base) (mp_repository en base) t include_definition)))) \<and>
    collect_pages (tool_list_actions en w i selected kinds limit) 0 =
      Some (with_repository en w i (\<lambda>base. guarded McpValidation
        (ebind (parse_action_kinds kinds) (\<lambda>ks.
          ebind (mk_action_query (selected\<lparr>aq_action_kinds := ks\<rparr>)) (get_actions (mp_repository en base))))))"
  by (intro conjI files.pages_make_answer dependencies.pages_make_answer related_tests.pages_make_answer
      symbols.pages_make_answer references.pages_make_answer actions.pages_make_answer assms)

section \<open>What a tool raises\<close>

definition translated :: "'a mcp_result \<Rightarrow> bool" where
  "translated r \<longleftrightarrow> (\<forall>m. r \<noteq> Inl (McpRaised (ValueErr m)))"

named_theorems translation

lemma translated_Inr [translation]: "translated (Inr x)"
  by (simp add: translated_def)

lemma translated_McpValidation [translation]: "translated (Inl (McpValidation m))"
  by (simp add: translated_def)

lemma translated_ebind [translation]: "translated m \<Longrightarrow> (\<And>x. translated (k x)) \<Longrightarrow> translated (ebind m k)"
  by (cases m) (auto simp: translated_def)

lemma translated_guarded [translation]:
  "translated (guarded McpValidation r)" "translated (guarded McpNotFound r)"
  "translated (guarded (\<lambda>m. McpValidation (f m)) r)" "translated (guarded (\<lambda>m. McpNotFound (f m)) r)"
  by (auto simp: guarded_def translated_def split: sum.split err.split)

lemma translated_paginate [translation]: "translated (paginate items limit offset)"
  by (auto simp: paginate_def normalize_page_def translated_def Let_def split: if_splits)

lemma translated_lookup: "translated (registry_get_repository rg w i)"
  by (auto simp: registry_get_repository_def get_workspace_def translated_def ebind_Inl_iff split: sum.splits err.splits)

lemma translated_with_repository [translation]: "(\<And>base. translated (k base)) \<Longrightarrow> translated (with_repository en w i k)"
  unfolding with_repository_def by (intro translated_ebind translated_lookup)

lemma translated_preview_checks [translation]: "translated (preview_checks validate limits)"
  unfolding preview_checks_def by (rule translated_guarded)

lemma translated_paged [translation]: "(\<And>base. translated (core base)) \<Longrightarrow> translated (paged en w i limit offset core)"
  unfolding paged_def by (intro translation)

text \<open>
  The tools never let a \<open>ValueError\<close> of the core through: it arrives as an MCP error that says whether something was not
  found or not valid. (The tools that list tests and builds and the coverage of a repository have no guard.)
\<close>

theorem tools_translate_errors:
  "translated (tool_component_dependencies en w i component_id limit offset) \<and>
   translated (tool_component_dependents en w i component_id limit offset) \<and>
   translated (tool_dependency_edges en w i some_component limit offset) \<and>
   translated (tool_related_tests en w i path owner_id limit offset) \<and>
   translated (tool_describe_test en w i test_id) \<and>
   translated (tool_run_tests en w i test_ids timeout) \<and>
   translated (tool_find_symbols en w i query case_sensitive limit offset) \<and>
   translated (tool_file_symbols en w i p some_query case_sensitive limit offset) \<and>
   translated (tool_find_definition en w i target limit offset) \<and>
   translated (tool_find_references en w i include_definition target limit offset) \<and>
   translated (tool_describe_build en w i action_id) \<and>
   translated (tool_build_target en w i action_id timeout) \<and>
   translated (tool_build_project en w i timeout) \<and>
   translated (tool_describe_runner en w i runner_id a b) \<and>
   translated (tool_run_runner en w i runner_id timeout) \<and>
   translated (tool_list_actions en w i selected kinds limit offset) \<and>
   translated (tool_lint_file en w i p provider_id is_fix) \<and>
   translated (tool_format_file en w i p provider_id) \<and>
   translated (tool_describe_components en w i component_ids a b c d) \<and>
   translated (tool_describe_files en w i paths a b) \<and>
   translated (tool_symbol_context en w i symbol_id a b) \<and>
   translated (tool_analyze_change en w i change a b c d) \<and>
   translated (tool_change_set en w i change)"
  unfolding tool_component_dependencies_def tool_component_dependents_def tool_dependency_edges_def tool_related_tests_def
    tool_describe_test_def tool_run_tests_def tool_find_symbols_def tool_file_symbols_def tool_find_definition_def
    tool_find_references_def tool_describe_build_def tool_build_target_def tool_build_project_def tool_describe_runner_def
    tool_run_runner_def tool_list_actions_def tool_lint_file_def tool_format_file_def tool_describe_components_def
    tool_describe_files_def tool_symbol_context_def tool_analyze_change_def tool_change_set_def
  by (intro conjI translation) (auto intro!: translation)

section \<open>Concrete inputs\<close>

definition sample_env :: "string mcp_env" where
  "sample_env =
     \<lparr>mp_registry = snd (registry_open_workspace Inr (\<lambda>r. True) ''npm'' ''/r'' empty_registry),
      mp_repository = (\<lambda>base. sample_repository), mp_code = (\<lambda>base p. sample_answers),
      mp_capabilities = (\<lambda>base. sample_capability_answers), mp_machine = sample_machine,
      mp_lint = (\<lambda>p path is_fix. Inr path), mp_format = (\<lambda>p path. Inr path),
      mp_files = \<lparr>fw_resolve = id, fw_look = (\<lambda>p. if p = ''/r/src/a/x.ts'' then PlainEntry else if p = ''/r/src/a'' then DirectoryEntry [''y.ts'', ''x.ts''] else NoEntry)\<rparr>\<rparr>"

definition listed_paths :: "file_info list mcp_result \<Rightarrow> string list mcp_result" where
  "listed_paths r = map_sum id (map fi_repository_rel_path) r"

lemma pages_make_the_answer_witness:
  "map_option listed_paths (collect_pages (tool_list_files sample_env ''workspace:r'' ''repo:r'' (Some 2)) 0) =
     Some (Inr [''run.sh'', ''src/a/x.ts'', ''src/a/y.ts''])"
proof -
  have "collect_pages (tool_list_files sample_env ''workspace:r'' ''repo:r'' (Some 2)) 0 =
      Some (with_repository sample_env ''workspace:r'' ''repo:r'' (\<lambda>base. Inr (get_files (mp_repository sample_env base))))"
    by (rule conjunct1 [OF pages_make_the_answer]) (simp add: valid_limit_def max_limit_def)
  moreover have "listed_paths (with_repository sample_env ''workspace:r'' ''repo:r'' (\<lambda>base. Inr (get_files (mp_repository sample_env base)))) =
      Inr [''run.sh'', ''src/a/x.ts'', ''src/a/y.ts'']"
    by code_simp
  ultimately show ?thesis by simp
qed

end
