(* ===== verification/Change_Set_Views.thy ===== *)
theory Change_Set_Views
  imports Change_Set
begin

text \<open>
  What a client is shown of a minimum verified change set (\<open>ChangeImpactPresenter\<close> in \<open>mcp/presenter_context.py\<close>,
  \<open>compact_provenance_views\<close> in \<open>mcp/presenter_common.py\<close>, the views of \<open>mcp/models.py\<close>): one view per item and a compact
  summary with a command line for each. Enumerations stand for their string values.
\<close>

section \<open>Command lines\<close>

record command_summary =
  cv_argv_preview :: "string list"
  cv_total_arg_count :: nat
  cv_truncated :: bool
  cv_cwd :: "string option"

definition command_summary_view :: "string list \<Rightarrow> string option \<Rightarrow> command_summary" where
  "command_summary_view argv cwd =
     \<lparr>cv_argv_preview = take 8 argv, cv_total_arg_count = length argv, cv_truncated = 8 < length argv, cv_cwd = cwd\<rparr>"

text \<open>\<open>shlex.quote\<close>.\<close>

definition safe_char :: "char \<Rightarrow> bool" where
  "safe_char c \<longleftrightarrow> (CHR ''a'' \<le> c \<and> c \<le> CHR ''z'') \<or> (CHR ''A'' \<le> c \<and> c \<le> CHR ''Z'') \<or> (CHR ''0'' \<le> c \<and> c \<le> CHR ''9'') \<or>
     c \<in> set ''_@%+=:,./-''"

definition single_quote :: char where "single_quote = CHR 0x27"

definition double_quote :: char where "double_quote = CHR 0x22"

definition escape_char :: "char \<Rightarrow> string" where
  "escape_char c = (if c = single_quote then [single_quote, double_quote, single_quote, double_quote, single_quote] else [c])"

definition shlex_quote :: "string \<Rightarrow> string" where
  "shlex_quote s =
     (if s = [] then [single_quote, single_quote]
      else if list_all safe_char s then s
      else [single_quote] @ concat (map escape_char s) @ [single_quote])"

definition command_line :: "command_summary \<Rightarrow> string" where
  "command_line c =
     (let rendered = join_with '' '' (map shlex_quote (cv_argv_preview c));
          rendered = (if cv_truncated c \<and> length (cv_argv_preview c) < cv_total_arg_count c then rendered @ '' ...'' else rendered) in
      case cv_cwd c of
        None \<Rightarrow> rendered
      | Some dir \<Rightarrow> if dir = [] then rendered else ''cd '' @ shlex_quote dir @ '' && '' @ rendered)"

section \<open>Views\<close>

definition compact_provenance :: "provenance \<Rightarrow> provenance" where
  "compact_provenance p = map (\<lambda>e. e\<lparr>pe_evidence_paths := take 5 (pe_evidence_paths e)\<rparr>) (take 3 p)"

definition evidence_edge_view :: "evidence_edge \<Rightarrow> evidence_edge" where
  "evidence_edge_view e = e\<lparr>me_provenance := compact_provenance (me_provenance e)\<rparr>"

record inclusion =
  in_reason :: string
  in_confidence_mode :: confidence_mode
  in_proof_edges :: "evidence_edge list"
  in_provenance :: provenance

record test_view = inclusion +
  tv_test_id :: string
  tv_name :: string
  tv_framework :: test_framework
  tv_test_file_count :: nat
  tv_test_files_preview :: "string list"
  tv_command :: command_summary
  tv_is_authoritative :: bool
  tv_warning :: "string option"

record action_view = inclusion +
  av_action_id :: string
  av_name :: string
  av_provider_id :: string
  av_target_id :: string
  av_target_kind :: action_target_kind
  av_owner_ids :: "string list"
  av_proof_facets :: "action_proof_facet list"
  av_invocation :: command_summary
  av_dry_run_supported :: bool

text \<open>Builds and runner actions have one view; a runner action has no owners, facets or dry run.\<close>

definition test_target_view :: "mv_test \<Rightarrow> test_view" where
  "test_target_view i =
     \<lparr>in_reason = mv_inclusion_reason i, in_confidence_mode = mv_inclusion_confidence_mode i,
      in_proof_edges = map evidence_edge_view (mv_proof_edges i), in_provenance = compact_provenance (mv_provenance i),
      tv_test_id = gn_id (tt_test (mv_target i)), tv_name = gn_name (tt_test (mv_target i)), tv_framework = td_framework (tt_test (mv_target i)),
      tv_test_file_count = length (td_test_files (tt_test (mv_target i))),
      tv_test_files_preview = take 5 (td_test_files (tt_test (mv_target i))),
      tv_command = command_summary_view (tt_argv (mv_target i)) (tt_cwd (mv_target i)),
      tv_is_authoritative = tt_is_authoritative (mv_target i), tv_warning = tt_warning (mv_target i)\<rparr>"

definition build_view :: "mv_build \<Rightarrow> action_view" where
  "build_view i =
     \<lparr>in_reason = mv_inclusion_reason i, in_confidence_mode = mv_inclusion_confidence_mode i,
      in_proof_edges = map evidence_edge_view (mv_proof_edges i), in_provenance = compact_provenance (mv_provenance i),
      av_action_id = bt_action_id (mv_target i), av_name = bt_name (mv_target i), av_provider_id = bt_provider_id (mv_target i),
      av_target_id = bt_target_id (mv_target i), av_target_kind = bt_target_kind (mv_target i), av_owner_ids = bt_owner_ids (mv_target i),
      av_proof_facets = bt_proof_facets (mv_target i),
      av_invocation = command_summary_view (iv_argv (bt_invocation (mv_target i))) (iv_cwd (bt_invocation (mv_target i))),
      av_dry_run_supported = bt_dry_run_supported (mv_target i)\<rparr>"

definition runner_view :: "mv_runner \<Rightarrow> action_view" where
  "runner_view i =
     \<lparr>in_reason = mv_inclusion_reason i, in_confidence_mode = mv_inclusion_confidence_mode i,
      in_proof_edges = map evidence_edge_view (mv_proof_edges i), in_provenance = compact_provenance (mv_provenance i),
      av_action_id = ra_id (mv_target i), av_name = ra_name (mv_target i), av_provider_id = ra_provider_id (mv_target i),
      av_target_id = ra_target_id (mv_target i), av_target_kind = ra_target_kind (mv_target i), av_owner_ids = [], av_proof_facets = [],
      av_invocation = command_summary_view (iv_argv (ra_invocation (mv_target i))) (iv_cwd (ra_invocation (mv_target i))),
      av_dry_run_supported = False\<rparr>"

definition quality_view :: "quality_operation \<Rightarrow> quality_operation" where
  "quality_view q = q\<lparr>qo_proof_edges := map evidence_edge_view (qo_proof_edges q), qo_provenance := compact_provenance (qo_provenance q)\<rparr>"

definition excluded_view :: "excluded_item \<Rightarrow> excluded_item" where
  "excluded_view x = x\<lparr>ex_provenance := compact_provenance (ex_provenance x)\<rparr>"

section \<open>The compact summary\<close>

record compact_item =
  ci_item_kind :: item_kind
  ci_item_id :: string
  ci_summary :: string

record compact_summary =
  sm_required_count :: nat
  sm_required :: "compact_item list"
  sm_hygiene_count :: nat
  sm_hygiene :: "compact_item list"
  sm_exclusion_count :: nat
  sm_exclusions :: "compact_item list"

definition compact_test_item :: "test_view \<Rightarrow> compact_item" where
  "compact_test_item t = \<lparr>ci_item_kind = MI_TEST_TARGET, ci_item_id = tv_test_id t, ci_summary = command_line (tv_command t)\<rparr>"

definition build_proof_facet_suffix :: "action_proof_facet list \<Rightarrow> string" where
  "build_proof_facet_suffix facets =
     join_with '', '' ((if TYPESCRIPT_TYPECHECK \<in> set facets then [''TypeScript typecheck''] else []) @
       (if FRONTEND_BUNDLE_BUILD \<in> set facets then [''frontend bundle build''] else []))"

definition compact_build_item :: "action_view \<Rightarrow> compact_item" where
  "compact_build_item b =
     (let summary = command_line (av_invocation b); suffix = build_proof_facet_suffix (av_proof_facets b) in
      \<lparr>ci_item_kind = MI_BUILD_TARGET, ci_item_id = av_action_id b,
       ci_summary = (if suffix = [] then summary else summary @ '' ('' @ suffix @ '')'')\<rparr>)"

definition compact_runner_item :: "action_view \<Rightarrow> compact_item" where
  "compact_runner_item r = \<lparr>ci_item_kind = MI_RUNNER_ACTION, ci_item_id = av_action_id r, ci_summary = command_line (av_invocation r)\<rparr>"

definition compact_quality_item :: "quality_operation \<Rightarrow> compact_item" where
  "compact_quality_item q =
     \<lparr>ci_item_kind = MI_QUALITY_OPERATION, ci_item_id = qo_id q,
      ci_summary = qo_mcp_tool_name q @ '' '' @
        (if length (qo_repository_rel_paths q) = 1 then hd (qo_repository_rel_paths q) else str_nat (length (qo_repository_rel_paths q)) @ '' files'')\<rparr>"

text \<open>A lint of one file is not emphasised when the npm provider builds.\<close>

definition emphasized :: "action_view list \<Rightarrow> quality_operation \<Rightarrow> bool" where
  "emphasized builds q \<longleftrightarrow>
     \<not> (qo_provider_id q \<in> set (map av_provider_id builds) \<and> qo_provider_id q = ''npm'' \<and> qo_operation q = QK_LINT \<and>
        length (qo_repository_rel_paths q) = 1)"

definition compact_summary_view ::
  "test_view list \<Rightarrow> action_view list \<Rightarrow> action_view list \<Rightarrow> quality_operation list \<Rightarrow> quality_operation list \<Rightarrow> excluded_item list \<Rightarrow> compact_summary" where
  "compact_summary_view tests builds runners validation hygiene excluded =
     (let required = map compact_test_item tests @ map compact_build_item builds @ map compact_runner_item runners @
            map compact_quality_item (filter (emphasized builds) validation);
          optional = map compact_quality_item hygiene;
          exclusions = map (\<lambda>x. \<lparr>ci_item_kind = ex_item_kind x, ci_item_id = ex_item_id x, ci_summary = ex_reason x\<rparr>) excluded in
      \<lparr>sm_required_count = length required, sm_required = required, sm_hygiene_count = length optional, sm_hygiene = optional,
       sm_exclusion_count = length exclusions, sm_exclusions = exclusions\<rparr>)"

record change_set_view =
  vw_compact_summary :: compact_summary
  vw_target_kind :: string
  vw_owner :: owned_node_info
  vw_primary_component :: "component option"
  vw_tests :: "test_view list"
  vw_build_targets :: "action_view list"
  vw_runner_actions :: "action_view list"
  vw_validation :: "quality_operation list"
  vw_hygiene :: "quality_operation list"
  vw_excluded_items :: "excluded_item list"
  vw_provenance :: provenance

definition view_change_set :: "change_set \<Rightarrow> change_set_view" where
  "view_change_set c =
     (let tests = map test_target_view (cs_tests c); builds = map build_view (cs_build_targets c); runners = map runner_view (cs_runner_actions c);
          validation = map quality_view (cs_quality_validation_operations c); hygiene = map quality_view (cs_quality_hygiene_operations c);
          excluded = map excluded_view (cs_excluded_items c) in
      \<lparr>vw_compact_summary = compact_summary_view tests builds runners validation hygiene excluded,
       vw_target_kind = cs_target_kind c, vw_owner = cs_owner c, vw_primary_component = cs_primary_component c,
       vw_tests = tests, vw_build_targets = builds, vw_runner_actions = runners, vw_validation = validation, vw_hygiene = hygiene,
       vw_excluded_items = excluded, vw_provenance = compact_provenance (cs_provenance c)\<rparr>)"

section \<open>Command lines can be run\<close>

text \<open>
  How a POSIX shell splits a line into words, for the characters that \<open>shlex.quote\<close> leaves a meaning: blanks between words
  and the two kinds of quotes. The last argument is the word under way.
\<close>

fun plain_words :: "string \<Rightarrow> string option \<Rightarrow> string list"
  and single_quoted :: "string \<Rightarrow> string \<Rightarrow> string list"
  and double_quoted :: "string \<Rightarrow> string \<Rightarrow> string list" where
  "plain_words [] w = (case w of None \<Rightarrow> [] | Some v \<Rightarrow> [v])"
| "plain_words (c # s) w =
     (let v = (case w of None \<Rightarrow> [] | Some v \<Rightarrow> v) in
      if c = CHR '' '' then (case w of None \<Rightarrow> plain_words s None | Some v \<Rightarrow> v # plain_words s None)
      else if c = single_quote then single_quoted s v
      else if c = double_quote then double_quoted s v
      else plain_words s (Some (v @ [c])))"
| "single_quoted [] v = [v]"
| "single_quoted (c # s) v = (if c = single_quote then plain_words s (Some v) else single_quoted s (v @ [c]))"
| "double_quoted [] v = [v]"
| "double_quoted (c # s) v = (if c = double_quote then plain_words s (Some v) else double_quoted s (v @ [c]))"

definition shell_words :: "string \<Rightarrow> string list" where
  "shell_words line = plain_words line None"

lemma safe_plain: "safe_char c \<Longrightarrow> c \<noteq> CHR '' '' \<and> c \<noteq> single_quote \<and> c \<noteq> double_quote"
  by (auto simp: safe_char_def single_quote_def double_quote_def less_eq_char_def)

lemma plain_words_safe: "list_all safe_char s \<Longrightarrow> plain_words (s @ rest) (Some v) = plain_words rest (Some (v @ s))"
  by (induction s arbitrary: v) (simp_all add: safe_plain)

lemma single_quoted_escaped:
  "single_quoted (concat (map escape_char s) @ single_quote # rest) v = plain_words rest (Some (v @ s))"
proof (induction s arbitrary: v)
  case (Cons c s)
  then show ?case by (simp add: escape_char_def) (simp add: single_quote_def double_quote_def)
qed simp

lemma plain_words_quoted: "plain_words (shlex_quote a @ rest) None = plain_words rest (Some a)"
proof (cases "a = [] \<or> \<not> list_all safe_char a")
  case True
  then show ?thesis using single_quoted_escaped [of a rest "[]"]
    by (auto simp: shlex_quote_def) (simp_all add: single_quote_def double_quote_def)
next
  case False
  then obtain c s where a: "a = c # s" "safe_char c" "list_all safe_char s" by (cases a) auto
  then show ?thesis using plain_words_safe [of s rest "[c]"] by (simp add: shlex_quote_def safe_plain)
qed

lemma plain_words_joined: "plain_words (join_with '' '' (map shlex_quote argv)) None = argv"
proof (induction argv rule: induct_list012)
  case (2 a)
  then show ?case using plain_words_quoted [of a "[]"] by simp
next
  case (3 a b argv)
  then show ?case using plain_words_quoted [of a "'' '' @ join_with '' '' (map shlex_quote (b # argv))"] by simp
qed simp

text \<open>
  A command line that is shown in full is the command: a shell splits it into exactly the arguments of the invocation, with
  a change into its directory before it if it has one, whatever characters the arguments hold.
\<close>

theorem command_line_round_trip:
  assumes "length argv \<le> 8"
  shows "shell_words (command_line (command_summary_view argv cwd)) =
    (case cwd of None \<Rightarrow> argv | Some dir \<Rightarrow> if dir = [] then argv else [''cd'', dir, ''&&''] @ argv)"
proof -
  have line: "command_line (command_summary_view argv None) = join_with '' '' (map shlex_quote argv)"
    using assms by (simp add: command_line_def command_summary_view_def)
  show ?thesis
  proof (cases "cwd = None \<or> cwd = Some []")
    case True
    then show ?thesis using assms plain_words_joined by (auto simp: shell_words_def command_line_def command_summary_view_def)
  next
    case False
    then obtain dir where dir: "cwd = Some dir" "dir \<noteq> []" by auto
    have l: "command_line (command_summary_view argv cwd) = ''cd '' @ shlex_quote dir @ '' && '' @ join_with '' '' (map shlex_quote argv)"
      using assms dir by (simp add: command_line_def command_summary_view_def)
    show ?thesis unfolding l shell_words_def
      using plain_words_joined plain_words_quoted [of dir "'' && '' @ join_with '' '' (map shlex_quote argv)"] dir
      by (simp add: single_quote_def double_quote_def)
  qed
qed

lemma command_line_round_trip_witness:
  "shell_words (command_line (command_summary_view [''npm'', ''run'', ''it is'' @ [single_quote]] (Some ''a b''))) =
     [''cd'', ''a b'', ''&&'', ''npm'', ''run'', ''it is'' @ [single_quote]]"
  using command_line_round_trip [of "[''npm'', ''run'', ''it is'' @ [single_quote]]" "Some ''a b''"] by simp

end
