(* ===== verification/Agent_Tools.thy ===== *)
theory Agent_Tools
  imports Mcp_Tools Readonly_Registry Change_Set_Views
begin

text \<open>
  The tools an agent asks about the files it is going to edit (\<open>SuitMcpService\<close> in \<open>mcp/service.py\<close>): what to run, what is
  not proven, whether an action is available, the check of the paths before, the batch of targets and the retries while a
  language server warms up. A repository is opened through the read-only registry.
\<close>

section \<open>Paths\<close>

definition validate_repository_rel_paths :: "string \<Rightarrow> string list \<Rightarrow> string list mcp_result" where
  "validate_repository_rel_paths field_name paths =
     ebind (check (paths \<noteq> []) (McpValidation (field_name @ '' must not be empty''))) (\<lambda>_.
     ebind (check ([] \<notin> set (map strip paths)) (McpValidation (field_name @ '' must not contain empty values''))) (\<lambda>_.
     ebind (check (distinct (map strip paths)) (McpValidation (field_name @ '' must not contain duplicates''))) (\<lambda>_.
       Inr (map strip paths))))"

definition root_for_prevalidation :: "moment \<Rightarrow> string \<Rightarrow> string option mcp_result" where
  "root_for_prevalidation m path =
     (case mo_root_of m path of
        Inr r \<Rightarrow> Inr (Some r)
      | Inl (ValueErr msg) \<Rightarrow>
          if contains ''does not exist'' msg \<or> contains ''is not a directory'' msg then Inl (McpValidation msg) else Inr None
      | Inl e \<Rightarrow> Inl (McpRaised e))"

text \<open>An entry that is neither a directory nor absent is taken to be a file.\<close>

definition prevalidate_target :: "file_view \<Rightarrow> string \<Rightarrow> string \<Rightarrow> string \<Rightarrow> unit mcp_result" where
  "prevalidate_target fw base tool_name path =
     (let normalized = removeprefix ''./'' (replace_char CHR 0x5C CHR ''/'' (strip path));
          candidate = fw_resolve fw (if normalized = [] then base else join_path base normalized) in
      if \<not> inside_path base candidate
      then Inl (McpValidation (''repository file target must stay within repository root: '' @ quoted normalized))
      else if fw_look fw candidate = PlainEntry then Inr ()
      else Inl (McpValidation (explain_file_target_error fw base normalized ''unknown repository file owner'' tool_name)))"

definition prevalidate_targets :: "moment \<Rightarrow> file_view \<Rightarrow> string \<Rightarrow> string \<Rightarrow> string \<Rightarrow> string list \<Rightarrow> string list mcp_result" where
  "prevalidate_targets m fw tool_name field_name repository_path paths =
     ebind (validate_repository_rel_paths field_name paths) (\<lambda>normalized.
     ebind (root_for_prevalidation m repository_path) (\<lambda>r. case r of
       None \<Rightarrow> Inr normalized
     | Some base \<Rightarrow> ebind (mapE (prevalidate_target fw base tool_name) normalized) (\<lambda>_. Inr normalized)))"

section \<open>The repository behind a tool\<close>

definition read_only_error :: "mcp_error \<Rightarrow> mcp_error" where
  "read_only_error e =
     (case e of
        McpRaised (ValueErr m) \<Rightarrow>
          if contains ''No registered providers matched'' m \<or> contains ''unsupported repository'' m then McpUnsupported m else McpValidation m
      | other \<Rightarrow> other)"

definition with_read_only ::
  "moment \<Rightarrow> string \<Rightarrow> (repository \<Rightarrow> 'a mcp_result) \<Rightarrow> read_only \<Rightarrow> 'a mcp_result \<times> read_only" where
  "with_read_only m repository_path callback ro =
     (case open_read_only m repository_path ro of
        (Inl e, ro') \<Rightarrow> (Inl (read_only_error (McpRaised e)), ro')
      | (Inr (rp, reused), ro') \<Rightarrow> (map_sum read_only_error id (callback rp), ro'))"

section \<open>What to run\<close>

record agent_env =
  ae_moment :: moment
  ae_files :: file_view
  ae_code :: "string \<Rightarrow> code_environment"

definition target_of_file :: "string \<Rightarrow> change_target" where
  "target_of_file path = \<lparr>ct_symbol_id = None, ct_repository_rel_path = Some path, ct_owner_id = None\<rparr>"

definition context_owner :: "code_environment \<Rightarrow> repository \<Rightarrow> string \<Rightarrow> owned_node_info result" where
  "context_owner code rp symbol_id = ebind (describe_symbol_context code rp symbol_id 20 10) (\<lambda>c. Inr (yx_owner c))"

definition file_change_set :: "agent_env \<Rightarrow> repository \<Rightarrow> string \<Rightarrow> change_set result" where
  "file_change_set ae rp path =
     ebind (mk_change_target (target_of_file path)) (get_minimum_verified_change_set (context_owner (ae_code ae (rp_root rp)) rp) rp)"

type_synonym batch_target = "string \<times> change_set_view"

definition minimum_verified_target :: "agent_env \<Rightarrow> string \<Rightarrow> repository \<Rightarrow> string \<Rightarrow> batch_target mcp_result" where
  "minimum_verified_target ae tool_name rp path =
     ebind (guarded (\<lambda>m. McpValidation (explain_file_target_error (ae_files ae) (rp_root rp) path m tool_name)) (file_change_set ae rp path))
       (\<lambda>c. Inr (path, view_change_set c))"

fun dedupe_by :: "('a \<Rightarrow> 'k) \<Rightarrow> 'k list \<Rightarrow> 'a list \<Rightarrow> 'a list" where
  "dedupe_by key seen [] = []"
| "dedupe_by key seen (x # xs) = (if key x \<in> set seen then dedupe_by key seen xs else x # dedupe_by key (key x # seen) xs)"

definition dedupe_views :: "('a \<Rightarrow> 'k) \<Rightarrow> 'a list \<Rightarrow> 'a list" where
  "dedupe_views key xs = dedupe_by key [] xs"

text \<open>The tests that an exclusion says are replaced by builds, all of them in the batch.\<close>

definition replaced_tests :: "action_view list \<Rightarrow> excluded_item list \<Rightarrow> string list" where
  "replaced_tests builds excluded =
     map ex_item_id (filter (\<lambda>x. ex_reason_code x = DEPENDENT_TEST_REPLACED_BY_NARROWER_BUILD \<and> ex_replaced_by_ids x \<noteq> [] \<and>
       set (ex_replaced_by_ids x) \<subseteq> set (map av_action_id builds)) excluded)"

definition narrow_batch_tests :: "test_view list \<Rightarrow> action_view list \<Rightarrow> excluded_item list \<Rightarrow> test_view list" where
  "narrow_batch_tests tests builds excluded = filter (\<lambda>t. tv_test_id t \<notin> set (replaced_tests builds excluded)) tests"

definition batch_reason_codes :: "exclusion_reason list" where
  "batch_reason_codes =
     [DEPENDENT_TEST_REPLACED_BY_NARROWER_BUILD, REPOSITORY_BUILD_REPLACED_BY_NARROWER_BUILD, NO_DETERMINISTIC_TEST_TARGETS_AVAILABLE,
      NO_DETERMINISTIC_VALIDATION_SURFACE_FOR_ARTIFACT_MEMBER, NO_DETERMINISTIC_VALIDATION_SURFACES_FOR_PROVIDER_OWNED_ARTIFACT,
      NO_NARROWER_DIRECT_VALIDATION_SURFACE_FOR_FILE_TARGET]"

definition filter_batch_exclusions :: "excluded_item list \<Rightarrow> excluded_item list" where
  "filter_batch_exclusions excluded = filter (\<lambda>x. ex_reason_code x \<in> set batch_reason_codes) excluded"

definition item_key :: "compact_item \<Rightarrow> item_kind \<times> string" where
  "item_key i = (ci_item_kind i, ci_item_id i)"

text \<open>From each target in turn, the first required item that none before it has reserved.\<close>

fun reserve_items :: "(item_kind \<times> string) list \<Rightarrow> compact_item list list \<Rightarrow> compact_item list" where
  "reserve_items seen [] = []"
| "reserve_items seen (items # rest) =
     (case find (\<lambda>i. item_key i \<notin> set seen) items of
        None \<Rightarrow> reserve_items seen rest
      | Some i \<Rightarrow> i # reserve_items (item_key i # seen) rest)"

definition batch_compact_summary :: "batch_target list \<Rightarrow> compact_summary \<Rightarrow> compact_summary" where
  "batch_compact_summary targets base =
     (let reserved = reserve_items [] (map (\<lambda>(p, v). sm_required (vw_compact_summary v)) targets) in
      base\<lparr>sm_required := reserved @ filter (\<lambda>i. item_key i \<notin> item_key ` set reserved) (sm_required base)\<rparr>)"

record batch_change_set =
  bw_compact_summary :: compact_summary
  bw_target_count :: nat
  bw_targets :: "batch_target list"
  bw_owner_ids :: "string list"
  bw_tests :: "test_view list"
  bw_build_targets :: "action_view list"
  bw_runner_actions :: "action_view list"
  bw_validation :: "quality_operation list"
  bw_hygiene :: "quality_operation list"
  bw_excluded_items :: "excluded_item list"
  bw_provenance :: provenance

definition all_of :: "(change_set_view \<Rightarrow> 'a list) \<Rightarrow> batch_target list \<Rightarrow> 'a list" where
  "all_of part targets = concat (map (part \<circ> snd) targets)"

definition batch_of_targets :: "batch_target list \<Rightarrow> batch_change_set" where
  "batch_of_targets targets =
     (let all_tests = dedupe_views tv_test_id (all_of vw_tests targets);
          builds = dedupe_views av_action_id (all_of vw_build_targets targets);
          runners = dedupe_views av_action_id (all_of vw_runner_actions targets);
          validation = dedupe_views qo_id (all_of vw_validation targets);
          hygiene = dedupe_views qo_id (all_of vw_hygiene targets);
          every_exclusion = dedupe_views (\<lambda>x. (ex_item_kind x, ex_item_id x, ex_reason_code x)) (all_of vw_excluded_items targets);
          tests = narrow_batch_tests all_tests builds every_exclusion;
          excluded = filter_batch_exclusions every_exclusion in
      \<lparr>bw_compact_summary = batch_compact_summary targets (compact_summary_view tests builds runners validation hygiene excluded),
       bw_target_count = length targets, bw_targets = targets,
       bw_owner_ids = sorted_set (map (\<lambda>(p, v). oi_id (vw_owner v)) targets),
       bw_tests = tests, bw_build_targets = builds, bw_runner_actions = runners, bw_validation = validation, bw_hygiene = hygiene,
       bw_excluded_items = excluded, bw_provenance = dedupe_views id (all_of vw_provenance targets)\<rparr>)"

definition what_should_i_run :: "agent_env \<Rightarrow> string \<Rightarrow> string list \<Rightarrow> read_only \<Rightarrow> batch_change_set mcp_result \<times> read_only" where
  "what_should_i_run ae repository_path paths ro =
     (case prevalidate_targets (ae_moment ae) (ae_files ae) ''what_should_i_run'' ''repository_rel_paths'' repository_path paths of
        Inl e \<Rightarrow> (Inl e, ro)
      | Inr normalized \<Rightarrow> with_read_only (ae_moment ae) repository_path (\<lambda>rp.
          ebind (mapE (minimum_verified_target ae ''what_should_i_run'' rp) normalized) (\<lambda>targets. Inr (batch_of_targets targets))) ro)"

definition change_set_by_path :: "agent_env \<Rightarrow> string \<Rightarrow> change_target \<Rightarrow> read_only \<Rightarrow> change_set_view mcp_result \<times> read_only" where
  "change_set_by_path ae repository_path target ro =
     (let tool = ''get_minimum_verified_change_set_by_path'' in
      case (case ct_repository_rel_path target of
              None \<Rightarrow> Inr None
            | Some p \<Rightarrow> ebind (prevalidate_targets (ae_moment ae) (ae_files ae) tool ''repository_rel_path'' repository_path [p])
                (\<lambda>ps. Inr (Some (hd ps)))) of
        Inl e \<Rightarrow> (Inl e, ro)
      | Inr path \<Rightarrow> with_read_only (ae_moment ae) repository_path (\<lambda>rp.
          ebind (guarded (\<lambda>m. McpValidation (case path of None \<Rightarrow> m | Some p \<Rightarrow> explain_file_target_error (ae_files ae) (rp_root rp) p m tool))
            (ebind (mk_change_target (target\<lparr>ct_repository_rel_path := path\<rparr>))
              (get_minimum_verified_change_set (context_owner (ae_code ae (rp_root rp)) rp) rp)))
            (\<lambda>c. Inr (view_change_set c))) ro)"

section \<open>What is not proven\<close>

definition artifact_member_context :: "repository \<Rightarrow> string \<Rightarrow> (string \<times> string) option result" where
  "artifact_member_context rp path =
     (let normalized = quality_path path in
      case get_file_owner rp normalized of
        Inl (ValueErr m) \<Rightarrow> Inr None
      | Inl e \<Rightarrow> Inl e
      | Inr w \<Rightarrow> Inr
          (if oi_kind (fo_owner w) \<noteq> ''component'' then None
           else case find (\<lambda>c. gn_id c = oi_id (fo_owner w)) (get_components rp) of
             None \<Rightarrow> None
           | Some c \<Rightarrow>
               if \<exists>base\<in>set (co_source_roots c). under_path normalized base then None
               else let matching = filter (under_path normalized) (co_artifact_paths c) in
                 if matching = [] then None
                 else let base = longest matching in
                   Some (gn_id c, if base \<noteq> normalized \<and> CHR ''/'' \<in> set normalized then parent_path normalized else base)))"

definition is_frontend_path :: "string \<Rightarrow> bool" where
  "is_frontend_path path \<longleftrightarrow>
     list_ex (endswith (lower (replace_char CHR 0x5C CHR ''/'' path)))
       [''.tsx'', ''.jsx'', ''.ts'', ''.js'', ''.mts'', ''.cts'', ''.mjs'', ''.cjs'']"

definition is_frontend_npm_file_target :: "repository \<Rightarrow> string \<Rightarrow> bool result" where
  "is_frontend_npm_file_target rp path =
     (if \<not> is_frontend_path path then Inr False
      else ebind (artifact_member_context rp path) (\<lambda>member.
        if member \<noteq> None then Inr False
        else case get_file_owner rp path of
          Inl (ValueErr m) \<Rightarrow> Inr False
        | Inl e \<Rightarrow> Inl e
        | Inr w \<Rightarrow> Inr (oi_kind (fo_owner w) = ''component'' \<and> startswith (oi_id (fo_owner w)) ''component:npm:'')))"

datatype gap_code =
    NO_VALIDATION_SURFACE | ARTIFACT_MEMBER_WITHOUT_SURFACE | BUILD_ONLY_FRONTEND | NO_FOCUSED_TEST | ONLY_BROAD_VALIDATION

fun gap_code_value :: "gap_code \<Rightarrow> string" where
  "gap_code_value NO_VALIDATION_SURFACE = ''no_deterministic_validation_surface''"
| "gap_code_value ARTIFACT_MEMBER_WITHOUT_SURFACE = ''artifact_member_without_validation_surface''"
| "gap_code_value BUILD_ONLY_FRONTEND = ''build_only_frontend_surface''"
| "gap_code_value NO_FOCUSED_TEST = ''no_focused_test_surface''"
| "gap_code_value ONLY_BROAD_VALIDATION = ''only_broad_owner_level_validation''"

fun gap_text :: "gap_code \<Rightarrow> string" where
  "gap_text NO_VALIDATION_SURFACE = ''No deterministic validation surface was identified for this target.''"
| "gap_text ARTIFACT_MEMBER_WITHOUT_SURFACE = ''This artifact member has no deterministic validation surface beyond ownership.''"
| "gap_text BUILD_ONLY_FRONTEND = ''Frontend proof currently bottoms out at build-only validation.''"
| "gap_text NO_FOCUSED_TEST = ''No focused deterministic test surface was identified.''"
| "gap_text ONLY_BROAD_VALIDATION = ''Only broader owner-level validation surfaces were found for this file target.''"

fun gap_weight :: "gap_code \<Rightarrow> nat" where
  "gap_weight NO_VALIDATION_SURFACE = 5"
| "gap_weight ARTIFACT_MEMBER_WITHOUT_SURFACE = 4"
| "gap_weight BUILD_ONLY_FRONTEND = 3"
| "gap_weight NO_FOCUSED_TEST = 2"
| "gap_weight ONLY_BROAD_VALIDATION = 1"

definition proof_gap_priority :: "gap_code list \<Rightarrow> nat" where
  "proof_gap_priority gaps = sum_list (map gap_weight gaps)"

definition proof_gap_summary :: "string \<Rightarrow> compact_item list \<Rightarrow> gap_code list \<Rightarrow> string list" where
  "proof_gap_summary path surfaces gaps =
     take 3 ([if surfaces \<noteq> [] then str_nat (length surfaces) @ '' deterministic validation surfaces were found for '' @ quoted path @ ''.''
              else ''No deterministic validation surfaces were found for '' @ quoted path @ ''.'',
              if gaps \<noteq> [] then ''Highest proof gap: '' @ gap_text (hd gaps)
              else ''No deterministic proof gaps were detected from current repository evidence.''] @
             (if 1 < length gaps then [str_nat (length gaps) @ '' distinct proof-gap codes were identified.''] else []))"

record gap_target =
  gt_path :: string
  gt_owner :: owned_node_info
  gt_primary_component :: "component option"
  gt_surfaces :: "compact_item list"
  gt_build_only :: bool
  gt_has_focused_test :: bool
  gt_has_runner :: bool
  gt_gaps :: "gap_code list"
  gt_nearest :: "compact_item list"
  gt_summary :: "string list"

definition build_only :: "compact_item list \<Rightarrow> bool" where
  "build_only surfaces \<longleftrightarrow> surfaces \<noteq> [] \<and> list_all (\<lambda>i. ci_item_kind i = MI_BUILD_TARGET) surfaces"

definition gaps_of :: "change_set_view \<Rightarrow> bool \<Rightarrow> bool \<Rightarrow> gap_code list" where
  "gaps_of v artifact_member frontend =
     (let surfaces = sm_required (vw_compact_summary v) in
      dedupe_views id
        ((if surfaces = [] then [NO_VALIDATION_SURFACE] else []) @
         (if artifact_member \<and> surfaces = [] then [ARTIFACT_MEMBER_WITHOUT_SURFACE] else []) @
         (if build_only surfaces \<and> frontend then [BUILD_ONLY_FRONTEND] else []) @
         (if vw_tests v = [] then [NO_FOCUSED_TEST] else []) @
         (if \<exists>x\<in>set (vw_excluded_items v). ex_reason_code x = NO_NARROWER_DIRECT_VALIDATION_SURFACE_FOR_FILE_TARGET
          then [ONLY_BROAD_VALIDATION] else [])))"

definition proof_gap_target :: "agent_env \<Rightarrow> repository \<Rightarrow> string \<Rightarrow> gap_target mcp_result" where
  "proof_gap_target ae rp path =
     ebind (minimum_verified_target ae ''what_is_not_proven'' rp path) (\<lambda>(p, v).
     ebind (unguarded (artifact_member_context rp path)) (\<lambda>member.
     let surfaces = sm_required (vw_compact_summary v) in
     ebind (if build_only surfaces then unguarded (is_frontend_npm_file_target rp path) else Inr False) (\<lambda>frontend.
     let gaps = gaps_of v (member \<noteq> None) frontend in
       Inr \<lparr>gt_path = path, gt_owner = vw_owner v, gt_primary_component = vw_primary_component v, gt_surfaces = surfaces,
            gt_build_only = build_only surfaces, gt_has_focused_test = vw_tests v \<noteq> [], gt_has_runner = vw_runner_actions v \<noteq> [],
            gt_gaps = gaps, gt_nearest = take 3 surfaces, gt_summary = proof_gap_summary path surfaces gaps\<rparr>)))"

record batch_gaps =
  bg_target_count :: nat
  bg_targets :: "gap_target list"
  bg_highest_priority :: "string list"
  bg_shared_gap_codes :: "string list"
  bg_nearby_surfaces :: "compact_item list"

definition gap_rank :: "gap_target \<Rightarrow> int \<times> string" where
  "gap_rank t = (- int (proof_gap_priority (gt_gaps t)), gt_path t)"

definition batch_of_gaps :: "gap_target list \<Rightarrow> batch_gaps" where
  "batch_of_gaps targets =
     (let open_ones = filter (\<lambda>t. gt_gaps t \<noteq> []) targets in
      \<lparr>bg_target_count = length targets, bg_targets = targets,
       bg_highest_priority = map gt_path (take 3 (sort_key gap_rank open_ones)),
       bg_shared_gap_codes =
         (case open_ones of [] \<Rightarrow> []
          | t # ts \<Rightarrow> sorted_set (map gap_code_value (filter (\<lambda>g. list_all (\<lambda>u. g \<in> set (gt_gaps u)) ts) (gt_gaps t)))),
       bg_nearby_surfaces = dedupe_views item_key (concat (map gt_nearest targets))\<rparr>)"

definition what_is_not_proven :: "agent_env \<Rightarrow> string \<Rightarrow> string list \<Rightarrow> read_only \<Rightarrow> batch_gaps mcp_result \<times> read_only" where
  "what_is_not_proven ae repository_path paths ro =
     (case prevalidate_targets (ae_moment ae) (ae_files ae) ''what_is_not_proven'' ''repository_rel_paths'' repository_path paths of
        Inl e \<Rightarrow> (Inl e, ro)
      | Inr normalized \<Rightarrow> with_read_only (ae_moment ae) repository_path (\<lambda>rp.
          ebind (mapE (proof_gap_target ae rp) normalized) (\<lambda>targets. Inr (batch_of_gaps targets))) ro)"

section \<open>Whether an action is available\<close>

datatype requested_kind = RK_TEST | RK_BUILD | RK_RUNNER | RK_QUALITY_VALIDATION | RK_QUALITY_HYGIENE

fun requested_kind_value :: "requested_kind \<Rightarrow> string" where
  "requested_kind_value RK_TEST = ''test''"
| "requested_kind_value RK_BUILD = ''build''"
| "requested_kind_value RK_RUNNER = ''runner''"
| "requested_kind_value RK_QUALITY_VALIDATION = ''quality_validation''"
| "requested_kind_value RK_QUALITY_HYGIENE = ''quality_hygiene''"

definition parse_requested_kind :: "string \<Rightarrow> requested_kind mcp_result" where
  "parse_requested_kind requested =
     of_option (McpValidation ''requested_action_kind must be one of: build, quality_hygiene, quality_validation, runner, test'')
       (find (\<lambda>k. requested_kind_value k = lower (strip requested)) [RK_TEST, RK_BUILD, RK_RUNNER, RK_QUALITY_VALIDATION, RK_QUALITY_HYGIENE])"

text \<open>In the order of their values.\<close>

definition available_kinds :: "change_set_view \<Rightarrow> requested_kind list" where
  "available_kinds v =
     (if vw_build_targets v \<noteq> [] then [RK_BUILD] else []) @ (if vw_hygiene v \<noteq> [] then [RK_QUALITY_HYGIENE] else []) @
     (if vw_validation v \<noteq> [] then [RK_QUALITY_VALIDATION] else []) @ (if vw_runner_actions v \<noteq> [] then [RK_RUNNER] else []) @
     (if vw_tests v \<noteq> [] then [RK_TEST] else [])"

datatype availability_reason = AR_AVAILABLE | AR_ACTIONS_TRUTH_UNAVAILABLE | AR_NOT_IN_MINIMUM_SET | AR_NO_ACTIONS

record action_availability =
  aa_requested :: requested_kind
  aa_supported :: bool
  aa_reason :: availability_reason
  aa_available :: "requested_kind list"
  aa_owner :: owned_node_info
  aa_change_set :: "change_set_view option"
  aa_coverage :: truth_summary
  aa_provenance :: provenance

definition actions_available :: "truth_summary \<Rightarrow> bool" where
  "actions_available ts \<longleftrightarrow>
     (case find (\<lambda>d. dc_domain d = TD_ACTIONS) (ts_domains ts) of None \<Rightarrow> False | Some d \<Rightarrow> dc_availability d = TA_AVAILABLE)"

text \<open>The change set is missing only when there is no validation surface at all. The views of coverage and owner are the core's values.\<close>

definition availability_of :: "requested_kind \<Rightarrow> truth_summary \<Rightarrow> owned_node_info \<Rightarrow> change_set_view option \<Rightarrow> action_availability" where
  "availability_of requested coverage owner found =
     (let kinds = (case found of None \<Rightarrow> [] | Some v \<Rightarrow> available_kinds v); supported = requested \<in> set kinds in
      \<lparr>aa_requested = requested, aa_supported = supported,
       aa_reason = (if supported then AR_AVAILABLE else if \<not> actions_available coverage then AR_ACTIONS_TRUTH_UNAVAILABLE
         else if kinds \<noteq> [] then AR_NOT_IN_MINIMUM_SET else AR_NO_ACTIONS),
       aa_available = kinds, aa_owner = owner, aa_change_set = found, aa_coverage = coverage,
       aa_provenance = dedupe_views id (ts_provenance coverage @ (case found of None \<Rightarrow> [] | Some v \<Rightarrow> vw_provenance v))\<rparr>)"

definition no_surfaces_text :: string where
  "no_surfaces_text = ''no deterministic validation surfaces were found''"

text \<open>Only the change set raises an error with this text; the steps before it do not.\<close>

definition availability_facts ::
  "agent_env \<Rightarrow> repository \<Rightarrow> string \<Rightarrow> (truth_summary \<times> owned_node_info \<times> change_set_view option) result" where
  "availability_facts ae rp path =
     ebind (mk_change_target (target_of_file path)) (\<lambda>target.
     ebind (analyze_change (ae_code ae (rp_root rp)) rp target 50 50 25 25 True True SEMANTIC) (\<lambda>impact.
     ebind (get_file_owner rp path) (\<lambda>w.
     case get_minimum_verified_change_set (context_owner (ae_code ae (rp_root rp)) rp) rp target of
       Inr c \<Rightarrow> Inr (xi_truth_coverage impact, fo_owner w, Some (view_change_set c))
     | Inl (ValueErr m) \<Rightarrow>
         if contains no_surfaces_text m then Inr (xi_truth_coverage impact, fo_owner w, None) else Inl (ValueErr m)
     | Inl e \<Rightarrow> Inl e)))"

definition can_i_do_this :: "agent_env \<Rightarrow> string \<Rightarrow> string \<Rightarrow> string \<Rightarrow> read_only \<Rightarrow> action_availability mcp_result \<times> read_only" where
  "can_i_do_this ae repository_path path requested ro =
     (case ebind (parse_requested_kind requested) (\<lambda>k.
         ebind (prevalidate_targets (ae_moment ae) (ae_files ae) ''can_i_do_this'' ''repository_rel_path'' repository_path [path])
           (\<lambda>ps. Inr (k, hd ps))) of
        Inl e \<Rightarrow> (Inl e, ro)
      | Inr (k, p) \<Rightarrow> with_read_only (ae_moment ae) repository_path (\<lambda>rp.
          ebind (guarded (\<lambda>m. McpValidation (explain_file_target_error (ae_files ae) (rp_root rp) p m ''can_i_do_this'')) (availability_facts ae rp p))
            (\<lambda>(coverage, owner, found). Inr (availability_of k coverage owner found))) ro)"

section \<open>A batch of targets\<close>

text \<open>What became of the work on one target when the time for the batch was over.\<close>

datatype 'a future = Finished 'a | Failed string | Unfinished

record incomplete =
  ic_path :: string
  ic_reason_code :: string
  ic_message :: string

definition incomplete_target :: "string \<Rightarrow> string \<Rightarrow> string \<times> 'a future \<Rightarrow> incomplete option" where
  "incomplete_target tool_name detail_level pf =
     (case pf of
        (p, Finished x) \<Rightarrow> None
      | (p, Failed m) \<Rightarrow> Some \<lparr>ic_path = p, ic_reason_code = ''analysis_failed'', ic_message = tool_name @ '' failed for '' @ quoted p @ '': '' @ m\<rparr>
      | (p, Unfinished) \<Rightarrow> Some \<lparr>ic_path = p, ic_reason_code = ''analysis_timeout'',
          ic_message = tool_name @ '' exceeded the grouped '' @ detail_level @ '' per-target timeout of 120s for '' @ quoted p\<rparr>)"

definition collect_batch_results ::
  "bool \<Rightarrow> string \<Rightarrow> string \<Rightarrow> (string \<Rightarrow> 'e + 'a) \<Rightarrow> (string \<Rightarrow> 'a future) \<Rightarrow> string list \<Rightarrow> 'e + ('a list \<times> incomplete list)" where
  "collect_batch_results allow_parallel tool_name detail_level build_one future paths =
     (if \<not> allow_parallel then ebind (mapE build_one paths) (\<lambda>xs. Inr (xs, []))
      else Inr (List.map_filter (\<lambda>p. case future p of Finished x \<Rightarrow> Some x | f \<Rightarrow> None) paths,
                List.map_filter (\<lambda>p. incomplete_target tool_name detail_level (p, future p)) paths))"

definition validate_detail_level :: "string \<Rightarrow> string mcp_result" where
  "validate_detail_level detail_level =
     (let n = lower (strip detail_level) in
      if n \<in> {''compact'', ''standard'', ''full''} then Inr n
      else Inl (McpValidation ''detail_level must be one of: compact, standard, full''))"

definition validate_detail_scope :: "string \<Rightarrow> string \<Rightarrow> nat \<Rightarrow> unit mcp_result" where
  "validate_detail_scope tool_name detail_level target_count =
     (if detail_level = ''standard'' \<and> 3 < target_count
      then Inl (McpValidation (tool_name @ '' detail_level=standard supports at most 3 targets. '' @
        ''Narrow the request or use detail_level=compact for broader change-set orientation.''))
      else if detail_level = ''full'' \<and> 1 < target_count
      then Inl (McpValidation (tool_name @ '' detail_level=full supports exactly 1 target at a time. '' @
        ''Narrow the request to one file or use detail_level=compact/standard first.''))
      else Inr ())"

definition detail_preview_limit :: "string \<Rightarrow> int \<Rightarrow> int" where
  "detail_preview_limit detail_level requested =
     (if detail_level = ''compact'' then min requested 3 else if detail_level = ''standard'' then min requested 10 else requested)"

definition code_evidence_tier :: "string \<Rightarrow> nat \<Rightarrow> evidence_tier" where
  "code_evidence_tier detail_level target_count = (if detail_level = ''compact'' \<and> 1 < target_count then STRUCTURAL else SEMANTIC)"

definition should_parallelize_batch :: "string \<Rightarrow> nat \<Rightarrow> bool" where
  "should_parallelize_batch detail_level target_count \<longleftrightarrow> detail_level = ''compact'' \<and> 1 < target_count"

section \<open>Retries while a server warms up\<close>

text \<open>What one attempt gives; \<open>NotReadyYet\<close> carries \<open>retry_after_seconds\<close> of the error.\<close>

datatype 'a attempt = Answered 'a | NotReadyYet int | OtherError err

definition retry_attempts :: nat where "retry_attempts = 3"

definition sleep_budget :: seconds where "sleep_budget = 30"

definition wall_budget :: seconds where "wall_budget = 45"

text \<open>
  The loop with \<open>left\<close> attempts after this one; \<open>elapsed k\<close> is the time since the start when attempt \<open>k\<close> has failed. The
  result is the last outcome and the pauses that were made.
\<close>

fun retry_loop :: "(nat \<Rightarrow> 'a attempt) \<Rightarrow> (nat \<Rightarrow> seconds) \<Rightarrow> nat \<Rightarrow> nat \<Rightarrow> seconds \<Rightarrow> 'a attempt \<times> seconds list" where
  "retry_loop ask elapsed 0 k slept = (ask k, [])"
| "retry_loop ask elapsed (Suc left) k slept =
     (case ask k of
        NotReadyYet wanted \<Rightarrow>
          let remaining_sleep = max 0 (sleep_budget - slept); remaining_wall = max 0 (wall_budget - elapsed k);
              p = min (min (of_int (max 0 wanted)) remaining_sleep) remaining_wall in
          if remaining_sleep \<le> 0 \<or> remaining_wall \<le> 0 \<or> p \<le> 0 then (NotReadyYet wanted, [])
          else (case retry_loop ask elapsed left (Suc k) (slept + p) of (r, ps) \<Rightarrow> (r, p # ps))
      | outcome \<Rightarrow> (outcome, []))"

datatype 'a retried = RetryAnswer 'a | RetryRaised err | RetryExhausted int nat

text \<open>\<open>RetryExhausted\<close> is \<open>McpRetryableError\<close> with \<open>retry_after_seconds\<close> and \<open>attempted_retries\<close>.\<close>

definition with_semantic_runtime_retries :: "(nat \<Rightarrow> 'a attempt) \<Rightarrow> (nat \<Rightarrow> seconds) \<Rightarrow> 'a retried \<times> seconds list" where
  "with_semantic_runtime_retries ask elapsed =
     (case retry_loop ask elapsed (retry_attempts - 1) 0 0 of
        (Answered x, ps) \<Rightarrow> (RetryAnswer x, ps)
      | (OtherError e, ps) \<Rightarrow> (RetryRaised e, ps)
      | (NotReadyYet r, ps) \<Rightarrow> (RetryExhausted r retry_attempts, ps))"

section \<open>A batch loses no validation\<close>

lemma dedupe_by_subset: "set (dedupe_by key seen xs) \<subseteq> set xs"
  by (induction xs arbitrary: seen) (auto split: if_splits)

lemma dedupe_by_keys: "set (map key (dedupe_by key seen xs)) = set (map key xs) - set seen"
  by (induction xs arbitrary: seen) auto

lemma dedupe_by_distinct: "distinct (map key (dedupe_by key seen xs))"
proof (induction xs arbitrary: seen)
  case (Cons x xs)
  have "key x \<notin> set (map key (dedupe_by key (key x # seen) xs))" unfolding dedupe_by_keys by simp
  then show ?case using Cons by simp
qed simp

lemma dedupe_views_props:
  "set (dedupe_views key xs) \<subseteq> set xs" "set (map key (dedupe_views key xs)) = set (map key xs)" "distinct (map key (dedupe_views key xs))"
  unfolding dedupe_views_def using dedupe_by_subset [of key "[]" xs] dedupe_by_keys [of key "[]" xs] dedupe_by_distinct [of key "[]" xs] by auto

lemma dedupe_views_id: "set (dedupe_views id xs) = set xs" "distinct (dedupe_views id xs)"
  using dedupe_views_props(2,3) [of id xs] by simp_all

lemma dedupe_views_represents: "x \<in> set xs \<Longrightarrow> \<exists>y\<in>set (dedupe_views key xs). key y = key x"
  using dedupe_views_props(2) [of key xs] by (metis (no_types, lifting) image_iff image_eqI list.set_map)

lemma all_of_set: "x \<in> set (all_of part targets) \<longleftrightarrow> (\<exists>(p, v)\<in>set targets. x \<in> set (part v))"
  by (force simp: all_of_def)

lemma all_of_member: "(p, v) \<in> set targets \<Longrightarrow> x \<in> set (part v) \<Longrightarrow> x \<in> set (all_of part targets)"
  by (auto simp: all_of_set)

text \<open>A test of a target that the batch does not name is explained: builds of the batch replace it.\<close>

definition explained_by_builds :: "batch_change_set \<Rightarrow> string \<Rightarrow> bool" where
  "explained_by_builds b i \<longleftrightarrow>
     (\<exists>x\<in>set (bw_excluded_items b). ex_item_id x = i \<and> ex_reason_code x = DEPENDENT_TEST_REPLACED_BY_NARROWER_BUILD \<and>
        ex_replaced_by_ids x \<noteq> [] \<and> set (ex_replaced_by_ids x) \<subseteq> set (map av_action_id (bw_build_targets b)))"

lemma replaced_is_explained:
  assumes "b = batch_of_targets targets"
    and "i \<in> set (replaced_tests (bw_build_targets b) (dedupe_views (\<lambda>x. (ex_item_kind x, ex_item_id x, ex_reason_code x)) (all_of vw_excluded_items targets)))"
  shows "explained_by_builds b i"
  using assms by (auto simp: explained_by_builds_def batch_of_targets_def Let_def replaced_tests_def filter_batch_exclusions_def batch_reason_codes_def)


section \<open>Proof gaps\<close>

lemma compact_item_kinds [simp]:
  "ci_item_kind (compact_test_item t) = MI_TEST_TARGET" "ci_item_kind (compact_build_item b) = MI_BUILD_TARGET"
  "ci_item_kind (compact_runner_item b) = MI_RUNNER_ACTION" "ci_item_kind (compact_quality_item q) = MI_QUALITY_OPERATION"
  by (simp_all add: compact_test_item_def compact_build_item_def compact_runner_item_def compact_quality_item_def Let_def)

lemma list_all_False: "list_all (\<lambda>x. False) xs \<longleftrightarrow> xs = []"
  by (cases xs) simp_all

text \<open>
  C40. The gaps of a file say exactly what its change set lacks: each code stands for one lack, none is repeated, a file without
  any validation is also without a focused test and never called build-only, and no gap means that a test of the file is run.
\<close>

theorem proof_gaps_exact:
  fixes v :: change_set_view and member frontend :: bool
  defines "gaps \<equiv> gaps_of v member frontend"
  assumes "vw_compact_summary v = compact_summary_view (vw_tests v) (vw_build_targets v) (vw_runner_actions v) (vw_validation v) (vw_hygiene v) (vw_excluded_items v)"
  shows "distinct gaps \<and>
    (NO_VALIDATION_SURFACE \<in> set gaps \<longleftrightarrow>
       vw_tests v = [] \<and> vw_build_targets v = [] \<and> vw_runner_actions v = [] \<and> filter (emphasized (vw_build_targets v)) (vw_validation v) = []) \<and>
    (ARTIFACT_MEMBER_WITHOUT_SURFACE \<in> set gaps \<longleftrightarrow> member \<and> NO_VALIDATION_SURFACE \<in> set gaps) \<and>
    (BUILD_ONLY_FRONTEND \<in> set gaps \<longleftrightarrow>
       frontend \<and> vw_build_targets v \<noteq> [] \<and> vw_tests v = [] \<and> vw_runner_actions v = [] \<and>
       filter (emphasized (vw_build_targets v)) (vw_validation v) = []) \<and>
    (NO_FOCUSED_TEST \<in> set gaps \<longleftrightarrow> vw_tests v = []) \<and>
    (ONLY_BROAD_VALIDATION \<in> set gaps \<longleftrightarrow>
       (\<exists>x\<in>set (vw_excluded_items v). ex_reason_code x = NO_NARROWER_DIRECT_VALIDATION_SURFACE_FOR_FILE_TARGET)) \<and>
    (NO_VALIDATION_SURFACE \<in> set gaps \<longrightarrow> NO_FOCUSED_TEST \<in> set gaps \<and> BUILD_ONLY_FRONTEND \<notin> set gaps) \<and>
    (gaps = [] \<longrightarrow> vw_tests v \<noteq> [])"
proof -
  define lints where "lints = filter (emphasized (vw_build_targets v)) (vw_validation v)"
  have surfaces: "sm_required (vw_compact_summary v) = map compact_test_item (vw_tests v) @ map compact_build_item (vw_build_targets v) @
      map compact_runner_item (vw_runner_actions v) @ map compact_quality_item lints"
    by (simp add: assms(2) compact_summary_view_def Let_def lints_def)
  have only: "build_only (sm_required (vw_compact_summary v)) \<longleftrightarrow>
      vw_build_targets v \<noteq> [] \<and> vw_tests v = [] \<and> vw_runner_actions v = [] \<and> lints = []"
    by (auto simp: surfaces build_only_def list.pred_map comp_def list_all_False list.pred_True)
  have set: "set gaps = set
        ((if sm_required (vw_compact_summary v) = [] then [NO_VALIDATION_SURFACE] else []) @
         (if member \<and> sm_required (vw_compact_summary v) = [] then [ARTIFACT_MEMBER_WITHOUT_SURFACE] else []) @
         (if build_only (sm_required (vw_compact_summary v)) \<and> frontend then [BUILD_ONLY_FRONTEND] else []) @
         (if vw_tests v = [] then [NO_FOCUSED_TEST] else []) @
         (if \<exists>x\<in>set (vw_excluded_items v). ex_reason_code x = NO_NARROWER_DIRECT_VALIDATION_SURFACE_FOR_FILE_TARGET
          then [ONLY_BROAD_VALIDATION] else []))"
    unfolding gaps_def gaps_of_def Let_def dedupe_views_id(1) ..
  have dist: "distinct gaps" unfolding gaps_def gaps_of_def Let_def by (rule dedupe_views_id(2))
  have nil: "sm_required (vw_compact_summary v) = [] \<longleftrightarrow> vw_tests v = [] \<and> vw_build_targets v = [] \<and> vw_runner_actions v = [] \<and> lints = []"
    by (simp add: surfaces)
  have empty: "gaps = [] \<longrightarrow> vw_tests v \<noteq> []" using set by (cases "vw_tests v") auto
  show ?thesis using dist empty unfolding set only nil lints_def [symmetric] by auto
qed

section \<open>Concrete files\<close>

definition unit_command :: command_summary where
  "unit_command = command_summary_view [''pytest'', ''tests/test_a.py''] None"

definition sample_test_view :: test_view where
  "sample_test_view =
     \<lparr>in_reason = ''related'', in_confidence_mode = AUTHORITATIVE, in_proof_edges = [], in_provenance = [],
      tv_test_id = ''test:a'', tv_name = ''a'', tv_framework = TF_PYTEST, tv_test_file_count = 1, tv_test_files_preview = [''tests/test_a.py''],
      tv_command = unit_command, tv_is_authoritative = True, tv_warning = None\<rparr>"

definition sample_build :: action_view where
  "sample_build =
     \<lparr>in_reason = ''owner'', in_confidence_mode = AUTHORITATIVE, in_proof_edges = [], in_provenance = [],
      av_action_id = ''build:b'', av_name = ''b'', av_provider_id = ''npm'', av_target_id = ''component:npm:b'', av_target_kind = AT_COMPONENT,
      av_owner_ids = [], av_proof_facets = [], av_invocation = command_summary_view [''npm'', ''run'', ''build''] None, av_dry_run_supported = False\<rparr>"

definition sample_view :: "test_view list \<Rightarrow> action_view list \<Rightarrow> excluded_item list \<Rightarrow> change_set_view" where
  "sample_view tests builds excluded =
     \<lparr>vw_compact_summary = compact_summary_view tests builds [] [] [] excluded, vw_target_kind = ''file'',
      vw_owner = \<lparr>oi_id = ''component:npm:b'', oi_kind = ''component'', oi_name = ''b''\<rparr>, vw_primary_component = None,
      vw_tests = tests, vw_build_targets = builds, vw_runner_actions = [], vw_validation = [], vw_hygiene = [],
      vw_excluded_items = excluded, vw_provenance = []\<rparr>"

definition sample_exclusion :: excluded_item where
  "sample_exclusion =
     \<lparr>ex_item_kind = MI_TEST_TARGET, ex_item_id = ''test:a'', ex_reason_code = DEPENDENT_TEST_REPLACED_BY_NARROWER_BUILD,
      ex_reason = ''replaced'', ex_replaced_by_ids = [''build:b''], ex_provenance = []\<rparr>"

definition sample_targets :: "batch_target list" where
  "sample_targets = [(''a.py'', sample_view [sample_test_view] [] []), (''b.ts'', sample_view [] [sample_build] [sample_exclusion])]"

lemma sample_ids: "tv_test_id sample_test_view = ''test:a''" "av_action_id sample_build = ''build:b''"
  by (simp_all add: sample_test_view_def sample_build_def)

lemma sample_replaced: "replaced_tests [sample_build] [sample_exclusion] = [''test:a'']"
  by (simp add: replaced_tests_def sample_exclusion_def sample_build_def)

lemma sample_batch:
  "bw_tests (batch_of_targets sample_targets) = []" "bw_build_targets (batch_of_targets sample_targets) = [sample_build]"
  by (simp_all add: batch_of_targets_def Let_def all_of_def sample_targets_def sample_view_def dedupe_views_def narrow_batch_tests_def
      sample_replaced sample_ids)


text \<open>
  The compact summary of a batch still requires such a test, since it was reserved for its file, although the batch excludes
  it; the count beside the list leaves it out.
\<close>

theorem narrowed_test_stays_required:
  "bw_tests (batch_of_targets sample_targets) = [] \<and>
   map item_key (sm_required (bw_compact_summary (batch_of_targets sample_targets))) = [(MI_TEST_TARGET, ''test:a''), (MI_BUILD_TARGET, ''build:b'')] \<and>
   sm_required_count (bw_compact_summary (batch_of_targets sample_targets)) = 1"
  by (simp add: sample_batch)
    (simp add: batch_of_targets_def Let_def all_of_def sample_targets_def sample_view_def dedupe_views_def narrow_batch_tests_def
      sample_replaced sample_ids batch_compact_summary_def compact_summary_view_def item_key_def
      compact_test_item_def compact_build_item_def)

lemma proof_gaps_exact_witness:
  "NO_FOCUSED_TEST \<in> set (gaps_of (sample_view [] [sample_build] []) False True) \<and>
   BUILD_ONLY_FRONTEND \<in> set (gaps_of (sample_view [] [sample_build] []) False True) \<and>
   NO_VALIDATION_SURFACE \<notin> set (gaps_of (sample_view [] [sample_build] []) False True)"
  using proof_gaps_exact [of "sample_view [] [sample_build] []" False True] by (simp add: sample_view_def)

section \<open>Retries are bounded\<close>

lemma retry_loop_spec:
  assumes "retry_loop ask elapsed left k slept = (r, ps)" and "0 \<le> slept" and "slept \<le> sleep_budget"
  shows "r = ask (k + length ps) \<and> length ps \<le> left \<and> list_all (\<lambda>p. 0 < p) ps \<and> slept + sum_list ps \<le> sleep_budget \<and>
    list_all (\<lambda>i. \<exists>n. ask i = NotReadyYet n) [k..<k + length ps]"
  using assms
proof (induction left arbitrary: k slept ps)
  case (Suc left)
  show ?case
  proof (cases "ask k")
    case (NotReadyYet wanted)
    define p where "p = min (min (of_int (max 0 wanted)) (max 0 (sleep_budget - slept))) (max 0 (wall_budget - elapsed k))"
    have loop: "(if max 0 (sleep_budget - slept) \<le> 0 \<or> max 0 (wall_budget - elapsed k) \<le> 0 \<or> p \<le> 0 then (NotReadyYet wanted, [])
        else case retry_loop ask elapsed left (Suc k) (slept + p) of (r, ps) \<Rightarrow> (r, p # ps)) = (r, ps)"
      using Suc.prems(1) unfolding p_def retry_loop.simps NotReadyYet attempt.case Let_def .
    show ?thesis
    proof (cases "max 0 (sleep_budget - slept) \<le> 0 \<or> max 0 (wall_budget - elapsed k) \<le> 0 \<or> p \<le> 0")
      case True
      have "r = NotReadyYet wanted" "ps = []" using loop unfolding if_P [OF True] by simp_all
      then show ?thesis using NotReadyYet Suc.prems by simp
    next
      case False
      then have p: "0 < p" "slept + p \<le> sleep_budget" unfolding p_def by linarith+
      obtain qs where q: "retry_loop ask elapsed left (Suc k) (slept + p) = (r, qs)" "ps = p # qs"
        using loop unfolding if_not_P [OF False] by (auto split: prod.splits)
      show ?thesis using Suc.IH [OF q(1)] p Suc.prems(2) NotReadyYet q(2)
        by (simp add: add.assoc upt_conv_Cons del: upt_Suc)
    qed
  qed (use Suc.prems in simp_all)
qed simp

text \<open>
  A tool asks a server that is warming up at most three times and never pauses longer than the budget; every attempt but the
  last was refused as not ready, and what the tool returns is what the last attempt gave.
\<close>

theorem retries_are_bounded:
  "case with_semantic_runtime_retries ask elapsed of (r, ps) \<Rightarrow>
     length ps \<le> 2 \<and> sum_list ps \<le> sleep_budget \<and> list_all (\<lambda>p. 0 < p) ps \<and>
     list_all (\<lambda>i. \<exists>n. ask i = NotReadyYet n) [0..<length ps] \<and>
     (case r of RetryAnswer x \<Rightarrow> ask (length ps) = Answered x | RetryRaised e \<Rightarrow> ask (length ps) = OtherError e
      | RetryExhausted n k \<Rightarrow> ask (length ps) = NotReadyYet n \<and> k = 3)"
proof -
  obtain r ps where l: "retry_loop ask elapsed (retry_attempts - 1) 0 0 = (r, ps)" by fastforce
  show ?thesis using retry_loop_spec [OF l] l
    by (simp add: with_semantic_runtime_retries_def retry_attempts_def sleep_budget_def split: attempt.splits)
qed

text \<open>The error counts three attempts also when the loop gives up after the first one, because the server asks for no pause.\<close>

theorem attempts_are_overstated:
  "with_semantic_runtime_retries (\<lambda>k. NotReadyYet 0) (\<lambda>k. 0) = (RetryExhausted 0 3 :: nat retried, [])"
  by (simp add: with_semantic_runtime_retries_def retry_attempts_def sleep_budget_def wall_budget_def numeral_2_eq_2)

section \<open>A parallel batch\<close>

text \<open>Every target of a parallel batch is answered or reported as incomplete with its reason, and never both.\<close>

theorem batch_partitions_targets:
  "\<exists>answered incomplete. collect_batch_results True tool level build_one future paths = Inr (answered, incomplete) \<and>
     length answered + length incomplete = length paths \<and>
     map Finished answered = filter (\<lambda>f. case f of Finished x \<Rightarrow> True | g \<Rightarrow> False) (map future paths) \<and>
     map ic_path incomplete = filter (\<lambda>p. case future p of Finished x \<Rightarrow> False | g \<Rightarrow> True) paths"
proof -
  have "length (List.map_filter (\<lambda>p. case future p of Finished x \<Rightarrow> Some x | f \<Rightarrow> None) paths) +
      length (List.map_filter (\<lambda>p. incomplete_target tool level (p, future p)) paths) = length paths \<and>
      map Finished (List.map_filter (\<lambda>p. case future p of Finished x \<Rightarrow> Some x | f \<Rightarrow> None) paths) =
        filter (\<lambda>f. case f of Finished x \<Rightarrow> True | g \<Rightarrow> False) (map future paths) \<and>
      map ic_path (List.map_filter (\<lambda>p. incomplete_target tool level (p, future p)) paths) =
        filter (\<lambda>p. case future p of Finished x \<Rightarrow> False | g \<Rightarrow> True) paths"
    by (induction paths) (auto simp: List.map_filter_simps incomplete_target_def split: future.splits)
  then show ?thesis by (simp add: collect_batch_results_def)
qed

end
