(* ===== verification/Spec2Isabelle.thy ===== *)
theory Spec2Isabelle
  imports Paths Provenance Graph_Refresh Change_Set Coordinator Code_References Truth_Coverage Change_Evidence References_Service Contexts Symbol_Lookup Change_Impact Workspace_Registry Lsp_Backend Implementation_Flow Document_Providers Runtime_Client Endpoint_Lifecycle Readonly_Registry Mcp_Tools Agent_Tools
begin

text \<open>
  Code Suit answers questions of a coding agent about a repository: which components own a file, who
  depends on them, which tests and builds check a change, what the code providers can really do, and
  how much of all that is known rather than guessed. Paths below are relative to \<open>src/src/suitcode\<close>.

  \<^bold>\<open>The parts.\<close> A workspace (\<open>core/workspace.py\<close>) holds repositories and one graph store. A repository
  (\<open>core/repository.py\<close>) holds providers, each with a set of roles, and services that combine their
  answers: architecture, ownership, tests, actions, builds, runners, quality, code. The services built on
  the others are: contexts of a component, file or symbol; the impact of a change, with the evidence for
  each part of it; symbol lookup; the minimum verified change set, which picks the tests, builds, runners
  and quality operations that check a change; and truth coverage, which counts how much of each domain is
  authoritative, derived, heuristic or unavailable. The MCP server (\<open>mcp\<close>) keeps a registry of open
  workspaces and answers its tools from them. The graph (\<open>core/models\<close>) keeps nodes, edges and
  evidence in SQLite; a provider refreshes its scope in one transaction and queries are bounded
  breadth-first searches. A coordinator process (\<open>runtime/coordinator.py\<close>) keeps language servers
  warm for all clients; a client (\<open>runtime/client.py\<close>) finds it, starts one if there is none, and waits for a
  server. Language servers are spoken to over a pipe (\<open>providers/shared/lsp\<close>), either through a server started for
  one call or through the coordinator (\<open>providers/shared/lsp_code\<close>). Two providers read documents, markdown and
  OpenAPI. Everything the services hand out carries provenance.

  \<^bold>\<open>The theories\<close>, each after the ones it uses; every definition keeps the name of the function or class it
  translates, methods without their class, records with a two-letter prefix on their fields.

  \<^item> \<open>Prelude\<close>: errors as values (\<open>err\<close>, \<open>ebind\<close>, \<open>check\<close>, \<open>mapE\<close>, \<open>foldE\<close>), state passing (\<open>sbind\<close>),
    Python strings, association lists in the order of Python dictionaries, sorting.
  \<^item> \<open>Paths\<close>: \<open>core/models/ids.py\<close>, and the paths of \<open>core/repository.py\<close> below a root.
  \<^item> \<open>Provenance\<close>: \<open>core/provenance.py\<close>, \<open>provenance_builders.py\<close>, \<open>provenance_summary.py\<close>, \<open>tests/provenance.py\<close>.
  \<^item> \<open>Graph_Model\<close>, \<open>Graph_Store\<close>, \<open>Graph_Query\<close>, \<open>Graph_Refresh\<close>: \<open>core/models\<close>. Tables are keyed
    association lists; the store's state is the committed and the working tables, whether it is
    connected and whether a transaction is open.
  \<^item> \<open>Repository_Model\<close>: tests, dependencies, relationships and owners as data. \<open>Providers\<close>: actions, the
    provider table and what providers answer, architecture and test intelligence.
  \<^item> \<open>Ownership\<close>: \<open>core/ownership_index.py\<close>, \<open>component_context_resolver.py\<close>. \<open>Routing\<close>: questions about a
    file or owner, related tests, test runs, repository ids. \<open>Builds\<close>: builds, runners and the action
    execution under them.
  \<^item> \<open>Change_Set_Models\<close>, \<open>Change_Set_Service\<close>, \<open>Minimization\<close>, \<open>Change_Set\<close>: the minimum verified change
    set: data, candidates and minimizer, what the minimizer promises, assembly.
  \<^item> \<open>Lsp_Session\<close>, \<open>Lsp_Probe\<close>, \<open>Coordinator\<close>: \<open>runtime/coordinator.py\<close>, \<open>models.py\<close>, \<open>errors.py\<close>.
  \<^item> \<open>Code_Models\<close>, \<open>Code_Intelligence\<close>, \<open>Code_References\<close>, \<open>Code_Capabilities\<close>: \<open>core/code\<close>.
  \<^item> \<open>Truth_Coverage\<close>: \<open>core/truth_coverage_models.py\<close>, \<open>truth_coverage_service.py\<close>.
  \<^item> \<open>References_Service\<close>: \<open>core/code_reference_service.py\<close>. \<open>Contexts\<close>: \<open>core/file_semantic_facts.py\<close>,
    \<open>context_service.py\<close>. \<open>Symbol_Lookup\<close>: \<open>core/symbol_lookup_service.py\<close>.
  \<^item> \<open>Change_Evidence\<close>: \<open>core/change_evidence.py\<close>. \<open>Change_Impact\<close>: \<open>core/impact_target_resolution.py\<close>,
    \<open>change_impact_service.py\<close>, the record of \<open>change_models.py\<close>.
  \<^item> \<open>Provider_Registry\<close>: \<open>providers/registry.py\<close> and \<open>Repository.root_candidate\<close>. \<open>Workspace_Registry\<close>:
    \<open>core/workspace.py\<close>, the registry of \<open>mcp/state.py\<close>, \<open>mcp/workspace_service.py\<close>.
  \<^item> \<open>Lsp_Protocol\<close>: \<open>providers/shared/lsp/errors.py\<close>, \<open>messages.py\<close>, \<open>protocol.py\<close>, \<open>runtime/lsp_payloads.py\<close>, over JSON
    values. \<open>Lsp_Wire\<close>: framing and the reader of \<open>client.py\<close>. \<open>Lsp_Client\<close>: its requests, documents, start
    and shutdown. \<open>Fnmatch\<close>: the patterns of a query. \<open>Lsp_Backend\<close>: \<open>providers/shared/lsp_code\<close>.
  \<^item> \<open>Implementation_Flow\<close>: \<open>core/implementation_flow_service.py\<close>.
  \<^item> \<open>Markdown_Parser\<close>, \<open>Openapi_Parser\<close>, \<open>Document_Providers\<close>: \<open>core/structured_artifact_models.py\<close>,
    \<open>providers/markdown\<close>, \<open>providers/openapi\<close>. A regular expression is a function over the characters of a line.
  \<^item> \<open>Runtime_Client\<close>: \<open>runtime/client.py\<close>, \<open>discovery.py\<close>, \<open>lockfile.py\<close>. \<open>Endpoint_Lifecycle\<close>:
    \<open>runtime/endpoint.py\<close> with the start and end of a coordinator, as interleaved steps of its processes.
  \<^item> \<open>Readonly_Registry\<close>: the read-only registry of \<open>mcp/state.py\<close>. \<open>Mcp_Tools\<close>: \<open>mcp/pagination.py\<close>,
    \<open>file_target_errors.py\<close> and the tools of \<open>mcp/*_service.py\<close>, each asking the modelled core.
  \<^item> \<open>Change_Set_Views\<close>: the views of change sets in \<open>mcp/presenter_context.py\<close>. \<open>Agent_Tools\<close>: the tools of
    \<open>mcp/service.py\<close> that tell an agent what to run and what is not proven.

  \<^bold>\<open>What is shown.\<close> Graph: a transaction commits all or nothing, a refresh replaces exactly the rows of its
  scope and a failing one changes nothing, a query returns exactly the nodes within its depth and the
  edges it followed, within its limits, as a closed subgraph. Ownership: lookups by path and by owner
  agree, and a file has a primary component exactly when one claims it. Dependents are the converse of
  dependencies. Change sets: every matched test is kept or explained, builds are the narrowest there
  are, replacements name kept builds, a set without tests says why. Coordinator: requests are counted,
  sessions are keyed and isolated, files stay below their attachment, one warm-up at a time, bounded
  retries, recovery after any failure. Code: symbol ids resolve, relationships are merged without loss,
  an available capability has a probe that shows it. Coverage: counts add up to the items given and a
  repository's summary is always produced. Contexts and impacts: every fact read is counted, previews are
  prefixes, provenance names each kind of fact present, the evidence counts and the coverage counts are
  those of the facts, and each dependent shown has its evidence. Lookup: exact matches first. Registry: it
  refines a map from roots to workspaces as long as no two open workspaces have the same name. Language servers:
  the reader recovers exactly the messages sent, however the bytes are cut; a response answers its own request; a
  document opened is closed; every query returns and turns a server's failure into an answer; answers are about files
  of the repository. Flows: a preview shows as many kinds of step as fit. Documents: sections nest, code is opaque,
  exactly the visible files are listed, and exactly which documents are rejected. Client: an answering coordinator is
  neither replaced nor ended, errors survive the wire, a bounded wait returns, and a project has one coordinator as
  long as no process cleans up the socket of another. Tools: the pages of a list make up the core's answer, errors
  arrive translated, and a repository opened for reading is served again only if all it tracks looks the same. Agent tools:
  a batch of files loses no test or build that one of them needs, the gaps of a file are exactly what its change set
  lacks, retries are bounded, and a command line shown in full is the command. Some theorems show defects; the manifest lists them.

  \<^bold>\<open>Interfaces.\<close> \<open>transactional\<close> (begin, commit, rollback) is interpreted on the SQLite store;
  \<open>graph_reader\<close> (get, edges from, edges to) on stored tables; \<open>ownership\<close> (owner lookup, files of an
  owner) on a built index; \<open>merging\<close> (a key, a provenance field, a combination) on the six kinds of
  reference; \<open>session_contract\<close> (closing a session shuts its server) on a server per call and on the
  coordinator; \<open>paged_answer\<close> (pages cut from one answer) on six tools. The client lemmas are proved in the locale and reach the properties by interpretation.

  \<^bold>\<open>Bounds.\<close> No definition uses fuel; loops that may wait forever are partial functions whose value \<open>None\<close> is
  not returning. The search terminates because each visit takes a node from the queue
  or adds one below \<open>max_nodes\<close>; the search for a free repository id because the taken ones are finite.
  Integers are Python's, unbounded. The graph's limits, the retry backoff (at most 60 seconds) and the ten
  symbols probed for a provider are the code's constants.

  \<^bold>\<open>Conventions.\<close> Strings are lists of 8-bit characters, read as Latin-1. A validator reports its first
  failure as the error's message. Seconds are rational. Sets that the code sorts before use are sorted
  lists. Caches are left out: each lookup is computed. Operations that hold a lock are one step; the
  coordinator's steps may interleave in any order.

  \<^bold>\<open>Parameters.\<close> Providers, language servers and what they send, the operating system's processes, the file
  system and the contents of files, \<open>json.loads\<close>, URI decoding, the clock and symbolic links enter as functions or fields; no law is assumed of them except
  where a property states one as a premise.

  \<^bold>\<open>Not modelled.\<close> Sockets and threads of the runtime; construction of services; the language providers, which read
  manifests and run tools; most of the presentation over MCP; usage analytics; the evaluation harness; the installer and scripts.
\<close>

end
